(* ===== verification/Prelude.thy ===== *)
theory Prelude imports Complex_Main "HOL-Library.Sublist" begin

text \<open>
  What every component shares: programs over an explicit state whose result is a value or an
  error, strings as the code's string operations see them, JSON values and HTTP exchanges.

  Strings are char lists holding the UTF-8 bytes of the program's strings, so encoding a string
  is the identity and decoding bytes is the check \<open>utf8_valid\<close>. Case mapping is the ASCII one.
  Times are real numbers of seconds.
\<close>

named_theorems prog_simps \<open>unfolding rules of the program combinators\<close>

section \<open>Programs: state passing with exceptions\<close>

text \<open>
  A program takes the state and returns the state it leaves and either the exception it raises
  (\<open>Inl\<close>) or its result (\<open>Inr\<close>). The state survives an exception, as mutations do in the code.
\<close>

type_synonym ('s, 'e, 'a) prog = "'s \<Rightarrow> ('e + 'a) \<times> 's"

definition ret :: "'a \<Rightarrow> ('s, 'e, 'a) prog" where
  "ret x = (\<lambda>s. (Inr x, s))"

definition throw :: "'e \<Rightarrow> ('s, 'e, 'a) prog" where
  "throw e = (\<lambda>s. (Inl e, s))"

definition andThen :: "('s, 'e, 'a) prog \<Rightarrow> ('a \<Rightarrow> ('s, 'e, 'b) prog) \<Rightarrow> ('s, 'e, 'b) prog" where
  "andThen m f = (\<lambda>s. case m s of (Inl e, s') \<Rightarrow> (Inl e, s') | (Inr x, s') \<Rightarrow> f x s')"

definition catch :: "('s, 'e, 'a) prog \<Rightarrow> ('e \<Rightarrow> ('s, 'e, 'a) prog) \<Rightarrow> ('s, 'e, 'a) prog" where
  "catch m h = (\<lambda>s. case m s of (Inl e, s') \<Rightarrow> h e s' | (Inr x, s') \<Rightarrow> (Inr x, s'))"

text \<open>\<open>try: m finally: f\<close>: an exception of \<open>f\<close> replaces the one of \<open>m\<close>.\<close>

definition finally_do :: "('s, 'e, 'a) prog \<Rightarrow> ('s, 'e, 'b) prog \<Rightarrow> ('s, 'e, 'a) prog" where
  "finally_do m f = (\<lambda>s. case m s of (r, s') \<Rightarrow>
     (case f s' of (Inl e, s'') \<Rightarrow> (Inl e, s'') | (Inr _, s'') \<Rightarrow> (r, s'')))"

definition gets :: "('s \<Rightarrow> 'a) \<Rightarrow> ('s, 'e, 'a) prog" where
  "gets f = (\<lambda>s. (Inr (f s), s))"

definition modify :: "('s \<Rightarrow> 's) \<Rightarrow> ('s, 'e, unit) prog" where
  "modify f = (\<lambda>s. (Inr (), f s))"

definition of_sum :: "'e + 'a \<Rightarrow> ('s, 'e, 'a) prog" where
  "of_sum r = (\<lambda>s. (r, s))"

text \<open>A program that reads the state before it starts.\<close>

definition asks :: "('s \<Rightarrow> ('s, 'e, 'a) prog) \<Rightarrow> ('s, 'e, 'a) prog" where
  "asks f = (\<lambda>s. f s s)"

lemma asks_apply [simp, prog_simps]: "asks f s = f s s"
  by (simp add: asks_def)

lemma ret_apply [simp, prog_simps]: "ret x s = (Inr x, s)"
  by (simp add: ret_def)

lemma throw_apply [simp, prog_simps]: "throw e s = (Inl e, s)"
  by (simp add: throw_def)

lemma gets_apply [simp, prog_simps]: "gets f s = (Inr (f s), s)"
  by (simp add: gets_def)

lemma modify_apply [simp, prog_simps]: "modify f s = (Inr (), f s)"
  by (simp add: modify_def)

lemma of_sum_apply [simp, prog_simps]: "of_sum r s = (r, s)"
  by (simp add: of_sum_def)

lemma andThen_ok [simp, prog_simps]: "m s = (Inr x, s') \<Longrightarrow> andThen m f s = f x s'"
  by (simp add: andThen_def)

lemma andThen_err [simp, prog_simps]: "m s = (Inl e, s') \<Longrightarrow> andThen m f s = (Inl e, s')"
  by (simp add: andThen_def)

lemma catch_ok [simp, prog_simps]: "m s = (Inr x, s') \<Longrightarrow> catch m h s = (Inr x, s')"
  by (simp add: catch_def)

lemma catch_err [simp, prog_simps]: "m s = (Inl e, s') \<Longrightarrow> catch m h s = h e s'"
  by (simp add: catch_def)

lemma andThen_Inr_iff:
  "andThen m f s = (Inr y, t) \<longleftrightarrow> (\<exists>x s'. m s = (Inr x, s') \<and> f x s' = (Inr y, t))"
  by (auto simp: andThen_def split: prod.splits sum.splits)

lemma andThen_Inl_iff:
  "andThen m f s = (Inl e, t) \<longleftrightarrow>
     m s = (Inl e, t) \<or> (\<exists>x s'. m s = (Inr x, s') \<and> f x s' = (Inl e, t))"
  by (auto simp: andThen_def split: prod.splits sum.splits)

text \<open>An invariant of the state that every part keeps is kept by the whole program.\<close>

definition keeps :: "('s \<Rightarrow> bool) \<Rightarrow> ('s, 'e, 'a) prog \<Rightarrow> bool" where
  "keeps I m \<longleftrightarrow> (\<forall>s. I s \<longrightarrow> I (snd (m s)))"

lemma keepsD: "keeps I m \<Longrightarrow> I s \<Longrightarrow> I (snd (m s))"
  by (simp add: keeps_def)

lemma keepsD_eq: "keeps I m \<Longrightarrow> m s = (r, t) \<Longrightarrow> I s \<Longrightarrow> I t"
  by (metis keeps_def snd_conv)

lemma keeps_basic [simp]: "keeps I (ret x)" "keeps I (throw e)" "keeps I (gets g)" "keeps I (of_sum r)"
  by (simp_all add: keeps_def)

lemma keeps_modify: "(\<And>s. I s \<Longrightarrow> I (f s)) \<Longrightarrow> keeps I (modify f)"
  by (simp add: keeps_def)

lemma keeps_andThen: "keeps I m \<Longrightarrow> (\<And>x. keeps I (f x)) \<Longrightarrow> keeps I (andThen m f)"
  by (fastforce simp: keeps_def andThen_def split: prod.splits sum.splits)

lemma keeps_catch: "keeps I m \<Longrightarrow> (\<And>e. keeps I (h e)) \<Longrightarrow> keeps I (catch m h)"
  by (fastforce simp: keeps_def catch_def split: prod.splits sum.splits)

text \<open>A preorder on states that every part respects is respected by the whole program.\<close>

definition evolves :: "('s \<Rightarrow> 's \<Rightarrow> bool) \<Rightarrow> ('s, 'e, 'a) prog \<Rightarrow> bool" where
  "evolves R m \<longleftrightarrow> (\<forall>s. R s (snd (m s)))"

lemma evolvesD: "evolves R m \<Longrightarrow> R s (snd (m s))"
  by (simp add: evolves_def)

lemma evolvesD_eq: "evolves R m \<Longrightarrow> m s = (r, t) \<Longrightarrow> R s t"
  by (metis evolves_def snd_conv)

lemma evolves_basic:
  assumes "reflp R"
  shows "evolves R (ret x)" "evolves R (throw e)" "evolves R (gets g)" "evolves R (of_sum r)"
  using assms by (simp_all add: evolves_def reflp_def)

lemma evolves_andThen:
  assumes "transp R" and "evolves R m" and "\<And>x. evolves R (f x)"
  shows "evolves R (andThen m f)"
  unfolding evolves_def
proof
  fix s
  obtain r s' where m: "m s = (r, s')" by (cases "m s")
  from evolvesD_eq [OF assms(2) m] have R: "R s s'" .
  show "R s (snd (andThen m f s))"
  proof (cases r)
    case (Inl e)
    with m R show ?thesis by simp
  next
    case (Inr x)
    with m have "andThen m f s = f x s'" by simp
    moreover have "R s (snd (f x s'))" by (rule transpD [OF assms(1) R]) (rule evolvesD [OF assms(3)])
    ultimately show ?thesis by simp
  qed
qed

lemma evolves_catch:
  assumes "transp R" and "evolves R m" and "\<And>e. evolves R (h e)"
  shows "evolves R (catch m h)"
  unfolding evolves_def
proof
  fix s
  obtain r s' where m: "m s = (r, s')" by (cases "m s")
  from evolvesD_eq [OF assms(2) m] have R: "R s s'" .
  show "R s (snd (catch m h s))"
  proof (cases r)
    case (Inl e)
    with m have "catch m h s = h e s'" by simp
    moreover have "R s (snd (h e s'))" by (rule transpD [OF assms(1) R]) (rule evolvesD [OF assms(3)])
    ultimately show ?thesis by simp
  next
    case (Inr x)
    with m R show ?thesis by simp
  qed
qed

lemma evolves_asks: "(\<And>x. evolves R (f x)) \<Longrightarrow> evolves R (asks f)"
  by (simp add: evolves_def asks_def)

lemma keeps_asks: "(\<And>x. keeps I (f x)) \<Longrightarrow> keeps I (asks f)"
  by (simp add: keeps_def asks_def)

text \<open>A program on a part of the state.\<close>

definition zoom :: "('s \<Rightarrow> 't) \<Rightarrow> ('t \<Rightarrow> 's \<Rightarrow> 's) \<Rightarrow> ('t, 'e, 'a) prog \<Rightarrow> ('s, 'e, 'a) prog" where
  "zoom get put m s = (case m (get s) of (r, t) \<Rightarrow> (r, put t s))"

lemma zoom_eq: "m (get s) = (r, t) \<Longrightarrow> zoom get put m s = (r, put t s)"
  by (simp add: zoom_def)

section \<open>Strings\<close>

definition lower_char :: "char \<Rightarrow> char" where
  "lower_char c = (let n = (of_char c :: nat) in if 65 \<le> n \<and> n \<le> 90 then char_of (n + 32) else c)"

definition lower :: "string \<Rightarrow> string" where
  "lower s = map lower_char s"

definition starts_with :: "string \<Rightarrow> string \<Rightarrow> bool" where
  "starts_with p s \<longleftrightarrow> take (length p) s = p"

fun contains :: "string \<Rightarrow> string \<Rightarrow> bool" where
  "contains p [] = (p = [])"
| "contains p (c # s) = (starts_with p (c # s) \<or> contains p s)"

definition is_space :: "char \<Rightarrow> bool" where
  "is_space c \<longleftrightarrow> (let n = (of_char c :: nat) in n = 32 \<or> (9 \<le> n \<and> n \<le> 13) \<or> (28 \<le> n \<and> n \<le> 31))"

definition lstrip :: "string \<Rightarrow> string" where
  "lstrip s = dropWhile is_space s"

definition strip :: "string \<Rightarrow> string" where
  "strip s = rev (lstrip (rev (lstrip s)))"

text \<open>\<open>s.rstrip("/")\<close>\<close>

definition rstrip_slash :: "string \<Rightarrow> string" where
  "rstrip_slash s = rev (dropWhile (\<lambda>c. c = CHR ''/'') (rev s))"

definition join :: "string \<Rightarrow> string list \<Rightarrow> string" where
  "join sep xs = (case xs of [] \<Rightarrow> [] | y # ys \<Rightarrow> y @ concat (map (\<lambda>z. sep @ z) ys))"

lemma lower_char_idem [simp]: "lower_char (lower_char c) = lower_char c"
  by (auto simp: lower_char_def Let_def)

lemma lower_idem [simp]: "lower (lower s) = lower s"
  by (simp add: lower_def)

lemma lower_append [simp]: "lower (xs @ ys) = lower xs @ lower ys"
  by (simp add: lower_def)

lemma length_lower [simp]: "length (lower s) = length s"
  by (simp add: lower_def)

lemma starts_with_append [simp]: "starts_with p (p @ s)"
  by (simp add: starts_with_def)

lemma starts_with_iff: "starts_with p s \<longleftrightarrow> (\<exists>t. s = p @ t)"
  by (metis append_take_drop_id append_eq_conv_conj starts_with_def)

lemma contains_iff: "contains p s \<longleftrightarrow> (\<exists>a b. s = a @ p @ b)"
proof (induction s)
  case Nil
  then show ?case by auto
next
  case (Cons c s)
  show ?case
  proof
    assume "contains p (c # s)"
    then show "\<exists>a b. c # s = a @ p @ b"
    proof (simp, elim disjE)
      assume "starts_with p (c # s)"
      then obtain t where "c # s = [] @ p @ t" by (auto simp: starts_with_iff)
      then show ?thesis by blast
    next
      assume "contains p s"
      then obtain a b where "s = a @ p @ b" using Cons.IH by blast
      then have "c # s = (c # a) @ p @ b" by simp
      then show ?thesis by blast
    qed
  next
    assume "\<exists>a b. c # s = a @ p @ b"
    then obtain a b where eq: "c # s = a @ p @ b" by blast
    show "contains p (c # s)"
    proof (cases a)
      case Nil
      with eq have "starts_with p (c # s)" by (auto simp: starts_with_iff)
      then show ?thesis by simp
    next
      case (Cons d a')
      with eq have "s = a' @ p @ b" by simp
      then show ?thesis using Cons.IH by auto
    qed
  qed
qed

subsection \<open>Decimal numerals\<close>

definition digit :: "nat \<Rightarrow> char" where
  "digit n = char_of (48 + n)"

definition digit_value :: "char \<Rightarrow> nat" where
  "digit_value c = of_char c - 48"

definition is_digit :: "char \<Rightarrow> bool" where
  "is_digit c \<longleftrightarrow> 48 \<le> (of_char c :: nat) \<and> (of_char c :: nat) \<le> 57"

fun nat_str :: "nat \<Rightarrow> string" where
  "nat_str n = (if n < 10 then [digit n] else nat_str (n div 10) @ [digit (n mod 10)])"

definition int_str :: "int \<Rightarrow> string" where
  "int_str i = (if i < 0 then CHR ''-'' # nat_str (nat (- i)) else nat_str (nat i))"

definition nat_of_str :: "string \<Rightarrow> nat" where
  "nat_of_str s = foldl (\<lambda>a c. 10 * a + digit_value c) 0 s"

declare nat_str.simps [simp del]

lemma digit_value_digit [simp]: "n < 10 \<Longrightarrow> digit_value (digit n) = n"
  by (simp add: digit_def digit_value_def)

lemma is_digit_digit [simp]: "n < 10 \<Longrightarrow> is_digit (digit n)"
  by (simp add: digit_def is_digit_def)

lemma nat_of_nat_str [simp]: "nat_of_str (nat_str n) = n"
proof (induction n rule: nat_str.induct)
  case (1 n)
  show ?case
  proof (cases "n < 10")
    case True
    then show ?thesis by (simp add: nat_str.simps [of n] nat_of_str_def)
  next
    case False
    with 1 have "nat_of_str (nat_str (n div 10)) = n div 10" by simp
    with False show ?thesis
      by (simp add: nat_str.simps [of n] nat_of_str_def)
  qed
qed

lemma nat_str_inj [simp]: "nat_str m = nat_str n \<longleftrightarrow> m = n"
  by (metis nat_of_nat_str)

lemma nat_str_digits: "\<forall>c \<in> set (nat_str n). is_digit c"
proof (induction n rule: nat_str.induct)
  case (1 n)
  then show ?case by (subst nat_str.simps) (auto split: if_splits)
qed

lemma nat_str_not_minus: "nat_str n \<noteq> CHR ''-'' # s"
  using nat_str_digits [of n] by (auto simp: is_digit_def)

lemma int_str_inj: "int_str i = int_str j \<longleftrightarrow> i = j"
  using nat_str_not_minus [symmetric] nat_str_not_minus
  by (auto simp: int_str_def split: if_splits)

text \<open>
  Reading a decimal number: a sign, digits with a fraction, an exponent. The spellings of infinities
  and of not-a-number, which are no real numbers, are not read.
\<close>

definition span_digits :: "string \<Rightarrow> string \<times> string" where
  "span_digits s = (takeWhile is_digit s, dropWhile is_digit s)"

fun read_sign :: "string \<Rightarrow> real \<times> string" where
  "read_sign [] = (1, [])"
| "read_sign (c # s) = (if c = CHR ''-'' then (- 1, s) else if c = CHR ''+'' then (1, s) else (1, c # s))"

definition read_exponent :: "string \<Rightarrow> real option" where
  "read_exponent s = (case s of
     [] \<Rightarrow> Some 1
   | c # s' \<Rightarrow> if c \<noteq> CHR ''e'' \<and> c \<noteq> CHR ''E'' then None
       else (let (sgn, s'') = read_sign s'; (ds, rest) = span_digits s''
             in if ds = [] \<or> rest \<noteq> [] then None
                else Some (if sgn < 0 then 1 / 10 ^ nat_of_str ds else 10 ^ nat_of_str ds)))"

definition read_decimal :: "string \<Rightarrow> real option" where
  "read_decimal s = (let (sgn, s1) = read_sign s; (whole, s2) = span_digits s1;
       (frac, s3) = (case s2 of c # s' \<Rightarrow> if c = CHR ''.'' then span_digits s' else ([], s2) | [] \<Rightarrow> ([], []))
     in if whole = [] \<and> frac = [] then None
        else map_option (\<lambda>e. sgn * (real (nat_of_str (whole @ frac)) / 10 ^ length frac) * e) (read_exponent s3))"

text \<open>
  \<open>float(s)\<close>, which ignores surrounding white space, takes single underscores between digits and the spellings of
  the infinities and of not-a-number, and gives an infinity where the number rounds to one.
\<close>

datatype py_float = Number real | Plus_Inf | Minus_Inf | Not_A_Number

fun underscores_ok :: "bool \<Rightarrow> string \<Rightarrow> bool" where
  "underscores_ok after_digit [] = True"
| "underscores_ok after_digit (c # s) =
     (if c = CHR ''_'' then after_digit \<and> (case s of [] \<Rightarrow> False | d # _ \<Rightarrow> is_digit d) \<and> underscores_ok False s
      else underscores_ok (is_digit c) s)"

text \<open>Half a step above the largest \<open>double\<close>.\<close>

definition float_overflow :: real where
  "float_overflow = 2 ^ 1024 - 2 ^ 970"

definition py_float :: "string \<Rightarrow> py_float option" where
  "py_float s = (let body = strip s; (sgn, word) = read_sign body in
     if lower word \<in> {''inf'', ''infinity''} then Some (if sgn < 0 then Minus_Inf else Plus_Inf)
     else if lower word = ''nan'' then Some Not_A_Number
     else if \<not> underscores_ok False body then None
     else map_option (\<lambda>r. if float_overflow \<le> r then Plus_Inf else if r \<le> - float_overflow then Minus_Inf else Number r)
       (read_decimal (filter (\<lambda>c. c \<noteq> CHR ''_'') body)))"

text \<open>\<open>int(s)\<close>: white space around it, a sign, digits with single underscores between them.\<close>

fun int_body :: "bool \<Rightarrow> string \<Rightarrow> bool" where
  "int_body after_digit [] = after_digit"
| "int_body after_digit (c # s) =
     (if is_digit c then int_body True s else c = CHR ''_'' \<and> after_digit \<and> int_body False s)"

definition py_int :: "string \<Rightarrow> int option" where
  "py_int s = (let (sgn, body) = read_sign (strip s)
     in if int_body False body
        then Some (let n = int (nat_of_str (filter is_digit body)) in if sgn < 0 then - n else n)
        else None)"

subsection \<open>UTF-8\<close>

text \<open>Which byte sequences \<open>bytes.decode()\<close> accepts (RFC 3629: no overlong forms, no surrogates).\<close>

definition cont_byte :: "nat \<Rightarrow> bool" where
  "cont_byte n \<longleftrightarrow> 128 \<le> n \<and> n \<le> 191"

fun utf8_ok :: "nat list \<Rightarrow> bool" where
  "utf8_ok [] = True"
| "utf8_ok (a # r) =
     (if a \<le> 127 then utf8_ok r
      else if 194 \<le> a \<and> a \<le> 223 then
        (case r of b # r' \<Rightarrow> cont_byte b \<and> utf8_ok r' | _ \<Rightarrow> False)
      else if 224 \<le> a \<and> a \<le> 239 then
        (case r of b # c # r' \<Rightarrow> cont_byte b \<and> cont_byte c \<and> (a = 224 \<longrightarrow> 160 \<le> b) \<and>
             (a = 237 \<longrightarrow> b \<le> 159) \<and> utf8_ok r' | _ \<Rightarrow> False)
      else if 240 \<le> a \<and> a \<le> 244 then
        (case r of b # c # d # r' \<Rightarrow> cont_byte b \<and> cont_byte c \<and> cont_byte d \<and>
             (a = 240 \<longrightarrow> 144 \<le> b) \<and> (a = 244 \<longrightarrow> b \<le> 143) \<and> utf8_ok r' | _ \<Rightarrow> False)
      else False)"

definition utf8_valid :: "string \<Rightarrow> bool" where
  "utf8_valid s = utf8_ok (map of_char s)"

section \<open>JSON values and HTTP exchanges\<close>

datatype json =
    JNull
  | JBool bool
  | JInt int
  | JReal real
  | JStr string
  | JArr "json list"
  | JObj "(string \<times> json) list"

text \<open>\<open>d.get(k)\<close> of a decoded object; a missing key is \<open>None\<close>.\<close>

fun json_field :: "string \<Rightarrow> json \<Rightarrow> json option" where
  "json_field k (JObj kvs) = map_of kvs k"
| "json_field k _ = None"

fun is_obj :: "json \<Rightarrow> bool" where
  "is_obj (JObj _) = True"
| "is_obj _ = False"

text \<open>
  A response as the HTTP library hands it over: \<open>resp_json\<close> is what its JSON decoder makes of the
  body (\<open>None\<close> where it raises) and \<open>resp_raises\<close> says whether its \<open>raise_for_status()\<close> raises.
\<close>

record http_response =
  resp_status :: int
  resp_headers :: "(string \<times> string) list"
  resp_body :: string
  resp_json :: "json option"
  resp_raises :: bool

datatype http_outcome = Responded http_response | Timed_Out | Transport_Failed

text \<open>Header names are compared case-insensitively; the values of a repeated header are joined.\<close>

definition header :: "string \<Rightarrow> http_response \<Rightarrow> string option" where
  "header k r = (case filter (\<lambda>(n, _). lower n = lower k) (resp_headers r) of
     [] \<Rightarrow> None | hs \<Rightarrow> Some (join '', '' (map snd hs)))"

end
