(* ===== verification/Adapter_Errors.thy ===== *)
theory Adapter_Errors imports Prelude begin

text \<open>
  The adapter's exceptions: \<open>app/adapters/error_codes.py\<close> and \<open>app/adapters/errors.py\<close>. The
  messages the exceptions carry are for the log only and are left out. \<open>exc\<close> adds the other
  Python exceptions that can leave the modelled functions.
\<close>

datatype error_code =
    ADAPTER_MISCONFIGURED
  | AUTHENTICATION_REQUIRED
  | UPSTREAM_ERROR
  | UPSTREAM_TIMEOUT
  | RATE_LIMITED
  | DEVICE_NOT_FOUND
  | SUBSCRIPTION_REQUIRED
  | SNAPSHOT_UNAVAILABLE
  | STREAM_CAPACITY_EXCEEDED
  | SESSION_NOT_FOUND

fun code_string :: "error_code \<Rightarrow> string" where
  "code_string ADAPTER_MISCONFIGURED = ''adapter_misconfigured''"
| "code_string AUTHENTICATION_REQUIRED = ''authentication_required''"
| "code_string UPSTREAM_ERROR = ''upstream_error''"
| "code_string UPSTREAM_TIMEOUT = ''upstream_timeout''"
| "code_string RATE_LIMITED = ''rate_limited''"
| "code_string DEVICE_NOT_FOUND = ''device_not_found''"
| "code_string SUBSCRIPTION_REQUIRED = ''subscription_required''"
| "code_string SNAPSHOT_UNAVAILABLE = ''snapshot_unavailable''"
| "code_string STREAM_CAPACITY_EXCEEDED = ''stream_capacity_exceeded''"
| "code_string SESSION_NOT_FOUND = ''session_not_found''"

datatype ring_adapter_error =
    AdapterConfigurationError
  | AuthenticationRequiredError
  | UpstreamUnavailableError
  | UpstreamTimeoutError
  | RateLimitedError
  | DeviceNotFoundError
  | SubscriptionRequiredError
  | SnapshotUnavailableError
  | StreamCapacityExceededError
  | StreamSessionNotFoundError

fun err_code :: "ring_adapter_error \<Rightarrow> error_code" where
  "err_code AdapterConfigurationError = ADAPTER_MISCONFIGURED"
| "err_code AuthenticationRequiredError = AUTHENTICATION_REQUIRED"
| "err_code UpstreamUnavailableError = UPSTREAM_ERROR"
| "err_code UpstreamTimeoutError = UPSTREAM_TIMEOUT"
| "err_code RateLimitedError = RATE_LIMITED"
| "err_code DeviceNotFoundError = DEVICE_NOT_FOUND"
| "err_code SubscriptionRequiredError = SUBSCRIPTION_REQUIRED"
| "err_code SnapshotUnavailableError = SNAPSHOT_UNAVAILABLE"
| "err_code StreamCapacityExceededError = STREAM_CAPACITY_EXCEEDED"
| "err_code StreamSessionNotFoundError = SESSION_NOT_FOUND"

fun err_http_status :: "ring_adapter_error \<Rightarrow> int" where
  "err_http_status AdapterConfigurationError = 500"
| "err_http_status AuthenticationRequiredError = 401"
| "err_http_status UpstreamUnavailableError = 502"
| "err_http_status UpstreamTimeoutError = 504"
| "err_http_status RateLimitedError = 429"
| "err_http_status DeviceNotFoundError = 404"
| "err_http_status SubscriptionRequiredError = 402"
| "err_http_status SnapshotUnavailableError = 503"
| "err_http_status StreamCapacityExceededError = 429"
| "err_http_status StreamSessionNotFoundError = 404"

text \<open>
  Python exceptions: an adapter error, \<open>httpx.HTTPStatusError\<close> with its response's status, and
  what the standard library, pydantic, the cipher (\<open>InvalidToken\<close>) and the database raise. \<open>UnicodeDecodeError\<close>, \<open>JSONDecodeError\<close> and
  pydantic's \<open>ValidationError\<close> are subclasses of \<open>ValueError\<close>. \<open>Still_Running\<close> is no exception: it is
  the outcome of a run whose fuel is used up before the code returns, and no handler catches it.
\<close>

datatype exc =
    Adapter ring_adapter_error
  | HTTPStatusError int
  | ValueError
  | UnicodeDecodeError
  | JSONDecodeError
  | ValidationError
  | KeyError
  | TypeError
  | AttributeError
  | IndexError
  | InvalidToken
  | OperationalError
  | NotImplementedError
  | RuntimeError
  | TransportError
  | TimeoutException
  | TokenNotFoundError
  | SessionInvalidError
  | UpstreamError
  | HTTPException int
  | AssertionError
  | Still_Running

fun is_adapter_error :: "exc \<Rightarrow> bool" where
  "is_adapter_error (Adapter _) = True"
| "is_adapter_error _ = False"

fun is_value_error :: "exc \<Rightarrow> bool" where
  "is_value_error ValueError = True"
| "is_value_error UnicodeDecodeError = True"
| "is_value_error JSONDecodeError = True"
| "is_value_error ValidationError = True"
| "is_value_error _ = False"

lemma code_string_inj: "code_string a = code_string b \<longleftrightarrow> a = b"
  by (cases a; cases b) simp_all

lemma err_code_inj: "err_code a = err_code b \<longleftrightarrow> a = b"
  by (cases a; cases b) simp_all

lemma err_http_status_range: "400 \<le> err_http_status e \<and> err_http_status e \<le> 504"
  by (cases e) simp_all

text \<open>\<open>response.raise_for_status()\<close>\<close>

definition raise_for_status :: "http_response \<Rightarrow> exc + unit" where
  "raise_for_status r = (if resp_raises r then Inl (HTTPStatusError (resp_status r)) else Inr ())"

text \<open>\<open>response.json()\<close>\<close>

definition json_of :: "http_response \<Rightarrow> exc + json" where
  "json_of r = (case resp_json r of None \<Rightarrow> Inl JSONDecodeError | Some j \<Rightarrow> Inr j)"

text \<open>\<open>response.content.decode()\<close>\<close>

definition decode_body :: "http_response \<Rightarrow> exc + string" where
  "decode_body r = (if utf8_valid (resp_body r) then Inr (resp_body r) else Inl UnicodeDecodeError)"

end
