(* ===== verification/Mappers.thy ===== *)
theory Mappers imports Adapter_Errors begin

text \<open>
  Translation of Ring's records into the resources the tvOS app sees:
  \<open>app/adapters/ring_schemas.py\<close>, \<open>app/adapters/models.py\<close> and \<open>app/adapters/mappers.py\<close>.
  Validating a JSON value into one of the inbound records is pydantic's work and is a parameter
  of the theories that call it.
\<close>

section \<open>Inbound records\<close>

record ring_device_health =
  dh_battery_life :: "int option"
  dh_wifi_signal_strength :: "int option"
  dh_firmware :: "string option"

record ring_device =
  rd_id :: int
  rd_kind :: string
  rd_description :: string
  rd_firmware_version :: "string option"
  rd_battery_life :: "int option"
  rd_health :: "ring_device_health option"

record ring_event =
  re_id :: int
  re_kind :: string
  re_created_at :: string
  re_duration :: "int option"

record ring_oauth_token_response =
  ot_access_token :: string
  ot_token_type :: string
  ot_expires_in :: int
  ot_refresh_token :: "string option"
  ot_scope :: "string option"

section \<open>Outbound resources\<close>

datatype power_source = PS_Hardwired | PS_Battery
datatype device_status = DS_Online | DS_Offline
datatype event_type = ET_Motion | ET_Ding

text \<open>The strings of the \<open>Literal\<close> unions, as they go over the wire.\<close>

fun power_source_string :: "power_source \<Rightarrow> string" where
  "power_source_string PS_Hardwired = ''hardwired''"
| "power_source_string PS_Battery = ''battery''"

fun device_status_string :: "device_status \<Rightarrow> string" where
  "device_status_string DS_Online = ''online''"
| "device_status_string DS_Offline = ''offline''"

fun event_type_string :: "event_type \<Rightarrow> string" where
  "event_type_string ET_Motion = ''motion''"
| "event_type_string ET_Ding = ''ding''"

record device_attributes =
  da_name :: string
  da_model :: string
  da_firmware_version :: string
  da_power_source :: power_source
  da_status :: device_status

record device_resource =
  dr_id :: string
  dr_type :: string
  dr_attributes :: device_attributes

record event_resource =
  er_id :: string
  er_device_id :: string
  er_type :: event_type
  er_created_at :: string
  er_duration :: int

section \<open>Mappers\<close>

definition UNKNOWN_FIRMWARE :: string where
  "UNKNOWN_FIRMWARE = ''unknown''"

definition CAMERA_KIND_SUBSTRINGS :: "string list" where
  "CAMERA_KIND_SUBSTRINGS = [''doorbell'', ''cam'', ''floodlight'', ''spotlight'', ''lpd_'', ''jbox_'']"

definition NON_CAMERA_KIND_PREFIXES :: "string list" where
  "NON_CAMERA_KIND_PREFIXES = [''chime_'', ''beams_'', ''security_'', ''base_station_'', ''keypad_'',
     ''rangextender_'', ''motion_sensor_'', ''contact_sensor_'', ''smoke_co_listener_'',
     ''flood_freeze_sensor_'', ''tilt_sensor_'']"

definition is_camera_kind :: "string \<Rightarrow> bool" where
  "is_camera_kind kind = (let k = lower kind in
     if list_ex (\<lambda>prefix. starts_with prefix k) NON_CAMERA_KIND_PREFIXES then False
     else list_ex (\<lambda>substr. contains substr k) CAMERA_KIND_SUBSTRINGS)"

text \<open>\<open>x or y\<close> on optional strings: the empty string is falsy.\<close>

fun or_string :: "string option \<Rightarrow> string option \<Rightarrow> string option" where
  "or_string (Some (c # s)) y = Some (c # s)"
| "or_string _ y = y"

definition map_device :: "ring_device \<Rightarrow> device_resource" where
  "map_device device =
     (let nested_battery = Option.bind (rd_health device) dh_battery_life;
          battery = (if nested_battery \<noteq> None then nested_battery else rd_battery_life device);
          power = (if battery \<noteq> None then PS_Battery else PS_Hardwired);
          firmware = or_string (rd_firmware_version device)
            (or_string (Option.bind (rd_health device) dh_firmware) (Some UNKNOWN_FIRMWARE))
      in \<lparr>dr_id = int_str (rd_id device), dr_type = rd_kind device,
          dr_attributes = \<lparr>da_name = rd_description device, da_model = rd_kind device,
            da_firmware_version = the firmware, da_power_source = power, da_status = DS_Online\<rparr>\<rparr>)"

definition event_kind :: "string \<Rightarrow> event_type option" where
  "event_kind k = (if k = ''motion'' then Some ET_Motion else if k = ''ding'' then Some ET_Ding else None)"

definition map_event :: "ring_event \<Rightarrow> string \<Rightarrow> exc + event_resource" where
  "map_event event device_id = (case event_kind (re_kind event) of
     None \<Rightarrow> Inl ValueError
   | Some k \<Rightarrow> Inr \<lparr>er_id = int_str (re_id event), er_device_id = device_id, er_type = k,
       er_created_at = re_created_at event,
       er_duration = (case re_duration event of None \<Rightarrow> 0 | Some d \<Rightarrow> d)\<rparr>)"

section \<open>Facts\<close>

lemma or_string_unknown: "\<exists>s. or_string x (or_string y (Some UNKNOWN_FIRMWARE)) = Some s \<and> s \<noteq> ''''"
  by (cases "(x, Some UNKNOWN_FIRMWARE)" rule: or_string.cases;
      cases "(y, Some UNKNOWN_FIRMWARE)" rule: or_string.cases) (auto simp: UNKNOWN_FIRMWARE_def)

lemma is_camera_kind_lower: "is_camera_kind (lower k) = is_camera_kind k"
  by (simp add: is_camera_kind_def)

lemma map_event_error_iff: "map_event e d = Inl x \<longleftrightarrow> x = ValueError \<and> re_kind e \<notin> {''motion'', ''ding''}"
  by (auto simp: map_event_def event_kind_def)

lemma map_event_id_inj:
  "map_event e d = Inr a \<Longrightarrow> map_event e' d' = Inr b \<Longrightarrow> er_id a = er_id b \<Longrightarrow> re_id e = re_id e'"
  by (auto simp: map_event_def int_str_inj split: option.splits)

lemma map_event_type: "map_event e d = Inr a \<Longrightarrow> event_type_string (er_type a) = re_kind e"
  by (auto simp: map_event_def event_kind_def split: if_splits)

section \<open>Properties\<close>

text \<open>A device is shown as a camera exactly when, ignoring case, its kind has one of the camera
  substrings somewhere and starts with none of the accessory prefixes: exclusions win.\<close>

theorem is_camera_kind_iff:
  "is_camera_kind kind \<longleftrightarrow>
     (\<exists>x a b. x \<in> set CAMERA_KIND_SUBSTRINGS \<and> lower kind = a @ x @ b) \<and>
     \<not> (\<exists>p t. p \<in> set NON_CAMERA_KIND_PREFIXES \<and> lower kind = p @ t)"
  unfolding is_camera_kind_def Let_def list_ex_iff contains_iff starts_with_iff by auto

text \<open>The mapped device is battery-powered exactly when Ring reports a battery level, nested or
  at top level; its firmware string is never empty; and different Ring ids give different ids.\<close>

theorem map_device_contract:
  "(da_power_source (dr_attributes (map_device d)) = PS_Battery \<longleftrightarrow>
      \<not> (rd_battery_life d = None \<and>
         (case rd_health d of None \<Rightarrow> True | Some h \<Rightarrow> dh_battery_life h = None))) \<and>
   da_firmware_version (dr_attributes (map_device d)) \<noteq> '''' \<and>
   (dr_id (map_device d) = dr_id (map_device d') \<longleftrightarrow> rd_id d = rd_id d')"
proof -
  obtain f where "or_string (rd_firmware_version d)
      (or_string (Option.bind (rd_health d) dh_firmware) (Some UNKNOWN_FIRMWARE)) = Some f" and "f \<noteq> ''''"
    using or_string_unknown by blast
  moreover have "(if Option.bind (rd_health d) dh_battery_life \<noteq> None then Option.bind (rd_health d) dh_battery_life
      else rd_battery_life d) \<noteq> None \<longleftrightarrow>
      \<not> (rd_battery_life d = None \<and>
         (case rd_health d of None \<Rightarrow> True | Some h \<Rightarrow> dh_battery_life h = None))"
    by (cases "rd_health d") auto
  ultimately show ?thesis by (simp add: map_device_def Let_def int_str_inj)
qed

end
