(* ===== verification/Session_Map.thy ===== *)
theory Session_Map imports Adapter_Errors begin

text \<open>
  The registry of live WHEP sessions: \<open>app/adapters/session_map.py\<close> and \<open>app/adapters/types.py\<close>.

  The dictionary is an association list in insertion order, the order in which \<open>snapshot\<close> and
  \<open>clear\<close> list it; \<open>sm_ok\<close> says that its keys are distinct and each session is under its own id.
  Every method holds the lock for its whole body, so each is one step.
\<close>

datatype stream_session_state = Session_Active | Session_Terminated

record access_token_cache_entry =
  ac_token :: string
  ac_expires_at :: real

record stream_session =
  ss_session_id :: string
  ss_bridge_session_id :: string
  ss_device_id :: string
  ss_mediamtx_path :: string
  ss_created_at :: real
  ss_state :: stream_session_state
  ss_has_audio :: bool

type_synonym session_map = "(string \<times> stream_session) list"

definition sm_empty :: session_map where
  "sm_empty = []"

definition sm_bind :: "stream_session \<Rightarrow> (session_map, exc, unit) prog" where
  "sm_bind session s = (if ss_session_id session \<in> fst ` set s then (Inl ValueError, s)
     else (Inr (), s @ [(ss_session_id session, session)]))"

definition sm_lookup :: "string \<Rightarrow> (session_map, exc, stream_session) prog" where
  "sm_lookup session_id s = (case map_of s session_id of
     None \<Rightarrow> (Inl (Adapter StreamSessionNotFoundError), s) | Some x \<Rightarrow> (Inr x, s))"

definition sm_remove :: "string \<Rightarrow> (session_map, exc, stream_session option) prog" where
  "sm_remove session_id s = (Inr (map_of s session_id), filter (\<lambda>(k, _). k \<noteq> session_id) s)"

definition sm_count :: "(session_map, exc, nat) prog" where
  "sm_count s = (Inr (length s), s)"

definition sm_check_capacity :: "int \<Rightarrow> (session_map, exc, unit) prog" where
  "sm_check_capacity max_concurrent s =
     (if int (length s) \<ge> max_concurrent then (Inl (Adapter StreamCapacityExceededError), s) else (Inr (), s))"

definition sm_snapshot :: "(session_map, exc, stream_session list) prog" where
  "sm_snapshot s = (Inr (map snd s), s)"

definition sm_clear :: "(session_map, exc, stream_session list) prog" where
  "sm_clear s = (Inr (map snd s), [])"

lemmas sm_defs = sm_bind_def sm_lookup_def sm_remove_def sm_count_def sm_check_capacity_def
  sm_snapshot_def sm_clear_def

section \<open>Well-formedness\<close>

definition sm_ok :: "session_map \<Rightarrow> bool" where
  "sm_ok s \<longleftrightarrow> distinct (map fst s) \<and> (\<forall>(k, x) \<in> set s. ss_session_id x = k)"

lemma sm_ok_empty [simp]: "sm_ok sm_empty" "sm_ok []"
  by (simp_all add: sm_ok_def sm_empty_def)

lemma sm_keeps:
  "keeps sm_ok (sm_bind x)" "keeps sm_ok (sm_lookup k)" "keeps sm_ok (sm_remove k)" "keeps sm_ok sm_count"
  "keeps sm_ok (sm_check_capacity m)" "keeps sm_ok sm_snapshot" "keeps sm_ok sm_clear"
  by (auto simp: keeps_def sm_defs sm_ok_def distinct_map_filter image_iff split: option.splits)

section \<open>Behaviour as a map\<close>

lemma map_of_remove:
  "map_of (filter (\<lambda>(k, _). k \<noteq> i) s) = (map_of s)(i := None)"
  by (induction s) (auto simp: fun_eq_iff)

lemma map_of_bind:
  "i \<notin> fst ` set s \<Longrightarrow> map_of (s @ [(i, x)]) = (map_of s)(i \<mapsto> x)"
  by (induction s) (auto simp: fun_eq_iff)

lemma bind_then_lookup:
  assumes "sm_bind x s = (Inr (), s')"
  shows "sm_lookup k s' = (if k = ss_session_id x then (Inr x, s')
    else (case map_of s k of None \<Rightarrow> (Inl (Adapter StreamSessionNotFoundError), s') | Some y \<Rightarrow> (Inr y, s')))"
  using assms by (auto simp: sm_bind_def sm_lookup_def map_of_bind simp del: map_of_append split: if_splits option.splits)

lemma remove_then_lookup:
  "fst (sm_lookup k (snd (sm_remove i s))) =
     (if k = i then Inl (Adapter StreamSessionNotFoundError) else fst (sm_lookup k s))"
  by (simp add: sm_lookup_def sm_remove_def map_of_remove split: option.splits)

lemma remove_idem: "fst (sm_remove i (snd (sm_remove i s))) = Inr None"
  by (simp add: sm_remove_def map_of_remove)

lemma bind_length: "sm_bind x s = (Inr (), s') \<Longrightarrow> length s' = Suc (length s)"
  by (auto simp: sm_bind_def split: if_splits)

lemma remove_length: "length (snd (sm_remove i s)) \<le> length s"
  by (simp add: sm_remove_def)

lemma filter_not_key: "i \<notin> set (map fst s) \<Longrightarrow> filter (\<lambda>(k, _). k \<noteq> i) s = s"
  by (induction s) auto

lemma remove_length_present:
  assumes "sm_ok s" and "map_of s i = Some x"
  shows "Suc (length (snd (sm_remove i s))) = length s"
proof -
  have "distinct (map fst s)" "i \<in> set (map fst s)"
    using assms by (auto simp: sm_ok_def dest: map_of_SomeD intro: rev_image_eqI)
  then show ?thesis
    unfolding sm_remove_def
    by (induction s) (auto simp: filter_not_key)
qed

end
