(* ===== verification/Ring_Adapter.thy ===== *)
theory Ring_Adapter imports Mappers Session_Map begin

text \<open>
  The interface every \<open>/mock\<close> route depends on, \<open>app/adapters/base.py\<close>: an adapter is a record of its
  methods over its own state, and \<open>ring_adapter_laws\<close> is what the routes and the tvOS app rely on. The
  lemmas of the locale hold for both implementations, which interpret it in their theories.
\<close>

record snapshot_payload =
  sn_content :: string
  sn_content_type :: string

record stream_session_result =
  sr_sdp_answer :: string
  sr_location :: string
  sr_session_id :: string

record 's ring_adapter =
  ra_list_devices :: "('s, exc, device_resource list) prog"
  ra_list_events :: "string \<Rightarrow> int \<Rightarrow> ('s, exc, event_resource list) prog"
  ra_download_snapshot :: "string \<Rightarrow> ('s, exc, snapshot_payload) prog"
  ra_download_video :: "string \<Rightarrow> string option \<Rightarrow> ('s, exc, string) prog"
  ra_create_stream_session :: "string \<Rightarrow> string \<Rightarrow> ('s, exc, stream_session_result) prog"
  ra_delete_stream_session :: "string \<Rightarrow> ('s, exc, unit) prog"
  ra_mode :: string

definition session_location :: "string \<Rightarrow> string" where
  "session_location session_id = ''/mock/session/'' @ session_id"

locale ring_adapter_laws =
  fixes A :: "'s ring_adapter"
  assumes events_bounded: "ra_list_events A d limit s = (Inr evs, s') \<Longrightarrow> 0 \<le> limit \<Longrightarrow> int (length evs) \<le> limit"
    and events_of_device: "ra_list_events A d limit s = (Inr evs, s') \<Longrightarrow> e \<in> set evs \<Longrightarrow> er_device_id e = d"
    and device_type: "ra_list_devices A s = (Inr ds, s') \<Longrightarrow> x \<in> set ds \<Longrightarrow> dr_type x = da_model (dr_attributes x)"
    and location: "ra_create_stream_session A d sdp s = (Inr r, s') \<Longrightarrow>
      sr_location r = session_location (sr_session_id r)"
    and mode_known: "ra_mode A \<in> {''mock'', ''unofficial''}"

section \<open>Routes\<close>

text \<open>
  The handlers of \<open>app/routes/mock_ring_api.py\<close>. A handler returns the adapter's result as a reply; an
  exception goes to the exception handlers of \<open>app/main.py\<close>: an adapter error becomes its status and code,
  anything else 500 \<open>internal_error\<close>. A run that has not returned has no reply.
\<close>

datatype reply_body =
    Json_Devices "device_resource list"
  | Json_Events "event_resource list"
  | Json_Url string
  | Json_Status string
  | Json_Error string
  | Raw string string

record reply =
  rp_status :: int
  rp_body :: reply_body
  rp_location :: "string option"

definition json_reply :: "reply_body \<Rightarrow> reply" where
  "json_reply b = \<lparr>rp_status = 200, rp_body = b, rp_location = None\<rparr>"

fun ring_adapter_error_handler :: "ring_adapter_error \<Rightarrow> reply" where
  "ring_adapter_error_handler e = \<lparr>rp_status = err_http_status e, rp_body = Json_Error (code_string (err_code e)),
     rp_location = None\<rparr>"

definition global_exception_handler :: reply where
  "global_exception_handler = \<lparr>rp_status = 500, rp_body = Json_Error ''internal_error'', rp_location = None\<rparr>"

definition respond :: "(exc + reply) \<times> 's \<Rightarrow> reply option \<times> 's" where
  "respond x = (case x of (Inr r, s) \<Rightarrow> (Some r, s)
     | (Inl (Adapter e), s) \<Rightarrow> (Some (ring_adapter_error_handler e), s)
     | (Inl Still_Running, s) \<Rightarrow> (None, s)
     | (Inl _, s) \<Rightarrow> (Some global_exception_handler, s))"

definition handle_get_devices :: "'s ring_adapter \<Rightarrow> ('s, exc, reply) prog" where [simp]:
  "handle_get_devices A = andThen (ra_list_devices A) (\<lambda>ds. ret (json_reply (Json_Devices ds)))"

definition handle_get_events :: "'s ring_adapter \<Rightarrow> string \<Rightarrow> int option \<Rightarrow> ('s, exc, reply) prog" where [simp]:
  "handle_get_events A device_id limit = andThen (ra_list_events A device_id (case limit of None \<Rightarrow> 10 | Some l \<Rightarrow> l))
     (\<lambda>evs. ret (json_reply (Json_Events evs)))"

definition handle_download_snapshot :: "'s ring_adapter \<Rightarrow> string \<Rightarrow> ('s, exc, reply) prog" where [simp]:
  "handle_download_snapshot A device_id = andThen (ra_download_snapshot A device_id)
     (\<lambda>p. ret (json_reply (Raw (sn_content_type p) (sn_content p))))"

definition handle_download_video :: "'s ring_adapter \<Rightarrow> string \<Rightarrow> ('s, exc, reply) prog" where [simp]:
  "handle_download_video A device_id = andThen (ra_download_video A device_id None)
     (\<lambda>url. ret (json_reply (Json_Url url)))"

text \<open>The body of the request is decoded before the adapter is called.\<close>

definition handle_create_whep_session :: "'s ring_adapter \<Rightarrow> string \<Rightarrow> string \<Rightarrow> ('s, exc, reply) prog" where [simp]:
  "handle_create_whep_session A device_id body = andThen
     (if utf8_valid body then ra_create_stream_session A device_id body else throw UnicodeDecodeError)
     (\<lambda>result. ret \<lparr>rp_status = 201, rp_body = Raw ''application/sdp'' (sr_sdp_answer result),
        rp_location = Some (sr_location result)\<rparr>)"

definition handle_delete_session :: "'s ring_adapter \<Rightarrow> string \<Rightarrow> ('s, exc, reply) prog" where [simp]:
  "handle_delete_session A session_id = andThen (ra_delete_stream_session A session_id)
     (\<lambda>_. ret (json_reply (Json_Status ''deleted'')))"

text \<open>A route is its handler with the exception handlers around it; \<open>Backend_App\<close> puts the middleware around both.\<close>

definition route_get_devices :: "'s ring_adapter \<Rightarrow> 's \<Rightarrow> reply option \<times> 's" where
  "route_get_devices A s = respond (handle_get_devices A s)"

definition route_get_events :: "'s ring_adapter \<Rightarrow> string \<Rightarrow> int option \<Rightarrow> 's \<Rightarrow> reply option \<times> 's" where
  "route_get_events A device_id limit s = respond (handle_get_events A device_id limit s)"

definition route_download_snapshot :: "'s ring_adapter \<Rightarrow> string \<Rightarrow> 's \<Rightarrow> reply option \<times> 's" where
  "route_download_snapshot A device_id s = respond (handle_download_snapshot A device_id s)"

definition route_download_video :: "'s ring_adapter \<Rightarrow> string \<Rightarrow> 's \<Rightarrow> reply option \<times> 's" where
  "route_download_video A device_id s = respond (handle_download_video A device_id s)"

definition route_create_whep_session :: "'s ring_adapter \<Rightarrow> string \<Rightarrow> string \<Rightarrow> 's \<Rightarrow> reply option \<times> 's" where
  "route_create_whep_session A device_id body s = respond (handle_create_whep_session A device_id body s)"

definition route_delete_session :: "'s ring_adapter \<Rightarrow> string \<Rightarrow> 's \<Rightarrow> reply option \<times> 's" where
  "route_delete_session A session_id s = respond (handle_delete_session A session_id s)"

lemma respond_cases:
  assumes "respond (r, s) = (Some x, s')"
  shows "s' = s \<and> ((\<exists>e. r = Inl (Adapter e) \<and> x = ring_adapter_error_handler e) \<or> r = Inr x \<or>
    (\<exists>e. r = Inl e \<and> x = global_exception_handler))"
  using assms by (auto simp: respond_def split: sum.splits exc.splits)

lemma err_http_status_not_201: "err_http_status e \<noteq> 201"
  by (cases e) auto

context ring_adapter_laws begin

text \<open>A 201 to a WHEP request carries the location of the session, built from its id.\<close>

lemma whep_201_location:
  assumes "route_create_whep_session A d body s = (Some r, s')" and "rp_status r = 201"
  shows "\<exists>i. rp_location r = Some (session_location i)"
proof -
  obtain x t where run: "andThen
     (if utf8_valid body then ra_create_stream_session A d body else throw UnicodeDecodeError)
     (\<lambda>result. ret \<lparr>rp_status = 201, rp_body = Raw ''application/sdp'' (sr_sdp_answer result),
        rp_location = Some (sr_location result)\<rparr>) s = (x, t)" (is "?m = _") by (cases ?m)
  with assms(1) have "respond (x, t) = (Some r, s')" by (simp add: route_create_whep_session_def)
  from respond_cases [OF this] assms(2) have "x = Inr r"
    by (auto simp: global_exception_handler_def err_http_status_not_201)
  with run show ?thesis
    by (auto simp: andThen_Inr_iff location split: if_splits)
qed

lemma events_reply_bounded:
  assumes "route_get_events A d limit s = (Some r, s')" and "rp_body r = Json_Events evs"
    and "0 \<le> (case limit of None \<Rightarrow> 10 | Some l \<Rightarrow> l)"
  shows "int (length evs) \<le> (case limit of None \<Rightarrow> 10 | Some l \<Rightarrow> l) \<and> (\<forall>e \<in> set evs. er_device_id e = d)"
proof -
  let ?l = "case limit of None \<Rightarrow> 10 | Some l \<Rightarrow> l"
  obtain x t where run: "ra_list_events A d ?l s = (x, t)" by (cases "ra_list_events A d ?l s")
  with assms(1,2) have "x = Inr evs"
    by (cases x) (auto simp: route_get_events_def json_reply_def respond_def global_exception_handler_def
        split: exc.splits)
  with run events_bounded events_of_device assms(3) show ?thesis by blast
qed

end

end
