(* ===== verification/Mock_Adapter.thy ===== *)
theory Mock_Adapter imports Ring_Adapter begin

text \<open>
  The adapter for tests, \<open>app/adapters/mock.py\<close>: canned devices, events and media, and a WHEP proxy to a
  local mediamtx with a stub answer when it cannot be reached. \<open>mock_env\<close> holds the outside: the time,
  its ISO notation, the ids drawn, and the answers of mediamtx; a transport failure is a failure to
  connect when \<open>me_connect_failed\<close> says so.
\<close>

record mock_env =
  me_now :: real
  me_iso :: "real \<Rightarrow> string"
  me_uuid :: "nat \<Rightarrow> string"
  me_http :: "nat \<Rightarrow> http_outcome"
  me_connect_failed :: "nat \<Rightarrow> bool"

record mock_state =
  mk_whep_url :: string
  mk_created :: nat

definition mock_init :: "string \<Rightarrow> mock_state" where
  "mock_init url = \<lparr>mk_whep_url = url, mk_created = 0\<rparr>"

definition mock_device :: "string \<Rightarrow> string \<Rightarrow> string \<Rightarrow> string \<Rightarrow> power_source \<Rightarrow> device_status \<Rightarrow> device_resource" where
  "mock_device i kind name firmware source status = \<lparr>dr_id = i, dr_type = kind, dr_attributes =
     \<lparr>da_name = name, da_model = kind, da_firmware_version = firmware, da_power_source = source, da_status = status\<rparr>\<rparr>"

definition MOCK_DEVICES :: "device_resource list" where
  "MOCK_DEVICES =
    [mock_device ''device_front_door'' ''doorbell_pro'' ''Front Door'' ''3.48.42'' PS_Hardwired DS_Online,
     mock_device ''device_backyard'' ''spotlight_cam'' ''Backyard Camera'' ''3.46.10'' PS_Battery DS_Online,
     mock_device ''device_garage'' ''stickup_cam'' ''Garage Cam'' ''3.44.5'' PS_Hardwired DS_Online,
     mock_device ''device_indoor'' ''indoor_cam'' ''Living Room'' ''3.50.1'' PS_Hardwired DS_Offline]"

definition pad3 :: "nat \<Rightarrow> string" where
  "pad3 n = (let s = nat_str n in replicate (3 - length s) (CHR ''0'') @ s)"

definition mock_event_types :: "event_type list" where
  "mock_event_types = [ET_Motion, ET_Ding, ET_Motion, ET_Motion, ET_Ding]"

definition generate_mock_event :: "mock_env \<Rightarrow> string \<Rightarrow> nat \<Rightarrow> event_resource" where
  "generate_mock_event env device_id i = \<lparr>er_id = ''evt_'' @ device_id @ ''_'' @ pad3 i, er_device_id = device_id,
     er_type = mock_event_types ! (i mod length mock_event_types),
     er_created_at = me_iso env (me_now env - (3600 * real i + 60 * (7 * real i))),
     er_duration = 15 + 3 * int i\<rparr>"

definition generate_mock_events :: "mock_env \<Rightarrow> string \<Rightarrow> int \<Rightarrow> event_resource list" where
  "generate_mock_events env device_id count = map (generate_mock_event env device_id) [0..<nat count]"

definition BLUE_PIXEL_PNG :: "nat list" where
  "BLUE_PIXEL_PNG = [137,80,78,71,13,10,26,10,0,0,0,13,73,72,68,82,0,0,0,1,0,0,0,1,8,2,0,0,0,144,119,83,222,0,
     0,0,12,73,68,65,84,120,156,99,248,15,0,0,1,1,0,5,24,216,78,0,0,0,0,73,69,78,68,174,66,96,130]"

definition HLS_TEST_STREAM_URL :: string where
  "HLS_TEST_STREAM_URL =
     ''https://devstreaming-cdn.apple.com/videos/streaming/examples/bipbop_16x9/bipbop_16x9_variant.m3u8''"

definition crlf_lines :: "string list \<Rightarrow> string" where
  "crlf_lines ls = concat (map (\<lambda>l. l @ [char_of (13::nat), char_of (10::nat)]) ls)"

definition STUB_SDP_ANSWER :: string where
  "STUB_SDP_ANSWER = crlf_lines [''v=0'', ''o=- 0 0 IN IP4 127.0.0.1'', ''s=-'', ''t=0 0'', ''a=group:BUNDLE 0'',
     ''m=video 9 UDP/TLS/RTP/SAVPF 96'', ''c=IN IP4 0.0.0.0'', ''a=rtcp:9 IN IP4 0.0.0.0'', ''a=ice-ufrag:mock'',
     ''a=ice-pwd:mockmockmockmockmockmock'',
     ''a=fingerprint:sha-256 '' @ join '':'' (replicate 32 ''00''),
     ''a=setup:active'', ''a=mid:0'', ''a=recvonly'', ''a=rtpmap:96 H264/90000'']"

definition mock_list_devices :: "(mock_state, exc, device_resource list) prog" where
  "mock_list_devices = ret MOCK_DEVICES"

definition mock_list_events :: "mock_env \<Rightarrow> string \<Rightarrow> int \<Rightarrow> (mock_state, exc, event_resource list) prog" where
  "mock_list_events env device_id limit = ret (generate_mock_events env device_id (min limit 50))"

definition mock_download_snapshot :: "string \<Rightarrow> (mock_state, exc, snapshot_payload) prog" where
  "mock_download_snapshot device_id = ret \<lparr>sn_content = map char_of BLUE_PIXEL_PNG, sn_content_type = ''image/png''\<rparr>"

definition mock_download_video :: "string \<Rightarrow> string option \<Rightarrow> (mock_state, exc, string) prog" where
  "mock_download_video device_id event_id = ret HLS_TEST_STREAM_URL"

definition mock_create_stream_session :: "mock_env \<Rightarrow> string \<Rightarrow> string \<Rightarrow>
    (mock_state, exc, stream_session_result) prog" where
  "mock_create_stream_session env device_id sdp_offer s =
     (let n = mk_created s; session_id = me_uuid env n; s' = s\<lparr>mk_created := Suc n\<rparr>;
          result = (\<lambda>answer. \<lparr>sr_sdp_answer = answer, sr_location = session_location session_id, sr_session_id = session_id\<rparr>)
      in case me_http env n of
           Timed_Out \<Rightarrow> (Inr (result STUB_SDP_ANSWER), s')
         | Transport_Failed \<Rightarrow> if me_connect_failed env n then (Inr (result STUB_SDP_ANSWER), s') else (Inl TransportError, s')
         | Responded r \<Rightarrow> if resp_status r = 201 then
             (case decode_body r of Inl e \<Rightarrow> (Inl e, s') | Inr answer \<Rightarrow> (Inr (result answer), s'))
             else (Inr (result STUB_SDP_ANSWER), s'))"

definition mock_delete_stream_session :: "string \<Rightarrow> (mock_state, exc, unit) prog" where
  "mock_delete_stream_session session_id = ret ()"

definition mock_adapter :: "mock_env \<Rightarrow> mock_state ring_adapter" where
  "mock_adapter env = \<lparr>ra_list_devices = mock_list_devices, ra_list_events = mock_list_events env,
     ra_download_snapshot = mock_download_snapshot, ra_download_video = mock_download_video,
     ra_create_stream_session = mock_create_stream_session env,
     ra_delete_stream_session = mock_delete_stream_session, ra_mode = ''mock''\<rparr>"

interpretation mock: ring_adapter_laws "mock_adapter env" for env
proof
  show "int (length evs) \<le> limit"
    if "ra_list_events (mock_adapter env) d limit s = (Inr evs, s')" "0 \<le> limit" for d limit s evs s'
    using that by (auto simp: mock_adapter_def mock_list_events_def generate_mock_events_def)
  show "er_device_id e = d"
    if "ra_list_events (mock_adapter env) d limit s = (Inr evs, s')" "e \<in> set evs" for d limit s evs s' e
    using that
    by (auto simp: mock_adapter_def mock_list_events_def generate_mock_events_def generate_mock_event_def)
  show "dr_type x = da_model (dr_attributes x)"
    if "ra_list_devices (mock_adapter env) s = (Inr ds, s')" "x \<in> set ds" for s ds s' x
    using that by (auto simp: mock_adapter_def mock_list_devices_def MOCK_DEVICES_def mock_device_def)
  show "sr_location r = session_location (sr_session_id r)"
    if "ra_create_stream_session (mock_adapter env) d sdp s = (Inr r, s')" for d sdp s r s'
    using that
    by (auto simp: mock_adapter_def mock_create_stream_session_def Let_def
        split: http_outcome.splits if_splits sum.splits)
qed (simp add: mock_adapter_def)

end
