(* ===== verification/Rate_Limit.thy ===== *)
theory Rate_Limit imports Adapter_Errors begin

text \<open>
  The outbound rate limiter, \<open>app/adapters/rate_limit.py\<close>: \<open>RateLimitGovernor\<close>.

  \<open>acquire_locked\<close> is one pass through the critical section of \<open>acquire\<close>; the lock makes it
  atomic. \<open>acquire_run\<close> is the whole loop of one caller that nobody competes with, whose sleeps
  take exactly the time asked for. \<open>gov_step\<close> is any number of callers interleaved, with a clock
  that moves forward as it likes and sleeps that may wake at any time.
\<close>

section \<open>The governor\<close>

definition WINDOW_SECONDS :: real where
  "WINDOW_SECONDS = 60"

record governor =
  gov_max :: int
  gov_wait :: real
  gov_events :: "real list"

definition governor_init :: "int \<Rightarrow> real \<Rightarrow> exc + governor" where
  "governor_init max_per_minute queue_wait_seconds =
     (if max_per_minute < 1 then Inl ValueError
      else if queue_wait_seconds < 0 then Inl ValueError
      else Inr \<lparr>gov_max = max_per_minute, gov_wait = queue_wait_seconds, gov_events = []\<rparr>)"

definition trim_locked :: "real \<Rightarrow> governor \<Rightarrow> governor" where
  "trim_locked now g =
     (let cutoff = now - WINDOW_SECONDS
      in g\<lparr>gov_events := dropWhile (\<lambda>t. t \<le> cutoff) (gov_events g)\<rparr>)"

text \<open>The outcome of the critical section: a slot was taken, or the window is full.\<close>

datatype slot = Admitted | Full real

definition acquire_locked :: "real \<Rightarrow> governor \<Rightarrow> (exc + slot) \<times> governor" where
  "acquire_locked now g =
     (let g' = trim_locked now g
      in if int (length (gov_events g')) < gov_max g'
         then (Inr Admitted, g'\<lparr>gov_events := gov_events g' @ [now]\<rparr>)
         else (case gov_events g' of
                 [] \<Rightarrow> (Inl IndexError, g')
               | oldest # _ \<Rightarrow> (Inr (Full oldest), g')))"

definition sleep_for :: "real \<Rightarrow> real \<Rightarrow> real \<Rightarrow> real" where
  "sleep_for oldest deadline now = max 0 (min (oldest + WINDOW_SECONDS) deadline - now)"

definition current_rate :: "real \<Rightarrow> governor \<Rightarrow> nat \<times> governor" where
  "current_rate now g = (let g' = trim_locked now g in (length (gov_events g'), g'))"

text \<open>
  How \<open>acquire\<close> ends: with a slot at a time, or with \<open>RateLimitedError\<close> at a time. \<open>None\<close> is a
  loop that has not ended within \<open>fuel\<close> rounds.
\<close>

datatype acquire_end = Acquired real | Rejected exc real

fun acquire_run :: "nat \<Rightarrow> real \<Rightarrow> real \<Rightarrow> governor \<Rightarrow> (acquire_end \<times> governor) option" where
  "acquire_run 0 deadline now g = None"
| "acquire_run (Suc fuel) deadline now g =
     (case acquire_locked now g of
        (Inl e, g') \<Rightarrow> Some (Rejected e now, g')
      | (Inr Admitted, g') \<Rightarrow> Some (Acquired now, g')
      | (Inr (Full oldest), g') \<Rightarrow>
          if now \<ge> deadline then Some (Rejected (Adapter RateLimitedError) now, g')
          else acquire_run fuel deadline (now + sleep_for oldest deadline now) g')"

definition acquire :: "nat \<Rightarrow> real \<Rightarrow> governor \<Rightarrow> (acquire_end \<times> governor) option" where
  "acquire fuel now g = acquire_run fuel (now + gov_wait g) now g"

section \<open>Interleaved callers\<close>

text \<open>
  Where a caller stands: not started, about to enter the critical section, turned away and about
  to read the clock for its deadline, asleep, or finished either way.
\<close>

datatype caller = Outside | Trying real | TurnedAway real real | Asleep real | Got real | GaveUp real

record gov_sys =
  gs_now :: real
  gs_gov :: governor
  gs_callers :: "nat \<Rightarrow> caller"
  gs_log :: "real list"

inductive gov_step :: "gov_sys \<Rightarrow> gov_sys \<Rightarrow> bool" where
  tick: "gs_now s \<le> t \<Longrightarrow> gov_step s (s\<lparr>gs_now := t\<rparr>)"
| enter: "gs_callers s i = Outside \<Longrightarrow>
     gov_step s (s\<lparr>gs_callers := (gs_callers s)(i := Trying (gs_now s + gov_wait (gs_gov s)))\<rparr>)"
| admit: "gs_callers s i = Trying d \<Longrightarrow> acquire_locked (gs_now s) (gs_gov s) = (Inr Admitted, g) \<Longrightarrow>
     gov_step s (s\<lparr>gs_gov := g, gs_callers := (gs_callers s)(i := Got (gs_now s)),
       gs_log := gs_log s @ [gs_now s]\<rparr>)"
| full: "gs_callers s i = Trying d \<Longrightarrow> acquire_locked (gs_now s) (gs_gov s) = (Inr (Full old), g) \<Longrightarrow>
     gov_step s (s\<lparr>gs_gov := g, gs_callers := (gs_callers s)(i := TurnedAway d old)\<rparr>)"
| give_up: "gs_callers s i = TurnedAway d old \<Longrightarrow> gs_now s \<ge> d \<Longrightarrow>
     gov_step s (s\<lparr>gs_callers := (gs_callers s)(i := GaveUp (gs_now s))\<rparr>)"
| sleep: "gs_callers s i = TurnedAway d old \<Longrightarrow> gs_now s < d \<Longrightarrow>
     gov_step s (s\<lparr>gs_callers := (gs_callers s)(i := Asleep d)\<rparr>)"
| wake: "gs_callers s i = Asleep d \<Longrightarrow>
     gov_step s (s\<lparr>gs_callers := (gs_callers s)(i := Trying d)\<rparr>)"
| leave: "gs_callers s i = Got t \<or> gs_callers s i = GaveUp t \<Longrightarrow>
     gov_step s (s\<lparr>gs_callers := (gs_callers s)(i := Outside)\<rparr>)"
| rate: "current_rate (gs_now s) (gs_gov s) = (n, g) \<Longrightarrow> gov_step s (s\<lparr>gs_gov := g\<rparr>)"

definition gov_sys_init :: "real \<Rightarrow> governor \<Rightarrow> gov_sys" where
  "gov_sys_init now g = \<lparr>gs_now = now, gs_gov = g, gs_callers = (\<lambda>_. Outside), gs_log = []\<rparr>"

inductive gov_reachable :: "int \<Rightarrow> real \<Rightarrow> gov_sys \<Rightarrow> bool" for m w where
  start: "governor_init m w = Inr g \<Longrightarrow> gov_reachable m w (gov_sys_init now g)"
| step: "gov_reachable m w s \<Longrightarrow> gov_step s s' \<Longrightarrow> gov_reachable m w s'"

text \<open>The admissions of a log inside the window that ends at \<open>t\<close>: \<open>{t - 60 <.. t}\<close>.\<close>

definition in_window :: "real \<Rightarrow> real \<Rightarrow> bool" where
  "in_window t e \<longleftrightarrow> t - WINDOW_SECONDS < e \<and> e \<le> t"

definition window_count :: "real \<Rightarrow> real list \<Rightarrow> nat" where
  "window_count t es = length (filter (in_window t) es)"

section \<open>The window and the list of events\<close>

lemma dropWhile_sorted_filter:
  "sorted xs \<Longrightarrow> dropWhile (\<lambda>t. t \<le> c) xs = filter (\<lambda>t. c < (t::real)) xs"
proof (induction xs)
  case (Cons x xs)
  then have "c < x \<Longrightarrow> filter (\<lambda>t. c < t) xs = xs" by (intro filter_True) auto
  with Cons show ?case by auto
qed simp

lemma filter_above_above:
  "c \<le> (d::real) \<Longrightarrow> filter (\<lambda>t. c < t \<and> d < t) xs = filter (\<lambda>t. d < t) xs"
  by (rule filter_cong) auto

lemma length_filter_le_imp:
  "(\<And>x. P x \<Longrightarrow> Q x) \<Longrightarrow> length (filter P xs) \<le> length (filter Q xs)"
  by (induction xs) (auto simp: le_SucI)

lemma trim_locked_fields [simp]:
  "gov_max (trim_locked now g) = gov_max g" "gov_wait (trim_locked now g) = gov_wait g"
  by (simp_all add: trim_locked_def Let_def)

lemma trim_locked_events:
  "sorted (gov_events g) \<Longrightarrow>
     gov_events (trim_locked now g) = filter (\<lambda>t. now - WINDOW_SECONDS < t) (gov_events g)"
  by (simp add: trim_locked_def Let_def dropWhile_sorted_filter)

text \<open>
  What every reachable governor satisfies against the log of admissions: the log is ordered and
  in the past, and the events kept are the log's entries above a cutoff no later than the
  window's start.
\<close>

definition gov_tracks :: "real \<Rightarrow> real list \<Rightarrow> governor \<Rightarrow> bool" where
  "gov_tracks now adm g \<longleftrightarrow> sorted adm \<and> (\<forall>e \<in> set adm. e \<le> now) \<and>
     (\<exists>c \<le> now - WINDOW_SECONDS. gov_events g = filter (\<lambda>t. c < t) adm)"

definition gov_bounded :: "int \<Rightarrow> real list \<Rightarrow> bool" where
  "gov_bounded m adm \<longleftrightarrow> (\<forall>t. int (window_count t adm) \<le> m)"

lemma gov_tracks_trim:
  assumes "gov_tracks now adm g"
  shows "gov_events (trim_locked now g) = filter (\<lambda>t. now - WINDOW_SECONDS < t) adm"
proof -
  from assms obtain c where c: "c \<le> now - WINDOW_SECONDS" "gov_events g = filter (\<lambda>t. c < t) adm"
    and "sorted adm" by (auto simp: gov_tracks_def)
  then show ?thesis by (simp add: trim_locked_events filter_above_above sorted_wrt_filter)
qed

lemma gov_tracks_trim_tracks: "gov_tracks now adm g \<Longrightarrow> gov_tracks now adm (trim_locked now g)"
  using gov_tracks_trim [of now adm g] by (auto simp: gov_tracks_def)

lemma gov_tracks_later: "gov_tracks now adm g \<Longrightarrow> now \<le> t \<Longrightarrow> gov_tracks t adm g"
  unfolding gov_tracks_def by (smt (verit) diff_right_mono)

lemma gov_tracks_admit:
  assumes "gov_tracks now adm g" and "acquire_locked now g = (Inr Admitted, g')"
  shows "gov_tracks now (adm @ [now]) g'"
proof -
  from assms(2) have g': "gov_events g' = gov_events (trim_locked now g) @ [now]"
    by (auto simp: acquire_locked_def Let_def split: if_splits list.splits)
  have w: "now - WINDOW_SECONDS < now" by (simp add: WINDOW_SECONDS_def)
  from g' gov_tracks_trim [OF assms(1)]
  have "gov_events g' = filter (\<lambda>t. now - WINDOW_SECONDS < t) (adm @ [now])" using w by simp
  then have "\<exists>c \<le> now - WINDOW_SECONDS. gov_events g' = filter (\<lambda>t. c < t) (adm @ [now])"
    by blast
  with assms(1) show ?thesis by (simp add: gov_tracks_def sorted_append)
qed

lemma gov_bounded_admit:
  assumes tracks: "gov_tracks now adm g" and bounded: "gov_bounded (gov_max g) adm"
    and admit: "acquire_locked now g = (Inr Admitted, g')"
  shows "gov_bounded (gov_max g) (adm @ [now])"
  unfolding gov_bounded_def
proof
  fix t
  from admit have room: "int (length (gov_events (trim_locked now g))) < gov_max g"
    by (auto simp: acquire_locked_def Let_def split: if_splits list.splits)
  show "int (window_count t (adm @ [now])) \<le> gov_max g"
  proof (cases "in_window t now")
    case True
    then have "in_window t e \<Longrightarrow> now - WINDOW_SECONDS < e" for e
      by (auto simp: in_window_def)
    then have "window_count t adm \<le> length (gov_events (trim_locked now g))"
      unfolding window_count_def gov_tracks_trim [OF tracks] by (rule length_filter_le_imp)
    with room True show ?thesis by (simp add: window_count_def)
  next
    case False
    with bounded show ?thesis by (simp add: window_count_def gov_bounded_def)
  qed
qed

section \<open>Reachable states of interleaved callers\<close>

definition gov_inv :: "int \<Rightarrow> real \<Rightarrow> gov_sys \<Rightarrow> bool" where
  "gov_inv m w s \<longleftrightarrow> gov_max (gs_gov s) = m \<and> gov_wait (gs_gov s) = w \<and>
     gov_tracks (gs_now s) (gs_log s) (gs_gov s) \<and> gov_bounded m (gs_log s)"

lemma acquire_locked_keeps:
  assumes "acquire_locked now g = (r, g')"
  shows "gov_max g' = gov_max g \<and> gov_wait g' = gov_wait g"
  using assms by (auto simp: acquire_locked_def Let_def split: if_splits list.splits)

lemma acquire_locked_full:
  "acquire_locked now g = (Inr (Full old), g') \<Longrightarrow> g' = trim_locked now g"
  by (auto simp: acquire_locked_def Let_def split: if_splits list.splits)

lemma gov_inv_init: "governor_init m w = Inr g \<Longrightarrow> gov_inv m w (gov_sys_init now g)"
  by (auto simp: governor_init_def gov_inv_def gov_sys_init_def gov_tracks_def gov_bounded_def
      window_count_def split: if_splits)

lemma gov_inv_step: "gov_step s s' \<Longrightarrow> gov_inv m w s \<Longrightarrow> gov_inv m w s'"
proof (induction rule: gov_step.induct)
  case (tick s t)
  then show ?case by (auto simp: gov_inv_def intro: gov_tracks_later)
next
  case (admit s i d g)
  then show ?case
    by (auto simp: gov_inv_def dest: acquire_locked_keeps intro: gov_tracks_admit gov_bounded_admit)
next
  case (full s i d old g)
  then show ?case
    by (auto simp: gov_inv_def dest!: acquire_locked_full intro: gov_tracks_trim_tracks)
next
  case (rate s n g)
  then show ?case
    by (auto simp: gov_inv_def current_rate_def Let_def intro: gov_tracks_trim_tracks)
qed (simp_all add: gov_inv_def)

lemma gov_reachable_inv: "gov_reachable m w s \<Longrightarrow> gov_inv m w s"
  by (induction rule: gov_reachable.induct) (auto intro: gov_inv_init gov_inv_step)

section \<open>One caller alone\<close>

text \<open>A governor between calls: events in order, in the past, and no more than the ceiling.\<close>

definition gov_ok :: "real \<Rightarrow> governor \<Rightarrow> bool" where
  "gov_ok now g \<longleftrightarrow> 1 \<le> gov_max g \<and> 0 \<le> gov_wait g \<and> sorted (gov_events g) \<and>
     (\<forall>e \<in> set (gov_events g). e \<le> now) \<and> int (length (gov_events g)) \<le> gov_max g"

definition live_events :: "real \<Rightarrow> governor \<Rightarrow> real list" where
  "live_events now g = filter (\<lambda>t. now - WINDOW_SECONDS < t) (gov_events g)"

lemma gov_ok_live:
  assumes "gov_ok now g"
  shows "gov_events (trim_locked now g) = live_events now g"
    and "int (length (live_events now g)) \<le> gov_max g"
  using assms length_filter_le [of "\<lambda>t. now - WINDOW_SECONDS < t" "gov_events g"]
  by (auto simp: gov_ok_def live_events_def trim_locked_events simp del: length_filter_le)

lemma acquire_locked_room:
  "gov_ok now g \<Longrightarrow> int (length (live_events now g)) < gov_max g \<Longrightarrow>
     acquire_locked now g = (Inr Admitted, g\<lparr>gov_events := live_events now g @ [now]\<rparr>)"
  using gov_ok_live(1) [of now g] by (simp add: acquire_locked_def Let_def trim_locked_def)

lemma acquire_locked_no_room:
  assumes "gov_ok now g" and "\<not> int (length (live_events now g)) < gov_max g"
  shows "acquire_locked now g = (Inr (Full (hd (live_events now g))), g\<lparr>gov_events := live_events now g\<rparr>)"
    and "live_events now g \<noteq> []" and "int (length (live_events now g)) = gov_max g"
proof -
  from assms show "live_events now g \<noteq> []" by (auto simp: gov_ok_def)
  then show "acquire_locked now g = (Inr (Full (hd (live_events now g))), g\<lparr>gov_events := live_events now g\<rparr>)"
    using assms gov_ok_live(1) [of now g]
    by (auto simp: acquire_locked_def Let_def trim_locked_def split: list.splits)
  show "int (length (live_events now g)) = gov_max g"
    using assms gov_ok_live(2) [of now g] by simp
qed

text \<open>The governor after a full window was seen, at the time the caller wakes up.\<close>

lemma gov_ok_wake:
  "gov_ok now g \<Longrightarrow> now \<le> t \<Longrightarrow> gov_ok t (g\<lparr>gov_events := live_events now g\<rparr>)"
  using gov_ok_live(2) [of now g]
  by (fastforce simp: gov_ok_def live_events_def sorted_wrt_filter)

lemma live_events_wake:
  assumes "sorted (gov_events g)" and "live_events now g = e # es" and "now \<le> t"
    and t: "t \<le> e + WINDOW_SECONDS"
  shows "live_events t (g\<lparr>gov_events := live_events now g\<rparr>) =
    (if t < e + WINDOW_SECONDS then e # es else filter (\<lambda>x. e < x) es)"
proof -
  have "sorted (e # es)"
    using assms(1,2) by (metis live_events_def sorted_wrt_filter)
  then have "\<forall>x \<in> set es. e \<le> x" by simp
  moreover have "live_events t (g\<lparr>gov_events := live_events now g\<rparr>) =
      filter (\<lambda>x. t - WINDOW_SECONDS < x) (e # es)"
    unfolding live_events_def [of t] by (simp add: assms(2))
  ultimately show ?thesis
    using t by (auto intro!: filter_True filter_cong)
qed

definition acquire_alone_end :: "real \<Rightarrow> governor \<Rightarrow> acquire_end" where
  "acquire_alone_end now g =
     (let live = live_events now g; deadline = now + gov_wait g
      in if int (length live) < gov_max g then Acquired now
         else if hd live + WINDOW_SECONDS \<le> deadline then Acquired (hd live + WINDOW_SECONDS)
         else Rejected (Adapter RateLimitedError) deadline)"

lemma acquire_alone:
  assumes ok: "gov_ok now g"
  shows "\<exists>g'. acquire (Suc (Suc n)) now g = Some (acquire_alone_end now g, g')"
proof (cases "int (length (live_events now g)) < gov_max g")
  case True
  with ok show ?thesis by (simp add: acquire_def acquire_locked_room acquire_alone_end_def Let_def)
next
  case False
  note full = acquire_locked_no_room [OF ok False]
  then obtain e es where live: "live_events now g = e # es" by (cases "live_events now g") auto
  let ?d = "now + gov_wait g" and ?g = "g\<lparr>gov_events := live_events now g\<rparr>"
  let ?t = "now + sleep_for e ?d now"
  have "e \<in> set (live_events now g)" using live by simp
  then have e: "now < e + WINDOW_SECONDS" by (auto simp: live_events_def)
  have wait: "0 \<le> gov_wait g" and sorted: "sorted (gov_events g)" using ok by (auto simp: gov_ok_def)
  show ?thesis
  proof (cases "gov_wait g = 0")
    case True
    with e full live False show ?thesis
      by (simp add: acquire_def acquire_alone_end_def Let_def)
  next
    case waiting: False
    with wait have pos: "\<not> ?d \<le> now" by simp
    from e wait have t: "?t = min (e + WINDOW_SECONDS) ?d" and "now \<le> ?t"
      by (auto simp: sleep_for_def)
    then have ok': "gov_ok ?t ?g" using gov_ok_wake [OF ok] by blast
    from t have "?t \<le> e + WINDOW_SECONDS" by simp
    note live' = live_events_wake [OF sorted live \<open>now \<le> ?t\<close> this]
    show ?thesis
    proof (cases "e + WINDOW_SECONDS \<le> ?d")
      case True
      with t have t': "?t = e + WINDOW_SECONDS" by simp
      then have "live_events ?t ?g = filter (\<lambda>x. e < x) es" using live' by simp
      then have "int (length (live_events ?t ?g)) < gov_max ?g"
        using full(3) live length_filter_le [of "\<lambda>x. e < x" es] by (simp del: length_filter_le)
      from acquire_locked_room [OF ok' this] show ?thesis
        using pos True full(1) live t' False
        by (simp add: acquire_def acquire_alone_end_def Let_def)
    next
      case late: False
      with t have t': "?t = ?d" by simp
      with late live' have again: "live_events ?t ?g = e # es" by simp
      then have "\<not> int (length (live_events ?t ?g)) < gov_max ?g" using full(3) live by simp
      from acquire_locked_no_room(1) [OF ok' this] show ?thesis
        using pos late full(1) live t' False again
        by (simp add: acquire_def acquire_alone_end_def Let_def)
    qed
  qed
qed

section \<open>Properties\<close>

text \<open>C1: However many callers compete for the governor and however the clock and their sleeps
  behave, every half-open window of 60 seconds contains at most \<open>max_per_minute\<close> successful
  \<open>acquire()\<close> calls, over the whole history of the governor.\<close>

theorem governor_rolling_window:
  assumes "gov_reachable m w s"
  shows "int (window_count t (gs_log s)) \<le> m"
  using gov_reachable_inv [OF assms] by (simp add: gov_inv_def gov_bounded_def)

lemma gov_reachable_example:
  "gov_reachable 1 5 (gov_sys_init 0 \<lparr>gov_max = 1, gov_wait = 5, gov_events = []\<rparr>
     \<lparr>gs_callers := (\<lambda>_. Outside)(0 := Trying 5, 0 := Got 0), gs_gov := \<lparr>gov_max = 1, gov_wait = 5, gov_events = [0]\<rparr>,
      gs_log := [0]\<rparr>)" (is "gov_reachable 1 5 ?s2")
proof -
  let ?g = "\<lparr>gov_max = 1, gov_wait = 5, gov_events = []\<rparr>"
  let ?s0 = "gov_sys_init 0 ?g"
  let ?s1 = "?s0\<lparr>gs_callers := (gs_callers ?s0)(0 := Trying (gs_now ?s0 + gov_wait (gs_gov ?s0)))\<rparr>"
  have "gov_reachable 1 5 ?s0" by (rule gov_reachable.start) (simp add: governor_init_def)
  then have "gov_reachable 1 5 ?s1"
    by (rule gov_reachable.step) (rule gov_step.enter, simp add: gov_sys_init_def)
  then show ?thesis
  proof (rule gov_reachable.step)
    have "gov_step ?s1 (?s1\<lparr>gs_gov := ?g\<lparr>gov_events := [0]\<rparr>, gs_callers := (gs_callers ?s1)(0 := Got (gs_now ?s1)),
       gs_log := gs_log ?s1 @ [gs_now ?s1]\<rparr>)"
      by (rule gov_step.admit)
        (auto simp: gov_sys_init_def acquire_locked_def trim_locked_def)
    then show "gov_step ?s1 ?s2" by (simp add: gov_sys_init_def)
  qed
qed

theorem governor_rolling_window_witness:
  "window_count 30 [0] = 1 \<and> int (window_count 30 [0]) \<le> 1"
  using governor_rolling_window [OF gov_reachable_example, of 30]
  by (simp add: window_count_def in_window_def WINDOW_SECONDS_def)

text \<open>In every reachable state \<open>current_rate()\<close> returns exactly the number of slots granted in
  the 60 seconds before the call, although the governor forgets older events.\<close>

theorem current_rate_is_window_count:
  assumes "gov_reachable m w s"
  shows "fst (current_rate (gs_now s) (gs_gov s)) = window_count (gs_now s) (gs_log s)"
proof -
  from gov_reachable_inv [OF assms] have tracks: "gov_tracks (gs_now s) (gs_log s) (gs_gov s)"
    by (simp add: gov_inv_def)
  then have "filter (in_window (gs_now s)) (gs_log s) =
      filter (\<lambda>t. gs_now s - WINDOW_SECONDS < t) (gs_log s)"
    by (intro filter_cong) (auto simp: in_window_def gov_tracks_def)
  then show ?thesis
    using gov_tracks_trim [OF tracks] by (simp add: current_rate_def Let_def window_count_def)
qed

theorem current_rate_is_window_count_witness:
  "fst (current_rate 0 \<lparr>gov_max = 1, gov_wait = 5, gov_events = [0]\<rparr>) = 1"
  using current_rate_is_window_count [OF gov_reachable_example]
  by (simp add: gov_sys_init_def window_count_def in_window_def WINDOW_SECONDS_def)

text \<open>A caller that meets no competition is answered within two passes of the loop: at once
  when the window has room, at the moment the oldest event leaves the window when that is within
  the queue budget, and otherwise with \<open>RateLimitedError\<close> exactly when the budget is used up,
  never earlier.\<close>

theorem acquire_alone_outcome:
  assumes "gov_ok now g"
  shows "\<exists>g'. acquire (Suc (Suc n)) now g =
    Some (if int (length (live_events now g)) < gov_max g then Acquired now
          else if hd (live_events now g) + 60 \<le> now + gov_wait g
            then Acquired (hd (live_events now g) + 60)
          else Rejected (Adapter RateLimitedError) (now + gov_wait g), g')"
  using acquire_alone [OF assms, of n] unfolding acquire_alone_end_def Let_def WINDOW_SECONDS_def .

theorem acquire_alone_outcome_witness:
  "\<exists>g'. acquire 2 50 \<lparr>gov_max = 1, gov_wait = 20, gov_events = [0]\<rparr> = Some (Acquired 60, g')"
proof -
  have "gov_ok 50 \<lparr>gov_max = 1, gov_wait = 20, gov_events = [0]\<rparr>" by (simp add: gov_ok_def)
  from acquire_alone_outcome [OF this, of 0] show ?thesis
    by (simp add: live_events_def WINDOW_SECONDS_def numeral_2_eq_2)
qed

end
