(* ===== verification/Token_Storage.thy ===== *)
theory Token_Storage imports Adapter_Errors "HOL-Library.List_Lexorder" "HOL-Library.Char_ord" begin

text \<open>
  The two SQLite stores of the backend and the encryption they share: \<open>app/data/encryptor.py\<close>,
  \<open>app/data/refresh_token_store.py\<close> and \<open>app/data/token_store.py\<close>.

  A table is a map from its primary key to its row (the event table a list in insertion order);
  an upsert is the map update its SQL text describes, and a transaction that is rolled back leaves
  the tables as they were. The cipher (the package \<open>cryptography\<close>) is the field
  \<open>fernet\<close> of a store: encryption may draw fresh randomness at every call, the argument of
  type nat. \<open>fernet_ok\<close> is what its documentation promises. The time stamps are arguments.
\<close>

section \<open>Encryption at rest\<close>

record fernet =
  fernet_encrypt :: "nat \<Rightarrow> string \<Rightarrow> string"
  fernet_decrypt :: "string \<Rightarrow> string option"

definition fernet_ok :: "fernet \<Rightarrow> bool" where
  "fernet_ok f \<longleftrightarrow> (\<forall>n s. fernet_decrypt f (fernet_encrypt f n s) = Some s)"

definition encrypt :: "fernet \<Rightarrow> nat \<Rightarrow> string \<Rightarrow> string" where
  "encrypt f n plaintext = fernet_encrypt f n plaintext"

definition decrypt :: "fernet \<Rightarrow> string \<Rightarrow> exc + string" where
  "decrypt f ciphertext = (case fernet_decrypt f ciphertext of
     None \<Rightarrow> Inl InvalidToken
   | Some plaintext \<Rightarrow> if utf8_valid plaintext then Inr plaintext else Inl UnicodeDecodeError)"

lemma decrypt_encrypt [simp]:
  "fernet_ok f \<Longrightarrow> utf8_valid s \<Longrightarrow> decrypt f (encrypt f n s) = Inr s"
  by (simp add: fernet_ok_def encrypt_def decrypt_def)

section \<open>The refresh token store\<close>

record refresh_row =
  rr_refresh_token :: string
  rr_is_valid :: int
  rr_created_at :: string
  rr_updated_at :: string

record refresh_store =
  rs_encryptor :: fernet
  rs_entropy :: nat
  rs_row :: "refresh_row option"

definition rs_load :: "(refresh_store, exc, string option) prog" where
  "rs_load s = (case rs_row s of
     None \<Rightarrow> (Inr None, s)
   | Some row \<Rightarrow> if rr_is_valid row = 0 then (Inr None, s)
       else (case decrypt (rs_encryptor s) (rr_refresh_token row) of
           Inl e \<Rightarrow> (Inl e, s) | Inr t \<Rightarrow> (Inr (Some t), s)))"

definition rs_save :: "string \<Rightarrow> string \<Rightarrow> (refresh_store, exc, unit) prog" where
  "rs_save now refresh_token s =
     (let encrypted = encrypt (rs_encryptor s) (rs_entropy s) refresh_token;
          row = (case rs_row s of
              None \<Rightarrow> \<lparr>rr_refresh_token = encrypted, rr_is_valid = 1, rr_created_at = now, rr_updated_at = now\<rparr>
            | Some r \<Rightarrow> r\<lparr>rr_refresh_token := encrypted, rr_is_valid := 1, rr_updated_at := now\<rparr>)
      in (Inr (), s\<lparr>rs_entropy := Suc (rs_entropy s), rs_row := Some row\<rparr>))"

text \<open>
  \<open>rotate\<close> runs three statements in one transaction; \<open>db_fault\<close> says which of them the engine
  fails, if any. Until the commit the new row is seen inside the transaction only.
\<close>

datatype db_fault = No_Fault | Fault_Select | Fault_Write | Fault_Commit

definition rs_rotate :: "db_fault \<Rightarrow> string \<Rightarrow> string \<Rightarrow> (refresh_store, exc, unit) prog" where
  "rs_rotate fault now new_refresh_token s =
     (let encrypted = encrypt (rs_encryptor s) (rs_entropy s) new_refresh_token;
          s' = s\<lparr>rs_entropy := Suc (rs_entropy s)\<rparr>;
          row = (case rs_row s of
              None \<Rightarrow> \<lparr>rr_refresh_token = encrypted, rr_is_valid = 1, rr_created_at = now, rr_updated_at = now\<rparr>
            | Some r \<Rightarrow> r\<lparr>rr_refresh_token := encrypted, rr_is_valid := 1, rr_updated_at := now\<rparr>);
          in_transaction = s'\<lparr>rs_row := Some row\<rparr>;
          rolled_back = in_transaction\<lparr>rs_row := rs_row s\<rparr>
      in case fault of
           Fault_Select \<Rightarrow> (Inl OperationalError, s')
         | Fault_Write \<Rightarrow> (Inl OperationalError, s')
         | Fault_Commit \<Rightarrow> (Inl OperationalError, rolled_back)
         | No_Fault \<Rightarrow> (Inr (), in_transaction))"

definition rs_mark_invalid :: "string \<Rightarrow> (refresh_store, exc, unit) prog" where
  "rs_mark_invalid now s = (Inr (), s\<lparr>rs_row :=
     map_option (\<lambda>r. r\<lparr>rr_is_valid := 0, rr_updated_at := now\<rparr>) (rs_row s)\<rparr>)"

definition rs_is_valid :: "(refresh_store, exc, bool) prog" where
  "rs_is_valid s = (Inr (case rs_row s of None \<Rightarrow> False | Some r \<Rightarrow> rr_is_valid r \<noteq> 0), s)"

text \<open>\<open>initialize\<close> creates the table when it is missing and keeps the row of an existing file.\<close>

definition rs_initialize :: "fernet \<Rightarrow> refresh_row option \<Rightarrow> refresh_store" where
  "rs_initialize f row = \<lparr>rs_encryptor = f, rs_entropy = 0, rs_row = row\<rparr>"


subsection \<open>The store's contract\<close>

text \<open>
  What the Ring client relies on: the operations of a refresh token store and their laws. \<open>good\<close>
  is the store's own well-formedness; a token is a string that has a UTF-8 encoding.
\<close>

locale token_store_laws =
  fixes good :: "'s \<Rightarrow> bool"
    and load :: "('s, exc, string option) prog"
    and save :: "string \<Rightarrow> string \<Rightarrow> ('s, exc, unit) prog"
    and swap_in :: "string \<Rightarrow> string \<Rightarrow> ('s, exc, unit) prog"
    and mark_invalid :: "string \<Rightarrow> ('s, exc, unit) prog"
    and valid :: "('s, exc, bool) prog"
  assumes load_ok: "good s \<Longrightarrow> \<exists>t. load s = (Inr t, s)"
    and save_ok: "good s \<Longrightarrow> utf8_valid t \<Longrightarrow>
      \<exists>s'. save now t s = (Inr (), s') \<and> good s' \<and> load s' = (Inr (Some t), s')"
    and rotate_ok: "good s \<Longrightarrow> utf8_valid t \<Longrightarrow>
      \<exists>s'. swap_in now t s = (Inr (), s') \<and> good s' \<and> load s' = (Inr (Some t), s')"
    and mark_ok: "good s \<Longrightarrow>
      \<exists>s'. mark_invalid now s = (Inr (), s') \<and> good s' \<and> load s' = (Inr None, s')"
    and valid_ok: "good s \<Longrightarrow> valid s = (Inr (fst (load s) \<noteq> Inr None), s)"

datatype store_op =
    Do_Load
  | Do_Save string string
  | Do_Rotate string string
  | Do_Mark_Invalid string
  | Do_Is_Valid

text \<open>One operation of a client on a store given by its operations, its result forgotten.\<close>

fun store_step :: "('s, exc, string option) prog \<Rightarrow> (string \<Rightarrow> string \<Rightarrow> ('s, exc, unit) prog) \<Rightarrow>
    (string \<Rightarrow> string \<Rightarrow> ('s, exc, unit) prog) \<Rightarrow> (string \<Rightarrow> ('s, exc, unit) prog) \<Rightarrow>
    ('s, exc, bool) prog \<Rightarrow> store_op \<Rightarrow> 's \<Rightarrow> 's" where
  "store_step load save swap_in mark valid Do_Load s = snd (load s)"
| "store_step load save swap_in mark valid (Do_Save now t) s = snd (save now t s)"
| "store_step load save swap_in mark valid (Do_Rotate now t) s = snd (swap_in now t s)"
| "store_step load save swap_in mark valid (Do_Mark_Invalid now) s = snd (mark now s)"
| "store_step load save swap_in mark valid Do_Is_Valid s = snd (valid s)"

text \<open>The abstract store: the last token saved or rotated in, gone once it is marked invalid.\<close>

fun store_spec :: "store_op \<Rightarrow> string option \<Rightarrow> string option" where
  "store_spec Do_Load t = t"
| "store_spec (Do_Save now u) t = Some u"
| "store_spec (Do_Rotate now u) t = Some u"
| "store_spec (Do_Mark_Invalid now) t = None"
| "store_spec Do_Is_Valid t = t"

fun encodable :: "store_op \<Rightarrow> bool" where
  "encodable (Do_Save now u) = utf8_valid u"
| "encodable (Do_Rotate now u) = utf8_valid u"
| "encodable _ = True"

context token_store_laws begin

lemma step_refines:
  assumes "good s" and "load s = (Inr t, s)" and "encodable x"
  shows "good (store_step load save swap_in mark_invalid valid x s)"
    and "load (store_step load save swap_in mark_invalid valid x s) =
      (Inr (store_spec x t), store_step load save swap_in mark_invalid valid x s)"
proof -
  have "good (store_step load save swap_in mark_invalid valid x s) \<and>
      load (store_step load save swap_in mark_invalid valid x s) =
      (Inr (store_spec x t), store_step load save swap_in mark_invalid valid x s)"
  proof (cases x)
    case (Do_Save now u)
    with assms save_ok [of s u now] show ?thesis by auto
  next
    case (Do_Rotate now u)
    with assms rotate_ok [of s u now] show ?thesis by auto
  next
    case (Do_Mark_Invalid now)
    with assms mark_ok [of s now] show ?thesis by auto
  qed (use assms valid_ok [of s] in auto)
  then show "good (store_step load save swap_in mark_invalid valid x s)"
    and "load (store_step load save swap_in mark_invalid valid x s) =
      (Inr (store_spec x t), store_step load save swap_in mark_invalid valid x s)" by auto
qed

lemma run_refines:
  assumes "good s" and "load s = (Inr t, s)" and "list_all encodable xs"
  shows "fst (load (fold (store_step load save swap_in mark_invalid valid) xs s)) =
    Inr (fold store_spec xs t)"
  using assms
proof (induction xs arbitrary: s t)
  case Nil
  then show ?case by simp
next
  case (Cons x xs)
  then have "encodable x" and "list_all encodable xs" by simp_all
  with step_refines [OF Cons.prems(1,2), of x] Cons.IH show ?case by simp
qed

lemma valid_iff_token:
  assumes "good s"
  shows "valid s = (Inr (\<exists>t. load s = (Inr (Some t), s)), s)"
  using load_ok [OF assms] valid_ok [OF assms] by auto

end

definition rs_good :: "refresh_store \<Rightarrow> bool" where
  "rs_good s \<longleftrightarrow> fernet_ok (rs_encryptor s) \<and>
     (\<forall>r. rs_row s = Some r \<and> rr_is_valid r \<noteq> 0 \<longrightarrow>
        (\<exists>t. decrypt (rs_encryptor s) (rr_refresh_token r) = Inr t))"

lemmas rs_defs = rs_load_def rs_save_def rs_rotate_def rs_mark_invalid_def rs_is_valid_def

lemma rs_write_good:
  "rs_good s \<Longrightarrow> utf8_valid t \<Longrightarrow>
     \<exists>s'. rs_save now t s = (Inr (), s') \<and> rs_good s' \<and> rs_load s' = (Inr (Some t), s')"
  "rs_good s \<Longrightarrow> utf8_valid t \<Longrightarrow>
     \<exists>s'. rs_rotate No_Fault now t s = (Inr (), s') \<and> rs_good s' \<and> rs_load s' = (Inr (Some t), s')"
  by (auto simp: rs_defs rs_good_def Let_def split: option.splits)

interpretation rs: token_store_laws rs_good rs_load rs_save "rs_rotate No_Fault" rs_mark_invalid rs_is_valid
proof
  show "\<exists>t. rs_load s = (Inr t, s)" if "rs_good s" for s
    using that by (auto simp: rs_load_def rs_good_def split: option.splits)
  show "rs_is_valid s = (Inr (fst (rs_load s) \<noteq> Inr None), s)" if "rs_good s" for s
    using that by (auto simp: rs_load_def rs_is_valid_def rs_good_def split: option.splits)
  show "\<exists>s'. rs_mark_invalid now s = (Inr (), s') \<and> rs_good s' \<and> rs_load s' = (Inr None, s')"
    if "rs_good s" for s now
    using that by (auto simp: rs_mark_invalid_def rs_load_def rs_good_def split: option.splits)
qed (use rs_write_good in auto)


section \<open>The token store\<close>

record user_row =
  us_account_id :: "string option"
  us_created_at :: string
  us_updated_at :: string

record token_row =
  tr_access_token :: string
  tr_refresh_token :: string
  tr_expires_at :: string
  tr_token_type :: string
  tr_scope :: "string option"
  tr_is_valid :: int
  tr_created_at :: string
  tr_updated_at :: string

text \<open>
  The column \<open>payload\<close> holds \<open>json.dumps(payload)\<close>; it is kept as the decoded value, which is what
  \<open>json.loads\<close> gives back.
\<close>

record event_row =
  ev_event_id :: "string option"
  ev_event_type :: string
  ev_device_id :: string
  ev_timestamp :: string
  ev_payload :: json
  ev_received_at :: string

record token_store =
  ts_encryptor :: fernet
  ts_entropy :: nat
  ts_users :: "string \<rightharpoonup> user_row"
  ts_tokens :: "string \<rightharpoonup> token_row"
  ts_events :: "event_row list"

text \<open>The dictionary \<open>get_tokens\<close> returns.\<close>

record token_data =
  td_user_id :: string
  td_access_token :: string
  td_refresh_token :: string
  td_expires_at :: string
  td_token_type :: string
  td_scope :: "string option"
  td_is_valid :: bool
  td_created_at :: string
  td_updated_at :: string

definition ts_initialize :: "fernet \<Rightarrow> token_store" where
  "ts_initialize f = \<lparr>ts_encryptor = f, ts_entropy = 0, ts_users = Map.empty, ts_tokens = Map.empty,
     ts_events = []\<rparr>"

definition create_or_update_user :: "string \<Rightarrow> string \<Rightarrow> string option \<Rightarrow> (token_store, exc, unit) prog" where
  "create_or_update_user now user_id account_id s =
     (let row = (case ts_users s user_id of
          None \<Rightarrow> \<lparr>us_account_id = account_id, us_created_at = now, us_updated_at = now\<rparr>
        | Some r \<Rightarrow> r\<lparr>us_account_id := account_id, us_updated_at := now\<rparr>)
      in (Inr (), s\<lparr>ts_users := (ts_users s)(user_id \<mapsto> row)\<rparr>))"

definition save_tokens :: "string \<Rightarrow> string \<Rightarrow> string \<Rightarrow> string \<Rightarrow> string \<Rightarrow> string \<Rightarrow> string option \<Rightarrow>
    (token_store, exc, unit) prog" where
  "save_tokens now user_id access_token refresh_token expires_at token_type scope s =
     (let n = ts_entropy s;
          encrypted_access = encrypt (ts_encryptor s) n access_token;
          encrypted_refresh = encrypt (ts_encryptor s) (Suc n) refresh_token;
          user = (case ts_users s user_id of
              None \<Rightarrow> \<lparr>us_account_id = None, us_created_at = now, us_updated_at = now\<rparr>
            | Some r \<Rightarrow> r\<lparr>us_updated_at := now\<rparr>);
          row = \<lparr>tr_access_token = encrypted_access, tr_refresh_token = encrypted_refresh,
              tr_expires_at = expires_at, tr_token_type = token_type, tr_scope = scope, tr_is_valid = 1,
              tr_created_at = (case ts_tokens s user_id of None \<Rightarrow> now | Some r \<Rightarrow> tr_created_at r),
              tr_updated_at = now\<rparr>
      in (Inr (), s\<lparr>ts_entropy := Suc (Suc n), ts_users := (ts_users s)(user_id \<mapsto> user),
            ts_tokens := (ts_tokens s)(user_id \<mapsto> row)\<rparr>))"

definition get_tokens :: "string \<Rightarrow> (token_store, exc, token_data option) prog" where
  "get_tokens user_id s = (case ts_tokens s user_id of
     None \<Rightarrow> (Inr None, s)
   | Some row \<Rightarrow> (case decrypt (ts_encryptor s) (tr_access_token row) of
       Inl e \<Rightarrow> (Inl e, s)
     | Inr access \<Rightarrow> (case decrypt (ts_encryptor s) (tr_refresh_token row) of
         Inl e \<Rightarrow> (Inl e, s)
       | Inr refresh \<Rightarrow> (Inr (Some \<lparr>td_user_id = user_id, td_access_token = access,
             td_refresh_token = refresh, td_expires_at = tr_expires_at row,
             td_token_type = tr_token_type row, td_scope = tr_scope row,
             td_is_valid = (tr_is_valid row \<noteq> 0), td_created_at = tr_created_at row,
             td_updated_at = tr_updated_at row\<rparr>), s))))"

text \<open>\<open>UPDATE ... WHERE user_id = ?\<close> changes nothing when there is no such row.\<close>

definition update_tokens :: "string \<Rightarrow> string \<Rightarrow> string \<Rightarrow> string \<Rightarrow> string \<Rightarrow> (token_store, exc, unit) prog" where
  "update_tokens now user_id access_token refresh_token expires_at s =
     (let n = ts_entropy s;
          encrypted_access = encrypt (ts_encryptor s) n access_token;
          encrypted_refresh = encrypt (ts_encryptor s) (Suc n) refresh_token
      in (Inr (), s\<lparr>ts_entropy := Suc (Suc n), ts_tokens := (case ts_tokens s user_id of
            None \<Rightarrow> ts_tokens s
          | Some r \<Rightarrow> (ts_tokens s)(user_id \<mapsto> r\<lparr>tr_access_token := encrypted_access,
              tr_refresh_token := encrypted_refresh, tr_expires_at := expires_at,
              tr_is_valid := 1, tr_updated_at := now\<rparr>))\<rparr>))"

definition invalidate :: "string \<Rightarrow> string \<Rightarrow> (token_store, exc, unit) prog" where
  "invalidate now user_id s = (Inr (), s\<lparr>ts_tokens := (case ts_tokens s user_id of
       None \<Rightarrow> ts_tokens s
     | Some r \<Rightarrow> (ts_tokens s)(user_id \<mapsto> r\<lparr>tr_is_valid := 0, tr_updated_at := now\<rparr>))\<rparr>)"

text \<open>
  \<open>ON CONFLICT(event_id) DO NOTHING\<close>. The key column is a text primary key, which SQLite lets be null,
  and null ids never conflict.
\<close>

definition save_event :: "string \<Rightarrow> string option \<Rightarrow> string \<Rightarrow> string \<Rightarrow> string \<Rightarrow> json \<Rightarrow>
    (token_store, exc, unit) prog" where
  "save_event received_at event_id event_type device_id timestamp payload s =
     (Inr (), if event_id \<noteq> None \<and> event_id \<in> set (map ev_event_id (ts_events s)) then s
        else s\<lparr>ts_events := ts_events s @ [\<lparr>ev_event_id = event_id, ev_event_type = event_type,
          ev_device_id = device_id, ev_timestamp = timestamp, ev_payload = payload,
          ev_received_at = received_at\<rparr>]\<rparr>)"

text \<open>
  \<open>ORDER BY received_at DESC LIMIT ?\<close>: rows with equal stamps keep their insertion order and a
  negative limit is no limit, as in SQLite.
\<close>

fun insert_desc :: "event_row \<Rightarrow> event_row list \<Rightarrow> event_row list" where
  "insert_desc e [] = [e]"
| "insert_desc e (x # xs) =
     (if ev_received_at e < ev_received_at x then x # insert_desc e xs else e # x # xs)"

definition get_recent_events :: "int \<Rightarrow> (token_store, exc, event_row list) prog" where
  "get_recent_events limit s =
     (let rows = foldr insert_desc (ts_events s) []
      in (Inr (if limit < 0 then rows else take (nat limit) rows), s))"


subsection \<open>Event lists\<close>

lemma set_insert_desc [simp]: "set (insert_desc e xs) = insert e (set xs)"
  by (induction xs) auto

lemma length_insert_desc [simp]: "length (insert_desc e xs) = Suc (length xs)"
  by (induction xs) auto

lemma sorted_insert_desc:
  "sorted_wrt (\<lambda>a b. ev_received_at b \<le> ev_received_at a) xs \<Longrightarrow>
     sorted_wrt (\<lambda>a b. ev_received_at b \<le> ev_received_at a) (insert_desc e xs)"
  by (induction xs) (auto intro: order_trans less_imp_le)

lemma recent_rows:
  "set (foldr insert_desc xs []) = set xs"
  "length (foldr insert_desc xs []) = length xs"
  "sorted_wrt (\<lambda>a b. ev_received_at b \<le> ev_received_at a) (foldr insert_desc xs [])"
  by (induction xs) (auto intro: sorted_insert_desc)

lemma sorted_wrt_take_prefix: "sorted_wrt P xs \<Longrightarrow> sorted_wrt P (take n xs)"
  by (metis append_take_drop_id sorted_wrt_append)

section \<open>Properties\<close>

text \<open>C14: After any sequence of loads, saves, rotations, invalidations and validity checks, \<open>load\<close>
  returns the token most recently saved or rotated in, or \<open>None\<close> when there was none or when
  \<open>mark_invalid\<close> came after it: the encrypted row implements the abstract optional token.\<close>

theorem refresh_store_refines:
  assumes "rs_good s" and "rs_load s = (Inr t, s)" and "list_all encodable ops"
  shows "fst (rs_load (fold (store_step rs_load rs_save (rs_rotate No_Fault) rs_mark_invalid rs_is_valid) ops s))
    = Inr (fold store_spec ops t)"
  using assms by (rule rs.run_refines)

definition plain_fernet :: fernet where
  "plain_fernet = \<lparr>fernet_encrypt = (\<lambda>n s. (if even n then CHR ''a'' else CHR ''b'') # s),
     fernet_decrypt = (\<lambda>c. case c of [] \<Rightarrow> None | _ # s \<Rightarrow> Some s)\<rparr>"

lemma plain_fernet_ok [simp]: "fernet_ok plain_fernet"
  by (simp add: fernet_ok_def plain_fernet_def)

lemma utf8_valid_examples [simp]: "utf8_valid ''t1''" "utf8_valid ''t2''" "utf8_valid ''acc''"
  by (simp_all add: utf8_valid_def)

theorem refresh_store_refines_witness:
  "fst (rs_load (fold (store_step rs_load rs_save (rs_rotate No_Fault) rs_mark_invalid rs_is_valid)
     [Do_Save ''d1'' ''t1'', Do_Mark_Invalid ''d2'', Do_Rotate ''d3'' ''t2''] (rs_initialize plain_fernet None)))
    = Inr (Some ''t2'')"
  using refresh_store_refines [of "rs_initialize plain_fernet None" None
      "[Do_Save ''d1'' ''t1'', Do_Mark_Invalid ''d2'', Do_Rotate ''d3'' ''t2'']"]
  by (simp add: rs_good_def rs_load_def rs_initialize_def)

text \<open>A rotation is atomic: whatever statement of the transaction fails, the row afterwards is
  the one before, and without a failure the new token is the one stored, valid, with the creation
  time of the old row.\<close>

theorem rotate_atomic:
  assumes "fernet_ok (rs_encryptor s)" and "utf8_valid t"
  shows "case rs_rotate fault now t s of
      (Inl e, s') \<Rightarrow> e = OperationalError \<and> rs_row s' = rs_row s
    | (Inr _, s') \<Rightarrow> rs_load s' = (Inr (Some t), s') \<and> rs_is_valid s' = (Inr True, s') \<and>
        map_option rr_created_at (rs_row s') = Some (case rs_row s of None \<Rightarrow> now | Some r \<Rightarrow> rr_created_at r)"
  using assms by (cases fault; cases "rs_row s") (simp_all add: rs_defs Let_def)

theorem rotate_atomic_witness:
  "rs_row (snd (rs_rotate Fault_Commit ''d'' ''t1'' (rs_initialize plain_fernet None))) = None"
  using rotate_atomic [where s = "rs_initialize plain_fernet None" and t = "''t1''" and fault = Fault_Commit and now = "''d''"]
  by (simp add: rs_initialize_def rs_rotate_def Let_def)

text \<open>What \<open>save_tokens\<close> stores for a user is what \<open>get_tokens\<close> returns for that user, marked
  valid and with the creation time of the first save; every other user reads the same as before.\<close>

theorem save_tokens_roundtrip:
  assumes "fernet_ok (ts_encryptor s)" and "utf8_valid a" and "utf8_valid r"
  shows "fst (get_tokens v (snd (save_tokens now u a r ex ty sc s))) =
    (if v = u then Inr (Some \<lparr>td_user_id = u, td_access_token = a, td_refresh_token = r, td_expires_at = ex,
        td_token_type = ty, td_scope = sc, td_is_valid = True,
        td_created_at = (case ts_tokens s u of None \<Rightarrow> now | Some row \<Rightarrow> tr_created_at row),
        td_updated_at = now\<rparr>)
     else fst (get_tokens v s))"
  using assms by (auto simp: save_tokens_def get_tokens_def Let_def split: option.splits sum.splits)

theorem save_tokens_roundtrip_witness:
  "map_option td_access_token (case fst (get_tokens ''u'' (snd (save_tokens ''d'' ''u'' ''acc'' ''t1'' ''e'' ''Bearer'' None
     (ts_initialize plain_fernet)))) of Inr x \<Rightarrow> x | Inl _ \<Rightarrow> None) = Some ''acc''"
  using save_tokens_roundtrip [where s = "ts_initialize plain_fernet" and a = "''acc''" and r = "''t1''" and u = "''u''"
      and v = "''u''" and now = "''d''" and ex = "''e''" and ty = "''Bearer''" and sc = None]
  by (simp add: ts_initialize_def)

text \<open>\<open>get_recent_events\<close> returns stored events only, newest first, as many as the limit allows.\<close>

theorem recent_events_sorted:
  "\<exists>xs. get_recent_events limit s = (Inr xs, s) \<and> set xs \<subseteq> set (ts_events s) \<and>
     sorted_wrt (\<lambda>a b. ev_received_at b \<le> ev_received_at a) xs \<and>
     length xs = (if limit < 0 then length (ts_events s) else min (nat limit) (length (ts_events s)))"
  using recent_rows [of "ts_events s"]
  by (auto simp: get_recent_events_def Let_def sorted_wrt_take_prefix dest: in_set_takeD)

lemma save_event_distinct:
  "distinct (map ev_event_id (ts_events s)) \<Longrightarrow>
     distinct (map ev_event_id (ts_events (snd (save_event now (Some i) ty d ts p s))))"
  by (simp add: save_event_def)

lemma save_event_idem:
  "save_event now' (Some i) ty' d' ts' p' (snd (save_event now (Some i) ty d ts p s)) =
     (Inr (), snd (save_event now (Some i) ty d ts p s))"
  by (simp add: save_event_def)

lemma invalidate_get:
  "fst (get_tokens u (snd (invalidate now u s))) = map_sum id
     (map_option (\<lambda>t. t\<lparr>td_is_valid := False, td_updated_at := now\<rparr>)) (fst (get_tokens u s))"
  by (auto simp: invalidate_def get_tokens_def split: option.splits sum.splits)

end
