(* ===== verification/Consumer_Client.thy ===== *)
theory Consumer_Client imports Rate_Limit Token_Storage Session_Map Mappers begin

text \<open>
  The client of Ring's consumer API, \<open>app/adapters/ring_consumer_client.py\<close>: access-token
  lifecycle, response cache and the request loop with its retries.

  \<open>client\<close> is the state of \<open>RingConsumerClient\<close> with the governor and the refresh token store it is
  given, and with the history of what it did: the exchanges sent and the times slept. \<open>env\<close> is the
  outside: the answer to the n-th exchange, how long it takes, the wall clock as a function of the
  monotonic one, the random jitter, pydantic's validation of the OAuth answer and the database
  fault of a rotation. The model is one task: what other tasks do while it sleeps is not in it,
  except through the governor, whose competition is the subject of \<open>Rate_Limit\<close>.
\<close>

section \<open>State\<close>

record http_request =
  rq_method :: string
  rq_url :: string
  rq_params :: "(string \<times> json) list"
  rq_form :: "(string \<times> string) list"
  rq_json :: "json option"
  rq_headers :: "(string \<times> string) list"
  rq_follow_redirects :: bool
  rq_timeout :: real

record env =
  e_http :: "nat \<Rightarrow> http_outcome"
  e_delay :: "nat \<Rightarrow> real"
  e_wall :: "real \<Rightarrow> real"
  e_iso :: "real \<Rightarrow> string"
  e_jitter :: "nat \<Rightarrow> real"
  e_oauth_parse :: "json \<Rightarrow> ring_oauth_token_response option"
  e_rotate_fault :: db_fault

record cache_entry =
  ce_data :: "json list"
  ce_expires_at :: real

record client =
  cl_now :: real
  cl_sent :: "http_request list"
  cl_slept :: "real list"
  cl_governor :: governor
  cl_store :: refresh_store
  cl_user_agent :: string
  cl_access_token :: "access_token_cache_entry option"
  cl_cache :: "string \<rightharpoonup> cache_entry"
  cl_snapshot_refresh_settle :: real

definition OAUTH_URL :: string where "OAUTH_URL = ''https://oauth.ring.com/oauth/token''"
definition API_BASE :: string where "API_BASE = ''https://api.ring.com''"
definition REFRESH_THRESHOLD_SECONDS :: real where "REFRESH_THRESHOLD_SECONDS = 60"
definition MAX_5XX_RETRIES :: nat where "MAX_5XX_RETRIES = 2"
definition INITIAL_BACKOFF_SECONDS :: real where "INITIAL_BACKOFF_SECONDS = 1"
definition MAX_BACKOFF_SECONDS :: real where "MAX_BACKOFF_SECONDS = 30"
definition REQUEST_TIMEOUT_SECONDS :: real where "REQUEST_TIMEOUT_SECONDS = 10"
definition DEVICES_CACHE_TTL_SECONDS :: real where "DEVICES_CACHE_TTL_SECONDS = 30"
definition HISTORY_CACHE_TTL_SECONDS :: real where "HISTORY_CACHE_TTL_SECONDS = 10"
definition OAUTH_CLIENT_ID :: string where "OAUTH_CLIENT_ID = ''ring_official_ios''"

definition client_init :: "real \<Rightarrow> governor \<Rightarrow> refresh_store \<Rightarrow> string \<Rightarrow> real \<Rightarrow> client" where
  "client_init now g store version settle = \<lparr>cl_now = now, cl_sent = [], cl_slept = [], cl_governor = g,
     cl_store = store, cl_user_agent = ''ring-adapter-backend/'' @ version, cl_access_token = None,
     cl_cache = Map.empty, cl_snapshot_refresh_settle = settle\<rparr>"

section \<open>The outside\<close>

text \<open>One exchange: the answer is the next one of the environment and takes its time.\<close>

definition exchange :: "env \<Rightarrow> http_request \<Rightarrow> (client, exc, http_outcome) prog" where
  "exchange env req s = (let n = length (cl_sent s) in
     (Inr (e_http env n), s\<lparr>cl_sent := cl_sent s @ [req], cl_now := cl_now s + e_delay env n\<rparr>))"

text \<open>\<open>asyncio.sleep\<close>: a time that is not positive does not wait.\<close>

definition sleep :: "real \<Rightarrow> (client, exc, unit) prog" where
  "sleep t s = (Inr (), s\<lparr>cl_now := cl_now s + max 0 t, cl_slept := cl_slept s @ [t]\<rparr>)"

text \<open>\<open>await self._governor.acquire()\<close> of a task without competitors.\<close>

definition take_slot :: "nat \<Rightarrow> (client, exc, unit) prog" where
  "take_slot fuel s = (case acquire fuel (cl_now s) (cl_governor s) of
     None \<Rightarrow> (Inl Still_Running, s)
   | Some (Acquired t, g) \<Rightarrow> (Inr (), s\<lparr>cl_now := t, cl_governor := g\<rparr>)
   | Some (Rejected e t, g) \<Rightarrow> (Inl e, s\<lparr>cl_now := t, cl_governor := g\<rparr>))"

text \<open>A method of the store, run on the store the client holds.\<close>

definition on_store :: "(refresh_store, exc, 'a) prog \<Rightarrow> (client, exc, 'a) prog" where
  "on_store m s = (case m (cl_store s) of (r, st) \<Rightarrow> (r, s\<lparr>cl_store := st\<rparr>))"

section \<open>Access tokens\<close>

definition oauth_request :: "client \<Rightarrow> string \<Rightarrow> http_request" where
  "oauth_request s refresh_token = \<lparr>rq_method = ''POST'', rq_url = OAUTH_URL, rq_params = [],
     rq_form = [(''grant_type'', ''refresh_token''), (''refresh_token'', refresh_token),
       (''client_id'', OAUTH_CLIENT_ID)],
     rq_json = None, rq_headers = [(''User-Agent'', cl_user_agent s)], rq_follow_redirects = False,
     rq_timeout = REQUEST_TIMEOUT_SECONDS\<rparr>"

text \<open>What \<open>_refresh\<close> does with the answer to the token request.\<close>

definition accept_tokens :: "env \<Rightarrow> string \<Rightarrow> http_response \<Rightarrow> (client, exc, unit) prog" where
  "accept_tokens env refresh_token response =
     andThen (of_sum (json_of response)) (\<lambda>j.
       case e_oauth_parse env j of
         None \<Rightarrow> throw ValidationError
       | Some parsed \<Rightarrow>
           andThen (case ot_refresh_token parsed of
               None \<Rightarrow> ret ()
             | Some new_refresh \<Rightarrow> if new_refresh \<noteq> refresh_token
                 then asks (\<lambda>s. on_store (rs_rotate (e_rotate_fault env) (e_iso env (cl_now s)) new_refresh))
                 else ret ())
             (\<lambda>_. modify (\<lambda>s. s\<lparr>cl_access_token := Some \<lparr>ac_token = ot_access_token parsed,
                ac_expires_at = e_wall env (cl_now s) + real_of_int (ot_expires_in parsed)\<rparr>\<rparr>)))"

definition refresh :: "env \<Rightarrow> (client, exc, unit) prog" where
  "refresh env = andThen (on_store rs_load) (\<lambda>loaded.
     case loaded of
       None \<Rightarrow> throw (Adapter AuthenticationRequiredError)
     | Some refresh_token \<Rightarrow>
         andThen (asks (\<lambda>s. exchange env (oauth_request s refresh_token))) (\<lambda>answer.
           case answer of
             Timed_Out \<Rightarrow> throw (Adapter UpstreamTimeoutError)
           | Transport_Failed \<Rightarrow> throw (Adapter UpstreamUnavailableError)
           | Responded response \<Rightarrow>
               if resp_status response = 401 then
                 andThen (asks (\<lambda>s. on_store (rs_mark_invalid (e_iso env (cl_now s)))))
                   (\<lambda>_. throw (Adapter AuthenticationRequiredError))
               else if resp_status response \<ge> 500 then throw (Adapter UpstreamUnavailableError)
               else if resp_status response \<noteq> 200 then throw (Adapter UpstreamUnavailableError)
               else accept_tokens env refresh_token response))"

definition token_fresh :: "env \<Rightarrow> client \<Rightarrow> bool" where
  "token_fresh env s = (case cl_access_token s of None \<Rightarrow> False
     | Some entry \<Rightarrow> ac_expires_at entry - e_wall env (cl_now s) > REFRESH_THRESHOLD_SECONDS)"

definition current_token :: "(client, exc, string) prog" where
  "current_token = asks (\<lambda>s. case cl_access_token s of None \<Rightarrow> throw AssertionError | Some entry \<Rightarrow> ret (ac_token entry))"

definition ensure_access_token :: "env \<Rightarrow> (client, exc, string) prog" where
  "ensure_access_token env =
     andThen (asks (\<lambda>s. if token_fresh env s then ret () else refresh env)) (\<lambda>_. current_token)"

section \<open>The request loop\<close>

definition parse_retry_after :: "string option \<Rightarrow> py_float option" where
  "parse_retry_after header_value = (case header_value of None \<Rightarrow> None
     | Some h \<Rightarrow> if h = '''' then None else py_float h)"

text \<open>
  \<open>asyncio.sleep\<close> of what a header says. A sleep to infinity never returns, whatever the fuel. Not-a-number is a
  \<open>ValueError\<close>: of \<open>sleep\<close> itself since Python 3.13, of the selector, which ends the event loop, before.
\<close>

fun sleep_float :: "py_float \<Rightarrow> (client, exc, unit) prog" where
  "sleep_float (Number t) = sleep t"
| "sleep_float Minus_Inf = ret ()"
| "sleep_float Plus_Inf = throw Still_Running"
| "sleep_float Not_A_Number = throw ValueError"

text \<open>
  The loop of \<open>_request\<close>: \<open>attempt_5xx\<close> counts the failed attempts, \<open>backoff\<close> is the next wait. A
  status 429 is retried without a bound, so the loop has fuel.
\<close>

fun request_loop :: "nat \<Rightarrow> env \<Rightarrow> http_request \<Rightarrow> nat \<Rightarrow> real \<Rightarrow> (client, exc, http_response) prog" where
  "request_loop 0 env req attempt_5xx backoff = throw Still_Running"
| "request_loop (Suc fuel) env req attempt_5xx backoff =
     andThen (exchange env req) (\<lambda>answer. case answer of
       Timed_Out \<Rightarrow> throw (Adapter UpstreamTimeoutError)
     | Transport_Failed \<Rightarrow> throw (Adapter UpstreamUnavailableError)
     | Responded response \<Rightarrow>
         if resp_status response = 429 then
           (case parse_retry_after (header ''retry-after'' response) of
              None \<Rightarrow> andThen (sleep (min backoff MAX_BACKOFF_SECONDS)) (\<lambda>_.
                request_loop fuel env req attempt_5xx (min (backoff * 2) MAX_BACKOFF_SECONDS))
            | Some retry_after \<Rightarrow> andThen (sleep_float retry_after) (\<lambda>_.
                request_loop fuel env req attempt_5xx backoff))
         else if 500 \<le> resp_status response \<and> resp_status response < 600 then
           (if attempt_5xx \<ge> MAX_5XX_RETRIES then throw (Adapter UpstreamUnavailableError)
            else andThen (asks (\<lambda>s. sleep (min backoff MAX_BACKOFF_SECONDS + e_jitter env (length (cl_sent s)))))
              (\<lambda>_. request_loop fuel env req (Suc attempt_5xx) (min (backoff * 2) MAX_BACKOFF_SECONDS)))
         else ret response)"

definition api_request :: "client \<Rightarrow> string \<Rightarrow> string \<Rightarrow> string \<Rightarrow> (string \<times> json) list \<Rightarrow> json option \<Rightarrow> bool \<Rightarrow>
    http_request" where
  "api_request s token method path params body follow = \<lparr>rq_method = method, rq_url = API_BASE @ path,
     rq_params = params, rq_form = [], rq_json = body,
     rq_headers = [(''Authorization'', ''Bearer '' @ token), (''User-Agent'', cl_user_agent s)],
     rq_follow_redirects = follow, rq_timeout = REQUEST_TIMEOUT_SECONDS\<rparr>"

definition request :: "nat \<Rightarrow> env \<Rightarrow> string \<Rightarrow> string \<Rightarrow> (string \<times> json) list \<Rightarrow> json option \<Rightarrow> bool \<Rightarrow>
    (client, exc, http_response) prog" where
  "request fuel env method path params body follow =
     andThen (take_slot fuel) (\<lambda>_.
     andThen (ensure_access_token env) (\<lambda>token. asks (\<lambda>s.
       request_loop fuel env (api_request s token method path params body follow) 0 INITIAL_BACKOFF_SECONDS)))"

definition get_json :: "nat \<Rightarrow> env \<Rightarrow> string \<Rightarrow> (string \<times> json) list \<Rightarrow> (client, exc, json) prog" where
  "get_json fuel env path params =
     andThen (request fuel env ''GET'' path params None True) (\<lambda>response.
     andThen (of_sum (raise_for_status response)) (\<lambda>_. of_sum (json_of response)))"

section \<open>The response cache\<close>

definition cache_get :: "string \<Rightarrow> (client, exc, json list option) prog" where
  "cache_get key s = (case cl_cache s key of
     None \<Rightarrow> (Inr None, s)
   | Some entry \<Rightarrow> if cl_now s \<ge> ce_expires_at entry then (Inr None, s\<lparr>cl_cache := (cl_cache s)(key := None)\<rparr>)
       else (Inr (Some (ce_data entry)), s))"

definition cache_set :: "string \<Rightarrow> json list \<Rightarrow> real \<Rightarrow> (client, exc, unit) prog" where
  "cache_set key data ttl s = (Inr (), s\<lparr>cl_cache :=
     (cl_cache s)(key \<mapsto> \<lparr>ce_data = data, ce_expires_at = cl_now s + ttl\<rparr>)\<rparr>)"

section \<open>Operations\<close>

definition DEVICE_FAMILIES :: "string list" where
  "DEVICE_FAMILIES = [''doorbots'', ''authorized_doorbots'', ''stickup_cams'', ''chimes'', ''base_stations'', ''other'']"

text \<open>
  The objects among the entries of one family. A family that is missing or empty is skipped; a
  value that is neither is iterated, which fails for a number and gives no objects for a string
  or a dictionary.
\<close>

fun family_objects :: "json option \<Rightarrow> exc + json list" where
  "family_objects (Some (JArr xs)) = Inr (filter is_obj xs)"
| "family_objects (Some (JBool True)) = Inl TypeError"
| "family_objects (Some (JInt i)) = (if i = 0 then Inr [] else Inl TypeError)"
| "family_objects (Some (JReal r)) = (if r = 0 then Inr [] else Inl TypeError)"
| "family_objects _ = Inr []"

fun collect :: "(exc + json list) list \<Rightarrow> exc + json list" where
  "collect [] = Inr []"
| "collect (Inl e # rs) = Inl e"
| "collect (Inr xs # rs) = (case collect rs of Inl e \<Rightarrow> Inl e | Inr ys \<Rightarrow> Inr (xs @ ys))"

fun flatten_devices :: "json \<Rightarrow> exc + json list" where
  "flatten_devices (JObj kvs) = collect (map (\<lambda>key. family_objects (json_field key (JObj kvs))) DEVICE_FAMILIES)"
| "flatten_devices (JArr xs) = Inr (filter is_obj xs)"
| "flatten_devices _ = Inr []"

definition get_devices :: "nat \<Rightarrow> env \<Rightarrow> (client, exc, json list) prog" where
  "get_devices fuel env = andThen (cache_get ''devices'') (\<lambda>cached. case cached of
     Some data \<Rightarrow> ret data
   | None \<Rightarrow> andThen (get_json fuel env ''/clients_api/ring_devices'' []) (\<lambda>raw.
       andThen (of_sum (flatten_devices raw)) (\<lambda>flattened.
       andThen (cache_set ''devices'' flattened DEVICES_CACHE_TTL_SECONDS) (\<lambda>_. ret flattened))))"

definition history_key :: "string \<Rightarrow> int \<Rightarrow> string" where
  "history_key device_id limit = ''history:'' @ device_id @ '':'' @ int_str limit"

fun event_objects :: "json \<Rightarrow> json list" where
  "event_objects (JArr xs) = filter is_obj xs"
| "event_objects _ = []"

definition get_history :: "nat \<Rightarrow> env \<Rightarrow> string \<Rightarrow> int \<Rightarrow> (client, exc, json list) prog" where
  "get_history fuel env device_id limit = andThen (cache_get (history_key device_id limit)) (\<lambda>cached. case cached of
     Some data \<Rightarrow> ret data
   | None \<Rightarrow> andThen (get_json fuel env (''/clients_api/doorbots/'' @ device_id @ ''/history'')
         [(''limit'', JInt limit)]) (\<lambda>raw.
       andThen (cache_set (history_key device_id limit) (event_objects raw) HISTORY_CACHE_TTL_SECONDS)
         (\<lambda>_. ret (event_objects raw))))"

text \<open>
  Asking Ring for a fresh capture. Whatever this raises, \<open>int(device_id)\<close> included, is logged and
  dropped; only a run that has not returned yet is not an exception.
\<close>

definition nudge_snapshot :: "nat \<Rightarrow> env \<Rightarrow> string \<Rightarrow> (client, exc, unit) prog" where
  "nudge_snapshot fuel env device_id = catch
     (case py_int device_id of
        None \<Rightarrow> throw ValueError
      | Some i \<Rightarrow> andThen (request fuel env ''PUT'' ''/clients_api/snapshots/update_all'' []
            (Some (JObj [(''doorbot_ids'', JArr [JInt i]), (''refresh'', JBool True)])) True) (\<lambda>_. ret ()))
     (\<lambda>e. if e = Still_Running then throw Still_Running else ret ())"

definition get_snapshot :: "nat \<Rightarrow> env \<Rightarrow> string \<Rightarrow> (client, exc, string \<times> string) prog" where
  "get_snapshot fuel env device_id =
     (let path = ''/clients_api/snapshots/image/'' @ device_id
      in andThen (request fuel env ''GET'' path [] None True) (\<lambda>first.
         andThen (if resp_status first = 404 then
             andThen (nudge_snapshot fuel env device_id) (\<lambda>_.
             andThen (asks (\<lambda>s. sleep (cl_snapshot_refresh_settle s))) (\<lambda>_.
               request fuel env ''GET'' path [] None True))
           else ret first) (\<lambda>response.
         andThen (of_sum (raise_for_status response)) (\<lambda>_.
           ret (resp_body response, case header ''content-type'' response of None \<Rightarrow> ''image/jpeg'' | Some c \<Rightarrow> c)))))"

text \<open>The URL a clip response carries, if any.\<close>

definition clip_location :: "http_response \<Rightarrow> exc + string option" where
  "clip_location response =
     (if resp_status response \<in> {301, 302, 303, 307, 308} \<and> header ''location'' response \<notin> {None, Some ''''}
      then Inr (header ''location'' response)
      else if resp_status response = 200 then
        (case json_of response of
           Inl e \<Rightarrow> Inl e
         | Inr data \<Rightarrow> (case json_field ''url'' data of
             Some (JStr url) \<Rightarrow> Inr (if url = '''' then None else Some url)
           | _ \<Rightarrow> Inr None))
      else Inr None)"

definition get_clip_url :: "nat \<Rightarrow> env \<Rightarrow> string \<Rightarrow> (client, exc, string) prog" where
  "get_clip_url fuel env event_id =
     andThen (request fuel env ''GET'' (''/clients_api/dings/'' @ event_id @ ''/recording'') [] None False) (\<lambda>response.
     andThen (of_sum (clip_location response)) (\<lambda>found. case found of
       Some url \<Rightarrow> ret url
     | None \<Rightarrow> andThen (of_sum (raise_for_status response)) (\<lambda>_. throw (Adapter UpstreamUnavailableError))))"

section \<open>What every operation leaves alone\<close>

text \<open>
  The request history only grows, the cache, the agent string and the settle time stay, and so
  does everything else a request has no business with.
\<close>

definition requests_only :: "client \<Rightarrow> client \<Rightarrow> bool" where
  "requests_only s s' \<longleftrightarrow> cl_cache s' = cl_cache s \<and> cl_user_agent s' = cl_user_agent s \<and>
     cl_snapshot_refresh_settle s' = cl_snapshot_refresh_settle s \<and> (\<exists>xs. cl_sent s' = cl_sent s @ xs)"

lemma requests_only_refl [simp]: "reflp requests_only"
  by (auto simp: requests_only_def reflp_def)

lemma requests_only_trans [simp]: "transp requests_only"
  by (auto simp: requests_only_def transp_def)

lemmas ro_rules = evolves_basic [OF requests_only_refl] evolves_andThen [OF requests_only_trans]
  evolves_catch [OF requests_only_trans] evolves_asks

lemma requests_only_steps:
  "evolves requests_only (exchange env req)" "evolves requests_only (sleep t)" "evolves requests_only (sleep_float x)"
  "evolves requests_only (take_slot fuel)" "evolves requests_only (on_store m)"
  "evolves requests_only (modify (\<lambda>s. s\<lparr>cl_access_token := f s\<rparr>))"
  by (cases x; auto simp: evolves_def requests_only_def exchange_def sleep_def take_slot_def on_store_def Let_def ret_def throw_def
      split: option.splits acquire_end.splits prod.splits)+

lemma requests_only_refresh: "evolves requests_only (refresh env)"
  unfolding refresh_def accept_tokens_def
  by (intro ro_rules requests_only_steps | (split option.split http_outcome.split if_split, intro conjI allI impI))+

lemma requests_only_ensure: "evolves requests_only (ensure_access_token env)"
  unfolding ensure_access_token_def current_token_def
  by (intro ro_rules requests_only_refresh | (split option.split if_split, intro conjI allI impI))+

lemma requests_only_loop: "evolves requests_only (request_loop fuel env req n b)"
proof (induction fuel arbitrary: n b)
  case 0
  show ?case unfolding request_loop.simps by (rule ro_rules)
next
  case (Suc fuel)
  show ?case unfolding request_loop.simps
    by (intro ro_rules requests_only_steps Suc.IH
      | (split option.split http_outcome.split if_split, intro conjI allI impI))+
qed

lemma requests_only_request: "evolves requests_only (request fuel env meth path ps b f)"
  unfolding request_def
  by (intro ro_rules requests_only_steps requests_only_ensure requests_only_loop)

lemma requests_only_get_json: "evolves requests_only (get_json fuel env path ps)"
  unfolding get_json_def by (intro ro_rules requests_only_request)

lemma requests_only_snapshot: "evolves requests_only (get_snapshot fuel env d)"
  unfolding get_snapshot_def nudge_snapshot_def Let_def
  by (intro ro_rules requests_only_steps requests_only_request
      | (split option.split if_split, intro conjI allI impI))+

lemma requests_only_clip: "evolves requests_only (get_clip_url fuel env e)"
  unfolding get_clip_url_def
  by (intro ro_rules requests_only_request | (split option.split, intro conjI allI impI))+

section \<open>Access tokens: facts\<close>

lemma rs_load_state [simp]: "snd (rs_load st) = st"
  by (simp add: rs_load_def split: option.splits sum.splits)

lemma on_store_load: "on_store rs_load s = (fst (rs_load (cl_store s)), s)"
  by (simp add: on_store_def case_prod_beta)

lemma exchange_result:
  "exchange env req s = (Inr (e_http env (length (cl_sent s))),
     s\<lparr>cl_sent := cl_sent s @ [req], cl_now := cl_now s + e_delay env (length (cl_sent s))\<rparr>)"
  by (simp add: exchange_def Let_def)

text \<open>A refresh without a stored token fails and touches nothing.\<close>

lemma refresh_no_token:
  "fst (rs_load (cl_store s)) = Inr None \<Longrightarrow> refresh env s = (Inl (Adapter AuthenticationRequiredError), s)"
  by (simp add: refresh_def andThen_def on_store_load)

lemma ensure_no_token:
  "fst (rs_load (cl_store s)) = Inr None \<Longrightarrow> \<not> token_fresh env s \<Longrightarrow>
     ensure_access_token env s = (Inl (Adapter AuthenticationRequiredError), s)"
  by (simp add: ensure_access_token_def andThen_def refresh_no_token)

text \<open>Acceptance of an answer, and the access token it leaves.\<close>

lemma accept_tokens_ok:
  assumes "accept_tokens env rt r s = (Inr (), s')"
  obtains j p where "resp_json r = Some j" "e_oauth_parse env j = Some p"
    "cl_access_token s' = Some \<lparr>ac_token = ot_access_token p,
       ac_expires_at = e_wall env (cl_now s) + real_of_int (ot_expires_in p)\<rparr>"
    "cl_now s' = cl_now s" "cl_sent s' = cl_sent s"
    "cl_store s' = (case ot_refresh_token p of
        Some n \<Rightarrow> if n = rt then cl_store s
          else snd (rs_rotate (e_rotate_fault env) (e_iso env (cl_now s)) n (cl_store s))
      | None \<Rightarrow> cl_store s)"
  using assms
  by (auto simp: accept_tokens_def andThen_Inr_iff json_of_def on_store_def
      split: option.splits if_splits prod.splits)

lemma refresh_ok:
  assumes "refresh env s = (Inr (), s')"
  obtains rt r s1 where "fst (rs_load (cl_store s)) = Inr (Some rt)"
    "e_http env (length (cl_sent s)) = Responded r" "resp_status r = 200"
    "s1 = s\<lparr>cl_sent := cl_sent s @ [oauth_request s rt],
       cl_now := cl_now s + e_delay env (length (cl_sent s))\<rparr>"
    "accept_tokens env rt r s1 = (Inr (), s')"
proof -
  from assms obtain rt where rt: "fst (rs_load (cl_store s)) = Inr (Some rt)"
    by (auto simp: refresh_def andThen_Inr_iff on_store_load split: option.splits)
  let ?s1 = "s\<lparr>cl_sent := cl_sent s @ [oauth_request s rt],
       cl_now := cl_now s + e_delay env (length (cl_sent s))\<rparr>"
  note eqs = refresh_def andThen_def on_store_load exchange_result rt
  from assms obtain r where r: "e_http env (length (cl_sent s)) = Responded r"
    by (cases "e_http env (length (cl_sent s))") (simp_all add: eqs)
  with assms have ok: "resp_status r = 200"
    by (auto simp: eqs split: if_splits sum.splits prod.splits)
  from assms r ok have "accept_tokens env rt r ?s1 = (Inr (), s')" by (simp add: eqs)
  with that rt r ok show thesis by blast
qed

section \<open>The request loop: facts\<close>

definition answer_429 :: "env \<Rightarrow> nat \<Rightarrow> bool" where
  "answer_429 env i \<longleftrightarrow> (case e_http env i of Responded r \<Rightarrow> resp_status r = 429 | _ \<Rightarrow> False)"

text \<open>The wait an answer 429 asks for.\<close>

definition asked_wait :: "env \<Rightarrow> nat \<Rightarrow> py_float option" where
  "asked_wait env i = (case e_http env i of
     Responded r \<Rightarrow> if resp_status r = 429 then parse_retry_after (header ''retry-after'' r) else None | _ \<Rightarrow> None)"

definition num_429 :: "env \<Rightarrow> nat \<Rightarrow> nat \<Rightarrow> nat" where
  "num_429 env a b = length (filter (answer_429 env) [a..<b])"

lemma num_429_Cons: "a < b \<Longrightarrow> num_429 env a b = (if answer_429 env a then 1 else 0) + num_429 env (Suc a) b"
  by (simp add: num_429_def upt_conv_Cons)

text \<open>One pass of the loop, by the answer it meets.\<close>

inductive loop_pass :: "env \<Rightarrow> nat \<Rightarrow> nat \<Rightarrow> nat \<Rightarrow> real \<Rightarrow> real \<Rightarrow> bool" for env i where
  again_429: "answer_429 env i \<Longrightarrow> asked_wait env i \<noteq> Some Plus_Inf \<Longrightarrow> asked_wait env i \<noteq> Some Not_A_Number \<Longrightarrow>
    loop_pass env i n n b b'"
| again_5xx: "e_http env i = Responded r \<Longrightarrow> 500 \<le> resp_status r \<Longrightarrow> n < MAX_5XX_RETRIES \<Longrightarrow>
    loop_pass env i n (Suc n) b b'"

text \<open>The loop ends with a pass, unless that sleeps to infinity.\<close>

definition last_pass :: "env \<Rightarrow> nat \<Rightarrow> exc + http_response \<Rightarrow> bool" where
  "last_pass env i x \<longleftrightarrow> (x = Inl Still_Running \<longleftrightarrow> asked_wait env i = Some Plus_Inf) \<and>
     (answer_429 env i \<longrightarrow> (\<exists>e. x = Inl e) \<and> asked_wait env i \<in> {Some Plus_Inf, Some Not_A_Number}) \<and>
     (\<forall>r. x = Inr r \<longrightarrow> e_http env i = Responded r \<and> resp_status r \<noteq> 429 \<and>
       \<not> (500 \<le> resp_status r \<and> resp_status r < 600))"

lemma request_loop_Suc:
  "(\<exists>n' b' s'. loop_pass env (length (cl_sent s)) n n' b b' \<and> cl_sent s' = cl_sent s @ [req] \<and>
      cl_governor s' = cl_governor s \<and>
      request_loop (Suc fuel) env req n b s = request_loop fuel env req n' b' s') \<or>
   (\<exists>x s'. request_loop (Suc fuel) env req n b s = (x, s') \<and> cl_sent s' = cl_sent s @ [req] \<and>
      cl_governor s' = cl_governor s \<and> last_pass env (length (cl_sent s)) x)"
proof (cases "e_http env (length (cl_sent s))")
  case (Responded r)
  let ?i = "length (cl_sent s)"
  show ?thesis
  proof (cases "resp_status r = 429")
    case True
    with Responded have is_429: "answer_429 env ?i" by (simp add: answer_429_def)
    let ?w = "parse_retry_after (header ''retry-after'' r)"
    have w: "asked_wait env ?i = ?w" using Responded True by (simp add: asked_wait_def)
    let ?s = "s\<lparr>cl_sent := cl_sent s @ [req], cl_now := cl_now s + e_delay env ?i\<rparr>"
    let ?t = "\<lambda>t. ?s\<lparr>cl_now := cl_now ?s + max 0 t, cl_slept := cl_slept s @ [t]\<rparr>"
    show ?thesis
    proof (cases "?w = Some Plus_Inf \<or> ?w = Some Not_A_Number")
      case True
      then obtain e where "request_loop (Suc fuel) env req n b s = (Inl e, ?s)" "e = Still_Running \<longleftrightarrow> ?w = Some Plus_Inf"
        using \<open>resp_status r = 429\<close> Responded by (auto simp: exchange_result andThen_def throw_def)
      moreover from this(2) True w have "last_pass env ?i (Inl e)" by (auto simp: last_pass_def)
      moreover have "cl_sent ?s = cl_sent s @ [req]" "cl_governor ?s = cl_governor s" by simp_all
      ultimately show ?thesis by blast
    next
      case False
      with is_429 w have pass: "loop_pass env ?i n n b b'" for b' by (intro again_429) auto
      have "\<exists>b' s'. s' \<in> {?s} \<union> range ?t \<and> request_loop (Suc fuel) env req n b s = request_loop fuel env req n b' s'"
      proof (cases ?w)
        case None
        with True Responded show ?thesis by (auto simp: exchange_result sleep_def andThen_def)
      next
        case (Some x)
        with True Responded False show ?thesis
          by (cases x) (auto simp: exchange_result sleep_def andThen_def ret_def)
      qed
      then obtain b' s' where "request_loop (Suc fuel) env req n b s = request_loop fuel env req n b' s'"
        "cl_sent s' = cl_sent s @ [req]" "cl_governor s' = cl_governor s" by auto
      with pass show ?thesis by blast
    qed
  next
    case not_429: False
    then have none: "asked_wait env ?i = None" "\<not> answer_429 env ?i" using Responded by (simp_all add: asked_wait_def answer_429_def)
    show ?thesis
    proof (cases "500 \<le> resp_status r \<and> resp_status r < 600 \<and> n < MAX_5XX_RETRIES")
      case True
      then have pass: "loop_pass env ?i n (Suc n) b b'" for b'
        using Responded by (intro again_5xx) auto
      let ?t = "min b MAX_BACKOFF_SECONDS + e_jitter env (Suc ?i)"
      let ?s = "s\<lparr>cl_sent := cl_sent s @ [req],
          cl_now := cl_now s + e_delay env ?i + max 0 ?t, cl_slept := cl_slept s @ [?t]\<rparr>"
      have "request_loop (Suc fuel) env req n b s =
          request_loop fuel env req (Suc n) (min (b * 2) MAX_BACKOFF_SECONDS) ?s"
        using True not_429 Responded by (simp add: exchange_result sleep_def andThen_def)
      moreover have "cl_sent ?s = cl_sent s @ [req]" "cl_governor ?s = cl_governor s" by simp_all
      ultimately show ?thesis using pass by blast
    next
      case False
      with not_429 Responded none show ?thesis
        by (intro disjI2) (auto simp: exchange_result andThen_def last_pass_def throw_def ret_def)
    qed
  qed
qed (intro disjI2, auto simp: exchange_result andThen_def answer_429_def asked_wait_def last_pass_def throw_def)+

lemma num_429_start [simp]: "num_429 env a a = 0"
  by (simp add: num_429_def)

lemma loop_pass_bound:
  "loop_pass env i n n' b b' \<Longrightarrow> i < k \<Longrightarrow> k \<le> Suc i + (3 - n') + num_429 env (Suc i) k \<Longrightarrow>
     k \<le> i + (3 - n) + num_429 env i k"
  by (erule loop_pass.cases) (auto simp: num_429_Cons answer_429_def MAX_5XX_RETRIES_def)

lemma request_loop_bounds:
  assumes "request_loop fuel env req n b s = (x, s')" and "n \<le> 2"
  shows "\<exists>k. cl_sent s' = cl_sent s @ replicate k req \<and> cl_governor s' = cl_governor s \<and>
      k \<le> 3 - n + num_429 env (length (cl_sent s)) (length (cl_sent s) + k) \<and>
      (\<forall>r. x = Inr r \<longrightarrow> 0 < k \<and> e_http env (length (cl_sent s) + k - 1) = Responded r \<and>
         resp_status r \<noteq> 429 \<and> \<not> (500 \<le> resp_status r \<and> resp_status r < 600))"
  using assms
proof (induction fuel arbitrary: n b s)
  case 0
  then show ?case by auto
next
  case (Suc fuel)
  let ?a = "length (cl_sent s)"
  from request_loop_Suc [of env s n b req fuel] show ?case
  proof (elim disjE exE conjE)
    fix n' b' s1
    assume pass: "loop_pass env ?a n n' b b'" and s1: "cl_sent s1 = cl_sent s @ [req]"
      and gov: "cl_governor s1 = cl_governor s"
      and eq: "request_loop (Suc fuel) env req n b s = request_loop fuel env req n' b' s1"
    from pass Suc.prems(2) have n': "n' \<le> 2" by cases (auto simp: MAX_5XX_RETRIES_def)
    from eq Suc.prems(1) have "request_loop fuel env req n' b' s1 = (x, s')" by simp
    from Suc.IH [OF this n'] obtain k where k: "cl_sent s' = cl_sent s1 @ replicate k req"
      "cl_governor s' = cl_governor s1"
      "k \<le> 3 - n' + num_429 env (Suc ?a) (Suc ?a + k)"
      "\<forall>r. x = Inr r \<longrightarrow> 0 < k \<and> e_http env (Suc ?a + k - 1) = Responded r \<and>
         resp_status r \<noteq> 429 \<and> \<not> (500 \<le> resp_status r \<and> resp_status r < 600)"
      using s1 by auto
    from k(3) have "Suc ?a + k \<le> Suc ?a + (3 - n') + num_429 env (Suc ?a) (Suc ?a + k)" by simp
    from loop_pass_bound [OF pass _ this] have "Suc k \<le> 3 - n + num_429 env ?a (?a + Suc k)" by simp
    with k s1 gov show ?thesis by (intro exI [of _ "Suc k"]) auto
  next
    fix y s1
    assume "request_loop (Suc fuel) env req n b s = (y, s1)" and "cl_sent s1 = cl_sent s @ [req]"
      and "cl_governor s1 = cl_governor s" and "last_pass env ?a y"
    with Suc.prems show ?thesis by (intro exI [of _ 1]) (auto simp: last_pass_def)
  qed
qed

lemma request_loop_returns:
  assumes "n \<le> 2" and "length (filter (\<lambda>i. \<not> answer_429 env i) [length (cl_sent s)..<length (cl_sent s) + fuel]) \<ge> 3 - n"
    and "\<forall>i. length (cl_sent s) \<le> i \<and> i < length (cl_sent s) + fuel \<longrightarrow> asked_wait env i \<noteq> Some Plus_Inf"
  shows "fst (request_loop fuel env req n b s) \<noteq> Inl Still_Running"
  using assms
proof (induction fuel arbitrary: n b s)
  case 0
  then show ?case by simp
next
  case (Suc fuel)
  let ?a = "length (cl_sent s)"
  let ?later = "length (filter (\<lambda>i. \<not> answer_429 env i) [Suc ?a..<Suc ?a + fuel])"
  have step: "length (filter (\<lambda>i. \<not> answer_429 env i) [?a..<?a + Suc fuel]) =
      (if answer_429 env ?a then 0 else 1) + ?later"
    by (subst upt_conv_Cons) simp_all
  from request_loop_Suc [of env s n b req fuel] show ?case
  proof (elim disjE exE conjE)
    fix n' b' s1
    assume pass: "loop_pass env ?a n n' b b'" and s1: "cl_sent s1 = cl_sent s @ [req]"
      and eq: "request_loop (Suc fuel) env req n b s = request_loop fuel env req n' b' s1"
    from pass Suc.prems(1) have n': "n' \<le> 2" by cases (auto simp: MAX_5XX_RETRIES_def)
    from Suc.prems(2) step have "3 - n \<le> (if answer_429 env ?a then 0 else 1) + ?later" by linarith
    with pass have "3 - n' \<le> ?later" by cases (auto split: if_splits)
    note later = n' this
    have "length (cl_sent s1) = Suc ?a" using s1 by simp
    with Suc.IH [of n' s1 b'] later Suc.prems(3) have "fst (request_loop fuel env req n' b' s1) \<noteq> Inl Still_Running" by simp
    with eq show ?thesis by simp
  next
    fix y s1
    assume "request_loop (Suc fuel) env req n b s = (y, s1)" and "last_pass env ?a y"
    with Suc.prems(3) show ?thesis by (simp add: last_pass_def)
  qed
qed

lemma request_loop_429_forever:
  assumes "\<And>i. length (cl_sent s) \<le> i \<Longrightarrow> answer_429 env i \<and> asked_wait env i \<notin> {Some Plus_Inf, Some Not_A_Number}"
  shows "\<exists>s'. request_loop fuel env req n b s = (Inl Still_Running, s') \<and>
    cl_sent s' = cl_sent s @ replicate fuel req \<and> cl_governor s' = cl_governor s"
  using assms
proof (induction fuel arbitrary: n b s)
  case 0
  then show ?case by simp
next
  case (Suc fuel)
  have "answer_429 env (length (cl_sent s))" "asked_wait env (length (cl_sent s)) \<notin> {Some Plus_Inf, Some Not_A_Number}"
    using Suc.prems by simp_all
  then have "\<not> last_pass env (length (cl_sent s)) x" for x by (simp add: last_pass_def)
  with request_loop_Suc [of env s n b req fuel] obtain n' b' s1 where
    "cl_sent s1 = cl_sent s @ [req]" "cl_governor s1 = cl_governor s"
    "request_loop (Suc fuel) env req n b s = request_loop fuel env req n' b' s1"
    by blast
  then show ?case using Suc.IH [of s1 n' b'] Suc.prems by simp
qed

lemma request_loop_endless:
  assumes "asked_wait env (length (cl_sent s)) = Some Plus_Inf"
  shows "\<exists>s'. request_loop (Suc fuel) env req n b s = (Inl Still_Running, s') \<and> cl_sent s' = cl_sent s @ [req]"
proof -
  have "\<not> loop_pass env (length (cl_sent s)) n n' b b'" for n' b'
    using assms by (auto simp: loop_pass.simps asked_wait_def split: http_outcome.splits if_splits)
  with request_loop_Suc [of env s n b req fuel] obtain x s1 where "request_loop (Suc fuel) env req n b s = (x, s1)"
    "cl_sent s1 = cl_sent s @ [req]" "last_pass env (length (cl_sent s)) x" by blast
  with assms show ?thesis by (auto simp: last_pass_def simp del: request_loop.simps)
qed

section \<open>Properties\<close>

text \<open>C2: A token \<open>ensure_access_token\<close> returns is the cached one with more than 60 seconds to go,
  and then nothing is sent; or it comes from exactly one token request, made with the stored refresh
  token and answered with status 200, and is cached until the expiry the answer announces.\<close>

theorem ensure_access_token_result:
  assumes "ensure_access_token env s = (Inr t, s')"
  shows "(s' = s \<and> (\<exists>e. cl_access_token s = Some e \<and> ac_token e = t \<and>
      60 < ac_expires_at e - e_wall env (cl_now s))) \<or>
    (\<exists>rt r j p. fst (rs_load (cl_store s)) = Inr (Some rt) \<and>
      cl_sent s' = cl_sent s @ [oauth_request s rt] \<and>
      e_http env (length (cl_sent s)) = Responded r \<and> resp_status r = 200 \<and> resp_json r = Some j \<and>
      e_oauth_parse env j = Some p \<and> t = ot_access_token p \<and>
      cl_access_token s' = Some \<lparr>ac_token = t,
        ac_expires_at = e_wall env (cl_now s') + real_of_int (ot_expires_in p)\<rparr>)"
proof (cases "token_fresh env s")
  case True
  with assms have "s' = s" "\<exists>e. cl_access_token s = Some e \<and> ac_token e = t"
    by (auto simp: ensure_access_token_def andThen_def current_token_def split: option.splits)
  with True show ?thesis by (auto simp: token_fresh_def REFRESH_THRESHOLD_SECONDS_def)
next
  case False
  with assms obtain s2 where "refresh env s = (Inr (), s2)" and now: "current_token s2 = (Inr t, s')"
    by (auto simp: ensure_access_token_def andThen_Inr_iff)
  from this(1) obtain rt r s1 where rt: "fst (rs_load (cl_store s)) = Inr (Some rt)"
    and r: "e_http env (length (cl_sent s)) = Responded r" "resp_status r = 200"
    and s1: "s1 = s\<lparr>cl_sent := cl_sent s @ [oauth_request s rt],
       cl_now := cl_now s + e_delay env (length (cl_sent s))\<rparr>"
    and acc: "accept_tokens env rt r s1 = (Inr (), s2)" by (rule refresh_ok)
  from acc obtain j p where "resp_json r = Some j" "e_oauth_parse env j = Some p"
    "cl_access_token s2 = Some \<lparr>ac_token = ot_access_token p,
       ac_expires_at = e_wall env (cl_now s1) + real_of_int (ot_expires_in p)\<rparr>"
    "cl_now s2 = cl_now s1" "cl_sent s2 = cl_sent s1" by (rule accept_tokens_ok)
  with now rt r s1 show ?thesis by (auto simp: current_token_def)
qed

definition example_parse :: "json \<Rightarrow> ring_oauth_token_response option" where
  "example_parse j = Some \<lparr>ot_access_token = ''at'', ot_token_type = ''Bearer'', ot_expires_in = 3600,
     ot_refresh_token = Some ''t2'', ot_scope = None\<rparr>"

definition example_env :: "(nat \<Rightarrow> http_outcome) \<Rightarrow> env" where
  "example_env answers = \<lparr>e_http = answers, e_delay = (\<lambda>_. 0), e_wall = (\<lambda>t. t), e_iso = (\<lambda>_. ''d''),
     e_jitter = (\<lambda>_. 0), e_oauth_parse = example_parse, e_rotate_fault = No_Fault\<rparr>"

definition example_answer :: "int \<Rightarrow> http_outcome" where
  "example_answer status = Responded \<lparr>resp_status = status, resp_headers = [], resp_body = [],
     resp_json = Some (JArr [JObj []]), resp_raises = (status \<ge> 400)\<rparr>"

definition example_client :: client where
  "example_client = client_init 0 \<lparr>gov_max = 5, gov_wait = 1, gov_events = []\<rparr>
     (snd (rs_save ''d'' ''t1'' (rs_initialize plain_fernet None))) ''0'' 0"

lemma example_client_store [simp]:
  "rs_load (cl_store example_client) = (Inr (Some ''t1''), cl_store example_client)"
  "rs_good (cl_store example_client)"
  by (simp_all add: example_client_def client_init_def rs_initialize_def rs_save_def rs_load_def rs_good_def Let_def)

lemma example_client_token [simp]: "cl_access_token example_client = None"
  by (simp add: example_client_def client_init_def)

lemma example_client_sent [simp]: "cl_sent example_client = []"
  by (simp add: example_client_def client_init_def)

lemma example_env_simps [simp]:
  "e_http (example_env a) = a" "e_wall (example_env a) t = t" "e_delay (example_env a) n = 0"
  "e_oauth_parse (example_env a) = example_parse" "e_iso (example_env a) t = ''d''"
  "e_rotate_fault (example_env a) = No_Fault" "e_jitter (example_env a) n = 0"
  by (simp_all add: example_env_def)

lemma example_ensure:
  "\<exists>s'. ensure_access_token (example_env (\<lambda>_. example_answer 200)) example_client = (Inr ''at'', s')"
  by (simp add: ensure_access_token_def andThen_def token_fresh_def refresh_def on_store_def exchange_def
      Let_def example_answer_def accept_tokens_def json_of_def example_parse_def current_token_def
      split: prod.splits sum.splits)
    (auto simp: rs_rotate_def Let_def)

theorem ensure_access_token_result_witness:
  "\<exists>s'. ensure_access_token (example_env (\<lambda>_. example_answer 200)) example_client = (Inr ''at'', s') \<and>
     cl_sent s' = [oauth_request example_client ''t1'']"
proof -
  obtain s' where *: "ensure_access_token (example_env (\<lambda>_. example_answer 200)) example_client = (Inr ''at'', s')"
    using example_ensure by blast
  from ensure_access_token_result [OF this] * show ?thesis by auto
qed

text \<open>C3: When Ring rejects the refresh token with 401, one token request was sent, the store has
  recorded the invalidation by the time the error is raised, and every later attempt fails with
  \<open>AuthenticationRequiredError\<close> without sending anything, whatever Ring would answer.\<close>

theorem oauth_401_final:
  assumes good: "rs_good (cl_store s)" and rt: "fst (rs_load (cl_store s)) = Inr (Some rt)"
    and stale: "\<not> token_fresh env s"
    and answer: "e_http env (length (cl_sent s)) = Responded r" "resp_status r = 401"
  shows "\<exists>s'. ensure_access_token env s = (Inl (Adapter AuthenticationRequiredError), s') \<and>
    cl_sent s' = cl_sent s @ [oauth_request s rt] \<and> fst (rs_is_valid (cl_store s')) = Inr False \<and>
    (\<forall>env' t. \<not> token_fresh env' (s'\<lparr>cl_now := t\<rparr>) \<longrightarrow>
       ensure_access_token env' (s'\<lparr>cl_now := t\<rparr>) =
         (Inl (Adapter AuthenticationRequiredError), s'\<lparr>cl_now := t\<rparr>))"
proof -
  let ?now = "cl_now s + e_delay env (length (cl_sent s))"
  obtain st where st: "rs_mark_invalid (e_iso env ?now) (cl_store s) = (Inr (), st)" "rs_good st"
    "rs_load st = (Inr None, st)"
    using rs.mark_ok [OF good] by blast
  let ?s' = "s\<lparr>cl_sent := cl_sent s @ [oauth_request s rt], cl_now := ?now, cl_store := st\<rparr>"
  have "ensure_access_token env s = (Inl (Adapter AuthenticationRequiredError), ?s')"
    using stale rt answer st(1)
    by (simp add: ensure_access_token_def andThen_def refresh_def on_store_load exchange_result
        on_store_def [of "rs_mark_invalid _"])
  moreover have "fst (rs_is_valid st) = Inr False" using st rs.valid_ok by simp
  moreover have "ensure_access_token env' (?s'\<lparr>cl_now := t\<rparr>) =
      (Inl (Adapter AuthenticationRequiredError), ?s'\<lparr>cl_now := t\<rparr>)"
    if "\<not> token_fresh env' (?s'\<lparr>cl_now := t\<rparr>)" for env' t
    using st(3) that by (intro ensure_no_token) simp_all
  ultimately show ?thesis by (intro exI [of _ ?s']) simp
qed

theorem oauth_401_final_witness:
  "\<exists>s'. ensure_access_token (example_env (\<lambda>_. example_answer 401)) example_client =
       (Inl (Adapter AuthenticationRequiredError), s') \<and> fst (rs_is_valid (cl_store s')) = Inr False"
proof -
  have "\<not> token_fresh (example_env (\<lambda>_. example_answer 401)) example_client" by (simp add: token_fresh_def)
  from oauth_401_final [OF example_client_store(2) _ this, of "''t1''"] show ?thesis
    by (auto simp: example_answer_def)
qed

text \<open>C4: The request loop started by \<open>_request\<close> sends the same request at most three times more often
  than it is told 429; an answer it returns is the last one received and neither 429 nor 5xx; it
  touches neither the response cache nor the governor. It returns once three answers that are
  not 429 lie within its fuel, provided that no answer 429 among them asks to wait for infinity; one that does,
  \<open>Retry-After: inf\<close> or a number too large for a float, is obeyed: with any fuel the loop has then not returned.\<close>

theorem request_loop_contract:
  assumes "request_loop fuel env req 0 INITIAL_BACKOFF_SECONDS s = (x, s')"
  shows "(\<exists>k. cl_sent s' = cl_sent s @ replicate k req \<and>
      k \<le> 3 + num_429 env (length (cl_sent s)) (length (cl_sent s) + k) \<and>
      (\<forall>r. x = Inr r \<longrightarrow> e_http env (length (cl_sent s) + k - 1) = Responded r \<and>
         resp_status r \<noteq> 429 \<and> \<not> (500 \<le> resp_status r \<and> resp_status r < 600))) \<and>
    cl_cache s' = cl_cache s \<and> cl_governor s' = cl_governor s \<and>
    (3 \<le> length (filter (\<lambda>i. \<not> answer_429 env i) [length (cl_sent s)..<length (cl_sent s) + fuel]) \<and>
       (\<forall>i. length (cl_sent s) \<le> i \<and> i < length (cl_sent s) + fuel \<longrightarrow> asked_wait env i \<noteq> Some Plus_Inf) \<longrightarrow>
      x \<noteq> Inl Still_Running) \<and>
    (asked_wait env (length (cl_sent s)) = Some Plus_Inf \<and> 0 < fuel \<longrightarrow>
      x = Inl Still_Running \<and> cl_sent s' = cl_sent s @ [req])"
proof -
  have endless: "x = Inl Still_Running \<and> cl_sent s' = cl_sent s @ [req]"
    if "asked_wait env (length (cl_sent s)) = Some Plus_Inf" "0 < fuel"
  proof -
    from that(2) obtain n where "fuel = Suc n" using gr0_implies_Suc by blast
    with request_loop_endless [OF that(1), of n req 0 INITIAL_BACKOFF_SECONDS] assms show ?thesis
      by (auto simp del: request_loop.simps)
  qed
  show ?thesis
    using request_loop_bounds [OF assms] request_loop_returns [of 0 env s fuel req INITIAL_BACKOFF_SECONDS]
      evolvesD_eq [OF requests_only_loop assms] assms endless
    by (simp add: requests_only_def) blast
qed

definition flaky :: env where
  "flaky = example_env (\<lambda>n. example_answer (if n = 0 then 503 else if n = 1 then 429 else 200))"

lemma flaky_429: "answer_429 flaky i \<longleftrightarrow> i = 1"
  by (simp add: flaky_def answer_429_def example_answer_def)

lemma flaky_wait: "asked_wait flaky i = None"
  by (simp add: flaky_def asked_wait_def example_answer_def header_def parse_retry_after_def)

theorem request_loop_contract_witness:
  "fst (request_loop 4 flaky (oauth_request example_client ''t1'') 0 INITIAL_BACKOFF_SECONDS example_client)
     \<noteq> Inl Still_Running"
proof -
  obtain x s' where run: "request_loop 4 flaky (oauth_request example_client ''t1'') 0 INITIAL_BACKOFF_SECONDS
      example_client = (x, s')" by (meson surj_pair)
  have "[0..<4] = [0, 1, 2, 3::nat]" by (simp add: upt_rec)
  with request_loop_contract [OF run] have "x \<noteq> Inl Still_Running" by (simp add: flaky_429 flaky_wait)
  with run show ?thesis by simp
qed

text \<open>A token request never touches the governor.\<close>

lemma governor_kept: "evolves (\<lambda>s s'. cl_governor s' = cl_governor s) (ensure_access_token env)"
proof -
  have r: "reflp (\<lambda>s s'. cl_governor s' = cl_governor s)" and t: "transp (\<lambda>s s'. cl_governor s' = cl_governor s)"
    by (auto simp: reflp_def transp_def)
  have steps: "evolves (\<lambda>s s'. cl_governor s' = cl_governor s) (exchange env req)"
    "evolves (\<lambda>s s'. cl_governor s' = cl_governor s) (on_store m)"
    "evolves (\<lambda>s s'. cl_governor s' = cl_governor s) (modify (\<lambda>s. s\<lparr>cl_access_token := f s\<rparr>))" for req f
    and m :: "(refresh_store, exc, 'a) prog"
    by (auto simp: evolves_def exchange_def on_store_def Let_def split: prod.splits)
  note rules = evolves_basic [OF r] evolves_andThen [OF t] evolves_catch [OF t] evolves_asks
  show ?thesis
    unfolding ensure_access_token_def current_token_def refresh_def accept_tokens_def
    by (intro rules steps | (split option.split http_outcome.split if_split, intro conjI allI impI))+
qed

text \<open>C40: Once \<open>_request\<close> has its slot of the rate limiter and an access token, fresh or just fetched, it never returns as
  long as Ring answers 429 with waits that end: with any fuel it is still running, having sent one request per pass on
  that one slot. Retries are neither bounded nor counted by the rate limiter.\<close>

theorem retries_on_429_unbounded:
  assumes slot: "take_slot fuel s = (Inr (), s1)" and token: "ensure_access_token env s1 = (Inr tok, s2)"
    and busy: "\<And>i. length (cl_sent s2) \<le> i \<Longrightarrow> answer_429 env i \<and> asked_wait env i \<notin> {Some Plus_Inf, Some Not_A_Number}"
  shows "\<exists>s' req. request fuel env meth path ps body follow s = (Inl Still_Running, s') \<and>
    cl_sent s' = cl_sent s2 @ replicate fuel req \<and> cl_governor s' = cl_governor s1"
proof -
  let ?req = "api_request s2 tok meth path ps body follow"
  obtain s' where s': "request_loop fuel env ?req 0 INITIAL_BACKOFF_SECONDS s2 = (Inl Still_Running, s')"
    "cl_sent s' = cl_sent s2 @ replicate fuel ?req" "cl_governor s' = cl_governor s2"
    using request_loop_429_forever [of s2 env fuel ?req 0 INITIAL_BACKOFF_SECONDS] busy by blast
  have "request fuel env meth path ps body follow s = (Inl Still_Running, s')"
    using slot token s' by (simp add: request_def andThen_def)
  with s' evolvesD_eq [OF governor_kept token] show ?thesis by auto
qed

lemma example_client_governor [simp]:
  "cl_governor example_client = \<lparr>gov_max = 5, gov_wait = 1, gov_events = []\<rparr>" "cl_now example_client = 0"
  by (simp_all add: example_client_def client_init_def)

theorem retries_on_429_unbounded_witness:
  "fst (request 7 (example_env (\<lambda>n. example_answer (if n = 0 then 200 else 429))) ''GET'' ''/x'' [] None True example_client) =
     Inl Still_Running"
proof -
  let ?env = "example_env (\<lambda>n. example_answer (if n = 0 then 200 else 429))"
  let ?s = "example_client\<lparr>cl_governor := \<lparr>gov_max = 5, gov_wait = 1, gov_events = [0]\<rparr>\<rparr>"
  have slot: "take_slot 7 example_client = (Inr (), ?s)"
    by (simp add: take_slot_def acquire_def acquire_locked_def trim_locked_def eval_nat_numeral)
  have "\<exists>s2. ensure_access_token ?env ?s = (Inr ''at'', s2) \<and> length (cl_sent s2) = 1"
    by (simp add: ensure_access_token_def andThen_def token_fresh_def refresh_def on_store_def exchange_def
        Let_def example_answer_def accept_tokens_def json_of_def example_parse_def current_token_def
        split: prod.splits sum.splits)
      (auto simp: rs_rotate_def Let_def)
  then obtain s2 where s2: "ensure_access_token ?env ?s = (Inr ''at'', s2)" "length (cl_sent s2) = 1" by blast
  have "answer_429 ?env i \<and> asked_wait ?env i \<notin> {Some Plus_Inf, Some Not_A_Number}" if "length (cl_sent s2) \<le> i" for i
    using that s2(2) by (simp add: answer_429_def asked_wait_def example_answer_def header_def parse_retry_after_def)
  from retries_on_429_unbounded [OF slot s2(1) this, of "''GET''" "''/x''" "[]" None True] show ?thesis by auto
qed

text \<open>A device list that had to be fetched is served again for the next 30 seconds without any
  exchange and without a change of state, and from then on it is never served again.\<close>

theorem devices_cached_30s:
  assumes "get_devices fuel env s = (Inr devices, s')" and "cl_cache s ''devices'' = None"
  shows "(t < 30 \<longrightarrow> get_devices fuel' env' (s'\<lparr>cl_now := cl_now s' + t\<rparr>) =
      (Inr devices, s'\<lparr>cl_now := cl_now s' + t\<rparr>)) \<and>
    (30 \<le> t \<longrightarrow> fst (cache_get ''devices'' (s'\<lparr>cl_now := cl_now s' + t\<rparr>)) = Inr None)"
proof -
  from assms have "cl_cache s' ''devices'' = Some \<lparr>ce_data = devices, ce_expires_at = cl_now s' + 30\<rparr>"
    by (auto simp: get_devices_def andThen_Inr_iff cache_get_def cache_set_def DEVICES_CACHE_TTL_SECONDS_def
        split: option.splits)
  then show ?thesis by (simp add: get_devices_def andThen_def cache_get_def)
qed

lemma example_get_devices:
  "\<exists>s'. get_devices 2 (example_env (\<lambda>_. example_answer 200))
     (example_client\<lparr>cl_access_token := Some \<lparr>ac_token = ''at'', ac_expires_at = 1000\<rparr>\<rparr>) = (Inr [JObj []], s')"
  by (simp add: get_devices_def andThen_def cache_get_def get_json_def request_def take_slot_def acquire_def
      acquire_locked_def trim_locked_def ensure_access_token_def token_fresh_def REFRESH_THRESHOLD_SECONDS_def
      current_token_def exchange_def Let_def numeral_2_eq_2 example_answer_def raise_for_status_def json_of_def
      cache_set_def example_client_def client_init_def)

theorem devices_cached_30s_witness:
  "\<exists>s'. get_devices 0 (example_env (\<lambda>_. Timed_Out)) s' = (Inr [JObj []], s')"
proof -
  obtain s' where "get_devices 2 (example_env (\<lambda>_. example_answer 200))
     (example_client\<lparr>cl_access_token := Some \<lparr>ac_token = ''at'', ac_expires_at = 1000\<rparr>\<rparr>) = (Inr [JObj []], s')"
    using example_get_devices by blast
  from devices_cached_30s [OF this, of 29 0 "example_env (\<lambda>_. Timed_Out)"] show ?thesis
    by (auto simp: example_client_def client_init_def)
qed

end
