(* ===== verification/Sip_Sidecar.thy ===== *)
theory Sip_Sidecar imports Prelude begin

text \<open>
  The Node.js sidecar that keeps the SIP sessions: \<open>ring-sip-bridge/index.js\<close> and
  \<open>ring-sip-bridge/session.js\<close>.

  \<open>bridge\<close> is the state of one \<open>buildApp\<close>: the map of sessions in insertion order, the handlers that
  wait for \<open>factory.start\<close> and for \<open>session.stop\<close>, and the pending removals of the watchdog. A
  handler runs without interruption up to its \<open>await\<close>; \<open>post_sessions\<close> and \<open>delete_session\<close> are the
  handlers when nothing comes between, \<open>bridge_step\<close> lets them interleave. A factory is given by what
  its \<open>start\<close> yields; ids are those of \<open>randomUUID\<close>.
\<close>

section \<open>Values\<close>

text \<open>\<open>!v\<close> and \<open>v === w\<close> of decoded JSON; two decoded objects or arrays are never the same object.\<close>

fun js_falsy :: "json option \<Rightarrow> bool" where
  "js_falsy None = True"
| "js_falsy (Some JNull) = True"
| "js_falsy (Some (JBool b)) = (\<not> b)"
| "js_falsy (Some (JInt i)) = (i = 0)"
| "js_falsy (Some (JReal r)) = (r = 0)"
| "js_falsy (Some (JStr s)) = (s = '''')"
| "js_falsy (Some _) = False"

fun js_same :: "json \<Rightarrow> json \<Rightarrow> bool" where
  "js_same JNull JNull = True"
| "js_same (JBool a) (JBool b) = (a = b)"
| "js_same (JInt a) (JInt b) = (a = b)"
| "js_same (JReal a) (JReal b) = (a = b)"
| "js_same (JInt a) (JReal b) = (real_of_int a = b)"
| "js_same (JReal a) (JInt b) = (a = real_of_int b)"
| "js_same (JStr a) (JStr b) = (a = b)"
| "js_same _ _ = False"

text \<open>\<open>`${v}`\<close>; the decimal notation of a number that is no integer is the argument \<open>num\<close>.\<close>

fun js_string :: "(real \<Rightarrow> string) \<Rightarrow> json \<Rightarrow> string" where
  "js_string num JNull = ''null''"
| "js_string num (JBool b) = (if b then ''true'' else ''false'')"
| "js_string num (JInt i) = int_str i"
| "js_string num (JReal r) = num r"
| "js_string num (JStr s) = s"
| "js_string num (JArr xs) = join '','' (map (\<lambda>x. if x = JNull then '''' else js_string num x) xs)"
| "js_string num (JObj kvs) = ''[object Object]''"

section \<open>Sessions and factories\<close>

datatype camera_state = Active | Terminated

fun camera_state_string :: "camera_state \<Rightarrow> string" where
  "camera_state_string Active = ''active''"
| "camera_state_string Terminated = ''terminated''"

record camera_session =
  cs_device_id :: json
  cs_rtsp_path :: string
  cs_has_audio :: bool
  cs_state :: camera_state
  cs_started_at :: real

text \<open>
  \<open>createSessionFactory().start\<close>, the scaffold that keeps no token, and the factory of the tests;
  \<open>None\<close> is an exception.
\<close>

definition factory_start :: "(real \<Rightarrow> string) \<Rightarrow> real \<Rightarrow> json \<Rightarrow> camera_session option" where
  "factory_start num now device_id = Some \<lparr>cs_device_id = device_id,
     cs_rtsp_path = ''ring/'' @ js_string num device_id, cs_has_audio = True, cs_state = Active,
     cs_started_at = now\<rparr>"

definition test_factory_start :: "bool \<Rightarrow> bool \<Rightarrow> (real \<Rightarrow> string) \<Rightarrow> real \<Rightarrow> json \<Rightarrow> camera_session option" where
  "test_factory_start fails has_audio num now device_id =
     (if fails then None
      else Some \<lparr>cs_device_id = device_id, cs_rtsp_path = ''ring/'' @ js_string num device_id,
        cs_has_audio = has_audio, cs_state = Active, cs_started_at = now\<rparr>)"

definition session_stop :: "camera_session \<Rightarrow> camera_session" where
  "session_stop c = c\<lparr>cs_state := Terminated\<rparr>"

section \<open>The application\<close>

record bridge =
  br_sessions :: "(string \<times> camera_session) list"
  br_starting :: "(string \<times> json) list"
  br_stopping :: "string list"
  br_timers :: "string list"

definition bridge_init :: bridge where
  "bridge_init = \<lparr>br_sessions = [], br_starting = [], br_stopping = [], br_timers = []\<rparr>"

text \<open>\<open>Map.set\<close> and \<open>Map.delete\<close> of a map kept in insertion order.\<close>

fun map_set :: "'k \<Rightarrow> 'v \<Rightarrow> ('k \<times> 'v) list \<Rightarrow> ('k \<times> 'v) list" where
  "map_set k v [] = [(k, v)]"
| "map_set k v ((k', v') # kvs) = (if k' = k then (k, v) # kvs else (k', v') # map_set k v kvs)"

definition map_delete :: "'k \<Rightarrow> ('k \<times> 'v) list \<Rightarrow> ('k \<times> 'v) list" where
  "map_delete k kvs = filter (\<lambda>(k', _). k' \<noteq> k) kvs"

definition error_json :: "string \<Rightarrow> json" where
  "error_json e = JObj [(''error'', JStr e)]"

definition device_busy :: "json \<Rightarrow> bridge \<Rightarrow> bool" where
  "device_busy device_id s \<longleftrightarrow>
     list_ex (\<lambda>(_, c). js_same (cs_device_id c) device_id \<and> cs_state c = Active) (br_sessions s)"

text \<open>\<open>POST /sessions\<close> up to the \<open>await\<close>: an answer, or the device to start a session for.\<close>

definition post_check :: "json option \<Rightarrow> bridge \<Rightarrow> (int \<times> json) + json" where
  "post_check body s =
     (let field = (\<lambda>k. Option.bind body (json_field k));
          device_id = field ''device_id''; refresh_token = field ''refresh_token''
      in if js_falsy device_id \<or> js_falsy refresh_token
         then Inl (400, error_json ''device_id and refresh_token are required'')
         else if device_busy (the device_id) s then Inl (409, error_json ''device_busy'')
         else Inr (the device_id))"

definition created_json :: "string \<Rightarrow> camera_session \<Rightarrow> json" where
  "created_json bridge_session_id c = JObj [(''bridge_session_id'', JStr bridge_session_id),
     (''rtsp_path'', JStr (cs_rtsp_path c)), (''has_audio'', JBool (cs_has_audio c))]"

text \<open>The rest of the handler, once \<open>factory.start\<close> has settled.\<close>

definition post_finish :: "string \<Rightarrow> string \<Rightarrow> camera_session option \<Rightarrow> bridge \<Rightarrow> (int \<times> json) \<times> bridge" where
  "post_finish detail bridge_session_id started s = (case started of
     None \<Rightarrow> ((502, JObj [(''error'', JStr ''sip_failed''), (''detail'', JStr detail)]), s)
   | Some c \<Rightarrow> ((201, created_json bridge_session_id c),
       s\<lparr>br_sessions := map_set bridge_session_id c (br_sessions s)\<rparr>))"

definition post_sessions :: "(json \<Rightarrow> camera_session option) \<Rightarrow> string \<Rightarrow> string \<Rightarrow> json option \<Rightarrow> bridge \<Rightarrow>
    (int \<times> json) \<times> bridge" where
  "post_sessions start detail bridge_session_id body s = (case post_check body s of
     Inl answer \<Rightarrow> (answer, s)
   | Inr device_id \<Rightarrow> post_finish detail bridge_session_id (start device_id) s)"

text \<open>
  \<open>DELETE /sessions/:id\<close>: \<open>stop\<close> marks the session at once; it is dropped after the \<open>await\<close>. A \<open>stop\<close>
  that throws is logged and changes nothing here.
\<close>

definition delete_begin :: "string \<Rightarrow> bridge \<Rightarrow> bridge" where
  "delete_begin i s = (case map_of (br_sessions s) i of
     None \<Rightarrow> s
   | Some c \<Rightarrow> s\<lparr>br_sessions := map_set i (session_stop c) (br_sessions s), br_stopping := br_stopping s @ [i]\<rparr>)"

definition delete_end :: "string \<Rightarrow> bridge \<Rightarrow> bridge" where
  "delete_end i s = s\<lparr>br_sessions := map_delete i (br_sessions s), br_stopping := remove1 i (br_stopping s)\<rparr>"

definition delete_session :: "string \<Rightarrow> bridge \<Rightarrow> int \<times> bridge" where
  "delete_session i s = (204, if map_of (br_sessions s) i = None then s else delete_end i (delete_begin i s))"

text \<open>The watchdog: Ring ends the call, and five seconds later the entry goes.\<close>

definition ring_terminates :: "string \<Rightarrow> bridge \<Rightarrow> bridge" where
  "ring_terminates i s = (case map_of (br_sessions s) i of
     None \<Rightarrow> s
   | Some c \<Rightarrow> s\<lparr>br_sessions := map_set i (c\<lparr>cs_state := Terminated\<rparr>) (br_sessions s), br_timers := br_timers s @ [i]\<rparr>)"

definition timer_fires :: "string \<Rightarrow> bridge \<Rightarrow> bridge" where
  "timer_fires i s = s\<lparr>br_sessions := map_delete i (br_sessions s), br_timers := remove1 i (br_timers s)\<rparr>"

definition get_sessions :: "bridge \<Rightarrow> json" where
  "get_sessions s = JArr (map (\<lambda>(i, c). JObj [(''bridge_session_id'', JStr i), (''device_id'', cs_device_id c),
     (''state'', JStr (camera_state_string (cs_state c))), (''started_at'', JReal (cs_started_at c)),
     (''has_audio'', JBool (cs_has_audio c))]) (br_sessions s))"

definition get_health :: "bridge \<Rightarrow> json" where
  "get_health s = JObj [(''status'', JStr ''ok''), (''active_sessions'', JInt (int (length (br_sessions s))))]"

section \<open>Maps in insertion order\<close>

lemma map_of_map_set [simp]: "map_of (map_set k v kvs) = (map_of kvs)(k \<mapsto> v)"
  by (induction kvs) (auto simp: fun_eq_iff)

lemma map_of_map_delete [simp]: "map_of (map_delete k kvs) = (map_of kvs)(k := None)"
  by (induction kvs) (auto simp: fun_eq_iff map_delete_def)

lemma map_delete_map_set [simp]: "map_delete k (map_set k v kvs) = map_delete k kvs"
  by (induction kvs) (auto simp: map_delete_def)

lemma map_delete_absent: "map_of kvs k = None \<Longrightarrow> map_delete k kvs = kvs"
  by (induction kvs) (auto simp: map_delete_def split: if_splits)

lemma map_set_append: "map_of kvs k = None \<Longrightarrow> map_set k v kvs = kvs @ [(k, v)]"
  by (induction kvs) (auto split: if_splits)

lemma map_delete_idem [simp]: "map_delete k (map_delete k kvs) = map_delete k kvs"
  by (simp add: map_delete_def)

section \<open>One active session per device\<close>

definition active_on :: "string \<Rightarrow> string \<times> camera_session \<Rightarrow> bool" where
  "active_on d x \<longleftrightarrow> cs_device_id (snd x) = JStr d \<and> cs_state (snd x) = Active"

definition active_count :: "string \<Rightarrow> bridge \<Rightarrow> nat" where
  "active_count d s = length (filter (active_on d) (br_sessions s))"

lemma js_same_string: "js_same v (JStr d) \<longleftrightarrow> v = JStr d"
  by (cases v) auto

lemma device_busy_iff: "device_busy (JStr d) s \<longleftrightarrow> active_count d s \<noteq> 0"
  by (auto simp: device_busy_def active_count_def active_on_def js_same_string list_ex_iff filter_empty_conv
      case_prod_beta)

lemma active_count_set_inactive:
  "cs_state c \<noteq> Active \<Longrightarrow> length (filter (active_on d) (map_set i c kvs)) \<le> length (filter (active_on d) kvs)"
  by (induction kvs) (auto simp: active_on_def)

lemma active_count_delete:
  "length (filter (active_on d) (map_delete i kvs)) \<le> length (filter (active_on d) kvs)"
  by (induction kvs) (auto simp: map_delete_def)

text \<open>\<open>Map.set\<close> with a new key adds at most the session it stores.\<close>

lemma active_count_set:
  "length (filter (active_on d) (map_set i c kvs)) \<le>
     length (filter (active_on d) kvs) + (if active_on d (i, c) then 1 else 0)"
  by (induction kvs) auto

section \<open>Requests one at a time\<close>

datatype bridge_op =
    Post string "json option" real
  | Delete string
  | Ring_Ends string
  | Timer string

fun bridge_do :: "(real \<Rightarrow> string) \<Rightarrow> bridge_op \<Rightarrow> bridge \<Rightarrow> bridge" where
  "bridge_do num (Post u body now) s = snd (post_sessions (factory_start num now) '''' u body s)"
| "bridge_do num (Delete i) s = snd (delete_session i s)"
| "bridge_do num (Ring_Ends i) s = ring_terminates i s"
| "bridge_do num (Timer i) s = timer_fires i s"

lemma bridge_do_one_active:
  assumes "active_count d s \<le> 1"
  shows "active_count d (bridge_do num x s) \<le> 1"
proof (cases x)
  case (Post u body now)
  show ?thesis
  proof (cases "post_check body s")
    case (Inl a)
    with Post assms show ?thesis by (simp add: post_sessions_def)
  next
    case (Inr dev)
    let ?c = "the (factory_start num now dev)"
    have sessions: "br_sessions (bridge_do num x s) = map_set u ?c (br_sessions s)"
      using Post Inr by (simp add: post_sessions_def post_finish_def factory_start_def)
    show ?thesis
    proof (cases "dev = JStr d")
      case True
      with Inr have "active_count d s = 0"
        using device_busy_iff [of d s] by (auto simp: post_check_def Let_def split: if_splits)
      with sessions active_count_set [of d u ?c "br_sessions s"] show ?thesis
        by (simp add: active_count_def split: if_splits)
    next
      case False
      then have "\<not> active_on d (u, ?c)" by (simp add: active_on_def factory_start_def)
      with sessions assms active_count_set [of d u ?c "br_sessions s"] show ?thesis
        by (simp add: active_count_def)
    qed
  qed
next
  case (Delete i)
  with assms active_count_delete [of d i "br_sessions s"] show ?thesis
    by (auto simp: delete_session_def delete_end_def delete_begin_def active_count_def split: option.splits)
next
  case (Ring_Ends i)
  show ?thesis
  proof (cases "map_of (br_sessions s) i")
    case None
    with Ring_Ends assms show ?thesis by (simp add: ring_terminates_def)
  next
    case (Some c)
    with Ring_Ends assms active_count_set_inactive [of "c\<lparr>cs_state := Terminated\<rparr>" d i "br_sessions s"]
    show ?thesis by (simp add: ring_terminates_def active_count_def)
  qed
next
  case (Timer i)
  with assms active_count_delete [of d i "br_sessions s"] show ?thesis
    by (simp add: timer_fires_def active_count_def)
qed

section \<open>Interleaved handlers\<close>

text \<open>
  \<open>factory.start\<close> takes its time, so other handlers may run while one waits for it. An id is drawn
  when the wait begins.
\<close>

inductive bridge_step :: "(real \<Rightarrow> string) \<Rightarrow> bridge \<Rightarrow> bridge \<Rightarrow> bool" for num where
  post_waits: "post_check body s = Inr d \<Longrightarrow> u \<notin> fst ` set (br_sessions s) \<union> fst ` set (br_starting s) \<Longrightarrow>
    bridge_step num s (s\<lparr>br_starting := br_starting s @ [(u, d)]\<rparr>)"
| post_settles: "(u, d) \<in> set (br_starting s) \<Longrightarrow> started = None \<or> started = factory_start num now d \<Longrightarrow>
    bridge_step num s (snd (post_finish detail u started (s\<lparr>br_starting := remove1 (u, d) (br_starting s)\<rparr>)))"
| delete_waits: "map_of (br_sessions s) i \<noteq> None \<Longrightarrow> bridge_step num s (delete_begin i s)"
| delete_settles: "i \<in> set (br_stopping s) \<Longrightarrow> bridge_step num s (delete_end i s)"
| ring: "bridge_step num s (ring_terminates i s)"
| timer: "i \<in> set (br_timers s) \<Longrightarrow> bridge_step num s (timer_fires i s)"

inductive bridge_reachable :: "(real \<Rightarrow> string) \<Rightarrow> bridge \<Rightarrow> bool" for num where
  start: "bridge_reachable num bridge_init"
| step: "bridge_reachable num s \<Longrightarrow> bridge_step num s s' \<Longrightarrow> bridge_reachable num s'"

inductive_cases bridge_stepE: "bridge_step num s s'"

definition bridge_ok :: "bridge \<Rightarrow> bool" where
  "bridge_ok s \<longleftrightarrow> distinct (map fst (br_sessions s) @ map fst (br_starting s))"

lemma map_fst_map_set:
  "map fst (map_set k v kvs) = (if k \<in> set (map fst kvs) then map fst kvs else map fst kvs @ [k])"
  by (induction kvs) (auto simp: image_iff Bex_def)

lemma map_set_keys: "set (map fst (map_set k v kvs)) = insert k (set (map fst kvs))"
  unfolding map_fst_map_set by auto

lemma map_set_distinct: "distinct (map fst kvs) \<Longrightarrow> distinct (map fst (map_set k v kvs))"
  unfolding map_fst_map_set by auto

lemma map_delete_keys: "set (map fst (map_delete k kvs)) = set (map fst kvs) - {k}"
  by (auto simp: map_delete_def)

lemma map_delete_distinct: "distinct (map fst kvs) \<Longrightarrow> distinct (map fst (map_delete k kvs))"
  by (simp add: map_delete_def distinct_map_filter)

lemma map_of_key: "map_of kvs k = Some v \<Longrightarrow> k \<in> set (map fst kvs)"
  by (force dest: map_of_SomeD)

lemma bridge_ok_replace:
  "bridge_ok s \<Longrightarrow> map_of (br_sessions s) i = Some c \<Longrightarrow>
     bridge_ok (s\<lparr>br_sessions := map_set i c' (br_sessions s), br_stopping := x, br_timers := y\<rparr>)"
  using map_set_keys [of i c' "br_sessions s"] map_of_key [of "br_sessions s" i c]
  by (auto simp: bridge_ok_def map_set_distinct)

lemma bridge_ok_delete:
  "bridge_ok s \<Longrightarrow> bridge_ok (s\<lparr>br_sessions := map_delete i (br_sessions s), br_stopping := x, br_timers := y\<rparr>)"
  using map_delete_keys [of i "br_sessions s"] by (auto simp: bridge_ok_def map_delete_distinct)

lemma remove1_keys:
  assumes "distinct (map fst xs)" and "(u, d) \<in> set xs"
  shows "distinct (map fst (remove1 (u, d) xs))" and "set (map fst (remove1 (u, d) xs)) = set (map fst xs) - {u}"
  using assms by (induction xs) (auto simp: rev_image_eqI)

lemma bridge_ok_settle:
  assumes "bridge_ok s" and "(u, d) \<in> set (br_starting s)"
  shows "bridge_ok (snd (post_finish detail u started (s\<lparr>br_starting := remove1 (u, d) (br_starting s)\<rparr>)))"
proof -
  from assms(1) have "distinct (map fst (br_starting s))" by (simp add: bridge_ok_def)
  note keys = remove1_keys [OF this assms(2)]
  show ?thesis
    using assms keys map_set_keys [of u _ "br_sessions s"]
    by (cases started) (auto simp: bridge_ok_def post_finish_def map_set_distinct)
qed

lemma bridge_step_ok:
  assumes "bridge_step num s s'" and "bridge_ok s"
  shows "bridge_ok s'"
  using assms
proof cases
  case (post_waits body d u)
  with assms(2) show ?thesis by (auto simp: bridge_ok_def)
next
  case (post_settles u d started now detail)
  with bridge_ok_settle [OF assms(2)] show ?thesis by simp
next
  case (delete_waits i)
  then obtain c where "map_of (br_sessions s) i = Some c" by auto
  with bridge_ok_replace [OF assms(2) this, where c' = "session_stop c" and y = "br_timers s"] delete_waits
  show ?thesis by (simp add: delete_begin_def)
next
  case (delete_settles i)
  with bridge_ok_delete [OF assms(2), where i = i and y = "br_timers s"] show ?thesis by (simp add: delete_end_def)
next
  case (ring i)
  show ?thesis
  proof (cases "map_of (br_sessions s) i")
    case None
    with ring assms(2) show ?thesis by (simp add: ring_terminates_def)
  next
    case (Some c)
    with bridge_ok_replace [OF assms(2) Some, where c' = "c\<lparr>cs_state := Terminated\<rparr>" and x = "br_stopping s"] ring
    show ?thesis by (simp add: ring_terminates_def)
  qed
next
  case (timer i)
  with bridge_ok_delete [OF assms(2), where i = i and x = "br_stopping s"] show ?thesis by (simp add: timer_fires_def)
qed

lemma bridge_reachable_ok: "bridge_reachable num s \<Longrightarrow> bridge_ok s"
proof (induction rule: bridge_reachable.induct)
  case start
  show ?case by (simp add: bridge_ok_def bridge_init_def)
next
  case (step s s')
  then show ?case by (blast intro: bridge_step_ok)
qed

lemma sidecar_delete_map:
  "map_of (br_sessions (snd (delete_session i s))) = (map_of (br_sessions s))(i := None)"
  by (auto simp: delete_session_def delete_begin_def delete_end_def fun_eq_iff split: option.splits)

section \<open>Properties\<close>

text \<open>C15: Handled one at a time, whatever the order of requests, of calls that Ring ends and of watchdog
  removals, the sidecar never holds two active sessions for one device.\<close>

theorem sidecar_one_active:
  "active_count d (fold (bridge_do num) ops bridge_init) \<le> 1"
proof -
  have "active_count d s \<le> 1 \<Longrightarrow> active_count d (fold (bridge_do num) ops s) \<le> 1" for s
  proof (induction ops arbitrary: s)
    case Nil
    then show ?case by simp
  next
    case (Cons x ops)
    from Cons.IH [OF bridge_do_one_active [OF Cons.prems]] show ?case by simp
  qed
  then show ?thesis by (simp add: bridge_init_def active_count_def)
qed

text \<open>The busy check and the registration are separated by an \<open>await\<close>: when two requests for one
  device overlap there, both are answered 201 and the device has two active sessions. In every such
  interleaving the ids stay distinct, so no session ever replaces another.\<close>

theorem sidecar_busy_race:
  "(\<exists>s. bridge_reachable num s \<and> active_count ''7'' s = 2) \<and>
   (\<nexists>s. bridge_reachable num s \<and> \<not> distinct (map fst (br_sessions s)))"
proof
  let ?body = "Some (JObj [(''device_id'', JStr ''7''), (''refresh_token'', JStr ''t'')])"
  let ?c = "the (factory_start num 0 (JStr ''7''))"
  let ?s1 = "bridge_init\<lparr>br_starting := [(''a'', JStr ''7'')]\<rparr>"
  let ?s2 = "bridge_init\<lparr>br_starting := [(''a'', JStr ''7''), (''b'', JStr ''7'')]\<rparr>"
  let ?s3 = "bridge_init\<lparr>br_starting := [(''b'', JStr ''7'')], br_sessions := [(''a'', ?c)]\<rparr>"
  let ?s4 = "bridge_init\<lparr>br_sessions := [(''a'', ?c), (''b'', ?c)]\<rparr>"
  have "bridge_reachable num ?s1"
    using bridge_reachable.step [OF bridge_reachable.start bridge_step.post_waits [of ?body bridge_init "JStr ''7''" "''a''" num]]
    by (simp add: post_check_def Let_def device_busy_def bridge_init_def)
  from bridge_reachable.step [OF this bridge_step.post_waits [of ?body ?s1 "JStr ''7''" "''b''" num]]
  have "bridge_reachable num ?s2"
    by (simp add: post_check_def Let_def device_busy_def bridge_init_def)
  from bridge_reachable.step [OF this bridge_step.post_settles [of "''a''" "JStr ''7''" ?s2 "Some ?c" num 0 "''''"]]
  have "bridge_reachable num ?s3"
    by (simp add: post_finish_def factory_start_def bridge_init_def)
  from bridge_reachable.step [OF this bridge_step.post_settles [of "''b''" "JStr ''7''" ?s3 "Some ?c" num 0 "''''"]]
  have "bridge_reachable num ?s4"
    by (simp add: post_finish_def factory_start_def bridge_init_def)
  moreover have "active_count ''7'' ?s4 = 2"
    by (simp add: active_count_def active_on_def factory_start_def)
  ultimately show "\<exists>s. bridge_reachable num s \<and> active_count ''7'' s = 2" by blast
next
  show "\<nexists>s. bridge_reachable num s \<and> \<not> distinct (map fst (br_sessions s))"
    using bridge_reachable_ok by (auto simp: bridge_ok_def)
qed

text \<open>\<open>DELETE /sessions/:id\<close> is idempotent: it always answers 204, afterwards the id is gone and
  every other session is as it was, and repeating it changes nothing.\<close>

theorem sidecar_delete_idempotent:
  "fst (delete_session i s) = 204 \<and>
   map_of (br_sessions (snd (delete_session i s))) = (map_of (br_sessions s))(i := None) \<and>
   delete_session i (snd (delete_session i s)) = delete_session i s"
  by (auto simp: delete_session_def delete_begin_def delete_end_def fun_eq_iff split: option.splits)

end
