(* ===== verification/Sip_Client.thy ===== *)
theory Sip_Client imports Adapter_Errors Sip_Sidecar begin

text \<open>
  The backend's client of the sidecar, \<open>app/adapters/sip_bridge_client.py\<close>, and its composition with
  the sidecar's handlers. The answer to an exchange is an argument of the method that makes it; the
  requests made are kept in \<open>sp_sent\<close>.
\<close>

record bridge_session =
  bs_bridge_session_id :: string
  bs_rtsp_path :: string

record sip_request =
  sr_method :: string
  sr_url :: string
  sr_json :: "json option"
  sr_timeout :: real

record sip_client =
  sp_base_url :: string
  sp_sent :: "sip_request list"
  sp_owned_open :: bool

definition START_TIMEOUT_SECONDS :: real where "START_TIMEOUT_SECONDS = 15"
definition STOP_TIMEOUT_SECONDS :: real where "STOP_TIMEOUT_SECONDS = 5"
definition HEALTH_TIMEOUT_SECONDS :: real where "HEALTH_TIMEOUT_SECONDS = 3"

definition sip_init :: "string \<Rightarrow> bool \<Rightarrow> sip_client" where
  "sip_init base_url http_given = \<lparr>sp_base_url = rstrip_slash base_url, sp_sent = [], sp_owned_open = (\<not> http_given)\<rparr>"

definition sip_send :: "sip_request \<Rightarrow> (sip_client, exc, unit) prog" where
  "sip_send req = modify (\<lambda>s. s\<lparr>sp_sent := sp_sent s @ [req]\<rparr>)"

text \<open>\<open>str(v)\<close>; the notation of numbers with a fraction and of containers is the argument \<open>repr\<close>.\<close>

fun py_str :: "(json \<Rightarrow> string) \<Rightarrow> json \<Rightarrow> string" where
  "py_str repr (JStr s) = s"
| "py_str repr (JInt i) = int_str i"
| "py_str repr (JBool b) = (if b then ''True'' else ''False'')"
| "py_str repr JNull = ''None''"
| "py_str repr v = repr v"

text \<open>\<open>data[k]\<close>\<close>

fun py_item :: "json \<Rightarrow> string \<Rightarrow> exc + json" where
  "py_item (JObj kvs) k = (case map_of kvs k of None \<Rightarrow> Inl KeyError | Some v \<Rightarrow> Inr v)"
| "py_item _ k = Inl TypeError"

text \<open>What \<open>start\<close> makes of the sidecar's answer.\<close>

definition read_bridge_session :: "(json \<Rightarrow> string) \<Rightarrow> http_response \<Rightarrow> exc + bridge_session" where
  "read_bridge_session repr response =
     (if resp_status response = 409 then Inl (Adapter StreamCapacityExceededError)
      else if 500 \<le> resp_status response \<and> resp_status response < 600 then Inl (Adapter UpstreamUnavailableError)
      else if resp_status response \<notin> {200, 201} then Inl (Adapter UpstreamUnavailableError)
      else (case json_of response of Inl e \<Rightarrow> Inl e
        | Inr data \<Rightarrow> (case py_item data ''bridge_session_id'' of Inl e \<Rightarrow> Inl e
          | Inr i \<Rightarrow> (case py_item data ''rtsp_path'' of Inl e \<Rightarrow> Inl e
            | Inr p \<Rightarrow> Inr \<lparr>bs_bridge_session_id = py_str repr i, bs_rtsp_path = py_str repr p\<rparr>))))"

definition start_body :: "string \<Rightarrow> string \<Rightarrow> json" where
  "start_body device_id refresh_token = JObj [(''device_id'', JStr device_id), (''refresh_token'', JStr refresh_token)]"

definition sip_start :: "(json \<Rightarrow> string) \<Rightarrow> http_outcome \<Rightarrow> exc + string option \<Rightarrow> string \<Rightarrow>
    (sip_client, exc, bridge_session) prog" where
  "sip_start repr answer provided device_id =
     andThen (of_sum provided) (\<lambda>token. case token of
       None \<Rightarrow> throw (Adapter AuthenticationRequiredError)
     | Some refresh_token \<Rightarrow>
         andThen (asks (\<lambda>s. sip_send \<lparr>sr_method = ''POST'', sr_url = sp_base_url s @ ''/sessions'',
             sr_json = Some (start_body device_id refresh_token), sr_timeout = START_TIMEOUT_SECONDS\<rparr>)) (\<lambda>_.
         case answer of
           Timed_Out \<Rightarrow> throw (Adapter UpstreamTimeoutError)
         | Transport_Failed \<Rightarrow> throw (Adapter UpstreamUnavailableError)
         | Responded response \<Rightarrow> of_sum (read_bridge_session repr response)))"

definition stop_request :: "sip_client \<Rightarrow> string \<Rightarrow> sip_request" where
  "stop_request s bridge_session_id = \<lparr>sr_method = ''DELETE'',
     sr_url = sp_base_url s @ ''/sessions/'' @ bridge_session_id, sr_json = None, sr_timeout = STOP_TIMEOUT_SECONDS\<rparr>"

definition sip_stop :: "http_outcome \<Rightarrow> string \<Rightarrow> (sip_client, exc, unit) prog" where
  "sip_stop answer bridge_session_id =
     andThen (asks (\<lambda>s. sip_send (stop_request s bridge_session_id))) (\<lambda>_. case answer of
       Timed_Out \<Rightarrow> throw (Adapter UpstreamTimeoutError)
     | Transport_Failed \<Rightarrow> throw (Adapter UpstreamUnavailableError)
     | Responded response \<Rightarrow> if resp_status response \<in> {200, 202, 204, 404} then ret ()
         else throw (Adapter UpstreamUnavailableError))"

definition sip_healthy :: "http_outcome \<Rightarrow> (sip_client, exc, bool) prog" where
  "sip_healthy answer =
     andThen (asks (\<lambda>s. sip_send \<lparr>sr_method = ''GET'', sr_url = sp_base_url s @ ''/health'', sr_json = None,
       sr_timeout = HEALTH_TIMEOUT_SECONDS\<rparr>)) (\<lambda>_. ret (case answer of
         Responded response \<Rightarrow> 200 \<le> resp_status response \<and> resp_status response < 300 | _ \<Rightarrow> False))"

definition sip_aclose :: "(sip_client, exc, unit) prog" where
  "sip_aclose = modify (\<lambda>s. s\<lparr>sp_owned_open := False\<rparr>)"

lemmas sip_defs = sip_start_def sip_stop_def sip_healthy_def sip_send_def andThen_def

lemma sip_stop_state: "snd (sip_stop a i s) = s\<lparr>sp_sent := sp_sent s @ [stop_request s i]\<rparr>"
  by (simp add: sip_defs split: http_outcome.splits)

lemma sip_start_error_kinds:
  "sip_start repr a (Inr p) d s = (Inl e, s') \<Longrightarrow> is_adapter_error e \<or> e \<in> {JSONDecodeError, KeyError, TypeError}"
  by (auto simp: sip_defs read_bridge_session_def json_of_def
      split: option.splits http_outcome.splits if_splits sum.splits elim: py_item.elims)

section \<open>The client against the sidecar\<close>

text \<open>A handler's answer as the HTTP library hands it to the client.\<close>

definition as_response :: "int \<times> json \<Rightarrow> http_response" where
  "as_response a = \<lparr>resp_status = fst a, resp_headers = [], resp_body = [], resp_json = Some (snd a),
     resp_raises = (400 \<le> fst a)\<rparr>"

text \<open>The answer the sidecar gives to the body that \<open>start\<close> sends.\<close>

definition sidecar_post :: "(real \<Rightarrow> string) \<Rightarrow> real \<Rightarrow> string \<Rightarrow> string \<Rightarrow> string \<Rightarrow> bridge \<Rightarrow> (int \<times> json) \<times> bridge" where
  "sidecar_post num now u device_id refresh_token =
     post_sessions (factory_start num now) '''' u (Some (start_body device_id refresh_token))"

text \<open>C17: Against the sidecar, \<open>start\<close> for a device and a stored token reports a busy device as
  \<open>StreamCapacityExceededError\<close> and leaves the sidecar alone; otherwise it returns the id and the path
  under which the sidecar now holds one more session, active and for that device.\<close>

theorem start_against_sidecar:
  assumes "d \<noteq> ''''" and "t \<noteq> ''''"
  shows "case sidecar_post num now u d t b of (a, b') \<Rightarrow>
    fst (sip_start repr (Responded (as_response a)) (Inr (Some t)) d s) =
      (if active_count d b \<noteq> 0 then Inl (Adapter StreamCapacityExceededError)
       else Inr \<lparr>bs_bridge_session_id = u, bs_rtsp_path = ''ring/'' @ d\<rparr>) \<and>
    b' = (if active_count d b \<noteq> 0 then b
       else b\<lparr>br_sessions := map_set u \<lparr>cs_device_id = JStr d, cs_rtsp_path = ''ring/'' @ d, cs_has_audio = True,
          cs_state = Active, cs_started_at = now\<rparr> (br_sessions b)\<rparr>)"
  using assms
  by (auto simp: sidecar_post_def post_sessions_def post_check_def start_body_def device_busy_iff Let_def
      post_finish_def factory_start_def sip_defs read_bridge_session_def as_response_def json_of_def
      created_json_def error_json_def)

theorem start_against_sidecar_witness:
  "fst (sip_start (\<lambda>_. '''') (Responded (as_response (fst (sidecar_post (\<lambda>_. '''') 0 ''u'' ''7'' ''t'' bridge_init))))
     (Inr (Some ''t'')) ''7'' (sip_init ''http://sip/'' True)) =
   Inr \<lparr>bs_bridge_session_id = ''u'', bs_rtsp_path = ''ring/7''\<rparr>"
  using start_against_sidecar [where num = "\<lambda>_. ''''" and now = 0 and u = "''u''" and d = "''7''" and t = "''t''"
      and b = bridge_init and repr = "\<lambda>_. ''''" and s = "sip_init ''http://sip/'' True"]
  by (simp add: case_prod_beta active_count_def bridge_init_def)

text \<open>Against the sidecar, \<open>stop\<close> succeeds for every id, known or not, and afterwards the sidecar
  holds no session under it.\<close>

theorem stop_against_sidecar:
  "fst (sip_stop (Responded (as_response (fst (delete_session i b), JNull))) i s) = Inr () \<and>
   map_of (br_sessions (snd (delete_session i b))) i = None"
  using sidecar_delete_map [of i b] by (simp add: sip_defs as_response_def delete_session_def)

end
