(* ===== verification/Unofficial_Adapter.thy ===== *)
theory Unofficial_Adapter imports Consumer_Client Sip_Client Ring_Adapter begin

text \<open>
  The adapter for a real Ring account, \<open>app/adapters/unofficial.py\<close>: the consumer client, the client of
  the SIP sidecar and the session map composed to the adapter interface. \<open>adapter_env\<close> is the outside:
  the client's environment, the sidecar's and mediamtx's answers, the ids drawn, and pydantic's
  validation. The log records of the decorator \<open>_logged\<close>, which re-raises every exception, are left out.
\<close>

record adapter_env =
  ae_client :: env
  ae_sip :: "nat \<Rightarrow> http_outcome"
  ae_whep :: "nat \<Rightarrow> http_outcome"
  ae_uuid :: "nat \<Rightarrow> string"
  ae_device_parse :: "json \<Rightarrow> ring_device option"
  ae_event_parse :: "json \<Rightarrow> ring_event option"
  ae_str :: "json \<Rightarrow> string"

record whep_request =
  wr_url :: string
  wr_content :: string

record adapter =
  ad_client :: client
  ad_sip :: sip_client
  ad_sessions :: session_map
  ad_max_concurrent :: int
  ad_whep_base :: string
  ad_whep_sent :: "whep_request list"
  ad_created :: nat
  ad_whep_open :: bool

definition adapter_init :: "client \<Rightarrow> sip_client \<Rightarrow> int \<Rightarrow> string \<Rightarrow> bool \<Rightarrow> adapter" where
  "adapter_init client sip max_concurrent whep_base http_given = \<lparr>ad_client = client, ad_sip = sip,
     ad_sessions = sm_empty, ad_max_concurrent = max_concurrent, ad_whep_base = rstrip_slash whep_base,
     ad_whep_sent = [], ad_created = 0, ad_whep_open = (\<not> http_given)\<rparr>"

abbreviation on_client :: "(client, exc, 'a) prog \<Rightarrow> (adapter, exc, 'a) prog" where
  "on_client \<equiv> zoom ad_client (\<lambda>c s. s\<lparr>ad_client := c\<rparr>)"

abbreviation on_sip :: "(sip_client, exc, 'a) prog \<Rightarrow> (adapter, exc, 'a) prog" where
  "on_sip \<equiv> zoom ad_sip (\<lambda>c s. s\<lparr>ad_sip := c\<rparr>)"

abbreviation on_sessions :: "(session_map, exc, 'a) prog \<Rightarrow> (adapter, exc, 'a) prog" where
  "on_sessions \<equiv> zoom ad_sessions (\<lambda>m s. s\<lparr>ad_sessions := m\<rparr>)"

section \<open>Read operations\<close>

text \<open>\<open>except httpx.HTTPStatusError\<close>: the adapter error for the status of the response.\<close>

definition translate_status :: "(int \<Rightarrow> ring_adapter_error) \<Rightarrow> ('s, exc, 'a) prog \<Rightarrow> ('s, exc, 'a) prog" where
  "translate_status f m = catch m (\<lambda>e. case e of HTTPStatusError status \<Rightarrow> throw (Adapter (f status)) | _ \<Rightarrow> throw e)"

definition list_devices :: "nat \<Rightarrow> adapter_env \<Rightarrow> (adapter, exc, device_resource list) prog" where
  "list_devices fuel env = andThen
     (translate_status (\<lambda>_. UpstreamUnavailableError) (on_client (get_devices fuel (ae_client env)))) (\<lambda>raw_devices.
     let parsed = List.map_filter (ae_device_parse env) raw_devices;
         cameras = filter (\<lambda>d. is_camera_kind (rd_kind d)) parsed
     in ret (map map_device cameras))"

text \<open>\<open>xs[:limit]\<close>: a negative limit counts from the end.\<close>

definition py_prefix :: "int \<Rightarrow> 'a list \<Rightarrow> 'a list" where
  "py_prefix limit xs = (if 0 \<le> limit then take (nat limit) xs else take (length xs - nat (- limit)) xs)"

fun ok_part :: "exc + 'a \<Rightarrow> 'a option" where
  "ok_part (Inl e) = None"
| "ok_part (Inr x) = Some x"

definition list_events :: "nat \<Rightarrow> adapter_env \<Rightarrow> string \<Rightarrow> int \<Rightarrow> (adapter, exc, event_resource list) prog" where
  "list_events fuel env device_id limit = andThen
     (translate_status (\<lambda>status. if status = 404 then DeviceNotFoundError else UpstreamUnavailableError)
       (on_client (get_history fuel (ae_client env) device_id limit))) (\<lambda>raw_events.
     let parsed = List.map_filter (ae_event_parse env) raw_events;
         mapped = List.map_filter (\<lambda>ev. ok_part (map_event ev device_id)) parsed
     in ret (py_prefix limit mapped))"

definition download_snapshot :: "nat \<Rightarrow> adapter_env \<Rightarrow> string \<Rightarrow> (adapter, exc, snapshot_payload) prog" where
  "download_snapshot fuel env device_id = andThen
     (translate_status (\<lambda>status. if status = 404 then SnapshotUnavailableError else UpstreamUnavailableError)
       (on_client (get_snapshot fuel (ae_client env) device_id))) (\<lambda>(content, content_type).
     ret \<lparr>sn_content = content, sn_content_type = content_type\<rparr>)"

definition download_video :: "nat \<Rightarrow> adapter_env \<Rightarrow> string \<Rightarrow> string option \<Rightarrow> (adapter, exc, string) prog" where
  "download_video fuel env device_id event_id = (case event_id of
     None \<Rightarrow> throw (Adapter DeviceNotFoundError)
   | Some e \<Rightarrow> translate_status (\<lambda>status. if status = 402 then SubscriptionRequiredError
         else if status = 404 then DeviceNotFoundError else UpstreamUnavailableError)
       (on_client (get_clip_url fuel (ae_client env) e)))"

section \<open>Stream lifecycle\<close>

definition bridge_start :: "adapter_env \<Rightarrow> string \<Rightarrow> (adapter, exc, bridge_session) prog" where
  "bridge_start env device_id = asks (\<lambda>s. on_sip (sip_start (ae_str env) (ae_sip env (length (sp_sent (ad_sip s))))
     (fst (rs_load (cl_store (ad_client s)))) device_id))"

definition bridge_stop :: "adapter_env \<Rightarrow> string \<Rightarrow> (adapter, exc, unit) prog" where
  "bridge_stop env i = asks (\<lambda>s. on_sip (sip_stop (ae_sip env (length (sp_sent (ad_sip s)))) i))"

text \<open>\<open>str(uuid.uuid4())\<close>: the next id, never drawn again.\<close>

definition new_session :: "adapter_env \<Rightarrow> string \<Rightarrow> bridge_session \<Rightarrow> (adapter, exc, stream_session) prog" where
  "new_session env device_id b s =
     (Inr \<lparr>ss_session_id = ae_uuid env (ad_created s), ss_bridge_session_id = bs_bridge_session_id b,
        ss_device_id = device_id, ss_mediamtx_path = bs_rtsp_path b,
        ss_created_at = e_wall (ae_client env) (cl_now (ad_client s)), ss_state = Session_Active,
        ss_has_audio = False\<rparr>, s\<lparr>ad_created := Suc (ad_created s)\<rparr>)"

definition whep_post :: "adapter_env \<Rightarrow> string \<Rightarrow> string \<Rightarrow> (adapter, exc, http_outcome) prog" where
  "whep_post env rtsp_path sdp_offer s = (Inr (ae_whep env (length (ad_whep_sent s))),
     s\<lparr>ad_whep_sent := ad_whep_sent s @
        [\<lparr>wr_url = ad_whep_base s @ ''/'' @ rtsp_path @ ''/whep'', wr_content = sdp_offer\<rparr>]\<rparr>)"

text \<open>Best effort: an exception of \<open>stop\<close> is logged and dropped.\<close>

definition cleanup_failed_session :: "adapter_env \<Rightarrow> stream_session \<Rightarrow> (adapter, exc, unit) prog" where
  "cleanup_failed_session env session =
     andThen (on_sessions (sm_remove (ss_session_id session))) (\<lambda>_.
     catch (bridge_stop env (ss_bridge_session_id session)) (\<lambda>e. ret ()))"

text \<open>The session object is shared with the map, so the change is seen there.\<close>

definition set_has_audio :: "string \<Rightarrow> bool \<Rightarrow> session_map \<Rightarrow> session_map" where
  "set_has_audio i b m = map (\<lambda>(k, x). (k, if k = i then x\<lparr>ss_has_audio := b\<rparr> else x)) m"

text \<open>The exchange with mediamtx for a session that is bound already.\<close>

definition whep_leg :: "adapter_env \<Rightarrow> stream_session \<Rightarrow> string \<Rightarrow> string \<Rightarrow> (adapter, exc, stream_session_result) prog" where
  "whep_leg env session rtsp_path sdp_offer =
     andThen (whep_post env rtsp_path sdp_offer) (\<lambda>answer.
     case answer of
       Timed_Out \<Rightarrow> andThen (cleanup_failed_session env session) (\<lambda>_. throw (Adapter UpstreamTimeoutError))
     | Transport_Failed \<Rightarrow> andThen (cleanup_failed_session env session) (\<lambda>_. throw (Adapter UpstreamUnavailableError))
     | Responded response \<Rightarrow>
         if resp_status response \<noteq> 201 then
           andThen (cleanup_failed_session env session) (\<lambda>_. throw (Adapter UpstreamUnavailableError))
         else andThen (of_sum (decode_body response)) (\<lambda>sdp_answer.
           andThen (modify (\<lambda>s. s\<lparr>ad_sessions :=
               set_has_audio (ss_session_id session) (contains ''m=audio'' sdp_answer) (ad_sessions s)\<rparr>)) (\<lambda>_.
           ret \<lparr>sr_sdp_answer = sdp_answer, sr_location = session_location (ss_session_id session),
             sr_session_id = ss_session_id session\<rparr>)))"

definition create_stream_session :: "adapter_env \<Rightarrow> string \<Rightarrow> string \<Rightarrow> (adapter, exc, stream_session_result) prog" where
  "create_stream_session env device_id sdp_offer =
     andThen (asks (\<lambda>s. on_sessions (sm_check_capacity (ad_max_concurrent s)))) (\<lambda>_.
     andThen (bridge_start env device_id) (\<lambda>b.
     andThen (new_session env device_id b) (\<lambda>session.
     andThen (on_sessions (sm_bind session)) (\<lambda>_. whep_leg env session (bs_rtsp_path b) sdp_offer))))"

definition delete_stream_session :: "adapter_env \<Rightarrow> string \<Rightarrow> (adapter, exc, unit) prog" where
  "delete_stream_session env session_id =
     andThen (on_sessions (sm_lookup session_id)) (\<lambda>session.
       finally_do (bridge_stop env (ss_bridge_session_id session)) (on_sessions (sm_remove session_id)))"

fun stop_all :: "adapter_env \<Rightarrow> stream_session list \<Rightarrow> (adapter, exc, unit) prog" where
  "stop_all env [] = ret ()"
| "stop_all env (x # xs) = andThen (catch (bridge_stop env (ss_bridge_session_id x)) (\<lambda>e. ret ())) (\<lambda>_. stop_all env xs)"

definition aclose :: "adapter_env \<Rightarrow> (adapter, exc, unit) prog" where
  "aclose env = andThen (on_sessions sm_clear) (\<lambda>sessions. andThen (stop_all env sessions) (\<lambda>_.
     modify (\<lambda>s. s\<lparr>ad_whep_open := False\<rparr>)))"

definition unofficial_adapter :: "nat \<Rightarrow> adapter_env \<Rightarrow> adapter ring_adapter" where
  "unofficial_adapter fuel env = \<lparr>ra_list_devices = list_devices fuel env, ra_list_events = list_events fuel env,
     ra_download_snapshot = download_snapshot fuel env, ra_download_video = download_video fuel env,
     ra_create_stream_session = create_stream_session env, ra_delete_stream_session = delete_stream_session env,
     ra_mode = ''unofficial''\<rparr>"

section \<open>The adapter interface\<close>

lemma set_map_filter: "y \<in> set (List.map_filter f xs) \<longleftrightarrow> (\<exists>x \<in> set xs. f x = Some y)"
  by (force simp: List.map_filter_def)

lemma set_py_prefix: "set (py_prefix limit xs) \<subseteq> set xs"
  by (auto simp: py_prefix_def dest: in_set_takeD)

lemma length_py_prefix: "0 \<le> limit \<Longrightarrow> int (length (py_prefix limit xs)) \<le> limit"
  by (simp add: py_prefix_def)

lemma ok_part_iff: "ok_part r = Some x \<longleftrightarrow> r = Inr x"
  by (cases r) auto

lemma map_event_device: "map_event ev d = Inr e \<Longrightarrow> er_device_id e = d"
  by (auto simp: map_event_def split: option.splits)

lemma list_events_result:
  assumes "list_events fuel env d limit s = (Inr evs, s')"
  shows "\<exists>evs'. evs = py_prefix limit evs' \<and> (\<forall>e \<in> set evs'. er_device_id e = d)"
proof -
  from assms obtain raw where "evs = py_prefix limit (List.map_filter (\<lambda>ev. ok_part (map_event ev d))
      (List.map_filter (ae_event_parse env) raw))"
    by (auto simp: list_events_def andThen_Inr_iff Let_def)
  then show ?thesis by (intro exI conjI, assumption) (auto simp: set_map_filter ok_part_iff map_event_device)
qed

lemma list_devices_result:
  assumes "list_devices fuel env s = (Inr ds, s')"
  shows "\<exists>raw. ds = map map_device (filter (\<lambda>d. is_camera_kind (rd_kind d)) (List.map_filter (ae_device_parse env) raw))"
  using assms by (auto simp: list_devices_def andThen_Inr_iff Let_def)

lemma create_location:
  assumes "create_stream_session env d sdp s = (Inr r, s')"
  shows "sr_location r = session_location (sr_session_id r)"
proof -
  from assms obtain x p s1 where "whep_leg env x p sdp s1 = (Inr r, s')"
    by (auto simp: create_stream_session_def andThen_Inr_iff)
  then show ?thesis
    by (cases "ae_whep env (length (ad_whep_sent s1))")
      (auto simp: whep_leg_def whep_post_def andThen_def cleanup_failed_session_def
        split: prod.splits sum.splits if_splits)
qed

interpretation unofficial: ring_adapter_laws "unofficial_adapter fuel env" for fuel env
proof
  fix d limit s evs s'
  assume "ra_list_events (unofficial_adapter fuel env) d limit s = (Inr evs, s')"
  then have "list_events fuel env d limit s = (Inr evs, s')" by (simp add: unofficial_adapter_def)
  from list_events_result [OF this] obtain evs' where evs: "evs = py_prefix limit evs'"
    "\<forall>e \<in> set evs'. er_device_id e = d" by blast
  show "int (length evs) \<le> limit" if "0 \<le> limit"
    unfolding evs(1) using that by (rule length_py_prefix)
  show "er_device_id e = d" if "e \<in> set evs" for e
  proof -
    from that have "e \<in> set evs'" unfolding evs(1) by (rule subsetD [OF set_py_prefix])
    with evs(2) show ?thesis by simp
  qed
next
  show "dr_type x = da_model (dr_attributes x)"
    if "ra_list_devices (unofficial_adapter fuel env) s = (Inr ds, s')" "x \<in> set ds" for s ds s' x
  proof -
    from that(1) have "list_devices fuel env s = (Inr ds, s')" by (simp add: unofficial_adapter_def)
    from list_devices_result [OF this] that(2) show ?thesis by (auto simp: map_device_def Let_def)
  qed
  show "sr_location r = session_location (sr_session_id r)"
    if "ra_create_stream_session (unofficial_adapter fuel env) d sdp s = (Inr r, s')" for d sdp s r s'
    using that create_location by (simp add: unofficial_adapter_def)
qed (simp add: unofficial_adapter_def)

section \<open>Session creation: facts\<close>

lemma check_capacity_step:
  "zoom ad_sessions (\<lambda>m s. s\<lparr>ad_sessions := m\<rparr>) (sm_check_capacity k) s =
     (if int (length (ad_sessions s)) \<ge> k then (Inl (Adapter StreamCapacityExceededError), s) else (Inr (), s))"
  by (simp add: zoom_def sm_check_capacity_def)

lemma bridge_stop_state:
  "snd (bridge_stop env i s) = s\<lparr>ad_sip := (ad_sip s)\<lparr>sp_sent := sp_sent (ad_sip s) @ [stop_request (ad_sip s) i]\<rparr>\<rparr>"
  using sip_stop_state [of "ae_sip env (length (sp_sent (ad_sip s)))" i "ad_sip s"]
  by (auto simp: bridge_stop_def zoom_def split: prod.split)

definition stop_sent :: "string \<Rightarrow> adapter \<Rightarrow> adapter" where
  "stop_sent i s = s\<lparr>ad_sip := (ad_sip s)\<lparr>sp_sent := sp_sent (ad_sip s) @ [stop_request (ad_sip s) i]\<rparr>\<rparr>"

lemma bridge_stop_snd: "snd (bridge_stop env i s) = stop_sent i s"
  by (simp add: bridge_stop_state stop_sent_def)

lemma stop_swallowed: "catch (bridge_stop env i) (\<lambda>e. ret ()) s = (Inr (), stop_sent i s)"
proof (cases "bridge_stop env i s")
  case (Pair r t)
  then have "t = stop_sent i s" using bridge_stop_snd [of env i s] by simp
  with Pair show ?thesis by (cases r) simp_all
qed

lemma cleanup_result:
  "cleanup_failed_session env x s =
     (Inr (), stop_sent (ss_bridge_session_id x) (s\<lparr>ad_sessions := snd (sm_remove (ss_session_id x) (ad_sessions s))\<rparr>))"
  by (simp add: cleanup_failed_session_def andThen_def zoom_def sm_remove_def stop_swallowed)

lemma bind_then_remove:
  assumes "ss_session_id x \<notin> fst ` set m"
  shows "snd (sm_remove (ss_session_id x) (m @ [(ss_session_id x, x)])) = m"
  using filter_not_key [of "ss_session_id x" m] assms by (simp add: sm_remove_def)

lemma set_has_audio_last:
  "i \<notin> fst ` set m \<Longrightarrow> set_has_audio i b (m @ [(i, x)]) = m @ [(i, x\<lparr>ss_has_audio := b\<rparr>)]"
  by (induction m) (auto simp: set_has_audio_def)

lemma bridge_start_keeps:
  assumes "bridge_start env d s = (r, s1)"
  shows "s1 = s\<lparr>ad_sip := ad_sip s1\<rparr>"
  using assms by (auto simp: bridge_start_def zoom_def split: prod.splits)

lemma bridge_start_fields:
  assumes "bridge_start env d s = (r, s1)"
  shows "ad_sessions s1 = ad_sessions s" "ad_created s1 = ad_created s" "ad_client s1 = ad_client s"
    "ad_whep_sent s1 = ad_whep_sent s" "ad_whep_base s1 = ad_whep_base s" "ad_max_concurrent s1 = ad_max_concurrent s"
  by (subst bridge_start_keeps [OF assms], simp)+

text \<open>The session bound before the exchange with mediamtx.\<close>

definition bound_session :: "adapter_env \<Rightarrow> string \<Rightarrow> bridge_session \<Rightarrow> adapter \<Rightarrow> stream_session" where
  "bound_session env d b s = \<lparr>ss_session_id = ae_uuid env (ad_created s), ss_bridge_session_id = bs_bridge_session_id b,
        ss_device_id = d, ss_mediamtx_path = bs_rtsp_path b,
        ss_created_at = e_wall (ae_client env) (cl_now (ad_client s)), ss_state = Session_Active,
        ss_has_audio = False\<rparr>"

lemma create_unfold:
  assumes fresh: "ae_uuid env (ad_created s) \<notin> fst ` set (ad_sessions s)"
    and room: "int (length (ad_sessions s)) < ad_max_concurrent s"
    and start: "bridge_start env d s = (Inr b, s1)"
  shows "create_stream_session env d sdp s =
    whep_leg env (bound_session env d b s) (bs_rtsp_path b) sdp
      (s1\<lparr>ad_created := Suc (ad_created s),
          ad_sessions := ad_sessions s @ [(ae_uuid env (ad_created s), bound_session env d b s)]\<rparr>)"
proof -
  note fields = bridge_start_fields [OF start]
  have "asks (\<lambda>s. on_sessions (sm_check_capacity (ad_max_concurrent s))) s = (Inr (), s)"
    using room by (simp add: check_capacity_step)
  moreover have "new_session env d b s1 = (Inr (bound_session env d b s), s1\<lparr>ad_created := Suc (ad_created s)\<rparr>)"
    using fields by (simp add: new_session_def bound_session_def)
  moreover have "on_sessions (sm_bind (bound_session env d b s)) (s1\<lparr>ad_created := Suc (ad_created s)\<rparr>) =
      (Inr (), s1\<lparr>ad_created := Suc (ad_created s),
          ad_sessions := ad_sessions s @ [(ae_uuid env (ad_created s), bound_session env d b s)]\<rparr>)"
    using fields fresh by (simp add: zoom_def sm_bind_def bound_session_def)
  ultimately show ?thesis
    unfolding create_stream_session_def by (simp only: andThen_ok start)
qed

lemma create_refused:
  "ad_max_concurrent s \<le> int (length (ad_sessions s)) \<Longrightarrow>
     create_stream_session env d sdp s = (Inl (Adapter StreamCapacityExceededError), s)"
  by (simp add: create_stream_session_def andThen_def check_capacity_step)

lemma create_start_failed:
  "int (length (ad_sessions s)) < ad_max_concurrent s \<Longrightarrow> bridge_start env d s = (Inl e, s1) \<Longrightarrow>
     create_stream_session env d sdp s = (Inl e, s1)"
  by (simp add: create_stream_session_def andThen_def check_capacity_step)

text \<open>The exchange with mediamtx, case by case.\<close>

lemma whep_leg_ok:
  assumes "ae_whep env (length (ad_whep_sent s)) = Responded r" and "resp_status r = 201" and "utf8_valid (resp_body r)"
  shows "\<exists>s'. whep_leg env x p sdp s = (Inr \<lparr>sr_sdp_answer = resp_body r,
      sr_location = session_location (ss_session_id x), sr_session_id = ss_session_id x\<rparr>, s') \<and>
    ad_sessions s' = set_has_audio (ss_session_id x) (contains ''m=audio'' (resp_body r)) (ad_sessions s) \<and>
    ad_sip s' = ad_sip s \<and> ad_max_concurrent s' = ad_max_concurrent s \<and> ad_created s' = ad_created s"
  using assms by (simp add: whep_leg_def andThen_def whep_post_def decode_body_def)

lemma whep_leg_undecodable:
  assumes "ae_whep env (length (ad_whep_sent s)) = Responded r" and "resp_status r = 201" and "\<not> utf8_valid (resp_body r)"
  shows "\<exists>s'. whep_leg env x p sdp s = (Inl UnicodeDecodeError, s') \<and> ad_sessions s' = ad_sessions s \<and>
    ad_sip s' = ad_sip s \<and> ad_max_concurrent s' = ad_max_concurrent s \<and> ad_created s' = ad_created s"
  using assms by (simp add: whep_leg_def andThen_def whep_post_def decode_body_def)

lemma whep_leg_failed:
  assumes "\<nexists>r. ae_whep env (length (ad_whep_sent s)) = Responded r \<and> resp_status r = 201"
  shows "\<exists>e s'. whep_leg env x p sdp s = (Inl (Adapter e), s') \<and>
    ad_sessions s' = snd (sm_remove (ss_session_id x) (ad_sessions s)) \<and>
    sp_sent (ad_sip s') = sp_sent (ad_sip s) @ [stop_request (ad_sip s) (ss_bridge_session_id x)] \<and>
    ad_max_concurrent s' = ad_max_concurrent s \<and> ad_created s' = ad_created s"
  using assms
  by (cases "ae_whep env (length (ad_whep_sent s))")
    (auto simp: whep_leg_def andThen_def whep_post_def cleanup_result stop_sent_def)

section \<open>Properties\<close>

text \<open>mediamtx accepts the offer with an answer that is no UTF-8.\<close>

definition undecodable_answer :: "adapter_env \<Rightarrow> adapter \<Rightarrow> bool" where
  "undecodable_answer env s \<longleftrightarrow> (case ae_whep env (length (ad_whep_sent s)) of
     Responded a \<Rightarrow> resp_status a = 201 \<and> \<not> utf8_valid (resp_body a) | _ \<Rightarrow> False)"


definition example_adapter :: adapter where
  "example_adapter = adapter_init example_client (sip_init ''http://sip'' True) 2 ''http://whep/'' True"

definition example_sip_answer :: http_outcome where
  "example_sip_answer = Responded (as_response (201, JObj [(''bridge_session_id'', JStr ''b1''), (''rtsp_path'', JStr ''ring/7'')]))"

definition example_adapter_env :: "http_outcome \<Rightarrow> adapter_env" where
  "example_adapter_env whep = \<lparr>ae_client = example_env (\<lambda>_. example_answer 200), ae_sip = (\<lambda>_. example_sip_answer),
     ae_whep = (\<lambda>_. whep), ae_uuid = (\<lambda>n. ''s'' @ nat_str n), ae_device_parse = (\<lambda>_. None),
     ae_event_parse = (\<lambda>_. None), ae_str = (\<lambda>_. '''')\<rparr>"

lemma example_start:
  "\<exists>s1. bridge_start (example_adapter_env w) d example_adapter =
     (Inr \<lparr>bs_bridge_session_id = ''b1'', bs_rtsp_path = ''ring/7''\<rparr>, s1) \<and> sp_sent (ad_sip s1) \<noteq> [] \<and>
     ad_whep_sent s1 = []"
  by (simp add: bridge_start_def example_adapter_def adapter_init_def zoom_def example_adapter_env_def sip_defs
      example_sip_answer_def read_bridge_session_def as_response_def json_of_def)

lemma example_adapter_simps [simp]:
  "ad_sessions example_adapter = []" "ad_max_concurrent example_adapter = 2" "ad_created example_adapter = 0"
  by (simp_all add: example_adapter_def adapter_init_def sm_empty_def)


text \<open>An answer of mediamtx that is no UTF-8 leaks the session: the request fails, but the session
  stays in the map, counts against the capacity, and the sidecar is never told to stop.\<close>

theorem undecodable_answer_leaks:
  assumes fresh: "ae_uuid env (ad_created s) \<notin> fst ` set (ad_sessions s)"
    and room: "int (length (ad_sessions s)) < ad_max_concurrent s"
    and start: "bridge_start env d s = (Inr b, s1)"
    and answer: "ae_whep env (length (ad_whep_sent s)) = Responded r" "resp_status r = 201" "\<not> utf8_valid (resp_body r)"
  shows "\<exists>s'. create_stream_session env d sdp s = (Inl UnicodeDecodeError, s') \<and>
    length (ad_sessions s') = Suc (length (ad_sessions s)) \<and> sp_sent (ad_sip s') = sp_sent (ad_sip s1)"
proof -
  let ?s2 = "s1\<lparr>ad_created := Suc (ad_created s),
      ad_sessions := ad_sessions s @ [(ae_uuid env (ad_created s), bound_session env d b s)]\<rparr>"
  have "ae_whep env (length (ad_whep_sent ?s2)) = Responded r"
    using answer(1) bridge_start_fields [OF start] by simp
  from whep_leg_undecodable [OF this answer(2,3), of "bound_session env d b s" "bs_rtsp_path b" sdp]
    create_unfold [OF fresh room start, of sdp]
  show ?thesis by auto
qed

theorem undecodable_answer_leaks_witness:
  "\<exists>s'. create_stream_session (example_adapter_env (Responded \<lparr>resp_status = 201, resp_headers = [],
      resp_body = [char_of (255::nat)], resp_json = None, resp_raises = False\<rparr>)) ''7'' ''offer'' example_adapter =
      (Inl UnicodeDecodeError, s') \<and> length (ad_sessions s') = 1"
proof -
  let ?r = "\<lparr>resp_status = 201, resp_headers = [], resp_body = [char_of (255::nat)], resp_json = None, resp_raises = False\<rparr>"
  obtain s1 where start: "bridge_start (example_adapter_env (Responded ?r)) ''7'' example_adapter =
      (Inr \<lparr>bs_bridge_session_id = ''b1'', bs_rtsp_path = ''ring/7''\<rparr>, s1)" using example_start by blast
  show ?thesis
    using undecodable_answer_leaks [OF _ _ start, of ?r "''offer''"]
    by (auto simp: example_adapter_env_def utf8_valid_def)
qed

lemma stop_sent_fields [simp]:
  "ad_sessions (stop_sent i s) = ad_sessions s" "ad_max_concurrent (stop_sent i s) = ad_max_concurrent s"
  "ad_created (stop_sent i s) = ad_created s" "sp_base_url (ad_sip (stop_sent i s)) = sp_base_url (ad_sip s)"
  "sp_sent (ad_sip (stop_sent i s)) = sp_sent (ad_sip s) @ [stop_request (ad_sip s) i]"
  by (simp_all add: stop_sent_def)

text \<open>C13: Deleting a known session asks the sidecar to stop it and drops it from the map whether or not
  the sidecar could be reached, and every later deletion of that id fails with \<open>session_not_found\<close>
  and asks the sidecar nothing.\<close>

theorem delete_drops_session:
  assumes "map_of (ad_sessions s) i = Some x"
  shows "\<exists>r s'. delete_stream_session env i s = (r, s') \<and> r = fst (bridge_stop env (ss_bridge_session_id x) s) \<and>
    map_of (ad_sessions s') = (map_of (ad_sessions s))(i := None) \<and>
    sp_sent (ad_sip s') = sp_sent (ad_sip s) @ [stop_request (ad_sip s) (ss_bridge_session_id x)] \<and>
    delete_stream_session env' i s' = (Inl (Adapter StreamSessionNotFoundError), s')"
proof -
  obtain r t where stop: "bridge_stop env (ss_bridge_session_id x) s = (r, t)"
    by (cases "bridge_stop env (ss_bridge_session_id x) s")
  then have t: "t = stop_sent (ss_bridge_session_id x) s" using bridge_stop_snd [of env "ss_bridge_session_id x" s] by simp
  let ?s' = "t\<lparr>ad_sessions := snd (sm_remove i (ad_sessions t))\<rparr>"
  have "on_sessions (sm_lookup i) s = (Inr x, s)"
    using assms by (simp add: zoom_def sm_lookup_def)
  then have run: "delete_stream_session env i s = (r, ?s')"
    using stop by (simp add: delete_stream_session_def finally_do_def zoom_def sm_remove_def)
  have gone: "map_of (ad_sessions ?s') = (map_of (ad_sessions s))(i := None)"
    by (simp add: t sm_remove_def map_of_remove)
  then have "on_sessions (sm_lookup i) ?s' = (Inl (Adapter StreamSessionNotFoundError), ?s')"
    by (simp add: zoom_def sm_lookup_def)
  then have "delete_stream_session env' i ?s' = (Inl (Adapter StreamSessionNotFoundError), ?s')"
    by (simp add: delete_stream_session_def)
  with run gone stop t show ?thesis by auto
qed


section \<open>Sequential use stays within the capacity\<close>

datatype adapter_op = Create string string | Delete_Session string | Close

fun adapter_do :: "adapter_env \<Rightarrow> adapter_op \<Rightarrow> adapter \<Rightarrow> adapter" where
  "adapter_do env (Create d sdp) s = snd (create_stream_session env d sdp s)"
| "adapter_do env (Delete_Session i) s = snd (delete_stream_session env i s)"
| "adapter_do env Close s = snd (aclose env s)"

lemma stop_all_result:
  "\<exists>s'. stop_all env xs s = (Inr (), s') \<and> ad_sessions s' = ad_sessions s \<and>
     ad_max_concurrent s' = ad_max_concurrent s \<and> ad_created s' = ad_created s \<and>
     sp_base_url (ad_sip s') = sp_base_url (ad_sip s) \<and>
     sp_sent (ad_sip s') = sp_sent (ad_sip s) @ map (\<lambda>x. stop_request (ad_sip s) (ss_bridge_session_id x)) xs"
proof (induction xs arbitrary: s)
  case Nil
  then show ?case by simp
next
  case (Cons x xs)
  have same: "stop_request (ad_sip (stop_sent i s)) j = stop_request (ad_sip s) j" for i j
    by (simp add: stop_request_def)
  from Cons.IH [of "stop_sent (ss_bridge_session_id x) s"] show ?case
    by (auto simp: andThen_def stop_swallowed same)
qed

lemma aclose_result:
  "\<exists>s'. aclose env s = (Inr (), s') \<and> ad_sessions s' = [] \<and> ad_max_concurrent s' = ad_max_concurrent s \<and>
     sp_sent (ad_sip s') = sp_sent (ad_sip s) @
       map (\<lambda>(_, x). stop_request (ad_sip s) (ss_bridge_session_id x)) (ad_sessions s)"
  using stop_all_result [of env "map snd (ad_sessions s)" "s\<lparr>ad_sessions := []\<rparr>"]
  by (auto simp: aclose_def andThen_def zoom_def sm_clear_def case_prod_beta)

lemma create_collision:
  assumes "ae_uuid env (ad_created s) \<in> fst ` set (ad_sessions s)"
    and "int (length (ad_sessions s)) < ad_max_concurrent s" and start: "bridge_start env d s = (Inr b, s1)"
  shows "create_stream_session env d sdp s = (Inl ValueError, s1\<lparr>ad_created := Suc (ad_created s)\<rparr>)"
proof -
  note fields = bridge_start_fields [OF start]
  have "asks (\<lambda>s. on_sessions (sm_check_capacity (ad_max_concurrent s))) s = (Inr (), s)"
    using assms(2) by (simp add: check_capacity_step)
  moreover have "new_session env d b s1 = (Inr (bound_session env d b s), s1\<lparr>ad_created := Suc (ad_created s)\<rparr>)"
    using fields by (simp add: new_session_def bound_session_def)
  moreover have "on_sessions (sm_bind (bound_session env d b s)) (s1\<lparr>ad_created := Suc (ad_created s)\<rparr>) =
      (Inl ValueError, s1\<lparr>ad_created := Suc (ad_created s)\<rparr>)"
    using fields assms(1) by (simp add: zoom_def sm_bind_def bound_session_def)
  ultimately show ?thesis
    unfolding create_stream_session_def by (simp only: andThen_ok andThen_err start)
qed

lemma create_length:
  "length (ad_sessions (snd (create_stream_session env d sdp s))) \<le>
     (if int (length (ad_sessions s)) < ad_max_concurrent s then Suc (length (ad_sessions s)) else length (ad_sessions s)) \<and>
   ad_max_concurrent (snd (create_stream_session env d sdp s)) = ad_max_concurrent s"
proof (cases "int (length (ad_sessions s)) < ad_max_concurrent s")
  case False
  then show ?thesis by (simp add: create_refused)
next
  case room: True
  obtain r s1 where start: "bridge_start env d s = (r, s1)" by (cases "bridge_start env d s")
  note fields = bridge_start_fields [OF start]
  show ?thesis
  proof (cases r)
    case (Inl e)
    with create_start_failed [OF room] start fields room show ?thesis by simp
  next
    case (Inr b)
    show ?thesis
    proof (cases "ae_uuid env (ad_created s) \<in> fst ` set (ad_sessions s)")
      case True
      with create_collision [OF True room start [unfolded Inr]] fields room show ?thesis by simp
    next
      case False
      let ?x = "bound_session env d b s"
      let ?s2 = "s1\<lparr>ad_created := Suc (ad_created s), ad_sessions := ad_sessions s @ [(ae_uuid env (ad_created s), ?x)]\<rparr>"
      note run = create_unfold [OF False room start [unfolded Inr], of sdp]
      have "length (ad_sessions (snd (whep_leg env ?x (bs_rtsp_path b) sdp ?s2))) \<le> length (ad_sessions ?s2) \<and>
          ad_max_concurrent (snd (whep_leg env ?x (bs_rtsp_path b) sdp ?s2)) = ad_max_concurrent ?s2"
      proof (cases "\<exists>a. ae_whep env (length (ad_whep_sent ?s2)) = Responded a \<and> resp_status a = 201")
        case True
        then obtain a where a: "ae_whep env (length (ad_whep_sent ?s2)) = Responded a" "resp_status a = 201" by blast
        show ?thesis
          using whep_leg_ok [OF a, of ?x "bs_rtsp_path b" sdp] whep_leg_undecodable [OF a, of ?x "bs_rtsp_path b" sdp]
          by (cases "utf8_valid (resp_body a)") (auto simp: set_has_audio_def)
      next
        case False
        from whep_leg_failed [OF this, of ?x "bs_rtsp_path b" sdp] remove_length [of "ss_session_id ?x" "ad_sessions ?s2"]
        show ?thesis by auto
      qed
      with run room fields show ?thesis by simp
    qed
  qed
qed

lemma delete_length:
  "length (ad_sessions (snd (delete_stream_session env i s))) \<le> length (ad_sessions s) \<and>
   ad_max_concurrent (snd (delete_stream_session env i s)) = ad_max_concurrent s"
proof (cases "map_of (ad_sessions s) i")
  case None
  then show ?thesis by (simp add: delete_stream_session_def andThen_def zoom_def sm_lookup_def)
next
  case (Some x)
  obtain r t where stop: "bridge_stop env (ss_bridge_session_id x) s = (r, t)"
    by (cases "bridge_stop env (ss_bridge_session_id x) s")
  then have "t = stop_sent (ss_bridge_session_id x) s"
    using bridge_stop_snd [of env "ss_bridge_session_id x" s] by simp
  with Some stop show ?thesis
    by (simp add: delete_stream_session_def andThen_def zoom_def sm_lookup_def finally_do_def sm_remove_def)
qed

text \<open>C12: Used by one caller at a time, the adapter never holds more sessions than its configured
  maximum, whatever the sidecar, mediamtx and Ring answer.\<close>

theorem sessions_within_capacity:
  "int (length (ad_sessions (fold (adapter_do env) ops (adapter_init client sip k base given)))) \<le> max 0 k"
proof -
  have step: "int (length (ad_sessions (adapter_do env x s))) \<le> max 0 k \<and> ad_max_concurrent (adapter_do env x s) = k"
    if "int (length (ad_sessions s)) \<le> max 0 k" "ad_max_concurrent s = k" for x s
  proof (cases x)
    case (Create d sdp)
    with that create_length [of env d sdp s] show ?thesis by (simp split: if_splits)
  next
    case (Delete_Session i)
    with that delete_length [of env i s] show ?thesis by simp
  next
    case Close
    with that aclose_result [of env s] show ?thesis by auto
  qed
  have "int (length (ad_sessions s)) \<le> max 0 k \<and> ad_max_concurrent s = k \<Longrightarrow>
      int (length (ad_sessions (fold (adapter_do env) ops s))) \<le> max 0 k" for s
    by (induction ops arbitrary: s) (use step in auto)
  then show ?thesis by (simp add: adapter_init_def sm_empty_def)
qed

lemma fst_translate:
  "translate_status f m s = (case m s of
     (Inl (HTTPStatusError st), s') \<Rightarrow> (Inl (Adapter (f st)), s') | x \<Rightarrow> x)"
  by (auto simp: translate_status_def catch_def split: prod.splits sum.splits exc.splits)

text \<open>The device list holds, in Ring's order, the mapped devices among Ring's entries that validate
  and have a camera kind, and nothing else; no HTTP status error of Ring leaves the adapter untranslated.\<close>

theorem list_devices_contract:
  "case list_devices fuel env s of
     (Inr ds, s') \<Rightarrow> (\<exists>raw. fst (get_devices fuel (ae_client env) (ad_client s)) = Inr raw \<and>
       ds = map map_device (filter (\<lambda>d. is_camera_kind (rd_kind d)) (List.map_filter (ae_device_parse env) raw)) \<and>
       list_all (\<lambda>r. is_camera_kind (dr_type r)) ds)
   | (Inl e, s') \<Rightarrow> (case e of HTTPStatusError st \<Rightarrow> False | _ \<Rightarrow> True)"
proof -
  obtain r c where get: "get_devices fuel (ae_client env) (ad_client s) = (r, c)"
    by (cases "get_devices fuel (ae_client env) (ad_client s)")
  show ?thesis
  proof (cases r)
    case (Inl e)
    with get show ?thesis
      by (cases e) (simp_all add: list_devices_def andThen_def fst_translate zoom_def)
  next
    case (Inr raw)
    with get show ?thesis
      by (simp add: list_devices_def andThen_def fst_translate zoom_def Let_def list_all_iff map_device_def)
  qed
qed

text \<open>Downloading a video through the routes always fails with 404 \<open>device_not_found\<close> when the real
  account is served, without asking Ring: the route never passes an event id and the adapter needs one.\<close>

theorem video_route_always_404:
  "route_download_video (unofficial_adapter fuel env) device_id s =
     (Some \<lparr>rp_status = 404, rp_body = Json_Error ''device_not_found'', rp_location = None\<rparr>, s)"
  by (simp add: route_download_video_def unofficial_adapter_def download_video_def andThen_def respond_def)

text \<open>Closing the adapter asks the sidecar to stop every session of the map, in order, however many of
  these requests fail, and leaves the map empty.\<close>

theorem aclose_stops_all:
  "\<exists>s'. aclose env s = (Inr (), s') \<and> ad_sessions s' = [] \<and>
     sp_sent (ad_sip s') = sp_sent (ad_sip s) @
       map (\<lambda>(_, x). stop_request (ad_sip s) (ss_bridge_session_id x)) (ad_sessions s)"
  using aclose_result [of env s] by blast

definition example_bound :: stream_session where
  "example_bound = bound_session (example_adapter_env Timed_Out) ''7''
     \<lparr>bs_bridge_session_id = ''b'', bs_rtsp_path = ''p''\<rparr> example_adapter"

theorem delete_drops_session_witness:
  "\<exists>r s'. delete_stream_session (example_adapter_env Timed_Out) ''s''
     (example_adapter\<lparr>ad_sessions := [(''s'', example_bound)]\<rparr>) = (r, s') \<and> ad_sessions s' = []"
proof -
  have "map_of (ad_sessions (example_adapter\<lparr>ad_sessions := [(''s'', example_bound)]\<rparr>)) ''s'' = Some example_bound"
    by simp
  from delete_drops_session [OF this, of "example_adapter_env Timed_Out" "example_adapter_env Timed_Out"]
  show ?thesis by auto
qed

end
