(* ===== verification/Token_Service.thy ===== *)
theory Token_Service imports Token_Storage begin

text \<open>
  OAuth tokens of the partner flow, \<open>app/services/token_service.py\<close>, and the routes on them:
  \<open>app/routes/app_api.py\<close>, \<open>app/routes/ring_callbacks.py\<close>, \<open>app/services/hmac_verifier.py\<close> and
  \<open>app/services/auth.py\<close>.

  \<open>service\<close> is the token service with its store and clock; \<open>token_env\<close> is the outside: the answers of
  Ring's token endpoint, how long they take, ISO dates and their parser, and pydantic's validation.
  A route's answer is its status and JSON content.
\<close>

section \<open>The token service\<close>

record partner_tokens =
  po_access_token :: string
  po_refresh_token :: string
  po_expires_in :: int
  po_token_type :: string
  po_scope :: "string option"

record token_dict =
  tv_access_token :: string
  tv_refresh_token :: string
  tv_expires_at :: string
  tv_token_type :: string
  tv_scope :: "string option"

record token_env =
  te_http :: "nat \<Rightarrow> http_outcome"
  te_delay :: "nat \<Rightarrow> real"
  te_iso :: "real \<Rightarrow> string"
  te_parse_iso :: "string \<Rightarrow> real option"
  te_validate :: "json \<Rightarrow> partner_tokens option"

record service =
  sv_now :: real
  sv_sent :: "(string \<times> string) list list"
  sv_client_id :: string
  sv_client_secret :: string
  sv_store :: token_store

definition REFRESH_THRESHOLD :: real where "REFRESH_THRESHOLD = 300"

abbreviation on_tokens :: "(token_store, exc, 'a) prog \<Rightarrow> (service, exc, 'a) prog" where
  "on_tokens \<equiv> zoom sv_store (\<lambda>t s. s\<lparr>sv_store := t\<rparr>)"

text \<open>\<open>client.post(RING_TOKEN_ENDPOINT, data=form, timeout=10.0)\<close>; its failures are not caught here.\<close>

definition post_form :: "token_env \<Rightarrow> (string \<times> string) list \<Rightarrow> (service, exc, http_response) prog" where
  "post_form env form s = (let n = length (sv_sent s);
       s' = s\<lparr>sv_sent := sv_sent s @ [form], sv_now := sv_now s + te_delay env n\<rparr>
     in case te_http env n of
          Timed_Out \<Rightarrow> (Inl TimeoutException, s')
        | Transport_Failed \<Rightarrow> (Inl TransportError, s')
        | Responded r \<Rightarrow> (Inr r, s'))"

definition validate_tokens :: "token_env \<Rightarrow> http_response \<Rightarrow> exc + partner_tokens" where
  "validate_tokens env r = (case json_of r of Inl e \<Rightarrow> Inl e
     | Inr j \<Rightarrow> (case te_validate env j of None \<Rightarrow> Inl ValidationError | Some p \<Rightarrow> Inr p))"

definition exchange_code :: "token_env \<Rightarrow> string \<Rightarrow> string \<Rightarrow> (service, exc, token_dict) prog" where
  "exchange_code env code user_id =
     andThen (asks (\<lambda>s. post_form env [(''grant_type'', ''authorization_code''), (''code'', code),
         (''client_id'', sv_client_id s), (''client_secret'', sv_client_secret s)])) (\<lambda>response.
     if resp_status response \<noteq> 200 then throw UpstreamError
     else andThen (of_sum (validate_tokens env response)) (\<lambda>p.
       andThen (gets (\<lambda>s. te_iso env (sv_now s + real_of_int (po_expires_in p)))) (\<lambda>expires_at.
       andThen (asks (\<lambda>s. on_tokens (save_tokens (te_iso env (sv_now s)) user_id (po_access_token p)
           (po_refresh_token p) expires_at (po_token_type p) (po_scope p)))) (\<lambda>_.
       ret \<lparr>tv_access_token = po_access_token p, tv_refresh_token = po_refresh_token p,
         tv_expires_at = expires_at, tv_token_type = po_token_type p, tv_scope = po_scope p\<rparr>))))"

definition invalidate_session :: "token_env \<Rightarrow> string \<Rightarrow> (service, exc, unit) prog" where
  "invalidate_session env user_id = asks (\<lambda>s. on_tokens (invalidate (te_iso env (sv_now s)) user_id))"

definition refresh_token :: "token_env \<Rightarrow> string \<Rightarrow> (service, exc, token_dict) prog" where
  "refresh_token env user_id =
     andThen (on_tokens (get_tokens user_id)) (\<lambda>found. case found of
       None \<Rightarrow> throw TokenNotFoundError
     | Some tokens \<Rightarrow>
         andThen (asks (\<lambda>s. post_form env [(''grant_type'', ''refresh_token''),
             (''refresh_token'', td_refresh_token tokens), (''client_id'', sv_client_id s),
             (''client_secret'', sv_client_secret s)])) (\<lambda>response.
         if resp_status response = 401 then
           andThen (invalidate_session env user_id) (\<lambda>_. throw SessionInvalidError)
         else if resp_status response \<noteq> 200 then throw UpstreamError
         else andThen (of_sum (validate_tokens env response)) (\<lambda>p.
           andThen (gets (\<lambda>s. te_iso env (sv_now s + real_of_int (po_expires_in p)))) (\<lambda>expires_at.
           andThen (asks (\<lambda>s. on_tokens (update_tokens (te_iso env (sv_now s)) user_id (po_access_token p)
               (po_refresh_token p) expires_at))) (\<lambda>_.
           ret \<lparr>tv_access_token = po_access_token p, tv_refresh_token = po_refresh_token p,
             tv_expires_at = expires_at, tv_token_type = po_token_type p, tv_scope = po_scope p\<rparr>)))))"

definition get_valid_token :: "token_env \<Rightarrow> string \<Rightarrow> (service, exc, token_dict) prog" where
  "get_valid_token env user_id =
     andThen (on_tokens (get_tokens user_id)) (\<lambda>found. case found of
       None \<Rightarrow> throw TokenNotFoundError
     | Some tokens \<Rightarrow>
         if \<not> td_is_valid tokens then throw SessionInvalidError
         else (case te_parse_iso env (td_expires_at tokens) of
             None \<Rightarrow> throw ValueError
           | Some expires_at \<Rightarrow>
               asks (\<lambda>s. if sv_now s \<ge> expires_at - REFRESH_THRESHOLD then refresh_token env user_id
                 else ret \<lparr>tv_access_token = td_access_token tokens, tv_refresh_token = td_refresh_token tokens,
                   tv_expires_at = td_expires_at tokens, tv_token_type = td_token_type tokens,
                   tv_scope = td_scope tokens\<rparr>)))"

section \<open>Routes\<close>

type_synonym answer = "int \<times> json"

definition error_answer :: "int \<Rightarrow> string \<Rightarrow> answer" where
  "error_answer status code = (status, JObj [(''error'', JStr code)])"

text \<open>\<open>HTTPException(status_code, detail)\<close> as FastAPI renders it.\<close>

definition http_exception :: "int \<Rightarrow> (string \<times> string) list \<Rightarrow> answer" where
  "http_exception status detail = (status, JObj [(''detail'', JObj (map (\<lambda>(k, v). (k, JStr v)) detail))])"

text \<open>\<open>verify_api_key\<close>: the bearer credentials, if any, against the configured key.\<close>

definition verify_api_key :: "string \<Rightarrow> string option \<Rightarrow> answer + string" where
  "verify_api_key app_api_key credentials = (case credentials of
     None \<Rightarrow> Inl (http_exception 401 [(''error'', ''unauthorized'')])
   | Some c \<Rightarrow> if c \<noteq> app_api_key then Inl (http_exception 401 [(''error'', ''unauthorized'')]) else Inr c)"

definition get_token_route :: "token_env \<Rightarrow> string \<Rightarrow> string option \<Rightarrow> string \<Rightarrow> service \<Rightarrow> answer \<times> service" where
  "get_token_route env app_api_key credentials user_id s = (case verify_api_key app_api_key credentials of
     Inl a \<Rightarrow> (a, s)
   | Inr _ \<Rightarrow> (case get_valid_token env user_id s of
       (Inl TokenNotFoundError, s') \<Rightarrow> (http_exception 404 [(''error'', ''user_not_found'')], s')
     | (Inl SessionInvalidError, s') \<Rightarrow>
         (http_exception 401 [(''error'', ''session_invalid''), (''message'', ''Re-authorization required'')], s')
     | (Inl _, s') \<Rightarrow> (http_exception 500 [(''error'', ''internal_error'')], s')
     | (Inr t, s') \<Rightarrow> ((200, JObj [(''access_token'', JStr (tv_access_token t)),
         (''token_type'', JStr (tv_token_type t)), (''expires_at'', JStr (tv_expires_at t))]), s')))"

definition token_exchange_route :: "token_env \<Rightarrow> string \<Rightarrow> service \<Rightarrow> answer \<times> service" where
  "token_exchange_route env code s = (case exchange_code env code ''default'' s of
     (Inr _, s') \<Rightarrow> ((200, JObj [(''status'', JStr ''success'')]), s')
   | (Inl UpstreamError, s') \<Rightarrow> (error_answer 502 ''upstream_error'', s')
   | (Inl _, s') \<Rightarrow> (error_answer 400 ''invalid_code'', s'))"

subsection \<open>Account linking\<close>

text \<open>
  HMAC-SHA256 in hexadecimal is the argument \<open>hmac\<close>, of the decoded key and the message.
  \<open>compare_digest\<close> refuses strings that are not ASCII.
\<close>

definition hmac_verify :: "(string \<Rightarrow> string \<Rightarrow> string) \<Rightarrow> string \<Rightarrow> string \<Rightarrow> string \<Rightarrow> exc + bool" where
  "hmac_verify hmac key nonce provided_signature =
     (if list_ex (\<lambda>c. 128 \<le> (of_char c :: nat)) provided_signature then Inl TypeError
      else Inr (hmac key nonce = provided_signature))"

record account_link_request =
  al_nonce :: string
  al_signature :: string
  al_account_id :: string
  al_partner_account_id :: "string option"

text \<open>An exception that leaves a handler is answered by the application's handler.\<close>

definition answered :: "(exc + answer) \<times> 's \<Rightarrow> answer \<times> 's" where [simp]:
  "answered x = (case x of (Inr a, s) \<Rightarrow> (a, s) | (Inl _, s) \<Rightarrow> (error_answer 500 ''internal_error'', s))"

definition handle_account_link :: "(string \<Rightarrow> string \<Rightarrow> string) \<Rightarrow> string \<Rightarrow> string \<Rightarrow> account_link_request \<Rightarrow>
    (token_store, exc, answer) prog" where [simp]:
  "handle_account_link hmac key now req s = (case hmac_verify hmac key (al_nonce req) (al_signature req) of
     Inl e \<Rightarrow> (Inl e, s)
   | Inr ok \<Rightarrow> if \<not> ok then (Inr (error_answer 403 ''forbidden''), s)
       else (let user_id = (case al_partner_account_id req of None \<Rightarrow> al_account_id req
                 | Some p \<Rightarrow> if p = [] then al_account_id req else p)
             in (Inr (200, JObj [(''status'', JStr ''linked''), (''account_id'', JStr (al_account_id req))]),
                 snd (create_or_update_user now user_id (Some (al_account_id req)) s))))"

definition account_link_route :: "(string \<Rightarrow> string \<Rightarrow> string) \<Rightarrow> string \<Rightarrow> string \<Rightarrow> account_link_request \<Rightarrow>
    token_store \<Rightarrow> answer \<times> token_store" where
  "account_link_route hmac key now req s = answered (handle_account_link hmac key now req s)"

subsection \<open>Webhooks\<close>

text \<open>
  A JSON value as SQLite stores it in a text column: numbers become text (their notation is the
  argument \<open>num\<close> when they have a fraction), null stays null, and containers or integers beyond 64
  bits cannot be bound.
\<close>

fun bind_text :: "(real \<Rightarrow> string) \<Rightarrow> json \<Rightarrow> exc + string option" where
  "bind_text num (JStr s) = Inr (Some s)"
| "bind_text num (JInt i) = (if - (2 ^ 63) \<le> i \<and> i < 2 ^ 63 then Inr (Some (int_str i)) else Inl OperationalError)"
| "bind_text num (JBool b) = Inr (Some (if b then ''1'' else ''0''))"
| "bind_text num (JReal r) = Inr (Some (num r))"
| "bind_text num JNull = Inr None"
| "bind_text num _ = Inl OperationalError"

text \<open>A column declared \<open>NOT NULL\<close>.\<close>

definition bind_not_null :: "(real \<Rightarrow> string) \<Rightarrow> json \<Rightarrow> exc + string" where
  "bind_not_null num v = (case bind_text num v of Inl e \<Rightarrow> Inl e
     | Inr None \<Rightarrow> Inl OperationalError | Inr (Some s) \<Rightarrow> Inr s)"

definition store_event :: "(real \<Rightarrow> string) \<Rightarrow> string \<Rightarrow> json \<Rightarrow> json \<Rightarrow> json \<Rightarrow> json \<Rightarrow> json \<Rightarrow> token_store \<Rightarrow> token_store" where
  "store_event num now event_id event_type device_id timestamp payload s =
     (case (bind_text num event_id, bind_not_null num event_type, bind_not_null num device_id, bind_not_null num timestamp) of
        (Inr i, Inr ty, Inr d, Inr t) \<Rightarrow> snd (save_event now i ty d t payload s)
      | _ \<Rightarrow> s)"

text \<open>\<open>x not in {...}\<close> hashes \<open>x\<close>, which lists and dictionaries refuse.\<close>

fun hashable :: "json \<Rightarrow> bool" where
  "hashable (JArr _) = False"
| "hashable (JObj _) = False"
| "hashable _ = True"

definition field_or :: "json \<Rightarrow> string \<Rightarrow> json \<Rightarrow> json" where
  "field_or body k d = (case json_field k body of None \<Rightarrow> d | Some v \<Rightarrow> v)"

text \<open>
  The body is what \<open>await request.json()\<close> gives, \<open>None\<close> when it raises. A body that is no object has
  no method \<open>get\<close>, and that exception is caught by the application's handler only.
\<close>

definition handle_webhook :: "(real \<Rightarrow> string) \<Rightarrow> string \<Rightarrow> string \<Rightarrow> json option \<Rightarrow> (token_store, exc, answer) prog" where [simp]:
  "handle_webhook num now uuid body s =
     (let received = (200, JObj [(''status'', JStr ''received'')]) in
      case body of
        None \<Rightarrow> (Inr received, s)
      | Some b \<Rightarrow>
          if \<not> is_obj b then (Inl AttributeError, s)
          else (let event_type = field_or b ''event_type'' (JStr ''unknown'');
                    device_id = field_or b ''device_id'' (JStr ''unknown'');
                    timestamp = field_or b ''timestamp'' (JStr now);
                    event_id = field_or b ''event_id'' (JStr uuid)
                in if \<not> hashable event_type then (Inl TypeError, s)
                   else (Inr received, store_event num now event_id event_type device_id timestamp b s)))"

definition webhook_route :: "(real \<Rightarrow> string) \<Rightarrow> string \<Rightarrow> string \<Rightarrow> json option \<Rightarrow> token_store \<Rightarrow> answer \<times> token_store" where
  "webhook_route num now uuid body s = answered (handle_webhook num now uuid body s)"

section \<open>Facts\<close>

lemma get_tokens_state [simp]: "snd (get_tokens u st) = st"
  by (simp add: get_tokens_def split: option.splits sum.splits)

lemma on_get_tokens: "zoom sv_store (\<lambda>t s. s\<lparr>sv_store := t\<rparr>) (get_tokens u) s = (fst (get_tokens u (sv_store s)), s)"
  by (simp add: zoom_def case_prod_beta)

lemma on_update_tokens: "zoom sv_store (\<lambda>t s. s\<lparr>sv_store := t\<rparr>) (update_tokens now u a r ex) s =
    (Inr (), s\<lparr>sv_store := snd (update_tokens now u a r ex (sv_store s))\<rparr>)"
  by (simp add: zoom_def update_tokens_def Let_def)

lemma invalidate_state: "invalidate_session env u s = (Inr (), s\<lparr>sv_store := snd (invalidate (te_iso env (sv_now s)) u (sv_store s))\<rparr>)"
  by (simp add: invalidate_session_def zoom_def invalidate_def)

lemma update_then_get:
  assumes "fernet_ok (ts_encryptor st)" "utf8_valid a" "utf8_valid r" "ts_tokens st u = Some row"
  shows "fst (get_tokens u (snd (update_tokens now u a r ex st))) =
    Inr (Some \<lparr>td_user_id = u, td_access_token = a, td_refresh_token = r, td_expires_at = ex,
      td_token_type = tr_token_type row, td_scope = tr_scope row, td_is_valid = True,
      td_created_at = tr_created_at row, td_updated_at = now\<rparr>)"
  using assms by (simp add: update_tokens_def get_tokens_def Let_def)

text \<open>A refresh request answered with 200, and one answered with 401.\<close>

lemma refresh_token_200:
  assumes "fst (get_tokens u (sv_store s)) = Inr (Some d)"
    and "te_http env (length (sv_sent s)) = Responded r" and "resp_status r = 200"
    and "validate_tokens env r = Inr p"
    and "now = sv_now s + te_delay env (length (sv_sent s))" and "ex = te_iso env (now + real_of_int (po_expires_in p))"
  shows "refresh_token env u s = (Inr \<lparr>tv_access_token = po_access_token p,
      tv_refresh_token = po_refresh_token p, tv_expires_at = ex, tv_token_type = po_token_type p,
      tv_scope = po_scope p\<rparr>,
    s\<lparr>sv_sent := sv_sent s @ [[(''grant_type'', ''refresh_token''), (''refresh_token'', td_refresh_token d),
        (''client_id'', sv_client_id s), (''client_secret'', sv_client_secret s)]], sv_now := now,
      sv_store := snd (update_tokens (te_iso env now) u (po_access_token p) (po_refresh_token p) ex (sv_store s))\<rparr>)"
  using assms
  by (simp add: refresh_token_def andThen_def on_get_tokens post_form_def Let_def on_update_tokens)

lemma refresh_token_401:
  assumes "fst (get_tokens u (sv_store s)) = Inr (Some d)"
    and "te_http env (length (sv_sent s)) = Responded r" and "resp_status r = 401"
  shows "\<exists>s' now. refresh_token env u s = (Inl SessionInvalidError, s') \<and> length (sv_sent s') = Suc (length (sv_sent s)) \<and>
    sv_store s' = snd (invalidate now u (sv_store s))"
  using assms
  by (auto simp: refresh_token_def andThen_def on_get_tokens post_form_def Let_def invalidate_state)

lemma store_event_idem:
  assumes "isl (bind_not_null num t) = isl (bind_not_null num t')"
  shows "store_event num now' (JStr i) ty d t' p' (store_event num now (JStr i) ty d t p s) =
    store_event num now (JStr i) ty d t p s"
  using assms
  by (auto simp: store_event_def save_event_idem split: sum.splits prod.splits)

section \<open>Properties\<close>

text \<open>C38: A token that \<open>get_valid_token\<close> returns is the stored one, still valid for more than five minutes
  and returned without asking Ring, or it comes from exactly one refresh request made with the stored
  refresh token and answered with 200.\<close>

theorem get_valid_token_result:
  assumes "get_valid_token env u s = (Inr t, s')"
  shows "\<exists>d expires_at. fst (get_tokens u (sv_store s)) = Inr (Some d) \<and> td_is_valid d \<and>
    te_parse_iso env (td_expires_at d) = Some expires_at \<and>
    (if sv_now s < expires_at - 300 then s' = s \<and> tv_access_token t = td_access_token d
     else \<exists>r p. te_http env (length (sv_sent s)) = Responded r \<and> resp_status r = 200 \<and>
       validate_tokens env r = Inr p \<and> tv_access_token t = po_access_token p \<and>
       tv_refresh_token t = po_refresh_token p \<and>
       sv_sent s' = sv_sent s @ [[(''grant_type'', ''refresh_token''), (''refresh_token'', td_refresh_token d),
         (''client_id'', sv_client_id s), (''client_secret'', sv_client_secret s)]])"
proof -
  note eqs = get_valid_token_def andThen_def on_get_tokens REFRESH_THRESHOLD_def
  from assms obtain d where d: "fst (get_tokens u (sv_store s)) = Inr (Some d)"
    by (cases "fst (get_tokens u (sv_store s))") (auto simp: eqs split: option.splits)
  with assms have valid: "td_is_valid d" by (cases "td_is_valid d") (auto simp: eqs)
  with assms d obtain x where x: "te_parse_iso env (td_expires_at d) = Some x"
    by (cases "te_parse_iso env (td_expires_at d)") (auto simp: eqs)
  show ?thesis
  proof (cases "sv_now s < x - 300")
    case True
    with assms d valid x have "s' = s" "tv_access_token t = td_access_token d" by (auto simp: eqs)
    with True d valid x show ?thesis by auto
  next
    case False
    with assms d valid x have run: "refresh_token env u s = (Inr t, s')" by (simp add: eqs)
    note eqs' = refresh_token_def andThen_def on_get_tokens post_form_def Let_def
    from run d obtain r where r: "te_http env (length (sv_sent s)) = Responded r"
      by (cases "te_http env (length (sv_sent s))") (simp_all add: eqs')
    with run d have ok: "resp_status r = 200"
      by (cases "resp_status r = 401"; cases "resp_status r = 200") (simp_all add: eqs' invalidate_state)
    with run d r obtain p where p: "validate_tokens env r = Inr p"
      by (cases "validate_tokens env r") (simp_all add: eqs')
    from refresh_token_200 [OF d r ok p refl refl] run have "tv_access_token t = po_access_token p"
      "tv_refresh_token t = po_refresh_token p"
      "sv_sent s' = sv_sent s @ [[(''grant_type'', ''refresh_token''), (''refresh_token'', td_refresh_token d),
         (''client_id'', sv_client_id s), (''client_secret'', sv_client_secret s)]]"
      by auto
    with False d valid x r ok p show ?thesis by auto
  qed
qed

definition example_tokens :: partner_tokens where
  "example_tokens = \<lparr>po_access_token = ''acc'', po_refresh_token = ''t2'', po_expires_in = 3600,
     po_token_type = ''Bearer'', po_scope = None\<rparr>"

definition example_token_env :: "int \<Rightarrow> token_env" where
  "example_token_env status = \<lparr>te_http = (\<lambda>_. Responded \<lparr>resp_status = status, resp_headers = [], resp_body = [],
       resp_json = Some JNull, resp_raises = False\<rparr>), te_delay = (\<lambda>_. 0), te_iso = (\<lambda>_. ''d''),
     te_parse_iso = (\<lambda>_. Some 0), te_validate = (\<lambda>_. Some example_tokens)\<rparr>"

definition example_service :: service where
  "example_service = \<lparr>sv_now = 0, sv_sent = [], sv_client_id = ''id'', sv_client_secret = ''s'',
     sv_store = snd (save_tokens ''d'' ''u'' ''acc'' ''t1'' ''d'' ''Bearer'' None (ts_initialize plain_fernet))\<rparr>"

lemma example_service_tokens [simp]:
  "fst (get_tokens ''u'' (sv_store example_service)) = Inr (Some \<lparr>td_user_id = ''u'', td_access_token = ''acc'',
     td_refresh_token = ''t1'', td_expires_at = ''d'', td_token_type = ''Bearer'', td_scope = None, td_is_valid = True,
     td_created_at = ''d'', td_updated_at = ''d''\<rparr>)"
  by (simp add: example_service_def ts_initialize_def save_tokens_def get_tokens_def Let_def)

lemma example_service_simps [simp]: "sv_now example_service = 0" "sv_sent example_service = []"
  by (simp_all add: example_service_def)

lemma example_valid_token:
  "\<exists>t s'. get_valid_token (example_token_env 200) ''u'' example_service = (Inr t, s')"
proof -
  have "\<exists>t s'. refresh_token (example_token_env 200) ''u'' example_service = (Inr t, s')"
    by (intro exI, rule refresh_token_200 [OF example_service_tokens _ _ _ refl refl, where p = example_tokens and
        r = "\<lparr>resp_status = 200, resp_headers = [], resp_body = [], resp_json = Some JNull, resp_raises = False\<rparr>"])
      (simp_all add: example_token_env_def validate_tokens_def json_of_def)
  moreover have "te_parse_iso (example_token_env 200) x = Some 0" for x by (simp add: example_token_env_def)
  ultimately show ?thesis
    by (simp add: get_valid_token_def andThen_def on_get_tokens REFRESH_THRESHOLD_def)
qed

theorem get_valid_token_result_witness:
  "\<exists>t s'. get_valid_token (example_token_env 200) ''u'' example_service = (Inr t, s') \<and> length (sv_sent s') = 1"
proof -
  obtain t s' where run: "get_valid_token (example_token_env 200) ''u'' example_service = (Inr t, s')"
    using example_valid_token by blast
  from get_valid_token_result [OF run] run show ?thesis by (auto simp: example_token_env_def)
qed

text \<open>When Ring rejects the stored refresh token with 401, the session is invalidated after exactly one
  request, and from then on the token is refused as \<open>SessionInvalidError\<close> without asking Ring.\<close>

theorem rejected_refresh_invalidates:
  assumes tok: "fst (get_tokens u (sv_store s)) = Inr (Some d)"
    and "te_http env (length (sv_sent s)) = Responded r" and "resp_status r = 401"
  shows "\<exists>s'. refresh_token env u s = (Inl SessionInvalidError, s') \<and> length (sv_sent s') = Suc (length (sv_sent s)) \<and>
    get_valid_token env' u s' = (Inl SessionInvalidError, s')"
proof -
  obtain s' now where s': "refresh_token env u s = (Inl SessionInvalidError, s')"
    "length (sv_sent s') = Suc (length (sv_sent s))" "sv_store s' = snd (invalidate now u (sv_store s))"
    using refresh_token_401 [OF assms] by blast
  have "fst (get_tokens u (sv_store s')) = Inr (Some (d\<lparr>td_is_valid := False, td_updated_at := now\<rparr>))"
    unfolding s'(3) invalidate_get by (simp add: tok)
  then have "get_valid_token env' u s' = (Inl SessionInvalidError, s')"
    by (simp add: get_valid_token_def andThen_def on_get_tokens)
  with s' show ?thesis by blast
qed

theorem rejected_refresh_invalidates_witness:
  "\<exists>s'. refresh_token (example_token_env 401) ''u'' example_service = (Inl SessionInvalidError, s') \<and>
     get_valid_token (example_token_env 200) ''u'' s' = (Inl SessionInvalidError, s')"
  using rejected_refresh_invalidates [OF example_service_tokens, of "example_token_env 401" _ "example_token_env 200"]
  by (auto simp: example_token_env_def)

text \<open>The token exchange answers 400 \<open>invalid_code\<close> when Ring cannot be reached, and 502
  \<open>upstream_error\<close> whenever Ring answers anything but 200, a rejected code included; in neither case
  is a token stored.\<close>

theorem token_exchange_errors:
  "case te_http env (length (sv_sent s)) of
     Responded r \<Rightarrow> (if resp_status r \<noteq> 200 then fst (token_exchange_route env code s) = error_answer 502 ''upstream_error'' \<and>
       sv_store (snd (token_exchange_route env code s)) = sv_store s else True)
   | _ \<Rightarrow> fst (token_exchange_route env code s) = error_answer 400 ''invalid_code'' \<and>
       sv_store (snd (token_exchange_route env code s)) = sv_store s"
  by (simp add: token_exchange_route_def exchange_code_def andThen_def post_form_def Let_def
      split: http_outcome.split)

text \<open>An account is linked only for a signature that is the HMAC of the nonce: any other request leaves
  the store as it was and is answered 403, or 500 when the signature is not ASCII.\<close>

theorem account_link_needs_hmac:
  "if fst (account_link_route hmac key now req s) =
      (200, JObj [(''status'', JStr ''linked''), (''account_id'', JStr (al_account_id req))])
   then hmac key (al_nonce req) = al_signature req
   else snd (account_link_route hmac key now req s) = s \<and>
     fst (fst (account_link_route hmac key now req s)) \<in> {403, 500}"
  by (auto simp: account_link_route_def hmac_verify_def error_answer_def Let_def)

text \<open>A webhook whose body is an object with a hashable event type is answered 200, and delivering it
  again with the same event id changes nothing; a body that is valid JSON but no object, or that has a
  list or an object as its event type, is answered 500.\<close>

theorem webhook_outcome:
  "fst (fst (webhook_route num now uuid body s)) =
     (case body of None \<Rightarrow> 200
      | Some b \<Rightarrow> if is_obj b \<and> hashable (field_or b ''event_type'' (JStr ''unknown'')) then 200 else 500) \<and>
   (case body of Some (JObj kvs) \<Rightarrow>
      (case map_of kvs ''event_id'' of Some (JStr i) \<Rightarrow>
        snd (webhook_route num now' uuid' body (snd (webhook_route num now uuid body s))) =
        snd (webhook_route num now uuid body s) | _ \<Rightarrow> True) | _ \<Rightarrow> True)"
proof (cases body)
  case None
  then show ?thesis by (simp add: webhook_route_def)
next
  case (Some b)
  show ?thesis
  proof (cases b)
    case (JObj kvs)
    then have "map_of kvs ''event_id'' = Some (JStr i) \<Longrightarrow>
        snd (webhook_route num now' uuid' body (snd (webhook_route num now uuid body s))) =
        snd (webhook_route num now uuid body s)" for i
      using Some by (cases "map_of kvs ''timestamp''")
        (auto simp: webhook_route_def Let_def field_or_def store_event_idem bind_not_null_def)
    with Some JObj show ?thesis
      by (auto simp: webhook_route_def Let_def error_answer_def split: option.split json.split)
  qed (use Some in \<open>simp_all add: webhook_route_def error_answer_def\<close>)
qed

end
