(* ===== verification/Client_Models.thy ===== *)
theory Client_Models imports Prelude begin

text \<open>
  The tvOS app's data, \<open>RingAppleTV/Sources/Models/*.swift\<close>: the domain models, the transfer objects the
  app decodes from JSON and their translation into the domain, the errors and their messages. Foundation's
  date parser is the parameter \<open>iso8601\<close> of the translations that use it; the current time is the argument
  \<open>now\<close>. \<open>Int\<close> is the 64-bit integer of the platform. A decoder returns \<open>None\<close> where \<open>JSONDecoder\<close> throws.
\<close>

section \<open>Errors\<close>

datatype partner_api_error =
    unauthorized
  | forbidden
  | notFound
  | rateLimited real
  | serverError int
  | networkError string
  | decodingError string
  | authorizationPending
  | slowDown
  | expiredDeviceCode

fun userMessage :: "partner_api_error \<Rightarrow> string" where
  "userMessage unauthorized = ''Your session has expired. Please re-link your Ring account.''"
| "userMessage forbidden = ''Access denied. Please check your account permissions.''"
| "userMessage notFound = ''The requested resource was not found.''"
| "userMessage (rateLimited _) = ''Too many requests. Please wait a moment.''"
| "userMessage (serverError _) = ''Ring servers are temporarily unavailable. Please try later.''"
| "userMessage (networkError _) = ''Network connection error. Please check your connection.''"
| "userMessage (decodingError _) = ''Unexpected response from Ring. Please try again.''"
| "userMessage authorizationPending =
     ''Waiting for authorization. Please complete sign-in on your phone.''"
| "userMessage slowDown = ''Please wait a moment before trying again.''"
| "userMessage expiredDeviceCode =
     ''Authorization code expired. Please start the sign-in process again.''"

datatype keychain_error =
    KC_saveFailed int
  | KC_loadFailed int
  | KC_deleteFailed int
  | KC_dataConversionFailed
  | KC_itemNotFound

fun keychain_user_message :: "keychain_error \<Rightarrow> string" where
  "keychain_user_message (KC_saveFailed _) = ''Unable to save credentials securely.''"
| "keychain_user_message (KC_loadFailed _) = ''Unable to retrieve stored credentials.''"
| "keychain_user_message (KC_deleteFailed _) = ''Unable to remove stored credentials.''"
| "keychain_user_message KC_dataConversionFailed = ''Credential data is corrupted.''"
| "keychain_user_message KC_itemNotFound = ''No stored credentials found.''"

datatype cache_error =
    CE_saveFailed string
  | CE_loadFailed string
  | CE_expired
  | CE_notFound
  | CE_invalidData

fun cache_user_message :: "cache_error \<Rightarrow> string" where
  "cache_user_message (CE_saveFailed _) = ''Unable to save data to cache.''"
| "cache_user_message (CE_loadFailed _) = ''Unable to load cached data.''"
| "cache_user_message CE_expired = ''Cached data has expired.''"
| "cache_user_message CE_notFound = ''No cached data found.''"
| "cache_user_message CE_invalidData = ''Cached data is invalid or corrupted.''"

text \<open>
  Everything that can end a call of the app: its three error types, any other Swift error with its
  description, and \<open>Trap\<close>, a run-time trap or \<open>fatalError\<close>, which no \<open>catch\<close> stops.
\<close>

datatype client_error =
    Partner partner_api_error
  | Keychain keychain_error
  | Cache cache_error
  | Other string
  | Trap

text \<open>\<open>do { m } catch { h }\<close>: a trap ends the process.\<close>

definition catch_error ::
  "('s, client_error, 'a) prog \<Rightarrow> (client_error \<Rightarrow> ('s, client_error, 'a) prog) \<Rightarrow> ('s, client_error, 'a) prog" where
  "catch_error m h = catch m (\<lambda>e. if e = Trap then throw Trap else h e)"

text \<open>\<open>try? m\<close>\<close>

definition try_opt :: "('s, client_error, 'a) prog \<Rightarrow> ('s, client_error, 'a option) prog" where
  "try_opt m = catch_error (andThen m (\<lambda>x. ret (Some x))) (\<lambda>_. ret None)"

lemma try_opt_ok [simp]: "m s = (Inr x, t) \<Longrightarrow> try_opt m s = (Inr (Some x), t)"
  by (simp add: try_opt_def catch_error_def)

lemma try_opt_err [simp]: "m s = (Inl e, t) \<Longrightarrow> e \<noteq> Trap \<Longrightarrow> try_opt m s = (Inr None, t)"
  by (simp add: try_opt_def catch_error_def)

section \<open>Domain models\<close>

datatype power_supply = battery | line

fun sessionDurationLimit :: "power_supply \<Rightarrow> real" where
  "sessionDurationLimit battery = 30"
| "sessionDurationLimit line = 60"

definition power_supply_of_raw :: "string \<Rightarrow> power_supply option" where
  "power_supply_of_raw s = (if s = ''battery'' then Some battery else if s = ''line'' then Some line else None)"

datatype device_type =
    doorbell | doorbellPro | doorbellV2 | stickupCam | spotlightCam | floodlightCam | indoorCam | unknown

fun device_type_raw :: "device_type \<Rightarrow> string" where
  "device_type_raw doorbell = ''doorbell''"
| "device_type_raw doorbellPro = ''doorbell_pro''"
| "device_type_raw doorbellV2 = ''doorbell_v2''"
| "device_type_raw stickupCam = ''stickup_cam''"
| "device_type_raw spotlightCam = ''spotlight_cam''"
| "device_type_raw floodlightCam = ''floodlight_cam''"
| "device_type_raw indoorCam = ''indoor_cam''"
| "device_type_raw unknown = ''unknown''"

definition device_types :: "device_type list" where
  "device_types = [doorbell, doorbellPro, doorbellV2, stickupCam, spotlightCam, floodlightCam, indoorCam, unknown]"

definition device_type_of_raw :: "string \<Rightarrow> device_type option" where
  "device_type_of_raw s = List.find (\<lambda>t. device_type_raw t = s) device_types"

fun device_display_name :: "device_type \<Rightarrow> string" where
  "device_display_name doorbell = ''Video Doorbell''"
| "device_display_name doorbellPro = ''Video Doorbell''"
| "device_display_name doorbellV2 = ''Video Doorbell''"
| "device_display_name stickupCam = ''Stick Up Cam''"
| "device_display_name spotlightCam = ''Spotlight Cam''"
| "device_display_name floodlightCam = ''Floodlight Cam''"
| "device_display_name indoorCam = ''Indoor Cam''"
| "device_display_name unknown = ''Camera''"

record app_device =
  ad_id :: string
  ad_name :: string
  ad_model :: string
  ad_device_type :: device_type
  ad_firmware_version :: "string option"
  ad_power_source :: power_supply
  ad_is_online :: bool

datatype app_event_type = motion | ding | onDemand

fun app_event_type_raw :: "app_event_type \<Rightarrow> string" where
  "app_event_type_raw motion = ''motion''"
| "app_event_type_raw ding = ''ding''"
| "app_event_type_raw onDemand = ''on_demand''"

definition app_event_type_of_raw :: "string \<Rightarrow> app_event_type option" where
  "app_event_type_of_raw s = List.find (\<lambda>t. app_event_type_raw t = s) [motion, ding, onDemand]"

fun event_display_name :: "app_event_type \<Rightarrow> string" where
  "event_display_name motion = ''Motion Detected''"
| "event_display_name ding = ''Doorbell Press''"
| "event_display_name onDemand = ''On Demand''"

fun event_icon_name :: "app_event_type \<Rightarrow> string" where
  "event_icon_name motion = ''figure.walk''"
| "event_icon_name ding = ''bell.fill''"
| "event_icon_name onDemand = ''video.fill''"

record app_event =
  ae_id :: string
  ae_device_id :: string
  ae_event_type :: app_event_type
  ae_created_at :: real
  ae_duration :: "real option"

record auth_token =
  at_access_token :: string
  at_refresh_token :: string
  at_expires_at :: real
  at_scope :: "string option"
  at_token_type :: string
  at_client_id :: "string option"

definition isExpired :: "real \<Rightarrow> auth_token \<Rightarrow> bool" where
  "isExpired now t \<longleftrightarrow> at_expires_at t \<le> now"

definition needsRefresh :: "real \<Rightarrow> auth_token \<Rightarrow> bool" where
  "needsRefresh now t \<longleftrightarrow> at_expires_at t + (- 60) \<le> now"

record app_stream_session =
  ss_device_id :: string
  ss_session_url :: string
  ss_power_source :: power_supply
  ss_created_at :: real

definition maxDuration :: "app_stream_session \<Rightarrow> real" where
  "maxDuration s = sessionDurationLimit (ss_power_source s)"

definition remainingTime :: "real \<Rightarrow> app_stream_session \<Rightarrow> real" where
  "remainingTime now s = max 0 (maxDuration s - (now - ss_created_at s))"

definition isValid :: "real \<Rightarrow> app_stream_session \<Rightarrow> bool" where
  "isValid now s \<longleftrightarrow> 0 < remainingTime now s"

datatype device_status_filter = online | offline

datatype device_filter =
    filter_all
  | filter_name string
  | filter_type device_type
  | filter_status device_status_filter

datatype device_sort = nameAscending | nameDescending | sort_type | sort_status

datatype 'a view_state = idle | loading | loaded 'a | error string | empty string

section \<open>Decoding\<close>

text \<open>
  \<open>container.decode\<close> and \<open>decodeIfPresent\<close> of the scalar types: an absent key or \<open>null\<close> is \<open>nil\<close> for the
  second and an error for the first; a value of another type is an error for both. An \<open>Int\<close> is an
  integral number that fits 64 bits.
\<close>

fun json_string :: "json \<Rightarrow> string option" where
  "json_string (JStr s) = Some s"
| "json_string _ = None"

definition int64 :: "int \<Rightarrow> int option" where
  "int64 i = (if - (2 ^ 63) \<le> i \<and> i < 2 ^ 63 then Some i else None)"

fun json_int :: "json \<Rightarrow> int option" where
  "json_int (JInt i) = int64 i"
| "json_int (JReal r) = (if r = of_int \<lfloor>r\<rfloor> then int64 \<lfloor>r\<rfloor> else None)"
| "json_int _ = None"

fun json_double :: "json \<Rightarrow> real option" where
  "json_double (JInt i) = Some (of_int i)"
| "json_double (JReal r) = Some r"
| "json_double _ = None"

fun json_bool :: "json \<Rightarrow> bool option" where
  "json_bool (JBool b) = Some b"
| "json_bool _ = None"

definition decode_req :: "(json \<Rightarrow> 'a option) \<Rightarrow> string \<Rightarrow> json \<Rightarrow> 'a option" where
  "decode_req f k j = Option.bind (json_field k j) f"

definition decode_opt :: "(json \<Rightarrow> 'a option) \<Rightarrow> string \<Rightarrow> json \<Rightarrow> 'a option option" where
  "decode_opt f k j = (case json_field k j of None \<Rightarrow> Some None | Some JNull \<Rightarrow> Some None
     | Some v \<Rightarrow> map_option Some (f v))"

text \<open>A list decodes when every element does.\<close>

fun decode_list :: "(json \<Rightarrow> 'a option) \<Rightarrow> json \<Rightarrow> 'a list option" where
  "decode_list f (JArr js) = those (map f js)"
| "decode_list f _ = None"

subsection \<open>Devices\<close>

record partner_device_attributes =
  pa_name :: string
  pa_model :: string
  pa_firmware_version :: "string option"
  pa_power_source :: string
  pa_status :: "string option"

record partner_device_resource =
  pd_id :: string
  pd_type :: string
  pd_attributes :: partner_device_attributes

definition decode_device_attributes :: "json \<Rightarrow> partner_device_attributes option" where
  "decode_device_attributes j =
     Option.bind (decode_req json_string ''name'' j) (\<lambda>n.
     Option.bind (decode_req json_string ''model'' j) (\<lambda>m.
     Option.bind (decode_opt json_string ''firmware_version'' j) (\<lambda>f.
     Option.bind (decode_req json_string ''power_source'' j) (\<lambda>p.
     Option.bind (decode_opt json_string ''status'' j) (\<lambda>s.
     Some \<lparr>pa_name = n, pa_model = m, pa_firmware_version = f, pa_power_source = p, pa_status = s\<rparr>)))))"

definition decode_device_resource :: "json \<Rightarrow> partner_device_resource option" where
  "decode_device_resource j =
     Option.bind (decode_req json_string ''id'' j) (\<lambda>i.
     Option.bind (decode_req json_string ''type'' j) (\<lambda>t.
     Option.bind (decode_req decode_device_attributes ''attributes'' j) (\<lambda>a.
     Some \<lparr>pd_id = i, pd_type = t, pd_attributes = a\<rparr>)))"

definition decode_device_list :: "json \<Rightarrow> partner_device_resource list option" where
  "decode_device_list j = decode_req (decode_list decode_device_resource) ''data'' j"

definition device_to_domain :: "partner_device_resource \<Rightarrow> app_device" where
  "device_to_domain d = (let a = pd_attributes d in
     \<lparr>ad_id = pd_id d, ad_name = pa_name a, ad_model = pa_model a,
      ad_device_type = (case device_type_of_raw (pa_model a) of Some t \<Rightarrow> t | None \<Rightarrow> unknown),
      ad_firmware_version = pa_firmware_version a,
      ad_power_source = (case power_supply_of_raw (pa_power_source a) of Some p \<Rightarrow> p | None \<Rightarrow> battery),
      ad_is_online = (case pa_status a of None \<Rightarrow> True | Some s \<Rightarrow> s = ''online'')\<rparr>)"

subsection \<open>Events\<close>

record partner_event_resource =
  pe_id :: string
  pe_device_id :: string
  pe_type :: string
  pe_created_at :: string
  pe_duration :: "int option"

definition decode_event_resource :: "json \<Rightarrow> partner_event_resource option" where
  "decode_event_resource j =
     Option.bind (decode_req json_string ''id'' j) (\<lambda>i.
     Option.bind (decode_req json_string ''device_id'' j) (\<lambda>d.
     Option.bind (decode_req json_string ''type'' j) (\<lambda>t.
     Option.bind (decode_req json_string ''created_at'' j) (\<lambda>c.
     Option.bind (decode_opt json_int ''duration'' j) (\<lambda>n.
     Some \<lparr>pe_id = i, pe_device_id = d, pe_type = t, pe_created_at = c, pe_duration = n\<rparr>)))))"

definition event_to_domain :: "(string \<Rightarrow> real option) \<Rightarrow> real \<Rightarrow> partner_event_resource \<Rightarrow> app_event" where
  "event_to_domain iso8601 now e =
     \<lparr>ae_id = pe_id e, ae_device_id = pe_device_id e,
      ae_event_type = (case app_event_type_of_raw (pe_type e) of Some t \<Rightarrow> t | None \<Rightarrow> motion),
      ae_created_at = (case iso8601 (pe_created_at e) of Some t \<Rightarrow> t | None \<Rightarrow> now),
      ae_duration = map_option of_int (pe_duration e)\<rparr>"

subsection \<open>Tokens and the device-code flow\<close>

text \<open>The backend's token: two date formats are tried, \<open>iso8601_frac\<close> with fractional seconds first.\<close>

record backend_token_response =
  bt_access_token :: string
  bt_token_type :: string
  bt_expires_at :: string

definition decode_backend_token :: "json \<Rightarrow> backend_token_response option" where
  "decode_backend_token j =
     Option.bind (decode_req json_string ''access_token'' j) (\<lambda>a.
     Option.bind (decode_req json_string ''token_type'' j) (\<lambda>t.
     Option.bind (decode_req json_string ''expires_at'' j) (\<lambda>e.
     Some \<lparr>bt_access_token = a, bt_token_type = t, bt_expires_at = e\<rparr>)))"

definition backend_token_to_domain ::
  "(string \<Rightarrow> real option) \<Rightarrow> (string \<Rightarrow> real option) \<Rightarrow> real \<Rightarrow> backend_token_response \<Rightarrow> auth_token" where
  "backend_token_to_domain iso8601_frac iso8601 now b =
     (let expiry = (case iso8601_frac (bt_expires_at b) of Some t \<Rightarrow> t
        | None \<Rightarrow> (case iso8601 (bt_expires_at b) of Some t \<Rightarrow> t | None \<Rightarrow> now))
      in \<lparr>at_access_token = bt_access_token b, at_refresh_token = '''', at_expires_at = expiry,
          at_scope = None, at_token_type = bt_token_type b, at_client_id = None\<rparr>)"

record device_code_response =
  dc_device_code :: string
  dc_user_code :: string
  dc_verification_uri :: string
  dc_verification_uri_complete :: "string option"
  dc_expires_in :: int
  dc_interval :: int

definition decode_device_code :: "json \<Rightarrow> device_code_response option" where
  "decode_device_code j =
     Option.bind (decode_req json_string ''device_code'' j) (\<lambda>d.
     Option.bind (decode_req json_string ''user_code'' j) (\<lambda>u.
     Option.bind (decode_req json_string ''verification_uri'' j) (\<lambda>v.
     Option.bind (decode_opt json_string ''verification_uri_complete'' j) (\<lambda>vc.
     Option.bind (decode_req json_int ''expires_in'' j) (\<lambda>e.
     Option.bind (decode_req json_int ''interval'' j) (\<lambda>i.
     Some \<lparr>dc_device_code = d, dc_user_code = u, dc_verification_uri = v,
           dc_verification_uri_complete = vc, dc_expires_in = e, dc_interval = i\<rparr>))))))"

record device_code_info =
  di_user_code :: string
  di_verification_uri :: string
  di_verification_uri_complete :: "string option"
  di_expires_in :: real
  di_polling_interval :: real
  di_device_code :: string

section \<open>Configuration\<close>

record app_configuration =
  useMocks :: bool
  enableDebugLogging :: bool
  streamTimeoutSeconds :: real
  deviceRefreshInterval :: real
  eventHistoryHours :: int
  maxEventCount :: int
  cacheExpirationSeconds :: real
  enableCrashReporting :: bool
  enableLocalAnalytics :: bool
  authBackendBaseURL :: string
  authBackendAPIKey :: string
  authBackendUserId :: string

definition AppConfiguration :: app_configuration where
  "AppConfiguration =
     \<lparr>useMocks = True, enableDebugLogging = False, streamTimeoutSeconds = 600, deviceRefreshInterval = 60,
      eventHistoryHours = 48, maxEventCount = 50, cacheExpirationSeconds = 300, enableCrashReporting = True,
      enableLocalAnalytics = False, authBackendBaseURL = ''http://localhost:8000'',
      authBackendAPIKey = ''local-dev-api-key'', authBackendUserId = ''default''\<rparr>"

definition decode_default :: "(json \<Rightarrow> 'a option) \<Rightarrow> string \<Rightarrow> 'a \<Rightarrow> json \<Rightarrow> 'a option" where
  "decode_default f k d j = map_option (\<lambda>v. case v of None \<Rightarrow> d | Some x \<Rightarrow> x) (decode_opt f k j)"

definition decode_configuration :: "json \<Rightarrow> app_configuration option" where
  "decode_configuration j = (if \<not> is_obj j then None else (let d = AppConfiguration in
     Option.bind (decode_default json_bool ''useMocks'' (useMocks d) j) (\<lambda>c1.
     Option.bind (decode_default json_bool ''enableDebugLogging'' (enableDebugLogging d) j) (\<lambda>c2.
     Option.bind (decode_default json_double ''streamTimeoutSeconds'' (streamTimeoutSeconds d) j) (\<lambda>c3.
     Option.bind (decode_default json_double ''deviceRefreshInterval'' (deviceRefreshInterval d) j) (\<lambda>c4.
     Option.bind (decode_default json_int ''eventHistoryHours'' (eventHistoryHours d) j) (\<lambda>c5.
     Option.bind (decode_default json_int ''maxEventCount'' (maxEventCount d) j) (\<lambda>c6.
     Option.bind (decode_default json_double ''cacheExpirationSeconds'' (cacheExpirationSeconds d) j) (\<lambda>c7.
     Option.bind (decode_default json_bool ''enableCrashReporting'' (enableCrashReporting d) j) (\<lambda>c8.
     Option.bind (decode_default json_bool ''enableLocalAnalytics'' (enableLocalAnalytics d) j) (\<lambda>c9.
     Option.bind (decode_default json_string ''authBackendBaseURL'' (authBackendBaseURL d) j) (\<lambda>c10.
     Option.bind (decode_default json_string ''authBackendAPIKey'' (authBackendAPIKey d) j) (\<lambda>c11.
     Option.bind (decode_default json_string ''authBackendUserId'' (authBackendUserId d) j) (\<lambda>c12.
     Some \<lparr>useMocks = c1, enableDebugLogging = c2, streamTimeoutSeconds = c3, deviceRefreshInterval = c4,
       eventHistoryHours = c5, maxEventCount = c6, cacheExpirationSeconds = c7, enableCrashReporting = c8,
       enableLocalAnalytics = c9, authBackendBaseURL = c10, authBackendAPIKey = c11,
       authBackendUserId = c12\<rparr>))))))))))))))"

text \<open>What the synthesized \<open>encode(to:)\<close> writes.\<close>

definition encode_configuration :: "app_configuration \<Rightarrow> json" where
  "encode_configuration c = JObj
     [(''useMocks'', JBool (useMocks c)), (''enableDebugLogging'', JBool (enableDebugLogging c)),
      (''streamTimeoutSeconds'', JReal (streamTimeoutSeconds c)),
      (''deviceRefreshInterval'', JReal (deviceRefreshInterval c)),
      (''eventHistoryHours'', JInt (eventHistoryHours c)), (''maxEventCount'', JInt (maxEventCount c)),
      (''cacheExpirationSeconds'', JReal (cacheExpirationSeconds c)),
      (''enableCrashReporting'', JBool (enableCrashReporting c)),
      (''enableLocalAnalytics'', JBool (enableLocalAnalytics c)),
      (''authBackendBaseURL'', JStr (authBackendBaseURL c)),
      (''authBackendAPIKey'', JStr (authBackendAPIKey c)), (''authBackendUserId'', JStr (authBackendUserId c))]"

section \<open>Facts\<close>

lemma decode_req_Cons [simp]:
  "decode_req f k (JObj ((k', v) # kvs)) = (if k = k' then f v else decode_req f k (JObj kvs))"
  by (simp add: decode_req_def)

lemma decode_opt_Cons_neq [simp]: "k \<noteq> k' \<Longrightarrow> decode_opt f k (JObj ((k', v) # kvs)) = decode_opt f k (JObj kvs)"
  by (simp add: decode_opt_def)

lemma decode_opt_Cons_eq [simp]:
  "decode_opt f k (JObj ((k, v) # kvs)) = (case v of JNull \<Rightarrow> Some None | _ \<Rightarrow> map_option Some (f v))"
  by (simp add: decode_opt_def split: json.splits)

lemma decode_opt_Nil [simp]: "decode_opt f k (JObj []) = Some None"
  by (simp add: decode_opt_def)

lemma power_supply_of_raw_simps [simp]:
  "power_supply_of_raw ''battery'' = Some battery" "power_supply_of_raw ''line'' = Some line"
  "power_supply_of_raw ''hardwired'' = None"
  by (simp_all add: power_supply_of_raw_def)

lemma device_type_roundtrip: "device_type_of_raw (device_type_raw t) = Some t"
  by (cases t) (simp_all add: device_type_of_raw_def device_types_def)

lemma device_type_of_raw_sound: "device_type_of_raw s = Some t \<Longrightarrow> device_type_raw t = s"
  by (auto simp: device_type_of_raw_def find_Some_iff)

lemma sessionDurationLimit_pos: "0 < sessionDurationLimit p"
  by (cases p) simp_all

lemma remainingTime_bounds: "0 \<le> remainingTime now s" "ss_created_at s \<le> now \<Longrightarrow> remainingTime now s \<le> 60"
  by (cases "ss_power_source s"; simp add: remainingTime_def maxDuration_def)+

lemma isValid_iff: "isValid now s \<longleftrightarrow> now < ss_created_at s + maxDuration s"
  by (auto simp: isValid_def remainingTime_def)

lemma not_needsRefresh_not_isExpired: "\<not> needsRefresh now t \<Longrightarrow> \<not> isExpired now t"
  by (simp add: needsRefresh_def isExpired_def)

text \<open>The configuration survives a write and a read; an empty document is the defaults.\<close>

lemma decode_empty_configuration: "decode_configuration (JObj []) = Some AppConfiguration"
  by (simp add: decode_configuration_def decode_default_def Let_def)

lemma int64_Some: "- (2 ^ 63) \<le> i \<and> i < 2 ^ 63 \<Longrightarrow> int64 i = Some i"
  by (simp add: int64_def)

lemma configuration_roundtrip:
  assumes "int64 (eventHistoryHours c) = Some (eventHistoryHours c)"
    and "int64 (maxEventCount c) = Some (maxEventCount c)"
  shows "decode_configuration (encode_configuration c) = Some c"
  using assms by (simp add: decode_configuration_def encode_configuration_def decode_default_def Let_def)

end
