(* ===== verification/Device_Pipeline.thy ===== *)
theory Device_Pipeline imports Mappers Client_Models begin

text \<open>
  Devices and events from Ring to the app: the backend maps them and renders the resources as JSON
  (\<open>model_dump\<close> of the classes of \<open>adapters/models.py\<close>, \<open>list_devices\<close> of \<open>adapters/unofficial.py\<close>),
  the app decodes that JSON into its own models. The two ends are in different languages and share only the
  field names and the strings of the unions.
\<close>

definition device_json :: "device_resource \<Rightarrow> json" where
  "device_json d = JObj
     [(''id'', JStr (dr_id d)), (''type'', JStr (dr_type d)),
      (''attributes'', JObj
         [(''name'', JStr (da_name (dr_attributes d))), (''model'', JStr (da_model (dr_attributes d))),
          (''firmware_version'', JStr (da_firmware_version (dr_attributes d))),
          (''power_source'', JStr (power_source_string (da_power_source (dr_attributes d)))),
          (''status'', JStr (device_status_string (da_status (dr_attributes d))))])]"

definition device_list_json :: "device_resource list \<Rightarrow> json" where
  "device_list_json ds = JObj [(''data'', JArr (map device_json ds))]"

definition event_json :: "event_resource \<Rightarrow> json" where
  "event_json e = JObj
     [(''id'', JStr (er_id e)), (''device_id'', JStr (er_device_id e)), (''type'', JStr (event_type_string (er_type e))),
      (''created_at'', JStr (er_created_at e)), (''duration'', JInt (er_duration e))]"

text \<open>What the app makes of a resource the backend sent.\<close>

definition received_device :: "device_resource \<Rightarrow> app_device" where
  "received_device d = \<lparr>ad_id = dr_id d, ad_name = da_name (dr_attributes d), ad_model = da_model (dr_attributes d),
     ad_device_type = (case device_type_of_raw (da_model (dr_attributes d)) of Some t \<Rightarrow> t | None \<Rightarrow> unknown),
     ad_firmware_version = Some (da_firmware_version (dr_attributes d)), ad_power_source = battery,
     ad_is_online = (da_status (dr_attributes d) = DS_Online)\<rparr>"

lemma decode_device_json:
  "map_option device_to_domain (decode_device_resource (device_json d)) = Some (received_device d)"
  by (cases "da_power_source (dr_attributes d)"; cases "da_status (dr_attributes d)")
    (simp_all add: device_json_def decode_device_resource_def decode_device_attributes_def decode_req_def decode_opt_def
      device_to_domain_def received_device_def Let_def)

lemma those_map_option: "map_option (map g) (those (map f xs)) = those (map (\<lambda>x. map_option g (f x)) xs)"
proof (induction xs)
  case (Cons x xs)
  from Cons.IH [symmetric] show ?case by (cases "f x"; cases "those (map f xs)") auto
qed simp

lemma those_Some: "those (map (\<lambda>x. Some (f x)) xs) = Some (map f xs)"
  by (induction xs) auto

text \<open>Events arrive as they were sent, unless the duration does not fit the app's 64-bit integer.\<close>

lemma decode_event_json:
  "decode_event_resource (event_json e) = map_option (\<lambda>n. \<lparr>pe_id = er_id e, pe_device_id = er_device_id e,
     pe_type = event_type_string (er_type e), pe_created_at = er_created_at e, pe_duration = Some n\<rparr>) (int64 (er_duration e))"
  by (cases "int64 (er_duration e)") (simp_all add: event_json_def decode_event_resource_def decode_req_def decode_opt_def)

lemma event_type_arrives:
  "app_event_type_of_raw (event_type_string t) = Some (case t of ET_Motion \<Rightarrow> motion | ET_Ding \<Rightarrow> ding)"
  by (cases t) (simp_all add: app_event_type_of_raw_def)

text \<open>C18: The device list the backend sends always decodes in the app, in order, with the identifier, name and model
  that Ring reported and every device online. But the backend calls a wired device \<open>hardwired\<close> and the
  app knows only \<open>battery\<close> and \<open>line\<close>, so every device arrives as battery-powered and gets the 30 second
  session limit.\<close>

theorem devices_arrive_as_battery:
  "map_option (map device_to_domain) (decode_device_list (device_list_json (map map_device ds))) =
     Some (map (\<lambda>d. received_device (map_device d)) ds) \<and>
   list_all (\<lambda>d. ad_id (received_device (map_device d)) = int_str (rd_id d) \<and>
       ad_name (received_device (map_device d)) = rd_description d \<and>
       ad_model (received_device (map_device d)) = rd_kind d \<and> ad_is_online (received_device (map_device d)) \<and>
       sessionDurationLimit (ad_power_source (received_device (map_device d))) = 30) ds"
proof
  have "decode_device_list (device_list_json (map map_device ds)) =
      those (map (\<lambda>d. decode_device_resource (device_json (map_device d))) ds)"
    by (simp add: decode_device_list_def device_list_json_def decode_req_def comp_def)
  then show "map_option (map device_to_domain) (decode_device_list (device_list_json (map map_device ds))) =
      Some (map (\<lambda>d. received_device (map_device d)) ds)"
    by (simp add: those_map_option decode_device_json those_Some)
  show "list_all (\<lambda>d. ad_id (received_device (map_device d)) = int_str (rd_id d) \<and>
       ad_name (received_device (map_device d)) = rd_description d \<and>
       ad_model (received_device (map_device d)) = rd_kind d \<and> ad_is_online (received_device (map_device d)) \<and>
       sessionDurationLimit (ad_power_source (received_device (map_device d))) = 30) ds"
    by (simp add: list_all_iff received_device_def map_device_def Let_def)
qed

end
