(* ===== verification/Partner_Client.thy ===== *)
theory Partner_Client imports Client_Models "HOL-Library.List_Lexorder" "HOL-Library.Char_ord" begin

text \<open>
  The app's HTTP client, \<open>Services/Implementations/PartnerAPIClient.swift\<close>. \<open>URLSession\<close> answers a request
  as the environment decides from all requests sent before, so answers may differ from one attempt to the
  next; the state of a call is the log of the requests sent and of the sleeps in nanoseconds.
  Cancellation of the surrounding task is not modelled.
\<close>

section \<open>Requests and their environment\<close>

record url_request =
  rq_url :: string
  rq_method :: string
  rq_headers :: "(string \<times> string) list"
  rq_body :: "string option"

definition set_header :: "string \<Rightarrow> string \<Rightarrow> url_request \<Rightarrow> url_request" where
  "set_header n v r = r\<lparr>rq_headers := filter (\<lambda>h. lower (fst h) \<noteq> lower n) (rq_headers r) @ [(n, v)]\<rparr>"

definition injectBearer :: "string \<Rightarrow> url_request \<Rightarrow> url_request" where
  "injectBearer token r = set_header ''Authorization'' (''Bearer '' @ token) r"

datatype session_outcome = Http http_response | Not_Http | Net_Error string

text \<open>
  What the client relies on: the session, whether \<open>URL(string:)\<close> accepts a string, the clock and the text
  of Foundation's errors.
\<close>

record http_env =
  he_session :: "url_request list \<Rightarrow> url_request \<Rightarrow> session_outcome"
  he_url_ok :: "string \<Rightarrow> bool"
  he_now :: "url_request list \<Rightarrow> real"
  he_decode_message :: string

record http_log =
  hl_sent :: "url_request list"
  hl_slept :: "nat list"

record partner_api_client =
  authBaseURL :: string
  apiBaseURL :: string
  tokenRefresher :: "(url_request list \<Rightarrow> client_error + string) option"

definition oauthBaseURL :: string where
  "oauthBaseURL = ''https://oauth.ring.com''"

definition partnerAPIBaseURL :: string where
  "partnerAPIBaseURL = ''https://api.amazonvision.com/v1''"

text \<open>The initializer leaves the refresher \<open>nil\<close>; it is set by assignment only.\<close>

definition new_client :: "string \<Rightarrow> string \<Rightarrow> partner_api_client" where
  "new_client auth api = \<lparr>authBaseURL = auth, apiBaseURL = api, tokenRefresher = None\<rparr>"

type_synonym 'a http = "(http_log, client_error, 'a) prog"

definition send :: "http_env \<Rightarrow> url_request \<Rightarrow> session_outcome http" where
  "send E r = (\<lambda>w. (Inr (he_session E (hl_sent w) r), w\<lparr>hl_sent := hl_sent w @ [r]\<rparr>))"

text \<open>\<open>Self.url(_:)\<close>, which crashes on a malformed literal.\<close>

definition url :: "http_env \<Rightarrow> string \<Rightarrow> string http" where
  "url E s = (if he_url_ok E s then ret s else throw Trap)"

section \<open>The retry loop\<close>

definition maxRetries :: nat where
  "maxRetries = 3"

definition initialBackoff :: real where
  "initialBackoff = 1"

text \<open>
  \<open>TimeInterval(String)\<close>: a decimal number or a spelling of an infinity or of not-a-number (\<open>Non_Finite\<close>);
  hexadecimal spellings are not read.
\<close>

datatype time_interval = Finite real | Non_Finite

definition swift_double :: "string \<Rightarrow> time_interval option" where
  "swift_double s = (case read_decimal s of Some r \<Rightarrow> Some (Finite r)
     | None \<Rightarrow> if lower (snd (read_sign s)) \<in> {''inf'', ''infinity'', ''nan''} then Some Non_Finite else None)"

text \<open>
  \<open>UInt64(delay * 1_000_000_000)\<close> drops the fraction and traps when the result does not fit. The product
  is exact here, a \<open>Double\<close> in the code.
\<close>

definition to_uint64 :: "real \<Rightarrow> nat option" where
  "to_uint64 x = (if - 1 < x \<and> x < 2 ^ 64 then Some (nat \<lfloor>x\<rfloor>) else None)"

fun nanoseconds :: "time_interval \<Rightarrow> nat option" where
  "nanoseconds (Finite d) = to_uint64 (d * 1000000000)"
| "nanoseconds Non_Finite = None"

definition retry_delay :: "http_response \<Rightarrow> real \<Rightarrow> time_interval \<times> real" where
  "retry_delay resp backoff = (case Option.bind (header ''Retry-After'' resp) swift_double of
     Some d \<Rightarrow> (d, backoff) | None \<Rightarrow> (Finite backoff, backoff * 2))"

text \<open>
  One pass of \<open>while true\<close> per unfolding; a pass that continues uses up a retry or the one refresh.
\<close>

function execute_loop ::
  "http_env \<Rightarrow> partner_api_client \<Rightarrow> bool \<Rightarrow> url_request \<Rightarrow> nat \<Rightarrow> real \<Rightarrow> bool \<Rightarrow> http_response http" where
  "execute_loop E C isAuthEndpoint currentRequest retryCount backoff hasAttemptedRefresh w =
     (case send E currentRequest w of
        (Inl e, w1) \<Rightarrow> (Inl e, w1)
      | (Inr (Net_Error m), w1) \<Rightarrow> (Inl (Partner (networkError m)), w1)
      | (Inr Not_Http, w1) \<Rightarrow> (Inl (Partner (networkError ''Invalid response type'')), w1)
      | (Inr (Http resp), w1) \<Rightarrow>
          if resp_status resp = 429 \<and> retryCount < maxRetries then
            (case retry_delay resp backoff of (delay, backoff') \<Rightarrow>
               (case nanoseconds delay of
                  None \<Rightarrow> (Inl Trap, w1)
                | Some ns \<Rightarrow> execute_loop E C isAuthEndpoint currentRequest (retryCount + 1) backoff'
                    hasAttemptedRefresh (w1\<lparr>hl_slept := hl_slept w1 @ [ns]\<rparr>)))
          else if resp_status resp = 401 \<and> \<not> isAuthEndpoint \<and> \<not> hasAttemptedRefresh \<and> tokenRefresher C \<noteq> None then
            (case the (tokenRefresher C) (hl_sent w1) of
               Inr newToken \<Rightarrow> execute_loop E C isAuthEndpoint (injectBearer newToken currentRequest) retryCount
                 backoff True w1
             | Inl e \<Rightarrow> if e = Trap then (Inl Trap, w1) else (Inr resp, w1))
          else (Inr resp, w1))"
  by pat_completeness auto

termination
  by (relation "measure (\<lambda>(_, _, _, _, n, _, b, _). (maxRetries - n) + (if b then 0 else 1))") auto

declare execute_loop.simps [simp del]

definition executeWithRetry :: "http_env \<Rightarrow> partner_api_client \<Rightarrow> bool \<Rightarrow> url_request \<Rightarrow> http_response http" where
  "executeWithRetry E C isAuthEndpoint request =
     execute_loop E C isAuthEndpoint request 0 initialBackoff False"

section \<open>Status codes\<close>

definition parseDeviceCodeError :: "http_response \<Rightarrow> string option" where
  "parseDeviceCodeError r = (case resp_json r of None \<Rightarrow> None
     | Some j \<Rightarrow> Option.bind (json_field ''error'' j) json_string)"

definition deviceCodeError :: "http_response \<Rightarrow> partner_api_error option" where
  "deviceCodeError r = (case parseDeviceCodeError r of None \<Rightarrow> None
     | Some code \<Rightarrow>
         if code = ''authorization_pending'' then Some authorizationPending
         else if code = ''slow_down'' then Some slowDown
         else if code = ''expired_token'' then Some expiredDeviceCode
         else None)"

text \<open>\<open>None\<close> for the codes that pass through.\<close>

definition mapStatusCode :: "http_response \<Rightarrow> partner_api_error option" where
  "mapStatusCode r = (let s = resp_status r in
     if 200 \<le> s \<and> s \<le> 299 then None
     else if s = 400 \<or> s = 401 then
       (case deviceCodeError r of Some e \<Rightarrow> Some e
        | None \<Rightarrow> if s = 401 then Some unauthorized else Some (serverError s))
     else if s = 403 then Some forbidden
     else if s = 404 then Some notFound
     else if s = 429 then Some (rateLimited 0)
     else Some (serverError s))"

definition check_status :: "http_response \<Rightarrow> unit http" where
  "check_status r = (case mapStatusCode r of None \<Rightarrow> ret () | Some e \<Rightarrow> throw (Partner e))"

definition perform ::
  "http_env \<Rightarrow> partner_api_client \<Rightarrow> (json \<Rightarrow> 'a option) \<Rightarrow> bool \<Rightarrow> url_request \<Rightarrow> 'a http" where
  "perform E C decoding isAuthEndpoint request =
     andThen (executeWithRetry E C isAuthEndpoint request) (\<lambda>resp.
     andThen (check_status resp) (\<lambda>_.
     case Option.bind (resp_json resp) decoding of
       Some x \<Rightarrow> ret x
     | None \<Rightarrow> throw (Partner (decodingError (he_decode_message E)))))"

definition performRaw :: "http_env \<Rightarrow> partner_api_client \<Rightarrow> bool \<Rightarrow> url_request \<Rightarrow> string http" where
  "performRaw E C isAuthEndpoint request =
     andThen (executeWithRetry E C isAuthEndpoint request) (\<lambda>resp.
     andThen (check_status resp) (\<lambda>_. ret (resp_body resp)))"

section \<open>Endpoints\<close>

subsection \<open>Forms\<close>

text \<open>\<open>addingPercentEncoding(withAllowedCharacters: .urlQueryAllowed)\<close>\<close>

definition url_query_allowed :: "char \<Rightarrow> bool" where
  "url_query_allowed c \<longleftrightarrow> (let n = (of_char c :: nat) in
     (48 \<le> n \<and> n \<le> 57) \<or> (65 \<le> n \<and> n \<le> 90) \<or> (97 \<le> n \<and> n \<le> 122) \<or> c \<in> set ''!$&()*+,-./:;=?@_~'' \<or> n = 39)"

definition hex_digit :: "nat \<Rightarrow> char" where
  "hex_digit n = (if n < 10 then char_of (48 + n) else char_of (55 + n))"

definition percent_encode :: "string \<Rightarrow> string" where
  "percent_encode s = concat (map (\<lambda>c. if url_query_allowed c then [c]
     else (let n = (of_char c :: nat) in [CHR ''%'', hex_digit (n div 16), hex_digit (n mod 16)])) s)"

definition formEncode :: "(string \<times> string) list \<Rightarrow> string" where
  "formEncode params = join ''&'' (map (\<lambda>(k, v). percent_encode k @ ''='' @ percent_encode v) (sort_key fst params))"

definition form_request :: "string \<Rightarrow> (string \<times> string) list \<Rightarrow> url_request" where
  "form_request u params = (set_header ''Content-Type'' ''application/x-www-form-urlencoded''
     \<lparr>rq_url = u, rq_method = ''POST'', rq_headers = [], rq_body = None\<rparr>)\<lparr>rq_body := Some (formEncode params)\<rparr>"

definition plain_request :: "string \<Rightarrow> string \<Rightarrow> url_request" where
  "plain_request u m = \<lparr>rq_url = u, rq_method = m, rq_headers = [], rq_body = None\<rparr>"

subsection \<open>Tokens\<close>

record raw_token_response =
  rt_access_token :: string
  rt_refresh_token :: string
  rt_expires_in :: int
  rt_scope :: "string option"
  rt_token_type :: string

definition decode_raw_token :: "json \<Rightarrow> raw_token_response option" where
  "decode_raw_token j =
     Option.bind (decode_req json_string ''access_token'' j) (\<lambda>a.
     Option.bind (decode_req json_string ''refresh_token'' j) (\<lambda>r.
     Option.bind (decode_req json_int ''expires_in'' j) (\<lambda>e.
     Option.bind (decode_opt json_string ''scope'' j) (\<lambda>s.
     Option.bind (decode_req json_string ''token_type'' j) (\<lambda>t.
     Some \<lparr>rt_access_token = a, rt_refresh_token = r, rt_expires_in = e, rt_scope = s, rt_token_type = t\<rparr>)))))"

definition raw_token_to_domain :: "real \<Rightarrow> raw_token_response \<Rightarrow> auth_token" where
  "raw_token_to_domain now r =
     \<lparr>at_access_token = rt_access_token r, at_refresh_token = rt_refresh_token r,
      at_expires_at = now + of_int (rt_expires_in r), at_scope = rt_scope r,
      at_token_type = rt_token_type r, at_client_id = None\<rparr>"

definition requestDeviceCode :: "http_env \<Rightarrow> partner_api_client \<Rightarrow> string \<Rightarrow> device_code_response http" where
  "requestDeviceCode E C clientId =
     andThen (url E (authBaseURL C @ ''/oauth/device/code'')) (\<lambda>u.
     perform E C decode_device_code True (form_request u [(''client_id'', clientId)]))"

definition token_request :: "http_env \<Rightarrow> partner_api_client \<Rightarrow> (string \<times> string) list \<Rightarrow> auth_token http" where
  "token_request E C body =
     andThen (url E (authBaseURL C @ ''/oauth/token'')) (\<lambda>u.
     andThen (perform E C decode_raw_token True (form_request u body)) (\<lambda>raw.
     andThen (gets (\<lambda>w. he_now E (hl_sent w))) (\<lambda>now. ret (raw_token_to_domain now raw))))"

definition pollForToken :: "http_env \<Rightarrow> partner_api_client \<Rightarrow> string \<Rightarrow> string \<Rightarrow> string \<Rightarrow> auth_token http" where
  "pollForToken E C clientId clientSecret deviceCode = token_request E C
     [(''grant_type'', ''urn:ietf:params:oauth:grant-type:device_code''), (''device_code'', deviceCode),
      (''client_id'', clientId), (''client_secret'', clientSecret)]"

definition refreshToken :: "http_env \<Rightarrow> partner_api_client \<Rightarrow> string \<Rightarrow> string \<Rightarrow> string \<Rightarrow> auth_token http" where
  "refreshToken E C clientId clientSecret refresh = token_request E C
     [(''grant_type'', ''refresh_token''), (''refresh_token'', refresh),
      (''client_id'', clientId), (''client_secret'', clientSecret)]"

subsection \<open>Devices, events and media\<close>

definition fetchDevices :: "http_env \<Rightarrow> partner_api_client \<Rightarrow> string \<Rightarrow> partner_device_resource list http" where
  "fetchDevices E C token =
     andThen (url E (apiBaseURL C @ ''/devices'')) (\<lambda>u.
     perform E C decode_device_list False (injectBearer token (plain_request u ''GET'')))"

text \<open>\<open>URLComponents(string:)\<close> accepts what \<open>URL(string:)\<close> accepts; the query item needs no escaping.\<close>

definition fetchEvents ::
  "http_env \<Rightarrow> partner_api_client \<Rightarrow> string \<Rightarrow> string \<Rightarrow> int \<Rightarrow> partner_event_resource list http" where
  "fetchEvents E C deviceId token limit =
     (let base = apiBaseURL C @ ''/history/devices/'' @ deviceId @ ''/events'' in
      if \<not> he_url_ok E base then throw (Partner (decodingError ''Invalid URL components for history''))
      else perform E C (decode_list decode_event_resource) False
        (injectBearer token (plain_request (base @ ''?limit='' @ int_str limit) ''GET'')))"

definition json_escape :: "string \<Rightarrow> string" where
  "json_escape s = concat (map (\<lambda>c. let n = (of_char c :: nat) in
     if n = 34 \<or> n = 92 then [CHR 0x5C, c]
     else if c = CHR ''/'' then [CHR 0x5C, c]
     else if n = 8 then [CHR 0x5C, CHR ''b''] else if n = 9 then [CHR 0x5C, CHR ''t'']
     else if n = 10 then [CHR 0x5C, CHR ''n''] else if n = 12 then [CHR 0x5C, CHR ''f'']
     else if n = 13 then [CHR 0x5C, CHR ''r'']
     else if n < 32 then [CHR 0x5C, CHR ''u'', CHR ''0'', CHR ''0'', char_of (48 + n div 16),
       (if n mod 16 < 10 then char_of (48 + n mod 16) else char_of (87 + n mod 16))]
     else [c]) s)"

definition decode_video_download :: "json \<Rightarrow> string option" where
  "decode_video_download j = decode_req json_string ''url'' j"

definition downloadVideo :: "http_env \<Rightarrow> partner_api_client \<Rightarrow> string \<Rightarrow> string \<Rightarrow> string \<Rightarrow> string http" where
  "downloadVideo E C deviceId eventId token =
     andThen (url E (apiBaseURL C @ ''/devices/'' @ deviceId @ ''/media/video/download'')) (\<lambda>u.
     andThen (perform E C decode_video_download False
        ((injectBearer token (set_header ''Content-Type'' ''application/json'' (plain_request u ''POST'')))
           \<lparr>rq_body := Some (''{'' @ [CHR 0x22] @ ''event_id'' @ [CHR 0x22] @ '':'' @ [CHR 0x22] @
              json_escape eventId @ [CHR 0x22] @ ''}'')\<rparr>)) (\<lambda>wrapper.
     if he_url_ok E wrapper then ret wrapper
     else throw (Partner (decodingError ''Invalid video URL in response''))))"

definition downloadSnapshot :: "http_env \<Rightarrow> partner_api_client \<Rightarrow> string \<Rightarrow> string \<Rightarrow> string http" where
  "downloadSnapshot E C deviceId token =
     andThen (url E (apiBaseURL C @ ''/devices/'' @ deviceId @ ''/media/image/download'')) (\<lambda>u.
     performRaw E C False (injectBearer token (plain_request u ''POST'')))"

subsection \<open>WHEP\<close>

record whep_session_response =
  wr_sdp_answer :: string
  wr_session_url :: string

definition client_whep_request :: "string \<Rightarrow> string \<Rightarrow> string \<Rightarrow> url_request" where
  "client_whep_request u sdpOffer token =
     (injectBearer token (set_header ''Content-Type'' ''application/sdp'' (plain_request u ''POST'')))
       \<lparr>rq_body := Some sdpOffer\<rparr>"

text \<open>What is made of the response: only a 201 with a non-empty UTF-8 answer and a Location is a session.\<close>

definition whep_result :: "http_env \<Rightarrow> http_response \<Rightarrow> client_error + whep_session_response" where
  "whep_result E resp =
     (if resp_status resp \<noteq> 201 then
        Inl (Partner (case mapStatusCode resp of Some e \<Rightarrow> e | None \<Rightarrow> serverError (resp_status resp)))
      else if \<not> utf8_valid (resp_body resp) \<or> resp_body resp = '''' then
        Inl (Partner (decodingError ''Empty SDP answer in WHEP response''))
      else (case header ''Location'' resp of
          Some loc \<Rightarrow> if he_url_ok E loc then Inr \<lparr>wr_sdp_answer = resp_body resp, wr_session_url = loc\<rparr>
            else Inl (Partner (decodingError ''Missing or invalid Location header in WHEP response''))
        | None \<Rightarrow> Inl (Partner (decodingError ''Missing or invalid Location header in WHEP response''))))"

definition createWHEPSession ::
  "http_env \<Rightarrow> partner_api_client \<Rightarrow> string \<Rightarrow> string \<Rightarrow> string \<Rightarrow> whep_session_response http" where
  "createWHEPSession E C deviceId sdpOffer token =
     andThen (url E (apiBaseURL C @ ''/devices/'' @ deviceId @ ''/media/streaming/whep/sessions'')) (\<lambda>u.
     andThen (executeWithRetry E C False (client_whep_request u sdpOffer token)) (\<lambda>resp.
     of_sum (whep_result E resp)))"

definition deleteWHEPSession :: "http_env \<Rightarrow> partner_api_client \<Rightarrow> string \<Rightarrow> string \<Rightarrow> unit http" where
  "deleteWHEPSession E C sessionURL token =
     andThen (performRaw E C False (injectBearer token (plain_request sessionURL ''DELETE''))) (\<lambda>_. ret ())"

section \<open>Facts on the retry loop\<close>

lemma send_apply: "send E r w = (Inr (he_session E (hl_sent w) r), w\<lparr>hl_sent := hl_sent w @ [r]\<rparr>)"
  by (simp add: send_def)

text \<open>Two requests that differ in their headers only.\<close>

definition same_call :: "url_request \<Rightarrow> url_request \<Rightarrow> bool" where
  "same_call r q \<longleftrightarrow> rq_url q = rq_url r \<and> rq_method q = rq_method r \<and> rq_body q = rq_body r"

lemma same_call_refl [simp]: "same_call r r"
  by (simp add: same_call_def)

lemma same_call_injectBearer [simp]: "same_call (injectBearer t r) = same_call r"
  by (simp add: fun_eq_iff same_call_def injectBearer_def set_header_def)

definition refresh_left :: "partner_api_client \<Rightarrow> bool \<Rightarrow> bool \<Rightarrow> nat" where
  "refresh_left C auth refreshed = (if auth \<or> refreshed \<or> tokenRefresher C = None then 0 else 1)"

lemma refresh_left_le: "refresh_left C a b \<le> 1"
  by (simp add: refresh_left_def)

text \<open>The loop by the answer to its request: no HTTP response, another try, a refresh, or the response itself.\<close>

lemma execute_loop_no_response:
  "he_session E (hl_sent w) req = Net_Error m \<Longrightarrow> execute_loop E C a req n b h w =
     (Inl (Partner (networkError m)), w\<lparr>hl_sent := hl_sent w @ [req]\<rparr>)"
  "he_session E (hl_sent w) req = Not_Http \<Longrightarrow> execute_loop E C a req n b h w =
     (Inl (Partner (networkError ''Invalid response type'')), w\<lparr>hl_sent := hl_sent w @ [req]\<rparr>)"
  by (simp_all add: execute_loop.simps [of E C a req n b h w] send_apply)

lemma execute_loop_retry:
  "he_session E (hl_sent w) req = Http resp \<Longrightarrow> resp_status resp = 429 \<Longrightarrow> n < maxRetries \<Longrightarrow>
     execute_loop E C a req n b h w = (case nanoseconds (fst (retry_delay resp b)) of
        None \<Rightarrow> (Inl Trap, w\<lparr>hl_sent := hl_sent w @ [req]\<rparr>)
      | Some ns \<Rightarrow> execute_loop E C a req (n + 1) (snd (retry_delay resp b)) h
          (w\<lparr>hl_sent := hl_sent w @ [req], hl_slept := hl_slept w @ [ns]\<rparr>))"
  by (subst execute_loop.simps) (simp add: send_apply split: prod.splits option.splits)

lemma execute_loop_refresh:
  "he_session E (hl_sent w) req = Http resp \<Longrightarrow> resp_status resp = 401 \<Longrightarrow> \<not> a \<Longrightarrow> \<not> h \<Longrightarrow>
     tokenRefresher C = Some f \<Longrightarrow>
     execute_loop E C a req n b h w = (case f (hl_sent w @ [req]) of
        Inr t \<Rightarrow> execute_loop E C a (injectBearer t req) n b True (w\<lparr>hl_sent := hl_sent w @ [req]\<rparr>)
      | Inl e \<Rightarrow> ((if e = Trap then Inl Trap else Inr resp), w\<lparr>hl_sent := hl_sent w @ [req]\<rparr>))"
  by (subst execute_loop.simps) (simp add: send_apply split: sum.splits)

lemma execute_loop_return:
  "he_session E (hl_sent w) req = Http resp \<Longrightarrow> \<not> (resp_status resp = 429 \<and> n < maxRetries) \<Longrightarrow>
     \<not> (resp_status resp = 401 \<and> \<not> a \<and> \<not> h \<and> tokenRefresher C \<noteq> None) \<Longrightarrow>
     execute_loop E C a req n b h w = (Inr resp, w\<lparr>hl_sent := hl_sent w @ [req]\<rparr>)"
  by (subst execute_loop.simps) (auto simp: send_apply)

lemma execute_loop_log:
  assumes "n \<le> maxRetries"
  shows "\<exists>reqs sleeps. snd (execute_loop E C a req n b h w) =
       w\<lparr>hl_sent := hl_sent w @ reqs, hl_slept := hl_slept w @ sleeps\<rparr> \<and>
     reqs \<noteq> [] \<and> list_all (same_call req) reqs \<and> length sleeps \<le> maxRetries - n \<and>
     length reqs \<le> 1 + length sleeps + refresh_left C a h"
  using assms
proof (induction E C a req n b h w rule: execute_loop.induct)
  case (1 E C a req n b h w)
  let ?w1 = "w\<lparr>hl_sent := hl_sent w @ [req]\<rparr>"
  have once: ?case if "snd (execute_loop E C a req n b h w) = ?w1"
  proof (intro exI conjI)
    show "snd (execute_loop E C a req n b h w) = w\<lparr>hl_sent := hl_sent w @ [req], hl_slept := hl_slept w @ []\<rparr>"
      using that by simp
  qed simp_all
  show ?case
  proof (cases "he_session E (hl_sent w) req")
    case (Net_Error m)
    then show ?thesis by (intro once) (simp add: execute_loop.simps [of E C a req n b h w] send_apply)
  next
    case Not_Http
    then show ?thesis by (intro once) (simp add: execute_loop.simps [of E C a req n b h w] send_apply)
  next
    case (Http resp)
    consider (retry) "resp_status resp = 429" "n < maxRetries"
      | (refresh) f where "resp_status resp = 401" "\<not> a" "\<not> h" "tokenRefresher C = Some f"
      | (return) "\<not> (resp_status resp = 429 \<and> n < maxRetries)"
          "\<not> (resp_status resp = 401 \<and> \<not> a \<and> \<not> h \<and> tokenRefresher C \<noteq> None)"
      by blast
    then show ?thesis
    proof cases
      case retry
      obtain d b' where d: "retry_delay resp b = (d, b')" by (cases "retry_delay resp b")
      show ?thesis
      proof (cases "nanoseconds d")
        case None
        then show ?thesis by (intro once) (simp add: execute_loop_retry [OF Http retry] d)
      next
        case (Some ns)
        let ?w2 = "?w1\<lparr>hl_slept := hl_slept ?w1 @ [ns]\<rparr>"
        have run: "execute_loop E C a req n b h w = execute_loop E C a req (n + 1) b' h ?w2"
          using Some by (simp add: execute_loop_retry [OF Http retry] d)
        obtain reqs sleeps where ih: "snd (execute_loop E C a req (n + 1) b' h ?w2) =
            ?w2\<lparr>hl_sent := hl_sent ?w2 @ reqs, hl_slept := hl_slept ?w2 @ sleeps\<rparr>"
          "list_all (same_call req) reqs" "length sleeps \<le> maxRetries - (n + 1)"
          "length reqs \<le> 1 + length sleeps + refresh_left C a h"
          using "1.IH"(1) [OF send_apply [symmetric] refl Http _ d [symmetric] Some] retry
          by (metis Suc_eq_plus1 Suc_leI)
        show ?thesis unfolding run ih(1)
          by (intro exI [of _ "req # reqs"] exI [of _ "ns # sleeps"]) (use ih retry in auto)
      qed
    next
      case refresh
      note run = execute_loop_refresh [OF Http refresh]
      show ?thesis
      proof (cases "f (hl_sent w @ [req])")
        case (Inl e)
        then show ?thesis by (intro once) (simp add: run)
      next
        case (Inr t)
        let ?q = "injectBearer t req"
        have run: "execute_loop E C a req n b h w = execute_loop E C a ?q n b True ?w1"
          using run Inr by simp
        obtain reqs sleeps where ih: "snd (execute_loop E C a ?q n b True ?w1) =
            ?w1\<lparr>hl_sent := hl_sent ?w1 @ reqs, hl_slept := hl_slept ?w1 @ sleeps\<rparr>"
          "list_all (same_call ?q) reqs" "length sleeps \<le> maxRetries - n"
          "length reqs \<le> 1 + length sleeps + refresh_left C a True"
          using "1.IH"(2) [OF send_apply [symmetric] refl Http _ _ _ "1.prems"] refresh Inr by auto
        show ?thesis unfolding run ih(1)
          by (intro exI [of _ "req # reqs"] exI [of _ sleeps])
            (use ih refresh in \<open>auto simp: refresh_left_def list_all_iff\<close>)
      qed
    next
      case return
      then show ?thesis by (intro once) (simp add: execute_loop_return [OF Http])
    qed
  qed
qed

lemma execute_loop_no_refresher:
  "tokenRefresher C = None \<Longrightarrow> execute_loop E C a req n b h w = execute_loop E C True req n b h w"
proof (induction E C a req n b h w rule: execute_loop.induct)
  case (1 E C a req n b h w)
  show ?case
  proof (cases "he_session E (hl_sent w) req")
    case (Http resp)
    consider (retry) "resp_status resp = 429" "n < maxRetries"
      | (return) "\<not> (resp_status resp = 429 \<and> n < maxRetries)" by blast
    then show ?thesis
    proof cases
      case retry
      show ?thesis
      proof (cases "nanoseconds (fst (retry_delay resp b))")
        case None
        then show ?thesis by (simp add: execute_loop_retry [OF Http retry])
      next
        case (Some ns)
        have "execute_loop E C a req (n + 1) (snd (retry_delay resp b)) h
            (w\<lparr>hl_sent := hl_sent w @ [req], hl_slept := hl_slept w @ [ns]\<rparr>) =
          execute_loop E C True req (n + 1) (snd (retry_delay resp b)) h
            (w\<lparr>hl_sent := hl_sent w @ [req], hl_slept := hl_slept w @ [ns]\<rparr>)"
          using "1.IH"(1) [OF send_apply [symmetric] refl Http _ prod.collapse Some "1.prems"] retry by simp
        with Some show ?thesis by (simp add: execute_loop_retry [OF Http retry])
      qed
    next
      case return
      then show ?thesis using "1.prems" by (simp add: execute_loop_return [OF Http])
    qed
  qed (simp_all add: execute_loop_no_response)
qed

lemma perform_status:
  "performRaw E C a req w = (case executeWithRetry E C a req w of
     (Inl e, w') \<Rightarrow> (Inl e, w')
   | (Inr resp, w') \<Rightarrow> ((case mapStatusCode resp of None \<Rightarrow> Inr (resp_body resp) | Some e \<Rightarrow> Inl (Partner e)), w'))"
  by (auto simp: performRaw_def check_status_def andThen_def split: prod.splits sum.splits option.splits)

lemma mapStatusCode_None: "mapStatusCode r = None \<longleftrightarrow> 200 \<le> resp_status r \<and> resp_status r \<le> 299"
  by (auto simp: mapStatusCode_def Let_def split: option.splits)

section \<open>Properties\<close>

text \<open>C16: Every call of the client ends and sends at most five requests: the first, one for each of at
  most three sleeps, and one more after a token refresh, which only a call outside the authentication
  endpoints of a client with a refresher may make. All of them differ in their headers only.\<close>

theorem execute_bounded:
  "\<exists>reqs sleeps. snd (executeWithRetry E C auth req w) =
       w\<lparr>hl_sent := hl_sent w @ reqs, hl_slept := hl_slept w @ sleeps\<rparr> \<and>
     reqs \<noteq> [] \<and> list_all (same_call req) reqs \<and> length sleeps \<le> 3 \<and>
     length reqs \<le> 1 + length sleeps + (if auth \<or> tokenRefresher C = None then 0 else 1)"
  using execute_loop_log [where n = 0 and b = initialBackoff and h = False and a = auth and E = E and C = C
      and req = req and w = w]
  by (simp add: executeWithRetry_def maxRetries_def refresh_left_def)

text \<open>While the API keeps answering 429 without Retry-After, the call waits 1, 2 and 4 seconds, sends
  four requests and then returns the 429, which the callers turn into \<open>rateLimited\<close>.\<close>

theorem backoff_sequence:
  assumes "\<And>h. he_session E h req = Http resp" and "resp_status resp = 429"
    and "header ''Retry-After'' resp = None"
  shows "executeWithRetry E C auth req w = (Inr resp,
      w\<lparr>hl_sent := hl_sent w @ [req, req, req, req],
        hl_slept := hl_slept w @ [1000000000, 2000000000, 4000000000]\<rparr>) \<and>
    fst (performRaw E C auth req w) = Inl (Partner (rateLimited 0))"
proof -
  have delay: "retry_delay resp b = (Finite b, b * 2)" for b
    using assms(3) by (simp add: retry_delay_def)
  have run: "executeWithRetry E C auth req w = (Inr resp,
      w\<lparr>hl_sent := hl_sent w @ [req, req, req, req],
        hl_slept := hl_slept w @ [1000000000, 2000000000, 4000000000]\<rparr>)"
    by (simp add: executeWithRetry_def initialBackoff_def maxRetries_def to_uint64_def delay assms(2)
        execute_loop_retry [OF assms(1)] execute_loop_return [OF assms(1)])
  then show ?thesis by (simp add: perform_status mapStatusCode_def assms(2))
qed

definition busy_response :: http_response where
  "busy_response = \<lparr>resp_status = 429, resp_headers = [], resp_body = '''', resp_json = None, resp_raises = True\<rparr>"

definition constant_env :: "session_outcome \<Rightarrow> http_env" where
  "constant_env out = \<lparr>he_session = (\<lambda>_ _. out), he_url_ok = (\<lambda>s. s \<noteq> ''''), he_now = (\<lambda>_. 0), he_decode_message = ''''\<rparr>"

lemma constant_env_session [simp]: "he_session (constant_env out) h req = out"
  by (simp add: constant_env_def)

theorem backoff_sequence_witness:
  "hl_slept (snd (executeWithRetry (constant_env (Http busy_response)) (new_client '''' '''') False
     (plain_request ''u'' ''GET'') \<lparr>hl_sent = [], hl_slept = []\<rparr>)) = [1000000000, 2000000000, 4000000000]"
  using backoff_sequence [of "constant_env (Http busy_response)" "plain_request ''u'' ''GET''" busy_response
      "new_client '''' ''''" False "\<lparr>hl_sent = [], hl_slept = []\<rparr>"]
  by (simp add: busy_response_def header_def)

text \<open>A client as the app builds it has no refresher, so a 401 from the API is final: every call goes
  as if it were to an authentication endpoint, although the class promises one token refresh before failing.\<close>

theorem wired_client_never_refreshes:
  "executeWithRetry E (new_client a b) False req w = executeWithRetry E (new_client a b) True req w"
  unfolding executeWithRetry_def by (rule execute_loop_no_refresher) (simp add: new_client_def)

text \<open>A 429 whose Retry-After is a number below minus a nanosecond crashes the app instead of being
  retried or reported.\<close>

theorem negative_retry_after_traps:
  assumes "he_session E (hl_sent w) req = Http resp" and "resp_status resp = 429"
    and "header ''Retry-After'' resp = Some v" and "swift_double v = Some (Finite d)"
    and "d \<le> - 1 / 1000000000"
  shows "executeWithRetry E C auth req w = (Inl Trap, w\<lparr>hl_sent := hl_sent w @ [req]\<rparr>)"
proof -
  have "nanoseconds (fst (retry_delay resp initialBackoff)) = None"
    using assms(3-5) by (simp add: retry_delay_def to_uint64_def)
  then show ?thesis
    using execute_loop_retry [OF assms(1,2), of 0 C auth initialBackoff False]
    by (simp add: executeWithRetry_def maxRetries_def)
qed

definition skewed_response :: http_response where
  "skewed_response = busy_response\<lparr>resp_headers := [(''Retry-After'', ''-1'')]\<rparr>"

lemma swift_double_minus_one: "swift_double ''-1'' = Some (Finite (- 1))"
  by (simp add: swift_double_def read_decimal_def span_digits_def is_digit_def read_exponent_def
      nat_of_str_def digit_value_def)

theorem negative_retry_after_traps_witness:
  "fst (executeWithRetry (constant_env (Http skewed_response)) (new_client '''' '''') False
     (plain_request ''u'' ''GET'') \<lparr>hl_sent = [], hl_slept = []\<rparr>) = Inl Trap"
  using negative_retry_after_traps [of "constant_env (Http skewed_response)" "\<lparr>hl_sent = [], hl_slept = []\<rparr>"
      "plain_request ''u'' ''GET''" skewed_response "''-1''" "- 1" "new_client '''' ''''" False]
  by (simp add: skewed_response_def busy_response_def header_def join_def lower_def lower_char_def swift_double_minus_one)

text \<open>A WHEP session is created exactly by a 201 with a non-empty UTF-8 body and a Location that is a
  URL, and it carries both unchanged.\<close>

theorem whep_result_iff:
  "whep_result E resp = Inr r \<longleftrightarrow>
     resp_status resp = 201 \<and> utf8_valid (resp_body resp) \<and> resp_body resp \<noteq> '''' \<and>
     header ''Location'' resp = Some (wr_session_url r) \<and> he_url_ok E (wr_session_url r) \<and>
     wr_sdp_answer r = resp_body resp"
  by (cases r) (auto simp: whep_result_def split: option.splits)

text \<open>A form value is not escaped against the form's own separators: a refresh token with an ampersand
  is sent as the same bytes as a shorter token followed by another field.\<close>

theorem form_encode_ambiguous:
  "formEncode [(''client_id'', i), (''client_secret'', s), (''grant_type'', g), (''refresh_token'', t @ ''&scope='' @ x)] =
   formEncode [(''client_id'', i), (''client_secret'', s), (''grant_type'', g), (''refresh_token'', t), (''scope'', x)]"
proof -
  have enc: "percent_encode (a @ b) = percent_encode a @ percent_encode b" for a b
    by (simp add: percent_encode_def)
  have "percent_encode (''&scope='' @ x) = ''&scope='' @ percent_encode x"
    unfolding enc by (simp add: percent_encode_def url_query_allowed_def)
  moreover have "percent_encode ''scope'' = ''scope''"
    by (simp add: percent_encode_def url_query_allowed_def)
  moreover have "sorted (map fst [(''client_id'', i), (''client_secret'', s), (''grant_type'', g),
      (''refresh_token'', t), (''scope'', x)])"
    by (simp add: less_eq_char_def)
  moreover have "sorted (map fst [(''client_id'', i), (''client_secret'', s), (''grant_type'', g),
      (''refresh_token'', t @ ''&scope='' @ x)])"
    by (simp add: less_eq_char_def)
  ultimately show ?thesis
    unfolding formEncode_def by (simp only: sort_key_id_if_sorted) (simp add: join_def enc)
qed

end
