(* ===== verification/Sdp_Munging.thy ===== *)
theory Sdp_Munging imports Prelude "HOL-Library.AList" "HOL-Library.List_Lexorder" "HOL-Library.Char_ord" begin

text \<open>
  The repair of a WHEP server's SDP answer, the SDP helpers of
  \<open>Services/Implementations/StreamSessionManager.swift\<close>: reordering its media sections to the order of
  the offer, and adding \<open>a=rtcp-mux\<close> where it is missing.

  A document is a string, cut into lines at CR LF and joined again as the code does it. A dictionary
  of sections is an association list with distinct keys; the code only looks keys up and sorts them.
\<close>

section \<open>Lines\<close>

definition CR :: char where "CR = CHR 0x0D"
definition LF :: char where "LF = CHR 0x0A"
definition CRLF :: string where "CRLF = [CR, LF]"

text \<open>\<open>components(separatedBy: "\r\n")\<close> and \<open>joined(separator: "\r\n")\<close>\<close>

fun split_crlf :: "string \<Rightarrow> string list" where
  "split_crlf [] = [[]]"
| "split_crlf [c] = [[c]]"
| "split_crlf (c # d # s) = (if c = CR \<and> d = LF then [] # split_crlf s
     else (case split_crlf (d # s) of [] \<Rightarrow> [[c]] | l # ls \<Rightarrow> (c # l) # ls))"

definition join_crlf :: "string list \<Rightarrow> string" where
  "join_crlf ls = join CRLF ls"

text \<open>\<open>components(separatedBy: " ").first\<close>\<close>

definition first_word :: "string \<Rightarrow> string" where
  "first_word s = takeWhile (\<lambda>c. c \<noteq> CHR '' '') s"

text \<open>\<open>replacingOccurrences(of: "m=", with: "")\<close>\<close>

fun drop_m_eq :: "string \<Rightarrow> string" where
  "drop_m_eq [] = []"
| "drop_m_eq [c] = [c]"
| "drop_m_eq (c # d # s) = (if c = CHR ''m'' \<and> d = CHR ''='' then drop_m_eq s else c # drop_m_eq (d # s))"

definition is_m_line :: "string \<Rightarrow> bool" where
  "is_m_line l = starts_with ''m='' l"

definition media_type :: "string \<Rightarrow> string" where
  "media_type line = drop_m_eq (first_word line)"

definition types_of_lines :: "string list \<Rightarrow> string list" where
  "types_of_lines ls = map media_type (filter is_m_line ls)"

definition extract_media_types :: "string \<Rightarrow> string list" where
  "extract_media_types sdp = types_of_lines (split_crlf sdp)"

section \<open>Media sections\<close>

type_synonym sections = "(string \<times> string list) list"

record parsed_sdp =
  ps_session_lines :: "string list"
  ps_sections :: sections

definition store_section :: "string option \<Rightarrow> string list \<Rightarrow> sections \<Rightarrow> sections" where
  "store_section mtype current secs = (case mtype of None \<Rightarrow> secs | Some t \<Rightarrow> AList.update t current secs)"

text \<open>The loop of \<open>parseSdpSections\<close>: session lines, sections, current media type and section.\<close>

fun parse_lines :: "string list \<Rightarrow> string list \<Rightarrow> sections \<Rightarrow> string option \<Rightarrow> string list \<Rightarrow> parsed_sdp" where
  "parse_lines [] sess secs mtype current =
     \<lparr>ps_session_lines = sess, ps_sections = store_section mtype current secs\<rparr>"
| "parse_lines (line # ls) sess secs mtype current =
     (if is_m_line line then parse_lines ls sess (store_section mtype current secs) (Some (media_type line)) [line]
      else if mtype = None then parse_lines ls (sess @ [line]) secs mtype current
      else parse_lines ls sess secs mtype (current @ [line]))"

definition parse_sdp_sections :: "string \<Rightarrow> parsed_sdp" where
  "parse_sdp_sections sdp = parse_lines (split_crlf sdp) [] [] None []"

definition rejected_section :: "nat \<Rightarrow> string \<Rightarrow> string list" where
  "rejected_section mid mtype = [''m='' @ mtype @ '' 0 UDP/TLS/RTP/SAVPF 0'', ''c=IN IP4 0.0.0.0'', ''a=inactive'',
     ''a=mid:'' @ nat_str mid]"

definition section_for :: "sections \<Rightarrow> nat \<times> string \<Rightarrow> string list" where
  "section_for secs p = (case map_of secs (snd p) of Some sec \<Rightarrow> sec | None \<Rightarrow> rejected_section (fst p) (snd p))"

definition reassembled :: "string list \<Rightarrow> parsed_sdp \<Rightarrow> string list" where
  "reassembled offer_types p = ps_session_lines p @ concat (map (section_for (ps_sections p)) (enumerate 0 offer_types))"

definition reorder_m_lines_to_match_offer :: "string \<Rightarrow> string \<Rightarrow> string" where
  "reorder_m_lines_to_match_offer offer answer =
     (let offer_types = extract_media_types offer;
          p = parse_sdp_sections answer;
          answer_types = map fst (ps_sections p)
      in if offer_types = sort answer_types \<and> length offer_types = length answer_types \<and>
            extract_media_types answer = offer_types
         then answer
         else join_crlf (reassembled offer_types p))"

section \<open>rtcp-mux\<close>

definition RTCP_MUX :: string where "RTCP_MUX = ''a=rtcp-mux''"

text \<open>\<open>flushSection\<close>: the lines it appends to the result.\<close>

definition flush_section :: "string list \<Rightarrow> bool \<Rightarrow> string list" where
  "flush_section current has_mux = (case current of
     [] \<Rightarrow> []
   | l # ls \<Rightarrow> if is_m_line l \<and> \<not> has_mux then l # RTCP_MUX # ls else l # ls)"

fun mux_lines :: "string list \<Rightarrow> string list \<Rightarrow> string list \<Rightarrow> bool \<Rightarrow> string list" where
  "mux_lines [] result current has_mux = result @ flush_section current has_mux"
| "mux_lines (line # ls) result current has_mux =
     (if is_m_line line then mux_lines ls (result @ flush_section current has_mux) [line] False
      else if current = [] then mux_lines ls (result @ [line]) current has_mux
      else mux_lines ls result (current @ [line]) (has_mux \<or> line = RTCP_MUX))"

definition ensure_rtcp_mux :: "string \<Rightarrow> string" where
  "ensure_rtcp_mux sdp = join_crlf (mux_lines (split_crlf sdp) [] [] False)"

text \<open>The answer that is handed to WebRTC.\<close>

definition munge_answer :: "string \<Rightarrow> string \<Rightarrow> string" where
  "munge_answer offer answer = ensure_rtcp_mux (reorder_m_lines_to_match_offer offer answer)"

section \<open>Cutting and joining\<close>

definition one_line :: "string \<Rightarrow> bool" where
  "one_line l \<longleftrightarrow> split_crlf l = [l]"

lemma split_crlf_not_Nil [simp]: "split_crlf s \<noteq> []"
  by (induction s rule: split_crlf.induct) (auto split: list.splits)

lemma CR_LF [simp]: "CR \<noteq> LF" "LF \<noteq> CR"
  by (simp_all add: CR_def LF_def)

lemma join_crlf_simps [simp]:
  "join_crlf [] = []" "join_crlf [l] = l" "join_crlf (l # m # ls) = l @ CRLF @ join_crlf (m # ls)"
  by (simp_all add: join_crlf_def join_def)

text \<open>Each piece is a line again: it holds no CR LF.\<close>

lemma one_line_Nil [simp]: "one_line []"
  by (simp add: one_line_def)

lemma one_line_Cons:
  "one_line (c # l) \<longleftrightarrow> one_line l \<and> \<not> (c = CR \<and> (case l of [] \<Rightarrow> False | d # _ \<Rightarrow> d = LF))"
  by (cases l) (auto simp: one_line_def split: list.splits)

lemma split_one_line: "l \<in> set (split_crlf s) \<Longrightarrow> one_line l"
proof (induction s arbitrary: l rule: split_crlf.induct)
  case (3 c d s)
  show ?case
  proof (cases "c = CR \<and> d = LF")
    case True
    with 3 show ?thesis by auto
  next
    case False
    obtain m ms where ms: "split_crlf (d # s) = m # ms" by (cases "split_crlf (d # s)") auto
    then have first: "m = [] \<or> (\<exists>m'. m = d # m')"
      by (cases s) (auto split: if_splits list.splits)
    from False ms 3(3) have "l = c # m \<or> l \<in> set ms" by auto
    then show ?thesis
    proof
      assume "l = c # m"
      moreover have "one_line m" using 3(2) [OF False, of m] ms by simp
      ultimately show ?thesis using first False by (auto simp: one_line_Cons)
    next
      assume "l \<in> set ms"
      then show ?thesis using 3(2) [OF False, of l] ms by simp
    qed
  qed
qed (auto simp: one_line_def)

lemma split_line_crlf: "one_line l \<Longrightarrow> split_crlf (l @ CRLF @ s) = l # split_crlf s"
proof (induction l)
  case Nil
  then show ?case by (simp add: CRLF_def)
next
  case (Cons c l)
  then have IH: "split_crlf (l @ CRLF @ s) = l # split_crlf s" by (simp add: one_line_Cons)
  show ?case
  proof (cases l)
    case Nil
    with IH show ?thesis by (simp add: CRLF_def)
  next
    case (Cons d l')
    with \<open>one_line (c # l)\<close> have "\<not> (c = CR \<and> d = LF)" by (simp add: one_line_Cons)
    with IH Cons show ?thesis by simp
  qed
qed

lemma split_join: "ls \<noteq> [] \<Longrightarrow> list_all one_line ls \<Longrightarrow> split_crlf (join_crlf ls) = ls"
proof (induction ls)
  case (Cons l ls)
  then show ?case
  proof (cases ls)
    case Nil
    with Cons.prems show ?thesis by (simp add: one_line_def)
  next
    case (Cons m ms)
    with Cons.IH \<open>list_all one_line (l # ls)\<close> show ?thesis by (simp add: split_line_crlf del: split_crlf.simps)
  qed
qed simp

lemma join_split: "join_crlf (split_crlf s) = s"
proof (induction s rule: split_crlf.induct)
  case (3 c d s)
  show ?case
  proof (cases "c = CR \<and> d = LF")
    case True
    then have "join_crlf (split_crlf (c # d # s)) = CRLF @ join_crlf (split_crlf s)"
      by (cases "split_crlf s") auto
    with 3(1) [OF True] True show ?thesis by (simp add: CRLF_def)
  next
    case False
    obtain m ms where ms: "split_crlf (d # s) = m # ms" by (cases "split_crlf (d # s)") auto
    with 3(2) [OF False] False show ?thesis by (cases ms) auto
  qed
qed simp_all

section \<open>Reordering\<close>

definition section_ok :: "string \<Rightarrow> string list \<Rightarrow> bool" where
  "section_ok t sec \<longleftrightarrow> types_of_lines sec = [t] \<and> list_all one_line sec"

lemma types_of_lines_append [simp]: "types_of_lines (xs @ ys) = types_of_lines xs @ types_of_lines ys"
  by (simp add: types_of_lines_def)

lemma set_AList_update: "set (AList.update k v al) \<subseteq> insert (k, v) (set al)"
  by (induction al) auto

definition sections_ok :: "sections \<Rightarrow> bool" where
  "sections_ok secs \<longleftrightarrow> (\<forall>(t, sec) \<in> set secs. section_ok t sec)"

lemma store_section_ok:
  "sections_ok secs \<Longrightarrow> (\<And>t. mtype = Some t \<Longrightarrow> section_ok t current) \<Longrightarrow>
     sections_ok (store_section mtype current secs)"
  using set_AList_update by (fastforce simp: store_section_def sections_ok_def split: option.splits)

lemma parse_lines_ok:
  assumes "list_all one_line ls" and "list_all one_line sess" and "types_of_lines sess = []"
    and "sections_ok secs" and "\<And>t. mtype = Some t \<Longrightarrow> section_ok t current"
  shows "list_all one_line (ps_session_lines (parse_lines ls sess secs mtype current)) \<and>
    types_of_lines (ps_session_lines (parse_lines ls sess secs mtype current)) = [] \<and>
    sections_ok (ps_sections (parse_lines ls sess secs mtype current))"
  using assms
proof (induction ls sess secs mtype current rule: parse_lines.induct)
  case (1 sess secs mtype current)
  then show ?case using store_section_ok [of secs mtype current] by simp
next
  case (2 line ls sess secs mtype current)
  show ?case
  proof (cases "is_m_line line")
    case True
    have "section_ok (media_type line) [line]"
      using True "2.prems"(1) by (simp add: section_ok_def types_of_lines_def)
    with 2 True store_section_ok [of secs mtype current] show ?thesis by auto
  next
    case line: False
    show ?thesis
    proof (cases "mtype = None")
      case True
      with 2 line show ?thesis by (simp add: types_of_lines_def)
    next
      case False
      then obtain t where t: "mtype = Some t" by auto
      with 2 line have "section_ok t (current @ [line])" by (simp add: section_ok_def types_of_lines_def)
      with 2 line t show ?thesis by simp
    qed
  qed
qed

text \<open>Media types as SDP has them: tokens without white space and without \<open>=\<close>.\<close>

definition plain_type :: "string \<Rightarrow> bool" where
  "plain_type t \<longleftrightarrow> list_all (\<lambda>c. c \<noteq> CHR '' '' \<and> c \<noteq> CHR ''='' \<and> c \<noteq> CR \<and> c \<noteq> LF) t"

lemma drop_m_eq_plain: "list_all (\<lambda>c. c \<noteq> CHR ''='') t \<Longrightarrow> drop_m_eq t = t"
  by (induction t rule: drop_m_eq.induct) auto

lemma one_line_plain: "list_all (\<lambda>c. c \<noteq> LF) t \<Longrightarrow> one_line t"
proof (induction t)
  case (Cons c t)
  then show ?case by (cases t) (auto simp: one_line_Cons)
qed simp

lemma one_line_append: "one_line s \<Longrightarrow> list_all (\<lambda>c. c \<noteq> LF) t \<Longrightarrow> one_line (s @ t)"
proof (induction s)
  case Nil
  then show ?case by (simp add: one_line_plain)
next
  case (Cons c s)
  then show ?case by (cases s; cases t) (auto simp: one_line_Cons)
qed

lemma is_digit_not_LF: "is_digit c \<Longrightarrow> c \<noteq> LF"
  by (auto simp: is_digit_def LF_def)

lemma rejected_section_ok:
  assumes "plain_type t"
  shows "section_ok t (rejected_section mid t)"
proof -
  have eq: "list_all (\<lambda>c. c \<noteq> CHR ''='') t" and sp: "\<forall>c \<in> set t. c \<noteq> CHR '' ''" and lf: "list_all (\<lambda>c. c \<noteq> LF) t"
    using assms by (auto simp: plain_type_def list_all_iff)
  have "media_type (''m='' @ t @ '' 0 UDP/TLS/RTP/SAVPF 0'') = t"
    using drop_m_eq_plain [OF eq] sp
    by (simp add: media_type_def first_word_def takeWhile_append2)
  moreover have "is_m_line (''m='' @ t @ '' 0 UDP/TLS/RTP/SAVPF 0'')" by (simp add: is_m_line_def starts_with_def)
  ultimately have types: "types_of_lines (rejected_section mid t) = [t]"
    by (simp add: types_of_lines_def rejected_section_def is_m_line_def starts_with_def)
  have "list_all (\<lambda>c. c \<noteq> LF) (nat_str mid)"
    using nat_str_digits [of mid] is_digit_not_LF by (auto simp: list_all_iff)
  then have "list_all one_line (rejected_section mid t)"
    using lf by (auto simp: rejected_section_def LF_def intro!: one_line_plain)
  with types show ?thesis by (simp add: section_ok_def)
qed

lemma section_for_ok: "sections_ok secs \<Longrightarrow> plain_type t \<Longrightarrow> section_ok t (section_for secs (mid, t))"
  by (auto simp: section_for_def sections_ok_def rejected_section_ok split: option.splits dest: map_of_SomeD)

lemma sections_for_types:
  assumes "sections_ok secs" and "list_all plain_type ts"
  shows "types_of_lines (concat (map (section_for secs) (enumerate n ts))) = ts \<and>
    list_all one_line (concat (map (section_for secs) (enumerate n ts)))"
  using assms
proof (induction ts arbitrary: n)
  case Nil
  then show ?case by (simp add: types_of_lines_def)
next
  case (Cons t ts)
  then show ?case using section_for_ok [of secs t n] by (simp add: section_ok_def)
qed

lemma split_lines_ok: "list_all one_line (split_crlf s)"
  by (auto simp: list_all_iff intro: split_one_line)

lemma parse_sdp_ok:
  "list_all one_line (ps_session_lines (parse_sdp_sections s)) \<and>
   types_of_lines (ps_session_lines (parse_sdp_sections s)) = [] \<and> sections_ok (ps_sections (parse_sdp_sections s))"
  unfolding parse_sdp_sections_def
  by (rule parse_lines_ok) (simp_all add: split_lines_ok types_of_lines_def sections_ok_def)

lemma extract_join:
  "list_all one_line ls \<Longrightarrow> extract_media_types (join_crlf ls) = types_of_lines ls"
  by (cases "ls = []") (simp_all add: extract_media_types_def split_join types_of_lines_def is_m_line_def starts_with_def)

lemma reorder_types:
  assumes "list_all plain_type (extract_media_types offer)"
  shows "extract_media_types (reorder_m_lines_to_match_offer offer answer) = extract_media_types offer"
proof -
  let ?p = "parse_sdp_sections answer"
  have secs: "types_of_lines (concat (map (section_for (ps_sections ?p)) (enumerate 0 (extract_media_types offer)))) =
      extract_media_types offer"
    "list_all one_line (concat (map (section_for (ps_sections ?p)) (enumerate 0 (extract_media_types offer))))"
    using sections_for_types [OF _ assms, of "ps_sections ?p" 0] parse_sdp_ok [of answer] by auto
  then have "list_all one_line (reassembled (extract_media_types offer) ?p)"
    "types_of_lines (reassembled (extract_media_types offer) ?p) = extract_media_types offer"
    using parse_sdp_ok [of answer] by (auto simp: reassembled_def)
  then show ?thesis by (simp add: reorder_m_lines_to_match_offer_def Let_def extract_join)
qed

section \<open>rtcp-mux: the loop and its specification\<close>

text \<open>The lines of the media section that a line belongs to, from that line on.\<close>

definition rest_of_section :: "string list \<Rightarrow> string list" where
  "rest_of_section ls = takeWhile (\<lambda>l. \<not> is_m_line l) ls"

fun add_mux :: "string list \<Rightarrow> string list" where
  "add_mux [] = []"
| "add_mux (l # ls) = (if is_m_line l \<and> RTCP_MUX \<notin> set (rest_of_section ls) then l # RTCP_MUX # add_mux ls
     else l # add_mux ls)"

fun all_muxed :: "string list \<Rightarrow> bool" where
  "all_muxed [] = True"
| "all_muxed (l # ls) = ((is_m_line l \<longrightarrow> RTCP_MUX \<in> set (rest_of_section ls)) \<and> all_muxed ls)"

lemma RTCP_MUX_no_m_line [simp]: "\<not> is_m_line RTCP_MUX"
  by (simp add: RTCP_MUX_def is_m_line_def starts_with_def)

lemma add_mux_no_m_lines: "types_of_lines rest = [] \<Longrightarrow> add_mux (rest @ ls) = rest @ add_mux ls"
  by (induction rest) (auto simp: types_of_lines_def split: if_splits)

lemma rest_of_section_append:
  "types_of_lines rest = [] \<Longrightarrow> rest_of_section (rest @ ls) = rest @ rest_of_section ls"
  by (induction rest) (auto simp: types_of_lines_def rest_of_section_def split: if_splits)

lemma mux_lines_section:
  assumes "is_m_line l" and "types_of_lines rest = []"
  shows "mux_lines ls result (l # rest) (RTCP_MUX \<in> set rest) = result @ add_mux (l # rest @ ls)"
  using assms
proof (induction ls arbitrary: result l rest)
  case Nil
  have "add_mux rest = rest" using add_mux_no_m_lines [OF Nil(2), of "[]"] by simp
  moreover have "rest_of_section rest = rest"
    using rest_of_section_append [OF Nil(2), of "[]"] unfolding rest_of_section_def by simp
  ultimately show ?case using Nil by (simp add: flush_section_def)
next
  case (Cons x ls)
  note drop = add_mux_no_m_lines [OF Cons.prems(2)] rest_of_section_append [OF Cons.prems(2)]
  show ?case
  proof (cases "is_m_line x")
    case True
    have "mux_lines ls r [x] False = r @ add_mux (x # ls)" for r
      using Cons.IH [of x "[]" r] True by (simp add: types_of_lines_def)
    moreover have "rest_of_section (x # ls) = []" using True by (simp add: rest_of_section_def)
    ultimately show ?thesis using True Cons.prems drop by (simp add: flush_section_def)
  next
    case False
    then have "types_of_lines (rest @ [x]) = []" using Cons.prems(2) by (simp add: types_of_lines_def)
    from Cons.IH [OF Cons.prems(1) this, of result] False show ?thesis
      by (auto simp: disj_commute eq_commute)
  qed
qed

lemma mux_lines_session: "mux_lines ls result [] False = result @ add_mux ls"
proof (induction ls arbitrary: result)
  case Nil
  then show ?case by (simp add: flush_section_def)
next
  case (Cons x ls)
  show ?case
  proof (cases "is_m_line x")
    case True
    with mux_lines_section [OF True, of "[]" ls result] show ?thesis
      by (simp add: flush_section_def types_of_lines_def)
  next
    case False
    with Cons.IH show ?thesis by simp
  qed
qed

lemma rest_of_section_add_mux: "rest_of_section (add_mux ls) = rest_of_section ls"
  by (induction ls) (auto simp: rest_of_section_def)

lemma all_muxed_add_mux: "all_muxed (add_mux ls)"
proof (induction ls)
  case (Cons l ls)
  then show ?case
    by (auto simp: rest_of_section_add_mux) (simp add: rest_of_section_def)
qed simp

lemma add_mux_idem: "all_muxed ls \<Longrightarrow> add_mux ls = ls"
  by (induction ls) auto

lemma add_mux_others: "filter (\<lambda>l. l \<noteq> RTCP_MUX) (add_mux ls) = filter (\<lambda>l. l \<noteq> RTCP_MUX) ls"
  by (induction ls) auto

lemma add_mux_types: "types_of_lines (add_mux ls) = types_of_lines ls"
  by (induction ls) (auto simp: types_of_lines_def)

lemma add_mux_one_line: "list_all one_line ls \<Longrightarrow> list_all one_line (add_mux ls)"
  by (induction ls) (auto simp: RTCP_MUX_def LF_def intro: one_line_plain)

lemma add_mux_not_Nil: "ls \<noteq> [] \<Longrightarrow> add_mux ls \<noteq> []"
  by (cases ls) auto

lemma split_ensure: "split_crlf (ensure_rtcp_mux sdp) = add_mux (split_crlf sdp)"
  unfolding ensure_rtcp_mux_def mux_lines_session
  by (simp add: split_join add_mux_not_Nil add_mux_one_line split_lines_ok)

section \<open>Properties\<close>

text \<open>\<open>ensureRtcpMux\<close> gives every media section its \<open>a=rtcp-mux\<close> line, keeps all other lines and
  their order, and changes nothing when it is applied again.\<close>

theorem ensure_rtcp_mux_contract:
  "all_muxed (split_crlf (ensure_rtcp_mux sdp)) \<and>
   filter (\<lambda>l. l \<noteq> RTCP_MUX) (split_crlf (ensure_rtcp_mux sdp)) = filter (\<lambda>l. l \<noteq> RTCP_MUX) (split_crlf sdp) \<and>
   ensure_rtcp_mux (ensure_rtcp_mux sdp) = ensure_rtcp_mux sdp"
proof -
  have "ensure_rtcp_mux (ensure_rtcp_mux sdp) = join_crlf (add_mux (add_mux (split_crlf sdp)))"
    by (simp add: ensure_rtcp_mux_def [of "ensure_rtcp_mux sdp"] mux_lines_session split_ensure)
  also have "\<dots> = ensure_rtcp_mux sdp"
    by (simp add: ensure_rtcp_mux_def mux_lines_session add_mux_idem all_muxed_add_mux)
  finally show ?thesis by (simp add: split_ensure all_muxed_add_mux add_mux_others)
qed

text \<open>C39: The answer that is handed to WebRTC has exactly the media sections of the offer, in the offer's
  order, each with \<open>a=rtcp-mux\<close>, whatever sections the server sent and in whatever order.\<close>

theorem munged_answer_matches_offer:
  assumes "list_all plain_type (extract_media_types offer)"
  shows "extract_media_types (munge_answer offer answer) = extract_media_types offer \<and>
    all_muxed (split_crlf (munge_answer offer answer))"
  using reorder_types [OF assms, of answer]
  by (simp add: munge_answer_def extract_media_types_def split_ensure add_mux_types all_muxed_add_mux)

definition sdp_of :: "string list \<Rightarrow> string" where
  "sdp_of ls = join_crlf (ls @ [[]])"

definition example_offer :: string where
  "example_offer = sdp_of [''v=0'', ''m=video 9 UDP/TLS/RTP/SAVPF 96'', ''a=mid:0'', ''m=audio 9 UDP/TLS/RTP/SAVPF 111'', ''a=mid:1'']"

definition example_sdp_answer :: string where
  "example_sdp_answer = sdp_of [''v=0'', ''m=video 9 UDP/TLS/RTP/SAVPF 96'', ''a=mid:0'']"

lemma split_sdp: "list_all one_line ls \<Longrightarrow> split_crlf (sdp_of ls) = ls @ [[]]"
  by (simp add: sdp_of_def split_join)

lemma example_split:
  "split_crlf example_offer = [''v=0'', ''m=video 9 UDP/TLS/RTP/SAVPF 96'', ''a=mid:0'', ''m=audio 9 UDP/TLS/RTP/SAVPF 111'', ''a=mid:1'', '''']"
  "split_crlf example_sdp_answer = [''v=0'', ''m=video 9 UDP/TLS/RTP/SAVPF 96'', ''a=mid:0'', '''']"
  by (simp_all add: example_offer_def example_sdp_answer_def split_sdp one_line_plain LF_def)

lemma digit_1: "digit (Suc 0) = CHR ''1''"
  by code_simp

lemma example_types:
  "extract_media_types example_offer = [''video'', ''audio'']" "extract_media_types example_sdp_answer = [''video'']"
  by (simp_all add: extract_media_types_def example_split types_of_lines_def is_m_line_def starts_with_def
      media_type_def first_word_def)

theorem munged_answer_matches_offer_witness:
  "extract_media_types (munge_answer example_offer example_sdp_answer) = [''video'', ''audio'']"
  using munged_answer_matches_offer [of example_offer example_sdp_answer]
  by (simp add: example_types plain_type_def CR_def LF_def)

text \<open>A rejected section is appended after the empty last line of a CR LF terminated answer: for an
  offer of video and audio and an answer with video only, which is the case the function is written
  for, the result has an empty line before its last section.\<close>

theorem reorder_leaves_blank_line:
  "split_crlf (reorder_m_lines_to_match_offer example_offer example_sdp_answer) =
     [''v=0'', ''m=video 9 UDP/TLS/RTP/SAVPF 96'', ''a=mid:0'', '''', ''m=audio 0 UDP/TLS/RTP/SAVPF 0'',
      ''c=IN IP4 0.0.0.0'', ''a=inactive'', ''a=mid:1'']"
  (is "_ = ?ls")
proof -
  have "reassembled [''video'', ''audio''] (parse_sdp_sections example_sdp_answer) = ?ls"
    by (simp add: reassembled_def parse_sdp_sections_def example_split is_m_line_def starts_with_def media_type_def
        first_word_def store_section_def section_for_def rejected_section_def nat_str.simps digit_1)
  then have "reorder_m_lines_to_match_offer example_offer example_sdp_answer = join_crlf ?ls"
    by (simp add: reorder_m_lines_to_match_offer_def Let_def example_types del: join_crlf_simps)
  moreover have "split_crlf (join_crlf ?ls) = ?ls"
    by (rule split_join, simp_all add: one_line_plain LF_def)
  ultimately show ?thesis by (simp only:)
qed

end
