(* ===== verification/Stream_Manager.thy ===== *)
theory Stream_Manager imports Partner_Client Sdp_Munging begin

text \<open>
  The live-stream manager of the app, \<open>Services/Implementations/StreamSessionManager.swift\<close> with
  \<open>Models/WebRTCConnectionState.swift\<close>. Its methods suspend at every \<open>await\<close>, and calls, timers and
  WebRTC callbacks interleave there, so the manager is a step function: an event is a call, the answer a
  suspended task waits for, a timer that wakes or a callback, and one step runs the code up to the next
  \<open>await\<close>. Code between two awaits is one step; the data races of the class are not modelled. What a
  suspended method still has to do is its \<open>task\<close>. Answers of the auth service, of the partner client and of
  WebRTC are carried by the events, so the steps cover every behaviour of theirs.
\<close>

section \<open>State\<close>

datatype connection_state = disconnected | connecting | connected | failed string

fun canTransition :: "connection_state \<Rightarrow> connection_state \<Rightarrow> bool" where
  "canTransition disconnected connecting = True"
| "canTransition connecting connected = True"
| "canTransition connecting (failed _) = True"
| "canTransition connected disconnected = True"
| "canTransition (failed _) disconnected = True"
| "canTransition _ _ = False"

text \<open>
  Peer connections (with their factory) and tracks are numbers, the session timer is the number of its task.
\<close>

record stream_manager =
  connectionState :: connection_state
  peerConnection :: "nat option"
  peerConnectionFactory :: "nat option"
  videoTrack :: "nat option"
  audioTrack :: "nat option"
  sessionURL :: "string option"
  sessionTimer :: "nat option"
  currentPowerSource :: "power_supply option"

text \<open>
  Where a suspended method waits, with the local values it still needs. The number of a delete is the \<open>retryCount\<close> of
  its \<open>executeWithRetry\<close>.
\<close>

datatype after_cleanup = Rethrow client_error | Finish

datatype task =
    Start_Token string power_supply
  | Start_Offer string power_supply nat string
  | Start_Whep power_supply nat string
  | Start_Remote power_supply nat string
  | Cleanup_Begin after_cleanup
  | Cleanup_Token string after_cleanup
  | Cleanup_Delete string nat after_cleanup
  | Stop_Token string
  | Stop_Delete string nat
  | Session_Sleep real
  | Timeout_Sleep real

text \<open>
  The manager with what runs around it: the suspended and the cancelled tasks, the clock, the peer
  connections closed, the WHEP sessions created and the DELETE requests sent, the results of the
  \<open>startStream\<close> calls that have returned.
\<close>

record sm_world = stream_manager +
  tasks :: "nat \<Rightarrow> task option"
  next_id :: nat
  cancelled :: "nat list"
  clock :: real
  closed :: "nat list"
  created :: "string list"
  deletes :: "string list"
  returned :: "(client_error + unit) list"

definition new_manager :: sm_world where
  "new_manager = \<lparr>connectionState = disconnected, peerConnection = None, peerConnectionFactory = None,
     videoTrack = None, audioTrack = None, sessionURL = None, sessionTimer = None, currentPowerSource = None,
     tasks = (\<lambda>_. None), next_id = 0, cancelled = [], clock = 0, closed = [], created = [], deletes = [],
     returned = []\<rparr>"

definition connectionTimeoutSeconds :: real where
  "connectionTimeoutSeconds = 30"

text \<open>
  \<open>se_localized\<close> is \<open>localizedDescription\<close>; \<open>se_cancels\<close> says that \<open>URLSession\<close> does not send a request of
  a cancelled task but fails it.
\<close>

record sm_env =
  se_localized :: "client_error \<Rightarrow> string"
  se_cancels :: bool

section \<open>Helpers\<close>

definition transitionState :: "connection_state \<Rightarrow> sm_world \<Rightarrow> sm_world" where
  "transitionState newState w =
     (if canTransition (connectionState w) newState then w\<lparr>connectionState := newState\<rparr> else w)"

definition releaseResources :: "sm_world \<Rightarrow> sm_world" where
  "releaseResources w = w\<lparr>videoTrack := None, audioTrack := None,
     closed := closed w @ (case peerConnection w of None \<Rightarrow> [] | Some p \<Rightarrow> [p]),
     peerConnection := None, peerConnectionFactory := None, sessionURL := None, currentPowerSource := None\<rparr>"

definition spawn :: "task \<Rightarrow> sm_world \<Rightarrow> sm_world" where
  "spawn t w = w\<lparr>tasks := (tasks w)(next_id w \<mapsto> t), next_id := next_id w + 1\<rparr>"

definition await :: "nat \<Rightarrow> task \<Rightarrow> sm_world \<Rightarrow> sm_world" where
  "await tid t w = w\<lparr>tasks := (tasks w)(tid \<mapsto> t)\<rparr>"

definition done_task :: "nat \<Rightarrow> sm_world \<Rightarrow> sm_world" where
  "done_task tid w = w\<lparr>tasks := (tasks w)(tid := None)\<rparr>"

definition return_start :: "nat \<Rightarrow> client_error + unit \<Rightarrow> sm_world \<Rightarrow> sm_world" where
  "return_start tid r w = (done_task tid w)\<lparr>returned := returned w @ [r]\<rparr>"

definition cancel_timer :: "sm_world \<Rightarrow> sm_world" where
  "cancel_timer w = (case sessionTimer w of None \<Rightarrow> w | Some t \<Rightarrow> w\<lparr>cancelled := t # cancelled w\<rparr>)"

text \<open>One DELETE request for a session by task \<open>tid\<close>; the client may send more of them.\<close>

definition send_delete :: "sm_env \<Rightarrow> nat \<Rightarrow> string \<Rightarrow> sm_world \<Rightarrow> sm_world" where
  "send_delete E tid u w =
     (if se_cancels E \<and> tid \<in> set (cancelled w) then w else w\<lparr>deletes := deletes w @ [u]\<rparr>)"

section \<open>Cleanup, stop and timers\<close>

definition cleanup_finish :: "nat \<Rightarrow> after_cleanup \<Rightarrow> sm_world \<Rightarrow> sm_world" where
  "cleanup_finish tid k w = (let w1 = releaseResources w in
     case k of Rethrow e \<Rightarrow> return_start tid (Inl e) w1 | Finish \<Rightarrow> done_task tid w1)"

definition cleanupResources :: "nat \<Rightarrow> after_cleanup \<Rightarrow> sm_world \<Rightarrow> sm_world" where
  "cleanupResources tid k w = (case sessionURL w of
     Some u \<Rightarrow> await tid (Cleanup_Token u k) w
   | None \<Rightarrow> cleanup_finish tid k w)"

definition stop_finish :: "nat \<Rightarrow> sm_world \<Rightarrow> sm_world" where
  "stop_finish tid w = (let w1 = releaseResources w in
     done_task tid (if connectionState w1 \<noteq> disconnected then transitionState disconnected w1 else w1))"

definition stopStream :: "nat \<Rightarrow> sm_world \<Rightarrow> sm_world" where
  "stopStream tid w = (let w1 = (cancel_timer w)\<lparr>sessionTimer := None\<rparr> in
     case sessionURL w1 of
       Some u \<Rightarrow> await tid (Stop_Token u) w1
     | None \<Rightarrow> stop_finish tid w1)"

definition startSessionTimer :: "real \<Rightarrow> sm_world \<Rightarrow> sm_world" where
  "startSessionTimer duration w = (let w1 = cancel_timer w in
     (spawn (Session_Sleep (clock w1 + duration)) w1)\<lparr>sessionTimer := Some (next_id w1)\<rparr>)"

definition startConnectionTimeout :: "sm_world \<Rightarrow> sm_world" where
  "startConnectionTimeout w = spawn (Timeout_Sleep (clock w + connectionTimeoutSeconds)) w"

section \<open>Starting a stream\<close>

text \<open>The \<open>catch\<close> of \<open>startStream\<close>.\<close>

definition fail_start :: "sm_env \<Rightarrow> nat \<Rightarrow> client_error \<Rightarrow> sm_world \<Rightarrow> sm_world" where
  "fail_start E tid e w = cleanupResources tid (Rethrow e) (transitionState (failed (se_localized E e)) w)"

definition startStream :: "string \<Rightarrow> power_supply \<Rightarrow> sm_world \<Rightarrow> sm_world" where
  "startStream deviceId powerSource w =
     (if connectionState w \<noteq> disconnected then w\<lparr>returned := returned w @ [Inr ()]\<rparr>
      else spawn (Start_Token deviceId powerSource)
        ((transitionState connecting w)\<lparr>currentPowerSource := Some powerSource\<rparr>))"

text \<open>
  After the token: the factory is made and kept, then the peer connection, which WebRTC may refuse
  (\<open>made = False\<close>).
\<close>

definition start_after_token :: "sm_env \<Rightarrow> nat \<Rightarrow> string \<Rightarrow> power_supply \<Rightarrow> auth_token \<Rightarrow> bool \<Rightarrow> sm_world \<Rightarrow> sm_world" where
  "start_after_token E tid deviceId powerSource token made w =
     (let pc = next_id w; w1 = w\<lparr>next_id := pc + 1, peerConnectionFactory := Some pc\<rparr> in
      if made then await tid (Start_Offer deviceId powerSource pc (at_access_token token))
        (w1\<lparr>peerConnection := Some pc\<rparr>)
      else fail_start E tid (Partner (networkError ''Failed to create WebRTC peer connection'')) w1)"

datatype offer_answer = Offer_Error string | No_Offer | Local_Error string | Offered string

fun createOffer :: "offer_answer \<Rightarrow> client_error + string" where
  "createOffer (Offer_Error m) = Inl (Partner (networkError (''SDP offer creation failed: '' @ m)))"
| "createOffer No_Offer = Inl (Partner (networkError ''No SDP generated''))"
| "createOffer (Local_Error m) = Inl (Partner (networkError (''Failed to set local description: '' @ m)))"
| "createOffer (Offered sdp) = Inr sdp"

definition setRemoteDescription :: "string option \<Rightarrow> client_error + unit" where
  "setRemoteDescription err = (case err of
     Some m \<Rightarrow> Inl (Partner (networkError (''Failed to apply remote SDP: '' @ m))) | None \<Rightarrow> Inr ())"

definition start_after_offer :: "sm_env \<Rightarrow> nat \<Rightarrow> power_supply \<Rightarrow> nat \<Rightarrow> offer_answer \<Rightarrow> sm_world \<Rightarrow> sm_world" where
  "start_after_offer E tid powerSource pc answer w = (case createOffer answer of
     Inl e \<Rightarrow> fail_start E tid e w
   | Inr offerSDP \<Rightarrow> await tid (Start_Whep powerSource pc offerSDP) w)"

definition start_after_whep ::
  "sm_env \<Rightarrow> nat \<Rightarrow> power_supply \<Rightarrow> nat \<Rightarrow> string \<Rightarrow> client_error + whep_session_response \<Rightarrow> sm_world \<Rightarrow> sm_world" where
  "start_after_whep E tid powerSource pc offerSDP r w = (case r of
     Inl e \<Rightarrow> fail_start E tid e w
   | Inr resp \<Rightarrow> await tid (Start_Remote powerSource pc (munge_answer offerSDP (wr_sdp_answer resp)))
       (w\<lparr>sessionURL := Some (wr_session_url resp), created := created w @ [wr_session_url resp]\<rparr>))"

definition start_after_remote :: "sm_env \<Rightarrow> nat \<Rightarrow> power_supply \<Rightarrow> string option \<Rightarrow> sm_world \<Rightarrow> sm_world" where
  "start_after_remote E tid powerSource answer w = (case setRemoteDescription answer of
     Inl e \<Rightarrow> fail_start E tid e w
   | Inr _ \<Rightarrow> return_start tid (Inr ())
       (startConnectionTimeout (startSessionTimer (sessionDurationLimit powerSource) w)))"

section \<open>Callbacks of WebRTC\<close>

datatype ice_state = ICE_new | ICE_checking | ICE_connected | ICE_completed | ICE_failed | ICE_disconnected | ICE_closed

text \<open>A failed connection starts a task of its own for the cleanup.\<close>

fun didChangeIce :: "ice_state \<Rightarrow> sm_world \<Rightarrow> sm_world" where
  "didChangeIce ICE_connected w = transitionState connected w"
| "didChangeIce ICE_completed w = transitionState connected w"
| "didChangeIce ICE_failed w = spawn (Cleanup_Begin Finish) (transitionState (failed ''ICE connection failed'') w)"
| "didChangeIce ICE_disconnected w =
     (if connectionState w = connected then transitionState disconnected w else w)"
| "didChangeIce ICE_closed w =
     (if connectionState w = connected then transitionState disconnected w else w)"
| "didChangeIce ICE_new w = w"
| "didChangeIce ICE_checking w = w"

text \<open>The assignments the callbacks post to the main queue: first tracks of a stream, a receiver's track.\<close>

definition didAddStream :: "nat option \<Rightarrow> nat option \<Rightarrow> sm_world \<Rightarrow> sm_world" where
  "didAddStream video audio w =
     w\<lparr>videoTrack := (if videoTrack w = None \<and> video \<noteq> None then video else videoTrack w),
       audioTrack := (if audioTrack w = None \<and> audio \<noteq> None then audio else audioTrack w)\<rparr>"

datatype receiver_track = Video nat | Audio nat | No_Track

fun didAddReceiver :: "receiver_track \<Rightarrow> sm_world \<Rightarrow> sm_world" where
  "didAddReceiver (Video t) w = w\<lparr>videoTrack := Some t\<rparr>"
| "didAddReceiver (Audio t) w = w\<lparr>audioTrack := Some t\<rparr>"
| "didAddReceiver No_Track w = w"

section \<open>Steps\<close>

datatype event =
    Call_Start string power_supply
  | Call_Stop
  | Token_Result nat "client_error + auth_token" bool
  | Offer_Result nat offer_answer
  | Whep_Result nat "client_error + whep_session_response"
  | Remote_Result nat "string option"
  | Delete_Again nat
  | Delete_Result nat "client_error + unit"
  | Run_Cleanup nat
  | Wake nat
  | Ice ice_state
  | Add_Stream "nat option" "nat option"
  | Add_Receiver receiver_track
  | Elapse real

text \<open>
  A timer that wakes: a cancelled sleep throws and the task ends, else it wakes no earlier than its
  deadline.
\<close>

definition wake :: "nat \<Rightarrow> sm_world \<Rightarrow> sm_world option" where
  "wake tid w = (case tasks w tid of
     Some (Session_Sleep deadline) \<Rightarrow>
       if tid \<in> set (cancelled w) then Some (done_task tid w)
       else if deadline \<le> clock w then Some (stopStream tid w) else None
   | Some (Timeout_Sleep deadline) \<Rightarrow>
       if deadline \<le> clock w then Some
         (if connectionState w = connecting
          then cleanupResources tid Finish (transitionState (failed ''Connection timed out'') w)
          else done_task tid w)
       else None
   | _ \<Rightarrow> None)"

definition token_result ::
  "sm_env \<Rightarrow> nat \<Rightarrow> client_error + auth_token \<Rightarrow> bool \<Rightarrow> sm_world \<Rightarrow> sm_world option" where
  "token_result E tid r made w = (case tasks w tid of
     Some (Start_Token d p) \<Rightarrow> Some (case r of Inl e \<Rightarrow> fail_start E tid e w
       | Inr t \<Rightarrow> start_after_token E tid d p t made w)
   | Some (Cleanup_Token u k) \<Rightarrow> Some (case r of Inl _ \<Rightarrow> cleanup_finish tid k w
       | Inr _ \<Rightarrow> await tid (Cleanup_Delete u 0 k) (send_delete E tid u w))
   | Some (Stop_Token u) \<Rightarrow> Some (case r of Inl _ \<Rightarrow> stop_finish tid w
       | Inr _ \<Rightarrow> await tid (Stop_Delete u 0) (send_delete E tid u w))
   | _ \<Rightarrow> None)"

text \<open>
  The client of the manager answers a status 429 to a DELETE by sleeping and sending it again, at most \<open>maxRetries\<close>
  times; the client the app builds has no token refresher, so that nothing else makes it send twice. The sleep of a
  cancelled task throws instead.
\<close>

definition delete_again :: "sm_env \<Rightarrow> nat \<Rightarrow> sm_world \<Rightarrow> sm_world option" where
  "delete_again E tid w =
     (let again = (\<lambda>u n t. if n < maxRetries \<and> tid \<notin> set (cancelled w) then Some (await tid t (send_delete E tid u w)) else None) in
      case tasks w tid of
        Some (Cleanup_Delete u n k) \<Rightarrow> again u n (Cleanup_Delete u (Suc n) k)
      | Some (Stop_Delete u n) \<Rightarrow> again u n (Stop_Delete u (Suc n))
      | _ \<Rightarrow> None)"

definition sm_step :: "sm_env \<Rightarrow> event \<Rightarrow> sm_world \<Rightarrow> sm_world option" where
  "sm_step E ev w = (case ev of
     Call_Start d p \<Rightarrow> Some (startStream d p w)
   | Call_Stop \<Rightarrow> Some (stopStream (next_id w) (w\<lparr>next_id := next_id w + 1\<rparr>))
   | Token_Result tid r made \<Rightarrow> token_result E tid r made w
   | Offer_Result tid a \<Rightarrow> (case tasks w tid of
       Some (Start_Offer d p pc t) \<Rightarrow> Some (start_after_offer E tid p pc a w) | _ \<Rightarrow> None)
   | Whep_Result tid r \<Rightarrow> (case tasks w tid of
       Some (Start_Whep p pc sdp) \<Rightarrow> Some (start_after_whep E tid p pc sdp r w) | _ \<Rightarrow> None)
   | Remote_Result tid a \<Rightarrow> (case tasks w tid of
       Some (Start_Remote p pc sdp) \<Rightarrow> Some (start_after_remote E tid p a w) | _ \<Rightarrow> None)
   | Delete_Again tid \<Rightarrow> delete_again E tid w
   | Delete_Result tid r \<Rightarrow> (case tasks w tid of
       Some (Cleanup_Delete u n k) \<Rightarrow> Some (cleanup_finish tid k w)
     | Some (Stop_Delete u n) \<Rightarrow> Some (stop_finish tid w)
     | _ \<Rightarrow> None)
   | Run_Cleanup tid \<Rightarrow> (case tasks w tid of
       Some (Cleanup_Begin k) \<Rightarrow> Some (cleanupResources tid k w) | _ \<Rightarrow> None)
   | Wake tid \<Rightarrow> wake tid w
   | Ice s \<Rightarrow> Some (didChangeIce s w)
   | Add_Stream v a \<Rightarrow> Some (didAddStream v a w)
   | Add_Receiver t \<Rightarrow> Some (didAddReceiver t w)
   | Elapse dt \<Rightarrow> (if 0 \<le> dt then Some (w\<lparr>clock := clock w + dt\<rparr>) else None))"

text \<open>A history is a list of events; \<open>reachable\<close> are the worlds histories lead to.\<close>

fun run :: "sm_env \<Rightarrow> event list \<Rightarrow> sm_world \<Rightarrow> sm_world option" where
  "run E [] w = Some w"
| "run E (e # es) w = (case sm_step E e w of None \<Rightarrow> None | Some w' \<Rightarrow> run E es w')"

inductive reachable :: "sm_env \<Rightarrow> sm_world \<Rightarrow> bool" for E where
  new: "reachable E new_manager"
| step: "reachable E w \<Longrightarrow> sm_step E ev w = Some w' \<Longrightarrow> reachable E w'"

inductive_cases reachableE: "reachable E w"

lemma reachable_run: "reachable E w \<Longrightarrow> run E es w = Some w' \<Longrightarrow> reachable E w'"
  by (induction es arbitrary: w) (auto split: option.splits intro: reachable.step)

section \<open>The connection state changes along its transitions only\<close>

definition moves :: "sm_world \<Rightarrow> sm_world \<Rightarrow> bool" where
  "moves w w' \<longleftrightarrow> connectionState w' = connectionState w \<or>
     canTransition (connectionState w) (connectionState w')"

lemma connectionState_helpers [simp]:
  "connectionState (releaseResources w) = connectionState w"
  "connectionState (spawn t w) = connectionState w"
  "connectionState (await tid t w) = connectionState w"
  "connectionState (done_task tid w) = connectionState w"
  "connectionState (return_start tid r w) = connectionState w"
  "connectionState (cancel_timer w) = connectionState w"
  "connectionState (send_delete E tid u w) = connectionState w"
  "connectionState (cleanup_finish tid k w) = connectionState w"
  "connectionState (cleanupResources tid k w) = connectionState w"
  "connectionState (startSessionTimer d w) = connectionState w"
  "connectionState (startConnectionTimeout w) = connectionState w"
  "connectionState (didAddStream v a w) = connectionState w"
  "connectionState (didAddReceiver track w) = connectionState w"
  by (cases track; auto simp: releaseResources_def spawn_def await_def done_task_def return_start_def cancel_timer_def
      send_delete_def cleanup_finish_def cleanupResources_def startSessionTimer_def startConnectionTimeout_def
      didAddStream_def Let_def split: option.splits after_cleanup.splits)+


lemma moves_refl [simp]: "connectionState w' = connectionState w \<Longrightarrow> moves w w'"
  by (simp add: moves_def)

lemma moves_transition [simp]: "moves w (transitionState s w)"
  by (simp add: moves_def transitionState_def)

lemma moves_cong: "connectionState w1 = connectionState w \<Longrightarrow> connectionState w2 = connectionState w' \<Longrightarrow>
    moves w w' \<Longrightarrow> moves w1 w2"
  by (simp add: moves_def)

lemma connectionState_transition:
  "connectionState (transitionState s w) = (if canTransition (connectionState w) s then s else connectionState w)"
  by (simp add: transitionState_def)

lemma moves_parts [simp]:
  "moves w (fail_start E tid e w)"
  "moves w (startStream d p w)"
  "moves w (stop_finish tid w)"
  "moves w (didChangeIce s w)"
  by (cases s; simp add: moves_def fail_start_def startStream_def stop_finish_def Let_def connectionState_transition)+

lemma moves_stopStream [simp]: "moves w (stopStream tid w)"
  by (simp add: stopStream_def Let_def moves_def stop_finish_def connectionState_transition split: option.splits)

lemma moves_start_parts [simp]:
  "moves w (start_after_token E tid d p t made w)"
  "moves w (start_after_offer E tid p pc a w)"
  "moves w (start_after_whep E tid p pc sdp r w)"
  "moves w (start_after_remote E tid p answer w)"
  by (auto simp: start_after_token_def start_after_offer_def start_after_whep_def start_after_remote_def Let_def
      moves_def fail_start_def connectionState_transition split: sum.splits)

lemma moves_wake: "wake tid w = Some w' \<Longrightarrow> moves w w'"
  by (auto simp: wake_def moves_def connectionState_transition split: option.splits task.splits if_splits)
    (use moves_stopStream [of w tid] in \<open>simp add: moves_def\<close>)+

lemma moves_token_result: "token_result E tid r made w = Some w' \<Longrightarrow> moves w w'"
  by (auto simp: token_result_def split: option.splits task.splits sum.splits)

lemma moves_delete_again: "delete_again E tid w = Some w' \<Longrightarrow> moves w w'"
  by (auto simp: delete_again_def Let_def split: option.splits task.splits if_splits)

lemma moves_step:
  assumes "sm_step E ev w = Some w'"
  shows "moves w w'"
proof -
  have stop: "moves w (stopStream n (w\<lparr>next_id := m\<rparr>))" for n m
    by (rule moves_cong [OF _ _ moves_stopStream [of "w\<lparr>next_id := m\<rparr>" n]]) simp_all
  show ?thesis using assms stop
    by (cases ev) (auto simp: sm_step_def moves_wake moves_token_result moves_delete_again split: option.splits task.splits if_splits)
qed

section \<open>Whoever holds a session has a task that will release it\<close>

definition holds :: "sm_world \<Rightarrow> bool" where
  "holds w \<longleftrightarrow> \<not> (sessionURL w = None \<and> peerConnection w = None \<and> peerConnectionFactory w = None)"

text \<open>The tasks that go on to release the resources; a cancelled session timer does not.\<close>

fun custodian_task :: "bool \<Rightarrow> task \<Rightarrow> bool" where
  "custodian_task _ (Start_Token _ _) = False"
| "custodian_task _ (Timeout_Sleep _) = False"
| "custodian_task canc (Session_Sleep _) = (\<not> canc)"
| "custodian_task _ _ = True"

definition custodian :: "sm_world \<Rightarrow> nat \<Rightarrow> bool" where
  "custodian w tid = (case tasks w tid of None \<Rightarrow> False | Some t \<Rightarrow> custodian_task (tid \<in> set (cancelled w)) t)"

definition fresh_ids :: "sm_world \<Rightarrow> bool" where
  "fresh_ids w \<longleftrightarrow> (\<forall>tid t. tasks w tid = Some t \<longrightarrow> tid < next_id w) \<and>
     (\<forall>tid \<in> set (cancelled w). tid < next_id w) \<and> (\<forall>tid. sessionTimer w = Some tid \<longrightarrow> tid < next_id w)"

definition custodied :: "sm_world \<Rightarrow> bool" where
  "custodied w \<longleftrightarrow> (holds w \<longrightarrow> (\<exists>tid. custodian w tid))"

lemma fresh_ids_simps [simp]:
  "fresh_ids (releaseResources w) = fresh_ids w"
  "fresh_ids (transitionState s w) = fresh_ids w"
  "fresh_ids (send_delete E tid u w) = fresh_ids w"
  by (simp_all add: fresh_ids_def releaseResources_def transitionState_def send_delete_def)

lemma fresh_ids_tasks:
  "fresh_ids w \<Longrightarrow> fresh_ids (spawn t w)"
  "fresh_ids w \<Longrightarrow> tasks w tid \<noteq> None \<Longrightarrow> fresh_ids (await tid t w)"
  "fresh_ids w \<Longrightarrow> fresh_ids (done_task tid w)"
  "fresh_ids w \<Longrightarrow> fresh_ids (return_start tid r w)"
  "fresh_ids w \<Longrightarrow> fresh_ids (cancel_timer w)"
  by (auto simp: fresh_ids_def spawn_def await_def done_task_def return_start_def cancel_timer_def less_Suc_eq
      split: option.splits if_splits)

lemma holds_simps [simp]:
  "\<not> holds (releaseResources w)"
  "holds (done_task tid w) = holds w"
  "holds (return_start tid r w) = holds w"
  "holds (transitionState s w) = holds w"
  "holds (spawn t w) = holds w"
  by (simp_all add: holds_def releaseResources_def done_task_def return_start_def transitionState_def spawn_def)

lemma custodiedI: "custodian w tid \<Longrightarrow> custodied w"
  by (auto simp: custodied_def)

lemma custodied_not_holds: "\<not> holds w \<Longrightarrow> custodied w"
  by (simp add: custodied_def)

lemma custodied_mono:
  "custodied w \<Longrightarrow> holds w' = holds w \<Longrightarrow> (\<And>tid. custodian w tid \<Longrightarrow> custodian w' tid) \<Longrightarrow> custodied w'"
  by (auto simp: custodied_def)

lemma custodian_await [simp]: "custodian (await tid t w) tid = custodian_task (tid \<in> set (cancelled w)) t"
  by (simp add: custodian_def await_def)

lemma custodian_spawn:
  assumes "fresh_ids w" and "custodian w tid"
  shows "custodian (spawn t w) tid"
proof -
  have "tid \<noteq> next_id w" using assms by (auto simp: fresh_ids_def custodian_def split: option.splits)
  then show ?thesis using assms(2) by (simp add: custodian_def spawn_def split: option.splits)
qed

lemma custodied_spawn: "fresh_ids w \<Longrightarrow> custodied w \<Longrightarrow> custodied (spawn t w)"
  by (erule custodied_mono) (auto intro: custodian_spawn)

lemma custodied_same:
  "custodied w \<Longrightarrow> tasks w' = tasks w \<Longrightarrow> cancelled w' = cancelled w \<Longrightarrow> holds w' = holds w \<Longrightarrow> custodied w'"
  by (erule custodied_mono) (simp_all add: custodian_def split: option.splits)

text \<open>Cleaning up and stopping always leave a custodian or nothing to hold, whatever came before.\<close>

lemma custodied_finish [simp]: "custodied (cleanup_finish tid k w)" "custodied (stop_finish tid w)"
  by (rule custodied_not_holds, simp add: cleanup_finish_def stop_finish_def Let_def split: after_cleanup.splits)+

lemma custodied_await: "custodian_task True t \<Longrightarrow> custodian_task False t \<Longrightarrow> custodied (await tid t w)"
  by (rule custodiedI [where tid = tid]) (cases "tid \<in> set (cancelled w)"; simp)

lemma custodied_cleanup [simp]:
  "custodied (cleanupResources tid k w)" "custodied (stopStream tid w)" "custodied (fail_start E tid e w)"
  by (simp_all add: cleanupResources_def stopStream_def fail_start_def Let_def custodied_await split: option.splits)

lemma custodied_start [simp]:
  "custodied (start_after_token E tid d p t made w)"
  "custodied (start_after_offer E tid p pc a w)"
  "custodied (start_after_whep E tid p pc sdp r w)"
  by (simp_all add: start_after_token_def start_after_offer_def start_after_whep_def Let_def custodied_await
      split: sum.splits)

lemma fresh_ids_parts:
  assumes "fresh_ids w"
  shows "fresh_ids (startStream d p w)" "fresh_ids (didChangeIce s w)"
    "fresh_ids (startConnectionTimeout w)" "fresh_ids (startSessionTimer l w)"
    "fresh_ids (cleanup_finish tid k w)" "fresh_ids (stop_finish tid w)"
proof -
  have s: "fresh_ids (w'\<lparr>connectionState := c, currentPowerSource := q\<rparr>) = fresh_ids w'"
      "fresh_ids (w'\<lparr>connectionState := c\<rparr>) = fresh_ids w'" "fresh_ids (w'\<lparr>currentPowerSource := q\<rparr>) = fresh_ids w'"
      "fresh_ids (w'\<lparr>returned := rs\<rparr>) = fresh_ids w'" for w' c q rs
    by (simp_all add: fresh_ids_def)
  show "fresh_ids (startStream d p w)" using assms by (auto simp: startStream_def s intro!: fresh_ids_tasks)
  show "fresh_ids (didChangeIce s w)" using assms by (cases s) (auto simp: s intro!: fresh_ids_tasks)
  show "fresh_ids (startConnectionTimeout w)" using assms by (auto simp: startConnectionTimeout_def intro!: fresh_ids_tasks)
  show "fresh_ids (startSessionTimer l w)"
    using fresh_ids_tasks(1) [OF fresh_ids_tasks(5) [OF assms]]
    by (auto simp: startSessionTimer_def Let_def fresh_ids_def spawn_def)
  show "fresh_ids (cleanup_finish tid k w)" using assms
    by (auto simp: cleanup_finish_def Let_def split: after_cleanup.splits intro!: fresh_ids_tasks)
  show "fresh_ids (stop_finish tid w)" using assms
    by (auto simp: stop_finish_def Let_def intro!: fresh_ids_tasks)
qed

lemma tasks_transition [simp]: "tasks (transitionState s w) = tasks w"
  by (simp add: transitionState_def)

lemma fresh_ids_cleanup: "fresh_ids w \<Longrightarrow> tasks w tid \<noteq> None \<Longrightarrow> fresh_ids (cleanupResources tid k w)"
  by (auto simp: cleanupResources_def fresh_ids_parts split: option.splits intro!: fresh_ids_tasks)

lemma fresh_ids_fail: "fresh_ids w \<Longrightarrow> tasks w tid \<noteq> None \<Longrightarrow> fresh_ids (fail_start E tid e w)"
  unfolding fail_start_def by (rule fresh_ids_cleanup) simp_all

lemma custodian_timer: "fresh_ids w \<Longrightarrow> custodian (startSessionTimer l w) (next_id w)"
  by (cases "sessionTimer w")
    (auto simp: custodian_def startSessionTimer_def cancel_timer_def spawn_def Let_def fresh_ids_def)

lemma custodian_return: "tid' \<noteq> tid \<Longrightarrow> custodian (return_start tid r w) tid' = custodian w tid'"
  by (simp add: custodian_def return_start_def done_task_def split: option.splits)

lemma custodied_remote:
  assumes "fresh_ids w" and "tasks w tid \<noteq> None"
  shows "custodied (start_after_remote E tid p a w)"
proof (cases "setRemoteDescription a")
  case (Inr u)
  have "next_id w \<noteq> tid" using assms by (auto simp: fresh_ids_def)
  moreover have "custodian (startConnectionTimeout (startSessionTimer (sessionDurationLimit p) w)) (next_id w)"
    unfolding startConnectionTimeout_def
    by (rule custodian_spawn [OF fresh_ids_parts(4) custodian_timer]) (rule assms(1))+
  ultimately have "custodian (start_after_remote E tid p a w) (next_id w)"
    using Inr by (simp add: start_after_remote_def custodian_return)
  then show ?thesis by (rule custodiedI)
qed (simp add: start_after_remote_def)

lemma fresh_ids_start:
  assumes "fresh_ids w" and "tasks w tid \<noteq> None"
  shows "fresh_ids (start_after_token E tid d p t made w)" "fresh_ids (start_after_offer E tid p pc an w)"
    "fresh_ids (start_after_whep E tid p pc sdp r w)" "fresh_ids (start_after_remote E tid p a w)"
proof -
  have more: "fresh_ids (w\<lparr>next_id := Suc (next_id w), peerConnectionFactory := f\<rparr>)"
      "fresh_ids (w\<lparr>next_id := Suc (next_id w), peerConnectionFactory := f, peerConnection := g\<rparr>)"
      "fresh_ids (w\<lparr>sessionURL := u, created := c\<rparr>)" for f g u c
    using assms(1) by (auto simp: fresh_ids_def less_Suc_eq)
  show "fresh_ids (start_after_token E tid d p t made w)"
    using assms(2) by (auto simp: start_after_token_def Let_def more intro!: fresh_ids_fail fresh_ids_tasks(2))
  show "fresh_ids (start_after_offer E tid p pc an w)"
    using assms by (auto simp: start_after_offer_def split: sum.splits intro!: fresh_ids_fail fresh_ids_tasks(2))
  show "fresh_ids (start_after_whep E tid p pc sdp r w)"
    using assms by (auto simp: start_after_whep_def more split: sum.splits intro!: fresh_ids_fail fresh_ids_tasks(2))
  show "fresh_ids (start_after_remote E tid p a w)"
    using assms by (auto simp: start_after_remote_def fresh_ids_parts split: sum.splits intro!: fresh_ids_fail fresh_ids_tasks(4))
qed

lemma fresh_ids_stop: "fresh_ids w \<Longrightarrow> tid < next_id w \<Longrightarrow> fresh_ids (stopStream tid w)"
proof -
  assume "fresh_ids w" "tid < next_id w"
  then have c: "fresh_ids ((cancel_timer w)\<lparr>sessionTimer := None\<rparr>)" "tid < next_id ((cancel_timer w)\<lparr>sessionTimer := None\<rparr>)"
    using fresh_ids_tasks(5) [of w] by (auto simp: fresh_ids_def cancel_timer_def split: option.splits)
  have await: "fresh_ids w' \<Longrightarrow> tid < next_id w' \<Longrightarrow> fresh_ids (await tid t w')" for w' t
    by (auto simp: fresh_ids_def await_def)
  show ?thesis using c by (auto simp: stopStream_def Let_def fresh_ids_parts split: option.splits intro!: await)
qed

lemma custodied_done:
  "custodied w \<Longrightarrow> \<not> custodian w tid \<Longrightarrow> custodied (done_task tid w)"
  by (erule custodied_mono, simp) (auto simp: custodian_def done_task_def split: if_splits option.splits)

lemma fresh_ids_lt: "fresh_ids w \<Longrightarrow> tasks w tid = Some t \<Longrightarrow> tid < next_id w"
  by (simp add: fresh_ids_def)

lemma wake_invariant:
  assumes "wake tid w = Some w'" and "fresh_ids w" and "custodied w"
  shows "fresh_ids w'" and "custodied w'"
proof -
  have "fresh_ids w' \<and> custodied w'"
  proof (cases "tasks w tid")
    case (Some t)
    note lt = fresh_ids_lt [OF assms(2) Some]
    have nc: "\<not> custodian w tid" if "t = Session_Sleep d \<and> tid \<in> set (cancelled w) \<or> t = Timeout_Sleep d" for d
      using Some that by (auto simp: custodian_def)
    show ?thesis
      using assms Some lt nc
      by (auto simp: wake_def fresh_ids_stop fresh_ids_tasks custodied_done split: task.splits if_splits
          intro!: fresh_ids_cleanup)
  qed (use assms(1) in \<open>simp add: wake_def\<close>)
  then show "fresh_ids w'" and "custodied w'" by simp_all
qed

lemma token_result_invariant:
  assumes "token_result E tid r made w = Some w'" and "fresh_ids w"
  shows "fresh_ids w'" and "custodied w'"
proof -
  have t: "tasks (send_delete E n u w) = tasks w" for n u by (simp add: send_delete_def)
  show "fresh_ids w'" using assms
    by (auto simp: token_result_def t fresh_ids_parts split: option.splits task.splits sum.splits
        intro!: fresh_ids_fail fresh_ids_start fresh_ids_tasks(2))
  show "custodied w'" using assms
    by (auto simp: token_result_def custodied_await split: option.splits task.splits sum.splits)
qed

lemma delete_again_invariant:
  assumes "delete_again E tid w = Some w'" and "fresh_ids w"
  shows "fresh_ids w'" and "custodied w'"
proof -
  have t: "tasks (send_delete E n u w) = tasks w" for n u by (simp add: send_delete_def)
  show "fresh_ids w'" using assms
    by (auto simp: delete_again_def t split: option.splits task.splits if_splits intro!: fresh_ids_tasks(2))
  show "custodied w'" using assms
    by (auto simp: delete_again_def custodied_await split: option.splits task.splits if_splits)
qed

lemma event_invariant:
  assumes "sm_step E ev w = Some w'" and "fresh_ids w" and "custodied w"
  shows "fresh_ids w'" and "custodied w'"
proof -
  have stop: "fresh_ids (w\<lparr>next_id := Suc (next_id w)\<rparr>)"
    using assms(2) by (auto simp: fresh_ids_def less_Suc_eq)
  have same: "fresh_ids (didAddStream v a w)" "fresh_ids (didAddReceiver t w)" "fresh_ids (w\<lparr>clock := c\<rparr>)" for v a t c
    using assms(2) by (cases t; simp add: fresh_ids_def didAddStream_def)+
  have same_c: "custodied (didAddStream v a w)" "custodied (didAddReceiver t w)" "custodied (w\<lparr>clock := c\<rparr>)" for v a t c
    by (cases t; rule custodied_same [OF assms(3)]; simp add: didAddStream_def holds_def)+
  have start: "custodied (startStream d p w)" for d p
  proof (cases "connectionState w = disconnected")
    case True
    have "fresh_ids (w\<lparr>connectionState := connecting, currentPowerSource := Some p\<rparr>)"
      using assms(2) by (simp add: fresh_ids_def)
    with True show ?thesis
      by (auto simp: startStream_def transitionState_def holds_def intro!: custodied_spawn custodied_same [OF assms(3)])
  qed (auto simp: startStream_def holds_def intro!: custodied_same [OF assms(3)])
  have ice: "custodied (didChangeIce s w)" for s
  proof -
    have "fresh_ids (w\<lparr>connectionState := c\<rparr>)" for c
      using assms(2) by (simp add: fresh_ids_def)
    then show ?thesis
      by (cases s) (auto simp: transitionState_def holds_def assms(2) intro!: custodied_spawn custodied_same [OF assms(3)])
  qed
  show "fresh_ids w'"
    using assms(1,2) stop
    by (cases ev) (auto simp: sm_step_def same fresh_ids_parts fresh_ids_start fresh_ids_stop
        wake_invariant(1) [OF _ assms(2,3)] token_result_invariant(1) [OF _ assms(2)]
        delete_again_invariant(1) [OF _ assms(2)]
        split: option.splits task.splits if_splits intro!: fresh_ids_cleanup)
  show "custodied w'"
    using assms(1)
    by (cases ev) (auto simp: sm_step_def same_c start ice custodied_remote [OF assms(2)]
        wake_invariant(2) [OF _ assms(2,3)] token_result_invariant(2) [OF _ assms(2)]
        delete_again_invariant(2) [OF _ assms(2)]
        split: option.splits task.splits if_splits)
qed

lemma reachable_invariant: "reachable E w \<Longrightarrow> fresh_ids w \<and> custodied w"
proof (induction rule: reachable.induct)
  case new
  then show ?case by (simp add: new_manager_def fresh_ids_def custodied_def holds_def)
qed (blast intro: event_invariant)

section \<open>A sample history\<close>

text \<open>The events of a start up to the connected stream; its task is \<open>n\<close>.\<close>

definition start_events :: "string \<Rightarrow> power_supply \<Rightarrow> nat \<Rightarrow> auth_token \<Rightarrow> string \<Rightarrow> whep_session_response \<Rightarrow> event list" where
  "start_events d p n tok sdp resp =
     [Call_Start d p, Token_Result n (Inr tok) True, Offer_Result n (Offered sdp), Whep_Result n (Inr resp),
      Remote_Result n None]"

lemmas step_defs = sm_step_def startStream_def token_result_def start_after_token_def start_after_offer_def
  start_after_whep_def start_after_remote_def setRemoteDescription_def transitionState_def spawn_def await_def
  return_start_def done_task_def cancel_timer_def startSessionTimer_def startConnectionTimeout_def
  wake_def stopStream_def stop_finish_def releaseResources_def cleanupResources_def send_delete_def Let_def
  connectionTimeoutSeconds_def

definition sample_env :: sm_env where
  "sample_env = \<lparr>se_localized = (\<lambda>_. ''error''), se_cancels = True\<rparr>"

definition sample_token :: auth_token where
  "sample_token = \<lparr>at_access_token = ''t'', at_refresh_token = ''r'', at_expires_at = 0, at_scope = None,
     at_token_type = ''Bearer'', at_client_id = None\<rparr>"

definition sample_start :: "event list" where
  "sample_start = start_events ''cam'' battery 0 sample_token ''v=0'' \<lparr>wr_sdp_answer = ''v=0'', wr_session_url = ''/s/1''\<rparr>"

text \<open>The stream connected, the same one before its answer is applied, and when its time is over.\<close>

definition sample_connected :: sm_world where
  "sample_connected = the (run sample_env (sample_start @ [Ice ICE_connected]) new_manager)"

definition sample_remote :: sm_world where
  "sample_remote = the (run sample_env (take 4 sample_start) new_manager)"

definition sample_expired :: sm_world where
  "sample_expired = sample_connected\<lparr>clock := 30\<rparr>"

lemma sample_facts:
  "run sample_env (sample_start @ [Ice ICE_connected]) new_manager = Some sample_connected"
  "connectionState sample_connected = connected" "sessionURL sample_connected = Some ''/s/1''"
  "sessionTimer sample_connected = Some 2" "tasks sample_connected 2 = Some (Session_Sleep 30)"
  "cancelled sample_connected = []" "holds sample_connected" "next_id sample_connected = 4" "deletes sample_connected = []"
  "connectionState sample_remote = connecting" "sessionURL sample_remote = Some ''/s/1''" "cancelled sample_remote = []"
  "tasks sample_remote 0 = Some (Start_Remote battery 1 (munge_answer ''v=0'' ''v=0''))" "deletes sample_remote = []"
  by (simp_all add: sample_connected_def sample_remote_def sample_start_def start_events_def sample_env_def sample_token_def
      new_manager_def step_defs holds_def eval_nat_numeral)

lemma sample_reachable: "reachable sample_env sample_connected"
  by (rule reachable_run [OF reachable.new sample_facts(1)])

section \<open>What the manager promises\<close>

text \<open>C6: The connection state changes along the transitions of \<open>WebRTCConnectionState\<close> only, in every step of
  every call, timer and callback.\<close>

theorem state_moves: "sm_step E ev w = Some w' \<Longrightarrow>
    connectionState w' = connectionState w \<or> canTransition (connectionState w) (connectionState w')"
  using moves_step by (simp add: moves_def)

theorem state_moves_witness:
  "sm_step sample_env (Ice ICE_disconnected) sample_connected \<noteq> None \<and>
   canTransition (connectionState sample_connected)
     (connectionState (the (sm_step sample_env (Ice ICE_disconnected) sample_connected)))"
  using state_moves [of sample_env "Ice ICE_disconnected" sample_connected]
  by (auto simp: sm_step_def sample_facts transitionState_def)

text \<open>C5: Whenever the manager holds a session, a peer connection or its factory, a task is pending that goes on to
  release them: a start, stop or cleanup in progress, or a session timer nobody cancelled. No history of calls,
  answers, timers and callbacks leaves them to no one.\<close>

theorem resources_have_custodian:
  assumes "reachable E w" and "holds w"
  shows "\<exists>tid < next_id w. custodian w tid"
proof -
  obtain tid where "custodian w tid"
    using reachable_invariant [OF assms(1)] assms(2) by (auto simp: custodied_def)
  moreover have "tid < next_id w"
    using reachable_invariant [OF assms(1)] calculation by (auto simp: custodian_def fresh_ids_def split: option.splits)
  ultimately show ?thesis by blast
qed

lemma sessionURL_transition [simp]: "sessionURL (transitionState s w) = sessionURL w"
  by (simp add: transitionState_def)

lemma send_delete_simps [simp]:
  "tasks (send_delete E n u w) = tasks w" "cancelled (send_delete E n u w) = cancelled w"
  "sessionURL (send_delete E n u w) = sessionURL w" "peerConnection (send_delete E n u w) = peerConnection w"
  "closed (send_delete E n u w) = closed w" "returned (send_delete E n u w) = returned w"
  by (simp_all add: send_delete_def)

lemma release_simps [simp]:
  "tasks (releaseResources w) = tasks w" "deletes (releaseResources w) = deletes w"
  "returned (releaseResources w) = returned w"
  "closed (releaseResources w) = closed w @ (case peerConnection w of None \<Rightarrow> [] | Some p \<Rightarrow> [p])"
  by (simp_all add: releaseResources_def)

theorem resources_have_custodian_witness:
  "reachable sample_env sample_connected \<and> holds sample_connected \<and> (\<exists>tid < 4. custodian sample_connected tid)"
  using resources_have_custodian [OF sample_reachable] by (simp add: sample_reachable sample_facts)

text \<open>The end of a stop.\<close>

lemma stop_finish_result:
  "\<not> holds (stop_finish tid w)" "deletes (stop_finish tid w) = deletes w"
  "closed (stop_finish tid w) = closed w @ (case peerConnection w of None \<Rightarrow> [] | Some p \<Rightarrow> [p])"
  "connectionState (stop_finish tid w) = (if connectionState w = connecting then connecting else disconnected)"
  by (cases "connectionState w"; simp add: stop_finish_def Let_def done_task_def transitionState_def holds_def
      releaseResources_def)+

text \<open>The end of a cleanup.\<close>

lemma cleanup_finish_result:
  "\<not> holds (cleanup_finish tid k w)" "deletes (cleanup_finish tid k w) = deletes w"
  "closed (cleanup_finish tid k w) = closed w @ (case peerConnection w of None \<Rightarrow> [] | Some p \<Rightarrow> [p])"
  "returned (cleanup_finish tid k w) = returned w @ (case k of Rethrow e \<Rightarrow> [Inl e] | Finish \<Rightarrow> [])"
proof -
  show "\<not> holds (cleanup_finish tid k w)"
    by (cases k) (simp_all add: cleanup_finish_def Let_def)
qed (simp_all add: cleanup_finish_def Let_def return_start_def done_task_def split: after_cleanup.splits)

lemma stop_with_session:
  assumes "sessionURL w = Some u"
  shows "run E [Token_Result tid (Inr t) b, Delete_Result tid r] (stopStream tid w) =
    Some (stop_finish tid (await tid (Stop_Delete u 0) (send_delete E tid u
      (await tid (Stop_Token u) ((cancel_timer w)\<lparr>sessionTimer := None\<rparr>)))))"
  using assms by (simp add: stopStream_def cancel_timer_def Let_def sm_step_def token_result_def await_def split: option.splits)

lemma cancel_timer_simps [simp]:
  "deletes (cancel_timer w) = deletes w" "closed (cancel_timer w) = closed w" "returned (cancel_timer w) = returned w"
  "peerConnection (cancel_timer w) = peerConnection w" "next_id (cancel_timer w) = next_id w"
  "sessionURL (cancel_timer w) = sessionURL w"
  "set (cancelled (cancel_timer w)) = set (cancelled w) \<union> (case sessionTimer w of None \<Rightarrow> {} | Some t \<Rightarrow> {t})"
  by (simp_all add: cancel_timer_def split: option.splits)

lemma run_append: "run E (es @ fs) w = Option.bind (run E es w) (run E fs)"
  by (induction es arbitrary: w) (simp_all split: option.splits)

text \<open>What a world keeps while one of its tasks deletes a session, and what is sent.\<close>

definition while_deleting :: "string list \<Rightarrow> sm_world \<Rightarrow> sm_world \<Rightarrow> bool" where
  "while_deleting ds w w' \<longleftrightarrow> deletes w' = deletes w @ ds \<and> closed w' = closed w \<and> returned w' = returned w \<and>
     peerConnection w' = peerConnection w \<and> connectionState w' = connectionState w \<and> cancelled w' = cancelled w"

lemma while_deleting_trans: "while_deleting ds w v \<Longrightarrow> while_deleting es v u \<Longrightarrow> while_deleting (ds @ es) w u"
  by (simp add: while_deleting_def)

lemma while_deleting_send:
  "tid \<notin> set (cancelled w) \<Longrightarrow> while_deleting [u] w (await tid t (send_delete E tid u w))"
  "while_deleting [] w (await tid t w)"
  by (simp_all add: while_deleting_def send_delete_def await_def)

text \<open>The task that deletes a session for a stop or a cleanup, and the code after it.\<close>

datatype deleter = Of_Stop | Of_Cleanup after_cleanup

fun asking :: "string \<Rightarrow> deleter \<Rightarrow> task" where
  "asking u Of_Stop = Stop_Token u"
| "asking u (Of_Cleanup k) = Cleanup_Token u k"

fun deleting :: "string \<Rightarrow> nat \<Rightarrow> deleter \<Rightarrow> task" where
  "deleting u n Of_Stop = Stop_Delete u n"
| "deleting u n (Of_Cleanup k) = Cleanup_Delete u n k"

fun after_delete :: "deleter \<Rightarrow> nat \<Rightarrow> sm_world \<Rightarrow> sm_world" where
  "after_delete Of_Stop tid w = stop_finish tid w"
| "after_delete (Of_Cleanup k) tid w = cleanup_finish tid k w"

lemma deleting_steps:
  "tasks w tid = Some (deleting u n c) \<Longrightarrow> sm_step E (Delete_Result tid r) w = Some (after_delete c tid w)"
  "tasks w tid = Some (deleting u n c) \<Longrightarrow> n < maxRetries \<Longrightarrow> tid \<notin> set (cancelled w) \<Longrightarrow>
     sm_step E (Delete_Again tid) w = Some (await tid (deleting u (Suc n) c) (send_delete E tid u w))"
  "tasks w tid = Some (asking u c) \<Longrightarrow> sm_step E (Token_Result tid (Inl e) b) w = Some (after_delete c tid w)"
  "tasks w tid = Some (asking u c) \<Longrightarrow>
     sm_step E (Token_Result tid (Inr tok) b) w = Some (await tid (deleting u 0 c) (send_delete E tid u w))"
  by (cases c; simp add: sm_step_def delete_again_def token_result_def Let_def)+

lemma deletes_again:
  assumes "tasks w tid = Some (deleting u n c)" and "tid \<notin> set (cancelled w)" and "n + k \<le> maxRetries"
  shows "\<exists>v. run E (replicate k (Delete_Again tid) @ [Delete_Result tid r]) w = Some (after_delete c tid v) \<and>
    while_deleting (replicate k u) w v"
  using assms
proof (induction k arbitrary: w n)
  case 0
  then show ?case by (auto simp: deleting_steps(1) while_deleting_def)
next
  case (Suc k)
  let ?w = "await tid (deleting u (Suc n) c) (send_delete E tid u w)"
  have "tasks ?w tid = Some (deleting u (Suc n) c)" "tid \<notin> set (cancelled ?w)"
    using Suc.prems(2) by (simp_all add: await_def send_delete_def)
  from Suc.IH [OF this] Suc.prems(3) obtain v where
    v: "run E (replicate k (Delete_Again tid) @ [Delete_Result tid r]) ?w = Some (after_delete c tid v)"
    "while_deleting (replicate k u) ?w v" by auto
  have "sm_step E (Delete_Again tid) w = Some ?w" using Suc.prems by (intro deleting_steps(2)) simp_all
  with v while_deleting_trans [OF while_deleting_send(1) [OF Suc.prems(2)] v(2)] show ?case by auto
qed

text \<open>From the wait for the token on: a token that is refused, or one that is got and \<open>k\<close> more requests.\<close>

lemma asks_then_deletes:
  assumes "tasks w tid = Some (asking u c)" and "tid \<notin> set (cancelled w)"
  shows "run E [Token_Result tid (Inl e) b] w = Some (after_delete c tid w)"
    and "k \<le> maxRetries \<Longrightarrow> \<exists>v. run E (Token_Result tid (Inr tok) b # replicate k (Delete_Again tid) @ [Delete_Result tid r]) w =
      Some (after_delete c tid v) \<and> while_deleting (replicate (Suc k) u) w v"
proof -
  show "run E [Token_Result tid (Inl e) b] w = Some (after_delete c tid w)"
    using assms by (simp add: deleting_steps(3))
  assume k: "k \<le> maxRetries"
  let ?w = "await tid (deleting u 0 c) (send_delete E tid u w)"
  have "tasks ?w tid = Some (deleting u 0 c)" "tid \<notin> set (cancelled ?w)"
    using assms(2) by (simp_all add: await_def send_delete_def)
  from deletes_again [OF this, of k E r] k obtain v where
    v: "run E (replicate k (Delete_Again tid) @ [Delete_Result tid r]) ?w = Some (after_delete c tid v)"
    "while_deleting (replicate k u) ?w v" by auto
  with while_deleting_trans [OF while_deleting_send(1) [OF assms(2)] v(2)] deleting_steps(4) [OF assms(1)]
  show "\<exists>v. run E (Token_Result tid (Inr tok) b # replicate k (Delete_Again tid) @ [Delete_Result tid r]) w =
      Some (after_delete c tid v) \<and> while_deleting (replicate (Suc k) u) w v" by auto
qed

text \<open>
  That the client sends these requests: \<open>deleteWHEPSession\<close> of a client as the app builds it sends one to four of them,
  all DELETEs of the session.
\<close>

lemma delete_call_requests:
  "\<exists>reqs. hl_sent (snd (deleteWHEPSession H (new_client a c) u tok w)) = hl_sent w @ reqs \<and>
     1 \<le> length reqs \<and> length reqs \<le> Suc maxRetries \<and> list_all (\<lambda>q. rq_url q = u \<and> rq_method q = ''DELETE'') reqs"
proof -
  let ?req = "injectBearer tok (plain_request u ''DELETE'')"
  have "snd (deleteWHEPSession H (new_client a c) u tok w) = snd (executeWithRetry H (new_client a c) False ?req w)"
    by (simp add: deleteWHEPSession_def performRaw_def check_status_def andThen_def ret_def throw_def split: prod.splits sum.splits option.splits)
  moreover obtain reqs sleeps where "snd (executeWithRetry H (new_client a c) False ?req w) =
       w\<lparr>hl_sent := hl_sent w @ reqs, hl_slept := hl_slept w @ sleeps\<rparr>"
     "reqs \<noteq> []" "list_all (same_call ?req) reqs" "length sleeps \<le> maxRetries"
     "length reqs \<le> 1 + length sleeps + refresh_left (new_client a c) False False"
    using execute_loop_log [of 0 H "new_client a c" False ?req initialBackoff False w]
    by (auto simp: executeWithRetry_def)
  ultimately show ?thesis
    by (intro exI [of _ reqs])
      (auto simp: refresh_left_def new_client_def same_call_def plain_request_def injectBearer_def set_header_def
        Suc_le_eq list_all_iff)
qed

text \<open>A stopped stream, where \<open>ds\<close> are the DELETE requests sent for it.\<close>

definition stopped :: "sm_world \<Rightarrow> string list \<Rightarrow> sm_world \<Rightarrow> bool" where
  "stopped w ds w' \<longleftrightarrow> deletes w' = deletes w @ ds \<and> \<not> holds w' \<and>
     closed w' = closed w @ (case peerConnection w of None \<Rightarrow> [] | Some p \<Rightarrow> [p]) \<and>
     (if connectionState w = connecting then connectionState w' = connecting \<and>
        (\<forall>E d p. sm_step E (Call_Start d p) w' = Some (w'\<lparr>returned := returned w' @ [Inr ()]\<rparr>))
      else connectionState w' = disconnected)"

lemma stop_finish_stopped: "while_deleting ds w v \<Longrightarrow> stopped w ds (stop_finish tid v)"
  by (simp add: stopped_def while_deleting_def stop_finish_result sm_step_def startStream_def)

text \<open>C7: Stopping a stream, with nothing else happening in between. Without a session it ends at once and sends nothing;
  with one it asks for a token: where that fails no DELETE is sent, else one and one more for each of at most three
  answers 429, whatever the last answer is. In every case the peer connection is closed and everything released. It ends
  disconnected unless the stream was still connecting: then the state stays \<open>connecting\<close>, and starting again does
  nothing.\<close>

theorem stop_stream:
  assumes "reachable E w"
  shows "case sessionURL w of
      None \<Rightarrow> (\<exists>w'. run E [Call_Stop] w = Some w' \<and> stopped w [] w')
    | Some u \<Rightarrow> (\<forall>e b. \<exists>w'. run E [Call_Stop, Token_Result (next_id w) (Inl e) b] w = Some w' \<and> stopped w [] w') \<and>
        (\<forall>t b k r. k \<le> maxRetries \<longrightarrow>
          (\<exists>w'. run E ([Call_Stop, Token_Result (next_id w) (Inr t) b] @ replicate k (Delete_Again (next_id w)) @
              [Delete_Result (next_id w) r]) w = Some w' \<and> stopped w (replicate (Suc k) u) w'))"
proof -
  let ?w = "(cancel_timer (w\<lparr>next_id := Suc (next_id w)\<rparr>))\<lparr>sessionTimer := None\<rparr>"
  have keeps: "while_deleting ds ?w v \<Longrightarrow> stopped w ds (stop_finish tid v)" for ds v tid
    using stop_finish_stopped [of ds ?w v tid] by (simp add: stopped_def)
  have call: "sm_step E Call_Stop w = Some (stopStream (next_id w) (w\<lparr>next_id := Suc (next_id w)\<rparr>))"
    by (simp add: sm_step_def)
  show ?thesis
  proof (cases "sessionURL w")
    case None
    have "while_deleting [] ?w ?w" by (simp add: while_deleting_def)
    with None call keeps show ?thesis by (simp add: stopStream_def Let_def)
  next
    case (Some u)
    let ?v = "await (next_id w) (Stop_Token u) ?w"
    have "fresh_ids w" using reachable_invariant [OF assms] by simp
    then have free: "next_id w \<notin> set (cancelled ?v)"
      by (auto simp: fresh_ids_def await_def split: option.splits)
    have step: "run E (Call_Stop # es) w = run E es ?v" for es
      using Some call by (simp add: stopStream_def Let_def)
    have t: "tasks ?v (next_id w) = Some (asking u Of_Stop)" by (simp add: await_def)
    have v: "while_deleting [] ?w ?v" by (rule while_deleting_send(2))
    note fails = asks_then_deletes(1) [OF t free] and sends = asks_then_deletes(2) [OF t free]
    show ?thesis
      using fails keeps [OF v] sends keeps [OF while_deleting_trans [OF v]] unfolding Some
      by (simp add: step del: run.simps replicate.simps) metis
  qed
qed

theorem stop_stream_witness:
  "\<exists>w. run sample_env [Call_Stop, Token_Result 4 (Inr sample_token) True, Delete_Again 4, Delete_Result 4 (Inr ())]
       sample_connected = Some w \<and>
     deletes w = [''/s/1'', ''/s/1''] \<and> \<not> holds w \<and> connectionState w = disconnected"
proof -
  have "(\<forall>t b k r. k \<le> maxRetries \<longrightarrow>
      (\<exists>w'. run sample_env ([Call_Stop, Token_Result 4 (Inr t) b] @ replicate k (Delete_Again 4) @ [Delete_Result 4 r])
          sample_connected = Some w' \<and> stopped sample_connected (replicate (Suc k) ''/s/1'') w'))"
    using stop_stream [OF sample_reachable] unfolding sample_facts option.case by blast
  from this [rule_format, of 1 sample_token True "Inr ()"] show ?thesis
    by (auto simp: stopped_def sample_facts maxRetries_def simp del: run.simps)
qed

text \<open>C9: When the session timer of a connected stream expires it stops the stream from its own task, which that
  stop cancels first. Where \<open>URLSession\<close> refuses requests of cancelled tasks no DELETE is sent and the session
  stays open on the server; the app's side is released and disconnected in any case.\<close>

theorem expiry_loses_delete:
  assumes "tasks w tid = Some (Session_Sleep deadline)" and "sessionTimer w = Some tid" and "tid \<notin> set (cancelled w)"
    and "deadline \<le> clock w" and "sessionURL w = Some u"
  shows "\<exists>w'. run E [Wake tid, Token_Result tid (Inr t) b, Delete_Result tid r] w = Some w' \<and>
    deletes w' = (if se_cancels E then deletes w else deletes w @ [u]) \<and> \<not> holds w' \<and>
    connectionState w' = (if connectionState w = connecting then connecting else disconnected)"
  using stop_with_session [OF assms(5), of E tid t b r] assms
  by (auto simp: sm_step_def wake_def stop_finish_result send_delete_def await_def)

theorem expiry_loses_delete_witness:
  "\<exists>w. run sample_env [Wake 2, Token_Result 2 (Inr sample_token) True, Delete_Result 2 (Inr ())] sample_expired = Some w \<and>
     deletes w = [] \<and> \<not> holds w"
  using expiry_loses_delete [of sample_expired 2 30 "''/s/1''" sample_env sample_token True "Inr ()"]
  by (auto simp: sample_expired_def sample_facts sample_env_def)

text \<open>A start that has ended with the error \<open>e\<close>, where \<open>ds\<close> are the DELETE requests sent for it.\<close>

definition start_ended :: "sm_env \<Rightarrow> sm_world \<Rightarrow> client_error \<Rightarrow> string list \<Rightarrow> sm_world \<Rightarrow> bool" where
  "start_ended E w e ds w' \<longleftrightarrow> deletes w' = deletes w @ ds \<and> \<not> holds w' \<and>
     closed w' = closed w @ (case peerConnection w of None \<Rightarrow> [] | Some p \<Rightarrow> [p]) \<and> returned w' = returned w @ [Inl e] \<and>
     (if connectionState w = connecting then connectionState w' = failed (se_localized E e) \<and>
        (\<forall>d p. sm_step E (Call_Start d p) w' = Some (w'\<lparr>returned := returned w' @ [Inr ()]\<rparr>))
      else connectionState w' = connectionState w)"

text \<open>The events on which a start throws, by where it waits: every \<open>try\<close> of \<open>startStream\<close>.\<close>

definition start_throws :: "task \<Rightarrow> nat \<Rightarrow> event \<Rightarrow> client_error \<Rightarrow> bool" where
  "start_throws t tid ev e \<longleftrightarrow> (case t of
     Start_Token d p \<Rightarrow> (\<exists>b. ev = Token_Result tid (Inl e) b) \<or>
       (\<exists>tok. ev = Token_Result tid (Inr tok) False) \<and> e = Partner (networkError ''Failed to create WebRTC peer connection'')
   | Start_Offer d p pc tok \<Rightarrow> \<exists>a. ev = Offer_Result tid a \<and> createOffer a = Inl e
   | Start_Whep p pc sdp \<Rightarrow> ev = Whep_Result tid (Inl e)
   | Start_Remote p pc sdp \<Rightarrow> \<exists>a. ev = Remote_Result tid a \<and> setRemoteDescription a = Inl e
   | _ \<Rightarrow> False)"

lemma start_throws_step:
  assumes "tasks w tid = Some t" and "start_throws t tid ev e"
  shows "\<exists>v. sm_step E ev w = Some (fail_start E tid e v) \<and> while_deleting [] w v \<and> sessionURL v = sessionURL w"
proof (cases "sm_step E ev w = Some (fail_start E tid e w)")
  case False
  let ?v = "w\<lparr>next_id := Suc (next_id w), peerConnectionFactory := Some (next_id w)\<rparr>"
  have "sm_step E ev w = Some (fail_start E tid e ?v)"
    using assms False by (auto simp: start_throws_def sm_step_def token_result_def start_after_token_def start_after_offer_def
        start_after_whep_def start_after_remote_def Let_def split: task.splits)
  moreover have "while_deleting [] w ?v" "sessionURL ?v = sessionURL w" by (simp_all add: while_deleting_def)
  ultimately show ?thesis by blast
qed (auto simp: while_deleting_def)

lemma cleanup_finish_ended:
  "while_deleting ds (transitionState (failed (se_localized E e)) w) v \<Longrightarrow>
     start_ended E w e ds (cleanup_finish tid (Rethrow e) v)"
  by (cases "connectionState w")
    (auto simp: start_ended_def while_deleting_def cleanup_finish_result transitionState_def sm_step_def startStream_def)

lemma fail_start_ends:
  assumes "tid \<notin> set (cancelled w)"
  shows "case sessionURL w of
      None \<Rightarrow> start_ended E w e [] (fail_start E tid e w)
    | Some u \<Rightarrow> (\<forall>e' b. \<exists>w'. run E [Token_Result tid (Inl e') b] (fail_start E tid e w) = Some w' \<and> start_ended E w e [] w') \<and>
        (\<forall>t b k r. k \<le> maxRetries \<longrightarrow>
          (\<exists>w'. run E (Token_Result tid (Inr t) b # replicate k (Delete_Again tid) @ [Delete_Result tid r])
              (fail_start E tid e w) = Some w' \<and> start_ended E w e (replicate (Suc k) u) w'))"
proof -
  let ?w = "transitionState (failed (se_localized E e)) w"
  note ended = cleanup_finish_ended [of _ E e w _ tid]
  have refl: "while_deleting [] ?w ?w" by (simp add: while_deleting_def)
  show ?thesis
  proof (cases "sessionURL w")
    case None
    with ended [OF refl] show ?thesis by (simp add: fail_start_def cleanupResources_def)
  next
    case (Some u)
    let ?v = "await tid (Cleanup_Token u (Rethrow e)) ?w"
    have v: "fail_start E tid e w = ?v" using Some by (simp add: fail_start_def cleanupResources_def)
    have t: "tasks ?v tid = Some (asking u (Of_Cleanup (Rethrow e)))" by (simp add: await_def)
    have free: "tid \<notin> set (cancelled ?v)" using assms by (simp add: await_def transitionState_def)
    note fails = asks_then_deletes(1) [OF t free] and sends = asks_then_deletes(2) [OF t free]
    show ?thesis
      using fails sends ended [OF while_deleting_send(2)] ended [OF while_deleting_trans [OF while_deleting_send(2)]]
      unfolding Some v by (simp del: run.simps replicate.simps) metis
  qed
qed

text \<open>C8: A start that throws, at whichever of its steps, ends \<open>failed\<close> with the error's description if it was still
  connecting, closes its peer connection, releases everything and rethrows the error, provided that nothing else happens
  meanwhile. A session it had created is deleted by one to four requests where the token for it is got, and not at all
  where that fails too. After it the state is not \<open>disconnected\<close>: another \<open>startStream\<close> returns without an error and
  without doing anything.\<close>

theorem failed_start:
  assumes "tasks w tid = Some t" and "start_throws t tid ev e" and "tid \<notin> set (cancelled w)"
  shows "\<exists>w1. sm_step E ev w = Some w1 \<and> (case sessionURL w of
      None \<Rightarrow> start_ended E w e [] w1
    | Some u \<Rightarrow> (\<forall>e' b. \<exists>w'. run E [Token_Result tid (Inl e') b] w1 = Some w' \<and> start_ended E w e [] w') \<and>
        (\<forall>tok b k r. k \<le> maxRetries \<longrightarrow>
          (\<exists>w'. run E (Token_Result tid (Inr tok) b # replicate k (Delete_Again tid) @ [Delete_Result tid r]) w1 = Some w' \<and>
             start_ended E w e (replicate (Suc k) u) w')))"
proof -
  obtain v where v: "sm_step E ev w = Some (fail_start E tid e v)" "while_deleting [] w v" "sessionURL v = sessionURL w"
    using start_throws_step [OF assms(1,2)] by blast
  have same: "start_ended E v = start_ended E w"
    using v(2) by (simp add: fun_eq_iff start_ended_def while_deleting_def)
  have "tid \<notin> set (cancelled v)" using v(2) assms(3) by (simp add: while_deleting_def)
  from fail_start_ends [OF this, of E e] v(1,3) show ?thesis unfolding same by (simp del: run.simps replicate.simps)
qed

theorem failed_start_witness:
  "\<exists>w. run sample_env [Remote_Result 0 (Some ''bad''), Token_Result 0 (Inr sample_token) True, Delete_Result 0 (Inr ())]
      sample_remote = Some w \<and> connectionState w = failed ''error'' \<and> deletes w = [''/s/1''] \<and> \<not> holds w"
proof -
  have "start_throws (Start_Remote battery 1 (munge_answer ''v=0'' ''v=0'')) 0 (Remote_Result 0 (Some ''bad''))
      (Partner (networkError (''Failed to apply remote SDP: '' @ ''bad'')))"
    by (simp add: start_throws_def setRemoteDescription_def)
  from failed_start [OF sample_facts(13) this, of sample_env]
  obtain w1 where w1: "sm_step sample_env (Remote_Result 0 (Some ''bad'')) sample_remote = Some w1"
    "\<forall>tok b k r. k \<le> maxRetries \<longrightarrow>
      (\<exists>w'. run sample_env (Token_Result 0 (Inr tok) b # replicate k (Delete_Again 0) @ [Delete_Result 0 r]) w1 = Some w' \<and>
        start_ended sample_env sample_remote (Partner (networkError (''Failed to apply remote SDP: '' @ ''bad'')))
          (replicate (Suc k) ''/s/1'') w')"
    unfolding sample_facts by (auto simp del: run.simps replicate.simps)
  from w1(2) [rule_format, of 0 sample_token True "Inr ()"] w1(1) show ?thesis
    by (auto simp: start_ended_def sample_facts sample_env_def run.simps(2) [of _ "Remote_Result 0 (Some ''bad'')"]
        simp del: run.simps)
qed

text \<open>When ICE fails on a connected stream, the cleanup it starts releases everything and deletes the session,
  but the state stays \<open>connected\<close>, since \<open>connected\<close> has no transition to \<open>failed\<close>.\<close>

theorem ice_failure_stays_connected:
  assumes "reachable E w" and "connectionState w = connected" and "sessionURL w = Some u"
  shows "\<exists>w'. run E [Ice ICE_failed, Run_Cleanup (next_id w), Token_Result (next_id w) (Inr t) b,
      Delete_Result (next_id w) r] w = Some w' \<and>
    connectionState w' = connected \<and> \<not> holds w' \<and> deletes w' = deletes w @ [u]"
proof -
  let ?w = "await (next_id w) (Cleanup_Token u Finish) (spawn (Cleanup_Begin Finish) w)"
  have n: "next_id w \<notin> set (cancelled ?w)"
    using reachable_invariant [OF assms(1)] by (auto simp: fresh_ids_def await_def spawn_def)
  have t: "tasks ?w (next_id w) = Some (asking u (Of_Cleanup Finish))" by (simp add: await_def)
  from asks_then_deletes(2) [OF t n, of 0 E t b r] obtain v where
    v: "run E [Token_Result (next_id w) (Inr t) b, Delete_Result (next_id w) r] ?w = Some (cleanup_finish (next_id w) Finish v)"
    "while_deleting [u] ?w v" by (auto simp del: run.simps)
  have "run E (Ice ICE_failed # Run_Cleanup (next_id w) # es) w = run E es ?w" for es
    using assms by (simp add: sm_step_def transitionState_def spawn_def cleanupResources_def)
  with v assms(2) show ?thesis
    by (auto simp: cleanup_finish_result while_deleting_def await_def spawn_def simp del: run.simps)
qed

theorem ice_failure_stays_connected_witness:
  "\<exists>w. run sample_env [Ice ICE_failed, Run_Cleanup 4, Token_Result 4 (Inr sample_token) True, Delete_Result 4 (Inr ())]
      sample_connected = Some w \<and> connectionState w = connected \<and> \<not> holds w"
  using ice_failure_stays_connected [OF sample_reachable, of "''/s/1''" sample_token True "Inr ()"]
  by (auto simp: sample_facts simp del: run.simps)

text \<open>The connection timeout of a stream is never cancelled and does not know its stream: after a disconnect at
  20 seconds a new start that is still connecting at 30 seconds is failed by the timeout of the first one, after
  10 of its 30 seconds.\<close>

theorem stale_timeout_fails_restart:
  "\<exists>w. run E (start_events d p 0 t sdp r1 @ [Ice ICE_connected, Elapse 20, Ice ICE_disconnected] @
      start_events d p 4 t sdp r2 @ [Elapse 10, Wake 3]) new_manager = Some w \<and>
    connectionState w = failed ''Connection timed out'' \<and> tasks w 7 = Some (Timeout_Sleep 50)"
  by (simp add: start_events_def new_manager_def step_defs eval_nat_numeral)

end
