(* ===== verification/Objc_Decl.thy ===== *)
theory Objc_Decl imports Prelude begin

text \<open>
  Declarations of an Objective-C framework, as its header files hold them, and the rules of the language
  that say what they mean: which names a header sees, the values of enumeration constants, the superclass
  chain of a class, the methods its instances respond to, assignment compatibility of types and conformance
  to protocols. Class and protocol names are separate name spaces, as are instance and class methods.
\<close>

section \<open>Declarations\<close>

text \<open>
  Pointers to objects are \<open>Object\<close> with the generic arguments, \<open>id<P, Q>\<close> is \<open>Id\<close>; a pointer is not null
  unless it is \<open>Nullable\<close>. \<open>Named\<close> are scalar types, enumerations and other typedefs.
\<close>

datatype ty =
    Named string
  | Object string "ty list"
  | Id "string list"
  | Instancetype
  | Block "ty list" ty
  | Ptr ty
  | Nullable ty

datatype attr = Nonatomic | Readonly | Copy | Strong | Retain | Weak | Assign | Getter string

datatype mark = Unavailable | Deprecated | Designated

datatype member =
    Property string ty "attr list" "mark list"
  | Instance_Method string "ty list" ty "mark list"
  | Class_Method string "ty list" ty "mark list"

datatype initializer = Auto | Val int | Same string

text \<open>
  A class has a superclass, adopted protocols and members; a protocol has adopted protocols, required and
  optional members; a category adds to a class. An enumeration has its underlying type and its constants.
\<close>

datatype decl =
    Class_Decl string string "string list" "member list"
  | Protocol_Decl string "string list" "member list" "member list"
  | Category_Decl string string "string list" "member list"
  | Enum_Decl string string "(string \<times> initializer) list"
  | Typedef_Decl string ty
  | Constant_Decl string ty
  | Function_Decl string "ty list" ty "mark list"

datatype forward = Fwd_Class string | Fwd_Protocol string | Fwd_Enum string

text \<open>Whether a header's content is compiled on tvOS (\<open>#if !TARGET_OS_TV\<close>).\<close>

datatype guard = Always | Not_On_TV

text \<open>
  A header: its name, guard, the system and the framework headers it imports, its forward declarations and
  its declarations.
\<close>

datatype header = Header string guard "string list" "header list" "forward list" "decl list"

section \<open>Names\<close>

datatype ident = Class_Name string | Protocol_Name string | Type_Name string

fun ident_string :: "ident \<Rightarrow> string" where
  "ident_string (Class_Name n) = n"
| "ident_string (Protocol_Name n) = n"
| "ident_string (Type_Name n) = n"

fun ty_idents :: "ty \<Rightarrow> ident list" where
  "ty_idents (Named n) = [Type_Name n]"
| "ty_idents (Object c ts) = Class_Name c # concat (map ty_idents ts)"
| "ty_idents (Id ps) = map Protocol_Name ps"
| "ty_idents Instancetype = []"
| "ty_idents (Block ts t) = concat (map ty_idents ts) @ ty_idents t"
| "ty_idents (Ptr t) = ty_idents t"
| "ty_idents (Nullable t) = ty_idents t"

fun member_idents :: "member \<Rightarrow> ident list" where
  "member_idents (Property _ t _ _) = ty_idents t"
| "member_idents (Instance_Method _ ts t _) = concat (map ty_idents ts) @ ty_idents t"
| "member_idents (Class_Method _ ts t _) = concat (map ty_idents ts) @ ty_idents t"

fun decl_uses :: "decl \<Rightarrow> ident list" where
  "decl_uses (Class_Decl _ s ps ms) = Class_Name s # map Protocol_Name ps @ concat (map member_idents ms)"
| "decl_uses (Protocol_Decl _ ps ms os) = map Protocol_Name ps @ concat (map member_idents (ms @ os))"
| "decl_uses (Category_Decl c _ ps ms) = Class_Name c # map Protocol_Name ps @ concat (map member_idents ms)"
| "decl_uses (Enum_Decl _ u _) = [Type_Name u]"
| "decl_uses (Typedef_Decl _ t) = ty_idents t"
| "decl_uses (Constant_Decl _ t) = ty_idents t"
| "decl_uses (Function_Decl _ ts t _) = concat (map ty_idents ts) @ ty_idents t"

fun decl_declares :: "decl \<Rightarrow> ident list" where
  "decl_declares (Class_Decl n _ _ _) = [Class_Name n]"
| "decl_declares (Protocol_Decl n _ _ _) = [Protocol_Name n]"
| "decl_declares (Enum_Decl n _ _) = [Type_Name n]"
| "decl_declares (Typedef_Decl n _) = [Type_Name n]"
| "decl_declares _ = []"

fun forward_ident :: "forward \<Rightarrow> ident" where
  "forward_ident (Fwd_Class n) = Class_Name n"
| "forward_ident (Fwd_Protocol n) = Protocol_Name n"
| "forward_ident (Fwd_Enum n) = Type_Name n"

fun compiled :: "bool \<Rightarrow> guard \<Rightarrow> bool" where
  "compiled tv Always = True"
| "compiled tv Not_On_TV = (\<not> tv)"

fun header_decls :: "bool \<Rightarrow> header \<Rightarrow> decl list" where
  "header_decls tv (Header _ g _ _ _ ds) = (if compiled tv g then ds else [])"

fun header_forwards :: "bool \<Rightarrow> header \<Rightarrow> forward list" where
  "header_forwards tv (Header _ g _ _ fs _) = (if compiled tv g then fs else [])"

text \<open>What a header makes visible: all it imports, its forward declarations and its declarations.\<close>

fun exports :: "bool \<Rightarrow> header \<Rightarrow> ident list" where
  "exports tv (Header _ g _ hs fs ds) = (if compiled tv g then
     concat (map (exports tv) hs) @ map forward_ident fs @ concat (map decl_declares ds) else [])"

text \<open>Every name of the framework, by its prefix, that a header uses is visible there.\<close>

definition framework_name :: "ident \<Rightarrow> bool" where
  "framework_name i = starts_with ''RTC'' (ident_string i)"

definition resolves :: "bool \<Rightarrow> header \<Rightarrow> bool" where
  "resolves tv h = (let uses = filter framework_name (concat (map decl_uses (header_decls tv h))) in
     if uses = [] then True else list_all (\<lambda>i. i \<in> set (exports tv h)) uses)"

section \<open>Enumerations\<close>

text \<open>
  A constant without initializer is one more than the constant before it, the first is 0; an initializer may
  name an earlier constant.
\<close>

fun enum_values_from :: "int \<Rightarrow> (string \<times> int) list \<Rightarrow> (string \<times> initializer) list \<Rightarrow> (string \<times> int) list" where
  "enum_values_from next seen [] = []"
| "enum_values_from next seen ((c, i) # cs) =
     (let v = (case i of Auto \<Rightarrow> next | Val n \<Rightarrow> n
        | Same d \<Rightarrow> (case map_of seen d of Some w \<Rightarrow> w | None \<Rightarrow> next))
      in (c, v) # enum_values_from (v + 1) ((c, v) # seen) cs)"

definition enum_values :: "(string \<times> initializer) list \<Rightarrow> (string \<times> int) list" where
  "enum_values cs = enum_values_from 0 [] cs"

fun enum_constants :: "decl \<Rightarrow> (string \<times> int) list" where
  "enum_constants (Enum_Decl _ _ cs) = enum_values cs"
| "enum_constants _ = []"

text \<open>Constants with a name for a value of an earlier one.\<close>

fun enum_aliases :: "decl \<Rightarrow> string list" where
  "enum_aliases (Enum_Decl _ _ cs) = map fst (filter (\<lambda>(c, i). case i of Same d \<Rightarrow> True | _ \<Rightarrow> False) cs)"
| "enum_aliases _ = []"

definition raw_value :: "decl \<Rightarrow> string \<Rightarrow> int option" where
  "raw_value d c = map_of (enum_constants d) c"

text \<open>The constant of a raw value, an alias never.\<close>

definition of_raw_value :: "decl \<Rightarrow> int \<Rightarrow> string option" where
  "of_raw_value d v = map_option fst
     (List.find (\<lambda>(c, w). w = v \<and> c \<notin> set (enum_aliases d)) (enum_constants d))"

section \<open>Members\<close>

datatype level = Instance | Class_Level

text \<open>A method: level, selector, parameter types, result type, marks.\<close>

type_synonym method_sig = "level \<times> string \<times> ty list \<times> ty \<times> mark list"

definition upper_first :: "string \<Rightarrow> string" where
  "upper_first s = (case s of [] \<Rightarrow> [] | c # cs \<Rightarrow>
     (let n = (of_char c :: nat) in if 97 \<le> n \<and> n \<le> 122 then char_of (n - 32) # cs else c # cs))"

fun getter_name :: "string \<Rightarrow> attr list \<Rightarrow> string" where
  "getter_name n [] = n"
| "getter_name n (Getter g # _) = g"
| "getter_name n (_ # as) = getter_name n as"

text \<open>A property declares a getter and, unless it is read-only, a setter.\<close>

fun signatures :: "member \<Rightarrow> method_sig list" where
  "signatures (Property n t as ms) = (Instance, getter_name n as, [], t, ms) #
     (if Readonly \<in> set as then [] else [(Instance, ''set'' @ upper_first n @ '':'', [t], Named ''void'', ms)])"
| "signatures (Instance_Method s ts t ms) = [(Instance, s, ts, t, ms)]"
| "signatures (Class_Method s ts t ms) = [(Class_Level, s, ts, t, ms)]"

definition members_signatures :: "member list \<Rightarrow> method_sig list" where
  "members_signatures ms = concat (map signatures ms)"

definition key :: "method_sig \<Rightarrow> level \<times> string" where
  "key m = (fst m, fst (snd m))"

section \<open>Classes and protocols\<close>

text \<open>
  A framework is its declarations, latest first: a superclass or an adopted protocol comes later in the list
  than its users. The chain of a class are the declarations from it to its last ancestor in the framework.
\<close>

type_synonym framework = "decl list"

fun superclass_chain :: "framework \<Rightarrow> string \<Rightarrow> (string \<times> string \<times> string list \<times> member list) list" where
  "superclass_chain [] c = []"
| "superclass_chain (Class_Decl n s ps ms # F) c =
     (if n = c then (n, s, ps, ms) # superclass_chain F s else superclass_chain F c)"
| "superclass_chain (_ # F) c = superclass_chain F c"

definition ancestors :: "framework \<Rightarrow> string \<Rightarrow> string list" where
  "ancestors F c = c # map (\<lambda>(n, s, ps, ms). s) (superclass_chain F c)"

text \<open>A protocol with all it adopts.\<close>

fun protocol_closure :: "framework \<Rightarrow> string list \<Rightarrow> string list" where
  "protocol_closure [] todo = []"
| "protocol_closure (Protocol_Decl n ps ms os # F) todo =
     (if n \<in> set todo then n # protocol_closure F (ps @ todo) else protocol_closure F todo)"
| "protocol_closure (_ # F) todo = protocol_closure F todo"

definition class_protocols :: "framework \<Rightarrow> string \<Rightarrow> string list" where
  "class_protocols F c = protocol_closure F
     (concat (map (\<lambda>(n, s, ps, ms). ps) (superclass_chain F c)))"

fun protocol_required :: "framework \<Rightarrow> string \<Rightarrow> member list" where
  "protocol_required [] p = []"
| "protocol_required (Protocol_Decl n ps ms os # F) p = (if n = p then ms else protocol_required F p)"
| "protocol_required (_ # F) p = protocol_required F p"

fun protocol_optional :: "framework \<Rightarrow> string \<Rightarrow> member list" where
  "protocol_optional [] p = []"
| "protocol_optional (Protocol_Decl n ps ms os # F) p = (if n = p then os else protocol_optional F p)"
| "protocol_optional (_ # F) p = protocol_optional F p"

fun category_members :: "framework \<Rightarrow> string \<Rightarrow> member list" where
  "category_members [] c = []"
| "category_members (Category_Decl n _ ps ms # F) c = (if n = c then ms @ category_members F c else category_members F c)"
| "category_members (_ # F) c = category_members F c"

text \<open>
  What a class declares along its chain, the class's own declarations and categories before its superclass's,
  and after these the required members of its protocols.
\<close>

definition class_signatures :: "framework \<Rightarrow> string \<Rightarrow> method_sig list" where
  "class_signatures F c = concat (map (\<lambda>(n, s, ps, ms). members_signatures (ms @ category_members F n))
     (superclass_chain F c)) @ members_signatures (concat (map (protocol_required F) (class_protocols F c)))"

definition lookup_method :: "framework \<Rightarrow> string \<Rightarrow> level \<times> string \<Rightarrow> method_sig option" where
  "lookup_method F c k = List.find (\<lambda>m. key m = k) (class_signatures F c)"

definition responds :: "framework \<Rightarrow> string \<Rightarrow> level \<times> string \<Rightarrow> bool" where
  "responds F c k = (k \<in> key ` set (class_signatures F c))"

definition is_subclass :: "framework \<Rightarrow> string \<Rightarrow> string \<Rightarrow> bool" where
  "is_subclass F c d = (d \<in> set (ancestors F c))"

definition conforms :: "framework \<Rightarrow> string \<Rightarrow> string \<Rightarrow> bool" where
  "conforms F c p = (p \<in> set (class_protocols F c))"

section \<open>Types\<close>

text \<open>
  Assignment compatibility: a subclass for its superclass, a class for a protocol it conforms to, a non-null
  for a nullable pointer, generics and block results covariantly, blocks with the same parameters.
  \<open>NSObject\<close> is above every class.
\<close>

fun ty_le :: "framework \<Rightarrow> ty \<Rightarrow> ty \<Rightarrow> bool" where
  "ty_le F (Nullable a) (Nullable b) = ty_le F a b"
| "ty_le F a (Nullable b) = ty_le F a b"
| "ty_le F (Object c ts) (Object d us) = ((d = ''NSObject'' \<or> is_subclass F c d) \<and> list_all2 (ty_le F) ts us)"
| "ty_le F (Object c ts) (Id ps) = list_all (conforms F c) ps"
| "ty_le F (Id ps) (Id qs) = list_all (\<lambda>q. q \<in> set (protocol_closure F ps)) qs"
| "ty_le F (Block as r) (Block bs s) = (as = bs \<and> ty_le F r s)"
| "ty_le F a b = (a = b)"

section \<open>Well-formed frameworks\<close>

text \<open>The names of the framework's classes a list of declarations defines.\<close>

fun class_names :: "framework \<Rightarrow> string list" where
  "class_names [] = []"
| "class_names (Class_Decl n _ _ _ # F) = n # class_names F"
| "class_names (_ # F) = class_names F"

fun protocol_names :: "framework \<Rightarrow> string list" where
  "protocol_names [] = []"
| "protocol_names (Protocol_Decl n _ _ _ # F) = n # protocol_names F"
| "protocol_names (_ # F) = protocol_names F"

text \<open>
  Hierarchies come in order: a superclass or an adopted protocol of the framework is declared before its
  users, and a category extends a class of the framework.
\<close>

fun hierarchy_ordered :: "framework \<Rightarrow> bool" where
  "hierarchy_ordered [] = True"
| "hierarchy_ordered (Class_Decl n s ps ms # F) =
     ((if starts_with ''RTC'' s then s \<in> set (class_names F) else True) \<and>
      list_all (\<lambda>p. if starts_with ''RTC'' p then p \<in> set (protocol_names F) else True) ps \<and> hierarchy_ordered F)"
| "hierarchy_ordered (Protocol_Decl n ps ms os # F) =
     (list_all (\<lambda>p. if starts_with ''RTC'' p then p \<in> set (protocol_names F) else True) ps \<and> hierarchy_ordered F)"
| "hierarchy_ordered (Category_Decl c n ps ms # F) =
     ((if starts_with ''RTC'' c then c \<in> set (class_names F) else True) \<and> hierarchy_ordered F)"
| "hierarchy_ordered (_ # F) = hierarchy_ordered F"

text \<open>No level and selector is declared twice in one interface.\<close>

fun members_of :: "decl \<Rightarrow> member list" where
  "members_of (Class_Decl _ _ _ ms) = ms"
| "members_of (Protocol_Decl _ _ ms os) = ms @ os"
| "members_of (Category_Decl _ _ _ ms) = ms"
| "members_of _ = []"

definition selectors_distinct :: "decl \<Rightarrow> bool" where
  "selectors_distinct d = distinct (map key (members_signatures (members_of d)))"

text \<open>Types of a selector: one type per colon.\<close>

definition colons :: "string \<Rightarrow> nat" where
  "colons s = length (filter (\<lambda>c. c = CHR '':'') s)"

definition arity_ok :: "method_sig \<Rightarrow> bool" where
  "arity_ok m = (case m of (l, s, ts, t, ms) \<Rightarrow> length ts = colons s)"

section \<open>Facts\<close>

lemma superclass_chain_not_declared: "c \<notin> set (class_names F) \<Longrightarrow> superclass_chain F c = []"
  by (induction F c rule: superclass_chain.induct) auto

lemma superclass_chain_Nil_iff: "superclass_chain F c = [] \<longleftrightarrow> c \<notin> set (class_names F)"
  by (induction F c rule: superclass_chain.induct) auto

definition wf_hierarchy :: "framework \<Rightarrow> bool" where
  "wf_hierarchy F \<longleftrightarrow> distinct (class_names F) \<and> list_all (starts_with ''RTC'') (class_names F) \<and> hierarchy_ordered F"

lemma ancestors_simps [simp]:
  "ancestors [] c = [c]"
  "ancestors (Class_Decl n s ps ms # F) c = (if n = c then c # ancestors F s else ancestors F c)"
  "ancestors (Protocol_Decl n ps ms os # F) c = ancestors F c"
  "ancestors (Category_Decl n e ps ms # F) c = ancestors F c"
  "ancestors (Enum_Decl n u cs # F) c = ancestors F c"
  "ancestors (Typedef_Decl n t # F) c = ancestors F c"
  "ancestors (Constant_Decl n t # F) c = ancestors F c"
  "ancestors (Function_Decl n ts t marks # F) c = ancestors F c"
  by (simp_all add: ancestors_def)

lemma ancestor_declared:
  "hierarchy_ordered F \<Longrightarrow> d \<in> set (ancestors F c) \<Longrightarrow> d \<noteq> c \<Longrightarrow> starts_with ''RTC'' d \<Longrightarrow> d \<in> set (class_names F)"
proof (induction F c rule: superclass_chain.induct)
  case (2 n s ps ms F c)
  then show ?case by (cases "d = s") (auto split: if_splits)
qed auto

text \<open>
  The chain of an ancestor is a part of the chain of the class, so whatever instances of a superclass
  respond to those of a subclass do.
\<close>

lemma chain_of_ancestor:
  assumes "wf_hierarchy F" and "d \<in> set (ancestors F c)"
  shows "set (superclass_chain F d) \<subseteq> set (superclass_chain F c)"
  using assms
proof (induction F c rule: superclass_chain.induct)
  case (2 n s ps ms F c)
  have wf: "wf_hierarchy F" and n: "n \<notin> set (class_names F)" "starts_with ''RTC'' n" and ord: "hierarchy_ordered F"
    using "2.prems"(1) by (auto simp: wf_hierarchy_def)
  show ?case
  proof (cases "n = c")
    case True
    show ?thesis
    proof (cases "d = c")
      case False
      then have d: "d \<in> set (ancestors F s)"
        using True "2.prems"(2) by simp
      then have "set (superclass_chain F d) \<subseteq> set (superclass_chain F s)"
        by (rule "2.IH"(1) [OF True wf])
      with True False show ?thesis by auto
    qed simp
  next
    case False
    then have d: "d \<in> set (ancestors F c)"
      using "2.prems"(2) by simp
    then have ih: "set (superclass_chain F d) \<subseteq> set (superclass_chain F c)"
      by (rule "2.IH"(2) [OF False wf])
    show ?thesis
    proof (cases "n = d")
      case True
      with False have "d \<in> set (class_names F)"
        using ancestor_declared [OF ord d] n(2) by auto
      with True n(1) show ?thesis by simp
    qed (use False ih in auto)
  qed
qed (auto simp: wf_hierarchy_def)

text \<open>The ancestors of a class are all different and end in those of each of them: no class is above itself.\<close>

lemma distinct_ancestors: "wf_hierarchy F \<Longrightarrow> distinct (ancestors F c)"
proof (induction F c rule: superclass_chain.induct)
  case (2 n s ps ms F c)
  have wf: "wf_hierarchy F" and n: "n \<notin> set (class_names F)" "starts_with ''RTC'' n"
    and ord: "hierarchy_ordered F" "starts_with ''RTC'' s \<Longrightarrow> s \<in> set (class_names F)"
    using "2.prems" by (auto simp: wf_hierarchy_def split: if_splits)
  have "n \<notin> set (ancestors F s)"
    using ancestor_declared [OF ord(1), of n s] n ord(2) by auto
  then show ?case using "2.IH" wf by auto
qed (auto simp: wf_hierarchy_def)

lemma ancestors_suffix: "wf_hierarchy F \<Longrightarrow> d \<in> set (ancestors F c) \<Longrightarrow> \<exists>cs. ancestors F c = cs @ ancestors F d"
proof (induction F c rule: superclass_chain.induct)
  case (2 n s ps ms F c)
  have wf: "wf_hierarchy F" and n: "n \<notin> set (class_names F)" "starts_with ''RTC'' n"
    and ord: "hierarchy_ordered F" "starts_with ''RTC'' s \<Longrightarrow> s \<in> set (class_names F)"
    using "2.prems"(1) by (auto simp: wf_hierarchy_def split: if_splits)
  have anc: "n \<notin> set (ancestors F x)" if "x \<noteq> n" for x
    using ancestor_declared [OF ord(1), of n x] n that by auto
  have sn: "s \<noteq> n" using n ord(2) by auto
  show ?case
  proof (cases "d = c")
    case False
    show ?thesis
    proof (cases "n = c")
      case True
      then have d: "d \<in> set (ancestors F s)" "d \<noteq> n" using "2.prems"(2) False by auto
      then show ?thesis using "2.IH"(1) [OF True wf d(1)] True by auto
    next
      case nc: False
      then have d: "d \<in> set (ancestors F c)" using "2.prems"(2) by simp
      then have "d \<noteq> n" using anc nc by auto
      then show ?thesis using "2.IH"(2) [OF nc wf d] nc by simp
    qed
  qed auto
qed (auto simp: wf_hierarchy_def)

lemma protocol_closure_mono: "set ps \<subseteq> set qs \<Longrightarrow> set (protocol_closure F ps) \<subseteq> set (protocol_closure F qs)"
proof (induction F ps arbitrary: qs rule: protocol_closure.induct)
  case (2 n ps ms os F todo)
  show ?case
  proof (cases "n \<in> set todo")
    case True
    then have "n \<in> set qs" using "2.prems" by blast
    moreover have "set (protocol_closure F (ps @ todo)) \<subseteq> set (protocol_closure F (ps @ qs))"
      using "2.prems" by (intro "2.IH"(1) [OF True]) auto
    ultimately show ?thesis using True by auto
  next
    case False
    have "set (protocol_closure F todo) \<subseteq> set (protocol_closure F (ps @ qs))"
      using "2.prems" by (intro "2.IH"(2) [OF False]) auto
    moreover have "set (protocol_closure F todo) \<subseteq> set (protocol_closure F qs)"
      using "2.prems" by (intro "2.IH"(2) [OF False])
    ultimately show ?thesis using False by auto
  qed
qed auto

lemma class_protocols_of_ancestor:
  assumes "wf_hierarchy F" and "d \<in> set (ancestors F c)"
  shows "set (class_protocols F d) \<subseteq> set (class_protocols F c)"
  unfolding class_protocols_def
  by (rule protocol_closure_mono) (use chain_of_ancestor [OF assms] in auto)

lemma members_signatures_set: "set (members_signatures ms) = (\<Union>m \<in> set ms. set (signatures m))"
  by (simp add: members_signatures_def)

lemma class_signatures_of_ancestor:
  assumes "wf_hierarchy F" and "d \<in> set (ancestors F c)"
  shows "set (class_signatures F d) \<subseteq> set (class_signatures F c)"
  using chain_of_ancestor [OF assms] class_protocols_of_ancestor [OF assms]
proof -
  have UN: "(\<Union>x \<in> A. f x) \<subseteq> (\<Union>x \<in> B. f x)" if "A \<subseteq> B" for A B :: "'x set" and f :: "'x \<Rightarrow> 'y set"
    using that by blast
  have sigs: "set (class_signatures F e) =
      (\<Union>x \<in> set (superclass_chain F e). case x of (n, s, ps, ms) \<Rightarrow> set (members_signatures (ms @ category_members F n))) \<union>
      (\<Union>p \<in> set (class_protocols F e). \<Union>m \<in> set (protocol_required F p). set (signatures m))" for e
    by (auto simp: class_signatures_def members_signatures_set)
  show ?thesis unfolding sigs
    by (rule Un_mono UN chain_of_ancestor [OF assms] class_protocols_of_ancestor [OF assms])+
qed

lemma responds_of_ancestor:
  "wf_hierarchy F \<Longrightarrow> is_subclass F c d \<Longrightarrow> responds F d k \<Longrightarrow> responds F c k"
  using class_signatures_of_ancestor unfolding responds_def is_subclass_def by blast

lemma conforms_of_ancestor: "wf_hierarchy F \<Longrightarrow> is_subclass F c d \<Longrightarrow> conforms F d p \<Longrightarrow> conforms F c p"
  using class_protocols_of_ancestor unfolding conforms_def is_subclass_def by blast

lemma is_subclass_refl [simp]: "is_subclass F c c"
  by (simp add: is_subclass_def ancestors_def)

lemma is_subclass_trans:
  assumes "wf_hierarchy F" and "is_subclass F c d" and "is_subclass F d e"
  shows "is_subclass F c e"
proof (cases "e = d")
  case False
  then have "e \<in> (\<lambda>(n, s, ps, ms). s) ` set (superclass_chain F d)"
    using assms(3) by (simp add: is_subclass_def ancestors_def)
  moreover have "set (superclass_chain F d) \<subseteq> set (superclass_chain F c)"
    using chain_of_ancestor [OF assms(1)] assms(2) by (simp add: is_subclass_def)
  ultimately have "e \<in> (\<lambda>(n, s, ps, ms). s) ` set (superclass_chain F c)"
    by (rule image_mono [THEN subsetD, rotated])
  then show ?thesis by (simp add: is_subclass_def ancestors_def)
qed (use assms in simp)

lemma is_subclass_antisym: "wf_hierarchy F \<Longrightarrow> is_subclass F c d \<Longrightarrow> is_subclass F d c \<Longrightarrow> c = d"
proof -
  assume wf: "wf_hierarchy F" and "is_subclass F c d" "is_subclass F d c"
  then obtain xs ys where "ancestors F c = xs @ ancestors F d" "ancestors F d = ys @ ancestors F c"
    using ancestors_suffix by (metis is_subclass_def)
  then have "ancestors F c = ancestors F d" by (metis append_self_conv2 append_assoc append_is_Nil_conv)
  then show ?thesis by (simp add: ancestors_def)
qed

lemma lookup_method_iff: "(\<exists>m. lookup_method F c k = Some m) \<longleftrightarrow> responds F c k"
proof -
  have "lookup_method F c k = None \<longleftrightarrow> \<not> responds F c k"
    unfolding lookup_method_def responds_def find_None_iff by blast
  then show ?thesis by (cases "lookup_method F c k") auto
qed

text \<open>A raw value decodes to the constant that has it.\<close>

lemma raw_value_roundtrip:
  assumes "distinct (map snd (filter (\<lambda>(c, w). c \<notin> set (enum_aliases d)) (enum_constants d)))"
    and "raw_value d c = Some v" and "c \<notin> set (enum_aliases d)"
  shows "of_raw_value d v = Some c"
proof -
  have mem: "(c, v) \<in> set (enum_constants d)"
    using assms(2) by (simp add: raw_value_def map_of_SomeD)
  then have "List.find (\<lambda>(c, w). w = v \<and> c \<notin> set (enum_aliases d)) (enum_constants d) \<noteq> None"
    using assms(3) by (auto simp: find_None_iff)
  then obtain e w where f: "List.find (\<lambda>(c, w). w = v \<and> c \<notin> set (enum_aliases d)) (enum_constants d) = Some (e, w)"
    by auto
  then have e: "(e, v) \<in> set (enum_constants d)" "e \<notin> set (enum_aliases d)" "w = v"
    by (auto simp: find_Some_iff in_set_conv_nth)
  have "inj_on snd (set (filter (\<lambda>(c, w). c \<notin> set (enum_aliases d)) (enum_constants d)))"
    using assms(1) by (simp add: distinct_map)
  then have "(e, v) = (c, v)"
    by (rule inj_onD) (use e mem assms(3) in auto)
  with f show ?thesis by (simp add: of_raw_value_def)
qed

section \<open>Checks of one header\<close>

definition enum_ok :: "decl \<Rightarrow> bool" where
  "enum_ok d \<longleftrightarrow> distinct (map fst (enum_constants d)) \<and>
     distinct (map snd (filter (\<lambda>(c, w). c \<notin> set (enum_aliases d)) (enum_constants d)))"

definition decl_ok :: "decl \<Rightarrow> bool" where
  "decl_ok d \<longleftrightarrow> selectors_distinct d \<and> list_all arity_ok (members_signatures (members_of d)) \<and> enum_ok d"

definition header_ok :: "header \<Rightarrow> bool" where
  "header_ok h \<longleftrightarrow> list_all decl_ok (header_decls False h)"

lemma header_decls_tv: "set (header_decls True h) \<subseteq> set (header_decls False h)"
  by (cases h; rename_tac n g incs hs fs ds; case_tac g) auto

text \<open>The facts that hold of each header of the framework by evaluation.\<close>

named_theorems header_decls_eqs \<open>the declarations of the headers\<close>

named_theorems header_checks \<open>header_ok and resolves of the headers\<close>

section \<open>Skeletons\<close>

text \<open>
  Interfaces without their members, which is all that matters for hierarchies; a framework's skeleton is
  that of its headers, the last one first.
\<close>

fun skeleton :: "decl \<Rightarrow> decl list" where
  "skeleton (Class_Decl n s ps ms) = [Class_Decl n s ps []]"
| "skeleton (Protocol_Decl n ps ms os) = [Protocol_Decl n ps [] []]"
| "skeleton (Category_Decl c n ps ms) = [Category_Decl c n ps []]"
| "skeleton (Enum_Decl _ _ _) = []"
| "skeleton (Typedef_Decl _ _) = []"
| "skeleton (Constant_Decl _ _) = []"
| "skeleton (Function_Decl _ _ _ _) = []"

definition framework_of :: "header list \<Rightarrow> framework" where
  "framework_of hs = rev (concat (map (header_decls True) hs))"

definition header_skeleton :: "header \<Rightarrow> decl list" where
  "header_skeleton h = concat (map skeleton (rev (header_decls True h)))"

lemma class_names_skeleton: "class_names (concat (map skeleton F)) = class_names F"
  by (induction F rule: class_names.induct) auto

lemma protocol_names_skeleton: "protocol_names (concat (map skeleton F)) = protocol_names F"
  by (induction F rule: protocol_names.induct) auto

lemma hierarchy_ordered_skeleton: "hierarchy_ordered (concat (map skeleton F)) = hierarchy_ordered F"
  by (induction F rule: hierarchy_ordered.induct)
    (simp_all add: class_names_skeleton protocol_names_skeleton)

lemma framework_skeleton:
  "concat (map skeleton (framework_of hs)) = concat (map header_skeleton (rev hs))"
  by (induction hs) (simp_all add: framework_of_def header_skeleton_def)

lemma wf_hierarchy_skeleton: "wf_hierarchy F = wf_hierarchy (concat (map skeleton F))"
  by (simp add: wf_hierarchy_def class_names_skeleton hierarchy_ordered_skeleton)

section \<open>Looking up in a well-formed framework\<close>

lemma class_declared: "Class_Decl c s ps ms \<in> set F \<Longrightarrow> c \<in> set (class_names F)"
  by (induction F rule: class_names.induct) auto

lemma superclass_declared:
  "hierarchy_ordered F \<Longrightarrow> Class_Decl c s ps ms \<in> set F \<Longrightarrow> starts_with ''RTC'' s \<Longrightarrow> s \<in> set (class_names F)"
  by (induction F rule: class_names.induct) (auto split: if_splits)

lemma superclass_chain_skip:
  "n \<noteq> s \<Longrightarrow> superclass_chain (Class_Decl n t ps ms # F) s = superclass_chain F s"
  by simp

lemma superclass_chain_declared:
  "wf_hierarchy F \<Longrightarrow> Class_Decl c s ps ms \<in> set F \<Longrightarrow>
     superclass_chain F c = (c, s, ps, ms) # superclass_chain F s"
proof (induction F rule: class_names.induct)
  case (2 n t qs ns F)
  have wf: "wf_hierarchy F" and n: "n \<notin> set (class_names F)" "starts_with ''RTC'' n"
    and ord: "hierarchy_ordered (Class_Decl n t qs ns # F)"
    using "2.prems"(1) by (auto simp: wf_hierarchy_def)
  have ordF: "hierarchy_ordered F" using ord by simp
  show ?case
  proof (cases "Class_Decl c s ps ms = Class_Decl n t qs ns")
    case True
    have "s \<noteq> n"
    proof
      assume "s = n"
      with n(2) True ord have "n \<in> set (class_names F)" by (simp split: if_splits)
      with n(1) show False by simp
    qed
    with True show ?thesis by simp
  next
    case False
    then have mem: "Class_Decl c s ps ms \<in> set F" using "2.prems"(2) by auto
    then have "c \<noteq> n" using class_declared n(1) by blast
    moreover have "s \<noteq> n" using superclass_declared [OF ordF mem] n by blast
    ultimately show ?thesis using "2.IH" [OF wf mem] by simp
  qed
qed (auto simp: wf_hierarchy_def)

lemma lookup_own:
  assumes "superclass_chain F c = (c, s, ps, ms) # rest"
    and "List.find (\<lambda>m. key m = k) (members_signatures ms) = Some m"
  shows "lookup_method F c k = Some m"
proof -
  have app: "List.find P (xs @ ys) = (case List.find P xs of Some y \<Rightarrow> Some y | None \<Rightarrow> List.find P ys)" for P :: "method_sig \<Rightarrow> bool" and xs ys
    by (induction xs) auto
  show ?thesis
    using assms by (simp add: lookup_method_def class_signatures_def members_signatures_def app)
qed

lemma protocol_closure_mem:
  "p \<in> set todo \<Longrightarrow> p \<in> set (protocol_names F) \<Longrightarrow> p \<in> set (protocol_closure F todo)"
  by (induction F todo rule: protocol_closure.induct) auto

lemma conforms_declared:
  assumes "(n, s, ps, ms) \<in> set (superclass_chain F c)" and "p \<in> set ps" and "p \<in> set (protocol_names F)"
  shows "conforms F c p"
  unfolding conforms_def class_protocols_def
  by (rule protocol_closure_mem) (use assms in force)+

lemma protocol_required_declared:
  "distinct (protocol_names F) \<Longrightarrow> Protocol_Decl p ps ms os \<in> set F \<Longrightarrow> protocol_required F p = ms"
proof (induction F rule: protocol_names.induct)
  case (2 n qs ns ns' F)
  have mem: "Protocol_Decl p ps ms os \<in> set F \<Longrightarrow> p \<in> set (protocol_names F)"
    by (induction F rule: protocol_names.induct) auto
  show ?case using 2 mem by auto
qed auto

lemma framework_of_mem: "h \<in> set hs \<Longrightarrow> d \<in> set (header_decls True h) \<Longrightarrow> d \<in> set (framework_of hs)"
  by (auto simp: framework_of_def)

end
