(* ===== verification/Webrtc_Base.thy ===== *)
theory Webrtc_Base imports Objc_Decl begin

text \<open>
  The headers of the framework's services: logging, tracing, metrics and field trials, dispatch
  queues, the audio device and the audio session, certificates and crypto options. One definition
  per declaration and one per header, in the order of the headers' imports; \<open>_class\<close>,
  \<open>_protocol\<close> and \<open>_enum\<close> keep apart what the language keeps apart. The
  headers are those of the \<open>tvos-arm64\<close> slice of \<open>WebRTC.xcframework\<close>; the
  simulator slice has the same files.
\<close>

section \<open>\<open>RTCMacros.h\<close>\<close>

definition RTCMacros_h :: header where
  "RTCMacros_h = Header ''RTCMacros.h'' Always [] [] [] []"

section \<open>\<open>RTCAudioDevice.h\<close>\<close>

definition RTCAudioDevice_typedefs :: "decl list" where
  "RTCAudioDevice_typedefs =
     [Typedef_Decl ''RTCAudioDeviceGetPlayoutDataBlock'' (Block [Ptr (Named ''AudioUnitRenderActionFlags''),
         Ptr (Named ''AudioTimeStamp''), Named ''NSInteger'', Named ''UInt32'', Ptr (Named
             ''AudioBufferList'')] (Named ''OSStatus'')),
      Typedef_Decl ''RTCAudioDeviceRenderRecordedDataBlock'' (Block [Ptr (Named
          ''AudioUnitRenderActionFlags''), Ptr (Named ''AudioTimeStamp''), Named ''NSInteger'', Named
              ''UInt32'', Ptr (Named ''AudioBufferList''), Nullable (Ptr (Named ''void''))] (Named
                  ''OSStatus'')),
      Typedef_Decl ''RTCAudioDeviceDeliverRecordedDataBlock'' (Block [Ptr (Named
          ''AudioUnitRenderActionFlags''), Ptr (Named ''AudioTimeStamp''), Named ''NSInteger'', Named
              ''UInt32'', Nullable (Ptr (Named ''AudioBufferList'')), Nullable (Ptr (Named ''void'')), Nullable
                  (Named ''RTCAudioDeviceRenderRecordedDataBlock'')] (Named ''OSStatus''))]"

definition RTCAudioDeviceDelegate_required :: "member list" where
  "RTCAudioDeviceDelegate_required =
     [Property ''deliverRecordedData'' (Named ''RTCAudioDeviceDeliverRecordedDataBlock'') [Readonly] [],
      Property ''preferredInputSampleRate'' (Named ''double'') [Readonly] [],
      Property ''preferredInputIOBufferDuration'' (Named ''NSTimeInterval'') [Readonly] [],
      Property ''preferredOutputSampleRate'' (Named ''double'') [Readonly] [],
      Property ''preferredOutputIOBufferDuration'' (Named ''NSTimeInterval'') [Readonly] [],
      Property ''getPlayoutData'' (Named ''RTCAudioDeviceGetPlayoutDataBlock'') [Readonly] [],
      Instance_Method ''notifyAudioInputParametersChange'' [] (Named ''void'') [],
      Instance_Method ''notifyAudioOutputParametersChange'' [] (Named ''void'') [],
      Instance_Method ''notifyAudioInputInterrupted'' [] (Named ''void'') [],
      Instance_Method ''notifyAudioOutputInterrupted'' [] (Named ''void'') [],
      Instance_Method ''dispatchAsync:'' [Named ''dispatch_block_t''] (Named ''void'') [],
      Instance_Method ''dispatchSync:'' [Named ''dispatch_block_t''] (Named ''void'') []]"

definition RTCAudioDeviceDelegate_protocol :: decl where
  "RTCAudioDeviceDelegate_protocol =
     Protocol_Decl ''RTCAudioDeviceDelegate'' [''NSObject'']
     RTCAudioDeviceDelegate_required
     []"

definition RTCAudioDevice_protocol_members_1 :: "member list" where
  "RTCAudioDevice_protocol_members_1 =
     [Property ''deviceInputSampleRate'' (Named ''double'') [Readonly] [],
      Property ''inputIOBufferDuration'' (Named ''NSTimeInterval'') [Readonly] [],
      Property ''inputNumberOfChannels'' (Named ''NSInteger'') [Readonly] [],
      Property ''inputLatency'' (Named ''NSTimeInterval'') [Readonly] [],
      Property ''deviceOutputSampleRate'' (Named ''double'') [Readonly] [],
      Property ''outputIOBufferDuration'' (Named ''NSTimeInterval'') [Readonly] [],
      Property ''outputNumberOfChannels'' (Named ''NSInteger'') [Readonly] [],
      Property ''outputLatency'' (Named ''NSTimeInterval'') [Readonly] [],
      Property ''isInitialized'' (Named ''BOOL'') [Readonly] [],
      Instance_Method ''initializeWithDelegate:'' [Id [''RTCAudioDeviceDelegate'']] (Named ''BOOL'') [],
      Instance_Method ''terminateDevice'' [] (Named ''BOOL'') [],
      Property ''isPlayoutInitialized'' (Named ''BOOL'') [Readonly] [],
      Instance_Method ''initializePlayout'' [] (Named ''BOOL'') [],
      Property ''isPlaying'' (Named ''BOOL'') [Readonly] [],
      Instance_Method ''startPlayout'' [] (Named ''BOOL'') [],
      Instance_Method ''stopPlayout'' [] (Named ''BOOL'') [],
      Property ''isRecordingInitialized'' (Named ''BOOL'') [Readonly] []]"

definition RTCAudioDevice_protocol_members_2 :: "member list" where
  "RTCAudioDevice_protocol_members_2 =
     [Instance_Method ''initializeRecording'' [] (Named ''BOOL'') [],
      Property ''isRecording'' (Named ''BOOL'') [Readonly] [],
      Instance_Method ''startRecording'' [] (Named ''BOOL'') [],
      Instance_Method ''stopRecording'' [] (Named ''BOOL'') []]"

definition RTCAudioDevice_protocol :: decl where
  "RTCAudioDevice_protocol =
     Protocol_Decl ''RTCAudioDevice'' [''NSObject'']
     (RTCAudioDevice_protocol_members_1 @ RTCAudioDevice_protocol_members_2)
     []"

definition RTCAudioDevice_h :: header where
  "RTCAudioDevice_h =
     Header ''RTCAudioDevice.h'' Always [''AudioUnit/AudioUnit.h'', ''Foundation/Foundation.h'']
     [RTCMacros_h]
     []
     (RTCAudioDevice_typedefs @ [RTCAudioDeviceDelegate_protocol, RTCAudioDevice_protocol])"

section \<open>\<open>RTCAudioSession.h\<close>\<close>

definition RTCAudioSession_constants :: "decl list" where
  "RTCAudioSession_constants =
     [Constant_Decl ''kRTCAudioSessionErrorDomain'' (Object ''NSString'' []),
      Constant_Decl ''kRTCAudioSessionErrorLockRequired'' (Named ''NSInteger''),
      Constant_Decl ''kRTCAudioSessionErrorConfiguration'' (Named ''NSInteger'')]"

definition RTCAudioSessionDelegate_optional :: "member list" where
  "RTCAudioSessionDelegate_optional =
     [Instance_Method ''audioSessionDidBeginInterruption:'' [Object ''RTCAudioSession'' []] (Named ''void'') [],
      Instance_Method ''audioSessionDidEndInterruption:shouldResumeSession:'' [Object ''RTCAudioSession'' [],
          Named ''BOOL''] (Named ''void'') [],
      Instance_Method ''audioSessionDidChangeRoute:reason:previousRoute:'' [Object ''RTCAudioSession'' [],
          Named ''AVAudioSessionRouteChangeReason'', Object ''AVAudioSessionRouteDescription'' []] (Named
              ''void'') [],
      Instance_Method ''audioSessionMediaServerTerminated:'' [Object ''RTCAudioSession'' []] (Named ''void'')
          [],
      Instance_Method ''audioSessionMediaServerReset:'' [Object ''RTCAudioSession'' []] (Named ''void'') [],
      Instance_Method ''audioSession:didChangeCanPlayOrRecord:'' [Object ''RTCAudioSession'' [], Named
          ''BOOL''] (Named ''void'') [],
      Instance_Method ''audioSessionDidStartPlayOrRecord:'' [Object ''RTCAudioSession'' []] (Named ''void'') [],
      Instance_Method ''audioSessionDidStopPlayOrRecord:'' [Object ''RTCAudioSession'' []] (Named ''void'') [],
      Instance_Method ''audioSession:didChangeOutputVolume:'' [Object ''RTCAudioSession'' [], Named ''float'']
          (Named ''void'') [],
      Instance_Method ''audioSession:didDetectPlayoutGlitch:'' [Object ''RTCAudioSession'' [], Named
          ''int64_t''] (Named ''void'') [],
      Instance_Method ''audioSession:willSetActive:'' [Object ''RTCAudioSession'' [], Named ''BOOL''] (Named
          ''void'') [],
      Instance_Method ''audioSession:didSetActive:'' [Object ''RTCAudioSession'' [], Named ''BOOL''] (Named
          ''void'') [],
      Instance_Method ''audioSession:failedToSetActive:error:'' [Object ''RTCAudioSession'' [], Named ''BOOL'',
          Object ''NSError'' []] (Named ''void'') [],
      Instance_Method ''audioSession:audioUnitStartFailedWithError:'' [Object ''RTCAudioSession'' [], Object
          ''NSError'' []] (Named ''void'') []]"

definition RTCAudioSessionDelegate_protocol :: decl where
  "RTCAudioSessionDelegate_protocol =
     Protocol_Decl ''RTCAudioSessionDelegate'' [''NSObject'']
     []
     RTCAudioSessionDelegate_optional"

definition RTCAudioSessionActivationDelegate_required :: "member list" where
  "RTCAudioSessionActivationDelegate_required =
     [Instance_Method ''audioSessionDidActivate:'' [Object ''AVAudioSession'' []] (Named ''void'') [],
      Instance_Method ''audioSessionDidDeactivate:'' [Object ''AVAudioSession'' []] (Named ''void'') []]"

definition RTCAudioSessionActivationDelegate_protocol :: decl where
  "RTCAudioSessionActivationDelegate_protocol =
     Protocol_Decl ''RTCAudioSessionActivationDelegate'' [''NSObject'']
     RTCAudioSessionActivationDelegate_required
     []"

definition RTCAudioSession_members :: "member list" where
  "RTCAudioSession_members =
     [Property ''session'' (Object ''AVAudioSession'' []) [Nonatomic, Readonly] [],
      Property ''isActive'' (Named ''BOOL'') [Nonatomic, Readonly] [],
      Property ''useManualAudio'' (Named ''BOOL'') [Nonatomic, Assign] [],
      Property ''isAudioEnabled'' (Named ''BOOL'') [Nonatomic, Assign] [],
      Property ''category'' (Object ''NSString'' []) [Readonly] [],
      Property ''categoryOptions'' (Named ''AVAudioSessionCategoryOptions'') [Readonly] [],
      Property ''mode'' (Object ''NSString'' []) [Readonly] [],
      Property ''secondaryAudioShouldBeSilencedHint'' (Named ''BOOL'') [Readonly] [],
      Property ''currentRoute'' (Object ''AVAudioSessionRouteDescription'' []) [Readonly] [],
      Property ''maximumInputNumberOfChannels'' (Named ''NSInteger'') [Readonly] [],
      Property ''maximumOutputNumberOfChannels'' (Named ''NSInteger'') [Readonly] [],
      Property ''inputGain'' (Named ''float'') [Readonly] [],
      Property ''inputGainSettable'' (Named ''BOOL'') [Readonly] [],
      Property ''inputAvailable'' (Named ''BOOL'') [Readonly] [],
      Property ''inputDataSources'' (Nullable (Object ''NSArray'' [Object
          ''AVAudioSessionDataSourceDescription'' []])) [Readonly] [],
      Property ''inputDataSource'' (Nullable (Object ''AVAudioSessionDataSourceDescription'' [])) [Readonly] [],
      Property ''outputDataSources'' (Nullable (Object ''NSArray'' [Object
          ''AVAudioSessionDataSourceDescription'' []])) [Readonly] [],
      Property ''outputDataSource'' (Nullable (Object ''AVAudioSessionDataSourceDescription'' [])) [Readonly]
          [],
      Property ''sampleRate'' (Named ''double'') [Readonly] [],
      Property ''preferredSampleRate'' (Named ''double'') [Readonly] [],
      Property ''inputNumberOfChannels'' (Named ''NSInteger'') [Readonly] [],
      Property ''outputNumberOfChannels'' (Named ''NSInteger'') [Readonly] [],
      Property ''outputVolume'' (Named ''float'') [Readonly] [],
      Property ''inputLatency'' (Named ''NSTimeInterval'') [Readonly] [],
      Property ''outputLatency'' (Named ''NSTimeInterval'') [Readonly] [],
      Property ''IOBufferDuration'' (Named ''NSTimeInterval'') [Readonly] [],
      Property ''preferredIOBufferDuration'' (Named ''NSTimeInterval'') [Readonly] [],
      Property ''ignoresPreferredAttributeConfigurationErrors'' (Named ''BOOL'') [Nonatomic] [],
      Class_Method ''sharedInstance'' [] Instancetype [],
      Instance_Method ''init'' [] Instancetype [Unavailable],
      Instance_Method ''addDelegate:'' [Id [''RTCAudioSessionDelegate'']] (Named ''void'') [],
      Instance_Method ''removeDelegate:'' [Id [''RTCAudioSessionDelegate'']] (Named ''void'') [],
      Instance_Method ''lockForConfiguration'' [] (Named ''void'') [],
      Instance_Method ''unlockForConfiguration'' [] (Named ''void'') [],
      Instance_Method ''setActive:error:'' [Named ''BOOL'', Ptr (Object ''NSError'' [])] (Named ''BOOL'') [],
      Instance_Method ''setCategory:mode:options:error:'' [Named ''AVAudioSessionCategory'', Named
          ''AVAudioSessionMode'', Named ''AVAudioSessionCategoryOptions'', Ptr (Object ''NSError'' [])] (Named
              ''BOOL'') [],
      Instance_Method ''setCategory:withOptions:error:'' [Named ''AVAudioSessionCategory'', Named
          ''AVAudioSessionCategoryOptions'', Ptr (Object ''NSError'' [])] (Named ''BOOL'') [],
      Instance_Method ''setMode:error:'' [Named ''AVAudioSessionMode'', Ptr (Object ''NSError'' [])] (Named
          ''BOOL'') [],
      Instance_Method ''setInputGain:error:'' [Named ''float'', Ptr (Object ''NSError'' [])] (Named ''BOOL'')
          [],
      Instance_Method ''setPreferredSampleRate:error:'' [Named ''double'', Ptr (Object ''NSError'' [])] (Named
          ''BOOL'') [],
      Instance_Method ''setPreferredIOBufferDuration:error:'' [Named ''NSTimeInterval'', Ptr (Object
          ''NSError'' [])] (Named ''BOOL'') [],
      Instance_Method ''setPreferredInputNumberOfChannels:error:'' [Named ''NSInteger'', Ptr (Object
          ''NSError'' [])] (Named ''BOOL'') [],
      Instance_Method ''setPreferredOutputNumberOfChannels:error:'' [Named ''NSInteger'', Ptr (Object
          ''NSError'' [])] (Named ''BOOL'') [],
      Instance_Method ''overrideOutputAudioPort:error:'' [Named ''AVAudioSessionPortOverride'', Ptr (Object
          ''NSError'' [])] (Named ''BOOL'') [],
      Instance_Method ''setPreferredInput:error:'' [Object ''AVAudioSessionPortDescription'' [], Ptr (Object
          ''NSError'' [])] (Named ''BOOL'') [],
      Instance_Method ''setInputDataSource:error:'' [Object ''AVAudioSessionDataSourceDescription'' [], Ptr
          (Object ''NSError'' [])] (Named ''BOOL'') [],
      Instance_Method ''setOutputDataSource:error:'' [Object ''AVAudioSessionDataSourceDescription'' [], Ptr
          (Object ''NSError'' [])] (Named ''BOOL'') []]"

definition RTCAudioSession_class :: decl where
  "RTCAudioSession_class =
     Class_Decl ''RTCAudioSession'' ''NSObject'' [''RTCAudioSessionActivationDelegate'']
     RTCAudioSession_members"

definition RTCAudioSession_Configuration_members :: "member list" where
  "RTCAudioSession_Configuration_members =
     [Instance_Method ''setConfiguration:error:'' [Object ''RTCAudioSessionConfiguration'' [], Ptr (Object
         ''NSError'' [])] (Named ''BOOL'') [],
      Instance_Method ''setConfiguration:active:error:'' [Object ''RTCAudioSessionConfiguration'' [], Named
          ''BOOL'', Ptr (Object ''NSError'' [])] (Named ''BOOL'') []]"

definition RTCAudioSession_Configuration :: decl where
  "RTCAudioSession_Configuration =
     Category_Decl ''RTCAudioSession'' ''Configuration'' []
     RTCAudioSession_Configuration_members"

definition RTCAudioSession_h :: header where
  "RTCAudioSession_h =
     Header ''RTCAudioSession.h'' Not_On_TV [''TargetConditionals.h'', ''AVFoundation/AVFoundation.h'',
         ''Foundation/Foundation.h'']
     [RTCMacros_h]
     [Fwd_Class ''RTCAudioSession'', Fwd_Class ''RTCAudioSessionConfiguration'']
     (RTCAudioSession_constants @ [RTCAudioSessionDelegate_protocol,
         RTCAudioSessionActivationDelegate_protocol, RTCAudioSession_class, RTCAudioSession_Configuration])"

section \<open>\<open>RTCAudioSessionConfiguration.h\<close>\<close>

definition RTCAudioSessionConfiguration_constants :: "decl list" where
  "RTCAudioSessionConfiguration_constants =
     [Constant_Decl ''kRTCAudioSessionPreferredNumberOfChannels'' (Named ''int''),
      Constant_Decl ''kRTCAudioSessionHighPerformanceSampleRate'' (Named ''double''),
      Constant_Decl ''kRTCAudioSessionHighPerformanceIOBufferDuration'' (Named ''double'')]"

definition RTCAudioSessionConfiguration_members :: "member list" where
  "RTCAudioSessionConfiguration_members =
     [Property ''category'' (Object ''NSString'' []) [Nonatomic, Strong] [],
      Property ''categoryOptions'' (Named ''AVAudioSessionCategoryOptions'') [Nonatomic, Assign] [],
      Property ''mode'' (Object ''NSString'' []) [Nonatomic, Strong] [],
      Property ''sampleRate'' (Named ''double'') [Nonatomic, Assign] [],
      Property ''ioBufferDuration'' (Named ''NSTimeInterval'') [Nonatomic, Assign] [],
      Property ''inputNumberOfChannels'' (Named ''NSInteger'') [Nonatomic, Assign] [],
      Property ''outputNumberOfChannels'' (Named ''NSInteger'') [Nonatomic, Assign] [],
      Instance_Method ''init'' [] Instancetype [Designated],
      Class_Method ''currentConfiguration'' [] Instancetype [],
      Class_Method ''webRTCConfiguration'' [] Instancetype [],
      Class_Method ''setWebRTCConfiguration:'' [Object ''RTCAudioSessionConfiguration'' []] (Named ''void'')
          []]"

definition RTCAudioSessionConfiguration_class :: decl where
  "RTCAudioSessionConfiguration_class =
     Class_Decl ''RTCAudioSessionConfiguration'' ''NSObject'' []
     RTCAudioSessionConfiguration_members"

definition RTCAudioSessionConfiguration_h :: header where
  "RTCAudioSessionConfiguration_h =
     Header ''RTCAudioSessionConfiguration.h'' Not_On_TV [''TargetConditionals.h'',
         ''AVFoundation/AVFoundation.h'', ''Foundation/Foundation.h'']
     [RTCMacros_h]
     []
     (RTCAudioSessionConfiguration_constants @ [RTCAudioSessionConfiguration_class])"

section \<open>\<open>RTCLogging.h\<close>\<close>

definition RTCLoggingSeverity_enum :: decl where
  "RTCLoggingSeverity_enum =
     Enum_Decl ''RTCLoggingSeverity'' ''NSInteger''
     [(''RTCLoggingSeverityVerbose'', Auto),
      (''RTCLoggingSeverityInfo'', Auto),
      (''RTCLoggingSeverityWarning'', Auto),
      (''RTCLoggingSeverityError'', Auto),
      (''RTCLoggingSeverityNone'', Auto)]"

definition RTCLogging_functions :: "decl list" where
  "RTCLogging_functions =
     [Function_Decl ''RTCLogEx'' [Named ''RTCLoggingSeverity'', Object ''NSString'' []] (Named ''void'') [],
      Function_Decl ''RTCSetMinDebugLogLevel'' [Named ''RTCLoggingSeverity''] (Named ''void'') [],
      Function_Decl ''RTCFileName'' [Ptr (Named ''char'')] (Object ''NSString'' []) []]"

definition RTCLogging_h :: header where
  "RTCLogging_h =
     Header ''RTCLogging.h'' Always [''Foundation/Foundation.h'']
     [RTCMacros_h]
     []
     ([RTCLoggingSeverity_enum] @ RTCLogging_functions)"

section \<open>\<open>RTCCallbackLogger.h\<close>\<close>

definition RTCCallbackLogger_typedefs :: "decl list" where
  "RTCCallbackLogger_typedefs =
     [Typedef_Decl ''RTCCallbackLoggerMessageHandler'' (Block [Object ''NSString'' []] (Named ''void'')),
      Typedef_Decl ''RTCCallbackLoggerMessageAndSeverityHandler'' (Block [Object ''NSString'' [], Named
          ''RTCLoggingSeverity''] (Named ''void''))]"

definition RTCCallbackLogger_members :: "member list" where
  "RTCCallbackLogger_members =
     [Property ''severity'' (Named ''RTCLoggingSeverity'') [Nonatomic, Assign] [],
      Instance_Method ''start:'' [Nullable (Named ''RTCCallbackLoggerMessageHandler'')] (Named ''void'') [],
      Instance_Method ''startWithMessageAndSeverityHandler:'' [Nullable (Named
          ''RTCCallbackLoggerMessageAndSeverityHandler'')] (Named ''void'') [],
      Instance_Method ''stop'' [] (Named ''void'') []]"

definition RTCCallbackLogger_class :: decl where
  "RTCCallbackLogger_class =
     Class_Decl ''RTCCallbackLogger'' ''NSObject'' []
     RTCCallbackLogger_members"

definition RTCCallbackLogger_h :: header where
  "RTCCallbackLogger_h =
     Header ''RTCCallbackLogger.h'' Always [''Foundation/Foundation.h'']
     [RTCLogging_h, RTCMacros_h]
     []
     (RTCCallbackLogger_typedefs @ [RTCCallbackLogger_class])"

section \<open>\<open>RTCCertificate.h\<close>\<close>

definition RTCCertificate_members :: "member list" where
  "RTCCertificate_members =
     [Property ''private_key'' (Object ''NSString'' []) [Nonatomic, Readonly, Copy] [],
      Property ''certificate'' (Object ''NSString'' []) [Nonatomic, Readonly, Copy] [],
      Instance_Method ''initWithPrivateKey:certificate:'' [Object ''NSString'' [], Object ''NSString'' []]
          Instancetype [Designated],
      Instance_Method ''init'' [] Instancetype [Unavailable],
      Class_Method ''generateCertificateWithParams:'' [Object ''NSDictionary'' []] (Nullable (Object
          ''RTCCertificate'' [])) []]"

definition RTCCertificate_class :: decl where
  "RTCCertificate_class =
     Class_Decl ''RTCCertificate'' ''NSObject'' [''NSCopying'']
     RTCCertificate_members"

definition RTCCertificate_h :: header where
  "RTCCertificate_h =
     Header ''RTCCertificate.h'' Always [''Foundation/Foundation.h'']
     [RTCMacros_h]
     []
     [RTCCertificate_class]"

section \<open>\<open>RTCCryptoOptions.h\<close>\<close>

definition RTCCryptoOptions_members :: "member list" where
  "RTCCryptoOptions_members =
     [Property ''srtpEnableGcmCryptoSuites'' (Named ''BOOL'') [Nonatomic, Assign] [],
      Property ''srtpEnableAes128Sha1_32CryptoCipher'' (Named ''BOOL'') [Nonatomic, Assign] [],
      Property ''srtpEnableEncryptedRtpHeaderExtensions'' (Named ''BOOL'') [Nonatomic, Assign] [],
      Property ''sframeRequireFrameEncryption'' (Named ''BOOL'') [Nonatomic, Assign] [],
      Instance_Method
          ''initWithSrtpEnableGcmCryptoSuites:srtpEnableAes128Sha1_32CryptoCipher:srtpEnableEncryptedRtpHeaderExtensions:sframeRequireFrameEncryption:'' [Named ''BOOL'', Named ''BOOL'', Named ''BOOL'', Named ''BOOL''] Instancetype [Designated],
      Instance_Method ''init'' [] Instancetype [Unavailable]]"

definition RTCCryptoOptions_class :: decl where
  "RTCCryptoOptions_class =
     Class_Decl ''RTCCryptoOptions'' ''NSObject'' []
     RTCCryptoOptions_members"

definition RTCCryptoOptions_h :: header where
  "RTCCryptoOptions_h =
     Header ''RTCCryptoOptions.h'' Always [''Foundation/Foundation.h'']
     [RTCMacros_h]
     []
     [RTCCryptoOptions_class]"

section \<open>\<open>RTCDispatcher.h\<close>\<close>

definition RTCDispatcherQueueType_enum :: decl where
  "RTCDispatcherQueueType_enum =
     Enum_Decl ''RTCDispatcherQueueType'' ''NSInteger''
     [(''RTCDispatcherTypeMain'', Auto),
      (''RTCDispatcherTypeCaptureSession'', Auto),
      (''RTCDispatcherTypeAudioSession'', Auto),
      (''RTCDispatcherTypeNetworkMonitor'', Auto)]"

definition RTCDispatcher_members :: "member list" where
  "RTCDispatcher_members =
     [Instance_Method ''init'' [] Instancetype [Unavailable],
      Class_Method ''dispatchAsyncOnType:block:'' [Named ''RTCDispatcherQueueType'', Named
          ''dispatch_block_t''] (Named ''void'') [],
      Class_Method ''isOnQueueForType:'' [Named ''RTCDispatcherQueueType''] (Named ''BOOL'') []]"

definition RTCDispatcher_class :: decl where
  "RTCDispatcher_class =
     Class_Decl ''RTCDispatcher'' ''NSObject'' []
     RTCDispatcher_members"

definition RTCDispatcher_h :: header where
  "RTCDispatcher_h =
     Header ''RTCDispatcher.h'' Always [''Foundation/Foundation.h'']
     [RTCMacros_h]
     []
     [RTCDispatcherQueueType_enum, RTCDispatcher_class]"

section \<open>\<open>RTCFieldTrials.h\<close>\<close>

definition RTCFieldTrials_constants :: "decl list" where
  "RTCFieldTrials_constants =
     [Constant_Decl ''kRTCFieldTrialAudioForceABWENoTWCCKey'' (Object ''NSString'' []),
      Constant_Decl ''kRTCFieldTrialFlexFec03AdvertisedKey'' (Object ''NSString'' []),
      Constant_Decl ''kRTCFieldTrialFlexFec03Key'' (Object ''NSString'' []),
      Constant_Decl ''kRTCFieldTrialH264HighProfileKey'' (Object ''NSString'' []),
      Constant_Decl ''kRTCFieldTrialMinimizeResamplingOnMobileKey'' (Object ''NSString'' []),
      Constant_Decl ''kRTCFieldTrialUseNWPathMonitor'' (Object ''NSString'' []),
      Constant_Decl ''kRTCFieldTrialEnabledValue'' (Object ''NSString'' [])]"

definition RTCFieldTrials_functions :: "decl list" where
  "RTCFieldTrials_functions =
     [Function_Decl ''RTCInitFieldTrialDictionary'' [Object ''NSDictionary'' [Object ''NSString'' [], Object
         ''NSString'' []]] (Named ''void'') [Deprecated]]"

definition RTCFieldTrials_h :: header where
  "RTCFieldTrials_h =
     Header ''RTCFieldTrials.h'' Always [''Foundation/Foundation.h'']
     [RTCMacros_h]
     []
     (RTCFieldTrials_constants @ RTCFieldTrials_functions)"

section \<open>\<open>RTCFileLogger.h\<close>\<close>

definition RTCFileLoggerSeverity_enum :: decl where
  "RTCFileLoggerSeverity_enum =
     Enum_Decl ''RTCFileLoggerSeverity'' ''NSUInteger''
     [(''RTCFileLoggerSeverityVerbose'', Auto),
      (''RTCFileLoggerSeverityInfo'', Auto),
      (''RTCFileLoggerSeverityWarning'', Auto),
      (''RTCFileLoggerSeverityError'', Auto)]"

definition RTCFileLoggerRotationType_enum :: decl where
  "RTCFileLoggerRotationType_enum =
     Enum_Decl ''RTCFileLoggerRotationType'' ''NSUInteger''
     [(''RTCFileLoggerTypeCall'', Auto),
      (''RTCFileLoggerTypeApp'', Auto)]"

definition RTCFileLogger_members :: "member list" where
  "RTCFileLogger_members =
     [Property ''severity'' (Named ''RTCFileLoggerSeverity'') [Nonatomic, Assign] [],
      Property ''rotationType'' (Named ''RTCFileLoggerRotationType'') [Nonatomic, Readonly] [],
      Property ''shouldDisableBuffering'' (Named ''BOOL'') [Nonatomic, Assign] [],
      Instance_Method ''init'' [] Instancetype [],
      Instance_Method ''initWithDirPath:maxFileSize:'' [Object ''NSString'' [], Named ''NSUInteger'']
          Instancetype [],
      Instance_Method ''initWithDirPath:maxFileSize:rotationType:'' [Object ''NSString'' [], Named
          ''NSUInteger'', Named ''RTCFileLoggerRotationType''] Instancetype [Designated],
      Instance_Method ''start'' [] (Named ''void'') [],
      Instance_Method ''stop'' [] (Named ''void'') [],
      Instance_Method ''logData'' [] (Nullable (Object ''NSData'' [])) []]"

definition RTCFileLogger_class :: decl where
  "RTCFileLogger_class =
     Class_Decl ''RTCFileLogger'' ''NSObject'' []
     RTCFileLogger_members"

definition RTCFileLogger_h :: header where
  "RTCFileLogger_h =
     Header ''RTCFileLogger.h'' Always [''Foundation/Foundation.h'']
     [RTCMacros_h]
     []
     [RTCFileLoggerSeverity_enum, RTCFileLoggerRotationType_enum, RTCFileLogger_class]"

section \<open>\<open>RTCMetricsSampleInfo.h\<close>\<close>

definition RTCMetricsSampleInfo_members :: "member list" where
  "RTCMetricsSampleInfo_members =
     [Property ''name'' (Object ''NSString'' []) [Nonatomic, Readonly] [],
      Property ''min'' (Named ''int'') [Nonatomic, Readonly] [],
      Property ''max'' (Named ''int'') [Nonatomic, Readonly] [],
      Property ''bucketCount'' (Named ''int'') [Nonatomic, Readonly] [],
      Property ''samples'' (Object ''NSDictionary'' [Object ''NSNumber'' [], Object ''NSNumber'' []])
          [Nonatomic, Readonly] [],
      Instance_Method ''init'' [] Instancetype [Unavailable]]"

definition RTCMetricsSampleInfo_class :: decl where
  "RTCMetricsSampleInfo_class =
     Class_Decl ''RTCMetricsSampleInfo'' ''NSObject'' []
     RTCMetricsSampleInfo_members"

definition RTCMetricsSampleInfo_h :: header where
  "RTCMetricsSampleInfo_h =
     Header ''RTCMetricsSampleInfo.h'' Always [''Foundation/Foundation.h'']
     [RTCMacros_h]
     []
     [RTCMetricsSampleInfo_class]"

section \<open>\<open>RTCMetrics.h\<close>\<close>

definition RTCMetrics_functions :: "decl list" where
  "RTCMetrics_functions =
     [Function_Decl ''RTCEnableMetrics'' [] (Named ''void'') [],
      Function_Decl ''RTCGetAndResetMetrics'' [] (Object ''NSArray'' [Object ''RTCMetricsSampleInfo'' []]) []]"

definition RTCMetrics_h :: header where
  "RTCMetrics_h =
     Header ''RTCMetrics.h'' Always [''Foundation/Foundation.h'']
     [RTCMetricsSampleInfo_h, RTCMacros_h]
     []
     RTCMetrics_functions"

section \<open>\<open>RTCNetworkMonitor.h\<close>\<close>

definition RTCNetworkMonitor_members :: "member list" where
  "RTCNetworkMonitor_members =
     [Instance_Method ''init'' [] Instancetype [Unavailable]]"

definition RTCNetworkMonitor_class :: decl where
  "RTCNetworkMonitor_class =
     Class_Decl ''RTCNetworkMonitor'' ''NSObject'' []
     RTCNetworkMonitor_members"

definition RTCNetworkMonitor_h :: header where
  "RTCNetworkMonitor_h =
     Header ''RTCNetworkMonitor.h'' Always [''Foundation/Foundation.h'']
     []
     []
     [RTCNetworkMonitor_class]"

section \<open>\<open>RTCSSLAdapter.h\<close>\<close>

definition RTCSSLAdapter_functions :: "decl list" where
  "RTCSSLAdapter_functions =
     [Function_Decl ''RTCInitializeSSL'' [] (Named ''BOOL'') [],
      Function_Decl ''RTCCleanupSSL'' [] (Named ''BOOL'') []]"

definition RTCSSLAdapter_h :: header where
  "RTCSSLAdapter_h =
     Header ''RTCSSLAdapter.h'' Always [''Foundation/Foundation.h'']
     [RTCMacros_h]
     []
     RTCSSLAdapter_functions"

section \<open>\<open>RTCSSLCertificateVerifier.h\<close>\<close>

definition RTCSSLCertificateVerifier_required :: "member list" where
  "RTCSSLCertificateVerifier_required =
     [Instance_Method ''verify:'' [Object ''NSData'' []] (Named ''BOOL'') []]"

definition RTCSSLCertificateVerifier_protocol :: decl where
  "RTCSSLCertificateVerifier_protocol =
     Protocol_Decl ''RTCSSLCertificateVerifier'' [''NSObject'']
     RTCSSLCertificateVerifier_required
     []"

definition RTCSSLCertificateVerifier_h :: header where
  "RTCSSLCertificateVerifier_h =
     Header ''RTCSSLCertificateVerifier.h'' Always [''Foundation/Foundation.h'']
     [RTCMacros_h]
     []
     [RTCSSLCertificateVerifier_protocol]"

section \<open>\<open>RTCTracing.h\<close>\<close>

definition RTCTracing_functions :: "decl list" where
  "RTCTracing_functions =
     [Function_Decl ''RTCSetupInternalTracer'' [] (Named ''void'') [],
      Function_Decl ''RTCStartInternalCapture'' [Object ''NSString'' []] (Named ''BOOL'') [],
      Function_Decl ''RTCStopInternalCapture'' [] (Named ''void'') [],
      Function_Decl ''RTCShutdownInternalTracer'' [] (Named ''void'') []]"

definition RTCTracing_h :: header where
  "RTCTracing_h =
     Header ''RTCTracing.h'' Always [''Foundation/Foundation.h'']
     [RTCMacros_h]
     []
     RTCTracing_functions"

section \<open>\<open>UIDevice+RTCDevice.h\<close>\<close>

definition UIDevice_RTCDevice_members :: "member list" where
  "UIDevice_RTCDevice_members =
     [Class_Method ''machineName'' [] (Object ''NSString'' []) []]"

definition UIDevice_RTCDevice :: decl where
  "UIDevice_RTCDevice =
     Category_Decl ''UIDevice'' ''RTCDevice'' []
     UIDevice_RTCDevice_members"

definition UIDevice_RTCDevice_h :: header where
  "UIDevice_RTCDevice_h =
     Header ''UIDevice+RTCDevice.h'' Not_On_TV [''TargetConditionals.h'', ''UIKit/UIKit.h'']
     []
     []
     [UIDevice_RTCDevice]"

section \<open>Checks\<close>

text \<open>Bundles: the headers, the declarations of classes, protocols and categories, the other declarations.\<close>

lemmas base_headers =
  RTCMacros_h_def RTCAudioDevice_h_def RTCAudioSession_h_def RTCAudioSessionConfiguration_h_def
  RTCLogging_h_def RTCCallbackLogger_h_def RTCCertificate_h_def RTCCryptoOptions_h_def RTCDispatcher_h_def
  RTCFieldTrials_h_def RTCFileLogger_h_def RTCMetricsSampleInfo_h_def RTCMetrics_h_def
  RTCNetworkMonitor_h_def RTCSSLAdapter_h_def RTCSSLCertificateVerifier_h_def RTCTracing_h_def
  UIDevice_RTCDevice_h_def

lemmas base_interfaces =
  RTCAudioDeviceDelegate_protocol_def RTCAudioDevice_protocol_def RTCAudioSessionDelegate_protocol_def
  RTCAudioSessionActivationDelegate_protocol_def RTCAudioSession_class_def
  RTCAudioSession_Configuration_def RTCAudioSessionConfiguration_class_def RTCCallbackLogger_class_def
  RTCCertificate_class_def RTCCryptoOptions_class_def RTCDispatcher_class_def RTCFileLogger_class_def
  RTCMetricsSampleInfo_class_def RTCNetworkMonitor_class_def RTCSSLCertificateVerifier_protocol_def
  UIDevice_RTCDevice_def

lemmas base_others =
  RTCAudioDevice_typedefs_def RTCAudioSession_constants_def RTCAudioSessionConfiguration_constants_def
  RTCLoggingSeverity_enum_def RTCLogging_functions_def RTCCallbackLogger_typedefs_def
  RTCDispatcherQueueType_enum_def RTCFieldTrials_constants_def RTCFieldTrials_functions_def
  RTCFileLoggerSeverity_enum_def RTCFileLoggerRotationType_enum_def RTCMetrics_functions_def
  RTCSSLAdapter_functions_def RTCTracing_functions_def

text \<open>No selector is declared twice, selectors have one type per colon, enumeration constants are distinct.\<close>

text \<open>What each header declares on tvOS.\<close>

lemma base_decls [header_decls_eqs]:
  "header_decls True RTCMacros_h = []"
  "header_decls True RTCAudioDevice_h = RTCAudioDevice_typedefs @ [RTCAudioDeviceDelegate_protocol,
      RTCAudioDevice_protocol]"
  "header_decls True RTCAudioSession_h = []"
  "header_decls True RTCAudioSessionConfiguration_h = []"
  "header_decls True RTCLogging_h = [RTCLoggingSeverity_enum] @ RTCLogging_functions"
  "header_decls True RTCCallbackLogger_h = RTCCallbackLogger_typedefs @ [RTCCallbackLogger_class]"
  "header_decls True RTCCertificate_h = [RTCCertificate_class]"
  "header_decls True RTCCryptoOptions_h = [RTCCryptoOptions_class]"
  "header_decls True RTCDispatcher_h = [RTCDispatcherQueueType_enum, RTCDispatcher_class]"
  "header_decls True RTCFieldTrials_h = RTCFieldTrials_constants @ RTCFieldTrials_functions"
  "header_decls True RTCFileLogger_h = [RTCFileLoggerSeverity_enum, RTCFileLoggerRotationType_enum,
      RTCFileLogger_class]"
  "header_decls True RTCMetricsSampleInfo_h = [RTCMetricsSampleInfo_class]"
  "header_decls True RTCMetrics_h = RTCMetrics_functions"
  "header_decls True RTCNetworkMonitor_h = [RTCNetworkMonitor_class]"
  "header_decls True RTCSSLAdapter_h = RTCSSLAdapter_functions"
  "header_decls True RTCSSLCertificateVerifier_h = [RTCSSLCertificateVerifier_protocol]"
  "header_decls True RTCTracing_h = RTCTracing_functions"
  "header_decls True UIDevice_RTCDevice_h = []"
  by (subst RTCMacros_h_def, simp, subst RTCAudioDevice_h_def, simp, subst RTCAudioSession_h_def, simp, subst
    RTCAudioSessionConfiguration_h_def, simp, subst RTCLogging_h_def, simp, subst RTCCallbackLogger_h_def,
    simp, subst RTCCertificate_h_def, simp, subst RTCCryptoOptions_h_def, simp, subst RTCDispatcher_h_def,
    simp, subst RTCFieldTrials_h_def, simp, subst RTCFileLogger_h_def, simp, subst
    RTCMetricsSampleInfo_h_def, simp, subst RTCMetrics_h_def, simp, subst RTCNetworkMonitor_h_def, simp,
    subst RTCSSLAdapter_h_def, simp, subst RTCSSLCertificateVerifier_h_def, simp, subst RTCTracing_h_def,
    simp, subst UIDevice_RTCDevice_h_def, simp)

lemma base_headers_ok_1 [header_checks]:
  "header_ok RTCMacros_h"
  "header_ok RTCAudioDevice_h"
  "header_ok RTCAudioSession_h"
  "header_ok RTCAudioSessionConfiguration_h"
  "header_ok RTCLogging_h"
  "header_ok RTCCallbackLogger_h"
  "header_ok RTCCertificate_h"
  "header_ok RTCCryptoOptions_h"
  "header_ok RTCDispatcher_h"
  by code_simp+

lemma base_headers_ok_2 [header_checks]:
  "header_ok RTCFieldTrials_h"
  "header_ok RTCFileLogger_h"
  "header_ok RTCMetricsSampleInfo_h"
  "header_ok RTCMetrics_h"
  "header_ok RTCNetworkMonitor_h"
  "header_ok RTCSSLAdapter_h"
  "header_ok RTCSSLCertificateVerifier_h"
  "header_ok RTCTracing_h"
  "header_ok UIDevice_RTCDevice_h"
  by code_simp+

text \<open>On tvOS every name of the framework a header uses is visible there.\<close>

lemma base_headers_resolve [header_checks]:
  "resolves True RTCMacros_h"
  "resolves True RTCAudioDevice_h"
  "resolves True RTCAudioSession_h"
  "resolves True RTCAudioSessionConfiguration_h"
  "resolves True RTCLogging_h"
  "resolves True RTCCallbackLogger_h"
  "resolves True RTCCertificate_h"
  "resolves True RTCCryptoOptions_h"
  "resolves True RTCDispatcher_h"
  "resolves True RTCFieldTrials_h"
  "resolves True RTCFileLogger_h"
  "resolves True RTCMetricsSampleInfo_h"
  "resolves True RTCMetrics_h"
  "resolves True RTCNetworkMonitor_h"
  "resolves True RTCSSLAdapter_h"
  "resolves True RTCSSLCertificateVerifier_h"
  "resolves True RTCTracing_h"
  "resolves True UIDevice_RTCDevice_h"
  by code_simp+

end
