(* ===== verification/Webrtc_Video.thy ===== *)
theory Webrtc_Video imports Webrtc_Base begin

text \<open>
  The headers of the video pipeline: frames and their buffers, capturers, renderers and views,
  encoders and decoders and their factories. One definition per declaration and one per header, in
  the order of the headers' imports; \<open>_class\<close>, \<open>_protocol\<close> and
  \<open>_enum\<close> keep apart what the language keeps apart. The headers are those of the
  \<open>tvos-arm64\<close> slice of \<open>WebRTC.xcframework\<close>; the simulator slice has the
  same files.
\<close>

section \<open>\<open>RTCVideoFrameBuffer.h\<close>\<close>

definition RTCVideoFrameBuffer_required :: "member list" where
  "RTCVideoFrameBuffer_required =
     [Property ''width'' (Named ''int'') [Nonatomic, Readonly] [],
      Property ''height'' (Named ''int'') [Nonatomic, Readonly] [],
      Instance_Method ''toI420'' [] (Id [''RTCI420Buffer'']) []]"

definition RTCVideoFrameBuffer_optional :: "member list" where
  "RTCVideoFrameBuffer_optional =
     [Instance_Method ''cropAndScaleWith:offsetY:cropWidth:cropHeight:scaleWidth:scaleHeight:'' [Named ''int'',
         Named ''int'', Named ''int'', Named ''int'', Named ''int'', Named ''int''] (Id
             [''RTCVideoFrameBuffer'']) []]"

definition RTCVideoFrameBuffer_protocol :: decl where
  "RTCVideoFrameBuffer_protocol =
     Protocol_Decl ''RTCVideoFrameBuffer'' [''NSObject'']
     RTCVideoFrameBuffer_required
     RTCVideoFrameBuffer_optional"

definition RTCVideoFrameBuffer_h :: header where
  "RTCVideoFrameBuffer_h =
     Header ''RTCVideoFrameBuffer.h'' Always [''AVFoundation/AVFoundation.h'']
     [RTCMacros_h]
     [Fwd_Protocol ''RTCI420Buffer'']
     [RTCVideoFrameBuffer_protocol]"

section \<open>\<open>RTCCVPixelBuffer.h\<close>\<close>

definition RTCCVPixelBuffer_members :: "member list" where
  "RTCCVPixelBuffer_members =
     [Property ''pixelBuffer'' (Named ''CVPixelBufferRef'') [Nonatomic, Readonly] [],
      Property ''cropX'' (Named ''int'') [Nonatomic, Readonly] [],
      Property ''cropY'' (Named ''int'') [Nonatomic, Readonly] [],
      Property ''cropWidth'' (Named ''int'') [Nonatomic, Readonly] [],
      Property ''cropHeight'' (Named ''int'') [Nonatomic, Readonly] [],
      Class_Method ''supportedPixelFormats'' [] (Object ''NSSet'' [Object ''NSNumber'' []]) [],
      Instance_Method ''initWithPixelBuffer:'' [Named ''CVPixelBufferRef''] Instancetype [],
      Instance_Method ''initWithPixelBuffer:adaptedWidth:adaptedHeight:cropWidth:cropHeight:cropX:cropY:''
          [Named ''CVPixelBufferRef'', Named ''int'', Named ''int'', Named ''int'', Named ''int'', Named
              ''int'', Named ''int''] Instancetype [],
      Instance_Method ''requiresCropping'' [] (Named ''BOOL'') [],
      Instance_Method ''requiresScalingToWidth:height:'' [Named ''int'', Named ''int''] (Named ''BOOL'') [],
      Instance_Method ''bufferSizeForCroppingAndScalingToWidth:height:'' [Named ''int'', Named ''int''] (Named
          ''int'') [],
      Instance_Method ''cropAndScaleTo:withTempBuffer:'' [Named ''CVPixelBufferRef'', Ptr (Nullable (Named
          ''uint8_t''))] (Named ''BOOL'') []]"

definition RTCCVPixelBuffer_class :: decl where
  "RTCCVPixelBuffer_class =
     Class_Decl ''RTCCVPixelBuffer'' ''NSObject'' [''RTCVideoFrameBuffer'']
     RTCCVPixelBuffer_members"

definition RTCCVPixelBuffer_h :: header where
  "RTCCVPixelBuffer_h =
     Header ''RTCCVPixelBuffer.h'' Always [''AVFoundation/AVFoundation.h'']
     [RTCVideoFrameBuffer_h, RTCMacros_h]
     []
     [RTCCVPixelBuffer_class]"

section \<open>\<open>RTCCameraPreviewView.h\<close>\<close>

definition RTCCameraPreviewView_members :: "member list" where
  "RTCCameraPreviewView_members =
     [Property ''captureSession'' (Object ''AVCaptureSession'' []) [Nonatomic, Strong] []]"

definition RTCCameraPreviewView_class :: decl where
  "RTCCameraPreviewView_class =
     Class_Decl ''RTCCameraPreviewView'' ''UIView'' []
     RTCCameraPreviewView_members"

definition RTCCameraPreviewView_h :: header where
  "RTCCameraPreviewView_h =
     Header ''RTCCameraPreviewView.h'' Not_On_TV [''TargetConditionals.h'', ''Foundation/Foundation.h'',
         ''UIKit/UIKit.h'']
     [RTCMacros_h]
     [Fwd_Class ''AVCaptureSession'']
     [RTCCameraPreviewView_class]"

section \<open>\<open>RTCVideoFrame.h\<close>\<close>

definition RTCVideoRotation_enum :: decl where
  "RTCVideoRotation_enum =
     Enum_Decl ''RTCVideoRotation'' ''NSInteger''
     [(''RTCVideoRotation_0'', Val 0),
      (''RTCVideoRotation_90'', Val 90),
      (''RTCVideoRotation_180'', Val 180),
      (''RTCVideoRotation_270'', Val 270)]"

definition RTCVideoFrame_members :: "member list" where
  "RTCVideoFrame_members =
     [Property ''width'' (Named ''int'') [Nonatomic, Readonly] [],
      Property ''height'' (Named ''int'') [Nonatomic, Readonly] [],
      Property ''rotation'' (Named ''RTCVideoRotation'') [Nonatomic, Readonly] [],
      Property ''timeStampNs'' (Named ''int64_t'') [Nonatomic, Readonly] [],
      Property ''timeStamp'' (Named ''int32_t'') [Nonatomic, Assign] [],
      Property ''buffer'' (Id [''RTCVideoFrameBuffer'']) [Nonatomic, Readonly] [],
      Instance_Method ''init'' [] Instancetype [Unavailable],
      Instance_Method ''new'' [] Instancetype [Unavailable],
      Instance_Method ''initWithBuffer:rotation:timeStampNs:'' [Id [''RTCVideoFrameBuffer''], Named
          ''RTCVideoRotation'', Named ''int64_t''] Instancetype [],
      Instance_Method ''newI420VideoFrame'' [] (Object ''RTCVideoFrame'' []) []]"

definition RTCVideoFrame_class :: decl where
  "RTCVideoFrame_class =
     Class_Decl ''RTCVideoFrame'' ''NSObject'' []
     RTCVideoFrame_members"

definition RTCVideoFrame_h :: header where
  "RTCVideoFrame_h =
     Header ''RTCVideoFrame.h'' Always [''AVFoundation/AVFoundation.h'', ''Foundation/Foundation.h'']
     [RTCMacros_h]
     [Fwd_Protocol ''RTCVideoFrameBuffer'']
     [RTCVideoRotation_enum, RTCVideoFrame_class]"

section \<open>\<open>RTCVideoCapturer.h\<close>\<close>

definition RTCVideoCapturerDelegate_required :: "member list" where
  "RTCVideoCapturerDelegate_required =
     [Instance_Method ''capturer:didCaptureVideoFrame:'' [Object ''RTCVideoCapturer'' [], Object
         ''RTCVideoFrame'' []] (Named ''void'') []]"

definition RTCVideoCapturerDelegate_protocol :: decl where
  "RTCVideoCapturerDelegate_protocol =
     Protocol_Decl ''RTCVideoCapturerDelegate'' [''NSObject'']
     RTCVideoCapturerDelegate_required
     []"

definition RTCVideoCapturer_members :: "member list" where
  "RTCVideoCapturer_members =
     [Property ''delegate'' (Id [''RTCVideoCapturerDelegate'']) [Nonatomic, Weak] [],
      Instance_Method ''initWithDelegate:'' [Id [''RTCVideoCapturerDelegate'']] Instancetype []]"

definition RTCVideoCapturer_class :: decl where
  "RTCVideoCapturer_class =
     Class_Decl ''RTCVideoCapturer'' ''NSObject'' []
     RTCVideoCapturer_members"

definition RTCVideoCapturer_h :: header where
  "RTCVideoCapturer_h =
     Header ''RTCVideoCapturer.h'' Always []
     [RTCVideoFrame_h, RTCMacros_h]
     [Fwd_Class ''RTCVideoCapturer'']
     [RTCVideoCapturerDelegate_protocol, RTCVideoCapturer_class]"

section \<open>\<open>RTCCameraVideoCapturer.h\<close>\<close>

definition RTCCameraVideoCapturer_members :: "member list" where
  "RTCCameraVideoCapturer_members =
     [Property ''captureSession'' (Object ''AVCaptureSession'' []) [Readonly, Nonatomic] [],
      Class_Method ''captureDevices'' [] (Object ''NSArray'' [Object ''AVCaptureDevice'' []]) [],
      Class_Method ''supportedFormatsForDevice:'' [Object ''AVCaptureDevice'' []] (Object ''NSArray'' [Object
          ''AVCaptureDeviceFormat'' []]) [],
      Instance_Method ''preferredOutputPixelFormat'' [] (Named ''FourCharCode'') [],
      Instance_Method ''startCaptureWithDevice:format:fps:completionHandler:'' [Object ''AVCaptureDevice'' [],
          Object ''AVCaptureDeviceFormat'' [], Named ''NSInteger'', Nullable (Block [Nullable (Object
              ''NSError'' [])] (Named ''void''))] (Named ''void'') [],
      Instance_Method ''stopCaptureWithCompletionHandler:'' [Nullable (Block [] (Named ''void''))] (Named
          ''void'') [],
      Instance_Method ''startCaptureWithDevice:format:fps:'' [Object ''AVCaptureDevice'' [], Object
          ''AVCaptureDeviceFormat'' [], Named ''NSInteger''] (Named ''void'') [],
      Instance_Method ''stopCapture'' [] (Named ''void'') []]"

definition RTCCameraVideoCapturer_class :: decl where
  "RTCCameraVideoCapturer_class =
     Class_Decl ''RTCCameraVideoCapturer'' ''RTCVideoCapturer'' []
     RTCCameraVideoCapturer_members"

definition RTCCameraVideoCapturer_h :: header where
  "RTCCameraVideoCapturer_h =
     Header ''RTCCameraVideoCapturer.h'' Not_On_TV [''TargetConditionals.h'', ''AVFoundation/AVFoundation.h'',
         ''Foundation/Foundation.h'']
     [RTCVideoCapturer_h, RTCMacros_h]
     []
     [RTCCameraVideoCapturer_class]"

section \<open>\<open>RTCCodecSpecificInfo.h\<close>\<close>

definition RTCCodecSpecificInfo_protocol :: decl where
  "RTCCodecSpecificInfo_protocol =
     Protocol_Decl ''RTCCodecSpecificInfo'' [''NSObject'']
     []
     []"

definition RTCCodecSpecificInfo_h :: header where
  "RTCCodecSpecificInfo_h =
     Header ''RTCCodecSpecificInfo.h'' Always [''Foundation/Foundation.h'']
     [RTCMacros_h]
     []
     [RTCCodecSpecificInfo_protocol]"

section \<open>\<open>RTCCodecSpecificInfoH264.h\<close>\<close>

definition RTCH264PacketizationMode_enum :: decl where
  "RTCH264PacketizationMode_enum =
     Enum_Decl ''RTCH264PacketizationMode'' ''NSUInteger''
     [(''RTCH264PacketizationModeNonInterleaved'', Val 0),
      (''RTCH264PacketizationModeSingleNalUnit'', Auto)]"

definition RTCCodecSpecificInfoH264_members :: "member list" where
  "RTCCodecSpecificInfoH264_members =
     [Property ''packetizationMode'' (Named ''RTCH264PacketizationMode'') [Nonatomic, Assign] []]"

definition RTCCodecSpecificInfoH264_class :: decl where
  "RTCCodecSpecificInfoH264_class =
     Class_Decl ''RTCCodecSpecificInfoH264'' ''NSObject'' [''RTCCodecSpecificInfo'']
     RTCCodecSpecificInfoH264_members"

definition RTCCodecSpecificInfoH264_h :: header where
  "RTCCodecSpecificInfoH264_h =
     Header ''RTCCodecSpecificInfoH264.h'' Always [''Foundation/Foundation.h'']
     [RTCCodecSpecificInfo_h, RTCMacros_h]
     []
     [RTCH264PacketizationMode_enum, RTCCodecSpecificInfoH264_class]"

section \<open>\<open>RTCVideoCodecInfo.h\<close>\<close>

definition RTCVideoCodecInfo_members :: "member list" where
  "RTCVideoCodecInfo_members =
     [Instance_Method ''init'' [] Instancetype [Unavailable],
      Instance_Method ''initWithName:'' [Object ''NSString'' []] Instancetype [],
      Instance_Method ''initWithName:parameters:'' [Object ''NSString'' [], Nullable (Object ''NSDictionary''
          [Object ''NSString'' [], Object ''NSString'' []])] Instancetype [],
      Instance_Method ''initWithName:parameters:scalabilityModes:'' [Object ''NSString'' [], Object
          ''NSDictionary'' [Object ''NSString'' [], Object ''NSString'' []], Object ''NSArray'' [Object
              ''NSString'' []]] Instancetype [Designated],
      Instance_Method ''isEqualToCodecInfo:'' [Object ''RTCVideoCodecInfo'' []] (Named ''BOOL'') [],
      Property ''name'' (Object ''NSString'' []) [Nonatomic, Readonly] [],
      Property ''parameters'' (Object ''NSDictionary'' [Object ''NSString'' [], Object ''NSString'' []])
          [Nonatomic, Readonly] [],
      Property ''scalabilityModes'' (Object ''NSArray'' [Object ''NSString'' []]) [Nonatomic, Readonly] []]"

definition RTCVideoCodecInfo_class :: decl where
  "RTCVideoCodecInfo_class =
     Class_Decl ''RTCVideoCodecInfo'' ''NSObject'' [''NSCoding'']
     RTCVideoCodecInfo_members"

definition RTCVideoCodecInfo_h :: header where
  "RTCVideoCodecInfo_h =
     Header ''RTCVideoCodecInfo.h'' Always [''Foundation/Foundation.h'']
     [RTCMacros_h]
     []
     [RTCVideoCodecInfo_class]"

section \<open>\<open>RTCEncodedImage.h\<close>\<close>

definition RTCFrameType_enum :: decl where
  "RTCFrameType_enum =
     Enum_Decl ''RTCFrameType'' ''NSUInteger''
     [(''RTCFrameTypeEmptyFrame'', Val 0),
      (''RTCFrameTypeAudioFrameSpeech'', Val 1),
      (''RTCFrameTypeAudioFrameCN'', Val 2),
      (''RTCFrameTypeVideoFrameKey'', Val 3),
      (''RTCFrameTypeVideoFrameDelta'', Val 4)]"

definition RTCVideoContentType_enum :: decl where
  "RTCVideoContentType_enum =
     Enum_Decl ''RTCVideoContentType'' ''NSUInteger''
     [(''RTCVideoContentTypeUnspecified'', Auto),
      (''RTCVideoContentTypeScreenshare'', Auto)]"

definition RTCEncodedImage_members :: "member list" where
  "RTCEncodedImage_members =
     [Property ''buffer'' (Object ''NSData'' []) [Nonatomic, Strong] [],
      Property ''encodedWidth'' (Named ''int32_t'') [Nonatomic, Assign] [],
      Property ''encodedHeight'' (Named ''int32_t'') [Nonatomic, Assign] [],
      Property ''timeStamp'' (Named ''uint32_t'') [Nonatomic, Assign] [],
      Property ''captureTimeMs'' (Named ''int64_t'') [Nonatomic, Assign] [],
      Property ''ntpTimeMs'' (Named ''int64_t'') [Nonatomic, Assign] [],
      Property ''flags'' (Named ''uint8_t'') [Nonatomic, Assign] [],
      Property ''encodeStartMs'' (Named ''int64_t'') [Nonatomic, Assign] [],
      Property ''encodeFinishMs'' (Named ''int64_t'') [Nonatomic, Assign] [],
      Property ''frameType'' (Named ''RTCFrameType'') [Nonatomic, Assign] [],
      Property ''rotation'' (Named ''RTCVideoRotation'') [Nonatomic, Assign] [],
      Property ''qp'' (Object ''NSNumber'' []) [Nonatomic, Strong] [],
      Property ''contentType'' (Named ''RTCVideoContentType'') [Nonatomic, Assign] []]"

definition RTCEncodedImage_class :: decl where
  "RTCEncodedImage_class =
     Class_Decl ''RTCEncodedImage'' ''NSObject'' []
     RTCEncodedImage_members"

definition RTCEncodedImage_h :: header where
  "RTCEncodedImage_h =
     Header ''RTCEncodedImage.h'' Always [''Foundation/Foundation.h'']
     [RTCVideoFrame_h, RTCMacros_h]
     []
     [RTCFrameType_enum, RTCVideoContentType_enum, RTCEncodedImage_class]"

section \<open>\<open>RTCVideoEncoderSettings.h\<close>\<close>

definition RTCVideoCodecMode_enum :: decl where
  "RTCVideoCodecMode_enum =
     Enum_Decl ''RTCVideoCodecMode'' ''NSUInteger''
     [(''RTCVideoCodecModeRealtimeVideo'', Auto),
      (''RTCVideoCodecModeScreensharing'', Auto)]"

definition RTCVideoEncoderSettings_members :: "member list" where
  "RTCVideoEncoderSettings_members =
     [Property ''name'' (Object ''NSString'' []) [Nonatomic, Strong] [],
      Property ''width'' (Named ''unsigned short'') [Nonatomic, Assign] [],
      Property ''height'' (Named ''unsigned short'') [Nonatomic, Assign] [],
      Property ''startBitrate'' (Named ''unsigned int'') [Nonatomic, Assign] [],
      Property ''maxBitrate'' (Named ''unsigned int'') [Nonatomic, Assign] [],
      Property ''minBitrate'' (Named ''unsigned int'') [Nonatomic, Assign] [],
      Property ''maxFramerate'' (Named ''uint32_t'') [Nonatomic, Assign] [],
      Property ''qpMax'' (Named ''unsigned int'') [Nonatomic, Assign] [],
      Property ''mode'' (Named ''RTCVideoCodecMode'') [Nonatomic, Assign] []]"

definition RTCVideoEncoderSettings_class :: decl where
  "RTCVideoEncoderSettings_class =
     Class_Decl ''RTCVideoEncoderSettings'' ''NSObject'' []
     RTCVideoEncoderSettings_members"

definition RTCVideoEncoderSettings_h :: header where
  "RTCVideoEncoderSettings_h =
     Header ''RTCVideoEncoderSettings.h'' Always [''Foundation/Foundation.h'']
     [RTCMacros_h]
     []
     [RTCVideoCodecMode_enum, RTCVideoEncoderSettings_class]"

section \<open>\<open>RTCVideoDecoder.h\<close>\<close>

definition RTCVideoDecoder_typedefs :: "decl list" where
  "RTCVideoDecoder_typedefs =
     [Typedef_Decl ''RTCVideoDecoderCallback'' (Block [Object ''RTCVideoFrame'' []] (Named ''void''))]"

definition RTCVideoDecoder_required :: "member list" where
  "RTCVideoDecoder_required =
     [Instance_Method ''setCallback:'' [Named ''RTCVideoDecoderCallback''] (Named ''void'') [],
      Instance_Method ''startDecodeWithNumberOfCores:'' [Named ''int''] (Named ''NSInteger'') [],
      Instance_Method ''releaseDecoder'' [] (Named ''NSInteger'') [],
      Instance_Method ''decode:missingFrames:codecSpecificInfo:renderTimeMs:'' [Object ''RTCEncodedImage'' [],
          Named ''BOOL'', Nullable (Id [''RTCCodecSpecificInfo'']), Named ''int64_t''] (Named ''NSInteger'') [],
      Instance_Method ''implementationName'' [] (Object ''NSString'' []) []]"

definition RTCVideoDecoder_protocol :: decl where
  "RTCVideoDecoder_protocol =
     Protocol_Decl ''RTCVideoDecoder'' [''NSObject'']
     RTCVideoDecoder_required
     []"

definition RTCVideoDecoder_h :: header where
  "RTCVideoDecoder_h =
     Header ''RTCVideoDecoder.h'' Always [''Foundation/Foundation.h'']
     [RTCCodecSpecificInfo_h, RTCEncodedImage_h, RTCVideoEncoderSettings_h, RTCVideoFrame_h, RTCMacros_h]
     []
     (RTCVideoDecoder_typedefs @ [RTCVideoDecoder_protocol])"

section \<open>\<open>RTCVideoDecoderFactory.h\<close>\<close>

definition RTCVideoDecoderFactory_required :: "member list" where
  "RTCVideoDecoderFactory_required =
     [Instance_Method ''createDecoder:'' [Object ''RTCVideoCodecInfo'' []] (Nullable (Id
         [''RTCVideoDecoder''])) [],
      Instance_Method ''supportedCodecs'' [] (Object ''NSArray'' [Object ''RTCVideoCodecInfo'' []]) []]"

definition RTCVideoDecoderFactory_protocol :: decl where
  "RTCVideoDecoderFactory_protocol =
     Protocol_Decl ''RTCVideoDecoderFactory'' [''NSObject'']
     RTCVideoDecoderFactory_required
     []"

definition RTCVideoDecoderFactory_h :: header where
  "RTCVideoDecoderFactory_h =
     Header ''RTCVideoDecoderFactory.h'' Always [''Foundation/Foundation.h'']
     [RTCVideoCodecInfo_h, RTCVideoDecoder_h, RTCMacros_h]
     []
     [RTCVideoDecoderFactory_protocol]"

section \<open>\<open>RTCDefaultVideoDecoderFactory.h\<close>\<close>

definition RTCDefaultVideoDecoderFactory_class :: decl where
  "RTCDefaultVideoDecoderFactory_class =
     Class_Decl ''RTCDefaultVideoDecoderFactory'' ''NSObject'' [''RTCVideoDecoderFactory'']
     []"

definition RTCDefaultVideoDecoderFactory_h :: header where
  "RTCDefaultVideoDecoderFactory_h =
     Header ''RTCDefaultVideoDecoderFactory.h'' Always [''Foundation/Foundation.h'']
     [RTCVideoDecoderFactory_h, RTCMacros_h]
     []
     [RTCDefaultVideoDecoderFactory_class]"

section \<open>\<open>RTCVideoEncoderQpThresholds.h\<close>\<close>

definition RTCVideoEncoderQpThresholds_members :: "member list" where
  "RTCVideoEncoderQpThresholds_members =
     [Instance_Method ''initWithThresholdsLow:high:'' [Named ''NSInteger'', Named ''NSInteger''] Instancetype
         [],
      Property ''low'' (Named ''NSInteger'') [Nonatomic, Readonly] [],
      Property ''high'' (Named ''NSInteger'') [Nonatomic, Readonly] []]"

definition RTCVideoEncoderQpThresholds_class :: decl where
  "RTCVideoEncoderQpThresholds_class =
     Class_Decl ''RTCVideoEncoderQpThresholds'' ''NSObject'' []
     RTCVideoEncoderQpThresholds_members"

definition RTCVideoEncoderQpThresholds_h :: header where
  "RTCVideoEncoderQpThresholds_h =
     Header ''RTCVideoEncoderQpThresholds.h'' Always [''Foundation/Foundation.h'']
     [RTCMacros_h]
     []
     [RTCVideoEncoderQpThresholds_class]"

section \<open>\<open>RTCVideoEncoder.h\<close>\<close>

definition RTCVideoEncoder_typedefs :: "decl list" where
  "RTCVideoEncoder_typedefs =
     [Typedef_Decl ''RTCVideoEncoderCallback'' (Block [Object ''RTCEncodedImage'' [], Id
         [''RTCCodecSpecificInfo'']] (Named ''BOOL''))]"

definition RTCVideoEncoder_required :: "member list" where
  "RTCVideoEncoder_required =
     [Instance_Method ''setCallback:'' [Nullable (Named ''RTCVideoEncoderCallback'')] (Named ''void'') [],
      Instance_Method ''startEncodeWithSettings:numberOfCores:'' [Object ''RTCVideoEncoderSettings'' [], Named
          ''int''] (Named ''NSInteger'') [],
      Instance_Method ''releaseEncoder'' [] (Named ''NSInteger'') [],
      Instance_Method ''encode:codecSpecificInfo:frameTypes:'' [Object ''RTCVideoFrame'' [], Nullable (Id
          [''RTCCodecSpecificInfo'']), Object ''NSArray'' [Object ''NSNumber'' []]] (Named ''NSInteger'') [],
      Instance_Method ''setBitrate:framerate:'' [Named ''uint32_t'', Named ''uint32_t''] (Named ''int'') [],
      Instance_Method ''implementationName'' [] (Object ''NSString'' []) [],
      Instance_Method ''scalingSettings'' [] (Nullable (Object ''RTCVideoEncoderQpThresholds'' [])) [],
      Property ''resolutionAlignment'' (Named ''NSInteger'') [Nonatomic, Readonly] [],
      Property ''applyAlignmentToAllSimulcastLayers'' (Named ''BOOL'') [Nonatomic, Readonly] [],
      Property ''supportsNativeHandle'' (Named ''BOOL'') [Nonatomic, Readonly] []]"

definition RTCVideoEncoder_protocol :: decl where
  "RTCVideoEncoder_protocol =
     Protocol_Decl ''RTCVideoEncoder'' [''NSObject'']
     RTCVideoEncoder_required
     []"

definition RTCVideoEncoder_h :: header where
  "RTCVideoEncoder_h =
     Header ''RTCVideoEncoder.h'' Always [''Foundation/Foundation.h'']
     [RTCCodecSpecificInfo_h, RTCEncodedImage_h, RTCVideoEncoderQpThresholds_h, RTCVideoEncoderSettings_h,
         RTCVideoFrame_h, RTCMacros_h]
     []
     (RTCVideoEncoder_typedefs @ [RTCVideoEncoder_protocol])"

section \<open>\<open>RTCVideoEncoderFactory.h\<close>\<close>

definition RTCVideoEncoderSelector_required :: "member list" where
  "RTCVideoEncoderSelector_required =
     [Instance_Method ''registerCurrentEncoderInfo:'' [Object ''RTCVideoCodecInfo'' []] (Named ''void'') [],
      Instance_Method ''encoderForBitrate:'' [Named ''NSInteger''] (Nullable (Object ''RTCVideoCodecInfo'' []))
          [],
      Instance_Method ''encoderForBrokenEncoder'' [] (Nullable (Object ''RTCVideoCodecInfo'' [])) []]"

definition RTCVideoEncoderSelector_optional :: "member list" where
  "RTCVideoEncoderSelector_optional =
     [Instance_Method ''encoderForResolutionChangeBySize:'' [Named ''CGSize''] (Nullable (Object
         ''RTCVideoCodecInfo'' [])) []]"

definition RTCVideoEncoderSelector_protocol :: decl where
  "RTCVideoEncoderSelector_protocol =
     Protocol_Decl ''RTCVideoEncoderSelector'' [''NSObject'']
     RTCVideoEncoderSelector_required
     RTCVideoEncoderSelector_optional"

definition RTCVideoEncoderCodecSupport_members :: "member list" where
  "RTCVideoEncoderCodecSupport_members =
     [Instance_Method ''init'' [] Instancetype [Unavailable],
      Instance_Method ''initWithSupported:'' [Named ''bool''] Instancetype [],
      Instance_Method ''initWithSupported:isPowerEfficient:'' [Named ''bool'', Named ''bool''] Instancetype
          [Designated],
      Property ''isSupported'' (Named ''bool'') [Nonatomic, Readonly] [],
      Property ''isPowerEfficient'' (Named ''bool'') [Nonatomic, Readonly] []]"

definition RTCVideoEncoderCodecSupport_class :: decl where
  "RTCVideoEncoderCodecSupport_class =
     Class_Decl ''RTCVideoEncoderCodecSupport'' ''NSObject'' []
     RTCVideoEncoderCodecSupport_members"

definition RTCVideoEncoderFactory_required :: "member list" where
  "RTCVideoEncoderFactory_required =
     [Instance_Method ''createEncoder:'' [Object ''RTCVideoCodecInfo'' []] (Nullable (Id
         [''RTCVideoEncoder''])) [],
      Instance_Method ''supportedCodecs'' [] (Object ''NSArray'' [Object ''RTCVideoCodecInfo'' []]) []]"

definition RTCVideoEncoderFactory_optional :: "member list" where
  "RTCVideoEncoderFactory_optional =
     [Instance_Method ''implementations'' [] (Object ''NSArray'' [Object ''RTCVideoCodecInfo'' []]) [],
      Instance_Method ''encoderSelector'' [] (Nullable (Id [''RTCVideoEncoderSelector''])) [],
      Instance_Method ''queryCodecSupport:scalabilityMode:'' [Object ''RTCVideoCodecInfo'' [], Nullable (Object
          ''NSString'' [])] (Object ''RTCVideoEncoderCodecSupport'' []) []]"

definition RTCVideoEncoderFactory_protocol :: decl where
  "RTCVideoEncoderFactory_protocol =
     Protocol_Decl ''RTCVideoEncoderFactory'' [''NSObject'']
     RTCVideoEncoderFactory_required
     RTCVideoEncoderFactory_optional"

definition RTCVideoEncoderFactory_h :: header where
  "RTCVideoEncoderFactory_h =
     Header ''RTCVideoEncoderFactory.h'' Always [''Foundation/Foundation.h'']
     [RTCVideoCodecInfo_h, RTCVideoEncoder_h, RTCMacros_h]
     []
     [RTCVideoEncoderSelector_protocol, RTCVideoEncoderCodecSupport_class, RTCVideoEncoderFactory_protocol]"

section \<open>\<open>RTCDefaultVideoEncoderFactory.h\<close>\<close>

definition RTCDefaultVideoEncoderFactory_members :: "member list" where
  "RTCDefaultVideoEncoderFactory_members =
     [Property ''preferredCodec'' (Object ''RTCVideoCodecInfo'' []) [Nonatomic, Retain] [],
      Class_Method ''supportedCodecs'' [] (Object ''NSArray'' [Object ''RTCVideoCodecInfo'' []]) []]"

definition RTCDefaultVideoEncoderFactory_class :: decl where
  "RTCDefaultVideoEncoderFactory_class =
     Class_Decl ''RTCDefaultVideoEncoderFactory'' ''NSObject'' [''RTCVideoEncoderFactory'']
     RTCDefaultVideoEncoderFactory_members"

definition RTCDefaultVideoEncoderFactory_h :: header where
  "RTCDefaultVideoEncoderFactory_h =
     Header ''RTCDefaultVideoEncoderFactory.h'' Always [''Foundation/Foundation.h'']
     [RTCVideoEncoderFactory_h, RTCMacros_h]
     []
     [RTCDefaultVideoEncoderFactory_class]"

section \<open>\<open>RTCVideoRenderer.h\<close>\<close>

definition RTCVideoRenderer_required :: "member list" where
  "RTCVideoRenderer_required =
     [Instance_Method ''setSize:'' [Named ''CGSize''] (Named ''void'') [],
      Instance_Method ''renderFrame:'' [Nullable (Object ''RTCVideoFrame'' [])] (Named ''void'') []]"

definition RTCVideoRenderer_protocol :: decl where
  "RTCVideoRenderer_protocol =
     Protocol_Decl ''RTCVideoRenderer'' [''NSObject'']
     RTCVideoRenderer_required
     []"

definition RTCVideoViewDelegate_required :: "member list" where
  "RTCVideoViewDelegate_required =
     [Instance_Method ''videoView:didChangeVideoSize:'' [Id [''RTCVideoRenderer''], Named ''CGSize''] (Named
         ''void'') []]"

definition RTCVideoViewDelegate_protocol :: decl where
  "RTCVideoViewDelegate_protocol =
     Protocol_Decl ''RTCVideoViewDelegate'' []
     RTCVideoViewDelegate_required
     []"

definition RTCVideoRenderer_h :: header where
  "RTCVideoRenderer_h =
     Header ''RTCVideoRenderer.h'' Always [''Foundation/Foundation.h'', ''UIKit/UIKit.h'']
     [RTCMacros_h]
     [Fwd_Class ''RTCVideoFrame'']
     [RTCVideoRenderer_protocol, RTCVideoViewDelegate_protocol]"

section \<open>\<open>RTCVideoViewShading.h\<close>\<close>

definition RTCVideoViewShading_required :: "member list" where
  "RTCVideoViewShading_required =
     [Instance_Method ''applyShadingForFrameWithWidth:height:rotation:yPlane:uPlane:vPlane:'' [Named ''int'',
         Named ''int'', Named ''RTCVideoRotation'', Named ''GLuint'', Named ''GLuint'', Named ''GLuint'']
             (Named ''void'') [],
      Instance_Method ''applyShadingForFrameWithWidth:height:rotation:yPlane:uvPlane:'' [Named ''int'', Named
          ''int'', Named ''RTCVideoRotation'', Named ''GLuint'', Named ''GLuint''] (Named ''void'') []]"

definition RTCVideoViewShading_protocol :: decl where
  "RTCVideoViewShading_protocol =
     Protocol_Decl ''RTCVideoViewShading'' [''NSObject'']
     RTCVideoViewShading_required
     []"

definition RTCVideoViewShading_h :: header where
  "RTCVideoViewShading_h =
     Header ''RTCVideoViewShading.h'' Always [''Foundation/Foundation.h'']
     [RTCVideoFrame_h]
     []
     [RTCVideoViewShading_protocol]"

section \<open>\<open>RTCEAGLVideoView.h\<close>\<close>

definition RTCEAGLVideoView_members :: "member list" where
  "RTCEAGLVideoView_members =
     [Property ''delegate'' (Id [''RTCVideoViewDelegate'']) [Nonatomic, Weak] [],
      Instance_Method ''initWithFrame:shader:'' [Named ''CGRect'', Id [''RTCVideoViewShading'']] Instancetype
          [Designated],
      Instance_Method ''initWithCoder:shader:'' [Object ''NSCoder'' [], Id [''RTCVideoViewShading'']]
          Instancetype [Designated],
      Property ''rotationOverride'' (Nullable (Object ''NSValue'' [])) [Nonatomic] []]"

definition RTCEAGLVideoView_class :: decl where
  "RTCEAGLVideoView_class =
     Class_Decl ''RTCEAGLVideoView'' ''UIView'' [''RTCVideoRenderer'']
     RTCEAGLVideoView_members"

definition RTCEAGLVideoView_h :: header where
  "RTCEAGLVideoView_h =
     Header ''RTCEAGLVideoView.h'' Not_On_TV [''TargetConditionals.h'', ''Foundation/Foundation.h'',
         ''UIKit/UIKit.h'']
     [RTCVideoRenderer_h, RTCVideoViewShading_h, RTCMacros_h]
     [Fwd_Class ''RTCEAGLVideoView'']
     [RTCEAGLVideoView_class]"

section \<open>\<open>RTCFileVideoCapturer.h\<close>\<close>

definition RTCFileVideoCapturer_typedefs :: "decl list" where
  "RTCFileVideoCapturer_typedefs =
     [Typedef_Decl ''RTCFileVideoCapturerErrorBlock'' (Block [Object ''NSError'' []] (Named ''void''))]"

definition RTCFileVideoCapturer_members :: "member list" where
  "RTCFileVideoCapturer_members =
     [Instance_Method ''startCapturingFromFileNamed:onError:'' [Object ''NSString'' [], Nullable (Named
         ''RTCFileVideoCapturerErrorBlock'')] (Named ''void'') [],
      Instance_Method ''stopCapture'' [] (Named ''void'') []]"

definition RTCFileVideoCapturer_class :: decl where
  "RTCFileVideoCapturer_class =
     Class_Decl ''RTCFileVideoCapturer'' ''RTCVideoCapturer'' []
     RTCFileVideoCapturer_members"

definition RTCFileVideoCapturer_h :: header where
  "RTCFileVideoCapturer_h =
     Header ''RTCFileVideoCapturer.h'' Not_On_TV [''TargetConditionals.h'', ''Foundation/Foundation.h'']
     [RTCVideoCapturer_h]
     []
     (RTCFileVideoCapturer_typedefs @ [RTCFileVideoCapturer_class])"

section \<open>\<open>RTCH264ProfileLevelId.h\<close>\<close>

definition RTCH264ProfileLevelId_constants :: "decl list" where
  "RTCH264ProfileLevelId_constants =
     [Constant_Decl ''kRTCVideoCodecH264Name'' (Object ''NSString'' []),
      Constant_Decl ''kRTCLevel31ConstrainedHigh'' (Object ''NSString'' []),
      Constant_Decl ''kRTCLevel31ConstrainedBaseline'' (Object ''NSString'' []),
      Constant_Decl ''kRTCMaxSupportedH264ProfileLevelConstrainedHigh'' (Object ''NSString'' []),
      Constant_Decl ''kRTCMaxSupportedH264ProfileLevelConstrainedBaseline'' (Object ''NSString'' [])]"

definition RTCH264Profile_enum :: decl where
  "RTCH264Profile_enum =
     Enum_Decl ''RTCH264Profile'' ''NSUInteger''
     [(''RTCH264ProfileConstrainedBaseline'', Auto),
      (''RTCH264ProfileBaseline'', Auto),
      (''RTCH264ProfileMain'', Auto),
      (''RTCH264ProfileConstrainedHigh'', Auto),
      (''RTCH264ProfileHigh'', Auto)]"

definition RTCH264Level_enum :: decl where
  "RTCH264Level_enum =
     Enum_Decl ''RTCH264Level'' ''NSUInteger''
     [(''RTCH264Level1_b'', Val 0),
      (''RTCH264Level1'', Val 10),
      (''RTCH264Level1_1'', Val 11),
      (''RTCH264Level1_2'', Val 12),
      (''RTCH264Level1_3'', Val 13),
      (''RTCH264Level2'', Val 20),
      (''RTCH264Level2_1'', Val 21),
      (''RTCH264Level2_2'', Val 22),
      (''RTCH264Level3'', Val 30),
      (''RTCH264Level3_1'', Val 31),
      (''RTCH264Level3_2'', Val 32),
      (''RTCH264Level4'', Val 40),
      (''RTCH264Level4_1'', Val 41),
      (''RTCH264Level4_2'', Val 42),
      (''RTCH264Level5'', Val 50),
      (''RTCH264Level5_1'', Val 51),
      (''RTCH264Level5_2'', Val 52)]"

definition RTCH264ProfileLevelId_members :: "member list" where
  "RTCH264ProfileLevelId_members =
     [Property ''profile'' (Named ''RTCH264Profile'') [Nonatomic, Readonly] [],
      Property ''level'' (Named ''RTCH264Level'') [Nonatomic, Readonly] [],
      Property ''hexString'' (Object ''NSString'' []) [Nonatomic, Readonly] [],
      Instance_Method ''initWithHexString:'' [Object ''NSString'' []] Instancetype [],
      Instance_Method ''initWithProfile:level:'' [Named ''RTCH264Profile'', Named ''RTCH264Level'']
          Instancetype []]"

definition RTCH264ProfileLevelId_class :: decl where
  "RTCH264ProfileLevelId_class =
     Class_Decl ''RTCH264ProfileLevelId'' ''NSObject'' []
     RTCH264ProfileLevelId_members"

definition RTCH264ProfileLevelId_h :: header where
  "RTCH264ProfileLevelId_h =
     Header ''RTCH264ProfileLevelId.h'' Always [''Foundation/Foundation.h'']
     [RTCMacros_h]
     []
     (RTCH264ProfileLevelId_constants @ [RTCH264Profile_enum, RTCH264Level_enum, RTCH264ProfileLevelId_class])"

section \<open>\<open>RTCYUVPlanarBuffer.h\<close>\<close>

definition RTCYUVPlanarBuffer_required :: "member list" where
  "RTCYUVPlanarBuffer_required =
     [Property ''chromaWidth'' (Named ''int'') [Nonatomic, Readonly] [],
      Property ''chromaHeight'' (Named ''int'') [Nonatomic, Readonly] [],
      Property ''dataY'' (Ptr (Named ''uint8_t'')) [Nonatomic, Readonly] [],
      Property ''dataU'' (Ptr (Named ''uint8_t'')) [Nonatomic, Readonly] [],
      Property ''dataV'' (Ptr (Named ''uint8_t'')) [Nonatomic, Readonly] [],
      Property ''strideY'' (Named ''int'') [Nonatomic, Readonly] [],
      Property ''strideU'' (Named ''int'') [Nonatomic, Readonly] [],
      Property ''strideV'' (Named ''int'') [Nonatomic, Readonly] [],
      Instance_Method ''initWithWidth:height:dataY:dataU:dataV:'' [Named ''int'', Named ''int'', Ptr (Named
          ''uint8_t''), Ptr (Named ''uint8_t''), Ptr (Named ''uint8_t'')] Instancetype [],
      Instance_Method ''initWithWidth:height:'' [Named ''int'', Named ''int''] Instancetype [],
      Instance_Method ''initWithWidth:height:strideY:strideU:strideV:'' [Named ''int'', Named ''int'', Named
          ''int'', Named ''int'', Named ''int''] Instancetype []]"

definition RTCYUVPlanarBuffer_protocol :: decl where
  "RTCYUVPlanarBuffer_protocol =
     Protocol_Decl ''RTCYUVPlanarBuffer'' [''RTCVideoFrameBuffer'']
     RTCYUVPlanarBuffer_required
     []"

definition RTCYUVPlanarBuffer_h :: header where
  "RTCYUVPlanarBuffer_h =
     Header ''RTCYUVPlanarBuffer.h'' Always [''AVFoundation/AVFoundation.h'']
     [RTCVideoFrameBuffer_h, RTCMacros_h]
     []
     [RTCYUVPlanarBuffer_protocol]"

section \<open>\<open>RTCI420Buffer.h\<close>\<close>

definition RTCI420Buffer_protocol :: decl where
  "RTCI420Buffer_protocol =
     Protocol_Decl ''RTCI420Buffer'' [''RTCYUVPlanarBuffer'']
     []
     []"

definition RTCI420Buffer_h :: header where
  "RTCI420Buffer_h =
     Header ''RTCI420Buffer.h'' Always [''AVFoundation/AVFoundation.h'']
     [RTCYUVPlanarBuffer_h]
     []
     [RTCI420Buffer_protocol]"

section \<open>\<open>RTCMTLVideoView.h\<close>\<close>

definition RTCMTLVideoView_members :: "member list" where
  "RTCMTLVideoView_members =
     [Property ''delegate'' (Id [''RTCVideoViewDelegate'']) [Nonatomic, Weak] [],
      Property ''videoContentMode'' (Named ''UIViewContentMode'') [Nonatomic] [],
      Property ''enabled'' (Named ''BOOL'') [Nonatomic, Getter ''isEnabled''] [],
      Property ''rotationOverride'' (Nullable (Object ''NSValue'' [])) [Nonatomic] []]"

definition RTCMTLVideoView_class :: decl where
  "RTCMTLVideoView_class =
     Class_Decl ''RTCMTLVideoView'' ''UIView'' [''RTCVideoRenderer'']
     RTCMTLVideoView_members"

definition RTCMTLVideoView_h :: header where
  "RTCMTLVideoView_h =
     Header ''RTCMTLVideoView.h'' Always [''Foundation/Foundation.h'']
     [RTCVideoFrame_h, RTCVideoRenderer_h, RTCMacros_h]
     []
     [RTCMTLVideoView_class]"

section \<open>\<open>RTCMutableYUVPlanarBuffer.h\<close>\<close>

definition RTCMutableYUVPlanarBuffer_required :: "member list" where
  "RTCMutableYUVPlanarBuffer_required =
     [Property ''mutableDataY'' (Ptr (Named ''uint8_t'')) [Nonatomic, Readonly] [],
      Property ''mutableDataU'' (Ptr (Named ''uint8_t'')) [Nonatomic, Readonly] [],
      Property ''mutableDataV'' (Ptr (Named ''uint8_t'')) [Nonatomic, Readonly] []]"

definition RTCMutableYUVPlanarBuffer_protocol :: decl where
  "RTCMutableYUVPlanarBuffer_protocol =
     Protocol_Decl ''RTCMutableYUVPlanarBuffer'' [''RTCYUVPlanarBuffer'']
     RTCMutableYUVPlanarBuffer_required
     []"

definition RTCMutableYUVPlanarBuffer_h :: header where
  "RTCMutableYUVPlanarBuffer_h =
     Header ''RTCMutableYUVPlanarBuffer.h'' Always [''AVFoundation/AVFoundation.h'']
     [RTCYUVPlanarBuffer_h]
     []
     [RTCMutableYUVPlanarBuffer_protocol]"

section \<open>\<open>RTCMutableI420Buffer.h\<close>\<close>

definition RTCMutableI420Buffer_protocol :: decl where
  "RTCMutableI420Buffer_protocol =
     Protocol_Decl ''RTCMutableI420Buffer'' [''RTCI420Buffer'', ''RTCMutableYUVPlanarBuffer'']
     []
     []"

definition RTCMutableI420Buffer_h :: header where
  "RTCMutableI420Buffer_h =
     Header ''RTCMutableI420Buffer.h'' Always [''AVFoundation/AVFoundation.h'']
     [RTCI420Buffer_h, RTCMutableYUVPlanarBuffer_h]
     []
     [RTCMutableI420Buffer_protocol]"

section \<open>\<open>RTCNativeI420Buffer.h\<close>\<close>

definition RTCI420Buffer_class :: decl where
  "RTCI420Buffer_class =
     Class_Decl ''RTCI420Buffer'' ''NSObject'' [''RTCI420Buffer'']
     []"

definition RTCNativeI420Buffer_h :: header where
  "RTCNativeI420Buffer_h =
     Header ''RTCNativeI420Buffer.h'' Always [''AVFoundation/AVFoundation.h'']
     [RTCI420Buffer_h, RTCMacros_h]
     []
     [RTCI420Buffer_class]"

section \<open>\<open>RTCNativeMutableI420Buffer.h\<close>\<close>

definition RTCMutableI420Buffer_class :: decl where
  "RTCMutableI420Buffer_class =
     Class_Decl ''RTCMutableI420Buffer'' ''RTCI420Buffer'' [''RTCMutableI420Buffer'']
     []"

definition RTCNativeMutableI420Buffer_h :: header where
  "RTCNativeMutableI420Buffer_h =
     Header ''RTCNativeMutableI420Buffer.h'' Always [''AVFoundation/AVFoundation.h'']
     [RTCMutableI420Buffer_h, RTCNativeI420Buffer_h, RTCMacros_h]
     []
     [RTCMutableI420Buffer_class]"

section \<open>\<open>RTCVideoCodecConstants.h\<close>\<close>

definition RTCVideoCodecConstants_constants :: "decl list" where
  "RTCVideoCodecConstants_constants =
     [Constant_Decl ''kRTCVideoCodecVp8Name'' (Object ''NSString'' []),
      Constant_Decl ''kRTCVideoCodecVp9Name'' (Object ''NSString'' []),
      Constant_Decl ''kRTCVideoCodecAv1Name'' (Object ''NSString'' [])]"

definition RTCVideoCodecConstants_h :: header where
  "RTCVideoCodecConstants_h =
     Header ''RTCVideoCodecConstants.h'' Always [''Foundation/Foundation.h'']
     [RTCMacros_h]
     []
     RTCVideoCodecConstants_constants"

section \<open>\<open>RTCVideoDecoderAV1.h\<close>\<close>

definition RTCVideoDecoderAV1_members :: "member list" where
  "RTCVideoDecoderAV1_members =
     [Class_Method ''av1Decoder'' [] (Id [''RTCVideoDecoder'']) [],
      Class_Method ''supportedCodecs'' [] (Object ''NSArray'' [Object ''RTCVideoCodecInfo'' []]) []]"

definition RTCVideoDecoderAV1_class :: decl where
  "RTCVideoDecoderAV1_class =
     Class_Decl ''RTCVideoDecoderAV1'' ''NSObject'' []
     RTCVideoDecoderAV1_members"

definition RTCVideoDecoderAV1_h :: header where
  "RTCVideoDecoderAV1_h =
     Header ''RTCVideoDecoderAV1.h'' Always [''Foundation/Foundation.h'']
     [RTCVideoCodecInfo_h, RTCVideoDecoder_h, RTCMacros_h]
     []
     [RTCVideoDecoderAV1_class]"

section \<open>\<open>RTCVideoDecoderFactoryH264.h\<close>\<close>

definition RTCVideoDecoderFactoryH264_class :: decl where
  "RTCVideoDecoderFactoryH264_class =
     Class_Decl ''RTCVideoDecoderFactoryH264'' ''NSObject'' [''RTCVideoDecoderFactory'']
     []"

definition RTCVideoDecoderFactoryH264_h :: header where
  "RTCVideoDecoderFactoryH264_h =
     Header ''RTCVideoDecoderFactoryH264.h'' Always [''Foundation/Foundation.h'']
     [RTCVideoDecoderFactory_h, RTCMacros_h]
     []
     [RTCVideoDecoderFactoryH264_class]"

section \<open>\<open>RTCVideoDecoderH264.h\<close>\<close>

definition RTCVideoDecoderH264_members :: "member list" where
  "RTCVideoDecoderH264_members =
     [Class_Method ''supportedCodecs'' [] (Object ''NSArray'' [Object ''RTCVideoCodecInfo'' []]) []]"

definition RTCVideoDecoderH264_class :: decl where
  "RTCVideoDecoderH264_class =
     Class_Decl ''RTCVideoDecoderH264'' ''NSObject'' [''RTCVideoDecoder'']
     RTCVideoDecoderH264_members"

definition RTCVideoDecoderH264_h :: header where
  "RTCVideoDecoderH264_h =
     Header ''RTCVideoDecoderH264.h'' Always [''Foundation/Foundation.h'']
     [RTCVideoCodecInfo_h, RTCVideoDecoder_h, RTCMacros_h]
     []
     [RTCVideoDecoderH264_class]"

section \<open>\<open>RTCVideoDecoderVP8.h\<close>\<close>

definition RTCVideoDecoderVP8_members :: "member list" where
  "RTCVideoDecoderVP8_members =
     [Class_Method ''vp8Decoder'' [] (Id [''RTCVideoDecoder'']) [],
      Class_Method ''supportedCodecs'' [] (Object ''NSArray'' [Object ''RTCVideoCodecInfo'' []]) []]"

definition RTCVideoDecoderVP8_class :: decl where
  "RTCVideoDecoderVP8_class =
     Class_Decl ''RTCVideoDecoderVP8'' ''NSObject'' []
     RTCVideoDecoderVP8_members"

definition RTCVideoDecoderVP8_h :: header where
  "RTCVideoDecoderVP8_h =
     Header ''RTCVideoDecoderVP8.h'' Always [''Foundation/Foundation.h'']
     [RTCVideoCodecInfo_h, RTCVideoDecoder_h, RTCMacros_h]
     []
     [RTCVideoDecoderVP8_class]"

section \<open>\<open>RTCVideoDecoderVP9.h\<close>\<close>

definition RTCVideoDecoderVP9_members :: "member list" where
  "RTCVideoDecoderVP9_members =
     [Class_Method ''vp9Decoder'' [] (Id [''RTCVideoDecoder'']) [],
      Class_Method ''supportedCodecs'' [] (Object ''NSArray'' [Object ''RTCVideoCodecInfo'' []]) [],
      Class_Method ''isSupported'' [] (Named ''bool'') []]"

definition RTCVideoDecoderVP9_class :: decl where
  "RTCVideoDecoderVP9_class =
     Class_Decl ''RTCVideoDecoderVP9'' ''NSObject'' []
     RTCVideoDecoderVP9_members"

definition RTCVideoDecoderVP9_h :: header where
  "RTCVideoDecoderVP9_h =
     Header ''RTCVideoDecoderVP9.h'' Always [''Foundation/Foundation.h'']
     [RTCVideoCodecInfo_h, RTCVideoDecoder_h, RTCMacros_h]
     []
     [RTCVideoDecoderVP9_class]"

section \<open>\<open>RTCVideoEncoderAV1.h\<close>\<close>

definition RTCVideoEncoderAV1_members :: "member list" where
  "RTCVideoEncoderAV1_members =
     [Class_Method ''av1Encoder'' [] (Id [''RTCVideoEncoder'']) [],
      Class_Method ''supportedScalabilityModes'' [] (Object ''NSArray'' [Object ''NSString'' []]) [],
      Class_Method ''supportedCodecs'' [] (Object ''NSArray'' [Object ''RTCVideoCodecInfo'' []]) [],
      Class_Method ''isSupported'' [] (Named ''bool'') []]"

definition RTCVideoEncoderAV1_class :: decl where
  "RTCVideoEncoderAV1_class =
     Class_Decl ''RTCVideoEncoderAV1'' ''NSObject'' []
     RTCVideoEncoderAV1_members"

definition RTCVideoEncoderAV1_h :: header where
  "RTCVideoEncoderAV1_h =
     Header ''RTCVideoEncoderAV1.h'' Always [''Foundation/Foundation.h'']
     [RTCVideoCodecInfo_h, RTCVideoEncoder_h, RTCMacros_h]
     []
     [RTCVideoEncoderAV1_class]"

section \<open>\<open>RTCVideoEncoderFactoryH264.h\<close>\<close>

definition RTCVideoEncoderFactoryH264_class :: decl where
  "RTCVideoEncoderFactoryH264_class =
     Class_Decl ''RTCVideoEncoderFactoryH264'' ''NSObject'' [''RTCVideoEncoderFactory'']
     []"

definition RTCVideoEncoderFactoryH264_h :: header where
  "RTCVideoEncoderFactoryH264_h =
     Header ''RTCVideoEncoderFactoryH264.h'' Always [''Foundation/Foundation.h'']
     [RTCVideoEncoderFactory_h, RTCMacros_h]
     []
     [RTCVideoEncoderFactoryH264_class]"

section \<open>\<open>RTCVideoEncoderH264.h\<close>\<close>

definition RTCVideoEncoderH264_members :: "member list" where
  "RTCVideoEncoderH264_members =
     [Instance_Method ''initWithCodecInfo:'' [Object ''RTCVideoCodecInfo'' []] Instancetype [],
      Class_Method ''supportedCodecs'' [] (Object ''NSArray'' [Object ''RTCVideoCodecInfo'' []]) []]"

definition RTCVideoEncoderH264_class :: decl where
  "RTCVideoEncoderH264_class =
     Class_Decl ''RTCVideoEncoderH264'' ''NSObject'' [''RTCVideoEncoder'']
     RTCVideoEncoderH264_members"

definition RTCVideoEncoderH264_h :: header where
  "RTCVideoEncoderH264_h =
     Header ''RTCVideoEncoderH264.h'' Always [''Foundation/Foundation.h'']
     [RTCVideoCodecInfo_h, RTCVideoEncoder_h, RTCMacros_h]
     []
     [RTCVideoEncoderH264_class]"

section \<open>\<open>RTCVideoEncoderVP8.h\<close>\<close>

definition RTCVideoEncoderVP8_members :: "member list" where
  "RTCVideoEncoderVP8_members =
     [Class_Method ''vp8Encoder'' [] (Id [''RTCVideoEncoder'']) [],
      Class_Method ''supportedScalabilityModes'' [] (Object ''NSArray'' [Object ''NSString'' []]) [],
      Class_Method ''supportedCodecs'' [] (Object ''NSArray'' [Object ''RTCVideoCodecInfo'' []]) []]"

definition RTCVideoEncoderVP8_class :: decl where
  "RTCVideoEncoderVP8_class =
     Class_Decl ''RTCVideoEncoderVP8'' ''NSObject'' []
     RTCVideoEncoderVP8_members"

definition RTCVideoEncoderVP8_h :: header where
  "RTCVideoEncoderVP8_h =
     Header ''RTCVideoEncoderVP8.h'' Always [''Foundation/Foundation.h'']
     [RTCVideoCodecInfo_h, RTCVideoEncoder_h, RTCMacros_h]
     []
     [RTCVideoEncoderVP8_class]"

section \<open>\<open>RTCVideoEncoderVP9.h\<close>\<close>

definition RTCVideoEncoderVP9_members :: "member list" where
  "RTCVideoEncoderVP9_members =
     [Class_Method ''vp9Encoder'' [] (Nullable (Id [''RTCVideoEncoder''])) [],
      Class_Method ''supportedScalabilityModes'' [] (Object ''NSArray'' [Object ''NSString'' []]) [],
      Class_Method ''supportedCodecs'' [] (Object ''NSArray'' [Object ''RTCVideoCodecInfo'' []]) [],
      Class_Method ''isSupported'' [] (Named ''bool'') []]"

definition RTCVideoEncoderVP9_class :: decl where
  "RTCVideoEncoderVP9_class =
     Class_Decl ''RTCVideoEncoderVP9'' ''NSObject'' []
     RTCVideoEncoderVP9_members"

definition RTCVideoEncoderVP9_h :: header where
  "RTCVideoEncoderVP9_h =
     Header ''RTCVideoEncoderVP9.h'' Always [''Foundation/Foundation.h'']
     [RTCVideoCodecInfo_h, RTCVideoEncoder_h, RTCMacros_h]
     []
     [RTCVideoEncoderVP9_class]"

section \<open>Checks\<close>

text \<open>Bundles: the headers, the declarations of classes, protocols and categories, the other declarations.\<close>

lemmas video_headers =
  RTCVideoFrameBuffer_h_def RTCCVPixelBuffer_h_def RTCCameraPreviewView_h_def RTCVideoFrame_h_def
  RTCVideoCapturer_h_def RTCCameraVideoCapturer_h_def RTCCodecSpecificInfo_h_def
  RTCCodecSpecificInfoH264_h_def RTCVideoCodecInfo_h_def RTCEncodedImage_h_def
  RTCVideoEncoderSettings_h_def RTCVideoDecoder_h_def RTCVideoDecoderFactory_h_def
  RTCDefaultVideoDecoderFactory_h_def RTCVideoEncoderQpThresholds_h_def RTCVideoEncoder_h_def
  RTCVideoEncoderFactory_h_def RTCDefaultVideoEncoderFactory_h_def RTCVideoRenderer_h_def
  RTCVideoViewShading_h_def RTCEAGLVideoView_h_def RTCFileVideoCapturer_h_def RTCH264ProfileLevelId_h_def
  RTCYUVPlanarBuffer_h_def RTCI420Buffer_h_def RTCMTLVideoView_h_def RTCMutableYUVPlanarBuffer_h_def
  RTCMutableI420Buffer_h_def RTCNativeI420Buffer_h_def RTCNativeMutableI420Buffer_h_def
  RTCVideoCodecConstants_h_def RTCVideoDecoderAV1_h_def RTCVideoDecoderFactoryH264_h_def
  RTCVideoDecoderH264_h_def RTCVideoDecoderVP8_h_def RTCVideoDecoderVP9_h_def RTCVideoEncoderAV1_h_def
  RTCVideoEncoderFactoryH264_h_def RTCVideoEncoderH264_h_def RTCVideoEncoderVP8_h_def
  RTCVideoEncoderVP9_h_def

lemmas video_interfaces =
  RTCVideoFrameBuffer_protocol_def RTCCVPixelBuffer_class_def RTCCameraPreviewView_class_def
  RTCVideoFrame_class_def RTCVideoCapturerDelegate_protocol_def RTCVideoCapturer_class_def
  RTCCameraVideoCapturer_class_def RTCCodecSpecificInfo_protocol_def RTCCodecSpecificInfoH264_class_def
  RTCVideoCodecInfo_class_def RTCEncodedImage_class_def RTCVideoEncoderSettings_class_def
  RTCVideoDecoder_protocol_def RTCVideoDecoderFactory_protocol_def RTCDefaultVideoDecoderFactory_class_def
  RTCVideoEncoderQpThresholds_class_def RTCVideoEncoder_protocol_def RTCVideoEncoderSelector_protocol_def
  RTCVideoEncoderCodecSupport_class_def RTCVideoEncoderFactory_protocol_def
  RTCDefaultVideoEncoderFactory_class_def RTCVideoRenderer_protocol_def RTCVideoViewDelegate_protocol_def
  RTCVideoViewShading_protocol_def RTCEAGLVideoView_class_def RTCFileVideoCapturer_class_def
  RTCH264ProfileLevelId_class_def RTCYUVPlanarBuffer_protocol_def RTCI420Buffer_protocol_def
  RTCMTLVideoView_class_def RTCMutableYUVPlanarBuffer_protocol_def RTCMutableI420Buffer_protocol_def
  RTCI420Buffer_class_def RTCMutableI420Buffer_class_def RTCVideoDecoderAV1_class_def
  RTCVideoDecoderFactoryH264_class_def RTCVideoDecoderH264_class_def RTCVideoDecoderVP8_class_def
  RTCVideoDecoderVP9_class_def RTCVideoEncoderAV1_class_def RTCVideoEncoderFactoryH264_class_def
  RTCVideoEncoderH264_class_def RTCVideoEncoderVP8_class_def RTCVideoEncoderVP9_class_def

lemmas video_others =
  RTCVideoRotation_enum_def RTCH264PacketizationMode_enum_def RTCFrameType_enum_def
  RTCVideoContentType_enum_def RTCVideoCodecMode_enum_def RTCVideoDecoder_typedefs_def
  RTCVideoEncoder_typedefs_def RTCFileVideoCapturer_typedefs_def RTCH264ProfileLevelId_constants_def
  RTCH264Profile_enum_def RTCH264Level_enum_def RTCVideoCodecConstants_constants_def

text \<open>No selector is declared twice, selectors have one type per colon, enumeration constants are distinct.\<close>

text \<open>What each header declares on tvOS.\<close>

lemma video_decls [header_decls_eqs]:
  "header_decls True RTCVideoFrameBuffer_h = [RTCVideoFrameBuffer_protocol]"
  "header_decls True RTCCVPixelBuffer_h = [RTCCVPixelBuffer_class]"
  "header_decls True RTCCameraPreviewView_h = []"
  "header_decls True RTCVideoFrame_h = [RTCVideoRotation_enum, RTCVideoFrame_class]"
  "header_decls True RTCVideoCapturer_h = [RTCVideoCapturerDelegate_protocol, RTCVideoCapturer_class]"
  "header_decls True RTCCameraVideoCapturer_h = []"
  "header_decls True RTCCodecSpecificInfo_h = [RTCCodecSpecificInfo_protocol]"
  "header_decls True RTCCodecSpecificInfoH264_h = [RTCH264PacketizationMode_enum,
      RTCCodecSpecificInfoH264_class]"
  "header_decls True RTCVideoCodecInfo_h = [RTCVideoCodecInfo_class]"
  "header_decls True RTCEncodedImage_h = [RTCFrameType_enum, RTCVideoContentType_enum, RTCEncodedImage_class]"
  "header_decls True RTCVideoEncoderSettings_h = [RTCVideoCodecMode_enum, RTCVideoEncoderSettings_class]"
  "header_decls True RTCVideoDecoder_h = RTCVideoDecoder_typedefs @ [RTCVideoDecoder_protocol]"
  "header_decls True RTCVideoDecoderFactory_h = [RTCVideoDecoderFactory_protocol]"
  "header_decls True RTCDefaultVideoDecoderFactory_h = [RTCDefaultVideoDecoderFactory_class]"
  "header_decls True RTCVideoEncoderQpThresholds_h = [RTCVideoEncoderQpThresholds_class]"
  "header_decls True RTCVideoEncoder_h = RTCVideoEncoder_typedefs @ [RTCVideoEncoder_protocol]"
  "header_decls True RTCVideoEncoderFactory_h = [RTCVideoEncoderSelector_protocol,
      RTCVideoEncoderCodecSupport_class, RTCVideoEncoderFactory_protocol]"
  "header_decls True RTCDefaultVideoEncoderFactory_h = [RTCDefaultVideoEncoderFactory_class]"
  "header_decls True RTCVideoRenderer_h = [RTCVideoRenderer_protocol, RTCVideoViewDelegate_protocol]"
  "header_decls True RTCVideoViewShading_h = [RTCVideoViewShading_protocol]"
  "header_decls True RTCEAGLVideoView_h = []"
  "header_decls True RTCFileVideoCapturer_h = []"
  "header_decls True RTCH264ProfileLevelId_h = RTCH264ProfileLevelId_constants @ [RTCH264Profile_enum,
      RTCH264Level_enum, RTCH264ProfileLevelId_class]"
  "header_decls True RTCYUVPlanarBuffer_h = [RTCYUVPlanarBuffer_protocol]"
  "header_decls True RTCI420Buffer_h = [RTCI420Buffer_protocol]"
  "header_decls True RTCMTLVideoView_h = [RTCMTLVideoView_class]"
  "header_decls True RTCMutableYUVPlanarBuffer_h = [RTCMutableYUVPlanarBuffer_protocol]"
  "header_decls True RTCMutableI420Buffer_h = [RTCMutableI420Buffer_protocol]"
  "header_decls True RTCNativeI420Buffer_h = [RTCI420Buffer_class]"
  "header_decls True RTCNativeMutableI420Buffer_h = [RTCMutableI420Buffer_class]"
  "header_decls True RTCVideoCodecConstants_h = RTCVideoCodecConstants_constants"
  "header_decls True RTCVideoDecoderAV1_h = [RTCVideoDecoderAV1_class]"
  "header_decls True RTCVideoDecoderFactoryH264_h = [RTCVideoDecoderFactoryH264_class]"
  "header_decls True RTCVideoDecoderH264_h = [RTCVideoDecoderH264_class]"
  "header_decls True RTCVideoDecoderVP8_h = [RTCVideoDecoderVP8_class]"
  "header_decls True RTCVideoDecoderVP9_h = [RTCVideoDecoderVP9_class]"
  "header_decls True RTCVideoEncoderAV1_h = [RTCVideoEncoderAV1_class]"
  "header_decls True RTCVideoEncoderFactoryH264_h = [RTCVideoEncoderFactoryH264_class]"
  "header_decls True RTCVideoEncoderH264_h = [RTCVideoEncoderH264_class]"
  "header_decls True RTCVideoEncoderVP8_h = [RTCVideoEncoderVP8_class]"
  "header_decls True RTCVideoEncoderVP9_h = [RTCVideoEncoderVP9_class]"
  by (subst RTCVideoFrameBuffer_h_def, simp, subst RTCCVPixelBuffer_h_def, simp, subst
    RTCCameraPreviewView_h_def, simp, subst RTCVideoFrame_h_def, simp, subst RTCVideoCapturer_h_def, simp,
    subst RTCCameraVideoCapturer_h_def, simp, subst RTCCodecSpecificInfo_h_def, simp, subst
    RTCCodecSpecificInfoH264_h_def, simp, subst RTCVideoCodecInfo_h_def, simp, subst
    RTCEncodedImage_h_def, simp, subst RTCVideoEncoderSettings_h_def, simp, subst RTCVideoDecoder_h_def,
    simp, subst RTCVideoDecoderFactory_h_def, simp, subst RTCDefaultVideoDecoderFactory_h_def, simp, subst
    RTCVideoEncoderQpThresholds_h_def, simp, subst RTCVideoEncoder_h_def, simp, subst
    RTCVideoEncoderFactory_h_def, simp, subst RTCDefaultVideoEncoderFactory_h_def, simp, subst
    RTCVideoRenderer_h_def, simp, subst RTCVideoViewShading_h_def, simp, subst RTCEAGLVideoView_h_def,
    simp, subst RTCFileVideoCapturer_h_def, simp, subst RTCH264ProfileLevelId_h_def, simp, subst
    RTCYUVPlanarBuffer_h_def, simp, subst RTCI420Buffer_h_def, simp, subst RTCMTLVideoView_h_def, simp,
    subst RTCMutableYUVPlanarBuffer_h_def, simp, subst RTCMutableI420Buffer_h_def, simp, subst
    RTCNativeI420Buffer_h_def, simp, subst RTCNativeMutableI420Buffer_h_def, simp, subst
    RTCVideoCodecConstants_h_def, simp, subst RTCVideoDecoderAV1_h_def, simp, subst
    RTCVideoDecoderFactoryH264_h_def, simp, subst RTCVideoDecoderH264_h_def, simp, subst
    RTCVideoDecoderVP8_h_def, simp, subst RTCVideoDecoderVP9_h_def, simp, subst RTCVideoEncoderAV1_h_def,
    simp, subst RTCVideoEncoderFactoryH264_h_def, simp, subst RTCVideoEncoderH264_h_def, simp, subst
    RTCVideoEncoderVP8_h_def, simp, subst RTCVideoEncoderVP9_h_def, simp)

lemma video_headers_ok_1 [header_checks]:
  "header_ok RTCVideoFrameBuffer_h"
  "header_ok RTCCVPixelBuffer_h"
  "header_ok RTCCameraPreviewView_h"
  "header_ok RTCVideoFrame_h"
  "header_ok RTCVideoCapturer_h"
  "header_ok RTCCameraVideoCapturer_h"
  "header_ok RTCCodecSpecificInfo_h"
  "header_ok RTCCodecSpecificInfoH264_h"
  "header_ok RTCVideoCodecInfo_h"
  "header_ok RTCEncodedImage_h"
  "header_ok RTCVideoEncoderSettings_h"
  "header_ok RTCVideoDecoder_h"
  "header_ok RTCVideoDecoderFactory_h"
  "header_ok RTCDefaultVideoDecoderFactory_h"
  "header_ok RTCVideoEncoderQpThresholds_h"
  "header_ok RTCVideoEncoder_h"
  "header_ok RTCVideoEncoderFactory_h"
  "header_ok RTCDefaultVideoEncoderFactory_h"
  "header_ok RTCVideoRenderer_h"
  "header_ok RTCVideoViewShading_h"
  by code_simp+

lemma video_headers_ok_2 [header_checks]:
  "header_ok RTCEAGLVideoView_h"
  "header_ok RTCFileVideoCapturer_h"
  "header_ok RTCH264ProfileLevelId_h"
  "header_ok RTCYUVPlanarBuffer_h"
  "header_ok RTCI420Buffer_h"
  "header_ok RTCMTLVideoView_h"
  "header_ok RTCMutableYUVPlanarBuffer_h"
  "header_ok RTCMutableI420Buffer_h"
  "header_ok RTCNativeI420Buffer_h"
  "header_ok RTCNativeMutableI420Buffer_h"
  "header_ok RTCVideoCodecConstants_h"
  "header_ok RTCVideoDecoderAV1_h"
  "header_ok RTCVideoDecoderFactoryH264_h"
  "header_ok RTCVideoDecoderH264_h"
  "header_ok RTCVideoDecoderVP8_h"
  "header_ok RTCVideoDecoderVP9_h"
  "header_ok RTCVideoEncoderAV1_h"
  "header_ok RTCVideoEncoderFactoryH264_h"
  "header_ok RTCVideoEncoderH264_h"
  "header_ok RTCVideoEncoderVP8_h"
  "header_ok RTCVideoEncoderVP9_h"
  by code_simp+

text \<open>On tvOS every name of the framework a header uses is visible there.\<close>

lemma video_headers_resolve [header_checks]:
  "resolves True RTCVideoFrameBuffer_h"
  "resolves True RTCCVPixelBuffer_h"
  "resolves True RTCCameraPreviewView_h"
  "resolves True RTCVideoFrame_h"
  "resolves True RTCVideoCapturer_h"
  "resolves True RTCCameraVideoCapturer_h"
  "resolves True RTCCodecSpecificInfo_h"
  "resolves True RTCCodecSpecificInfoH264_h"
  "resolves True RTCVideoCodecInfo_h"
  "resolves True RTCEncodedImage_h"
  "resolves True RTCVideoEncoderSettings_h"
  "resolves True RTCVideoDecoder_h"
  "resolves True RTCVideoDecoderFactory_h"
  "resolves True RTCDefaultVideoDecoderFactory_h"
  "resolves True RTCVideoEncoderQpThresholds_h"
  "resolves True RTCVideoEncoder_h"
  "resolves True RTCVideoEncoderFactory_h"
  "resolves True RTCDefaultVideoEncoderFactory_h"
  "resolves True RTCVideoRenderer_h"
  "resolves True RTCVideoViewShading_h"
  "resolves True RTCEAGLVideoView_h"
  "resolves True RTCFileVideoCapturer_h"
  "resolves True RTCH264ProfileLevelId_h"
  "resolves True RTCYUVPlanarBuffer_h"
  "resolves True RTCI420Buffer_h"
  "resolves True RTCMTLVideoView_h"
  "resolves True RTCMutableYUVPlanarBuffer_h"
  "resolves True RTCMutableI420Buffer_h"
  "resolves True RTCNativeI420Buffer_h"
  "resolves True RTCNativeMutableI420Buffer_h"
  "resolves True RTCVideoCodecConstants_h"
  "resolves True RTCVideoDecoderAV1_h"
  "resolves True RTCVideoDecoderFactoryH264_h"
  "resolves True RTCVideoDecoderH264_h"
  "resolves True RTCVideoDecoderVP8_h"
  "resolves True RTCVideoDecoderVP9_h"
  "resolves True RTCVideoEncoderAV1_h"
  "resolves True RTCVideoEncoderFactoryH264_h"
  "resolves True RTCVideoEncoderH264_h"
  "resolves True RTCVideoEncoderVP8_h"
  "resolves True RTCVideoEncoderVP9_h"
  by code_simp+

end
