(* ===== verification/Webrtc_Media.thy ===== *)
theory Webrtc_Media imports Webrtc_Video begin

text \<open>
  The headers of media sources, tracks and streams and of the RTP objects: parameters, capabilities,
  senders, receivers and transceivers. One definition per declaration and one per header, in the
  order of the headers' imports; \<open>_class\<close>, \<open>_protocol\<close> and
  \<open>_enum\<close> keep apart what the language keeps apart. The headers are those of the
  \<open>tvos-arm64\<close> slice of \<open>WebRTC.xcframework\<close>; the simulator slice has the
  same files.
\<close>

section \<open>\<open>RTCMediaSource.h\<close>\<close>

definition RTCSourceState_enum :: decl where
  "RTCSourceState_enum =
     Enum_Decl ''RTCSourceState'' ''NSInteger''
     [(''RTCSourceStateInitializing'', Auto),
      (''RTCSourceStateLive'', Auto),
      (''RTCSourceStateEnded'', Auto),
      (''RTCSourceStateMuted'', Auto)]"

definition RTCMediaSource_members :: "member list" where
  "RTCMediaSource_members =
     [Property ''state'' (Named ''RTCSourceState'') [Nonatomic, Readonly] [],
      Instance_Method ''init'' [] Instancetype [Unavailable]]"

definition RTCMediaSource_class :: decl where
  "RTCMediaSource_class =
     Class_Decl ''RTCMediaSource'' ''NSObject'' []
     RTCMediaSource_members"

definition RTCMediaSource_h :: header where
  "RTCMediaSource_h =
     Header ''RTCMediaSource.h'' Always [''Foundation/Foundation.h'']
     [RTCMacros_h]
     []
     [RTCSourceState_enum, RTCMediaSource_class]"

section \<open>\<open>RTCAudioSource.h\<close>\<close>

definition RTCAudioSource_members :: "member list" where
  "RTCAudioSource_members =
     [Instance_Method ''init'' [] Instancetype [Unavailable],
      Property ''volume'' (Named ''double'') [Nonatomic, Assign] []]"

definition RTCAudioSource_class :: decl where
  "RTCAudioSource_class =
     Class_Decl ''RTCAudioSource'' ''RTCMediaSource'' []
     RTCAudioSource_members"

definition RTCAudioSource_h :: header where
  "RTCAudioSource_h =
     Header ''RTCAudioSource.h'' Always [''Foundation/Foundation.h'']
     [RTCMediaSource_h, RTCMacros_h]
     []
     [RTCAudioSource_class]"

section \<open>\<open>RTCMediaStreamTrack.h\<close>\<close>

definition RTCMediaStreamTrackState_enum :: decl where
  "RTCMediaStreamTrackState_enum =
     Enum_Decl ''RTCMediaStreamTrackState'' ''NSInteger''
     [(''RTCMediaStreamTrackStateLive'', Auto),
      (''RTCMediaStreamTrackStateEnded'', Auto)]"

definition RTCMediaStreamTrack_constants :: "decl list" where
  "RTCMediaStreamTrack_constants =
     [Constant_Decl ''kRTCMediaStreamTrackKindAudio'' (Object ''NSString'' []),
      Constant_Decl ''kRTCMediaStreamTrackKindVideo'' (Object ''NSString'' [])]"

definition RTCMediaStreamTrack_members :: "member list" where
  "RTCMediaStreamTrack_members =
     [Property ''kind'' (Object ''NSString'' []) [Nonatomic, Readonly] [],
      Property ''trackId'' (Object ''NSString'' []) [Nonatomic, Readonly] [],
      Property ''isEnabled'' (Named ''BOOL'') [Nonatomic, Assign] [],
      Property ''readyState'' (Named ''RTCMediaStreamTrackState'') [Nonatomic, Readonly] [],
      Instance_Method ''init'' [] Instancetype [Unavailable]]"

definition RTCMediaStreamTrack_class :: decl where
  "RTCMediaStreamTrack_class =
     Class_Decl ''RTCMediaStreamTrack'' ''NSObject'' []
     RTCMediaStreamTrack_members"

definition RTCMediaStreamTrack_h :: header where
  "RTCMediaStreamTrack_h =
     Header ''RTCMediaStreamTrack.h'' Always [''Foundation/Foundation.h'']
     [RTCMacros_h]
     []
     ([RTCMediaStreamTrackState_enum] @ RTCMediaStreamTrack_constants @ [RTCMediaStreamTrack_class])"

section \<open>\<open>RTCAudioTrack.h\<close>\<close>

definition RTCAudioTrack_members :: "member list" where
  "RTCAudioTrack_members =
     [Instance_Method ''init'' [] Instancetype [Unavailable],
      Property ''source'' (Object ''RTCAudioSource'' []) [Nonatomic, Readonly] []]"

definition RTCAudioTrack_class :: decl where
  "RTCAudioTrack_class =
     Class_Decl ''RTCAudioTrack'' ''RTCMediaStreamTrack'' []
     RTCAudioTrack_members"

definition RTCAudioTrack_h :: header where
  "RTCAudioTrack_h =
     Header ''RTCAudioTrack.h'' Always []
     [RTCMediaStreamTrack_h, RTCMacros_h]
     [Fwd_Class ''RTCAudioSource'']
     [RTCAudioTrack_class]"

section \<open>\<open>RTCDtmfSender.h\<close>\<close>

definition RTCDtmfSender_required :: "member list" where
  "RTCDtmfSender_required =
     [Property ''canInsertDtmf'' (Named ''BOOL'') [Nonatomic, Readonly] [],
      Instance_Method ''insertDtmf:duration:interToneGap:'' [Object ''NSString'' [], Named ''NSTimeInterval'',
          Named ''NSTimeInterval''] (Named ''BOOL'') [],
      Instance_Method ''remainingTones'' [] (Object ''NSString'' []) [],
      Instance_Method ''duration'' [] (Named ''NSTimeInterval'') [],
      Instance_Method ''interToneGap'' [] (Named ''NSTimeInterval'') []]"

definition RTCDtmfSender_protocol :: decl where
  "RTCDtmfSender_protocol =
     Protocol_Decl ''RTCDtmfSender'' [''NSObject'']
     RTCDtmfSender_required
     []"

definition RTCDtmfSender_h :: header where
  "RTCDtmfSender_h =
     Header ''RTCDtmfSender.h'' Always [''Foundation/Foundation.h'']
     [RTCMacros_h]
     []
     [RTCDtmfSender_protocol]"

section \<open>\<open>RTCMediaConstraints.h\<close>\<close>

definition RTCMediaConstraints_constants :: "decl list" where
  "RTCMediaConstraints_constants =
     [Constant_Decl ''kRTCMediaConstraintsAudioNetworkAdaptorConfig'' (Object ''NSString'' []),
      Constant_Decl ''kRTCMediaConstraintsIceRestart'' (Object ''NSString'' []),
      Constant_Decl ''kRTCMediaConstraintsOfferToReceiveAudio'' (Object ''NSString'' []),
      Constant_Decl ''kRTCMediaConstraintsOfferToReceiveVideo'' (Object ''NSString'' []),
      Constant_Decl ''kRTCMediaConstraintsVoiceActivityDetection'' (Object ''NSString'' []),
      Constant_Decl ''kRTCMediaConstraintsValueTrue'' (Object ''NSString'' []),
      Constant_Decl ''kRTCMediaConstraintsValueFalse'' (Object ''NSString'' [])]"

definition RTCMediaConstraints_members :: "member list" where
  "RTCMediaConstraints_members =
     [Instance_Method ''init'' [] Instancetype [Unavailable],
      Instance_Method ''initWithMandatoryConstraints:optionalConstraints:'' [Nullable (Object ''NSDictionary''
          [Object ''NSString'' [], Object ''NSString'' []]), Nullable (Object ''NSDictionary'' [Object
              ''NSString'' [], Object ''NSString'' []])] Instancetype [Designated]]"

definition RTCMediaConstraints_class :: decl where
  "RTCMediaConstraints_class =
     Class_Decl ''RTCMediaConstraints'' ''NSObject'' []
     RTCMediaConstraints_members"

definition RTCMediaConstraints_h :: header where
  "RTCMediaConstraints_h =
     Header ''RTCMediaConstraints.h'' Always [''Foundation/Foundation.h'']
     [RTCMacros_h]
     []
     (RTCMediaConstraints_constants @ [RTCMediaConstraints_class])"

section \<open>\<open>RTCMediaStream.h\<close>\<close>

definition RTCMediaStream_members :: "member list" where
  "RTCMediaStream_members =
     [Property ''audioTracks'' (Object ''NSArray'' [Object ''RTCAudioTrack'' []]) [Nonatomic, Strong, Readonly]
         [],
      Property ''videoTracks'' (Object ''NSArray'' [Object ''RTCVideoTrack'' []]) [Nonatomic, Strong, Readonly]
          [],
      Property ''streamId'' (Object ''NSString'' []) [Nonatomic, Readonly] [],
      Instance_Method ''init'' [] Instancetype [Unavailable],
      Instance_Method ''addAudioTrack:'' [Object ''RTCAudioTrack'' []] (Named ''void'') [],
      Instance_Method ''addVideoTrack:'' [Object ''RTCVideoTrack'' []] (Named ''void'') [],
      Instance_Method ''removeAudioTrack:'' [Object ''RTCAudioTrack'' []] (Named ''void'') [],
      Instance_Method ''removeVideoTrack:'' [Object ''RTCVideoTrack'' []] (Named ''void'') []]"

definition RTCMediaStream_class :: decl where
  "RTCMediaStream_class =
     Class_Decl ''RTCMediaStream'' ''NSObject'' []
     RTCMediaStream_members"

definition RTCMediaStream_h :: header where
  "RTCMediaStream_h =
     Header ''RTCMediaStream.h'' Always [''Foundation/Foundation.h'']
     [RTCMacros_h]
     [Fwd_Class ''RTCAudioTrack'', Fwd_Class ''RTCPeerConnectionFactory'', Fwd_Class ''RTCVideoTrack'']
     [RTCMediaStream_class]"

section \<open>\<open>RTCRtcpParameters.h\<close>\<close>

definition RTCRtcpParameters_members :: "member list" where
  "RTCRtcpParameters_members =
     [Property ''cname'' (Object ''NSString'' []) [Nonatomic, Readonly, Copy] [],
      Property ''isReducedSize'' (Named ''BOOL'') [Nonatomic, Assign] [],
      Instance_Method ''init'' [] Instancetype []]"

definition RTCRtcpParameters_class :: decl where
  "RTCRtcpParameters_class =
     Class_Decl ''RTCRtcpParameters'' ''NSObject'' []
     RTCRtcpParameters_members"

definition RTCRtcpParameters_h :: header where
  "RTCRtcpParameters_h =
     Header ''RTCRtcpParameters.h'' Always [''Foundation/Foundation.h'']
     [RTCMacros_h]
     []
     [RTCRtcpParameters_class]"

section \<open>\<open>RTCRtpCapabilities.h\<close>\<close>

definition RTCRtpCapabilities_members :: "member list" where
  "RTCRtpCapabilities_members =
     [Property ''codecs'' (Object ''NSArray'' [Object ''RTCRtpCodecCapability'' []]) [Nonatomic, Copy] [],
      Property ''headerExtensions'' (Object ''NSArray'' [Object ''RTCRtpHeaderExtensionCapability'' []])
          [Nonatomic, Copy] [],
      Instance_Method ''init'' [] Instancetype []]"

definition RTCRtpCapabilities_class :: decl where
  "RTCRtpCapabilities_class =
     Class_Decl ''RTCRtpCapabilities'' ''NSObject'' []
     RTCRtpCapabilities_members"

definition RTCRtpCapabilities_h :: header where
  "RTCRtpCapabilities_h =
     Header ''RTCRtpCapabilities.h'' Always [''Foundation/Foundation.h'']
     [RTCMacros_h]
     [Fwd_Class ''RTCRtpCodecCapability'', Fwd_Class ''RTCRtpHeaderExtensionCapability'']
     [RTCRtpCapabilities_class]"

section \<open>\<open>RTCRtpCodecCapability.h\<close>\<close>

definition RTCRtpCodecCapability_members :: "member list" where
  "RTCRtpCodecCapability_members =
     [Property ''preferredPayloadType'' (Nullable (Object ''NSNumber'' [])) [Nonatomic, Readonly] [],
      Property ''name'' (Object ''NSString'' []) [Nonatomic, Readonly] [],
      Property ''kind'' (Object ''NSString'' []) [Nonatomic, Readonly] [],
      Property ''clockRate'' (Nullable (Object ''NSNumber'' [])) [Nonatomic, Readonly] [],
      Property ''numChannels'' (Nullable (Object ''NSNumber'' [])) [Nonatomic, Readonly] [],
      Property ''parameters'' (Object ''NSDictionary'' [Object ''NSString'' [], Object ''NSString'' []])
          [Nonatomic, Readonly] [],
      Property ''mimeType'' (Object ''NSString'' []) [Nonatomic, Readonly] [],
      Instance_Method ''init'' [] Instancetype [Unavailable]]"

definition RTCRtpCodecCapability_class :: decl where
  "RTCRtpCodecCapability_class =
     Class_Decl ''RTCRtpCodecCapability'' ''NSObject'' []
     RTCRtpCodecCapability_members"

definition RTCRtpCodecCapability_h :: header where
  "RTCRtpCodecCapability_h =
     Header ''RTCRtpCodecCapability.h'' Always [''Foundation/Foundation.h'']
     [RTCMacros_h]
     []
     [RTCRtpCodecCapability_class]"

section \<open>\<open>RTCRtpCodecParameters.h\<close>\<close>

definition RTCRtpCodecParameters_constants :: "decl list" where
  "RTCRtpCodecParameters_constants =
     [Constant_Decl ''kRTCRtxCodecName'' (Object ''NSString'' []),
      Constant_Decl ''kRTCRedCodecName'' (Object ''NSString'' []),
      Constant_Decl ''kRTCUlpfecCodecName'' (Object ''NSString'' []),
      Constant_Decl ''kRTCFlexfecCodecName'' (Object ''NSString'' []),
      Constant_Decl ''kRTCOpusCodecName'' (Object ''NSString'' []),
      Constant_Decl ''kRTCIsacCodecName'' (Object ''NSString'' []),
      Constant_Decl ''kRTCL16CodecName'' (Object ''NSString'' []),
      Constant_Decl ''kRTCG722CodecName'' (Object ''NSString'' []),
      Constant_Decl ''kRTCPcmuCodecName'' (Object ''NSString'' []),
      Constant_Decl ''kRTCPcmaCodecName'' (Object ''NSString'' []),
      Constant_Decl ''kRTCDtmfCodecName'' (Object ''NSString'' []),
      Constant_Decl ''kRTCComfortNoiseCodecName'' (Object ''NSString'' []),
      Constant_Decl ''kRTCVp8CodecName'' (Object ''NSString'' []),
      Constant_Decl ''kRTCVp9CodecName'' (Object ''NSString'' []),
      Constant_Decl ''kRTCH264CodecName'' (Object ''NSString'' [])]"

definition RTCRtpCodecParameters_members :: "member list" where
  "RTCRtpCodecParameters_members =
     [Property ''payloadType'' (Named ''int'') [Nonatomic, Assign] [],
      Property ''name'' (Object ''NSString'' []) [Nonatomic, Readonly] [],
      Property ''kind'' (Object ''NSString'' []) [Nonatomic, Readonly] [],
      Property ''clockRate'' (Nullable (Object ''NSNumber'' [])) [Nonatomic, Readonly] [],
      Property ''numChannels'' (Nullable (Object ''NSNumber'' [])) [Nonatomic, Readonly] [],
      Property ''parameters'' (Object ''NSDictionary'' []) [Nonatomic, Readonly] [],
      Instance_Method ''init'' [] Instancetype []]"

definition RTCRtpCodecParameters_class :: decl where
  "RTCRtpCodecParameters_class =
     Class_Decl ''RTCRtpCodecParameters'' ''NSObject'' []
     RTCRtpCodecParameters_members"

definition RTCRtpCodecParameters_h :: header where
  "RTCRtpCodecParameters_h =
     Header ''RTCRtpCodecParameters.h'' Always [''Foundation/Foundation.h'']
     [RTCMacros_h]
     []
     (RTCRtpCodecParameters_constants @ [RTCRtpCodecParameters_class])"

section \<open>\<open>RTCRtpEncodingParameters.h\<close>\<close>

definition RTCPriority_enum :: decl where
  "RTCPriority_enum =
     Enum_Decl ''RTCPriority'' ''NSInteger''
     [(''RTCPriorityVeryLow'', Auto),
      (''RTCPriorityLow'', Auto),
      (''RTCPriorityMedium'', Auto),
      (''RTCPriorityHigh'', Auto)]"

definition RTCRtpEncodingParameters_members :: "member list" where
  "RTCRtpEncodingParameters_members =
     [Property ''rid'' (Nullable (Object ''NSString'' [])) [Nonatomic, Copy] [],
      Property ''isActive'' (Named ''BOOL'') [Nonatomic, Assign] [],
      Property ''maxBitrateBps'' (Nullable (Object ''NSNumber'' [])) [Nonatomic, Copy] [],
      Property ''minBitrateBps'' (Nullable (Object ''NSNumber'' [])) [Nonatomic, Copy] [],
      Property ''maxFramerate'' (Nullable (Object ''NSNumber'' [])) [Nonatomic, Copy] [],
      Property ''numTemporalLayers'' (Nullable (Object ''NSNumber'' [])) [Nonatomic, Copy] [],
      Property ''scalabilityMode'' (Nullable (Object ''NSString'' [])) [Nonatomic, Copy] [],
      Property ''scaleResolutionDownBy'' (Nullable (Object ''NSNumber'' [])) [Nonatomic, Copy] [],
      Property ''ssrc'' (Nullable (Object ''NSNumber'' [])) [Nonatomic, Readonly] [],
      Property ''bitratePriority'' (Named ''double'') [Nonatomic, Assign] [],
      Property ''networkPriority'' (Named ''RTCPriority'') [Nonatomic, Assign] [],
      Property ''adaptiveAudioPacketTime'' (Named ''BOOL'') [Nonatomic, Assign] [],
      Instance_Method ''init'' [] Instancetype []]"

definition RTCRtpEncodingParameters_class :: decl where
  "RTCRtpEncodingParameters_class =
     Class_Decl ''RTCRtpEncodingParameters'' ''NSObject'' []
     RTCRtpEncodingParameters_members"

definition RTCRtpEncodingParameters_h :: header where
  "RTCRtpEncodingParameters_h =
     Header ''RTCRtpEncodingParameters.h'' Always [''Foundation/Foundation.h'']
     [RTCMacros_h]
     []
     [RTCPriority_enum, RTCRtpEncodingParameters_class]"

section \<open>\<open>RTCRtpHeaderExtension.h\<close>\<close>

definition RTCRtpHeaderExtension_members :: "member list" where
  "RTCRtpHeaderExtension_members =
     [Property ''uri'' (Object ''NSString'' []) [Nonatomic, Readonly, Copy] [],
      Property ''id'' (Named ''int'') [Nonatomic, Readonly] [],
      Property ''encrypted'' (Named ''BOOL'') [Nonatomic, Readonly, Getter ''isEncrypted''] [],
      Instance_Method ''init'' [] Instancetype []]"

definition RTCRtpHeaderExtension_class :: decl where
  "RTCRtpHeaderExtension_class =
     Class_Decl ''RTCRtpHeaderExtension'' ''NSObject'' []
     RTCRtpHeaderExtension_members"

definition RTCRtpHeaderExtension_h :: header where
  "RTCRtpHeaderExtension_h =
     Header ''RTCRtpHeaderExtension.h'' Always [''Foundation/Foundation.h'']
     [RTCMacros_h]
     []
     [RTCRtpHeaderExtension_class]"

section \<open>\<open>RTCRtpHeaderExtensionCapability.h\<close>\<close>

definition RTCRtpHeaderExtensionCapability_members :: "member list" where
  "RTCRtpHeaderExtensionCapability_members =
     [Property ''uri'' (Object ''NSString'' []) [Nonatomic, Readonly, Copy] [],
      Property ''preferredId'' (Nullable (Object ''NSNumber'' [])) [Nonatomic, Readonly] [],
      Property ''preferredEncrypted'' (Named ''BOOL'') [Nonatomic, Readonly, Getter ''isPreferredEncrypted'']
          [],
      Property ''direction'' (Named ''RTCRtpTransceiverDirection'') [Nonatomic] [],
      Instance_Method ''init'' [] Instancetype [Unavailable]]"

definition RTCRtpHeaderExtensionCapability_class :: decl where
  "RTCRtpHeaderExtensionCapability_class =
     Class_Decl ''RTCRtpHeaderExtensionCapability'' ''NSObject'' []
     RTCRtpHeaderExtensionCapability_members"

definition RTCRtpHeaderExtensionCapability_h :: header where
  "RTCRtpHeaderExtensionCapability_h =
     Header ''RTCRtpHeaderExtensionCapability.h'' Always [''Foundation/Foundation.h'']
     [RTCMacros_h]
     [Fwd_Enum ''RTCRtpTransceiverDirection'']
     [RTCRtpHeaderExtensionCapability_class]"

section \<open>\<open>RTCRtpParameters.h\<close>\<close>

definition RTCDegradationPreference_enum :: decl where
  "RTCDegradationPreference_enum =
     Enum_Decl ''RTCDegradationPreference'' ''NSInteger''
     [(''RTCDegradationPreferenceMaintainFramerateAndResolution'', Auto),
      (''RTCDegradationPreferenceDisabled'', Same ''RTCDegradationPreferenceMaintainFramerateAndResolution''),
      (''RTCDegradationPreferenceMaintainFramerate'', Auto),
      (''RTCDegradationPreferenceMaintainResolution'', Auto),
      (''RTCDegradationPreferenceBalanced'', Auto)]"

definition RTCRtpParameters_members :: "member list" where
  "RTCRtpParameters_members =
     [Property ''transactionId'' (Object ''NSString'' []) [Nonatomic, Copy] [],
      Property ''rtcp'' (Object ''RTCRtcpParameters'' []) [Nonatomic, Readonly, Copy] [],
      Property ''headerExtensions'' (Object ''NSArray'' [Object ''RTCRtpHeaderExtension'' []]) [Nonatomic,
          Readonly, Copy] [],
      Property ''encodings'' (Object ''NSArray'' [Object ''RTCRtpEncodingParameters'' []]) [Nonatomic, Copy] [],
      Property ''codecs'' (Object ''NSArray'' [Object ''RTCRtpCodecParameters'' []]) [Nonatomic, Copy] [],
      Property ''degradationPreference'' (Nullable (Object ''NSNumber'' [])) [Nonatomic, Copy] [],
      Instance_Method ''init'' [] Instancetype []]"

definition RTCRtpParameters_class :: decl where
  "RTCRtpParameters_class =
     Class_Decl ''RTCRtpParameters'' ''NSObject'' []
     RTCRtpParameters_members"

definition RTCRtpParameters_h :: header where
  "RTCRtpParameters_h =
     Header ''RTCRtpParameters.h'' Always [''Foundation/Foundation.h'']
     [RTCRtcpParameters_h, RTCRtpCodecParameters_h, RTCRtpEncodingParameters_h, RTCRtpHeaderExtension_h,
         RTCMacros_h]
     []
     [RTCDegradationPreference_enum, RTCRtpParameters_class]"

section \<open>\<open>RTCRtpReceiver.h\<close>\<close>

definition RTCRtpMediaType_enum :: decl where
  "RTCRtpMediaType_enum =
     Enum_Decl ''RTCRtpMediaType'' ''NSInteger''
     [(''RTCRtpMediaTypeAudio'', Auto),
      (''RTCRtpMediaTypeVideo'', Auto),
      (''RTCRtpMediaTypeData'', Auto),
      (''RTCRtpMediaTypeUnsupported'', Auto),
      (''RTCRtpMediaTypeAny'', Auto)]"

definition RTCRtpReceiverDelegate_required :: "member list" where
  "RTCRtpReceiverDelegate_required =
     [Instance_Method ''rtpReceiver:didReceiveFirstPacketForMediaType:'' [Object ''RTCRtpReceiver'' [], Named
         ''RTCRtpMediaType''] (Named ''void'') []]"

definition RTCRtpReceiverDelegate_optional :: "member list" where
  "RTCRtpReceiverDelegate_optional =
     [Instance_Method ''rtpReceiver:didReceiveFirstPacketForMediaTypeAfterReceptiveChange:'' [Object
         ''RTCRtpReceiver'' [], Named ''RTCRtpMediaType''] (Named ''void'') []]"

definition RTCRtpReceiverDelegate_protocol :: decl where
  "RTCRtpReceiverDelegate_protocol =
     Protocol_Decl ''RTCRtpReceiverDelegate'' [''NSObject'']
     RTCRtpReceiverDelegate_required
     RTCRtpReceiverDelegate_optional"

definition RTCRtpReceiver_required :: "member list" where
  "RTCRtpReceiver_required =
     [Property ''receiverId'' (Object ''NSString'' []) [Nonatomic, Readonly] [],
      Property ''parameters'' (Object ''RTCRtpParameters'' []) [Nonatomic, Readonly] [],
      Property ''track'' (Nullable (Object ''RTCMediaStreamTrack'' [])) [Nonatomic, Readonly] [],
      Property ''sources'' (Object ''NSArray'' [Object ''RTCRtpSource'' []]) [Nonatomic, Readonly] [],
      Property ''delegate'' (Id [''RTCRtpReceiverDelegate'']) [Nonatomic, Weak] []]"

definition RTCRtpReceiver_protocol :: decl where
  "RTCRtpReceiver_protocol =
     Protocol_Decl ''RTCRtpReceiver'' [''NSObject'']
     RTCRtpReceiver_required
     []"

definition RTCRtpReceiver_members :: "member list" where
  "RTCRtpReceiver_members =
     [Instance_Method ''init'' [] Instancetype [Unavailable]]"

definition RTCRtpReceiver_class :: decl where
  "RTCRtpReceiver_class =
     Class_Decl ''RTCRtpReceiver'' ''NSObject'' [''RTCRtpReceiver'']
     RTCRtpReceiver_members"

definition RTCRtpReceiver_h :: header where
  "RTCRtpReceiver_h =
     Header ''RTCRtpReceiver.h'' Always [''Foundation/Foundation.h'']
     [RTCMediaStreamTrack_h, RTCRtpParameters_h, RTCMacros_h]
     [Fwd_Class ''RTCRtpReceiver'', Fwd_Class ''RTCRtpSource'']
     [RTCRtpMediaType_enum, RTCRtpReceiverDelegate_protocol, RTCRtpReceiver_protocol, RTCRtpReceiver_class]"

section \<open>\<open>RTCRtpSender.h\<close>\<close>

definition RTCRtpSender_required :: "member list" where
  "RTCRtpSender_required =
     [Property ''senderId'' (Object ''NSString'' []) [Nonatomic, Readonly] [],
      Property ''parameters'' (Object ''RTCRtpParameters'' []) [Nonatomic, Copy] [],
      Property ''track'' (Nullable (Object ''RTCMediaStreamTrack'' [])) [Nonatomic, Copy] [],
      Property ''streamIds'' (Object ''NSArray'' [Object ''NSString'' []]) [Nonatomic, Copy] [],
      Property ''dtmfSender'' (Nullable (Id [''RTCDtmfSender''])) [Nonatomic, Readonly] []]"

definition RTCRtpSender_protocol :: decl where
  "RTCRtpSender_protocol =
     Protocol_Decl ''RTCRtpSender'' [''NSObject'']
     RTCRtpSender_required
     []"

definition RTCRtpSender_members :: "member list" where
  "RTCRtpSender_members =
     [Instance_Method ''init'' [] Instancetype [Unavailable]]"

definition RTCRtpSender_class :: decl where
  "RTCRtpSender_class =
     Class_Decl ''RTCRtpSender'' ''NSObject'' [''RTCRtpSender'']
     RTCRtpSender_members"

definition RTCRtpSender_h :: header where
  "RTCRtpSender_h =
     Header ''RTCRtpSender.h'' Always [''Foundation/Foundation.h'']
     [RTCDtmfSender_h, RTCMediaStreamTrack_h, RTCRtpParameters_h, RTCMacros_h]
     []
     [RTCRtpSender_protocol, RTCRtpSender_class]"

section \<open>\<open>RTCRtpSource.h\<close>\<close>

definition RTCRtpSourceType_enum :: decl where
  "RTCRtpSourceType_enum =
     Enum_Decl ''RTCRtpSourceType'' ''NSInteger''
     [(''RTCRtpSourceTypeSSRC'', Auto),
      (''RTCRtpSourceTypeCSRC'', Auto)]"

definition RTCRtpSource_required :: "member list" where
  "RTCRtpSource_required =
     [Property ''sourceId'' (Named ''uint32_t'') [Nonatomic, Readonly] [],
      Property ''sourceType'' (Named ''RTCRtpSourceType'') [Nonatomic, Readonly] [],
      Property ''audioLevel'' (Nullable (Object ''NSNumber'' [])) [Nonatomic, Readonly] [],
      Property ''timestampUs'' (Named ''CFTimeInterval'') [Nonatomic, Readonly] [],
      Property ''rtpTimestamp'' (Named ''uint32_t'') [Nonatomic, Readonly] []]"

definition RTCRtpSource_protocol :: decl where
  "RTCRtpSource_protocol =
     Protocol_Decl ''RTCRtpSource'' [''NSObject'']
     RTCRtpSource_required
     []"

definition RTCRtpSource_members :: "member list" where
  "RTCRtpSource_members =
     [Instance_Method ''init'' [] Instancetype [Unavailable]]"

definition RTCRtpSource_class :: decl where
  "RTCRtpSource_class =
     Class_Decl ''RTCRtpSource'' ''NSObject'' [''RTCRtpSource'']
     RTCRtpSource_members"

definition RTCRtpSource_h :: header where
  "RTCRtpSource_h =
     Header ''RTCRtpSource.h'' Always [''Foundation/Foundation.h'']
     [RTCMacros_h]
     [Fwd_Class ''RTCRtpSource'']
     [RTCRtpSourceType_enum, RTCRtpSource_protocol, RTCRtpSource_class]"

section \<open>\<open>RTCRtpTransceiver.h\<close>\<close>

definition RTCRtpTransceiver_constants :: "decl list" where
  "RTCRtpTransceiver_constants =
     [Constant_Decl ''kRTCRtpTransceiverErrorDomain'' (Object ''NSString'' [])]"

definition RTCRtpTransceiverDirection_enum :: decl where
  "RTCRtpTransceiverDirection_enum =
     Enum_Decl ''RTCRtpTransceiverDirection'' ''NSInteger''
     [(''RTCRtpTransceiverDirectionSendRecv'', Auto),
      (''RTCRtpTransceiverDirectionSendOnly'', Auto),
      (''RTCRtpTransceiverDirectionRecvOnly'', Auto),
      (''RTCRtpTransceiverDirectionInactive'', Auto),
      (''RTCRtpTransceiverDirectionStopped'', Auto)]"

definition RTCRtpTransceiverInit_members :: "member list" where
  "RTCRtpTransceiverInit_members =
     [Property ''direction'' (Named ''RTCRtpTransceiverDirection'') [Nonatomic] [],
      Property ''streamIds'' (Object ''NSArray'' [Object ''NSString'' []]) [Nonatomic] [],
      Property ''sendEncodings'' (Object ''NSArray'' [Object ''RTCRtpEncodingParameters'' []]) [Nonatomic] []]"

definition RTCRtpTransceiverInit_class :: decl where
  "RTCRtpTransceiverInit_class =
     Class_Decl ''RTCRtpTransceiverInit'' ''NSObject'' []
     RTCRtpTransceiverInit_members"

definition RTCRtpTransceiver_required :: "member list" where
  "RTCRtpTransceiver_required =
     [Property ''mediaType'' (Named ''RTCRtpMediaType'') [Nonatomic, Readonly] [],
      Property ''mid'' (Object ''NSString'' []) [Nonatomic, Readonly] [],
      Property ''sender'' (Object ''RTCRtpSender'' []) [Nonatomic, Readonly] [],
      Property ''receiver'' (Object ''RTCRtpReceiver'' []) [Nonatomic, Readonly] [],
      Property ''isStopped'' (Named ''BOOL'') [Nonatomic, Readonly] [],
      Property ''direction'' (Named ''RTCRtpTransceiverDirection'') [Nonatomic, Readonly] [],
      Property ''headerExtensionsToNegotiate'' (Object ''NSArray'' [Object ''RTCRtpHeaderExtensionCapability''
          []]) [Nonatomic, Readonly, Copy] [],
      Property ''negotiatedHeaderExtensions'' (Object ''NSArray'' [Object ''RTCRtpHeaderExtensionCapability''
          []]) [Nonatomic, Readonly, Copy] [],
      Instance_Method ''currentDirection:'' [Ptr (Named ''RTCRtpTransceiverDirection'')] (Named ''BOOL'') [],
      Instance_Method ''stopInternal'' [] (Named ''void'') [],
      Instance_Method ''setCodecPreferences:error:'' [Nullable (Object ''NSArray'' [Object
          ''RTCRtpCodecCapability'' []]), Nullable (Ptr (Object ''NSError'' []))] (Named ''BOOL'') [],
      Instance_Method ''setCodecPreferences:'' [Nullable (Object ''NSArray'' [Object ''RTCRtpCodecCapability''
          []])] (Named ''void'') [Deprecated],
      Instance_Method ''setHeaderExtensionsToNegotiate:error:'' [Object ''NSArray'' [Object
          ''RTCRtpHeaderExtensionCapability'' []], Ptr (Object ''NSError'' [])] (Named ''BOOL'') [],
      Instance_Method ''setDirection:error:'' [Named ''RTCRtpTransceiverDirection'', Ptr (Object ''NSError''
          [])] (Named ''void'') []]"

definition RTCRtpTransceiver_protocol :: decl where
  "RTCRtpTransceiver_protocol =
     Protocol_Decl ''RTCRtpTransceiver'' [''NSObject'']
     RTCRtpTransceiver_required
     []"

definition RTCRtpTransceiver_members :: "member list" where
  "RTCRtpTransceiver_members =
     [Instance_Method ''init'' [] Instancetype [Unavailable]]"

definition RTCRtpTransceiver_class :: decl where
  "RTCRtpTransceiver_class =
     Class_Decl ''RTCRtpTransceiver'' ''NSObject'' [''RTCRtpTransceiver'']
     RTCRtpTransceiver_members"

definition RTCRtpTransceiver_h :: header where
  "RTCRtpTransceiver_h =
     Header ''RTCRtpTransceiver.h'' Always [''Foundation/Foundation.h'']
     [RTCRtpReceiver_h, RTCRtpSender_h, RTCMacros_h]
     [Fwd_Class ''RTCRtpTransceiver'', Fwd_Class ''RTCRtpCodecCapability'', Fwd_Class
         ''RTCRtpHeaderExtensionCapability'']
     (RTCRtpTransceiver_constants @ [RTCRtpTransceiverDirection_enum, RTCRtpTransceiverInit_class,
         RTCRtpTransceiver_protocol, RTCRtpTransceiver_class])"

section \<open>\<open>RTCVideoSource.h\<close>\<close>

definition RTCVideoSource_members :: "member list" where
  "RTCVideoSource_members =
     [Instance_Method ''init'' [] Instancetype [Unavailable],
      Instance_Method ''adaptOutputFormatToWidth:height:fps:'' [Named ''int'', Named ''int'', Named ''int'']
          (Named ''void'') []]"

definition RTCVideoSource_class :: decl where
  "RTCVideoSource_class =
     Class_Decl ''RTCVideoSource'' ''RTCMediaSource'' [''RTCVideoCapturerDelegate'']
     RTCVideoSource_members"

definition RTCVideoSource_h :: header where
  "RTCVideoSource_h =
     Header ''RTCVideoSource.h'' Always [''Foundation/Foundation.h'']
     [RTCMediaSource_h, RTCVideoCapturer_h, RTCMacros_h]
     []
     [RTCVideoSource_class]"

section \<open>\<open>RTCVideoTrack.h\<close>\<close>

definition RTCVideoTrack_members :: "member list" where
  "RTCVideoTrack_members =
     [Property ''source'' (Object ''RTCVideoSource'' []) [Nonatomic, Readonly] [],
      Instance_Method ''init'' [] Instancetype [Unavailable],
      Instance_Method ''addRenderer:'' [Id [''RTCVideoRenderer'']] (Named ''void'') [],
      Instance_Method ''removeRenderer:'' [Id [''RTCVideoRenderer'']] (Named ''void'') []]"

definition RTCVideoTrack_class :: decl where
  "RTCVideoTrack_class =
     Class_Decl ''RTCVideoTrack'' ''RTCMediaStreamTrack'' []
     RTCVideoTrack_members"

definition RTCVideoTrack_h :: header where
  "RTCVideoTrack_h =
     Header ''RTCVideoTrack.h'' Always []
     [RTCMediaStreamTrack_h, RTCMacros_h]
     [Fwd_Protocol ''RTCVideoRenderer'', Fwd_Class ''RTCPeerConnectionFactory'', Fwd_Class ''RTCVideoSource'']
     [RTCVideoTrack_class]"

section \<open>Checks\<close>

text \<open>Bundles: the headers, the declarations of classes, protocols and categories, the other declarations.\<close>

lemmas media_headers =
  RTCMediaSource_h_def RTCAudioSource_h_def RTCMediaStreamTrack_h_def RTCAudioTrack_h_def
  RTCDtmfSender_h_def RTCMediaConstraints_h_def RTCMediaStream_h_def RTCRtcpParameters_h_def
  RTCRtpCapabilities_h_def RTCRtpCodecCapability_h_def RTCRtpCodecParameters_h_def
  RTCRtpEncodingParameters_h_def RTCRtpHeaderExtension_h_def RTCRtpHeaderExtensionCapability_h_def
  RTCRtpParameters_h_def RTCRtpReceiver_h_def RTCRtpSender_h_def RTCRtpSource_h_def
  RTCRtpTransceiver_h_def RTCVideoSource_h_def RTCVideoTrack_h_def

lemmas media_interfaces =
  RTCMediaSource_class_def RTCAudioSource_class_def RTCMediaStreamTrack_class_def RTCAudioTrack_class_def
  RTCDtmfSender_protocol_def RTCMediaConstraints_class_def RTCMediaStream_class_def
  RTCRtcpParameters_class_def RTCRtpCapabilities_class_def RTCRtpCodecCapability_class_def
  RTCRtpCodecParameters_class_def RTCRtpEncodingParameters_class_def RTCRtpHeaderExtension_class_def
  RTCRtpHeaderExtensionCapability_class_def RTCRtpParameters_class_def RTCRtpReceiverDelegate_protocol_def
  RTCRtpReceiver_protocol_def RTCRtpReceiver_class_def RTCRtpSender_protocol_def RTCRtpSender_class_def
  RTCRtpSource_protocol_def RTCRtpSource_class_def RTCRtpTransceiverInit_class_def
  RTCRtpTransceiver_protocol_def RTCRtpTransceiver_class_def RTCVideoSource_class_def
  RTCVideoTrack_class_def

lemmas media_others =
  RTCSourceState_enum_def RTCMediaStreamTrackState_enum_def RTCMediaStreamTrack_constants_def
  RTCMediaConstraints_constants_def RTCRtpCodecParameters_constants_def RTCPriority_enum_def
  RTCDegradationPreference_enum_def RTCRtpMediaType_enum_def RTCRtpSourceType_enum_def
  RTCRtpTransceiver_constants_def RTCRtpTransceiverDirection_enum_def

text \<open>No selector is declared twice, selectors have one type per colon, enumeration constants are distinct.\<close>

text \<open>What each header declares on tvOS.\<close>

lemma media_decls [header_decls_eqs]:
  "header_decls True RTCMediaSource_h = [RTCSourceState_enum, RTCMediaSource_class]"
  "header_decls True RTCAudioSource_h = [RTCAudioSource_class]"
  "header_decls True RTCMediaStreamTrack_h = [RTCMediaStreamTrackState_enum] @ RTCMediaStreamTrack_constants @
      [RTCMediaStreamTrack_class]"
  "header_decls True RTCAudioTrack_h = [RTCAudioTrack_class]"
  "header_decls True RTCDtmfSender_h = [RTCDtmfSender_protocol]"
  "header_decls True RTCMediaConstraints_h = RTCMediaConstraints_constants @ [RTCMediaConstraints_class]"
  "header_decls True RTCMediaStream_h = [RTCMediaStream_class]"
  "header_decls True RTCRtcpParameters_h = [RTCRtcpParameters_class]"
  "header_decls True RTCRtpCapabilities_h = [RTCRtpCapabilities_class]"
  "header_decls True RTCRtpCodecCapability_h = [RTCRtpCodecCapability_class]"
  "header_decls True RTCRtpCodecParameters_h = RTCRtpCodecParameters_constants @ [RTCRtpCodecParameters_class]"
  "header_decls True RTCRtpEncodingParameters_h = [RTCPriority_enum, RTCRtpEncodingParameters_class]"
  "header_decls True RTCRtpHeaderExtension_h = [RTCRtpHeaderExtension_class]"
  "header_decls True RTCRtpHeaderExtensionCapability_h = [RTCRtpHeaderExtensionCapability_class]"
  "header_decls True RTCRtpParameters_h = [RTCDegradationPreference_enum, RTCRtpParameters_class]"
  "header_decls True RTCRtpReceiver_h = [RTCRtpMediaType_enum, RTCRtpReceiverDelegate_protocol,
      RTCRtpReceiver_protocol, RTCRtpReceiver_class]"
  "header_decls True RTCRtpSender_h = [RTCRtpSender_protocol, RTCRtpSender_class]"
  "header_decls True RTCRtpSource_h = [RTCRtpSourceType_enum, RTCRtpSource_protocol, RTCRtpSource_class]"
  "header_decls True RTCRtpTransceiver_h = RTCRtpTransceiver_constants @ [RTCRtpTransceiverDirection_enum,
      RTCRtpTransceiverInit_class, RTCRtpTransceiver_protocol, RTCRtpTransceiver_class]"
  "header_decls True RTCVideoSource_h = [RTCVideoSource_class]"
  "header_decls True RTCVideoTrack_h = [RTCVideoTrack_class]"
  by (subst RTCMediaSource_h_def, simp, subst RTCAudioSource_h_def, simp, subst RTCMediaStreamTrack_h_def, simp,
    subst RTCAudioTrack_h_def, simp, subst RTCDtmfSender_h_def, simp, subst RTCMediaConstraints_h_def,
    simp, subst RTCMediaStream_h_def, simp, subst RTCRtcpParameters_h_def, simp, subst
    RTCRtpCapabilities_h_def, simp, subst RTCRtpCodecCapability_h_def, simp, subst
    RTCRtpCodecParameters_h_def, simp, subst RTCRtpEncodingParameters_h_def, simp, subst
    RTCRtpHeaderExtension_h_def, simp, subst RTCRtpHeaderExtensionCapability_h_def, simp, subst
    RTCRtpParameters_h_def, simp, subst RTCRtpReceiver_h_def, simp, subst RTCRtpSender_h_def, simp, subst
    RTCRtpSource_h_def, simp, subst RTCRtpTransceiver_h_def, simp, subst RTCVideoSource_h_def, simp, subst
    RTCVideoTrack_h_def, simp)

lemma media_headers_ok_1 [header_checks]:
  "header_ok RTCMediaSource_h"
  "header_ok RTCAudioSource_h"
  "header_ok RTCMediaStreamTrack_h"
  "header_ok RTCAudioTrack_h"
  "header_ok RTCDtmfSender_h"
  "header_ok RTCMediaConstraints_h"
  "header_ok RTCMediaStream_h"
  "header_ok RTCRtcpParameters_h"
  "header_ok RTCRtpCapabilities_h"
  "header_ok RTCRtpCodecCapability_h"
  by code_simp+

lemma media_headers_ok_2 [header_checks]:
  "header_ok RTCRtpCodecParameters_h"
  "header_ok RTCRtpEncodingParameters_h"
  "header_ok RTCRtpHeaderExtension_h"
  "header_ok RTCRtpHeaderExtensionCapability_h"
  "header_ok RTCRtpParameters_h"
  "header_ok RTCRtpReceiver_h"
  "header_ok RTCRtpSender_h"
  "header_ok RTCRtpSource_h"
  "header_ok RTCRtpTransceiver_h"
  "header_ok RTCVideoSource_h"
  "header_ok RTCVideoTrack_h"
  by code_simp+

text \<open>On tvOS every name of the framework a header uses is visible there.\<close>

lemma media_headers_resolve [header_checks]:
  "resolves True RTCMediaSource_h"
  "resolves True RTCAudioSource_h"
  "resolves True RTCMediaStreamTrack_h"
  "resolves True RTCAudioTrack_h"
  "resolves True RTCDtmfSender_h"
  "resolves True RTCMediaConstraints_h"
  "resolves True RTCMediaStream_h"
  "resolves True RTCRtcpParameters_h"
  "resolves True RTCRtpCapabilities_h"
  "resolves True RTCRtpCodecCapability_h"
  "resolves True RTCRtpCodecParameters_h"
  "resolves True RTCRtpEncodingParameters_h"
  "resolves True RTCRtpHeaderExtension_h"
  "resolves True RTCRtpHeaderExtensionCapability_h"
  "resolves True RTCRtpParameters_h"
  "resolves True RTCRtpReceiver_h"
  "resolves True RTCRtpSender_h"
  "resolves True RTCRtpSource_h"
  "resolves True RTCRtpTransceiver_h"
  "resolves True RTCVideoSource_h"
  "resolves True RTCVideoTrack_h"
  by code_simp+

end
