(* ===== verification/Webrtc_Connection.thy ===== *)
theory Webrtc_Connection imports Webrtc_Media begin

text \<open>
  The headers of the connection: ICE, session descriptions, certificates and configuration, data
  channels, statistics, the peer connection and its factory, and the umbrella header. One definition
  per declaration and one per header, in the order of the headers' imports; \<open>_class\<close>,
  \<open>_protocol\<close> and \<open>_enum\<close> keep apart what the language keeps apart. The
  headers are those of the \<open>tvos-arm64\<close> slice of \<open>WebRTC.xcframework\<close>; the
  simulator slice has the same files.
\<close>

section \<open>\<open>RTCConfiguration.h\<close>\<close>

definition RTCIceTransportPolicy_enum :: decl where
  "RTCIceTransportPolicy_enum =
     Enum_Decl ''RTCIceTransportPolicy'' ''NSInteger''
     [(''RTCIceTransportPolicyNone'', Auto),
      (''RTCIceTransportPolicyRelay'', Auto),
      (''RTCIceTransportPolicyNoHost'', Auto),
      (''RTCIceTransportPolicyAll'', Auto)]"

definition RTCBundlePolicy_enum :: decl where
  "RTCBundlePolicy_enum =
     Enum_Decl ''RTCBundlePolicy'' ''NSInteger''
     [(''RTCBundlePolicyBalanced'', Auto),
      (''RTCBundlePolicyMaxCompat'', Auto),
      (''RTCBundlePolicyMaxBundle'', Auto)]"

definition RTCRtcpMuxPolicy_enum :: decl where
  "RTCRtcpMuxPolicy_enum =
     Enum_Decl ''RTCRtcpMuxPolicy'' ''NSInteger''
     [(''RTCRtcpMuxPolicyNegotiate'', Auto),
      (''RTCRtcpMuxPolicyRequire'', Auto)]"

definition RTCTcpCandidatePolicy_enum :: decl where
  "RTCTcpCandidatePolicy_enum =
     Enum_Decl ''RTCTcpCandidatePolicy'' ''NSInteger''
     [(''RTCTcpCandidatePolicyEnabled'', Auto),
      (''RTCTcpCandidatePolicyDisabled'', Auto)]"

definition RTCCandidateNetworkPolicy_enum :: decl where
  "RTCCandidateNetworkPolicy_enum =
     Enum_Decl ''RTCCandidateNetworkPolicy'' ''NSInteger''
     [(''RTCCandidateNetworkPolicyAll'', Auto),
      (''RTCCandidateNetworkPolicyLowCost'', Auto)]"

definition RTCContinualGatheringPolicy_enum :: decl where
  "RTCContinualGatheringPolicy_enum =
     Enum_Decl ''RTCContinualGatheringPolicy'' ''NSInteger''
     [(''RTCContinualGatheringPolicyGatherOnce'', Auto),
      (''RTCContinualGatheringPolicyGatherContinually'', Auto)]"

definition RTCEncryptionKeyType_enum :: decl where
  "RTCEncryptionKeyType_enum =
     Enum_Decl ''RTCEncryptionKeyType'' ''NSInteger''
     [(''RTCEncryptionKeyTypeRSA'', Auto),
      (''RTCEncryptionKeyTypeECDSA'', Auto)]"

definition RTCSdpSemantics_enum :: decl where
  "RTCSdpSemantics_enum =
     Enum_Decl ''RTCSdpSemantics'' ''NSInteger''
     [(''RTCSdpSemanticsPlanB'', Auto),
      (''RTCSdpSemanticsUnifiedPlan'', Auto)]"

definition RTCConfiguration_class_members_1 :: "member list" where
  "RTCConfiguration_class_members_1 =
     [Property ''enableDscp'' (Named ''BOOL'') [Nonatomic, Assign] [],
      Property ''iceServers'' (Object ''NSArray'' [Object ''RTCIceServer'' []]) [Nonatomic, Copy] [],
      Property ''certificate'' (Nullable (Object ''RTCCertificate'' [])) [Nonatomic] [],
      Property ''iceTransportPolicy'' (Named ''RTCIceTransportPolicy'') [Nonatomic, Assign] [],
      Property ''bundlePolicy'' (Named ''RTCBundlePolicy'') [Nonatomic, Assign] [],
      Property ''rtcpMuxPolicy'' (Named ''RTCRtcpMuxPolicy'') [Nonatomic, Assign] [],
      Property ''tcpCandidatePolicy'' (Named ''RTCTcpCandidatePolicy'') [Nonatomic, Assign] [],
      Property ''candidateNetworkPolicy'' (Named ''RTCCandidateNetworkPolicy'') [Nonatomic, Assign] [],
      Property ''continualGatheringPolicy'' (Named ''RTCContinualGatheringPolicy'') [Nonatomic, Assign] [],
      Property ''disableIPV6OnWiFi'' (Named ''BOOL'') [Nonatomic, Assign] [],
      Property ''maxIPv6Networks'' (Named ''int'') [Nonatomic, Assign] [],
      Property ''disableLinkLocalNetworks'' (Named ''BOOL'') [Nonatomic, Assign] [],
      Property ''audioJitterBufferMaxPackets'' (Named ''int'') [Nonatomic, Assign] [],
      Property ''audioJitterBufferFastAccelerate'' (Named ''BOOL'') [Nonatomic, Assign] [],
      Property ''iceConnectionReceivingTimeout'' (Named ''int'') [Nonatomic, Assign] [],
      Property ''iceBackupCandidatePairPingInterval'' (Named ''int'') [Nonatomic, Assign] [],
      Property ''keyType'' (Named ''RTCEncryptionKeyType'') [Nonatomic, Assign] [],
      Property ''iceCandidatePoolSize'' (Named ''int'') [Nonatomic, Assign] [],
      Property ''shouldPruneTurnPorts'' (Named ''BOOL'') [Nonatomic, Assign] [],
      Property ''shouldPresumeWritableWhenFullyRelayed'' (Named ''BOOL'') [Nonatomic, Assign] [],
      Property ''shouldSurfaceIceCandidatesOnIceTransportTypeChanged'' (Named ''BOOL'') [Nonatomic, Assign] [],
      Property ''iceCheckMinInterval'' (Nullable (Object ''NSNumber'' [])) [Nonatomic, Copy] [],
      Property ''sdpSemantics'' (Named ''RTCSdpSemantics'') [Nonatomic, Assign] [],
      Property ''activeResetSrtpParams'' (Named ''BOOL'') [Nonatomic, Assign] [],
      Property ''cryptoOptions'' (Nullable (Object ''RTCCryptoOptions'' [])) [Nonatomic] [],
      Property ''turnLoggingId'' (Nullable (Object ''NSString'' [])) [Nonatomic, Copy] [],
      Property ''rtcpAudioReportIntervalMs'' (Named ''int'') [Nonatomic, Assign] [],
      Property ''rtcpVideoReportIntervalMs'' (Named ''int'') [Nonatomic, Assign] []]"

definition RTCConfiguration_class_members_2 :: "member list" where
  "RTCConfiguration_class_members_2 =
     [Property ''enableImplicitRollback'' (Named ''BOOL'') [Nonatomic, Assign] [],
      Property ''offerExtmapAllowMixed'' (Named ''BOOL'') [Nonatomic, Assign] [],
      Property ''iceCheckIntervalStrongConnectivity'' (Nullable (Object ''NSNumber'' [])) [Nonatomic, Copy] [],
      Property ''iceCheckIntervalWeakConnectivity'' (Nullable (Object ''NSNumber'' [])) [Nonatomic, Copy] [],
      Property ''iceUnwritableTimeout'' (Nullable (Object ''NSNumber'' [])) [Nonatomic, Copy] [],
      Property ''iceUnwritableMinChecks'' (Nullable (Object ''NSNumber'' [])) [Nonatomic, Copy] [],
      Property ''iceInactiveTimeout'' (Nullable (Object ''NSNumber'' [])) [Nonatomic, Copy] [],
      Instance_Method ''init'' [] Instancetype []]"

definition RTCConfiguration_class :: decl where
  "RTCConfiguration_class =
     Class_Decl ''RTCConfiguration'' ''NSObject'' []
     (RTCConfiguration_class_members_1 @ RTCConfiguration_class_members_2)"

definition RTCConfiguration_h :: header where
  "RTCConfiguration_h =
     Header ''RTCConfiguration.h'' Always [''Foundation/Foundation.h'']
     [RTCCertificate_h, RTCCryptoOptions_h, RTCMacros_h]
     [Fwd_Class ''RTCIceServer'']
     [RTCIceTransportPolicy_enum, RTCBundlePolicy_enum, RTCRtcpMuxPolicy_enum, RTCTcpCandidatePolicy_enum,
         RTCCandidateNetworkPolicy_enum, RTCContinualGatheringPolicy_enum, RTCEncryptionKeyType_enum,
             RTCSdpSemantics_enum, RTCConfiguration_class]"

section \<open>\<open>RTCDataChannel.h\<close>\<close>

definition RTCDataBuffer_members :: "member list" where
  "RTCDataBuffer_members =
     [Property ''data'' (Object ''NSData'' []) [Nonatomic, Readonly] [],
      Property ''isBinary'' (Named ''BOOL'') [Nonatomic, Readonly] [],
      Instance_Method ''init'' [] Instancetype [Unavailable],
      Instance_Method ''initWithData:isBinary:'' [Object ''NSData'' [], Named ''BOOL''] Instancetype []]"

definition RTCDataBuffer_class :: decl where
  "RTCDataBuffer_class =
     Class_Decl ''RTCDataBuffer'' ''NSObject'' []
     RTCDataBuffer_members"

definition RTCDataChannelDelegate_required :: "member list" where
  "RTCDataChannelDelegate_required =
     [Instance_Method ''dataChannelDidChangeState:'' [Object ''RTCDataChannel'' []] (Named ''void'') [],
      Instance_Method ''dataChannel:didReceiveMessageWithBuffer:'' [Object ''RTCDataChannel'' [], Object
          ''RTCDataBuffer'' []] (Named ''void'') []]"

definition RTCDataChannelDelegate_optional :: "member list" where
  "RTCDataChannelDelegate_optional =
     [Instance_Method ''dataChannel:didChangeBufferedAmount:'' [Object ''RTCDataChannel'' [], Named
         ''uint64_t''] (Named ''void'') []]"

definition RTCDataChannelDelegate_protocol :: decl where
  "RTCDataChannelDelegate_protocol =
     Protocol_Decl ''RTCDataChannelDelegate'' [''NSObject'']
     RTCDataChannelDelegate_required
     RTCDataChannelDelegate_optional"

definition RTCDataChannelState_enum :: decl where
  "RTCDataChannelState_enum =
     Enum_Decl ''RTCDataChannelState'' ''NSInteger''
     [(''RTCDataChannelStateConnecting'', Auto),
      (''RTCDataChannelStateOpen'', Auto),
      (''RTCDataChannelStateClosing'', Auto),
      (''RTCDataChannelStateClosed'', Auto)]"

definition RTCDataChannel_members :: "member list" where
  "RTCDataChannel_members =
     [Property ''label'' (Object ''NSString'' []) [Nonatomic, Readonly] [],
      Property ''isReliable'' (Named ''BOOL'') [Nonatomic, Readonly] [Deprecated],
      Property ''isOrdered'' (Named ''BOOL'') [Nonatomic, Readonly] [],
      Property ''maxRetransmitTime'' (Named ''NSUInteger'') [Nonatomic, Readonly] [Deprecated],
      Property ''maxPacketLifeTime'' (Named ''uint16_t'') [Nonatomic, Readonly] [],
      Property ''maxRetransmits'' (Named ''uint16_t'') [Nonatomic, Readonly] [],
      Property ''protocol'' (Object ''NSString'' []) [Nonatomic, Readonly] [],
      Property ''isNegotiated'' (Named ''BOOL'') [Nonatomic, Readonly] [],
      Property ''streamId'' (Named ''NSInteger'') [Nonatomic, Readonly] [Deprecated],
      Property ''channelId'' (Named ''int'') [Nonatomic, Readonly] [],
      Property ''readyState'' (Named ''RTCDataChannelState'') [Nonatomic, Readonly] [],
      Property ''bufferedAmount'' (Named ''uint64_t'') [Nonatomic, Readonly] [],
      Property ''delegate'' (Id [''RTCDataChannelDelegate'']) [Nonatomic, Weak] [],
      Instance_Method ''init'' [] Instancetype [Unavailable],
      Instance_Method ''close'' [] (Named ''void'') [],
      Instance_Method ''sendData:'' [Object ''RTCDataBuffer'' []] (Named ''BOOL'') []]"

definition RTCDataChannel_class :: decl where
  "RTCDataChannel_class =
     Class_Decl ''RTCDataChannel'' ''NSObject'' []
     RTCDataChannel_members"

definition RTCDataChannel_h :: header where
  "RTCDataChannel_h =
     Header ''RTCDataChannel.h'' Always [''AvailabilityMacros.h'', ''Foundation/Foundation.h'']
     [RTCMacros_h]
     [Fwd_Class ''RTCDataChannel'']
     [RTCDataBuffer_class, RTCDataChannelDelegate_protocol, RTCDataChannelState_enum, RTCDataChannel_class]"

section \<open>\<open>RTCDataChannelConfiguration.h\<close>\<close>

definition RTCDataChannelConfiguration_members :: "member list" where
  "RTCDataChannelConfiguration_members =
     [Property ''isOrdered'' (Named ''BOOL'') [Nonatomic, Assign] [],
      Property ''maxRetransmitTimeMs'' (Named ''NSInteger'') [Nonatomic, Assign] [Deprecated],
      Property ''maxPacketLifeTime'' (Named ''int'') [Nonatomic, Assign] [],
      Property ''maxRetransmits'' (Named ''int'') [Nonatomic, Assign] [],
      Property ''isNegotiated'' (Named ''BOOL'') [Nonatomic, Assign] [],
      Property ''streamId'' (Named ''int'') [Nonatomic, Assign] [Deprecated],
      Property ''channelId'' (Named ''int'') [Nonatomic, Assign] [],
      Property ''protocol'' (Object ''NSString'' []) [Nonatomic] []]"

definition RTCDataChannelConfiguration_class :: decl where
  "RTCDataChannelConfiguration_class =
     Class_Decl ''RTCDataChannelConfiguration'' ''NSObject'' []
     RTCDataChannelConfiguration_members"

definition RTCDataChannelConfiguration_h :: header where
  "RTCDataChannelConfiguration_h =
     Header ''RTCDataChannelConfiguration.h'' Always [''AvailabilityMacros.h'', ''Foundation/Foundation.h'']
     [RTCMacros_h]
     []
     [RTCDataChannelConfiguration_class]"

section \<open>\<open>RTCIceCandidate.h\<close>\<close>

definition RTCIceCandidate_members :: "member list" where
  "RTCIceCandidate_members =
     [Property ''sdpMid'' (Nullable (Object ''NSString'' [])) [Nonatomic, Readonly] [],
      Property ''sdpMLineIndex'' (Named ''int'') [Nonatomic, Readonly] [],
      Property ''sdp'' (Object ''NSString'' []) [Nonatomic, Readonly] [],
      Property ''serverUrl'' (Nullable (Object ''NSString'' [])) [Nonatomic, Readonly] [],
      Instance_Method ''init'' [] Instancetype [Unavailable],
      Instance_Method ''initWithSdp:sdpMLineIndex:sdpMid:'' [Object ''NSString'' [], Named ''int'', Nullable
          (Object ''NSString'' [])] Instancetype [Designated]]"

definition RTCIceCandidate_class :: decl where
  "RTCIceCandidate_class =
     Class_Decl ''RTCIceCandidate'' ''NSObject'' []
     RTCIceCandidate_members"

definition RTCIceCandidate_h :: header where
  "RTCIceCandidate_h =
     Header ''RTCIceCandidate.h'' Always [''Foundation/Foundation.h'']
     [RTCMacros_h]
     []
     [RTCIceCandidate_class]"

section \<open>\<open>RTCIceCandidateErrorEvent.h\<close>\<close>

definition RTCIceCandidateErrorEvent_members :: "member list" where
  "RTCIceCandidateErrorEvent_members =
     [Property ''address'' (Object ''NSString'' []) [Nonatomic, Readonly] [],
      Property ''port'' (Named ''int'') [Nonatomic, Readonly] [],
      Property ''url'' (Object ''NSString'' []) [Nonatomic, Readonly] [],
      Property ''errorCode'' (Named ''int'') [Nonatomic, Readonly] [],
      Property ''errorText'' (Object ''NSString'' []) [Nonatomic, Readonly] [],
      Instance_Method ''init'' [] Instancetype [Designated]]"

definition RTCIceCandidateErrorEvent_class :: decl where
  "RTCIceCandidateErrorEvent_class =
     Class_Decl ''RTCIceCandidateErrorEvent'' ''NSObject'' []
     RTCIceCandidateErrorEvent_members"

definition RTCIceCandidateErrorEvent_h :: header where
  "RTCIceCandidateErrorEvent_h =
     Header ''RTCIceCandidateErrorEvent.h'' Always [''Foundation/Foundation.h'']
     [RTCMacros_h]
     []
     [RTCIceCandidateErrorEvent_class]"

section \<open>\<open>RTCIceServer.h\<close>\<close>

definition RTCTlsCertPolicy_enum :: decl where
  "RTCTlsCertPolicy_enum =
     Enum_Decl ''RTCTlsCertPolicy'' ''NSUInteger''
     [(''RTCTlsCertPolicySecure'', Auto),
      (''RTCTlsCertPolicyInsecureNoCheck'', Auto)]"

definition RTCIceServer_members :: "member list" where
  "RTCIceServer_members =
     [Property ''urlStrings'' (Object ''NSArray'' [Object ''NSString'' []]) [Nonatomic, Readonly] [],
      Property ''username'' (Nullable (Object ''NSString'' [])) [Nonatomic, Readonly] [],
      Property ''credential'' (Nullable (Object ''NSString'' [])) [Nonatomic, Readonly] [],
      Property ''tlsCertPolicy'' (Named ''RTCTlsCertPolicy'') [Nonatomic, Readonly] [],
      Property ''hostname'' (Nullable (Object ''NSString'' [])) [Nonatomic, Readonly] [],
      Property ''tlsAlpnProtocols'' (Object ''NSArray'' [Object ''NSString'' []]) [Nonatomic, Readonly] [],
      Property ''tlsEllipticCurves'' (Object ''NSArray'' [Object ''NSString'' []]) [Nonatomic, Readonly] [],
      Instance_Method ''init'' [] Instancetype [Unavailable],
      Instance_Method ''initWithURLStrings:'' [Object ''NSArray'' [Object ''NSString'' []]] Instancetype [],
      Instance_Method ''initWithURLStrings:username:credential:'' [Object ''NSArray'' [Object ''NSString'' []],
          Nullable (Object ''NSString'' []), Nullable (Object ''NSString'' [])] Instancetype [],
      Instance_Method ''initWithURLStrings:username:credential:tlsCertPolicy:'' [Object ''NSArray'' [Object
          ''NSString'' []], Nullable (Object ''NSString'' []), Nullable (Object ''NSString'' []), Named
              ''RTCTlsCertPolicy''] Instancetype [],
      Instance_Method ''initWithURLStrings:username:credential:tlsCertPolicy:hostname:'' [Object ''NSArray''
          [Object ''NSString'' []], Nullable (Object ''NSString'' []), Nullable (Object ''NSString'' []), Named
              ''RTCTlsCertPolicy'', Nullable (Object ''NSString'' [])] Instancetype [],
      Instance_Method ''initWithURLStrings:username:credential:tlsCertPolicy:hostname:tlsAlpnProtocols:''
          [Object ''NSArray'' [Object ''NSString'' []], Nullable (Object ''NSString'' []), Nullable (Object
              ''NSString'' []), Named ''RTCTlsCertPolicy'', Nullable (Object ''NSString'' []), Object
                  ''NSArray'' [Object ''NSString'' []]] Instancetype [],
      Instance_Method
          ''initWithURLStrings:username:credential:tlsCertPolicy:hostname:tlsAlpnProtocols:tlsEllipticCurves:''
              [Object ''NSArray'' [Object ''NSString'' []], Nullable (Object ''NSString'' []), Nullable (Object
                  ''NSString'' []), Named ''RTCTlsCertPolicy'', Nullable (Object ''NSString'' []), Nullable
                      (Object ''NSArray'' [Object ''NSString'' []]), Nullable (Object ''NSArray'' [Object
                          ''NSString'' []])] Instancetype [Designated]]"

definition RTCIceServer_class :: decl where
  "RTCIceServer_class =
     Class_Decl ''RTCIceServer'' ''NSObject'' []
     RTCIceServer_members"

definition RTCIceServer_h :: header where
  "RTCIceServer_h =
     Header ''RTCIceServer.h'' Always [''Foundation/Foundation.h'']
     [RTCMacros_h]
     []
     [RTCTlsCertPolicy_enum, RTCIceServer_class]"

section \<open>\<open>RTCLegacyStatsReport.h\<close>\<close>

definition RTCLegacyStatsReport_members :: "member list" where
  "RTCLegacyStatsReport_members =
     [Property ''timestamp'' (Named ''CFTimeInterval'') [Nonatomic, Readonly] [],
      Property ''type'' (Object ''NSString'' []) [Nonatomic, Readonly] [],
      Property ''reportId'' (Object ''NSString'' []) [Nonatomic, Readonly] [],
      Property ''values'' (Object ''NSDictionary'' [Object ''NSString'' [], Object ''NSString'' []])
          [Nonatomic, Readonly] [],
      Instance_Method ''init'' [] Instancetype [Unavailable]]"

definition RTCLegacyStatsReport_class :: decl where
  "RTCLegacyStatsReport_class =
     Class_Decl ''RTCLegacyStatsReport'' ''NSObject'' []
     RTCLegacyStatsReport_members"

definition RTCLegacyStatsReport_h :: header where
  "RTCLegacyStatsReport_h =
     Header ''RTCLegacyStatsReport.h'' Always [''Foundation/Foundation.h'']
     [RTCMacros_h]
     []
     [RTCLegacyStatsReport_class]"

section \<open>\<open>RTCPeerConnection.h\<close>\<close>

definition RTCPeerConnection_constants :: "decl list" where
  "RTCPeerConnection_constants =
     [Constant_Decl ''kRTCPeerConnectionErrorDomain'' (Object ''NSString'' []),
      Constant_Decl ''kRTCSessionDescriptionErrorCode'' (Named ''int'')]"

definition RTCSignalingState_enum :: decl where
  "RTCSignalingState_enum =
     Enum_Decl ''RTCSignalingState'' ''NSInteger''
     [(''RTCSignalingStateStable'', Auto),
      (''RTCSignalingStateHaveLocalOffer'', Auto),
      (''RTCSignalingStateHaveLocalPrAnswer'', Auto),
      (''RTCSignalingStateHaveRemoteOffer'', Auto),
      (''RTCSignalingStateHaveRemotePrAnswer'', Auto),
      (''RTCSignalingStateClosed'', Auto)]"

definition RTCIceConnectionState_enum :: decl where
  "RTCIceConnectionState_enum =
     Enum_Decl ''RTCIceConnectionState'' ''NSInteger''
     [(''RTCIceConnectionStateNew'', Auto),
      (''RTCIceConnectionStateChecking'', Auto),
      (''RTCIceConnectionStateConnected'', Auto),
      (''RTCIceConnectionStateCompleted'', Auto),
      (''RTCIceConnectionStateFailed'', Auto),
      (''RTCIceConnectionStateDisconnected'', Auto),
      (''RTCIceConnectionStateClosed'', Auto),
      (''RTCIceConnectionStateCount'', Auto)]"

definition RTCPeerConnectionState_enum :: decl where
  "RTCPeerConnectionState_enum =
     Enum_Decl ''RTCPeerConnectionState'' ''NSInteger''
     [(''RTCPeerConnectionStateNew'', Auto),
      (''RTCPeerConnectionStateConnecting'', Auto),
      (''RTCPeerConnectionStateConnected'', Auto),
      (''RTCPeerConnectionStateDisconnected'', Auto),
      (''RTCPeerConnectionStateFailed'', Auto),
      (''RTCPeerConnectionStateClosed'', Auto)]"

definition RTCIceGatheringState_enum :: decl where
  "RTCIceGatheringState_enum =
     Enum_Decl ''RTCIceGatheringState'' ''NSInteger''
     [(''RTCIceGatheringStateNew'', Auto),
      (''RTCIceGatheringStateGathering'', Auto),
      (''RTCIceGatheringStateComplete'', Auto)]"

definition RTCStatsOutputLevel_enum :: decl where
  "RTCStatsOutputLevel_enum =
     Enum_Decl ''RTCStatsOutputLevel'' ''NSInteger''
     [(''RTCStatsOutputLevelStandard'', Auto),
      (''RTCStatsOutputLevelDebug'', Auto)]"

definition RTCPeerConnection_typedefs :: "decl list" where
  "RTCPeerConnection_typedefs =
     [Typedef_Decl ''RTCCreateSessionDescriptionCompletionHandler'' (Block [Nullable (Object
         ''RTCSessionDescription'' []), Nullable (Object ''NSError'' [])] (Named ''void'')),
      Typedef_Decl ''RTCSetSessionDescriptionCompletionHandler'' (Block [Nullable (Object ''NSError'' [])]
          (Named ''void''))]"

definition RTCPeerConnectionDelegate_required :: "member list" where
  "RTCPeerConnectionDelegate_required =
     [Instance_Method ''peerConnection:didChangeSignalingState:'' [Object ''RTCPeerConnection'' [], Named
         ''RTCSignalingState''] (Named ''void'') [],
      Instance_Method ''peerConnection:didAddStream:'' [Object ''RTCPeerConnection'' [], Object
          ''RTCMediaStream'' []] (Named ''void'') [],
      Instance_Method ''peerConnection:didRemoveStream:'' [Object ''RTCPeerConnection'' [], Object
          ''RTCMediaStream'' []] (Named ''void'') [],
      Instance_Method ''peerConnectionShouldNegotiate:'' [Object ''RTCPeerConnection'' []] (Named ''void'') [],
      Instance_Method ''peerConnection:didChangeIceConnectionState:'' [Object ''RTCPeerConnection'' [], Named
          ''RTCIceConnectionState''] (Named ''void'') [],
      Instance_Method ''peerConnection:didChangeIceGatheringState:'' [Object ''RTCPeerConnection'' [], Named
          ''RTCIceGatheringState''] (Named ''void'') [],
      Instance_Method ''peerConnection:didGenerateIceCandidate:'' [Object ''RTCPeerConnection'' [], Object
          ''RTCIceCandidate'' []] (Named ''void'') [],
      Instance_Method ''peerConnection:didRemoveIceCandidates:'' [Object ''RTCPeerConnection'' [], Object
          ''NSArray'' [Object ''RTCIceCandidate'' []]] (Named ''void'') [],
      Instance_Method ''peerConnection:didOpenDataChannel:'' [Object ''RTCPeerConnection'' [], Object
          ''RTCDataChannel'' []] (Named ''void'') []]"

definition RTCPeerConnectionDelegate_optional :: "member list" where
  "RTCPeerConnectionDelegate_optional =
     [Instance_Method ''peerConnection:didChangeStandardizedIceConnectionState:'' [Object ''RTCPeerConnection''
         [], Named ''RTCIceConnectionState''] (Named ''void'') [],
      Instance_Method ''peerConnection:didChangeConnectionState:'' [Object ''RTCPeerConnection'' [], Named
          ''RTCPeerConnectionState''] (Named ''void'') [],
      Instance_Method ''peerConnection:didStartReceivingOnTransceiver:'' [Object ''RTCPeerConnection'' [],
          Object ''RTCRtpTransceiver'' []] (Named ''void'') [],
      Instance_Method ''peerConnection:didAddReceiver:streams:'' [Object ''RTCPeerConnection'' [], Object
          ''RTCRtpReceiver'' [], Object ''NSArray'' [Object ''RTCMediaStream'' []]] (Named ''void'') [],
      Instance_Method ''peerConnection:didRemoveReceiver:'' [Object ''RTCPeerConnection'' [], Object
          ''RTCRtpReceiver'' []] (Named ''void'') [],
      Instance_Method ''peerConnection:didChangeLocalCandidate:remoteCandidate:lastReceivedMs:changeReason:''
          [Object ''RTCPeerConnection'' [], Object ''RTCIceCandidate'' [], Object ''RTCIceCandidate'' [], Named
              ''int'', Object ''NSString'' []] (Named ''void'') [],
      Instance_Method ''peerConnection:didFailToGatherIceCandidate:'' [Object ''RTCPeerConnection'' [], Object
          ''RTCIceCandidateErrorEvent'' []] (Named ''void'') []]"

definition RTCPeerConnectionDelegate_protocol :: decl where
  "RTCPeerConnectionDelegate_protocol =
     Protocol_Decl ''RTCPeerConnectionDelegate'' [''NSObject'']
     RTCPeerConnectionDelegate_required
     RTCPeerConnectionDelegate_optional"

definition RTCPeerConnection_class_members_1 :: "member list" where
  "RTCPeerConnection_class_members_1 =
     [Property ''delegate'' (Nullable (Id [''RTCPeerConnectionDelegate''])) [Nonatomic, Weak] [],
      Property ''localStreams'' (Object ''NSArray'' [Object ''RTCMediaStream'' []]) [Nonatomic, Readonly] [],
      Property ''localDescription'' (Nullable (Object ''RTCSessionDescription'' [])) [Nonatomic, Readonly] [],
      Property ''remoteDescription'' (Nullable (Object ''RTCSessionDescription'' [])) [Nonatomic, Readonly] [],
      Property ''signalingState'' (Named ''RTCSignalingState'') [Nonatomic, Readonly] [],
      Property ''iceConnectionState'' (Named ''RTCIceConnectionState'') [Nonatomic, Readonly] [],
      Property ''connectionState'' (Named ''RTCPeerConnectionState'') [Nonatomic, Readonly] [],
      Property ''iceGatheringState'' (Named ''RTCIceGatheringState'') [Nonatomic, Readonly] [],
      Property ''configuration'' (Object ''RTCConfiguration'' []) [Nonatomic, Readonly, Copy] [],
      Property ''senders'' (Object ''NSArray'' [Object ''RTCRtpSender'' []]) [Nonatomic, Readonly] [],
      Property ''receivers'' (Object ''NSArray'' [Object ''RTCRtpReceiver'' []]) [Nonatomic, Readonly] [],
      Property ''transceivers'' (Object ''NSArray'' [Object ''RTCRtpTransceiver'' []]) [Nonatomic, Readonly] [],
      Instance_Method ''init'' [] Instancetype [Unavailable],
      Instance_Method ''setConfiguration:'' [Object ''RTCConfiguration'' []] (Named ''BOOL'') [],
      Instance_Method ''close'' [] (Named ''void'') [],
      Instance_Method ''addIceCandidate:'' [Object ''RTCIceCandidate'' []] (Named ''void'') [Deprecated],
      Instance_Method ''addIceCandidate:completionHandler:'' [Object ''RTCIceCandidate'' [], Block [Nullable
          (Object ''NSError'' [])] (Named ''void'')] (Named ''void'') [],
      Instance_Method ''removeIceCandidates:'' [Object ''NSArray'' [Object ''RTCIceCandidate'' []]] (Named
          ''void'') [],
      Instance_Method ''addStream:'' [Object ''RTCMediaStream'' []] (Named ''void'') [],
      Instance_Method ''removeStream:'' [Object ''RTCMediaStream'' []] (Named ''void'') [],
      Instance_Method ''addTrack:streamIds:'' [Object ''RTCMediaStreamTrack'' [], Object ''NSArray'' [Object
          ''NSString'' []]] (Nullable (Object ''RTCRtpSender'' [])) [],
      Instance_Method ''removeTrack:'' [Object ''RTCRtpSender'' []] (Named ''BOOL'') [],
      Instance_Method ''addTransceiverWithTrack:'' [Object ''RTCMediaStreamTrack'' []] (Nullable (Object
          ''RTCRtpTransceiver'' [])) [],
      Instance_Method ''addTransceiverWithTrack:init:'' [Object ''RTCMediaStreamTrack'' [], Object
          ''RTCRtpTransceiverInit'' []] (Nullable (Object ''RTCRtpTransceiver'' [])) [],
      Instance_Method ''addTransceiverOfType:'' [Named ''RTCRtpMediaType''] (Nullable (Object
          ''RTCRtpTransceiver'' [])) [],
      Instance_Method ''addTransceiverOfType:init:'' [Named ''RTCRtpMediaType'', Object
          ''RTCRtpTransceiverInit'' []] (Nullable (Object ''RTCRtpTransceiver'' [])) []]"

definition RTCPeerConnection_class_members_2 :: "member list" where
  "RTCPeerConnection_class_members_2 =
     [Instance_Method ''restartIce'' [] (Named ''void'') [],
      Instance_Method ''offerForConstraints:completionHandler:'' [Object ''RTCMediaConstraints'' [], Named
          ''RTCCreateSessionDescriptionCompletionHandler''] (Named ''void'') [],
      Instance_Method ''answerForConstraints:completionHandler:'' [Object ''RTCMediaConstraints'' [], Named
          ''RTCCreateSessionDescriptionCompletionHandler''] (Named ''void'') [],
      Instance_Method ''setLocalDescription:completionHandler:'' [Object ''RTCSessionDescription'' [], Named
          ''RTCSetSessionDescriptionCompletionHandler''] (Named ''void'') [],
      Instance_Method ''setLocalDescriptionWithCompletionHandler:'' [Named
          ''RTCSetSessionDescriptionCompletionHandler''] (Named ''void'') [],
      Instance_Method ''setRemoteDescription:completionHandler:'' [Object ''RTCSessionDescription'' [], Named
          ''RTCSetSessionDescriptionCompletionHandler''] (Named ''void'') [],
      Instance_Method ''setBweMinBitrateBps:currentBitrateBps:maxBitrateBps:'' [Nullable (Object ''NSNumber''
          []), Nullable (Object ''NSNumber'' []), Nullable (Object ''NSNumber'' [])] (Named ''BOOL'') [],
      Instance_Method ''startRtcEventLogWithFilePath:maxSizeInBytes:'' [Object ''NSString'' [], Named
          ''int64_t''] (Named ''BOOL'') [],
      Instance_Method ''stopRtcEventLog'' [] (Named ''void'') []]"

definition RTCPeerConnection_class :: decl where
  "RTCPeerConnection_class =
     Class_Decl ''RTCPeerConnection'' ''NSObject'' []
     (RTCPeerConnection_class_members_1 @ RTCPeerConnection_class_members_2)"

definition RTCPeerConnection_Media_members :: "member list" where
  "RTCPeerConnection_Media_members =
     [Instance_Method ''senderWithKind:streamId:'' [Object ''NSString'' [], Object ''NSString'' []] (Object
         ''RTCRtpSender'' []) []]"

definition RTCPeerConnection_Media :: decl where
  "RTCPeerConnection_Media =
     Category_Decl ''RTCPeerConnection'' ''Media'' []
     RTCPeerConnection_Media_members"

definition RTCPeerConnection_DataChannel_members :: "member list" where
  "RTCPeerConnection_DataChannel_members =
     [Instance_Method ''dataChannelForLabel:configuration:'' [Object ''NSString'' [], Object
         ''RTCDataChannelConfiguration'' []] (Nullable (Object ''RTCDataChannel'' [])) []]"

definition RTCPeerConnection_DataChannel :: decl where
  "RTCPeerConnection_DataChannel =
     Category_Decl ''RTCPeerConnection'' ''DataChannel'' []
     RTCPeerConnection_DataChannel_members"

definition RTCPeerConnection_typedefs_2 :: "decl list" where
  "RTCPeerConnection_typedefs_2 =
     [Typedef_Decl ''RTCStatisticsCompletionHandler'' (Block [Object ''RTCStatisticsReport'' []] (Named
         ''void''))]"

definition RTCPeerConnection_Stats_members :: "member list" where
  "RTCPeerConnection_Stats_members =
     [Instance_Method ''statsForTrack:statsOutputLevel:completionHandler:'' [Nullable (Object
         ''RTCMediaStreamTrack'' []), Named ''RTCStatsOutputLevel'', Nullable (Block [Object ''NSArray''
             [Object ''RTCLegacyStatsReport'' []]] (Named ''void''))] (Named ''void'') [],
      Instance_Method ''statisticsWithCompletionHandler:'' [Named ''RTCStatisticsCompletionHandler''] (Named
          ''void'') [],
      Instance_Method ''statisticsForSender:completionHandler:'' [Object ''RTCRtpSender'' [], Named
          ''RTCStatisticsCompletionHandler''] (Named ''void'') [],
      Instance_Method ''statisticsForReceiver:completionHandler:'' [Object ''RTCRtpReceiver'' [], Named
          ''RTCStatisticsCompletionHandler''] (Named ''void'') []]"

definition RTCPeerConnection_Stats :: decl where
  "RTCPeerConnection_Stats =
     Category_Decl ''RTCPeerConnection'' ''Stats'' []
     RTCPeerConnection_Stats_members"

definition RTCPeerConnection_h :: header where
  "RTCPeerConnection_h =
     Header ''RTCPeerConnection.h'' Always [''Foundation/Foundation.h'']
     [RTCMacros_h]
     [Fwd_Class ''RTCConfiguration'', Fwd_Class ''RTCDataChannel'', Fwd_Class ''RTCDataChannelConfiguration'',
         Fwd_Class ''RTCIceCandidate'', Fwd_Class ''RTCIceCandidateErrorEvent'', Fwd_Class
             ''RTCMediaConstraints'', Fwd_Class ''RTCMediaStream'', Fwd_Class ''RTCMediaStreamTrack'',
                 Fwd_Class ''RTCPeerConnectionFactory'', Fwd_Class ''RTCRtpReceiver'', Fwd_Class
                     ''RTCRtpSender'', Fwd_Class ''RTCRtpTransceiver'', Fwd_Class ''RTCRtpTransceiverInit'',
                         Fwd_Class ''RTCSessionDescription'', Fwd_Class ''RTCStatisticsReport'', Fwd_Class
                             ''RTCLegacyStatsReport'', Fwd_Enum ''RTCRtpMediaType'', Fwd_Class
                                 ''RTCPeerConnection'']
     (RTCPeerConnection_constants @ [RTCSignalingState_enum, RTCIceConnectionState_enum,
         RTCPeerConnectionState_enum, RTCIceGatheringState_enum, RTCStatsOutputLevel_enum] @
             RTCPeerConnection_typedefs @ [RTCPeerConnectionDelegate_protocol, RTCPeerConnection_class,
                 RTCPeerConnection_Media, RTCPeerConnection_DataChannel] @ RTCPeerConnection_typedefs_2 @
                     [RTCPeerConnection_Stats])"

section \<open>\<open>RTCPeerConnectionFactory.h\<close>\<close>

definition RTCPeerConnectionFactory_members :: "member list" where
  "RTCPeerConnectionFactory_members =
     [Instance_Method ''init'' [] Instancetype [],
      Instance_Method ''initWithEncoderFactory:decoderFactory:'' [Nullable (Id [''RTCVideoEncoderFactory'']),
          Nullable (Id [''RTCVideoDecoderFactory''])] Instancetype [],
      Instance_Method ''initWithEncoderFactory:decoderFactory:audioDevice:'' [Nullable (Id
          [''RTCVideoEncoderFactory'']), Nullable (Id [''RTCVideoDecoderFactory'']), Nullable (Id
              [''RTCAudioDevice''])] Instancetype [],
      Instance_Method ''rtpSenderCapabilitiesForKind:'' [Object ''NSString'' []] (Object ''RTCRtpCapabilities''
          []) [],
      Instance_Method ''rtpReceiverCapabilitiesForKind:'' [Object ''NSString'' []] (Object
          ''RTCRtpCapabilities'' []) [],
      Instance_Method ''audioSourceWithConstraints:'' [Nullable (Object ''RTCMediaConstraints'' [])] (Object
          ''RTCAudioSource'' []) [],
      Instance_Method ''audioTrackWithTrackId:'' [Object ''NSString'' []] (Object ''RTCAudioTrack'' []) [],
      Instance_Method ''audioTrackWithSource:trackId:'' [Object ''RTCAudioSource'' [], Object ''NSString'' []]
          (Object ''RTCAudioTrack'' []) [],
      Instance_Method ''videoSource'' [] (Object ''RTCVideoSource'' []) [],
      Instance_Method ''videoSourceForScreenCast:'' [Named ''BOOL''] (Object ''RTCVideoSource'' []) [],
      Instance_Method ''videoTrackWithSource:trackId:'' [Object ''RTCVideoSource'' [], Object ''NSString'' []]
          (Object ''RTCVideoTrack'' []) [],
      Instance_Method ''mediaStreamWithStreamId:'' [Object ''NSString'' []] (Object ''RTCMediaStream'' []) [],
      Instance_Method ''peerConnectionWithConfiguration:constraints:delegate:'' [Object ''RTCConfiguration''
          [], Object ''RTCMediaConstraints'' [], Nullable (Id [''RTCPeerConnectionDelegate''])] (Nullable
              (Object ''RTCPeerConnection'' [])) [],
      Instance_Method ''peerConnectionWithConfiguration:constraints:certificateVerifier:delegate:'' [Object
          ''RTCConfiguration'' [], Object ''RTCMediaConstraints'' [], Id [''RTCSSLCertificateVerifier''],
              Nullable (Id [''RTCPeerConnectionDelegate''])] (Nullable (Object ''RTCPeerConnection'' [])) [],
      Instance_Method ''setOptions:'' [Object ''RTCPeerConnectionFactoryOptions'' []] (Named ''void'') [],
      Instance_Method ''startAecDumpWithFilePath:maxSizeInBytes:'' [Object ''NSString'' [], Named ''int64_t'']
          (Named ''BOOL'') [],
      Instance_Method ''stopAecDump'' [] (Named ''void'') []]"

definition RTCPeerConnectionFactory_class :: decl where
  "RTCPeerConnectionFactory_class =
     Class_Decl ''RTCPeerConnectionFactory'' ''NSObject'' []
     RTCPeerConnectionFactory_members"

definition RTCPeerConnectionFactory_h :: header where
  "RTCPeerConnectionFactory_h =
     Header ''RTCPeerConnectionFactory.h'' Always [''Foundation/Foundation.h'']
     [RTCMacros_h]
     [Fwd_Class ''RTCRtpCapabilities'', Fwd_Class ''RTCAudioSource'', Fwd_Class ''RTCAudioTrack'', Fwd_Class
         ''RTCConfiguration'', Fwd_Class ''RTCMediaConstraints'', Fwd_Class ''RTCMediaStream'', Fwd_Class
             ''RTCPeerConnection'', Fwd_Class ''RTCVideoSource'', Fwd_Class ''RTCVideoTrack'', Fwd_Class
                 ''RTCPeerConnectionFactoryOptions'', Fwd_Protocol ''RTCPeerConnectionDelegate'', Fwd_Protocol
                     ''RTCVideoDecoderFactory'', Fwd_Protocol ''RTCVideoEncoderFactory'', Fwd_Protocol
                         ''RTCSSLCertificateVerifier'', Fwd_Protocol ''RTCAudioDevice'']
     [RTCPeerConnectionFactory_class]"

section \<open>\<open>RTCPeerConnectionFactoryOptions.h\<close>\<close>

definition RTCPeerConnectionFactoryOptions_members :: "member list" where
  "RTCPeerConnectionFactoryOptions_members =
     [Property ''disableEncryption'' (Named ''BOOL'') [Nonatomic, Assign] [],
      Property ''disableNetworkMonitor'' (Named ''BOOL'') [Nonatomic, Assign] [],
      Property ''ignoreLoopbackNetworkAdapter'' (Named ''BOOL'') [Nonatomic, Assign] [],
      Property ''ignoreVPNNetworkAdapter'' (Named ''BOOL'') [Nonatomic, Assign] [],
      Property ''ignoreCellularNetworkAdapter'' (Named ''BOOL'') [Nonatomic, Assign] [],
      Property ''ignoreWiFiNetworkAdapter'' (Named ''BOOL'') [Nonatomic, Assign] [],
      Property ''ignoreEthernetNetworkAdapter'' (Named ''BOOL'') [Nonatomic, Assign] [],
      Instance_Method ''init'' [] Instancetype [Designated]]"

definition RTCPeerConnectionFactoryOptions_class :: decl where
  "RTCPeerConnectionFactoryOptions_class =
     Class_Decl ''RTCPeerConnectionFactoryOptions'' ''NSObject'' []
     RTCPeerConnectionFactoryOptions_members"

definition RTCPeerConnectionFactoryOptions_h :: header where
  "RTCPeerConnectionFactoryOptions_h =
     Header ''RTCPeerConnectionFactoryOptions.h'' Always [''Foundation/Foundation.h'']
     [RTCMacros_h]
     []
     [RTCPeerConnectionFactoryOptions_class]"

section \<open>\<open>RTCSessionDescription.h\<close>\<close>

definition RTCSdpType_enum :: decl where
  "RTCSdpType_enum =
     Enum_Decl ''RTCSdpType'' ''NSInteger''
     [(''RTCSdpTypeOffer'', Auto),
      (''RTCSdpTypePrAnswer'', Auto),
      (''RTCSdpTypeAnswer'', Auto),
      (''RTCSdpTypeRollback'', Auto)]"

definition RTCSessionDescription_members :: "member list" where
  "RTCSessionDescription_members =
     [Property ''type'' (Named ''RTCSdpType'') [Nonatomic, Readonly] [],
      Property ''sdp'' (Object ''NSString'' []) [Nonatomic, Readonly] [],
      Instance_Method ''init'' [] Instancetype [Unavailable],
      Instance_Method ''initWithType:sdp:'' [Named ''RTCSdpType'', Object ''NSString'' []] Instancetype
          [Designated],
      Class_Method ''stringForType:'' [Named ''RTCSdpType''] (Object ''NSString'' []) [],
      Class_Method ''typeForString:'' [Object ''NSString'' []] (Named ''RTCSdpType'') []]"

definition RTCSessionDescription_class :: decl where
  "RTCSessionDescription_class =
     Class_Decl ''RTCSessionDescription'' ''NSObject'' []
     RTCSessionDescription_members"

definition RTCSessionDescription_h :: header where
  "RTCSessionDescription_h =
     Header ''RTCSessionDescription.h'' Always [''Foundation/Foundation.h'']
     [RTCMacros_h]
     []
     [RTCSdpType_enum, RTCSessionDescription_class]"

section \<open>\<open>RTCStatisticsReport.h\<close>\<close>

definition RTCStatisticsReport_members :: "member list" where
  "RTCStatisticsReport_members =
     [Property ''timestamp_us'' (Named ''CFTimeInterval'') [Nonatomic, Readonly] [],
      Property ''statistics'' (Object ''NSDictionary'' [Object ''NSString'' [], Object ''RTCStatistics'' []])
          [Nonatomic, Readonly] [],
      Instance_Method ''init'' [] Instancetype [Unavailable]]"

definition RTCStatisticsReport_class :: decl where
  "RTCStatisticsReport_class =
     Class_Decl ''RTCStatisticsReport'' ''NSObject'' []
     RTCStatisticsReport_members"

definition RTCStatistics_members :: "member list" where
  "RTCStatistics_members =
     [Property ''id'' (Object ''NSString'' []) [Nonatomic, Readonly] [],
      Property ''timestamp_us'' (Named ''CFTimeInterval'') [Nonatomic, Readonly] [],
      Property ''type'' (Object ''NSString'' []) [Nonatomic, Readonly] [],
      Property ''values'' (Object ''NSDictionary'' [Object ''NSString'' [], Object ''NSObject'' []])
          [Nonatomic, Readonly] [],
      Instance_Method ''init'' [] Instancetype [Unavailable]]"

definition RTCStatistics_class :: decl where
  "RTCStatistics_class =
     Class_Decl ''RTCStatistics'' ''NSObject'' []
     RTCStatistics_members"

definition RTCStatisticsReport_h :: header where
  "RTCStatisticsReport_h =
     Header ''RTCStatisticsReport.h'' Always [''Foundation/Foundation.h'']
     [RTCMacros_h]
     [Fwd_Class ''RTCStatistics'']
     [RTCStatisticsReport_class, RTCStatistics_class]"

section \<open>\<open>WebRTC.h\<close>\<close>

definition WebRTC_h :: header where
  "WebRTC_h =
     Header ''WebRTC.h'' Always []
     [RTCCodecSpecificInfo_h, RTCEncodedImage_h, RTCI420Buffer_h, RTCLogging_h, RTCMacros_h,
         RTCMutableI420Buffer_h, RTCMutableYUVPlanarBuffer_h, RTCSSLCertificateVerifier_h, RTCVideoCapturer_h,
             RTCVideoCodecInfo_h, RTCVideoDecoder_h, RTCVideoDecoderFactory_h, RTCVideoEncoder_h,
                 RTCVideoEncoderFactory_h, RTCVideoEncoderQpThresholds_h, RTCVideoEncoderSettings_h,
                     RTCVideoFrame_h, RTCVideoFrameBuffer_h, RTCVideoRenderer_h, RTCYUVPlanarBuffer_h,
                         RTCAudioDevice_h, RTCAudioSession_h, RTCAudioSessionConfiguration_h,
                             RTCCameraVideoCapturer_h, RTCFileVideoCapturer_h, RTCNetworkMonitor_h,
                                 RTCMTLVideoView_h, RTCEAGLVideoView_h, RTCVideoViewShading_h,
                                     RTCCodecSpecificInfoH264_h, RTCDefaultVideoDecoderFactory_h,
                                         RTCDefaultVideoEncoderFactory_h, RTCH264ProfileLevelId_h,
                                             RTCVideoDecoderFactoryH264_h, RTCVideoDecoderH264_h,
                                                 RTCVideoEncoderFactoryH264_h, RTCVideoEncoderH264_h,
                                                     RTCCVPixelBuffer_h, RTCCameraPreviewView_h,
                                                         RTCDispatcher_h, UIDevice_RTCDevice_h,
                                                             RTCAudioSource_h, RTCAudioTrack_h,
                                                                 RTCConfiguration_h, RTCDataChannel_h,
                                                                     RTCDataChannelConfiguration_h,
                                                                         RTCFieldTrials_h, RTCIceCandidate_h,
                                                                             RTCIceCandidateErrorEvent_h,
                                                                                 RTCIceServer_h,
                                                                                     RTCLegacyStatsReport_h,
                                                                                         RTCMediaConstraints_h,
                                                                                             RTCMediaSource_h,
                                                                                                 RTCMediaStream_h, RTCMediaStreamTrack_h, RTCMetrics_h, RTCMetricsSampleInfo_h, RTCPeerConnection_h, RTCPeerConnectionFactory_h, RTCPeerConnectionFactoryOptions_h, RTCRtcpParameters_h, RTCRtpCapabilities_h, RTCRtpCodecCapability_h, RTCRtpCodecParameters_h, RTCRtpEncodingParameters_h, RTCRtpHeaderExtension_h, RTCRtpHeaderExtensionCapability_h, RTCRtpParameters_h, RTCRtpReceiver_h, RTCRtpSource_h, RTCRtpSender_h, RTCRtpTransceiver_h, RTCDtmfSender_h, RTCSSLAdapter_h, RTCSessionDescription_h, RTCStatisticsReport_h, RTCTracing_h, RTCCertificate_h, RTCCryptoOptions_h, RTCVideoSource_h, RTCVideoTrack_h, RTCVideoCodecConstants_h, RTCVideoDecoderVP8_h, RTCVideoDecoderVP9_h, RTCVideoDecoderAV1_h, RTCVideoEncoderVP8_h, RTCVideoEncoderVP9_h, RTCVideoEncoderAV1_h, RTCNativeI420Buffer_h, RTCNativeMutableI420Buffer_h, RTCCallbackLogger_h, RTCFileLogger_h]
     []
     []"

section \<open>Checks\<close>

text \<open>Bundles: the headers, the declarations of classes, protocols and categories, the other declarations.\<close>

lemmas connection_headers =
  RTCConfiguration_h_def RTCDataChannel_h_def RTCDataChannelConfiguration_h_def RTCIceCandidate_h_def
  RTCIceCandidateErrorEvent_h_def RTCIceServer_h_def RTCLegacyStatsReport_h_def RTCPeerConnection_h_def
  RTCPeerConnectionFactory_h_def RTCPeerConnectionFactoryOptions_h_def RTCSessionDescription_h_def
  RTCStatisticsReport_h_def WebRTC_h_def

lemmas connection_interfaces =
  RTCConfiguration_class_def RTCDataBuffer_class_def RTCDataChannelDelegate_protocol_def
  RTCDataChannel_class_def RTCDataChannelConfiguration_class_def RTCIceCandidate_class_def
  RTCIceCandidateErrorEvent_class_def RTCIceServer_class_def RTCLegacyStatsReport_class_def
  RTCPeerConnectionDelegate_protocol_def RTCPeerConnection_class_def RTCPeerConnection_Media_def
  RTCPeerConnection_DataChannel_def RTCPeerConnection_Stats_def RTCPeerConnectionFactory_class_def
  RTCPeerConnectionFactoryOptions_class_def RTCSessionDescription_class_def RTCStatisticsReport_class_def
  RTCStatistics_class_def

lemmas connection_others =
  RTCIceTransportPolicy_enum_def RTCBundlePolicy_enum_def RTCRtcpMuxPolicy_enum_def
  RTCTcpCandidatePolicy_enum_def RTCCandidateNetworkPolicy_enum_def RTCContinualGatheringPolicy_enum_def
  RTCEncryptionKeyType_enum_def RTCSdpSemantics_enum_def RTCDataChannelState_enum_def
  RTCTlsCertPolicy_enum_def RTCPeerConnection_constants_def RTCSignalingState_enum_def
  RTCIceConnectionState_enum_def RTCPeerConnectionState_enum_def RTCIceGatheringState_enum_def
  RTCStatsOutputLevel_enum_def RTCPeerConnection_typedefs_def RTCPeerConnection_typedefs_2_def
  RTCSdpType_enum_def

text \<open>No selector is declared twice, selectors have one type per colon, enumeration constants are distinct.\<close>

text \<open>What each header declares on tvOS.\<close>

lemma connection_decls [header_decls_eqs]:
  "header_decls True RTCConfiguration_h = [RTCIceTransportPolicy_enum, RTCBundlePolicy_enum,
      RTCRtcpMuxPolicy_enum, RTCTcpCandidatePolicy_enum, RTCCandidateNetworkPolicy_enum,
          RTCContinualGatheringPolicy_enum, RTCEncryptionKeyType_enum, RTCSdpSemantics_enum,
              RTCConfiguration_class]"
  "header_decls True RTCDataChannel_h = [RTCDataBuffer_class, RTCDataChannelDelegate_protocol,
      RTCDataChannelState_enum, RTCDataChannel_class]"
  "header_decls True RTCDataChannelConfiguration_h = [RTCDataChannelConfiguration_class]"
  "header_decls True RTCIceCandidate_h = [RTCIceCandidate_class]"
  "header_decls True RTCIceCandidateErrorEvent_h = [RTCIceCandidateErrorEvent_class]"
  "header_decls True RTCIceServer_h = [RTCTlsCertPolicy_enum, RTCIceServer_class]"
  "header_decls True RTCLegacyStatsReport_h = [RTCLegacyStatsReport_class]"
  "header_decls True RTCPeerConnection_h = RTCPeerConnection_constants @ [RTCSignalingState_enum,
      RTCIceConnectionState_enum, RTCPeerConnectionState_enum, RTCIceGatheringState_enum,
          RTCStatsOutputLevel_enum] @ RTCPeerConnection_typedefs @ [RTCPeerConnectionDelegate_protocol,
              RTCPeerConnection_class, RTCPeerConnection_Media, RTCPeerConnection_DataChannel] @
                  RTCPeerConnection_typedefs_2 @ [RTCPeerConnection_Stats]"
  "header_decls True RTCPeerConnectionFactory_h = [RTCPeerConnectionFactory_class]"
  "header_decls True RTCPeerConnectionFactoryOptions_h = [RTCPeerConnectionFactoryOptions_class]"
  "header_decls True RTCSessionDescription_h = [RTCSdpType_enum, RTCSessionDescription_class]"
  "header_decls True RTCStatisticsReport_h = [RTCStatisticsReport_class, RTCStatistics_class]"
  "header_decls True WebRTC_h = []"
  by (subst RTCConfiguration_h_def, simp, subst RTCDataChannel_h_def, simp, subst
    RTCDataChannelConfiguration_h_def, simp, subst RTCIceCandidate_h_def, simp, subst
    RTCIceCandidateErrorEvent_h_def, simp, subst RTCIceServer_h_def, simp, subst
    RTCLegacyStatsReport_h_def, simp, subst RTCPeerConnection_h_def, simp, subst
    RTCPeerConnectionFactory_h_def, simp, subst RTCPeerConnectionFactoryOptions_h_def, simp, subst
    RTCSessionDescription_h_def, simp, subst RTCStatisticsReport_h_def, simp, subst WebRTC_h_def, simp)

lemma connection_headers_ok_1 [header_checks]:
  "header_ok RTCConfiguration_h"
  "header_ok RTCDataChannel_h"
  "header_ok RTCDataChannelConfiguration_h"
  "header_ok RTCIceCandidate_h"
  "header_ok RTCIceCandidateErrorEvent_h"
  "header_ok RTCIceServer_h"
  by code_simp+

lemma connection_headers_ok_2 [header_checks]:
  "header_ok RTCLegacyStatsReport_h"
  "header_ok RTCPeerConnection_h"
  "header_ok RTCPeerConnectionFactory_h"
  "header_ok RTCPeerConnectionFactoryOptions_h"
  "header_ok RTCSessionDescription_h"
  "header_ok RTCStatisticsReport_h"
  "header_ok WebRTC_h"
  by code_simp+

text \<open>On tvOS every name of the framework a header uses is visible there.\<close>

lemma connection_headers_resolve [header_checks]:
  "resolves True RTCConfiguration_h"
  "resolves True RTCDataChannel_h"
  "resolves True RTCDataChannelConfiguration_h"
  "resolves True RTCIceCandidate_h"
  "resolves True RTCIceCandidateErrorEvent_h"
  "resolves True RTCIceServer_h"
  "resolves True RTCLegacyStatsReport_h"
  "resolves True RTCPeerConnection_h"
  "resolves True RTCPeerConnectionFactory_h"
  "resolves True RTCPeerConnectionFactoryOptions_h"
  "resolves True RTCSessionDescription_h"
  "resolves True RTCStatisticsReport_h"
  "resolves True WebRTC_h"
  by code_simp+

end
