(* ===== verification/Webrtc_Framework.thy ===== *)
theory Webrtc_Framework imports Webrtc_Connection begin

text \<open>
  The WebRTC framework as the app sees it on tvOS: the headers \<open>WebRTC.h\<close> includes, in an order in which
  every header comes after those it imports, and the declarations they make together. The theory proves that
  the interface is closed (every framework name a header uses is visible in it), that its class hierarchy is
  well-formed and that each declaration obeys the rules of the language, from the checks of the single
  headers, and draws from that what a client of the framework relies on.
\<close>

section \<open>The framework\<close>

definition headers :: "header list" where
  "headers =
     [RTCMacros_h, RTCAudioDevice_h, RTCAudioSession_h, RTCAudioSessionConfiguration_h, RTCMediaSource_h,
      RTCAudioSource_h, RTCMediaStreamTrack_h, RTCAudioTrack_h, RTCVideoFrameBuffer_h,
      RTCCVPixelBuffer_h, RTCLogging_h, RTCCallbackLogger_h, RTCCameraPreviewView_h, RTCVideoFrame_h,
      RTCVideoCapturer_h, RTCCameraVideoCapturer_h, RTCCertificate_h, RTCCodecSpecificInfo_h,
      RTCCodecSpecificInfoH264_h, RTCCryptoOptions_h, RTCConfiguration_h, RTCDataChannel_h,
      RTCDataChannelConfiguration_h, RTCVideoCodecInfo_h, RTCEncodedImage_h, RTCVideoEncoderSettings_h,
      RTCVideoDecoder_h, RTCVideoDecoderFactory_h, RTCDefaultVideoDecoderFactory_h,
      RTCVideoEncoderQpThresholds_h, RTCVideoEncoder_h, RTCVideoEncoderFactory_h,
      RTCDefaultVideoEncoderFactory_h, RTCDispatcher_h, RTCDtmfSender_h, RTCVideoRenderer_h,
      RTCVideoViewShading_h, RTCEAGLVideoView_h, RTCFieldTrials_h, RTCFileLogger_h,
      RTCFileVideoCapturer_h, RTCH264ProfileLevelId_h, RTCYUVPlanarBuffer_h, RTCI420Buffer_h,
      RTCIceCandidate_h, RTCIceCandidateErrorEvent_h, RTCIceServer_h, RTCLegacyStatsReport_h,
      RTCMTLVideoView_h, RTCMediaConstraints_h, RTCMediaStream_h, RTCMetricsSampleInfo_h, RTCMetrics_h,
      RTCMutableYUVPlanarBuffer_h, RTCMutableI420Buffer_h, RTCNativeI420Buffer_h,
      RTCNativeMutableI420Buffer_h, RTCNetworkMonitor_h, RTCPeerConnection_h, RTCPeerConnectionFactory_h,
      RTCPeerConnectionFactoryOptions_h, RTCRtcpParameters_h, RTCRtpCapabilities_h,
      RTCRtpCodecCapability_h, RTCRtpCodecParameters_h, RTCRtpEncodingParameters_h,
      RTCRtpHeaderExtension_h, RTCRtpHeaderExtensionCapability_h, RTCRtpParameters_h, RTCRtpReceiver_h,
      RTCRtpSender_h, RTCRtpSource_h, RTCRtpTransceiver_h, RTCSSLAdapter_h, RTCSSLCertificateVerifier_h,
      RTCSessionDescription_h, RTCStatisticsReport_h, RTCTracing_h, RTCVideoCodecConstants_h,
      RTCVideoDecoderAV1_h, RTCVideoDecoderFactoryH264_h, RTCVideoDecoderH264_h, RTCVideoDecoderVP8_h,
      RTCVideoDecoderVP9_h, RTCVideoEncoderAV1_h, RTCVideoEncoderFactoryH264_h, RTCVideoEncoderH264_h,
      RTCVideoEncoderVP8_h, RTCVideoEncoderVP9_h, RTCVideoSource_h, RTCVideoTrack_h,
      UIDevice_RTCDevice_h, WebRTC_h]"

definition webrtc :: framework where
  "webrtc = framework_of headers"

lemmas interface_defs = base_interfaces video_interfaces media_interfaces connection_interfaces
lemmas other_defs = base_others video_others media_others connection_others

section \<open>Checks of the whole framework\<close>

lemma headers_ok: "list_all header_ok headers"
  by (simp add: headers_def header_checks)

lemma headers_resolve: "list_all (resolves True) headers"
  by (simp add: headers_def header_checks)

text \<open>The class diagram of the framework on tvOS, latest declaration first.\<close>

lemma webrtc_skeleton:
  "concat (map skeleton webrtc) =
     [Class_Decl ''RTCVideoTrack'' ''RTCMediaStreamTrack'' [] [],
      Class_Decl ''RTCVideoSource'' ''RTCMediaSource'' [''RTCVideoCapturerDelegate''] [],
      Class_Decl ''RTCVideoEncoderVP9'' ''NSObject'' [] [],
      Class_Decl ''RTCVideoEncoderVP8'' ''NSObject'' [] [],
      Class_Decl ''RTCVideoEncoderH264'' ''NSObject'' [''RTCVideoEncoder''] [],
      Class_Decl ''RTCVideoEncoderFactoryH264'' ''NSObject'' [''RTCVideoEncoderFactory''] [],
      Class_Decl ''RTCVideoEncoderAV1'' ''NSObject'' [] [],
      Class_Decl ''RTCVideoDecoderVP9'' ''NSObject'' [] [],
      Class_Decl ''RTCVideoDecoderVP8'' ''NSObject'' [] [],
      Class_Decl ''RTCVideoDecoderH264'' ''NSObject'' [''RTCVideoDecoder''] [],
      Class_Decl ''RTCVideoDecoderFactoryH264'' ''NSObject'' [''RTCVideoDecoderFactory''] [],
      Class_Decl ''RTCVideoDecoderAV1'' ''NSObject'' [] [], Class_Decl ''RTCStatistics'' ''NSObject'' [] [],
      Class_Decl ''RTCStatisticsReport'' ''NSObject'' [] [],
      Class_Decl ''RTCSessionDescription'' ''NSObject'' [] [],
      Protocol_Decl ''RTCSSLCertificateVerifier'' [''NSObject''] [] [],
      Class_Decl ''RTCRtpTransceiver'' ''NSObject'' [''RTCRtpTransceiver''] [],
      Protocol_Decl ''RTCRtpTransceiver'' [''NSObject''] [] [],
      Class_Decl ''RTCRtpTransceiverInit'' ''NSObject'' [] [],
      Class_Decl ''RTCRtpSource'' ''NSObject'' [''RTCRtpSource''] [],
      Protocol_Decl ''RTCRtpSource'' [''NSObject''] [] [],
      Class_Decl ''RTCRtpSender'' ''NSObject'' [''RTCRtpSender''] [],
      Protocol_Decl ''RTCRtpSender'' [''NSObject''] [] [],
      Class_Decl ''RTCRtpReceiver'' ''NSObject'' [''RTCRtpReceiver''] [],
      Protocol_Decl ''RTCRtpReceiver'' [''NSObject''] [] [],
      Protocol_Decl ''RTCRtpReceiverDelegate'' [''NSObject''] [] [],
      Class_Decl ''RTCRtpParameters'' ''NSObject'' [] [],
      Class_Decl ''RTCRtpHeaderExtensionCapability'' ''NSObject'' [] [],
      Class_Decl ''RTCRtpHeaderExtension'' ''NSObject'' [] [],
      Class_Decl ''RTCRtpEncodingParameters'' ''NSObject'' [] [],
      Class_Decl ''RTCRtpCodecParameters'' ''NSObject'' [] [],
      Class_Decl ''RTCRtpCodecCapability'' ''NSObject'' [] [],
      Class_Decl ''RTCRtpCapabilities'' ''NSObject'' [] [],
      Class_Decl ''RTCRtcpParameters'' ''NSObject'' [] [],
      Class_Decl ''RTCPeerConnectionFactoryOptions'' ''NSObject'' [] [],
      Class_Decl ''RTCPeerConnectionFactory'' ''NSObject'' [] [],
      Category_Decl ''RTCPeerConnection'' ''Stats'' [] [],
      Category_Decl ''RTCPeerConnection'' ''DataChannel'' [] [],
      Category_Decl ''RTCPeerConnection'' ''Media'' [] [],
      Class_Decl ''RTCPeerConnection'' ''NSObject'' [] [],
      Protocol_Decl ''RTCPeerConnectionDelegate'' [''NSObject''] [] [],
      Class_Decl ''RTCNetworkMonitor'' ''NSObject'' [] [],
      Class_Decl ''RTCMutableI420Buffer'' ''RTCI420Buffer'' [''RTCMutableI420Buffer''] [],
      Class_Decl ''RTCI420Buffer'' ''NSObject'' [''RTCI420Buffer''] [],
      Protocol_Decl ''RTCMutableI420Buffer'' [''RTCI420Buffer'', ''RTCMutableYUVPlanarBuffer''] [] [],
      Protocol_Decl ''RTCMutableYUVPlanarBuffer'' [''RTCYUVPlanarBuffer''] [] [],
      Class_Decl ''RTCMetricsSampleInfo'' ''NSObject'' [] [],
      Class_Decl ''RTCMediaStream'' ''NSObject'' [] [],
      Class_Decl ''RTCMediaConstraints'' ''NSObject'' [] [],
      Class_Decl ''RTCMTLVideoView'' ''UIView'' [''RTCVideoRenderer''] [],
      Class_Decl ''RTCLegacyStatsReport'' ''NSObject'' [] [],
      Class_Decl ''RTCIceServer'' ''NSObject'' [] [],
      Class_Decl ''RTCIceCandidateErrorEvent'' ''NSObject'' [] [],
      Class_Decl ''RTCIceCandidate'' ''NSObject'' [] [],
      Protocol_Decl ''RTCI420Buffer'' [''RTCYUVPlanarBuffer''] [] [],
      Protocol_Decl ''RTCYUVPlanarBuffer'' [''RTCVideoFrameBuffer''] [] [],
      Class_Decl ''RTCH264ProfileLevelId'' ''NSObject'' [] [],
      Class_Decl ''RTCFileLogger'' ''NSObject'' [] [],
      Protocol_Decl ''RTCVideoViewShading'' [''NSObject''] [] [],
      Protocol_Decl ''RTCVideoViewDelegate'' [] [] [],
      Protocol_Decl ''RTCVideoRenderer'' [''NSObject''] [] [],
      Protocol_Decl ''RTCDtmfSender'' [''NSObject''] [] [], Class_Decl ''RTCDispatcher'' ''NSObject'' [] [],
      Class_Decl ''RTCDefaultVideoEncoderFactory'' ''NSObject'' [''RTCVideoEncoderFactory''] [],
      Protocol_Decl ''RTCVideoEncoderFactory'' [''NSObject''] [] [],
      Class_Decl ''RTCVideoEncoderCodecSupport'' ''NSObject'' [] [],
      Protocol_Decl ''RTCVideoEncoderSelector'' [''NSObject''] [] [],
      Protocol_Decl ''RTCVideoEncoder'' [''NSObject''] [] [],
      Class_Decl ''RTCVideoEncoderQpThresholds'' ''NSObject'' [] [],
      Class_Decl ''RTCDefaultVideoDecoderFactory'' ''NSObject'' [''RTCVideoDecoderFactory''] [],
      Protocol_Decl ''RTCVideoDecoderFactory'' [''NSObject''] [] [],
      Protocol_Decl ''RTCVideoDecoder'' [''NSObject''] [] [],
      Class_Decl ''RTCVideoEncoderSettings'' ''NSObject'' [] [],
      Class_Decl ''RTCEncodedImage'' ''NSObject'' [] [],
      Class_Decl ''RTCVideoCodecInfo'' ''NSObject'' [''NSCoding''] [],
      Class_Decl ''RTCDataChannelConfiguration'' ''NSObject'' [] [],
      Class_Decl ''RTCDataChannel'' ''NSObject'' [] [],
      Protocol_Decl ''RTCDataChannelDelegate'' [''NSObject''] [] [],
      Class_Decl ''RTCDataBuffer'' ''NSObject'' [] [], Class_Decl ''RTCConfiguration'' ''NSObject'' [] [],
      Class_Decl ''RTCCryptoOptions'' ''NSObject'' [] [],
      Class_Decl ''RTCCodecSpecificInfoH264'' ''NSObject'' [''RTCCodecSpecificInfo''] [],
      Protocol_Decl ''RTCCodecSpecificInfo'' [''NSObject''] [] [],
      Class_Decl ''RTCCertificate'' ''NSObject'' [''NSCopying''] [],
      Class_Decl ''RTCVideoCapturer'' ''NSObject'' [] [],
      Protocol_Decl ''RTCVideoCapturerDelegate'' [''NSObject''] [] [],
      Class_Decl ''RTCVideoFrame'' ''NSObject'' [] [], Class_Decl ''RTCCallbackLogger'' ''NSObject'' [] [],
      Class_Decl ''RTCCVPixelBuffer'' ''NSObject'' [''RTCVideoFrameBuffer''] [],
      Protocol_Decl ''RTCVideoFrameBuffer'' [''NSObject''] [] [],
      Class_Decl ''RTCAudioTrack'' ''RTCMediaStreamTrack'' [] [],
      Class_Decl ''RTCMediaStreamTrack'' ''NSObject'' [] [],
      Class_Decl ''RTCAudioSource'' ''RTCMediaSource'' [] [],
      Class_Decl ''RTCMediaSource'' ''NSObject'' [] [],
      Protocol_Decl ''RTCAudioDevice'' [''NSObject''] [] [],
      Protocol_Decl ''RTCAudioDeviceDelegate'' [''NSObject''] [] []]"
  unfolding webrtc_def framework_skeleton headers_def
  by (simp add: header_skeleton_def header_decls_eqs interface_defs other_defs)

lemma wf_webrtc: "wf_hierarchy webrtc"
  by (subst wf_hierarchy_skeleton) (simp add: webrtc_skeleton wf_hierarchy_def starts_with_def)

lemma webrtc_decl_ok: "d \<in> set webrtc \<Longrightarrow> decl_ok d"
  using headers_ok header_decls_tv by (fastforce simp: webrtc_def framework_of_def header_ok_def list_all_iff)

lemma webrtc_mem: "h \<in> set headers \<Longrightarrow> d \<in> set (header_decls True h) \<Longrightarrow> d \<in> set webrtc"
  by (simp add: webrtc_def framework_of_mem)

lemma ancestors_skeleton: "ancestors (concat (map skeleton F)) c = ancestors F c"
  by (induction F c rule: superclass_chain.induct) auto

lemma video_track_subclass: "is_subclass webrtc ''RTCVideoTrack'' ''RTCMediaStreamTrack''"
  by (simp add: is_subclass_def ancestors_skeleton [of webrtc, symmetric] webrtc_skeleton)

lemma ice_state_enum_declared: "RTCIceConnectionState_enum \<in> set webrtc"
  by (rule webrtc_mem [of RTCPeerConnection_h]) (simp_all add: headers_def header_decls_eqs)

section \<open>What the framework promises\<close>

text \<open>Every class, protocol, enumeration and typedef of the framework that a header for tvOS uses is
  visible in that header: it is declared there, declared forward there, or comes from a header it imports.
  So every header can be compiled on its own, and none depends on a declaration hidden on tvOS.\<close>

theorem headers_self_contained: "list_all (resolves True) headers"
  by (rule headers_resolve)

text \<open>The framework is well-formed: classes have different names, each superclass and each adopted protocol
  of the framework is declared before it is used, categories extend declared classes; no interface declares a
  selector twice, every selector has as many colons as parameters, and the constants of an enumeration differ
  in name and, aliases apart, in value.\<close>

theorem webrtc_well_formed: "wf_hierarchy webrtc \<and> list_all decl_ok webrtc"
  by (simp add: wf_webrtc list_all_iff webrtc_decl_ok)

text \<open>Inheritance is a partial order on the classes of the framework, and an instance of a subclass can
  stand for one of any ancestor: it responds to all the ancestor's instances respond to and conforms to all
  the ancestor conforms to.\<close>

theorem subclass_substitutable:
  assumes "is_subclass webrtc c d"
  shows "{k. responds webrtc d k} \<subseteq> {k. responds webrtc c k} \<and> {p. conforms webrtc d p} \<subseteq> {p. conforms webrtc c p} \<and>
    set (ancestors webrtc d) \<subseteq> set (ancestors webrtc c) \<and> is_subclass webrtc d c = (c = d)"
proof (intro conjI subsetI)
  show "is_subclass webrtc d c = (c = d)"
    using assms is_subclass_antisym [OF wf_webrtc] by auto
  show "e \<in> set (ancestors webrtc c)" if "e \<in> set (ancestors webrtc d)" for e
    using is_subclass_trans [OF wf_webrtc assms] that by (simp add: is_subclass_def)
qed (use responds_of_ancestor [OF wf_webrtc assms] conforms_of_ancestor [OF wf_webrtc assms] in auto)

theorem subclass_substitutable_witness:
  "is_subclass webrtc ''RTCVideoTrack'' ''RTCMediaStreamTrack'' \<and>
   {k. responds webrtc ''RTCMediaStreamTrack'' k} \<subseteq> {k. responds webrtc ''RTCVideoTrack'' k}"
  using subclass_substitutable [of "''RTCVideoTrack''" "''RTCMediaStreamTrack''"]
  by (simp add: video_track_subclass)

text \<open>The raw value of an enumeration constant decodes to that constant, for every enumeration of the
  framework and every constant that is not an alias of another one.\<close>

theorem enum_roundtrip:
  assumes "Enum_Decl n u cs \<in> set webrtc" and "c \<notin> set (enum_aliases (Enum_Decl n u cs))"
    and "raw_value (Enum_Decl n u cs) c = Some v"
  shows "of_raw_value (Enum_Decl n u cs) v = Some c"
  using webrtc_decl_ok [OF assms(1)] assms(2,3)
  by (intro raw_value_roundtrip) (simp_all add: decl_ok_def enum_ok_def)

theorem enum_roundtrip_witness:
  "raw_value RTCIceConnectionState_enum ''RTCIceConnectionStateFailed'' = Some 4 \<and>
   of_raw_value RTCIceConnectionState_enum 4 = Some ''RTCIceConnectionStateFailed''"
proof -
  have v: "raw_value RTCIceConnectionState_enum ''RTCIceConnectionStateFailed'' = Some 4" by code_simp
  then show ?thesis
    using ice_state_enum_declared
    by (simp add: RTCIceConnectionState_enum_def enum_roundtrip)
qed

end
