(* ===== verification/Ice_Callbacks.thy ===== *)
theory Ice_Callbacks imports Stream_Manager Webrtc_Framework begin

text \<open>
  The callback \<open>peerConnection(_:didChange:)\<close> as WebRTC calls it, with a raw value of
  \<open>RTCIceConnectionState\<close>: the constants of the header \<open>RTCPeerConnection.h\<close> are tied to the states the
  stream manager switches on.
\<close>

fun ice_of_constant :: "string \<Rightarrow> ice_state option" where
  "ice_of_constant c =
     (if c = ''RTCIceConnectionStateNew'' then Some ICE_new
      else if c = ''RTCIceConnectionStateChecking'' then Some ICE_checking
      else if c = ''RTCIceConnectionStateConnected'' then Some ICE_connected
      else if c = ''RTCIceConnectionStateCompleted'' then Some ICE_completed
      else if c = ''RTCIceConnectionStateFailed'' then Some ICE_failed
      else if c = ''RTCIceConnectionStateDisconnected'' then Some ICE_disconnected
      else if c = ''RTCIceConnectionStateClosed'' then Some ICE_closed
      else None)"

text \<open>\<open>RTCIceConnectionStateCount\<close> and values without a constant take the \<open>default\<close> branch.\<close>

definition didChangeIce_raw :: "int \<Rightarrow> sm_world \<Rightarrow> sm_world" where
  "didChangeIce_raw v w = (case Option.bind (of_raw_value RTCIceConnectionState_enum v) ice_of_constant of
     Some s \<Rightarrow> didChangeIce s w | None \<Rightarrow> w)"

lemma ice_raw_values:
  "of_raw_value RTCIceConnectionState_enum v =
     (if v = 0 then Some ''RTCIceConnectionStateNew'' else if v = 1 then Some ''RTCIceConnectionStateChecking''
      else if v = 2 then Some ''RTCIceConnectionStateConnected'' else if v = 3 then Some ''RTCIceConnectionStateCompleted''
      else if v = 4 then Some ''RTCIceConnectionStateFailed'' else if v = 5 then Some ''RTCIceConnectionStateDisconnected''
      else if v = 6 then Some ''RTCIceConnectionStateClosed'' else if v = 7 then Some ''RTCIceConnectionStateCount'' else None)"
proof -
  have "enum_constants RTCIceConnectionState_enum =
      [(''RTCIceConnectionStateNew'', 0), (''RTCIceConnectionStateChecking'', 1), (''RTCIceConnectionStateConnected'', 2),
       (''RTCIceConnectionStateCompleted'', 3), (''RTCIceConnectionStateFailed'', 4),
       (''RTCIceConnectionStateDisconnected'', 5), (''RTCIceConnectionStateClosed'', 6), (''RTCIceConnectionStateCount'', 7)]"
    "enum_aliases RTCIceConnectionState_enum = []"
    by code_simp+
  then show ?thesis by (simp add: of_raw_value_def)
qed


end
