(* ===== verification/Webrtc_App.thy ===== *)
theory Webrtc_App imports Webrtc_Framework begin

text \<open>
  How the app uses the framework: the calls of \<open>StreamSessionManager\<close>, \<open>WebRTCVideoView\<close>, \<open>RingAppleTVApp\<close> and
  \<open>WebRTCProofOfConcept\<close>, and the three classes of the app that implement protocols of the framework. Swift
  names are written as the selectors they import, Swift types as the types they bridge to (\<open>String\<close> is
  \<open>NSString\<close>, \<open>Bool\<close> is \<open>BOOL\<close>, \<open>Int\<close> is \<open>NSInteger\<close>), a trailing closure as the
  block it becomes.
\<close>

section \<open>Lookups\<close>

lemma chain_external: "wf_hierarchy F \<Longrightarrow> \<not> starts_with ''RTC'' c \<Longrightarrow> superclass_chain F c = []"
  by (auto simp: superclass_chain_Nil_iff wf_hierarchy_def list_all_iff)

fun category_names :: "framework \<Rightarrow> string list" where
  "category_names [] = []"
| "category_names (Category_Decl c _ _ _ # F) = c # category_names F"
| "category_names (_ # F) = category_names F"

lemma category_names_skeleton: "category_names (concat (map skeleton F)) = category_names F"
  by (induction F rule: category_names.induct) auto

lemma category_members_none: "c \<notin> set (category_names F) \<Longrightarrow> category_members F c = []"
  by (induction F rule: category_names.induct) auto

lemma protocol_closure_skeleton: "protocol_closure (concat (map skeleton F)) ps = protocol_closure F ps"
  by (induction F ps rule: protocol_closure.induct) auto

text \<open>Typedefs stand for their types, C functions have one signature.\<close>

fun typedef_of :: "framework \<Rightarrow> string \<Rightarrow> ty option" where
  "typedef_of [] n = None"
| "typedef_of (Typedef_Decl m t # F) n = (if m = n then Some t else typedef_of F n)"
| "typedef_of (_ # F) n = typedef_of F n"

fun expand :: "framework \<Rightarrow> ty \<Rightarrow> ty" where
  "expand F (Named n) = (case typedef_of F n of Some t \<Rightarrow> t | None \<Rightarrow> Named n)"
| "expand F t = t"

fun function_sig :: "framework \<Rightarrow> string \<Rightarrow> (ty list \<times> ty) option" where
  "function_sig [] f = None"
| "function_sig (Function_Decl g ts t _ # F) f = (if g = f then Some (ts, t) else function_sig F f)"
| "function_sig (_ # F) f = function_sig F f"

fun types_functions :: "decl \<Rightarrow> decl list" where
  "types_functions (Typedef_Decl n t) = [Typedef_Decl n t]"
| "types_functions (Function_Decl f ts t ms) = [Function_Decl f ts t ms]"
| "types_functions (Class_Decl _ _ _ _) = []"
| "types_functions (Protocol_Decl _ _ _ _) = []"
| "types_functions (Category_Decl _ _ _ _) = []"
| "types_functions (Enum_Decl _ _ _) = []"
| "types_functions (Constant_Decl _ _) = []"

lemma typedef_of_types: "typedef_of (concat (map types_functions F)) n = typedef_of F n"
  by (induction F n rule: typedef_of.induct) auto

lemma function_sig_types: "function_sig (concat (map types_functions F)) f = function_sig F f"
  by (induction F f rule: function_sig.induct) auto

definition header_types_functions :: "header \<Rightarrow> decl list" where
  "header_types_functions h = concat (map types_functions (rev (header_decls True h)))"

lemma framework_types_functions:
  "concat (map types_functions (framework_of hs)) = concat (map header_types_functions (rev hs))"
  by (induction hs) (simp_all add: framework_of_def header_types_functions_def)

text \<open>The typedefs and the functions of the framework.\<close>

lemma webrtc_types_functions:
  "concat (map types_functions webrtc) =
     [Function_Decl ''RTCShutdownInternalTracer'' [] (Named ''void'') [],
      Function_Decl ''RTCStopInternalCapture'' [] (Named ''void'') [],
      Function_Decl ''RTCStartInternalCapture'' [Object ''NSString'' []] (Named ''BOOL'') [],
      Function_Decl ''RTCSetupInternalTracer'' [] (Named ''void'') [],
      Function_Decl ''RTCCleanupSSL'' [] (Named ''BOOL'') [],
      Function_Decl ''RTCInitializeSSL'' [] (Named ''BOOL'') [],
      Typedef_Decl ''RTCStatisticsCompletionHandler'' (Block [Object ''RTCStatisticsReport'' []] (Named
         ''void'')),
      Typedef_Decl ''RTCSetSessionDescriptionCompletionHandler'' (Block [Nullable (Object ''NSError'' [])]
         (Named ''void'')),
      Typedef_Decl ''RTCCreateSessionDescriptionCompletionHandler'' (Block [Nullable (Object
         ''RTCSessionDescription'' []), Nullable (Object ''NSError'' [])] (Named ''void'')),
      Function_Decl ''RTCGetAndResetMetrics'' [] (Object ''NSArray'' [Object ''RTCMetricsSampleInfo'' []])
         [],
      Function_Decl ''RTCEnableMetrics'' [] (Named ''void'') [],
      Function_Decl ''RTCInitFieldTrialDictionary'' [Object ''NSDictionary'' [Object ''NSString'' [],
         Object ''NSString'' []]] (Named ''void'') [Deprecated],
      Typedef_Decl ''RTCVideoEncoderCallback'' (Block [Object ''RTCEncodedImage'' [], Id
         [''RTCCodecSpecificInfo'']] (Named ''BOOL'')),
      Typedef_Decl ''RTCVideoDecoderCallback'' (Block [Object ''RTCVideoFrame'' []] (Named ''void'')),
      Typedef_Decl ''RTCCallbackLoggerMessageAndSeverityHandler'' (Block [Object ''NSString'' [], Named
         ''RTCLoggingSeverity''] (Named ''void'')),
      Typedef_Decl ''RTCCallbackLoggerMessageHandler'' (Block [Object ''NSString'' []] (Named ''void'')),
      Function_Decl ''RTCFileName'' [Ptr (Named ''char'')] (Object ''NSString'' []) [],
      Function_Decl ''RTCSetMinDebugLogLevel'' [Named ''RTCLoggingSeverity''] (Named ''void'') [],
      Function_Decl ''RTCLogEx'' [Named ''RTCLoggingSeverity'', Object ''NSString'' []] (Named ''void'')
         [],
      Typedef_Decl ''RTCAudioDeviceDeliverRecordedDataBlock'' (Block [Ptr (Named
         ''AudioUnitRenderActionFlags''), Ptr (Named ''AudioTimeStamp''), Named ''NSInteger'', Named
         ''UInt32'', Nullable (Ptr (Named ''AudioBufferList'')), Nullable (Ptr (Named ''void'')), Nullable
         (Named ''RTCAudioDeviceRenderRecordedDataBlock'')] (Named ''OSStatus'')),
      Typedef_Decl ''RTCAudioDeviceRenderRecordedDataBlock'' (Block [Ptr (Named
         ''AudioUnitRenderActionFlags''), Ptr (Named ''AudioTimeStamp''), Named ''NSInteger'', Named
         ''UInt32'', Ptr (Named ''AudioBufferList''), Nullable (Ptr (Named ''void''))] (Named
         ''OSStatus'')),
      Typedef_Decl ''RTCAudioDeviceGetPlayoutDataBlock'' (Block [Ptr (Named
         ''AudioUnitRenderActionFlags''), Ptr (Named ''AudioTimeStamp''), Named ''NSInteger'', Named
         ''UInt32'', Ptr (Named ''AudioBufferList'')] (Named ''OSStatus''))]"
  unfolding webrtc_def framework_types_functions headers_def
  by (simp add: header_types_functions_def header_decls_eqs interface_defs other_defs)

text \<open>The signatures a class declares itself or along its chain.\<close>

definition chain_signatures :: "framework \<Rightarrow> string \<Rightarrow> method_sig list" where
  "chain_signatures F c = concat (map (\<lambda>(n, s, ps, ms). members_signatures (ms @ category_members F n)) (superclass_chain F c))"

section \<open>Uses\<close>

text \<open>
  \<open>Call c k args r\<close> sends \<open>k\<close> to an object (or class) of \<open>c\<close> with arguments of the types \<open>args\<close> and uses
  the result as \<open>r\<close>; \<open>New c\<close> is \<open>[[c alloc] init]\<close>; \<open>Apply\<close> calls a C function; \<open>Constant\<close> names a
  constant of an enumeration; \<open>Downcast\<close> is \<open>as?\<close>; \<open>Pass\<close> gives an object of a class where a type is expected.
\<close>

datatype api_use =
    Call string "level \<times> string" "ty list" ty
  | New string
  | Apply string "ty list" ty
  | Constant string string
  | Downcast string string

definition result_type :: "string \<Rightarrow> ty \<Rightarrow> ty" where
  "result_type c t = (if t = Instancetype then Object c [] else t)"

text \<open>
  A use is well-typed when the framework declares what it names, does not mark it unavailable, takes the
  arguments and gives the result. A class whose own \<open>init\<close> is declared nowhere has that of \<open>NSObject\<close>.
\<close>

fun use_ok :: "framework \<Rightarrow> api_use \<Rightarrow> bool" where
  "use_ok F (Call c k args r) = (case lookup_method F c k of None \<Rightarrow> False
     | Some (l, s, ts, t, ms) \<Rightarrow> Unavailable \<notin> set ms \<and> list_all2 (ty_le F) args (map (expand F) ts) \<and>
         ty_le F (expand F (result_type c t)) r)"
| "use_ok F (New c) = (case List.find (\<lambda>m. key m = (Instance, ''init'')) (chain_signatures F c) of
     None \<Rightarrow> c \<in> set (class_names F)
   | Some (l, s, ts, t, ms) \<Rightarrow> Unavailable \<notin> set ms)"
| "use_ok F (Apply f args r) = (case function_sig F f of None \<Rightarrow> False
     | Some (ts, t) \<Rightarrow> list_all2 (ty_le F) args (map (expand F) ts) \<and> ty_le F t r)"
| "use_ok F (Constant e c) = list_ex (\<lambda>d. case d of Enum_Decl n u cs \<Rightarrow> n = e \<and> c \<in> set (map fst cs) | _ \<Rightarrow> False) F"
| "use_ok F (Downcast d c) = is_subclass F d c"

text \<open>Short names for the types of the app's calls.\<close>

abbreviation string_ty :: ty where "string_ty \<equiv> Object ''NSString'' []"
abbreviation void_ty :: ty where "void_ty \<equiv> Named ''void''"
abbreviation dict_ty :: ty where "dict_ty \<equiv> Object ''NSDictionary'' [string_ty, string_ty]"
abbreviation rtc :: "string \<Rightarrow> ty" where "rtc c \<equiv> Object c []"
abbreviation array_ty :: "ty \<Rightarrow> ty" where "array_ty t \<equiv> Object ''NSArray'' [t]"
abbreviation error_ty :: ty where "error_ty \<equiv> Object ''NSError'' []"

section \<open>The classes of the app\<close>

text \<open>\<open>NoOpAudioDevice\<close>: computed properties and methods of \<open>RTCAudioDevice\<close>.\<close>

definition NoOpAudioDevice_class :: decl where
  "NoOpAudioDevice_class = Class_Decl ''NoOpAudioDevice'' ''NSObject'' [''RTCAudioDevice'']
     [Property ''deviceInputSampleRate'' (Named ''double'') [Readonly] [],
      Property ''inputIOBufferDuration'' (Named ''NSTimeInterval'') [Readonly] [],
      Property ''inputNumberOfChannels'' (Named ''NSInteger'') [Readonly] [],
      Property ''inputLatency'' (Named ''NSTimeInterval'') [Readonly] [],
      Property ''deviceOutputSampleRate'' (Named ''double'') [Readonly] [],
      Property ''outputIOBufferDuration'' (Named ''NSTimeInterval'') [Readonly] [],
      Property ''outputNumberOfChannels'' (Named ''NSInteger'') [Readonly] [],
      Property ''outputLatency'' (Named ''NSTimeInterval'') [Readonly] [],
      Property ''isInitialized'' (Named ''BOOL'') [Readonly] [],
      Property ''isPlayoutInitialized'' (Named ''BOOL'') [Readonly] [],
      Property ''isRecordingInitialized'' (Named ''BOOL'') [Readonly] [],
      Property ''isPlaying'' (Named ''BOOL'') [Readonly] [],
      Property ''isRecording'' (Named ''BOOL'') [Readonly] [],
      Instance_Method ''initializeWithDelegate:'' [Id [''RTCAudioDeviceDelegate'']] (Named ''BOOL'') [],
      Instance_Method ''terminateDevice'' [] (Named ''BOOL'') [],
      Instance_Method ''initializePlayout'' [] (Named ''BOOL'') [],
      Instance_Method ''startPlayout'' [] (Named ''BOOL'') [],
      Instance_Method ''stopPlayout'' [] (Named ''BOOL'') [],
      Instance_Method ''initializeRecording'' [] (Named ''BOOL'') [],
      Instance_Method ''startRecording'' [] (Named ''BOOL'') [],
      Instance_Method ''stopRecording'' [] (Named ''BOOL'') []]"

text \<open>\<open>StreamSessionManager: RTCPeerConnectionDelegate\<close>.\<close>

definition StreamSessionManager_class :: decl where
  "StreamSessionManager_class = Class_Decl ''StreamSessionManager'' ''NSObject'' [''RTCPeerConnectionDelegate'']
     [Instance_Method ''peerConnection:didChangeSignalingState:''
        [rtc ''RTCPeerConnection'', Named ''RTCSignalingState''] void_ty [],
      Instance_Method ''peerConnection:didAddStream:'' [rtc ''RTCPeerConnection'', rtc ''RTCMediaStream''] void_ty [],
      Instance_Method ''peerConnection:didAddReceiver:streams:''
        [rtc ''RTCPeerConnection'', rtc ''RTCRtpReceiver'', array_ty (rtc ''RTCMediaStream'')] void_ty [],
      Instance_Method ''peerConnection:didRemoveStream:'' [rtc ''RTCPeerConnection'', rtc ''RTCMediaStream''] void_ty [],
      Instance_Method ''peerConnectionShouldNegotiate:'' [rtc ''RTCPeerConnection''] void_ty [],
      Instance_Method ''peerConnection:didChangeIceConnectionState:''
        [rtc ''RTCPeerConnection'', Named ''RTCIceConnectionState''] void_ty [],
      Instance_Method ''peerConnection:didChangeIceGatheringState:''
        [rtc ''RTCPeerConnection'', Named ''RTCIceGatheringState''] void_ty [],
      Instance_Method ''peerConnection:didGenerateIceCandidate:''
        [rtc ''RTCPeerConnection'', rtc ''RTCIceCandidate''] void_ty [],
      Instance_Method ''peerConnection:didRemoveIceCandidates:''
        [rtc ''RTCPeerConnection'', array_ty (rtc ''RTCIceCandidate'')] void_ty [],
      Instance_Method ''peerConnection:didOpenDataChannel:'' [rtc ''RTCPeerConnection'', rtc ''RTCDataChannel''] void_ty []]"

text \<open>\<open>WHEPDelegate: RTCPeerConnectionDelegate\<close>, the delegate of the proof of concept.\<close>

definition WHEPDelegate_class :: decl where
  "WHEPDelegate_class = Class_Decl ''WHEPDelegate'' ''NSObject'' [''RTCPeerConnectionDelegate'']
     [Instance_Method ''peerConnection:didChangeSignalingState:''
        [rtc ''RTCPeerConnection'', Named ''RTCSignalingState''] void_ty [],
      Instance_Method ''peerConnection:didAddStream:'' [rtc ''RTCPeerConnection'', rtc ''RTCMediaStream''] void_ty [],
      Instance_Method ''peerConnection:didRemoveStream:'' [rtc ''RTCPeerConnection'', rtc ''RTCMediaStream''] void_ty [],
      Instance_Method ''peerConnectionShouldNegotiate:'' [rtc ''RTCPeerConnection''] void_ty [],
      Instance_Method ''peerConnection:didChangeIceConnectionState:''
        [rtc ''RTCPeerConnection'', Named ''RTCIceConnectionState''] void_ty [],
      Instance_Method ''peerConnection:didChangeIceGatheringState:''
        [rtc ''RTCPeerConnection'', Named ''RTCIceGatheringState''] void_ty [],
      Instance_Method ''peerConnection:didGenerateIceCandidate:''
        [rtc ''RTCPeerConnection'', rtc ''RTCIceCandidate''] void_ty [],
      Instance_Method ''peerConnection:didRemoveIceCandidates:''
        [rtc ''RTCPeerConnection'', array_ty (rtc ''RTCIceCandidate'')] void_ty [],
      Instance_Method ''peerConnection:didOpenDataChannel:'' [rtc ''RTCPeerConnection'', rtc ''RTCDataChannel''] void_ty []]"

definition app_framework :: framework where
  "app_framework = [NoOpAudioDevice_class, StreamSessionManager_class, WHEPDelegate_class] @ webrtc"

section \<open>The calls of the app\<close>

definition makePeerConnection_uses :: "api_use list" where
  "makePeerConnection_uses =
     [New ''RTCDefaultVideoEncoderFactory'',
      New ''RTCDefaultVideoDecoderFactory'',
      Call ''RTCPeerConnectionFactory'' (Instance, ''initWithEncoderFactory:decoderFactory:audioDevice:'')
        [rtc ''RTCDefaultVideoEncoderFactory'', rtc ''RTCDefaultVideoDecoderFactory'', rtc ''NoOpAudioDevice'']
        (rtc ''RTCPeerConnectionFactory''),
      New ''RTCConfiguration'',
      Call ''RTCIceServer'' (Instance, ''initWithURLStrings:'') [array_ty string_ty] (rtc ''RTCIceServer''),
      Call ''RTCConfiguration'' (Instance, ''setIceServers:'') [array_ty (rtc ''RTCIceServer'')] void_ty,
      Constant ''RTCSdpSemantics'' ''RTCSdpSemanticsUnifiedPlan'',
      Call ''RTCConfiguration'' (Instance, ''setSdpSemantics:'') [Named ''RTCSdpSemantics''] void_ty,
      Constant ''RTCContinualGatheringPolicy'' ''RTCContinualGatheringPolicyGatherContinually'',
      Call ''RTCConfiguration'' (Instance, ''setContinualGatheringPolicy:'') [Named ''RTCContinualGatheringPolicy''] void_ty,
      Call ''RTCPeerConnectionFactory'' (Instance, ''peerConnectionWithConfiguration:constraints:delegate:'')
        [rtc ''RTCConfiguration'', rtc ''RTCMediaConstraints'', rtc ''StreamSessionManager'']
        (Nullable (rtc ''RTCPeerConnection''))]"

definition offerConstraints_uses :: "api_use list" where
  "offerConstraints_uses =
     [Call ''RTCMediaConstraints'' (Instance, ''initWithMandatoryConstraints:optionalConstraints:'')
        [dict_ty, Nullable dict_ty] (rtc ''RTCMediaConstraints'')]"

definition createOffer_uses :: "api_use list" where
  "createOffer_uses =
     [Call ''RTCPeerConnection'' (Instance, ''offerForConstraints:completionHandler:'')
        [rtc ''RTCMediaConstraints'', Block [Nullable (rtc ''RTCSessionDescription''), Nullable error_ty] void_ty] void_ty,
      Call ''RTCPeerConnection'' (Instance, ''setLocalDescription:completionHandler:'')
        [rtc ''RTCSessionDescription'', Block [Nullable error_ty] void_ty] void_ty,
      Call ''RTCSessionDescription'' (Instance, ''sdp'') [] string_ty]"

definition setRemoteDescription_uses :: "api_use list" where
  "setRemoteDescription_uses =
     [Constant ''RTCSdpType'' ''RTCSdpTypeAnswer'',
      Call ''RTCSessionDescription'' (Instance, ''initWithType:sdp:'') [Named ''RTCSdpType'', string_ty]
        (rtc ''RTCSessionDescription''),
      Call ''RTCPeerConnection'' (Instance, ''setRemoteDescription:completionHandler:'')
        [rtc ''RTCSessionDescription'', Block [Nullable error_ty] void_ty] void_ty]"

definition releaseResources_uses :: "api_use list" where
  "releaseResources_uses = [Call ''RTCPeerConnection'' (Instance, ''close'') [] void_ty]"

definition delegate_uses :: "api_use list" where
  "delegate_uses =
     [Call ''RTCMediaStream'' (Instance, ''videoTracks'') [] (array_ty (rtc ''RTCVideoTrack'')),
      Call ''RTCMediaStream'' (Instance, ''audioTracks'') [] (array_ty (rtc ''RTCAudioTrack'')),
      Call ''RTCRtpReceiver'' (Instance, ''track'') [] (Nullable (rtc ''RTCMediaStreamTrack'')),
      Call ''RTCMediaStreamTrack'' (Instance, ''kind'') [] string_ty,
      Downcast ''RTCVideoTrack'' ''RTCMediaStreamTrack'',
      Downcast ''RTCAudioTrack'' ''RTCMediaStreamTrack'',
      Constant ''RTCIceConnectionState'' ''RTCIceConnectionStateConnected'',
      Constant ''RTCIceConnectionState'' ''RTCIceConnectionStateCompleted'',
      Constant ''RTCIceConnectionState'' ''RTCIceConnectionStateFailed'',
      Constant ''RTCIceConnectionState'' ''RTCIceConnectionStateDisconnected'',
      Constant ''RTCIceConnectionState'' ''RTCIceConnectionStateClosed'']"

definition video_view_uses :: "api_use list" where
  "video_view_uses =
     [Call ''RTCVideoTrack'' (Instance, ''removeRenderer:'') [rtc ''RTCMTLVideoView''] void_ty,
      Call ''RTCVideoTrack'' (Instance, ''addRenderer:'') [rtc ''RTCMTLVideoView''] void_ty]"

definition app_start_uses :: "api_use list" where
  "app_start_uses =
     [Apply ''RTCInitializeSSL'' [] (Named ''BOOL''),
      Constant ''RTCLoggingSeverity'' ''RTCLoggingSeverityVerbose'',
      Apply ''RTCSetMinDebugLogLevel'' [Named ''RTCLoggingSeverity''] void_ty]"

text \<open>The proof of concept. \<open>nil\<close> for the delegate is a nullable one; an \<open>NSError **\<close> takes \<open>nil\<close> as it is.\<close>

definition canCreatePeerConnection_uses :: "api_use list" where
  "canCreatePeerConnection_uses =
     [New ''RTCConfiguration'',
      Call ''RTCIceServer'' (Instance, ''initWithURLStrings:'') [array_ty string_ty] (rtc ''RTCIceServer''),
      Call ''RTCConfiguration'' (Instance, ''setIceServers:'') [array_ty (rtc ''RTCIceServer'')] void_ty,
      Constant ''RTCSdpSemantics'' ''RTCSdpSemanticsUnifiedPlan'',
      Call ''RTCConfiguration'' (Instance, ''setSdpSemantics:'') [Named ''RTCSdpSemantics''] void_ty,
      Call ''RTCMediaConstraints'' (Instance, ''initWithMandatoryConstraints:optionalConstraints:'')
        [Nullable dict_ty, Nullable dict_ty] (rtc ''RTCMediaConstraints''),
      New ''RTCPeerConnectionFactory'',
      Call ''RTCPeerConnectionFactory'' (Instance, ''peerConnectionWithConfiguration:constraints:delegate:'')
        [rtc ''RTCConfiguration'', rtc ''RTCMediaConstraints'', Nullable (Id [''RTCPeerConnectionDelegate''])]
        (Nullable (rtc ''RTCPeerConnection'')),
      Call ''RTCPeerConnection'' (Instance, ''close'') [] void_ty]"

definition connectToWHEP_uses :: "api_use list" where
  "connectToWHEP_uses =
     [New ''RTCPeerConnectionFactory'',
      Call ''RTCMediaConstraints'' (Instance, ''initWithMandatoryConstraints:optionalConstraints:'')
        [dict_ty, Nullable dict_ty] (rtc ''RTCMediaConstraints''),
      Call ''RTCPeerConnectionFactory'' (Instance, ''peerConnectionWithConfiguration:constraints:delegate:'')
        [rtc ''RTCConfiguration'', rtc ''RTCMediaConstraints'', rtc ''WHEPDelegate''] (Nullable (rtc ''RTCPeerConnection'')),
      Constant ''RTCRtpMediaType'' ''RTCRtpMediaTypeVideo'',
      Constant ''RTCRtpMediaType'' ''RTCRtpMediaTypeAudio'',
      Call ''RTCPeerConnection'' (Instance, ''addTransceiverOfType:'') [Named ''RTCRtpMediaType'']
        (Nullable (rtc ''RTCRtpTransceiver'')),
      Constant ''RTCRtpTransceiverDirection'' ''RTCRtpTransceiverDirectionRecvOnly'',
      Call ''RTCRtpTransceiver'' (Instance, ''setDirection:error:'') [Named ''RTCRtpTransceiverDirection'', Ptr error_ty] void_ty]"

definition app_uses :: "api_use list" where
  "app_uses = makePeerConnection_uses @ offerConstraints_uses @ createOffer_uses @ setRemoteDescription_uses @
     releaseResources_uses @ delegate_uses @ video_view_uses @ app_start_uses @ canCreatePeerConnection_uses @
     connectToWHEP_uses"

section \<open>The classes the app uses\<close>

lemmas app_class_defs = NoOpAudioDevice_class_def StreamSessionManager_class_def WHEPDelegate_class_def

lemma app_chain:
  "starts_with ''RTC'' c \<Longrightarrow> superclass_chain app_framework c = superclass_chain webrtc c"
proof -
  assume "starts_with ''RTC'' c"
  then have "c \<noteq> ''NoOpAudioDevice''" "c \<noteq> ''StreamSessionManager''" "c \<noteq> ''WHEPDelegate''"
    by (auto simp: starts_with_def)
  then show ?thesis by (simp add: app_framework_def app_class_defs)
qed

lemma app_chain_external [simp]:
  "superclass_chain app_framework ''NSObject'' = []"
  "superclass_chain app_framework ''UIView'' = []"
  by (simp_all add: app_framework_def app_class_defs
      chain_external [OF wf_webrtc] starts_with_def)

lemma app_chain_of:
  assumes "h \<in> set headers" and "C \<in> set (header_decls True h)" and "C = Class_Decl c s ps ms"
    and "starts_with ''RTC'' c" and "s \<noteq> ''NoOpAudioDevice''" and "s \<noteq> ''StreamSessionManager''" and "s \<noteq> ''WHEPDelegate''"
    and "superclass_chain app_framework s = rest"
  shows "superclass_chain app_framework c = (c, s, ps, ms) # rest"
proof -
  have "superclass_chain webrtc c = (c, s, ps, ms) # superclass_chain webrtc s"
    using superclass_chain_declared [OF wf_webrtc] webrtc_mem [OF assms(1,2)] assms(3) by simp
  moreover have "superclass_chain app_framework s = superclass_chain webrtc s"
    using assms(5,6,7) by (simp add: app_framework_def app_class_defs)
  ultimately show ?thesis using app_chain [OF assms(4)] assms(8) by simp
qed

named_theorems app_chains \<open>the superclass chains of the classes the app uses\<close>

lemma chain_RTCDefaultVideoEncoderFactory [app_chains]:
  "superclass_chain app_framework ''RTCDefaultVideoEncoderFactory'' =
     [(''RTCDefaultVideoEncoderFactory'', ''NSObject'', [''RTCVideoEncoderFactory''], RTCDefaultVideoEncoderFactory_members)]"
  by (rule app_chain_of [of RTCDefaultVideoEncoderFactory_h RTCDefaultVideoEncoderFactory_class]) (simp_all add: starts_with_def headers_def header_decls_eqs RTCDefaultVideoEncoderFactory_class_def)

lemma chain_RTCDefaultVideoDecoderFactory [app_chains]:
  "superclass_chain app_framework ''RTCDefaultVideoDecoderFactory'' =
     [(''RTCDefaultVideoDecoderFactory'', ''NSObject'', [''RTCVideoDecoderFactory''], [])]"
  by (rule app_chain_of [of RTCDefaultVideoDecoderFactory_h RTCDefaultVideoDecoderFactory_class]) (simp_all add: starts_with_def headers_def header_decls_eqs RTCDefaultVideoDecoderFactory_class_def)

lemma chain_RTCPeerConnectionFactory [app_chains]:
  "superclass_chain app_framework ''RTCPeerConnectionFactory'' =
     [(''RTCPeerConnectionFactory'', ''NSObject'', [], RTCPeerConnectionFactory_members)]"
  by (rule app_chain_of [of RTCPeerConnectionFactory_h RTCPeerConnectionFactory_class]) (simp_all add: starts_with_def headers_def header_decls_eqs RTCPeerConnectionFactory_class_def)

lemma chain_RTCConfiguration [app_chains]:
  "superclass_chain app_framework ''RTCConfiguration'' =
     [(''RTCConfiguration'', ''NSObject'', [], RTCConfiguration_class_members_1 @ RTCConfiguration_class_members_2)]"
  by (rule app_chain_of [of RTCConfiguration_h RTCConfiguration_class]) (simp_all add: starts_with_def headers_def header_decls_eqs RTCConfiguration_class_def)

lemma chain_RTCIceServer [app_chains]:
  "superclass_chain app_framework ''RTCIceServer'' =
     [(''RTCIceServer'', ''NSObject'', [], RTCIceServer_members)]"
  by (rule app_chain_of [of RTCIceServer_h RTCIceServer_class]) (simp_all add: starts_with_def headers_def header_decls_eqs RTCIceServer_class_def)

lemma chain_RTCMediaConstraints [app_chains]:
  "superclass_chain app_framework ''RTCMediaConstraints'' =
     [(''RTCMediaConstraints'', ''NSObject'', [], RTCMediaConstraints_members)]"
  by (rule app_chain_of [of RTCMediaConstraints_h RTCMediaConstraints_class]) (simp_all add: starts_with_def headers_def header_decls_eqs RTCMediaConstraints_class_def)

lemma chain_RTCPeerConnection [app_chains]:
  "superclass_chain app_framework ''RTCPeerConnection'' =
     [(''RTCPeerConnection'', ''NSObject'', [], RTCPeerConnection_class_members_1 @ RTCPeerConnection_class_members_2)]"
  by (rule app_chain_of [of RTCPeerConnection_h RTCPeerConnection_class]) (simp_all add: starts_with_def headers_def header_decls_eqs RTCPeerConnection_class_def)

lemma chain_RTCSessionDescription [app_chains]:
  "superclass_chain app_framework ''RTCSessionDescription'' =
     [(''RTCSessionDescription'', ''NSObject'', [], RTCSessionDescription_members)]"
  by (rule app_chain_of [of RTCSessionDescription_h RTCSessionDescription_class]) (simp_all add: starts_with_def headers_def header_decls_eqs RTCSessionDescription_class_def)

lemma chain_RTCMediaStream [app_chains]:
  "superclass_chain app_framework ''RTCMediaStream'' =
     [(''RTCMediaStream'', ''NSObject'', [], RTCMediaStream_members)]"
  by (rule app_chain_of [of RTCMediaStream_h RTCMediaStream_class]) (simp_all add: starts_with_def headers_def header_decls_eqs RTCMediaStream_class_def)

lemma chain_RTCRtpReceiver [app_chains]:
  "superclass_chain app_framework ''RTCRtpReceiver'' =
     [(''RTCRtpReceiver'', ''NSObject'', [''RTCRtpReceiver''], RTCRtpReceiver_members)]"
  by (rule app_chain_of [of RTCRtpReceiver_h RTCRtpReceiver_class]) (simp_all add: starts_with_def headers_def header_decls_eqs RTCRtpReceiver_class_def)

lemma chain_RTCMediaStreamTrack [app_chains]:
  "superclass_chain app_framework ''RTCMediaStreamTrack'' =
     [(''RTCMediaStreamTrack'', ''NSObject'', [], RTCMediaStreamTrack_members)]"
  by (rule app_chain_of [of RTCMediaStreamTrack_h RTCMediaStreamTrack_class]) (simp_all add: starts_with_def headers_def header_decls_eqs RTCMediaStreamTrack_class_def)

lemma chain_RTCVideoTrack [app_chains]:
  "superclass_chain app_framework ''RTCVideoTrack'' =
     [(''RTCVideoTrack'', ''RTCMediaStreamTrack'', [], RTCVideoTrack_members),
      (''RTCMediaStreamTrack'', ''NSObject'', [], RTCMediaStreamTrack_members)]"
  by (rule app_chain_of [of RTCVideoTrack_h RTCVideoTrack_class]) (simp_all add: starts_with_def headers_def header_decls_eqs RTCVideoTrack_class_def app_chains)

lemma chain_RTCAudioTrack [app_chains]:
  "superclass_chain app_framework ''RTCAudioTrack'' =
     [(''RTCAudioTrack'', ''RTCMediaStreamTrack'', [], RTCAudioTrack_members),
      (''RTCMediaStreamTrack'', ''NSObject'', [], RTCMediaStreamTrack_members)]"
  by (rule app_chain_of [of RTCAudioTrack_h RTCAudioTrack_class]) (simp_all add: starts_with_def headers_def header_decls_eqs RTCAudioTrack_class_def app_chains)

lemma chain_RTCRtpTransceiver [app_chains]:
  "superclass_chain app_framework ''RTCRtpTransceiver'' =
     [(''RTCRtpTransceiver'', ''NSObject'', [''RTCRtpTransceiver''], RTCRtpTransceiver_members)]"
  by (rule app_chain_of [of RTCRtpTransceiver_h RTCRtpTransceiver_class]) (simp_all add: starts_with_def headers_def header_decls_eqs RTCRtpTransceiver_class_def)

lemma chain_RTCMTLVideoView [app_chains]:
  "superclass_chain app_framework ''RTCMTLVideoView'' =
     [(''RTCMTLVideoView'', ''UIView'', [''RTCVideoRenderer''], RTCMTLVideoView_members)]"
  by (rule app_chain_of [of RTCMTLVideoView_h RTCMTLVideoView_class]) (simp_all add: starts_with_def headers_def header_decls_eqs RTCMTLVideoView_class_def)


section \<open>Every use is well-typed\<close>

lemma app_skeleton: "protocol_names app_framework = protocol_names webrtc" "category_names app_framework = category_names webrtc"
    "protocol_closure app_framework ps = protocol_closure webrtc ps" "typedef_of app_framework n = typedef_of webrtc n"
    "function_sig app_framework n = function_sig webrtc n" "protocol_required app_framework p = protocol_required webrtc p"
  by (simp_all add: app_framework_def app_class_defs)

lemma app_category_names: "category_names app_framework = replicate 3 ''RTCPeerConnection''"
  unfolding app_skeleton by (subst category_names_skeleton [symmetric]) (simp add: webrtc_skeleton eval_nat_numeral)

lemma app_category_members [simp]: "c \<noteq> ''RTCPeerConnection'' \<Longrightarrow> category_members app_framework c = []"
  by (rule category_members_none) (simp add: app_category_names)

lemma webrtc_protocol_names [simp]:
  "''RTCAudioDevice'' \<in> set (protocol_names webrtc)" "''RTCPeerConnectionDelegate'' \<in> set (protocol_names webrtc)"
  "''RTCVideoEncoderFactory'' \<in> set (protocol_names webrtc)" "''RTCVideoDecoderFactory'' \<in> set (protocol_names webrtc)"
  "''RTCVideoRenderer'' \<in> set (protocol_names webrtc)"
  by (simp_all add: protocol_names_skeleton [of webrtc, symmetric] webrtc_skeleton)

lemma webrtc_protocols_distinct: "distinct (protocol_names webrtc)"
  by (simp add: protocol_names_skeleton [of webrtc, symmetric] webrtc_skeleton)

lemma app_conforms [simp]:
  "conforms app_framework ''NoOpAudioDevice'' ''RTCAudioDevice''"
  "conforms app_framework ''StreamSessionManager'' ''RTCPeerConnectionDelegate''"
  "conforms app_framework ''WHEPDelegate'' ''RTCPeerConnectionDelegate''"
  unfolding conforms_def class_protocols_def app_skeleton
  by (simp_all add: app_framework_def app_class_defs protocol_closure_mem)

lemma framework_conforms [simp]:
  "conforms app_framework ''RTCDefaultVideoEncoderFactory'' ''RTCVideoEncoderFactory''"
  "conforms app_framework ''RTCDefaultVideoDecoderFactory'' ''RTCVideoDecoderFactory''"
  "conforms app_framework ''RTCMTLVideoView'' ''RTCVideoRenderer''"
  unfolding conforms_def class_protocols_def app_skeleton(3)
  by (simp_all add: app_chains protocol_closure_mem)

lemma delegate_closure [simp]:
  "''RTCPeerConnectionDelegate'' \<in> set (protocol_closure app_framework [''RTCPeerConnectionDelegate''])"
  unfolding app_skeleton by (rule protocol_closure_mem) simp_all

lemma receiver_protocols: "protocol_closure webrtc [''RTCRtpReceiver''] = [''RTCRtpReceiver'']"
  by (simp add: protocol_closure_skeleton [of webrtc, symmetric] webrtc_skeleton)

lemma receiver_required: "protocol_required webrtc ''RTCRtpReceiver'' = RTCRtpReceiver_required"
  by (rule protocol_required_declared [OF webrtc_protocols_distinct webrtc_mem [of RTCRtpReceiver_h],
        where ps = "[''NSObject'']" and os = "[]"])
    (simp_all add: headers_def header_decls_eqs RTCRtpReceiver_protocol_def)

lemma receiver_signatures:
  "class_signatures app_framework ''RTCRtpReceiver'' =
     members_signatures RTCRtpReceiver_members @ members_signatures RTCRtpReceiver_required"
  by (simp add: class_signatures_def class_protocols_def app_chains app_skeleton receiver_protocols receiver_required)

lemma transceiver_signatures:
  "class_signatures app_framework ''RTCRtpTransceiver'' =
     members_signatures RTCRtpTransceiver_members @ members_signatures RTCRtpTransceiver_required"
proof -
  have "protocol_closure webrtc [''RTCRtpTransceiver''] = [''RTCRtpTransceiver'']"
    by (simp add: protocol_closure_skeleton [of webrtc, symmetric] webrtc_skeleton)
  moreover have "protocol_required webrtc ''RTCRtpTransceiver'' = RTCRtpTransceiver_required"
    by (rule protocol_required_declared [OF webrtc_protocols_distinct webrtc_mem [of RTCRtpTransceiver_h],
          where ps = "[''NSObject'']" and os = "[]"])
      (simp_all add: headers_def header_decls_eqs RTCRtpTransceiver_protocol_def)
  ultimately show ?thesis by (simp add: class_signatures_def class_protocols_def app_chains app_skeleton)
qed

lemma app_typedefs [simp]:
  "typedef_of app_framework ''RTCCreateSessionDescriptionCompletionHandler'' =
     Some (Block [Nullable (rtc ''RTCSessionDescription''), Nullable error_ty] void_ty)"
  "typedef_of app_framework ''RTCSetSessionDescriptionCompletionHandler'' = Some (Block [Nullable error_ty] void_ty)"
  "typedef_of app_framework ''RTCSdpSemantics'' = None"
  "typedef_of app_framework ''RTCContinualGatheringPolicy'' = None"
  "typedef_of app_framework ''RTCSdpType'' = None"
  "typedef_of app_framework ''RTCLoggingSeverity'' = None"
  "typedef_of app_framework ''RTCRtpMediaType'' = None"
  "typedef_of app_framework ''RTCRtpTransceiverDirection'' = None"
  "typedef_of app_framework ''void'' = None"
  "typedef_of app_framework ''BOOL'' = None"
  by (simp_all add: app_skeleton typedef_of_types [of webrtc, symmetric] webrtc_types_functions)

lemma app_functions:
  "function_sig app_framework ''RTCInitializeSSL'' = Some ([], Named ''BOOL'')"
  "function_sig app_framework ''RTCSetMinDebugLogLevel'' = Some ([Named ''RTCLoggingSeverity''], void_ty)"
  by (simp_all add: app_skeleton function_sig_types [of webrtc, symmetric] webrtc_types_functions)

lemma app_lookups:
  "lookup_method app_framework ''RTCPeerConnectionFactory'' (Instance,
     ''initWithEncoderFactory:decoderFactory:audioDevice:'') = Some (Instance,
     ''initWithEncoderFactory:decoderFactory:audioDevice:'', [Nullable (ty.Id [''RTCVideoEncoderFactory'']),
     Nullable (ty.Id [''RTCVideoDecoderFactory'']), Nullable (ty.Id [''RTCAudioDevice''])], Instancetype,
     [])"
  "lookup_method app_framework ''RTCIceServer'' (Instance, ''initWithURLStrings:'') = Some (Instance,
     ''initWithURLStrings:'', [array_ty (rtc ''NSString'')], Instancetype, [])"
  "lookup_method app_framework ''RTCConfiguration'' (Instance, ''setIceServers:'') = Some (Instance,
     ''setIceServers:'', [array_ty (rtc ''RTCIceServer'')], void_ty, [])"
  "lookup_method app_framework ''RTCConfiguration'' (Instance, ''setSdpSemantics:'') = Some (Instance,
     ''setSdpSemantics:'', [Named ''RTCSdpSemantics''], void_ty, [])"
  "lookup_method app_framework ''RTCConfiguration'' (Instance, ''setContinualGatheringPolicy:'') = Some
     (Instance, ''setContinualGatheringPolicy:'', [Named ''RTCContinualGatheringPolicy''], void_ty, [])"
  "lookup_method app_framework ''RTCPeerConnectionFactory'' (Instance,
     ''peerConnectionWithConfiguration:constraints:delegate:'') = Some (Instance,
     ''peerConnectionWithConfiguration:constraints:delegate:'', [rtc ''RTCConfiguration'', rtc
     ''RTCMediaConstraints'', Nullable (ty.Id [''RTCPeerConnectionDelegate''])], Nullable (rtc
     ''RTCPeerConnection''), [])"
  "lookup_method app_framework ''RTCMediaConstraints'' (Instance,
     ''initWithMandatoryConstraints:optionalConstraints:'') = Some (Instance,
     ''initWithMandatoryConstraints:optionalConstraints:'', [Nullable (Object ''NSDictionary'' [rtc
     ''NSString'', rtc ''NSString'']), Nullable (Object ''NSDictionary'' [rtc ''NSString'', rtc
     ''NSString''])], Instancetype, [Designated])"
  "lookup_method app_framework ''RTCPeerConnection'' (Instance, ''offerForConstraints:completionHandler:'')
     = Some (Instance, ''offerForConstraints:completionHandler:'', [rtc ''RTCMediaConstraints'', Named
     ''RTCCreateSessionDescriptionCompletionHandler''], void_ty, [])"
  "lookup_method app_framework ''RTCPeerConnection'' (Instance, ''setLocalDescription:completionHandler:'')
     = Some (Instance, ''setLocalDescription:completionHandler:'', [rtc ''RTCSessionDescription'', Named
     ''RTCSetSessionDescriptionCompletionHandler''], void_ty, [])"
  "lookup_method app_framework ''RTCSessionDescription'' (Instance, ''sdp'') = Some (Instance, ''sdp'', [],
     rtc ''NSString'', [])"
  "lookup_method app_framework ''RTCSessionDescription'' (Instance, ''initWithType:sdp:'') = Some (Instance,
     ''initWithType:sdp:'', [Named ''RTCSdpType'', rtc ''NSString''], Instancetype, [Designated])"
  "lookup_method app_framework ''RTCPeerConnection'' (Instance, ''setRemoteDescription:completionHandler:'')
     = Some (Instance, ''setRemoteDescription:completionHandler:'', [rtc ''RTCSessionDescription'', Named
     ''RTCSetSessionDescriptionCompletionHandler''], void_ty, [])"
  "lookup_method app_framework ''RTCPeerConnection'' (Instance, ''close'') = Some (Instance, ''close'', [],
     void_ty, [])"
  "lookup_method app_framework ''RTCPeerConnection'' (Instance, ''addTransceiverOfType:'') = Some (Instance,
     ''addTransceiverOfType:'', [Named ''RTCRtpMediaType''], Nullable (rtc ''RTCRtpTransceiver''), [])"
  "lookup_method app_framework ''RTCMediaStream'' (Instance, ''videoTracks'') = Some (Instance,
     ''videoTracks'', [], array_ty (rtc ''RTCVideoTrack''), [])"
  "lookup_method app_framework ''RTCMediaStream'' (Instance, ''audioTracks'') = Some (Instance,
     ''audioTracks'', [], array_ty (rtc ''RTCAudioTrack''), [])"
  "lookup_method app_framework ''RTCMediaStreamTrack'' (Instance, ''kind'') = Some (Instance, ''kind'', [],
     rtc ''NSString'', [])"
  "lookup_method app_framework ''RTCVideoTrack'' (Instance, ''removeRenderer:'') = Some (Instance,
     ''removeRenderer:'', [ty.Id [''RTCVideoRenderer'']], void_ty, [])"
  "lookup_method app_framework ''RTCVideoTrack'' (Instance, ''addRenderer:'') = Some (Instance,
     ''addRenderer:'', [ty.Id [''RTCVideoRenderer'']], void_ty, [])"
  by (rule lookup_own, rule app_chains, code_simp)+

lemma receiver_lookup:
  "lookup_method app_framework ''RTCRtpReceiver'' (Instance, ''track'') = Some (Instance, ''track'', [],
     Nullable (rtc ''RTCMediaStreamTrack''), [])"
  unfolding lookup_method_def receiver_signatures by code_simp

lemma transceiver_lookup:
  "lookup_method app_framework ''RTCRtpTransceiver'' (Instance, ''setDirection:error:'') = Some (Instance, ''setDirection:error:'',
     [Named ''RTCRtpTransceiverDirection'', Ptr error_ty], void_ty, [])"
  unfolding lookup_method_def transceiver_signatures by code_simp

lemma constant_ok:
  assumes "h \<in> set headers" and "d \<in> set (header_decls True h)" and "d = Enum_Decl e u cs" and "c \<in> set (map fst cs)"
  shows "use_ok app_framework (Constant e c)"
proof -
  have "Enum_Decl e u cs \<in> set app_framework"
    using webrtc_mem [OF assms(1,2)] assms(3) by (simp add: app_framework_def)
  then show ?thesis using assms(4) by (auto simp: list_ex_iff split: decl.splits)
qed

lemma ice_constants:
  "use_ok app_framework (Constant ''RTCIceConnectionState'' ''RTCIceConnectionStateConnected'')"
  "use_ok app_framework (Constant ''RTCIceConnectionState'' ''RTCIceConnectionStateCompleted'')"
  "use_ok app_framework (Constant ''RTCIceConnectionState'' ''RTCIceConnectionStateFailed'')"
  "use_ok app_framework (Constant ''RTCIceConnectionState'' ''RTCIceConnectionStateDisconnected'')"
  "use_ok app_framework (Constant ''RTCIceConnectionState'' ''RTCIceConnectionStateClosed'')"
  by (rule constant_ok [OF _ _ RTCIceConnectionState_enum_def, of RTCPeerConnection_h];
    simp add: headers_def header_decls_eqs)+

lemma other_constants:
  "use_ok app_framework (Constant ''RTCSdpSemantics'' ''RTCSdpSemanticsUnifiedPlan'')"
  "use_ok app_framework (Constant ''RTCContinualGatheringPolicy'' ''RTCContinualGatheringPolicyGatherContinually'')"
  "use_ok app_framework (Constant ''RTCSdpType'' ''RTCSdpTypeAnswer'')"
  "use_ok app_framework (Constant ''RTCLoggingSeverity'' ''RTCLoggingSeverityVerbose'')"
  "use_ok app_framework (Constant ''RTCRtpMediaType'' ''RTCRtpMediaTypeVideo'')"
  "use_ok app_framework (Constant ''RTCRtpMediaType'' ''RTCRtpMediaTypeAudio'')"
  "use_ok app_framework (Constant ''RTCRtpTransceiverDirection'' ''RTCRtpTransceiverDirectionRecvOnly'')"
  by (rule constant_ok [OF _ _ RTCSdpSemantics_enum_def, of RTCConfiguration_h]
      constant_ok [OF _ _ RTCContinualGatheringPolicy_enum_def, of RTCConfiguration_h]
      constant_ok [OF _ _ RTCSdpType_enum_def, of RTCSessionDescription_h]
      constant_ok [OF _ _ RTCLoggingSeverity_enum_def, of RTCLogging_h]
      constant_ok [OF _ _ RTCRtpMediaType_enum_def, of RTCRtpReceiver_h]
      constant_ok [OF _ _ RTCRtpTransceiverDirection_enum_def, of RTCRtpTransceiver_h];
    simp add: headers_def header_decls_eqs)+

lemma app_new:
  "use_ok app_framework (New ''RTCDefaultVideoEncoderFactory'')"
  "use_ok app_framework (New ''RTCDefaultVideoDecoderFactory'')"
  "use_ok app_framework (New ''RTCConfiguration'')"
  "use_ok app_framework (New ''RTCPeerConnectionFactory'')"
proof -
  have classes: "''RTCDefaultVideoEncoderFactory'' \<in> set (class_names app_framework)"
      "''RTCDefaultVideoDecoderFactory'' \<in> set (class_names app_framework)"
    by (rule ccontr, drule superclass_chain_not_declared, simp add: app_chains)+
  have init: "List.find (\<lambda>m. key m = (Instance, ''init'')) (members_signatures RTCDefaultVideoEncoderFactory_members) = None"
      "List.find (\<lambda>m. key m = (Instance, ''init''))
         (members_signatures (RTCConfiguration_class_members_1 @ RTCConfiguration_class_members_2)) =
       Some (Instance, ''init'', [], Instancetype, [])"
      "List.find (\<lambda>m. key m = (Instance, ''init'')) (members_signatures RTCPeerConnectionFactory_members) =
       Some (Instance, ''init'', [], Instancetype, [])"
      "members_signatures [] = []"
    by code_simp+
  show "use_ok app_framework (New ''RTCDefaultVideoEncoderFactory'')"
      "use_ok app_framework (New ''RTCDefaultVideoDecoderFactory'')" "use_ok app_framework (New ''RTCConfiguration'')"
      "use_ok app_framework (New ''RTCPeerConnectionFactory'')"
    using classes init by (simp_all add: chain_signatures_def app_chains)
qed

lemma app_downcasts:
  "use_ok app_framework (Downcast ''RTCVideoTrack'' ''RTCMediaStreamTrack'')"
  "use_ok app_framework (Downcast ''RTCAudioTrack'' ''RTCMediaStreamTrack'')"
  by (simp_all add: is_subclass_def ancestors_def app_chains)

lemmas app_uses_defs = app_uses_def makePeerConnection_uses_def offerConstraints_uses_def createOffer_uses_def
  setRemoteDescription_uses_def releaseResources_uses_def delegate_uses_def video_view_uses_def app_start_uses_def
  canCreatePeerConnection_uses_def connectToWHEP_uses_def

text \<open>Every call the app makes into WebRTC is well-typed against the headers: the method, function or constant
  exists on tvOS, is not marked unavailable, takes the arguments the app passes (the audio device and the
  stream manager for the protocols they implement, closures for the completion blocks, the Metal view as a
  renderer) and gives what the app goes on with, nullable results only where the app unwraps them.\<close>

theorem app_uses_well_typed: "list_all (use_ok app_framework) app_uses"
  unfolding app_uses_defs append.simps list.pred_inject
  by (intro conjI TrueI app_new app_downcasts ice_constants other_constants;
    simp add: app_lookups receiver_lookup transceiver_lookup app_functions result_type_def)

section \<open>The protocols the app implements\<close>

text \<open>
  A class implements a protocol when it has, for each required member, a method of the same selector with the
  same types. \<open>answered\<close> are the optional members it has.
\<close>

definition has_member :: "method_sig list \<Rightarrow> method_sig \<Rightarrow> bool" where
  "has_member own m = (case List.find (\<lambda>m'. key m' = key m) own of None \<Rightarrow> False
     | Some m' \<Rightarrow> fst (snd (snd m')) = fst (snd (snd m)) \<and> fst (snd (snd (snd m'))) = fst (snd (snd (snd m))))"

definition implements :: "framework \<Rightarrow> string \<Rightarrow> string \<Rightarrow> bool" where
  "implements F c p = list_all (has_member (chain_signatures F c)) (members_signatures (protocol_required F p))"

definition answered :: "framework \<Rightarrow> string \<Rightarrow> string \<Rightarrow> string list" where
  "answered F c p = map (\<lambda>m. fst (snd m)) (filter (has_member (chain_signatures F c)) (members_signatures (protocol_optional F p)))"

lemma protocol_optional_declared:
  "distinct (protocol_names F) \<Longrightarrow> Protocol_Decl p ps ms os \<in> set F \<Longrightarrow> protocol_optional F p = os"
proof (induction F rule: protocol_names.induct)
  case (2 n qs ns ns' F)
  have mem: "Protocol_Decl p ps ms os \<in> set F \<Longrightarrow> p \<in> set (protocol_names F)"
    by (induction F rule: protocol_names.induct) auto
  show ?case using 2 mem by auto
qed auto

lemma delegate_members:
  "protocol_required app_framework ''RTCPeerConnectionDelegate'' = RTCPeerConnectionDelegate_required"
  "protocol_optional app_framework ''RTCPeerConnectionDelegate'' = RTCPeerConnectionDelegate_optional"
proof -
  have d: "Protocol_Decl ''RTCPeerConnectionDelegate'' [''NSObject''] RTCPeerConnectionDelegate_required
      RTCPeerConnectionDelegate_optional \<in> set app_framework"
    using webrtc_mem [of RTCPeerConnection_h RTCPeerConnectionDelegate_protocol]
    by (simp add: app_framework_def headers_def header_decls_eqs RTCPeerConnectionDelegate_protocol_def)
  have ds: "distinct (protocol_names app_framework)"
    by (simp add: app_skeleton webrtc_protocols_distinct)
  show "protocol_required app_framework ''RTCPeerConnectionDelegate'' = RTCPeerConnectionDelegate_required"
    by (rule protocol_required_declared [OF ds d])
  show "protocol_optional app_framework ''RTCPeerConnectionDelegate'' = RTCPeerConnectionDelegate_optional"
    by (rule protocol_optional_declared [OF ds d])
qed

lemma audio_device_members:
  "protocol_required app_framework ''RTCAudioDevice'' =
     RTCAudioDevice_protocol_members_1 @ RTCAudioDevice_protocol_members_2"
  unfolding app_skeleton
  by (rule protocol_required_declared [OF webrtc_protocols_distinct webrtc_mem [of RTCAudioDevice_h],
        where ps = "[''NSObject'']" and os = "[]"])
    (simp_all add: headers_def header_decls_eqs RTCAudioDevice_protocol_def)

text \<open>The members the classes of the app declare.\<close>

definition NoOpAudioDevice_members :: "member list" where
  "NoOpAudioDevice_members = members_of NoOpAudioDevice_class"

definition StreamSessionManager_members :: "member list" where
  "StreamSessionManager_members = members_of StreamSessionManager_class"

definition WHEPDelegate_members :: "member list" where
  "WHEPDelegate_members = members_of WHEPDelegate_class"

lemma app_class_signatures:
  "chain_signatures app_framework ''NoOpAudioDevice'' = members_signatures NoOpAudioDevice_members"
  "chain_signatures app_framework ''StreamSessionManager'' = members_signatures StreamSessionManager_members"
  "chain_signatures app_framework ''WHEPDelegate'' = members_signatures WHEPDelegate_members"
proof -
  have "superclass_chain webrtc ''NSObject'' = []"
    by (simp add: chain_external [OF wf_webrtc] starts_with_def)
  then have "superclass_chain app_framework ''NoOpAudioDevice'' =
        [(''NoOpAudioDevice'', ''NSObject'', [''RTCAudioDevice''], NoOpAudioDevice_members)]"
      "superclass_chain app_framework ''StreamSessionManager'' =
        [(''StreamSessionManager'', ''NSObject'', [''RTCPeerConnectionDelegate''], StreamSessionManager_members)]"
      "superclass_chain app_framework ''WHEPDelegate'' =
        [(''WHEPDelegate'', ''NSObject'', [''RTCPeerConnectionDelegate''], WHEPDelegate_members)]"
    by (simp_all add: app_framework_def app_class_defs
        NoOpAudioDevice_members_def StreamSessionManager_members_def WHEPDelegate_members_def)
  then show "chain_signatures app_framework ''NoOpAudioDevice'' = members_signatures NoOpAudioDevice_members"
      "chain_signatures app_framework ''StreamSessionManager'' = members_signatures StreamSessionManager_members"
      "chain_signatures app_framework ''WHEPDelegate'' = members_signatures WHEPDelegate_members"
    by (simp_all add: chain_signatures_def)
qed

text \<open>The app's audio device implements every required member of \<open>RTCAudioDevice\<close>, and its stream manager
  and the delegate of the proof of concept every required callback of \<open>RTCPeerConnectionDelegate\<close>, with the types the
  headers give. Of the seven optional callbacks the manager answers exactly the one that reports a receiver of a
  Unified Plan session, the proof of concept none.\<close>

theorem app_protocols_implemented:
  "implements app_framework ''NoOpAudioDevice'' ''RTCAudioDevice'' \<and>
   implements app_framework ''StreamSessionManager'' ''RTCPeerConnectionDelegate'' \<and>
   answered app_framework ''StreamSessionManager'' ''RTCPeerConnectionDelegate'' = [''peerConnection:didAddReceiver:streams:''] \<and>
   implements app_framework ''WHEPDelegate'' ''RTCPeerConnectionDelegate'' \<and>
   answered app_framework ''WHEPDelegate'' ''RTCPeerConnectionDelegate'' = []"
  unfolding implements_def answered_def app_class_signatures delegate_members audio_device_members
  by (intro conjI; code_simp)

end
