(* ===== verification/Audio_Device.thy ===== *)
theory Audio_Device imports Prelude begin

text \<open>
  \<open>WebRTC/NoOpAudioDevice.swift\<close>, the audio device the app gives to WebRTC so that none of the platform is
  touched, and the contract \<open>RTCAudioDevice.h\<close> states for its flags: each flag says whether the call that
  raises it came later than every call that lowers it.
\<close>

section \<open>The device\<close>

datatype adm_call =
    Initialize | Terminate
  | Initialize_Playout | Start_Playout | Stop_Playout
  | Initialize_Recording | Start_Recording | Stop_Recording

record audio_device =
  isInitialized :: bool
  isPlayoutInitialized :: bool
  isRecordingInitialized :: bool
  isPlaying :: bool
  isRecording :: bool

definition new_device :: audio_device where
  "new_device = \<lparr>isInitialized = False, isPlayoutInitialized = False, isRecordingInitialized = False,
     isPlaying = False, isRecording = False\<rparr>"

text \<open>The formats the device reports: sample rate, buffer duration, channels and latency of input and output.\<close>

definition input_format :: "real \<times> real \<times> int \<times> real" where
  "input_format = (48000, 1 / 100, 1, 0)"

definition output_format :: "real \<times> real \<times> int \<times> real" where
  "output_format = (48000, 1 / 100, 2, 0)"

fun adm_step :: "adm_call \<Rightarrow> audio_device \<Rightarrow> audio_device \<times> bool" where
  "adm_step Initialize d = (d\<lparr>isInitialized := True\<rparr>, True)"
| "adm_step Terminate d = (d\<lparr>isInitialized := False, isPlayoutInitialized := False,
     isRecordingInitialized := False, isPlaying := False, isRecording := False\<rparr>, True)"
| "adm_step Initialize_Playout d = (d\<lparr>isPlayoutInitialized := True\<rparr>, True)"
| "adm_step Start_Playout d = (d\<lparr>isPlaying := True\<rparr>, True)"
| "adm_step Stop_Playout d = (d\<lparr>isPlaying := False\<rparr>, True)"
| "adm_step Initialize_Recording d = (d\<lparr>isRecordingInitialized := True\<rparr>, True)"
| "adm_step Start_Recording d = (d\<lparr>isRecording := True\<rparr>, True)"
| "adm_step Stop_Recording d = (d\<lparr>isRecording := False\<rparr>, True)"

text \<open>Calls one after the other, with their results.\<close>

fun run_calls :: "('c \<Rightarrow> 's \<Rightarrow> 's \<times> bool) \<Rightarrow> 'c list \<Rightarrow> 's \<Rightarrow> 's \<times> bool list" where
  "run_calls step [] s = (s, [])"
| "run_calls step (c # cs) s = (let (s1, r) = step c s; (s2, rs) = run_calls step cs s1 in (s2, r # rs))"

lemma run_calls_Cons:
  "run_calls step (c # cs) s = (fst (run_calls step cs (fst (step c s))), snd (step c s) # snd (run_calls step cs (fst (step c s))))"
  by (simp split: prod.splits)

declare run_calls.simps(2) [simp del] run_calls_Cons [simp]

section \<open>The contract of a flag\<close>

text \<open>Whether the last call among those that raise or lower a flag raises it.\<close>

definition latest :: "'c set \<Rightarrow> 'c set \<Rightarrow> 'c list \<Rightarrow> bool" where
  "latest on off cs = (case List.find (\<lambda>c. c \<in> on \<union> off) (rev cs) of None \<Rightarrow> False | Some c \<Rightarrow> c \<in> on)"

locale flag_contract =
  fixes step :: "'c \<Rightarrow> 's \<Rightarrow> 's \<times> bool"
    and flag :: "'s \<Rightarrow> bool"
    and on :: "'c set"
    and off :: "'c set"
  assumes raised: "c \<in> on \<Longrightarrow> flag (fst (step c s))"
    and lowered: "c \<in> off \<Longrightarrow> \<not> flag (fst (step c s))"
    and kept: "c \<notin> on \<Longrightarrow> c \<notin> off \<Longrightarrow> flag (fst (step c s)) = flag s"
begin

lemma flag_append: "flag (fst (run_calls step (cs @ [c]) s)) =
    (if c \<in> on then True else if c \<in> off then False else flag (fst (run_calls step cs s)))"
  by (induction cs arbitrary: s) (auto simp: raised lowered kept)

lemma flag_latest: "\<not> flag s \<Longrightarrow> flag (fst (run_calls step cs s)) = latest on off cs"
proof (induction cs rule: rev_induct)
  case (snoc c cs)
  have "c \<in> off \<Longrightarrow> c \<notin> on" using raised lowered by blast
  with snoc show ?case by (auto simp: flag_append latest_def)
qed (simp add: latest_def)

end

interpretation initialized: flag_contract adm_step isInitialized "{Initialize}" "{Terminate}"
  by (unfold_locales; rename_tac c s, case_tac c) auto

interpretation playout_ready: flag_contract adm_step isPlayoutInitialized "{Initialize_Playout}" "{Terminate}"
  by (unfold_locales; rename_tac c s, case_tac c) auto

interpretation recording_ready: flag_contract adm_step isRecordingInitialized "{Initialize_Recording}" "{Terminate}"
  by (unfold_locales; rename_tac c s, case_tac c) auto

interpretation playing: flag_contract adm_step isPlaying "{Start_Playout}" "{Stop_Playout, Terminate}"
  by (unfold_locales; rename_tac c s, case_tac c) auto

interpretation recording: flag_contract adm_step isRecording "{Start_Recording}" "{Stop_Recording, Terminate}"
  by (unfold_locales; rename_tac c s, case_tac c) auto

lemma calls_succeed: "snd (run_calls adm_step cs d) = replicate (length cs) True"
proof (induction cs arbitrary: d)
  case (Cons c cs)
  have "snd (adm_step c d) = True" by (cases c) simp_all
  then show ?case using Cons.IH by simp
qed simp


end
