(* ===== verification/Video_View.thy ===== *)
theory Video_View imports Prelude begin

text \<open>
  \<open>Views/WebRTCVideoView.swift\<close>: the view that renders the current video track. SwiftUI calls
  \<open>updateUIView\<close> with the track of each render and \<open>dismantleUIView\<close> at the end; the coordinator keeps
  the track it attached. Tracks are numbers; the calls to \<open>RTCVideoTrack\<close> are a log.
\<close>

datatype renderer_call = Add_Renderer nat | Remove_Renderer nat

record coordinator =
  currentTrack :: "nat option"
  renderer_log :: "renderer_call list"

definition makeCoordinator :: coordinator where
  "makeCoordinator = \<lparr>currentTrack = None, renderer_log = []\<rparr>"

definition updateUIView :: "nat option \<Rightarrow> coordinator \<Rightarrow> coordinator" where
  "updateUIView videoTrack c = (let previousTrack = currentTrack c;
     removes = (case previousTrack of None \<Rightarrow> []
       | Some previous \<Rightarrow> if Some previous \<noteq> videoTrack then [Remove_Renderer previous] else []);
     adds = (case videoTrack of None \<Rightarrow> []
       | Some track \<Rightarrow> if Some track \<noteq> previousTrack then [Add_Renderer track] else [])
     in c\<lparr>renderer_log := renderer_log c @ removes @ adds, currentTrack := videoTrack\<rparr>)"

definition dismantleUIView :: "coordinator \<Rightarrow> coordinator" where
  "dismantleUIView c = c\<lparr>renderer_log := renderer_log c @
     (case currentTrack c of None \<Rightarrow> [] | Some t \<Rightarrow> [Remove_Renderer t]), currentTrack := None\<rparr>"

text \<open>
  The tracks the view is attached to after a log, \<open>None\<close> when a call adds a renderer twice, removes one that
  is not there, or attaches a second track.
\<close>

fun attached :: "renderer_call list \<Rightarrow> nat option \<Rightarrow> nat option option" where
  "attached [] t = Some t"
| "attached (Add_Renderer u # cs) t = (if t = None then attached cs (Some u) else None)"
| "attached (Remove_Renderer u # cs) t = (if t = Some u then attached cs None else None)"

lemma attached_append: "attached (xs @ ys) t = (case attached xs t of None \<Rightarrow> None | Some u \<Rightarrow> attached ys u)"
  by (induction xs t rule: attached.induct) auto

lemma attached_update:
  "attached (renderer_log c) None = Some (currentTrack c) \<Longrightarrow>
     attached (renderer_log (updateUIView v c)) None = Some v \<and> currentTrack (updateUIView v c) = v"
  by (auto simp: updateUIView_def Let_def attached_append split: option.splits)

lemma attached_updates:
  "attached (renderer_log c) None = Some (currentTrack c) \<Longrightarrow>
     attached (renderer_log (fold updateUIView vs c)) None = Some (currentTrack (fold updateUIView vs c)) \<and>
     currentTrack (fold updateUIView vs c) = last (currentTrack c # vs)"
  by (induction vs arbitrary: c) (use attached_update in auto)

text \<open>Whatever tracks the view is updated with, it is attached to exactly the track of the last update and to
  no other at any time, no track gets the view twice or loses it without having it, and after
  \<open>dismantleUIView\<close> it is attached to none.\<close>

theorem view_follows_track:
  "attached (renderer_log (fold updateUIView vs makeCoordinator)) None = Some (last (None # vs)) \<and>
   attached (renderer_log (dismantleUIView (fold updateUIView vs makeCoordinator))) None = Some None"
proof -
  have c: "attached (renderer_log (fold updateUIView vs makeCoordinator)) None =
      Some (currentTrack (fold updateUIView vs makeCoordinator))"
    "currentTrack (fold updateUIView vs makeCoordinator) = last (None # vs)"
    using attached_updates [of makeCoordinator vs] by (simp_all add: makeCoordinator_def)
  then show ?thesis by (auto simp: dismantleUIView_def attached_append split: option.splits)
qed

end
