(* ===== verification/App_Keychain.thy ===== *)
theory App_Keychain imports Client_Models begin

text \<open>
  \<open>DefaultKeychainService.swift\<close>: the three calls the app makes on the Security framework. The framework is
  a parameter, the operations of the protocol \<open>KeychainBackend\<close>; what the service relies on is the locale
  \<open>security_framework\<close>, what its users may rely on the locale \<open>keychain_service\<close>. The in-memory backend of
  \<open>KeychainServiceTests.swift\<close> provides the first.
\<close>

section \<open>The service\<close>

text \<open>
  An item is addressed by service and account. A call gives an \<open>OSStatus\<close>; \<open>copyMatching\<close> also a result,
  \<open>None\<close> for one that is not \<open>Data\<close>.
\<close>

record 'b keychain_backend =
  kb_add :: "string \<times> string \<Rightarrow> string \<Rightarrow> 'b \<Rightarrow> int \<times> 'b"
  kb_copy :: "string \<times> string \<Rightarrow> 'b \<Rightarrow> int \<times> string option \<times> 'b"
  kb_delete :: "string \<times> string \<Rightarrow> 'b \<Rightarrow> int \<times> 'b"

definition errSecSuccess :: int where "errSecSuccess = 0"
definition errSecItemNotFound :: int where "errSecItemNotFound = - 25300"
definition errSecDuplicateItem :: int where "errSecDuplicateItem = - 25299"

definition baseQuery :: "string \<Rightarrow> string \<Rightarrow> string \<times> string" where
  "baseQuery serviceID key = (serviceID, key)"

definition keychain_save :: "'b keychain_backend \<Rightarrow> string \<Rightarrow> string \<Rightarrow> string \<Rightarrow> ('b, client_error, unit) prog" where
  "keychain_save B serviceID data key b =
     (let (_, b1) = kb_delete B (baseQuery serviceID key) b;
          (status, b2) = kb_add B (baseQuery serviceID key) data b1
      in if status = errSecSuccess then (Inr (), b2) else (Inl (Keychain (KC_saveFailed status)), b2))"

definition keychain_load :: "'b keychain_backend \<Rightarrow> string \<Rightarrow> string \<Rightarrow> ('b, client_error, string option) prog" where
  "keychain_load B serviceID key b =
     (let (status, result, b1) = kb_copy B (baseQuery serviceID key) b in
      if status = errSecSuccess then
        (case result of None \<Rightarrow> (Inl (Keychain KC_dataConversionFailed), b1) | Some d \<Rightarrow> (Inr (Some d), b1))
      else if status = errSecItemNotFound then (Inr None, b1)
      else (Inl (Keychain (KC_loadFailed status)), b1))"

definition keychain_delete :: "'b keychain_backend \<Rightarrow> string \<Rightarrow> string \<Rightarrow> ('b, client_error, unit) prog" where
  "keychain_delete B serviceID key b =
     (let (status, b1) = kb_delete B (baseQuery serviceID key) b in
      if status = errSecSuccess \<or> status = errSecItemNotFound then (Inr (), b1)
      else (Inl (Keychain (KC_deleteFailed status)), b1))"

section \<open>Contracts\<close>

text \<open>The Security framework for the items of one service, \<open>items\<close> by account.\<close>

locale security_framework =
  fixes B :: "'b keychain_backend" and serviceID :: string
    and items :: "'b \<Rightarrow> string \<Rightarrow> string option" and inv :: "'b \<Rightarrow> bool"
  assumes add: "inv b \<Longrightarrow> kb_add B (serviceID, k) d b = (st, b') \<Longrightarrow>
      inv b' \<and> items b' = (if st = 0 then (items b)(k \<mapsto> d) else items b)"
    and copy: "inv b \<Longrightarrow> kb_copy B (serviceID, k) b = (st, r, b') \<Longrightarrow>
      inv b' \<and> items b' = items b \<and> (if st = 0 then r = None \<or> r = items b k else st \<noteq> - 25300 \<or> items b k = None)"
    and remove: "inv b \<Longrightarrow> kb_delete B (serviceID, k) b = (st, b') \<Longrightarrow>
      inv b' \<and> (if st = 0 then items b' = (items b)(k := None) else items b' = items b \<and> (st \<noteq> - 25300 \<or> items b k = None))"

text \<open>
  What \<open>KeychainService\<close> promises: a successful save is what is loaded, a failed one may have lost the item
  that was there, and nothing else changes.
\<close>

locale keychain_service =
  fixes save :: "string \<Rightarrow> string \<Rightarrow> ('s, client_error, unit) prog"
    and load :: "string \<Rightarrow> ('s, client_error, string option) prog"
    and delete :: "string \<Rightarrow> ('s, client_error, unit) prog"
    and items :: "'s \<Rightarrow> string \<Rightarrow> string option" and inv :: "'s \<Rightarrow> bool"
  assumes save: "inv s \<Longrightarrow> save d k s = (r, s') \<Longrightarrow> inv s' \<and> (case r of
        Inr _ \<Rightarrow> items s' = (items s)(k \<mapsto> d)
      | Inl e \<Rightarrow> e \<in> range Keychain \<and> items s' \<in> {items s, (items s)(k := None)})"
    and load: "inv s \<Longrightarrow> load k s = (r', s') \<Longrightarrow> inv s' \<and> items s' = items s \<and>
      (case r' of Inr v \<Rightarrow> v = items s k | Inl e \<Rightarrow> e \<in> range Keychain)"
    and delete: "inv s \<Longrightarrow> delete k s = (r, s') \<Longrightarrow> inv s' \<and> (case r of
        Inr _ \<Rightarrow> items s' = (items s)(k := None) | Inl e \<Rightarrow> e \<in> range Keychain \<and> items s' = items s)"
begin

lemma load_after_save:
  assumes "inv s" and "save d k s = (Inr (), s')" and "load k' s' = (Inr v, s'')"
  shows "v = (if k' = k then Some d else items s k')"
  using save [OF assms(1,2)] load [OF _ assms(3)] by auto

lemma load_after_delete:
  assumes "inv s" and "delete k s = (Inr (), s')" and "load k' s' = (Inr v, s'')"
  shows "v = (if k' = k then None else items s k')"
  using delete [OF assms(1,2)] load [OF _ assms(3)] by auto

end

sublocale security_framework \<subseteq> keychain: keychain_service "keychain_save B serviceID" "keychain_load B serviceID"
    "keychain_delete B serviceID" items inv
proof
  fix s d k and r :: "client_error + unit" and s'
  assume i: "inv s"
  show "inv s' \<and> (case r of Inr _ \<Rightarrow> items s' = (items s)(k \<mapsto> d)
      | Inl e \<Rightarrow> e \<in> range Keychain \<and> items s' \<in> {items s, (items s)(k := None)})"
    if save: "keychain_save B serviceID d k s = (r, s')"
  proof -
    obtain st1 b1 where del: "kb_delete B (serviceID, k) s = (st1, b1)" by fastforce
    obtain st2 b2 where add_k: "kb_add B (serviceID, k) d b1 = (st2, b2)" by fastforce
    note d1 = remove [OF i del]
    then have i1: "inv b1" by simp
    note d2 = add [OF i1 add_k]
    have m: "items b1 \<in> {items s, (items s)(k := None)}" using d1 by (auto split: if_splits)
    have upd: "(items b1)(k \<mapsto> d) = (items s)(k \<mapsto> d)" using m by auto
    show ?thesis
      using save d2 m upd by (auto simp: keychain_save_def del add_k baseQuery_def errSecSuccess_def split: if_splits)
  qed
  show "inv s' \<and> (case r of Inr _ \<Rightarrow> items s' = (items s)(k := None) | Inl e \<Rightarrow> e \<in> range Keychain \<and> items s' = items s)"
    if "keychain_delete B serviceID k s = (r, s')"
    using that remove [OF i, of k]
    by (auto simp: keychain_delete_def baseQuery_def errSecSuccess_def errSecItemNotFound_def Let_def fun_upd_idem
        split: prod.splits if_splits)
next
  fix s k and r' :: "client_error + string option" and s'
  assume "inv s" and "keychain_load B serviceID k s = (r', s')"
  then show "inv s' \<and> items s' = items s \<and> (case r' of Inr v \<Rightarrow> v = items s k | Inl e \<Rightarrow> e \<in> range Keychain)"
    using copy [of s k]
    by (auto simp: keychain_load_def baseQuery_def errSecSuccess_def errSecItemNotFound_def Let_def
        split: prod.splits if_splits option.splits)
qed

section \<open>The in-memory backend\<close>

record memory_backend =
  mb_store :: "string \<Rightarrow> string option"
  mb_nextAdd :: "int option"
  mb_nextCopy :: "int option"
  mb_nextDelete :: "int option"
  mb_returnBadType :: bool

definition storageKey :: "string \<times> string \<Rightarrow> string" where
  "storageKey q = fst q @ '':'' @ snd q"

definition memory_add :: "string \<times> string \<Rightarrow> string \<Rightarrow> memory_backend \<Rightarrow> int \<times> memory_backend" where
  "memory_add q d b = (case mb_nextAdd b of
     Some forced \<Rightarrow> (forced, b\<lparr>mb_nextAdd := None\<rparr>)
   | None \<Rightarrow> if mb_store b (storageKey q) \<noteq> None then (errSecDuplicateItem, b)
       else (errSecSuccess, b\<lparr>mb_store := (mb_store b)(storageKey q \<mapsto> d)\<rparr>))"

definition memory_copy :: "string \<times> string \<Rightarrow> memory_backend \<Rightarrow> int \<times> string option \<times> memory_backend" where
  "memory_copy q b = (case mb_nextCopy b of
     Some forced \<Rightarrow> (forced, None, b\<lparr>mb_nextCopy := None\<rparr>)
   | None \<Rightarrow> (case mb_store b (storageKey q) of None \<Rightarrow> (errSecItemNotFound, None, b)
       | Some d \<Rightarrow> if mb_returnBadType b then (errSecSuccess, None, b\<lparr>mb_returnBadType := False\<rparr>)
           else (errSecSuccess, Some d, b)))"

definition memory_delete :: "string \<times> string \<Rightarrow> memory_backend \<Rightarrow> int \<times> memory_backend" where
  "memory_delete q b = (case mb_nextDelete b of
     Some forced \<Rightarrow> (forced, b\<lparr>mb_nextDelete := None\<rparr>)
   | None \<Rightarrow> if mb_store b (storageKey q) \<noteq> None
       then (errSecSuccess, b\<lparr>mb_store := (mb_store b)(storageKey q := None)\<rparr>) else (errSecItemNotFound, b))"

definition InMemoryKeychainBackend :: "memory_backend keychain_backend" where
  "InMemoryKeychainBackend = \<lparr>kb_add = memory_add, kb_copy = memory_copy, kb_delete = memory_delete\<rparr>"

definition memory_items :: "string \<Rightarrow> memory_backend \<Rightarrow> string \<Rightarrow> string option" where
  "memory_items serviceID b k = mb_store b (storageKey (serviceID, k))"

text \<open>Forced statuses are failures other than \<open>errSecItemNotFound\<close>.\<close>

definition memory_ok :: "memory_backend \<Rightarrow> bool" where
  "memory_ok b \<longleftrightarrow> {mb_nextAdd b, mb_nextCopy b, mb_nextDelete b} \<inter> {Some 0, Some (- 25300)} = {}"

interpretation in_memory: security_framework InMemoryKeychainBackend serviceID "memory_items serviceID" memory_ok
  for serviceID
proof
  show "memory_ok b' \<and> memory_items serviceID b' = (if st = 0 then (memory_items serviceID b)(k \<mapsto> d) else memory_items serviceID b)"
    if "memory_ok b" "kb_add InMemoryKeychainBackend (serviceID, k) d b = (st, b')" for b b' k d st
    using that
    by (auto simp: InMemoryKeychainBackend_def memory_add_def memory_items_def memory_ok_def storageKey_def
        errSecDuplicateItem_def errSecSuccess_def fun_eq_iff split: option.splits if_splits)
  show "memory_ok b' \<and> memory_items serviceID b' = memory_items serviceID b \<and>
      (if st = 0 then r = None \<or> r = memory_items serviceID b k else st \<noteq> - 25300 \<or> memory_items serviceID b k = None)"
    if "memory_ok b" "kb_copy InMemoryKeychainBackend (serviceID, k) b = (st, r, b')" for b b' k st r
    using that
    by (auto simp: InMemoryKeychainBackend_def memory_copy_def memory_items_def memory_ok_def storageKey_def
        errSecItemNotFound_def errSecSuccess_def fun_eq_iff split: option.splits if_splits)
  show "memory_ok b' \<and> (if st = 0 then memory_items serviceID b' = (memory_items serviceID b)(k := None)
      else memory_items serviceID b' = memory_items serviceID b \<and> (st \<noteq> - 25300 \<or> memory_items serviceID b k = None))"
    if "memory_ok b" "kb_delete InMemoryKeychainBackend (serviceID, k) b = (st, b')" for b b' k st
    using that
    by (auto simp: InMemoryKeychainBackend_def memory_delete_def memory_items_def memory_ok_def storageKey_def
        errSecItemNotFound_def errSecSuccess_def fun_eq_iff split: option.splits if_splits)
qed

section \<open>The service refines a map\<close>

datatype keychain_op = Save_Item string string | Load_Item string | Delete_Item string

definition keychain_run :: "'b keychain_backend \<Rightarrow> string \<Rightarrow> keychain_op \<Rightarrow> ('b, client_error, string option) prog" where
  "keychain_run B serviceID op = (case op of
     Save_Item d k \<Rightarrow> andThen (keychain_save B serviceID d k) (\<lambda>_. ret None)
   | Load_Item k \<Rightarrow> keychain_load B serviceID k
   | Delete_Item k \<Rightarrow> andThen (keychain_delete B serviceID k) (\<lambda>_. ret None))"

text \<open>The steps a map may take for a call and its result.\<close>

definition map_step :: "keychain_op \<Rightarrow> client_error + string option \<Rightarrow> (string \<Rightarrow> string option) \<Rightarrow> (string \<Rightarrow> string option) \<Rightarrow> bool" where
  "map_step op r m m' = (case (op, r) of
     (Save_Item d k, Inr _) \<Rightarrow> m' = m(k \<mapsto> d)
   | (Save_Item d k, Inl _) \<Rightarrow> m' = m \<or> m' = m(k := None)
   | (Load_Item k, Inr v) \<Rightarrow> m' = m \<and> v = m k
   | (Load_Item k, Inl _) \<Rightarrow> m' = m
   | (Delete_Item k, Inr _) \<Rightarrow> m' = m(k := None)
   | (Delete_Item k, Inl _) \<Rightarrow> m' = m)"

context security_framework
begin

lemma map_step_run:
  assumes "inv b" and "keychain_run B serviceID op b = (r, b')"
  shows "inv b' \<and> map_step op r (items b) (items b')"
proof (cases op)
  case (Save_Item d k)
  obtain r1 b1 where s: "keychain_save B serviceID d k b = (r1, b1)" by fastforce
  show ?thesis using assms keychain.save [OF assms(1) s] s Save_Item
    by (cases r1) (auto simp: keychain_run_def map_step_def)
next
  case (Load_Item k)
  obtain r1 b1 where s: "keychain_load B serviceID k b = (r1, b1)" by fastforce
  show ?thesis using assms keychain.load [OF assms(1) s] s Load_Item
    by (cases r1) (auto simp: keychain_run_def map_step_def)
next
  case (Delete_Item k)
  obtain r1 b1 where s: "keychain_delete B serviceID k b = (r1, b1)" by fastforce
  show ?thesis using assms keychain.delete [OF assms(1) s] s Delete_Item
    by (cases r1) (auto simp: keychain_run_def map_step_def)
qed

end

text \<open>C19: On a Security framework that behaves as documented, every call of the keychain service is a step of a map
  from accounts to data: a save that succeeds is what later loads give, loads and failed deletes change nothing,
  no call touches another account. A save that fails is the exception: it has deleted the old item first, so
  the item may be gone.\<close>

theorem keychain_refines_map:
  fixes B :: "'b keychain_backend" and inv :: "'b \<Rightarrow> bool"
  assumes "security_framework B serviceID items inv" and "inv b" and "keychain_run B serviceID op b = (r, b')"
  shows "inv b' \<and> map_step op r (items b) (items b')"
  by (rule security_framework.map_step_run [OF assms])

text \<open>The lost item: the deletion works, the addition is refused.\<close>

definition sample_keychain :: memory_backend where
  "sample_keychain = \<lparr>mb_store = [storageKey (''com.ringappletv'', ''auth_token'') \<mapsto> ''old''], mb_nextAdd = Some (- 34018),
     mb_nextCopy = None, mb_nextDelete = None, mb_returnBadType = False\<rparr>"

theorem keychain_refines_map_witness:
  "\<exists>b. keychain_run InMemoryKeychainBackend ''com.ringappletv'' (Save_Item ''new'' ''auth_token'') sample_keychain =
       (Inl (Keychain (KC_saveFailed (- 34018))), b) \<and>
     map_step (Save_Item ''new'' ''auth_token'') (Inl (Keychain (KC_saveFailed (- 34018))))
       (memory_items ''com.ringappletv'' sample_keychain) (memory_items ''com.ringappletv'' b) \<and>
     memory_items ''com.ringappletv'' b ''auth_token'' = None"
proof -
  have ok: "memory_ok sample_keychain" by (simp add: memory_ok_def sample_keychain_def)
  obtain b where b: "keychain_run InMemoryKeychainBackend ''com.ringappletv'' (Save_Item ''new'' ''auth_token'') sample_keychain =
      (Inl (Keychain (KC_saveFailed (- 34018))), b)" "memory_items ''com.ringappletv'' b ''auth_token'' = None"
    by (simp add: keychain_run_def keychain_save_def InMemoryKeychainBackend_def memory_add_def memory_delete_def
        sample_keychain_def baseQuery_def errSecSuccess_def memory_items_def Let_def andThen_def)
  show ?thesis
    using keychain_refines_map [OF in_memory.security_framework_axioms ok b(1)] b by blast
qed

end
