(* ===== verification/App_Cache.thy ===== *)
theory App_Cache imports Partner_Client begin

text \<open>
  \<open>DefaultCacheService.swift\<close>: values cached in one JSON file per key, with an expiration date. The file
  system is the map from file names to contents; which operation fails, and with what description, is a
  parameter. Values are given by their encoding and read by their decoder. Each method runs under the serial
  queue, so it is one step.
\<close>

section \<open>File names\<close>

text \<open>
  \<open>addingPercentEncoding(withAllowedCharacters: .alphanumerics)\<close>: only ASCII letters and digits stay, every
  other byte of the UTF-8 encoding is escaped.
\<close>

definition alphanumeric :: "char \<Rightarrow> bool" where
  "alphanumeric c \<longleftrightarrow> (let n = (of_char c :: nat) in
     (48 \<le> n \<and> n \<le> 57) \<or> (65 \<le> n \<and> n \<le> 90) \<or> (97 \<le> n \<and> n \<le> 122))"

definition escape_char :: "char \<Rightarrow> string" where
  "escape_char c = (if alphanumeric c then [c]
     else (let n = (of_char c :: nat) in [CHR ''%'', hex_digit (n div 16), hex_digit (n mod 16)]))"

definition fileURL :: "string \<Rightarrow> string" where
  "fileURL key = concat (map escape_char key) @ ''.json''"

lemma of_hex_digit: "n < 16 \<Longrightarrow> (of_char (hex_digit n) :: nat) = (if n < 10 then 48 + n else 55 + n)"
  by (simp add: hex_digit_def)

lemma hex_digit_inj: "m < 16 \<Longrightarrow> n < 16 \<Longrightarrow> hex_digit m = hex_digit n \<Longrightarrow> m = n"
proof -
  assume lt: "m < 16" "n < 16" and "hex_digit m = hex_digit n"
  then have "(of_char (hex_digit m) :: nat) = of_char (hex_digit n)" by simp
  then show "m = n" unfolding lt [THEN of_hex_digit] by (auto split: if_splits)
qed

lemma percent_not_alphanumeric: "\<not> alphanumeric (CHR ''%'')"
  by (simp add: alphanumeric_def)

lemma escape_char_append:
  assumes "escape_char c @ s = escape_char d @ t"
  shows "c = d \<and> s = t"
proof -
  have lt: "(of_char x :: nat) div 16 < 16" "(of_char x :: nat) mod 16 < 16" for x :: char
    using nat_of_char_less_256 [of x] by (simp_all add: less_mult_imp_div_less)
  have "(of_char c :: nat) = of_char d" if "(of_char c :: nat) div 16 = of_char d div 16" "(of_char c :: nat) mod 16 = of_char d mod 16"
    using that by (metis div_mult_mod_eq)
  then show ?thesis
    using assms percent_not_alphanumeric hex_digit_inj [OF lt(1) lt(1)] hex_digit_inj [OF lt(2) lt(2)]
    by (auto simp: escape_char_def Let_def split: if_splits)
qed

lemma escape_inj: "concat (map escape_char k) = concat (map escape_char k') \<Longrightarrow> k = k'"
proof (induction k arbitrary: k')
  case Nil
  then show ?case by (cases k') (auto simp: escape_char_def Let_def split: if_splits)
next
  case (Cons c k)
  show ?case
  proof (cases k')
    case Nil
    with Cons.prems show ?thesis by (auto simp: escape_char_def Let_def split: if_splits)
  next
    case (Cons d k2)
    then have "c = d \<and> concat (map escape_char k) = concat (map escape_char k2)"
      using Cons.prems by (intro escape_char_append) simp
    with Cons Cons.IH show ?thesis by simp
  qed
qed

lemma fileURL_inj: "fileURL k = fileURL k' \<longleftrightarrow> k = k'"
  using escape_inj by (auto simp: fileURL_def)

section \<open>The cache\<close>

record disk_entry =
  ce_data :: string
  ce_expiresAt :: real

text \<open>A file that is not the JSON of an entry is \<open>Garbage\<close>.\<close>

datatype cache_file = Entry disk_entry | Garbage

record cache_state =
  cacheDirectory :: bool
  cacheFiles :: "string \<Rightarrow> cache_file option"

text \<open>The failures of the file system.\<close>

record file_manager =
  fm_create :: "cache_state \<Rightarrow> string option"
  fm_write :: "cache_state \<Rightarrow> string option"
  fm_read :: "cache_state \<Rightarrow> string option"
  fm_remove :: "cache_state \<Rightarrow> string option"

type_synonym 'a cache = "(cache_state, client_error, 'a) prog"

definition ensureCacheDirectory :: "file_manager \<Rightarrow> unit cache" where
  "ensureCacheDirectory F c =
     (if cacheDirectory c then (Inr (), c)
      else (case fm_create F c of Some m \<Rightarrow> (Inl (Cache (CE_saveFailed m)), c)
        | None \<Rightarrow> (Inr (), c\<lparr>cacheDirectory := True\<rparr>)))"

text \<open>\<open>valueData\<close> is what the encoder gives for the value: its data or an error description.\<close>

definition cache_save :: "file_manager \<Rightarrow> real \<Rightarrow> string + string \<Rightarrow> string \<Rightarrow> real \<Rightarrow> unit cache" where
  "cache_save F now valueData key ttl =
     andThen (ensureCacheDirectory F) (\<lambda>_ c.
     case valueData of Inl m \<Rightarrow> (Inl (Cache (CE_saveFailed m)), c)
     | Inr data \<Rightarrow>
         (case fm_write F c of Some m \<Rightarrow> (Inl (Cache (CE_saveFailed m)), c)
          | None \<Rightarrow> (Inr (), c\<lparr>cacheFiles := (cacheFiles c)
              (fileURL key \<mapsto> Entry \<lparr>ce_data = data, ce_expiresAt = now + ttl\<rparr>)\<rparr>)))"

definition cache_load :: "file_manager \<Rightarrow> real \<Rightarrow> (string \<Rightarrow> 'a option) \<Rightarrow> string \<Rightarrow> 'a option cache" where
  "cache_load F now decode key c = (case cacheFiles c (fileURL key) of
       None \<Rightarrow> (Inr None, c)
     | Some file \<Rightarrow> (case fm_read F c of
           Some m \<Rightarrow> (Inl (Cache (CE_loadFailed m)), c)
         | None \<Rightarrow> (case file of
               Garbage \<Rightarrow> (Inl (Cache CE_invalidData), c)
             | Entry e \<Rightarrow>
                 if ce_expiresAt e \<le> now then (Inr None, c)
                 else (case decode (ce_data e) of Some v \<Rightarrow> (Inr (Some v), c)
                   | None \<Rightarrow> (Inl (Cache CE_invalidData), c)))))"

definition cache_remove :: "file_manager \<Rightarrow> string \<Rightarrow> unit cache" where
  "cache_remove F key c =
     (if cacheFiles c (fileURL key) = None then (Inr (), c)
      else (case fm_remove F c of Some m \<Rightarrow> (Inl (Cache (CE_loadFailed m)), c)
        | None \<Rightarrow> (Inr (), c\<lparr>cacheFiles := (cacheFiles c)(fileURL key := None)\<rparr>)))"

text \<open>\<open>clear\<close> removes the files of the listing one by one and stops at the first failure.\<close>

fun remove_files :: "file_manager \<Rightarrow> string list \<Rightarrow> unit cache" where
  "remove_files F [] c = (Inr (), c)"
| "remove_files F (f # fs) c = (case fm_remove F c of
     Some m \<Rightarrow> (Inl (Cache (CE_saveFailed m)), c)
   | None \<Rightarrow> remove_files F fs (c\<lparr>cacheFiles := (cacheFiles c)(f := None)\<rparr>))"

definition cache_clear :: "file_manager \<Rightarrow> (cache_state \<Rightarrow> string + string list) \<Rightarrow> unit cache" where
  "cache_clear F contentsOfDirectory c =
     (if \<not> cacheDirectory c then (Inr (), c)
      else (case contentsOfDirectory c of Inl m \<Rightarrow> (Inl (Cache (CE_saveFailed m)), c)
        | Inr fs \<Rightarrow> remove_files F fs c))"

definition cache_isExpired :: "file_manager \<Rightarrow> real \<Rightarrow> string \<Rightarrow> cache_state \<Rightarrow> bool" where
  "cache_isExpired F now key c = (case cacheFiles c (fileURL key) of
       Some (Entry e) \<Rightarrow> (if fm_read F c = None then ce_expiresAt e \<le> now else True)
     | _ \<Rightarrow> True)"

section \<open>Facts\<close>

lemma remove_files_ok:
  "remove_files F fs c = (Inr (), c') \<Longrightarrow> cacheFiles c' f = (if f \<in> set fs then None else cacheFiles c f)"
  by (induction F fs c rule: remove_files.induct) (auto split: option.splits if_splits)

lemma cache_load_state: "snd (cache_load F now decode key c) = c"
  by (auto simp: cache_load_def split: option.splits cache_file.splits)

lemma cache_save_files:
  "cache_save F now (Inr data) key ttl c = (Inr (), c') \<Longrightarrow>
     cacheFiles c' = (cacheFiles c)(fileURL key \<mapsto> Entry \<lparr>ce_data = data, ce_expiresAt = now + ttl\<rparr>)"
  by (auto simp: cache_save_def ensureCacheDirectory_def andThen_def split: option.splits if_splits)

text \<open>An entry is expired for \<open>isExpired\<close> exactly when a load that can read the file does not give its value.\<close>

lemma isExpired_iff_load:
  assumes "fm_read F c = None" and "\<And>d. decode d = Some (g d)"
  shows "cache_isExpired F now key c \<longleftrightarrow> (\<nexists>v. cache_load F now decode key c = (Inr (Some v), c))"
  using assms by (auto simp: cache_isExpired_def cache_load_def split: option.splits cache_file.splits)

text \<open>What a successful save put into the cache is what a load of the same key gives as long as the time to
  live has not run out, and nothing from that moment on; loads of other keys are as before, since the file names
  of different keys differ.\<close>

theorem cache_load_after_save:
  assumes "cache_save F t (Inr data) key ttl c = (Inr (), c')" and "dec data = Some v"
    and "fm_read F c = None" and "fm_read F c' = None"
  shows "cache_load F now dec key c' = (Inr (if t + ttl \<le> now then None else Some v), c') \<and>
    (if key' = key then True else fst (cache_load F now dec key' c') = fst (cache_load F now dec key' c))"
  using assms cache_save_files [OF assms(1)]
  by (auto simp: cache_load_def fileURL_inj split: option.splits cache_file.splits)

definition sample_files :: file_manager where
  "sample_files = \<lparr>fm_create = (\<lambda>_. None), fm_write = (\<lambda>_. None), fm_read = (\<lambda>_. None), fm_remove = (\<lambda>_. None)\<rparr>"

definition empty_cache :: cache_state where
  "empty_cache = \<lparr>cacheDirectory = False, cacheFiles = (\<lambda>_. None)\<rparr>"

theorem cache_load_after_save_witness:
  "\<exists>c. cache_save sample_files 0 (Inr ''v'') ''ring_devices'' 300 empty_cache = (Inr (), c) \<and>
     cache_load sample_files 299 Some ''ring_devices'' c = (Inr (Some ''v''), c) \<and>
     cache_load sample_files 300 Some ''ring_devices'' c = (Inr None, c)"
proof -
  obtain c where c: "cache_save sample_files 0 (Inr ''v'') ''ring_devices'' 300 empty_cache = (Inr (), c)"
    by (simp add: cache_save_def ensureCacheDirectory_def sample_files_def empty_cache_def andThen_def)
  then show ?thesis
    using cache_load_after_save [OF c, of Some "''v''"] by (simp add: sample_files_def)
qed

end
