(* ===== verification/App_Auth.thy ===== *)
theory App_Auth imports App_Keychain App_Cache begin

text \<open>
  The app's authentication: the protocol \<open>AuthService\<close> and its three implementations,
  \<open>BackendAuthService.swift\<close>, \<open>DefaultAuthService.swift\<close> and \<open>MockAuthService.swift\<close>. They run on the state the
  services of the app share: the token in memory, the keychain, the HTTP log and the cache. JSON text is a
  parameter, a printer and a parser; the encoding of a token as a JSON value is here.
\<close>

section \<open>The state of the services\<close>

record 'k app_state =
  cachedToken :: "auth_token option"
  keychainState :: 'k
  httpLog :: http_log
  appCache :: cache_state

type_synonym ('k, 'a) app = "('k app_state, client_error, 'a) prog"

definition on_keychain :: "('k, client_error, 'a) prog \<Rightarrow> ('k, 'a) app" where
  "on_keychain = zoom keychainState (\<lambda>k s. s\<lparr>keychainState := k\<rparr>)"

definition on_http :: "'a http \<Rightarrow> ('k, 'a) app" where
  "on_http = zoom httpLog (\<lambda>w s. s\<lparr>httpLog := w\<rparr>)"

definition on_cache :: "'a cache \<Rightarrow> ('k, 'a) app" where
  "on_cache = zoom appCache (\<lambda>c s. s\<lparr>appCache := c\<rparr>)"

definition sent :: "'k app_state \<Rightarrow> url_request list" where
  "sent s = hl_sent (httpLog s)"

definition time :: "http_env \<Rightarrow> 'k app_state \<Rightarrow> real" where
  "time E s = he_now E (sent s)"

record 'k keychain_ops =
  ko_save :: "string \<Rightarrow> string \<Rightarrow> ('k, client_error, unit) prog"
  ko_load :: "string \<Rightarrow> ('k, client_error, string option) prog"
  ko_delete :: "string \<Rightarrow> ('k, client_error, unit) prog"

definition DefaultKeychainService :: "'b keychain_backend \<Rightarrow> string \<Rightarrow> 'b keychain_ops" where
  "DefaultKeychainService B serviceID = \<lparr>ko_save = keychain_save B serviceID, ko_load = keychain_load B serviceID,
     ko_delete = keychain_delete B serviceID\<rparr>"

text \<open>The protocol \<open>AuthService\<close>.\<close>

record 's auth_service =
  au_fetchTokenFromBackend :: "('s, client_error, auth_token) prog"
  au_getValidToken :: "('s, client_error, auth_token) prog"
  au_logout :: "('s, client_error, unit) prog"
  au_isAuthenticated :: "('s, client_error, bool) prog"

section \<open>Tokens in the keychain\<close>

record json_text =
  jt_print :: "json \<Rightarrow> string"
  jt_parse :: "string \<Rightarrow> json option"

definition accessTokenKey :: string where "accessTokenKey = ''auth_token''"
definition clientSecretKey :: string where "clientSecretKey = ''client_secret''"

definition opt_field :: "string \<Rightarrow> string option \<Rightarrow> (string \<times> json) list" where
  "opt_field k v = (case v of None \<Rightarrow> [] | Some x \<Rightarrow> [(k, JStr x)])"

text \<open>The synthesized \<open>Codable\<close> of \<open>AuthToken\<close>, dates as seconds since 1970; \<open>nil\<close> fields are left out.\<close>

definition encode_auth_token :: "auth_token \<Rightarrow> json" where
  "encode_auth_token t = JObj
     ([(''accessToken'', JStr (at_access_token t)), (''refreshToken'', JStr (at_refresh_token t)),
       (''expiresAt'', JReal (at_expires_at t))] @ opt_field ''scope'' (at_scope t) @
      [(''tokenType'', JStr (at_token_type t))] @ opt_field ''clientId'' (at_client_id t))"

definition decode_auth_token :: "json \<Rightarrow> auth_token option" where
  "decode_auth_token j =
     Option.bind (decode_req json_string ''accessToken'' j) (\<lambda>a.
     Option.bind (decode_req json_string ''refreshToken'' j) (\<lambda>r.
     Option.bind (decode_req json_double ''expiresAt'' j) (\<lambda>e.
     Option.bind (decode_opt json_string ''scope'' j) (\<lambda>s.
     Option.bind (decode_req json_string ''tokenType'' j) (\<lambda>t.
     Option.bind (decode_opt json_string ''clientId'' j) (\<lambda>c.
     Some \<lparr>at_access_token = a, at_refresh_token = r, at_expires_at = e, at_scope = s, at_token_type = t,
           at_client_id = c\<rparr>))))))"

lemma decode_encode_token [simp]: "decode_auth_token (encode_auth_token t) = Some t"
  by (cases t) (auto simp: decode_auth_token_def encode_auth_token_def decode_req_def decode_opt_def opt_field_def
      split: option.splits)

definition stored_form :: "json_text \<Rightarrow> auth_token \<Rightarrow> string" where
  "stored_form J t = jt_print J (encode_auth_token t)"

definition token_of_data :: "json_text \<Rightarrow> string \<Rightarrow> auth_token option" where
  "token_of_data J d = Option.bind (jt_parse J d) decode_auth_token"

lemma token_of_stored_form:
  "jt_parse J (stored_form J t) = Some (encode_auth_token t) \<Longrightarrow> token_of_data J (stored_form J t) = Some t"
  by (simp add: token_of_data_def)

definition storeToken :: "'k keychain_ops \<Rightarrow> json_text \<Rightarrow> auth_token \<Rightarrow> ('k, unit) app" where
  "storeToken K J token =
     andThen (on_keychain (ko_save K (stored_form J token) accessTokenKey)) (\<lambda>_.
     modify (\<lambda>s. s\<lparr>cachedToken := Some token\<rparr>))"

definition loadTokenFromKeychain :: "'k keychain_ops \<Rightarrow> json_text \<Rightarrow> ('k, auth_token option) app" where
  "loadTokenFromKeychain K J =
     andThen (try_opt (on_keychain (ko_load K accessTokenKey))) (\<lambda>data.
     ret (case data of Some (Some d) \<Rightarrow> token_of_data J d | _ \<Rightarrow> None))"

definition forgetToken :: "'k keychain_ops \<Rightarrow> ('k, unit) app" where
  "forgetToken K =
     andThen (modify (\<lambda>s. s\<lparr>cachedToken := None\<rparr>)) (\<lambda>_.
     andThen (try_opt (on_keychain (ko_delete K accessTokenKey))) (\<lambda>_. ret ()))"

definition isAuthenticated :: "http_env \<Rightarrow> 'k keychain_ops \<Rightarrow> json_text \<Rightarrow> ('k, bool) app" where
  "isAuthenticated E K J = asks (\<lambda>s.
     if (case cachedToken s of Some t \<Rightarrow> \<not> isExpired (time E s) t | None \<Rightarrow> False) then ret True
     else andThen (loadTokenFromKeychain K J) (\<lambda>stored.
       case stored of None \<Rightarrow> ret False
       | Some t \<Rightarrow> if isExpired (time E s) t then ret False
           else andThen (modify (\<lambda>s. s\<lparr>cachedToken := Some t\<rparr>)) (\<lambda>_. ret True)))"

text \<open>The first two steps of \<open>getValidToken\<close>, the same in both services; \<open>acquire\<close> is the third.\<close>

definition usable :: "real \<Rightarrow> auth_token \<Rightarrow> bool" where
  "usable now t \<longleftrightarrow> \<not> isExpired now t \<and> \<not> needsRefresh now t"

definition only_usable :: "real \<Rightarrow> auth_token option \<Rightarrow> auth_token option" where
  "only_usable now token = (case token of None \<Rightarrow> None | Some t \<Rightarrow> if usable now t then Some t else None)"

definition valid_or :: "http_env \<Rightarrow> 'k keychain_ops \<Rightarrow> json_text \<Rightarrow> ('k, auth_token) app \<Rightarrow> ('k, auth_token) app" where
  "valid_or E K J acquire = asks (\<lambda>s. case only_usable (time E s) (cachedToken s) of
     Some t \<Rightarrow> ret t
   | None \<Rightarrow> andThen (loadTokenFromKeychain K J) (\<lambda>stored. case only_usable (time E s) stored of
       Some t \<Rightarrow> andThen (modify (\<lambda>s. s\<lparr>cachedToken := Some t\<rparr>)) (\<lambda>_. ret t)
     | None \<Rightarrow> acquire))"

section \<open>The backend's tokens\<close>

record backend_auth =
  backendBaseURL :: string
  apiKey :: string
  userId :: string
  iso_frac :: "string \<Rightarrow> real option"
  iso_plain :: "string \<Rightarrow> real option"

definition backend_request :: "backend_auth \<Rightarrow> url_request" where
  "backend_request A = set_header ''Authorization'' (''Bearer '' @ apiKey A)
     (plain_request (backendBaseURL A @ ''/api/token?user_id='' @ userId A) ''GET'')"

definition accept_backend_token ::
  "http_env \<Rightarrow> backend_auth \<Rightarrow> 'k keychain_ops \<Rightarrow> json_text \<Rightarrow> http_response \<Rightarrow> ('k, auth_token) app" where
  "accept_backend_token E A K J r = (case Option.bind (resp_json r) decode_backend_token of
     None \<Rightarrow> throw (Partner (decodingError (he_decode_message E)))
   | Some b \<Rightarrow> asks (\<lambda>s.
       let token = backend_token_to_domain (iso_frac A) (iso_plain A) (time E s) b in
       andThen (storeToken K J token) (\<lambda>_. ret token)))"

definition backend_answer ::
  "http_env \<Rightarrow> backend_auth \<Rightarrow> 'k keychain_ops \<Rightarrow> json_text \<Rightarrow> session_outcome \<Rightarrow> ('k, auth_token) app" where
  "backend_answer E A K J answer = (case answer of
     Net_Error m \<Rightarrow> throw (Partner (networkError m))
   | Not_Http \<Rightarrow> throw (Partner (networkError ''Invalid response from backend''))
   | Http r \<Rightarrow>
       if resp_status r = 200 then accept_backend_token E A K J r
       else if resp_status r = 401 then andThen (forgetToken K) (\<lambda>_. throw (Partner unauthorized))
       else if resp_status r = 404 then throw (Partner notFound)
       else throw (Partner (serverError (resp_status r))))"

definition fetchTokenFromBackend :: "http_env \<Rightarrow> backend_auth \<Rightarrow> 'k keychain_ops \<Rightarrow> json_text \<Rightarrow> ('k, auth_token) app" where
  "fetchTokenFromBackend E A K J =
     (if \<not> he_url_ok E (rq_url (backend_request A)) then throw (Partner (networkError ''Invalid backend URL''))
      else andThen (on_http (send E (backend_request A))) (backend_answer E A K J))"

definition BackendAuthService :: "http_env \<Rightarrow> backend_auth \<Rightarrow> 'k keychain_ops \<Rightarrow> json_text \<Rightarrow> 'k app_state auth_service" where
  "BackendAuthService E A K J = \<lparr>au_fetchTokenFromBackend = fetchTokenFromBackend E A K J,
     au_getValidToken = valid_or E K J (fetchTokenFromBackend E A K J),
     au_logout = forgetToken K, au_isAuthenticated = isAuthenticated E K J\<rparr>"

text \<open>The mock's token is made when the service is, at \<open>t0\<close>, and never renewed.\<close>

definition dummyToken :: "real \<Rightarrow> auth_token" where
  "dummyToken t0 = \<lparr>at_access_token = ''mock_access_token'', at_refresh_token = ''mock_refresh_token'',
     at_expires_at = t0 + 3600, at_scope = Some ''read'', at_token_type = ''Bearer'', at_client_id = None\<rparr>"

definition MockAuthService :: "real \<Rightarrow> 's auth_service" where
  "MockAuthService t0 = \<lparr>au_fetchTokenFromBackend = ret (dummyToken t0), au_getValidToken = ret (dummyToken t0),
     au_logout = ret (), au_isAuthenticated = ret True\<rparr>"

section \<open>The device-code flow\<close>

definition clientId :: string where "clientId = ''ringappletvviewer_aLSt3GfkNqOTRg3MAK5xw''"

definition startDeviceCodeFlow :: "http_env \<Rightarrow> partner_api_client \<Rightarrow> ('k, device_code_info) app" where
  "startDeviceCodeFlow E C =
     andThen (on_http (requestDeviceCode E C clientId)) (\<lambda>r.
     ret \<lparr>di_user_code = dc_user_code r, di_verification_uri = dc_verification_uri r,
       di_verification_uri_complete = dc_verification_uri_complete r, di_expires_in = of_int (dc_expires_in r),
       di_polling_interval = of_int (dc_interval r), di_device_code = dc_device_code r\<rparr>)"

text \<open>Text is ASCII here: the newlines and blanks of the other planes do not separate.\<close>

definition csv_newline :: "char \<Rightarrow> bool" where
  "csv_newline c \<longleftrightarrow> (let n = (of_char c :: nat) in 10 \<le> n \<and> n \<le> 13)"

fun components :: "(char \<Rightarrow> bool) \<Rightarrow> string \<Rightarrow> string list" where
  "components sep [] = [[]]"
| "components sep (c # s) = (if sep c then [] # components sep s
     else (case components sep s of [] \<Rightarrow> [[c]] | p # ps \<Rightarrow> (c # p) # ps))"

definition trim_blanks :: "string \<Rightarrow> string" where
  "trim_blanks s = (let blank = (\<lambda>c. c = CHR '' '' \<or> c = CHR 0x09) in
     rev (dropWhile blank (rev (dropWhile blank s))))"

fun csv_secret :: "string list \<Rightarrow> string option" where
  "csv_secret [] = None"
| "csv_secret (l # ls) = (case components (\<lambda>c. c = CHR '','') l of
     a # b # _ \<Rightarrow> if trim_blanks a = ''Client Secret''
       then (if trim_blanks b = [] then None else Some (trim_blanks b)) else csv_secret ls
   | _ \<Rightarrow> csv_secret ls)"

definition loadClientSecretFromCSV :: "string option \<Rightarrow> string option" where
  "loadClientSecretFromCSV contents = (case contents of None \<Rightarrow> None
     | Some t \<Rightarrow> csv_secret (components csv_newline t))"

definition loadClientSecret :: "'k keychain_ops \<Rightarrow> string option \<Rightarrow> ('k, string) app" where
  "loadClientSecret K contents =
     andThen (on_keychain (ko_load K clientSecretKey)) (\<lambda>stored.
     if (case stored of Some d \<Rightarrow> utf8_valid d \<and> d \<noteq> [] | None \<Rightarrow> False) then ret (the stored)
     else (case loadClientSecretFromCSV contents of
         Some secret \<Rightarrow> andThen (try_opt (on_keychain (ko_save K secret clientSecretKey))) (\<lambda>_. ret secret)
       | None \<Rightarrow> throw (Partner unauthorized)))"

definition poll_once ::
  "http_env \<Rightarrow> partner_api_client \<Rightarrow> 'k keychain_ops \<Rightarrow> json_text \<Rightarrow> string \<Rightarrow> string \<Rightarrow> ('k, auth_token) app" where
  "poll_once E C K J secret deviceCode =
     andThen (on_http (pollForToken E C clientId secret deviceCode)) (\<lambda>token.
     andThen (storeToken K J token) (\<lambda>_. ret token))"

definition task_sleep :: "nat \<Rightarrow> 'k app_state \<Rightarrow> 'k app_state" where
  "task_sleep ns s = s\<lparr>httpLog := (httpLog s)\<lparr>hl_slept := hl_slept (httpLog s) @ [ns]\<rparr>\<rparr>"

text \<open>The loop asks until the answer is neither \<open>authorizationPending\<close> nor \<open>slowDown\<close>; it may not end.\<close>

partial_function (option) poll_loop ::
  "http_env \<Rightarrow> partner_api_client \<Rightarrow> 'k keychain_ops \<Rightarrow> json_text \<Rightarrow> string \<Rightarrow> string \<Rightarrow> real \<Rightarrow> 'k app_state \<Rightarrow>
     ((client_error + auth_token) \<times> 'k app_state) option" where
  "poll_loop E C K J secret deviceCode interval s =
     (let (r, s1) = poll_once E C K J secret deviceCode s;
          interval1 = (if r = Inl (Partner slowDown) then interval + 5 else interval)
      in if r = Inl (Partner authorizationPending) \<or> r = Inl (Partner slowDown)
         then (case nanoseconds (Finite interval1) of None \<Rightarrow> Some (Inl Trap, s1)
           | Some ns \<Rightarrow> poll_loop E C K J secret deviceCode interval1 (task_sleep ns s1))
         else Some (r, s1))"

definition pollForAuthorization ::
  "http_env \<Rightarrow> partner_api_client \<Rightarrow> 'k keychain_ops \<Rightarrow> json_text \<Rightarrow> string option \<Rightarrow> string \<Rightarrow> 'k app_state \<Rightarrow>
     ((client_error + auth_token) \<times> 'k app_state) option" where
  "pollForAuthorization E C K J contents deviceCode s = (case loadClientSecret K contents s of
     (Inl e, s1) \<Rightarrow> Some (Inl e, s1)
   | (Inr secret, s1) \<Rightarrow> poll_loop E C K J secret deviceCode 5 s1)"

definition refresh_with ::
  "http_env \<Rightarrow> partner_api_client \<Rightarrow> 'k keychain_ops \<Rightarrow> json_text \<Rightarrow> string option \<Rightarrow> auth_token \<Rightarrow> ('k, auth_token) app" where
  "refresh_with E C K J contents token =
     andThen (loadClientSecret K contents) (\<lambda>secret.
     catch_error
       (andThen (on_http (refreshToken E C clientId secret (at_refresh_token token))) (\<lambda>response.
        andThen (storeToken K J response) (\<lambda>_. ret response)))
       (\<lambda>e. if e = Partner unauthorized then andThen (forgetToken K) (\<lambda>_. throw (Partner unauthorized)) else throw e))"

definition DefaultAuthService ::
  "http_env \<Rightarrow> partner_api_client \<Rightarrow> 'k keychain_ops \<Rightarrow> json_text \<Rightarrow> string option \<Rightarrow> 'k app_state auth_service" where
  "DefaultAuthService E C K J contents = \<lparr>au_fetchTokenFromBackend = throw (Partner unauthorized),
     au_getValidToken = valid_or E K J (asks (\<lambda>s.
       andThen (case cachedToken s of Some t \<Rightarrow> ret (Some t) | None \<Rightarrow> loadTokenFromKeychain K J) (\<lambda>existing.
       case existing of None \<Rightarrow> throw (Partner unauthorized) | Some t \<Rightarrow> refresh_with E C K J contents t))),
     au_logout = forgetToken K, au_isAuthenticated = isAuthenticated E K J\<rparr>"

section \<open>Facts\<close>

lemma on_parts [simp]:
  "on_keychain m s = (case m (keychainState s) of (r, k) \<Rightarrow> (r, s\<lparr>keychainState := k\<rparr>))"
  "on_http h s = (case h (httpLog s) of (r, w) \<Rightarrow> (r, s\<lparr>httpLog := w\<rparr>))"
  "on_cache c s = (case c (appCache s) of (r, d) \<Rightarrow> (r, s\<lparr>appCache := d\<rparr>))"
  by (simp_all add: on_keychain_def on_http_def on_cache_def zoom_def)

lemma sent_simps [simp]:
  "sent (s\<lparr>keychainState := k\<rparr>) = sent s" "sent (s\<lparr>cachedToken := t\<rparr>) = sent s" "sent (s\<lparr>appCache := c\<rparr>) = sent s"
  "sent (s\<lparr>httpLog := w\<rparr>) = hl_sent w"
  by (simp_all add: sent_def)

lemma time_cong: "sent s = sent s' \<Longrightarrow> time E s = time E s'"
  by (simp add: time_def)

lemma only_usable_Some: "only_usable now o' = Some t \<longleftrightarrow> o' = Some t \<and> usable now t"
  by (auto simp: only_usable_def split: option.splits)

text \<open>What the services may change besides the keychain.\<close>

definition same_rest :: "'k app_state \<Rightarrow> 'k app_state \<Rightarrow> bool" where
  "same_rest s s' \<longleftrightarrow> httpLog s' = httpLog s \<and> appCache s' = appCache s"

locale app_keychain =
  fixes K :: "'k keychain_ops" and items :: "'k \<Rightarrow> string \<Rightarrow> string option" and inv :: "'k \<Rightarrow> bool"
  assumes service: "keychain_service (ko_save K) (ko_load K) (ko_delete K) items inv"
begin

lemma storeToken_cases:
  assumes "inv (keychainState s)" and "storeToken K J t s = (r, s')"
  shows "inv (keychainState s') \<and> same_rest s s' \<and> (case r of
      Inr _ \<Rightarrow> cachedToken s' = Some t \<and> items (keychainState s') = (items (keychainState s))(accessTokenKey \<mapsto> stored_form J t)
    | Inl e \<Rightarrow> e \<in> range Keychain \<and> cachedToken s' = cachedToken s \<and>
        items (keychainState s') \<in> {items (keychainState s), (items (keychainState s))(accessTokenKey := None)})"
proof -
  obtain r1 k1 where sv: "ko_save K (stored_form J t) accessTokenKey (keychainState s) = (r1, k1)" by fastforce
  show ?thesis
    using assms keychain_service.save [OF service assms(1) sv] sv
    by (cases r1) (auto simp: storeToken_def andThen_def same_rest_def)
qed

lemma loadToken_cases:
  assumes "inv (keychainState s)"
  obtains v k where "loadTokenFromKeychain K J s = (Inr v, s\<lparr>keychainState := k\<rparr>)" "inv k"
    "items k = items (keychainState s)"
    "v = None \<or> v = Option.bind (items (keychainState s) accessTokenKey) (token_of_data J)"
proof -
  obtain r1 k1 where ld: "ko_load K accessTokenKey (keychainState s) = (r1, k1)" by fastforce
  note l = keychain_service.load [OF service assms ld]
  show ?thesis
  proof (cases r1)
    case (Inl e)
    then show ?thesis using l ld by (intro that [of None k1]) (auto simp: loadTokenFromKeychain_def)
  next
    case (Inr v)
    then show ?thesis using l ld
      by (intro that [of "Option.bind v (token_of_data J)" k1])
        (auto simp: loadTokenFromKeychain_def split: option.splits)
  qed
qed

lemma forgetToken_cases:
  assumes "inv (keychainState s)"
  obtains k where "forgetToken K s = (Inr (), s\<lparr>cachedToken := None, keychainState := k\<rparr>)" "inv k"
    "if items k accessTokenKey = None then items k = (items (keychainState s))(accessTokenKey := None)
     else items k = items (keychainState s) \<and> (\<exists>e. fst (ko_delete K accessTokenKey (keychainState s)) = Inl e)"
proof -
  obtain r1 k1 where dl: "ko_delete K accessTokenKey (keychainState s) = (r1, k1)" by fastforce
  note d = keychain_service.delete [OF service assms dl]
  show ?thesis
  proof (cases r1)
    case (Inl e)
    then show ?thesis using d dl by (intro that [of k1]) (auto simp: forgetToken_def fun_upd_idem)
  next
    case (Inr u)
    then show ?thesis using d dl by (intro that [of k1]) (auto simp: forgetToken_def)
  qed
qed

lemma valid_or_cases:
  assumes "inv (keychainState s)" and "valid_or E K J acquire s = (r, s')"
  shows "(\<exists>t. r = Inr t \<and> usable (time E s) t \<and> cachedToken s' = Some t \<and> same_rest s s' \<and>
        inv (keychainState s') \<and> items (keychainState s') = items (keychainState s))
    \<or> (\<exists>s1. acquire s1 = (r, s') \<and> cachedToken s1 = cachedToken s \<and> same_rest s s1 \<and> inv (keychainState s1) \<and>
        items (keychainState s1) = items (keychainState s))"
proof (cases "only_usable (time E s) (cachedToken s)")
  case (Some t)
  then have "r = Inr t \<and> s' = s" using assms(2) by (simp add: valid_or_def)
  with Some assms(1) show ?thesis by (auto simp: only_usable_Some same_rest_def)
next
  case None
  obtain v k where l: "loadTokenFromKeychain K J s = (Inr v, s\<lparr>keychainState := k\<rparr>)" "inv k"
    "items k = items (keychainState s)"
    using loadToken_cases [OF assms(1)] by metis
  show ?thesis
  proof (cases "only_usable (time E s) v")
    case None
    then have "acquire (s\<lparr>keychainState := k\<rparr>) = (r, s')" using assms(2) \<open>only_usable (time E s) (cachedToken s) = None\<close> l
      by (simp add: valid_or_def)
    then show ?thesis using l by (intro disjI2 exI [of _ "s\<lparr>keychainState := k\<rparr>"]) (simp add: same_rest_def)
  next
    case (Some t)
    then have "r = Inr t \<and> s' = s\<lparr>keychainState := k, cachedToken := Some t\<rparr>"
      using assms(2) \<open>only_usable (time E s) (cachedToken s) = None\<close> l(1) by (simp add: valid_or_def)
    with Some l show ?thesis by (auto simp: only_usable_Some same_rest_def)
  qed
qed

lemma isAuthenticated_cases:
  assumes "inv (keychainState s)"
  shows "\<exists>k. inv k \<and> items k = items (keychainState s) \<and>
    (isAuthenticated E K J s = (Inr False, s\<lparr>keychainState := k\<rparr>) \<or>
     (\<exists>t. isAuthenticated E K J s = (Inr True, s\<lparr>keychainState := k, cachedToken := Some t\<rparr>) \<and> \<not> isExpired (time E s) t \<and>
        (cachedToken s = Some t \<or> Option.bind (items (keychainState s) accessTokenKey) (token_of_data J) = Some t)))"
proof (cases "\<exists>t. cachedToken s = Some t \<and> \<not> isExpired (time E s) t")
  case True
  then obtain t where t: "cachedToken s = Some t" "\<not> isExpired (time E s) t" by blast
  then have "isAuthenticated E K J s = (Inr True, s\<lparr>keychainState := keychainState s, cachedToken := Some t\<rparr>)"
    by (cases s) (simp add: isAuthenticated_def)
  with t assms show ?thesis by blast
next
  case False
  then have "\<not> (case cachedToken s of Some t \<Rightarrow> \<not> isExpired (time E s) t | None \<Rightarrow> False)"
    by (auto split: option.splits)
  moreover obtain v k where "loadTokenFromKeychain K J s = (Inr v, s\<lparr>keychainState := k\<rparr>)" "inv k"
    "items k = items (keychainState s)"
    "v = None \<or> v = Option.bind (items (keychainState s) accessTokenKey) (token_of_data J)"
    using loadToken_cases [OF assms(1)] by metis
  ultimately show ?thesis
    by (intro exI [of _ k]) (auto simp: isAuthenticated_def split: option.splits)
qed

end

text \<open>The service of this app on any Security framework.\<close>

text \<open>What an answer of the backend does to the token in memory and to the stored one.\<close>

definition stores :: "json_text \<Rightarrow> (string \<Rightarrow> string option) \<Rightarrow> auth_token option \<Rightarrow> client_error + auth_token \<Rightarrow>
    (string \<Rightarrow> string option) \<Rightarrow> auth_token option \<Rightarrow> bool" where
  "stores J m c r m' c' = (case r of
     Inr t \<Rightarrow> c' = Some t \<and> m' = m(accessTokenKey \<mapsto> stored_form J t)
   | Inl e \<Rightarrow> e \<noteq> Trap \<and> (if e = Partner unauthorized then c' = None else c' = c) \<and> (m' = m \<or> m' = m(accessTokenKey := None)))"

definition log_request :: "url_request \<Rightarrow> 'k app_state \<Rightarrow> 'k app_state" where
  "log_request r s = s\<lparr>httpLog := (httpLog s)\<lparr>hl_sent := hl_sent (httpLog s) @ [r]\<rparr>\<rparr>"

lemma log_request_simps [simp]:
  "keychainState (log_request r s) = keychainState s" "appCache (log_request r s) = appCache s"
  "cachedToken (log_request r s) = cachedToken s" "sent (log_request r s) = sent s @ [r]"
  by (simp_all add: log_request_def sent_def)

lemma fetch_answer:
  "he_url_ok E (rq_url (backend_request A)) \<Longrightarrow> fetchTokenFromBackend E A K J s =
     backend_answer E A K J (he_session E (sent s) (backend_request A)) (log_request (backend_request A) s)"
  by (simp add: fetchTokenFromBackend_def andThen_def send_apply log_request_def sent_def)

context app_keychain
begin

lemma fetch_cases:
  assumes "inv (keychainState s)" and "fetchTokenFromBackend E A K J s = (r, s')"
  shows "inv (keychainState s') \<and> appCache s' = appCache s \<and>
    (if he_url_ok E (rq_url (backend_request A))
     then sent s' = sent s @ [backend_request A] \<and>
       stores J (items (keychainState s)) (cachedToken s) r (items (keychainState s')) (cachedToken s')
     else s' = s \<and> r = Inl (Partner (networkError ''Invalid backend URL'')))"
proof (cases "he_url_ok E (rq_url (backend_request A))")
  case False
  then show ?thesis using assms by (auto simp: fetchTokenFromBackend_def)
next
  case True
  define s1 where "s1 = log_request (backend_request A) s"
  have s1: "keychainState s1 = keychainState s" "appCache s1 = appCache s" "cachedToken s1 = cachedToken s"
    "sent s1 = sent s @ [backend_request A]"
    by (simp_all add: s1_def)
  have run: "backend_answer E A K J (he_session E (sent s) (backend_request A)) s1 = (r, s')"
    using assms(2) by (simp add: s1_def fetch_answer [OF True])
  have i1: "inv (keychainState s1)" using assms(1) by (simp add: s1)
  from run consider (tok) resp b where "he_session E (sent s) (backend_request A) = Http resp" "resp_status resp = 200"
      "Option.bind (resp_json resp) decode_backend_token = Some b"
    | (denied) resp where "he_session E (sent s) (backend_request A) = Http resp" "resp_status resp = 401"
    | (other) e where "r = Inl (Partner e)" "s' = s1" "e \<noteq> unauthorized"
    by (auto simp: backend_answer_def accept_backend_token_def split: session_outcome.splits if_splits option.splits)
  then show ?thesis
  proof cases
    case tok
    define t where "t = backend_token_to_domain (iso_frac A) (iso_plain A) (time E s1) b"
    obtain r1 s2 where st: "storeToken K J t s1 = (r1, s2)" by fastforce
    have "(r, s') = (case r1 of Inl e \<Rightarrow> (Inl e, s2) | Inr _ \<Rightarrow> (Inr t, s2))"
      using run tok st
      by (auto simp: backend_answer_def accept_backend_token_def t_def [symmetric] Let_def split: sum.splits)
    then show ?thesis using storeToken_cases [OF i1 st] True s1
      by (cases r1) (auto simp: stores_def same_rest_def sent_def)
  next
    case denied
    obtain k where f: "forgetToken K s1 = (Inr (), s1\<lparr>cachedToken := None, keychainState := k\<rparr>)" "inv k"
      "items k \<in> {items (keychainState s1), (items (keychainState s1))(accessTokenKey := None)}"
      by (rule forgetToken_cases [OF i1]) (auto split: if_splits)
    then have "r = Inl (Partner unauthorized)" "s' = s1\<lparr>cachedToken := None, keychainState := k\<rparr>"
      using run denied f(1) by (simp_all add: backend_answer_def)
    then show ?thesis using f True by (auto simp: stores_def s1)
  next
    case other
    then show ?thesis using assms True i1 by (auto simp: stores_def s1)
  qed
qed

end

context app_keychain
begin

lemma get_valid_token_cases:
  assumes "inv (keychainState s)" and "au_getValidToken (BackendAuthService E A K J) s = (r, s')"
  shows "inv (keychainState s') \<and> appCache s' = appCache s \<and>
    (if sent s' = sent s
     then items (keychainState s') = items (keychainState s) \<and> (case r of
         Inr t \<Rightarrow> usable (time E s) t \<and> cachedToken s' = Some t
       | Inl e \<Rightarrow> e = Partner (networkError ''Invalid backend URL'') \<and> cachedToken s' = cachedToken s)
     else sent s' = sent s @ [backend_request A] \<and>
       stores J (items (keychainState s)) (cachedToken s) r (items (keychainState s')) (cachedToken s'))"
proof -
  have run: "valid_or E K J (fetchTokenFromBackend E A K J) s = (r, s')"
    using assms(2) by (simp add: BackendAuthService_def)
  from valid_or_cases [OF assms(1) run] show ?thesis
  proof (elim disjE exE conjE)
    fix t
    assume "r = Inr t" "usable (time E s) t" "cachedToken s' = Some t" "same_rest s s'" "inv (keychainState s')"
      "items (keychainState s') = items (keychainState s)"
    then show ?thesis by (simp add: same_rest_def sent_def)
  next
    fix s1
    assume s1: "fetchTokenFromBackend E A K J s1 = (r, s')" "cachedToken s1 = cachedToken s" "same_rest s s1"
      "inv (keychainState s1)" "items (keychainState s1) = items (keychainState s)"
    show ?thesis using fetch_cases [OF s1(4,1)] s1 by (auto simp: same_rest_def sent_def split: if_splits)
  qed
qed

lemma logout_forgets_or_fails:
  assumes "inv (keychainState s)" and "au_logout (BackendAuthService E A K J) s = (r, s')"
    and "au_isAuthenticated (BackendAuthService E A K J) s' = (Inr b, s'')"
  shows "r = Inr () \<and> cachedToken s' = None \<and> sent s'' = sent s \<and>
    (if b then (\<exists>e. fst (ko_delete K accessTokenKey (keychainState s)) = Inl e) \<and>
       items (keychainState s'') = items (keychainState s) \<and>
       cachedToken s'' = Option.bind (items (keychainState s) accessTokenKey) (token_of_data J)
     else cachedToken s'' = None)"
proof -
  obtain k where f: "forgetToken K s = (Inr (), s\<lparr>cachedToken := None, keychainState := k\<rparr>)" "inv k"
    "if items k accessTokenKey = None then items k = (items (keychainState s))(accessTokenKey := None)
     else items k = items (keychainState s) \<and> (\<exists>e. fst (ko_delete K accessTokenKey (keychainState s)) = Inl e)"
    using forgetToken_cases [OF assms(1)] by metis
  then have s': "r = Inr ()" "s' = s\<lparr>cachedToken := None, keychainState := k\<rparr>"
    using assms(2) by (simp_all add: BackendAuthService_def)
  then have "inv (keychainState s')" using f by simp
  from isAuthenticated_cases [OF this, of E J] obtain k2 where k2: "items k2 = items k"
    "isAuthenticated E K J s' = (Inr False, s'\<lparr>keychainState := k2\<rparr>) \<or>
     (\<exists>t. isAuthenticated E K J s' = (Inr True, s'\<lparr>keychainState := k2, cachedToken := Some t\<rparr>) \<and>
        Option.bind (items k accessTokenKey) (token_of_data J) = Some t)"
    unfolding s' by auto
  have run: "isAuthenticated E K J s' = (Inr b, s'')" using assms(3) by (simp add: BackendAuthService_def)
  from k2(2) show ?thesis
  proof (elim disjE exE conjE)
    assume "isAuthenticated E K J s' = (Inr False, s'\<lparr>keychainState := k2\<rparr>)"
    with run s' show ?thesis by auto
  next
    fix t
    assume t: "isAuthenticated E K J s' = (Inr True, s'\<lparr>keychainState := k2, cachedToken := Some t\<rparr>)"
      "Option.bind (items k accessTokenKey) (token_of_data J) = Some t"
    then have "items k accessTokenKey \<noteq> None" by (cases "items k accessTokenKey") simp_all
    with f(3) have "items k = items (keychainState s)" "\<exists>e. fst (ko_delete K accessTokenKey (keychainState s)) = Inl e"
      by simp_all
    with t run s' k2(1) show ?thesis by auto
  qed
qed

end

sublocale security_framework \<subseteq> app: app_keychain "DefaultKeychainService B serviceID" items inv
  by (rule app_keychain.intro) (simp add: DefaultKeychainService_def keychain.keychain_service_axioms)

section \<open>What the other services rely on\<close>

text \<open>
  An attempt to get a token ends, with a token or an error but no trap; it leaves the cache alone and takes back
  no request. Signing out raises nothing.
\<close>

locale auth_contract =
  fixes A :: "'k app_state auth_service" and inv :: "'k app_state \<Rightarrow> bool"
  assumes token: "inv s \<Longrightarrow> au_getValidToken A s = (r, s') \<Longrightarrow>
      inv s' \<and> r \<noteq> Inl Trap \<and> appCache s' = appCache s \<and> (\<exists>rs. sent s' = sent s @ rs)"
    and sign_out: "inv s \<Longrightarrow> au_logout A s = (r', s') \<Longrightarrow>
      inv s' \<and> r' = Inr () \<and> appCache s' = appCache s \<and> sent s' = sent s"
    and frame: "inv s \<Longrightarrow> inv (s\<lparr>httpLog := w\<rparr>) \<and> inv (s\<lparr>appCache := c\<rparr>)"

context app_keychain
begin

lemma backend_contract: "auth_contract (BackendAuthService E A K J) (\<lambda>s. inv (keychainState s))"
proof
  show "inv (keychainState s') \<and> r \<noteq> Inl Trap \<and> appCache s' = appCache s \<and> (\<exists>rs. sent s' = sent s @ rs)"
    if i: "inv (keychainState s)" and run: "au_getValidToken (BackendAuthService E A K J) s = (r, s')" for s s' r
    using get_valid_token_cases [OF i run] by (auto simp: stores_def split: if_splits sum.splits)
  show "inv (keychainState s') \<and> r' = Inr () \<and> appCache s' = appCache s \<and> sent s' = sent s"
    if i: "inv (keychainState s)" and run: "au_logout (BackendAuthService E A K J) s = (r', s')" for s s' r'
    by (rule forgetToken_cases [OF i]) (use run in \<open>auto simp: BackendAuthService_def\<close>)
qed simp

end

interpretation mock: auth_contract "MockAuthService t0" "\<lambda>s. P (keychainState s)" for t0 P
  by unfold_locales (auto simp: MockAuthService_def)

interpretation backend: auth_contract "BackendAuthService E A (DefaultKeychainService InMemoryKeychainBackend serviceID) J"
    "\<lambda>s. memory_ok (keychainState s)" for E A serviceID J
  by (rule in_memory.app.backend_contract)

section \<open>Properties\<close>

text \<open>C20: A valid token comes from memory or the keychain, then it has more than a minute left and nothing is sent,
  or from one request to the backend. A token the backend gives is in memory and in the keychain when it is
  returned; after any failure memory holds what it held before, but nothing after a 401; no failure puts a token
  into the keychain. An address that is no URL is reported without a request.\<close>

theorem valid_token_cached_or_fetched:
  fixes inv :: "'k \<Rightarrow> bool"
  assumes "app_keychain K items inv" and "inv (keychainState s)"
    and "au_getValidToken (BackendAuthService E A K J) s = (r, s')"
  shows "inv (keychainState s') \<and> appCache s' = appCache s \<and>
    (if sent s' = sent s
     then items (keychainState s') = items (keychainState s) \<and> (case r of
         Inr t \<Rightarrow> usable (time E s) t \<and> cachedToken s' = Some t
       | Inl e \<Rightarrow> e = Partner (networkError ''Invalid backend URL'') \<and> cachedToken s' = cachedToken s)
     else sent s' = sent s @ [backend_request A] \<and>
       stores J (items (keychainState s)) (cachedToken s) r (items (keychainState s')) (cachedToken s'))"
  by (rule app_keychain.get_valid_token_cases [OF assms])

text \<open>A first launch: nothing is stored, the backend answers with a token.\<close>

definition sample_backend :: backend_auth where
  "sample_backend = \<lparr>backendBaseURL = ''http://localhost:8000'', apiKey = ''key'', userId = ''u1'',
     iso_frac = (\<lambda>_. Some 3600), iso_plain = (\<lambda>_. None)\<rparr>"

definition token_response :: http_response where
  "token_response = \<lparr>resp_status = 200, resp_headers = [], resp_body = '''',
     resp_json = Some (JObj [(''access_token'', JStr ''a''), (''token_type'', JStr ''Bearer''),
       (''expires_at'', JStr ''1970-01-01T01:00:00.000Z'')]), resp_raises = False\<rparr>"

definition fetched_token :: auth_token where
  "fetched_token = \<lparr>at_access_token = ''a'', at_refresh_token = '''', at_expires_at = 3600, at_scope = None,
     at_token_type = ''Bearer'', at_client_id = None\<rparr>"

definition sample_text :: json_text where
  "sample_text = \<lparr>jt_print = (\<lambda>_. ''token''), jt_parse = (\<lambda>_. Some (encode_auth_token fetched_token))\<rparr>"

abbreviation sample_ops :: "memory_backend keychain_ops" where
  "sample_ops \<equiv> DefaultKeychainService InMemoryKeychainBackend ''com.ringappletv''"

definition first_launch :: "memory_backend app_state" where
  "first_launch = \<lparr>cachedToken = None, keychainState = \<lparr>mb_store = (\<lambda>_. None), mb_nextAdd = None, mb_nextCopy = None,
     mb_nextDelete = None, mb_returnBadType = False\<rparr>, httpLog = \<lparr>hl_sent = [], hl_slept = []\<rparr>, appCache = empty_cache\<rparr>"

lemmas sample_keychain_run = DefaultKeychainService_def keychain_load_def keychain_save_def keychain_delete_def
  InMemoryKeychainBackend_def memory_copy_def memory_add_def memory_delete_def baseQuery_def errSecSuccess_def
  errSecItemNotFound_def

lemma first_launch_keychain:
  "ko_load sample_ops k (keychainState first_launch) = (Inr None, keychainState first_launch)"
  "ko_save sample_ops d k (keychainState first_launch) = (Inr (), (keychainState first_launch)
     \<lparr>mb_store := [storageKey (''com.ringappletv'', k) \<mapsto> d]\<rparr>)"
  by (simp_all add: sample_keychain_run first_launch_def)

lemma first_launch_token: "fetchTokenFromBackend E A K J s = valid_or E K J (fetchTokenFromBackend E A K J) s"
  if "cachedToken s = None" and "ko_load K accessTokenKey (keychainState s) = (Inr None, keychainState s)"
  using that by (simp add: valid_or_def loadTokenFromKeychain_def only_usable_def)

theorem valid_token_cached_or_fetched_witness:
  "\<exists>s'. au_getValidToken (BackendAuthService (constant_env (Http token_response)) sample_backend sample_ops sample_text)
       first_launch = (Inr fetched_token, s') \<and>
     sent s' = [backend_request sample_backend] \<and> cachedToken s' = Some fetched_token \<and>
     memory_items ''com.ringappletv'' (keychainState s') accessTokenKey = Some ''token''"
proof -
  let ?A = "BackendAuthService (constant_env (Http token_response)) sample_backend sample_ops sample_text"
  have none: "cachedToken first_launch = None" by (simp add: first_launch_def)
  obtain s' where run: "au_getValidToken ?A first_launch = (Inr fetched_token, s')" and ne: "sent s' \<noteq> sent first_launch"
  proof -
    have "he_url_ok (constant_env (Http token_response)) (rq_url (backend_request sample_backend))"
      by (simp add: constant_env_def sample_backend_def backend_request_def set_header_def plain_request_def)
    then have "\<exists>s'. fetchTokenFromBackend (constant_env (Http token_response)) sample_backend sample_ops sample_text first_launch =
        (Inr fetched_token, s') \<and> sent s' \<noteq> sent first_launch"
      by (simp add: fetch_answer backend_answer_def accept_backend_token_def storeToken_def first_launch_keychain
          token_response_def decode_backend_token_def decode_req_def backend_token_to_domain_def sample_backend_def
          fetched_token_def Let_def)
    then show ?thesis using that by (auto simp: BackendAuthService_def first_launch_keychain none simp flip: first_launch_token)
  qed
  have "memory_ok (keychainState first_launch)" by (simp add: memory_ok_def first_launch_def)
  from valid_token_cached_or_fetched [OF in_memory.app.app_keychain_axioms this run] ne run show ?thesis
    by (auto simp: stores_def stored_form_def sample_text_def sent_def first_launch_def)
qed

text \<open>C21: Signing out raises nothing and empties the memory. If the user counts as signed in again right after, the
  keychain has refused the deletion and its token is untouched: it is back in memory.\<close>

theorem sign_out_forgets_unless_refused:
  fixes inv :: "'k \<Rightarrow> bool"
  assumes "app_keychain K items inv" and "inv (keychainState s)" and "au_logout (BackendAuthService E A K J) s = (r, s')"
    and "au_isAuthenticated (BackendAuthService E A K J) s' = (Inr b, s'')"
  shows "r = Inr () \<and> cachedToken s' = None \<and> sent s'' = sent s \<and>
    (if b then (\<exists>e. fst (ko_delete K accessTokenKey (keychainState s)) = Inl e) \<and>
       items (keychainState s'') = items (keychainState s) \<and>
       cachedToken s'' = Option.bind (items (keychainState s) accessTokenKey) (token_of_data J)
     else cachedToken s'' = None)"
  by (rule app_keychain.logout_forgets_or_fails [OF assms])

text \<open>A keychain that refuses the deletion.\<close>

definition signed_in :: "memory_backend app_state" where
  "signed_in = first_launch\<lparr>cachedToken := Some fetched_token, keychainState :=
     \<lparr>mb_store = [storageKey (''com.ringappletv'', ''auth_token'') \<mapsto> ''token''], mb_nextAdd = None,
      mb_nextCopy = None, mb_nextDelete = Some (- 25308), mb_returnBadType = False\<rparr>\<rparr>"

theorem sign_out_forgets_unless_refused_witness:
  "\<exists>s' s''. au_logout (BackendAuthService (constant_env Not_Http) sample_backend sample_ops sample_text) signed_in = (Inr (), s') \<and>
     au_isAuthenticated (BackendAuthService (constant_env Not_Http) sample_backend sample_ops sample_text) s' = (Inr True, s'') \<and>
     cachedToken s' = None \<and> cachedToken s'' = Some fetched_token"
proof -
  let ?A = "BackendAuthService (constant_env Not_Http) sample_backend sample_ops sample_text"
  obtain s' s'' where run: "au_logout ?A signed_in = (Inr (), s')" "au_isAuthenticated ?A s' = (Inr True, s'')"
    by (simp add: sample_keychain_run BackendAuthService_def forgetToken_def isAuthenticated_def loadTokenFromKeychain_def signed_in_def first_launch_def accessTokenKey_def token_of_data_def sample_text_def
        fetched_token_def constant_env_def time_def isExpired_def try_opt_def catch_error_def catch_def zoom_def andThen_def)
  have "memory_ok (keychainState signed_in)" by (simp add: memory_ok_def signed_in_def)
  from sign_out_forgets_unless_refused [OF in_memory.app.app_keychain_axioms this run] run show ?thesis
    by (auto simp: memory_items_def signed_in_def accessTokenKey_def token_of_data_def sample_text_def)
qed

end
