(* ===== verification/App_Services.thy ===== *)
theory App_Services imports App_Auth "HOL-Library.Sublist" "HOL-Library.Multiset" begin

text \<open>
  The domain services of the app: devices, cached for five minutes, events and media
  (\<open>DefaultDeviceService.swift\<close>, \<open>DefaultEventService.swift\<close>, \<open>DefaultMediaService.swift\<close>), and the background
  refresh (\<open>BackgroundRefreshManager.swift\<close>). They use an \<open>auth_service\<close>, the partner client and the cache.
  Foundation's case folding, substring search and localized comparison are parameters.
\<close>

section \<open>Sorting\<close>

text \<open>
  \<open>sorted(by:)\<close> gives a stable sort by a strict order: an element goes before all that are not smaller.
\<close>

fun insert_by :: "('a \<Rightarrow> 'a \<Rightarrow> bool) \<Rightarrow> 'a \<Rightarrow> 'a list \<Rightarrow> 'a list" where
  "insert_by lt x [] = [x]"
| "insert_by lt x (y # ys) = (if lt y x then y # insert_by lt x ys else x # y # ys)"

definition sorted_by :: "('a \<Rightarrow> 'a \<Rightarrow> bool) \<Rightarrow> 'a list \<Rightarrow> 'a list" where
  "sorted_by lt xs = foldr (insert_by lt) xs []"

lemma mset_insert_by [simp]: "mset (insert_by lt x ys) = add_mset x (mset ys)"
  by (induction ys) auto

lemma mset_sorted_by [simp]: "mset (sorted_by lt xs) = mset xs"
  by (induction xs) (simp_all add: sorted_by_def)

lemma set_sorted_by [simp]: "set (sorted_by lt xs) = set xs"
  by (metis mset_sorted_by set_mset_mset)

lemma length_sorted_by [simp]: "length (sorted_by lt xs) = length xs"
  by (metis mset_sorted_by size_mset)

lemma sorted_by_empty [simp]: "sorted_by lt xs = [] \<longleftrightarrow> xs = []"
  by (metis length_sorted_by length_0_conv)

definition weak_order :: "('a \<Rightarrow> 'a \<Rightarrow> bool) \<Rightarrow> bool" where
  "weak_order lt \<longleftrightarrow> (\<forall>x y z. (lt x y \<longrightarrow> \<not> lt y x) \<and> (\<not> lt y x \<longrightarrow> \<not> lt z y \<longrightarrow> \<not> lt z x))"

lemma weak_orderD: "weak_order lt \<Longrightarrow> lt x y \<Longrightarrow> \<not> lt y x" "weak_order lt \<Longrightarrow> \<not> lt y x \<Longrightarrow> \<not> lt z y \<Longrightarrow> \<not> lt z x"
  unfolding weak_order_def by blast+

lemma weak_order_key: "weak_order (\<lambda>x y. f x < (f y :: 'b :: linorder))" "weak_order (\<lambda>x y. f y < (f x :: 'b :: linorder))"
  by (auto simp: weak_order_def)

lemma insert_by_ordered:
  assumes "weak_order lt" and "sorted_wrt (\<lambda>a b. \<not> lt b a) ys"
  shows "sorted_wrt (\<lambda>a b. \<not> lt b a) (insert_by lt x ys)"
  using assms(2)
proof (induction ys)
  case (Cons y ys)
  have set: "set (insert_by lt x ys) = insert x (set ys)" by (metis mset_insert_by set_mset_mset set_mset_add_mset_insert)
  show ?case
  proof (cases "lt y x")
    case True
    then show ?thesis using Cons weak_orderD(1) [OF assms(1) True] by (simp add: set)
  next
    case False
    then show ?thesis using Cons.prems weak_orderD(2) [OF assms(1) False] by auto
  qed
qed simp

lemma sorted_by_ordered: "weak_order lt \<Longrightarrow> sorted_wrt (\<lambda>a b. \<not> lt b a) (sorted_by lt xs)"
  by (induction xs) (simp_all add: sorted_by_def insert_by_ordered)

section \<open>Devices\<close>

datatype comparison_result = orderedAscending | orderedSame | orderedDescending

record text_ops =
  lowercased :: "string \<Rightarrow> string"
  text_contains :: "string \<Rightarrow> string \<Rightarrow> bool"
  localizedCaseInsensitiveCompare :: "string \<Rightarrow> string \<Rightarrow> comparison_result"

definition filterDevices :: "text_ops \<Rightarrow> app_device list \<Rightarrow> device_filter \<Rightarrow> app_device list" where
  "filterDevices T devices f = (case f of
     filter_all \<Rightarrow> devices
   | filter_name query \<Rightarrow> (let lowered = lowercased T query in
       filter (\<lambda>d. text_contains T (lowercased T (ad_name d)) lowered) devices)
   | filter_type t \<Rightarrow> filter (\<lambda>d. ad_device_type d = t) devices
   | filter_status st \<Rightarrow> (case st of online \<Rightarrow> filter ad_is_online devices
       | offline \<Rightarrow> filter (\<lambda>d. \<not> ad_is_online d) devices))"

definition device_before :: "text_ops \<Rightarrow> device_sort \<Rightarrow> app_device \<Rightarrow> app_device \<Rightarrow> bool" where
  "device_before T s a b = (case s of
     nameAscending \<Rightarrow> localizedCaseInsensitiveCompare T (ad_name a) (ad_name b) = orderedAscending
   | nameDescending \<Rightarrow> localizedCaseInsensitiveCompare T (ad_name a) (ad_name b) = orderedDescending
   | sort_type \<Rightarrow> device_type_raw (ad_device_type a) < device_type_raw (ad_device_type b)
   | sort_status \<Rightarrow> ad_is_online a \<and> \<not> ad_is_online b)"

definition sortDevices :: "text_ops \<Rightarrow> app_device list \<Rightarrow> device_sort \<Rightarrow> app_device list" where
  "sortDevices T devices s = sorted_by (device_before T s) devices"

text \<open>The synthesized \<open>Codable\<close> of \<open>RingDevice\<close>.\<close>

definition encode_device :: "app_device \<Rightarrow> json" where
  "encode_device d = JObj
     ([(''id'', JStr (ad_id d)), (''name'', JStr (ad_name d)), (''model'', JStr (ad_model d)),
       (''deviceType'', JStr (device_type_raw (ad_device_type d)))] @ opt_field ''firmwareVersion'' (ad_firmware_version d) @
      [(''powerSource'', JStr (case ad_power_source d of battery \<Rightarrow> ''battery'' | line \<Rightarrow> ''line'')),
       (''isOnline'', JBool (ad_is_online d))])"

definition decode_device :: "json \<Rightarrow> app_device option" where
  "decode_device j =
     Option.bind (decode_req json_string ''id'' j) (\<lambda>i.
     Option.bind (decode_req json_string ''name'' j) (\<lambda>n.
     Option.bind (decode_req json_string ''model'' j) (\<lambda>m.
     Option.bind (decode_req (\<lambda>v. Option.bind (json_string v) device_type_of_raw) ''deviceType'' j) (\<lambda>t.
     Option.bind (decode_opt json_string ''firmwareVersion'' j) (\<lambda>f.
     Option.bind (decode_req (\<lambda>v. Option.bind (json_string v) power_supply_of_raw) ''powerSource'' j) (\<lambda>p.
     Option.bind (decode_req json_bool ''isOnline'' j) (\<lambda>on.
     Some \<lparr>ad_id = i, ad_name = n, ad_model = m, ad_device_type = t, ad_firmware_version = f, ad_power_source = p,
           ad_is_online = on\<rparr>)))))))"

lemma device_type_of_raw_raw [simp]: "device_type_of_raw (device_type_raw t) = Some t"
  by (cases t) (simp_all add: device_type_of_raw_def device_types_def)

lemma decode_encode_device [simp]: "decode_device (encode_device d) = Some d"
  by (cases d; cases "ad_power_source d"; cases "ad_firmware_version d")
    (simp_all add: decode_device_def encode_device_def opt_field_def power_supply_of_raw_def)

definition devices_data :: "json_text \<Rightarrow> app_device list \<Rightarrow> string" where
  "devices_data J ds = jt_print J (JArr (map encode_device ds))"

definition devices_of_data :: "json_text \<Rightarrow> string \<Rightarrow> app_device list option" where
  "devices_of_data J d = Option.bind (jt_parse J d) (decode_list decode_device)"

definition devices_json :: "app_device list \<Rightarrow> json" where
  "devices_json ds = JArr (map encode_device ds)"

lemma decode_devices [simp]: "decode_list decode_device (devices_json ds) = Some ds"
  by (induction ds) (simp_all add: devices_json_def)

lemma devices_of_devices_data:
  "jt_parse J (devices_data J ds) = Some (devices_json ds) \<Longrightarrow> devices_of_data J (devices_data J ds) = Some ds"
  by (simp add: devices_of_data_def)

record 'k services =
  sv_env :: http_env
  sv_auth :: "'k app_state auth_service"
  sv_client :: partner_api_client
  sv_files :: file_manager
  sv_json :: json_text
  sv_iso8601 :: "string \<Rightarrow> real option"
  sv_text :: text_ops

definition deviceCacheKey :: string where "deviceCacheKey = ''ring_devices''"
definition deviceCacheTTL :: real where "deviceCacheTTL = 300"

definition keep_devices :: "'k services \<Rightarrow> app_device list \<Rightarrow> ('k, app_device list) app" where
  "keep_devices S devices = asks (\<lambda>s.
     andThen (try_opt (on_cache (cache_save (sv_files S) (time (sv_env S) s) (Inr (devices_data (sv_json S) devices))
       deviceCacheKey deviceCacheTTL))) (\<lambda>_. ret devices))"

definition fetchFromAPI :: "'k services \<Rightarrow> ('k, app_device list) app" where
  "fetchFromAPI S =
     andThen (au_getValidToken (sv_auth S)) (\<lambda>token.
     andThen (on_http (fetchDevices (sv_env S) (sv_client S) (at_access_token token))) (\<lambda>resources.
     keep_devices S (map device_to_domain resources)))"

definition ds_fetchDevices :: "'k services \<Rightarrow> ('k, app_device list) app" where
  "ds_fetchDevices S = asks (\<lambda>s.
     andThen (try_opt (on_cache (cache_load (sv_files S) (time (sv_env S) s) (devices_of_data (sv_json S)) deviceCacheKey)))
       (\<lambda>cached. case cached of Some (Some devices) \<Rightarrow> ret devices | _ \<Rightarrow> fetchFromAPI S))"

definition ds_refreshDevices :: "'k services \<Rightarrow> ('k, app_device list) app" where
  "ds_refreshDevices S = fetchFromAPI S"

section \<open>Events and media\<close>

definition es_maxEventCount :: nat where "es_maxEventCount = 50"

definition processEvents :: "app_event list \<Rightarrow> app_event list" where
  "processEvents events = take es_maxEventCount (sorted_by (\<lambda>a b. ae_created_at a > ae_created_at b) events)"

definition es_fetchEvents :: "'k services \<Rightarrow> string option \<Rightarrow> ('k, app_event list) app" where
  "es_fetchEvents S device =
     andThen (au_getValidToken (sv_auth S)) (\<lambda>token.
     case device of None \<Rightarrow> ret []
     | Some deviceId \<Rightarrow>
         andThen (on_http (fetchEvents (sv_env S) (sv_client S) deviceId (at_access_token token) (int es_maxEventCount)))
           (\<lambda>resources. asks (\<lambda>s. ret (processEvents (map (event_to_domain (sv_iso8601 S) (time (sv_env S) s)) resources)))))"

definition es_fetchEventVideoURL :: "'k services \<Rightarrow> app_event \<Rightarrow> ('k, string) app" where
  "es_fetchEventVideoURL S e =
     andThen (au_getValidToken (sv_auth S)) (\<lambda>token.
     on_http (downloadVideo (sv_env S) (sv_client S) (ae_device_id e) (ae_id e) (at_access_token token)))"

definition ms_downloadVideo :: "'k services \<Rightarrow> string \<Rightarrow> string \<Rightarrow> ('k, string) app" where
  "ms_downloadVideo S deviceId eventId =
     andThen (au_getValidToken (sv_auth S)) (\<lambda>token.
     on_http (downloadVideo (sv_env S) (sv_client S) deviceId eventId (at_access_token token)))"

definition ms_downloadSnapshot :: "'k services \<Rightarrow> string \<Rightarrow> ('k, string) app" where
  "ms_downloadSnapshot S deviceId =
     andThen (au_getValidToken (sv_auth S)) (\<lambda>token.
     on_http (downloadSnapshot (sv_env S) (sv_client S) deviceId (at_access_token token)))"

section \<open>Background refresh\<close>

definition maxDevicesPerRefresh :: nat where "maxDevicesPerRefresh = 10"

text \<open>The downloads of the group one after the other; an image is thrown away, a failure ignored.\<close>

fun download_group :: "'k services \<Rightarrow> app_device list \<Rightarrow> ('k, unit) app" where
  "download_group S [] = ret ()"
| "download_group S (d # ds) = andThen (try_opt (ms_downloadSnapshot S (ad_id d))) (\<lambda>_. download_group S ds)"

text \<open>What the task reports as its success.\<close>

definition handleBackgroundRefresh :: "'k services \<Rightarrow> ('k, bool) app" where
  "handleBackgroundRefresh S =
     catch_error
       (andThen (ds_fetchDevices S) (\<lambda>devices.
        andThen (download_group S (take maxDevicesPerRefresh devices)) (\<lambda>_. ret True)))
       (\<lambda>_. ret False)"

section \<open>Facts\<close>

definition disk_ok :: "file_manager \<Rightarrow> bool" where
  "disk_ok F \<longleftrightarrow> (\<forall>c. fm_create F c = None \<and> fm_write F c = None \<and> fm_read F c = None)"

lemma cache_save_ok:
  assumes "disk_ok F"
  obtains c' where "cache_save F now (Inr d) key ttl c = (Inr (), c')"
    "cacheFiles c' = (cacheFiles c)(fileURL key \<mapsto> Entry \<lparr>ce_data = d, ce_expiresAt = now + ttl\<rparr>)"
  using assms by (cases "cacheDirectory c") (auto simp: cache_save_def ensureCacheDirectory_def disk_ok_def)

lemma cache_save_not_trap: "fst (cache_save F now d key ttl c) \<noteq> Inl Trap"
  by (auto simp: cache_save_def ensureCacheDirectory_def andThen_def split: option.splits sum.splits)

lemma cache_save_frame:
  "cache_save F now d key ttl c = (r, c') \<Longrightarrow> f \<noteq> fileURL key \<Longrightarrow> cacheFiles c' f = cacheFiles c f"
  by (auto simp: cache_save_def ensureCacheDirectory_def andThen_def split: option.splits sum.splits if_splits)

lemma cache_load_not_trap: "fst (cache_load F now dec key c) \<noteq> Inl Trap"
  by (auto simp: cache_load_def split: option.splits cache_file.splits)

lemma try_load:
  "try_opt (on_cache (cache_load F now dec key)) s =
     (Inr (case fst (cache_load F now dec key (appCache s)) of Inr v \<Rightarrow> Some v | Inl _ \<Rightarrow> None), s)"
proof -
  obtain r where r: "cache_load F now dec key (appCache s) = (r, appCache s)"
    using cache_load_state [of F now dec key "appCache s"] by (metis prod.collapse)
  then have "r \<noteq> Inl Trap" using cache_load_not_trap [of F now dec key "appCache s"] by auto
  with r show ?thesis
    by (cases r) (auto simp: try_opt_def catch_error_def catch_def andThen_def)
qed

text \<open>The end of \<open>fetchFromAPI\<close>: the devices and the cache they leave.\<close>

lemma keep_devices:
  obtains r c' where "cache_save (sv_files S) (time (sv_env S) s) (Inr (devices_data (sv_json S) ds)) deviceCacheKey
      deviceCacheTTL (appCache s) = (r, c')" "keep_devices S ds s = (Inr ds, s\<lparr>appCache := c'\<rparr>)"
proof -
  obtain r c' where c': "cache_save (sv_files S) (time (sv_env S) s) (Inr (devices_data (sv_json S) ds)) deviceCacheKey
      deviceCacheTTL (appCache s) = (r, c')" by fastforce
  then have "r \<noteq> Inl Trap" by (metis cache_save_not_trap fst_conv)
  then have "keep_devices S ds s = (Inr ds, s\<lparr>appCache := c'\<rparr>)"
    using c' by (cases r) (auto simp: keep_devices_def try_opt_def catch_error_def catch_def andThen_def)
  with c' show ?thesis by (rule that)
qed

lemma fetchFromAPI_ok:
  assumes "fetchFromAPI S s = (Inr ds, s')"
  obtains s1 where "keep_devices S ds s1 = (Inr ds, s')"
proof -
  from assms obtain resources s1 where "keep_devices S (map device_to_domain resources) s1 = (Inr ds, s')"
    by (auto simp: fetchFromAPI_def andThen_Inr_iff simp del: on_parts)
  moreover from this have "map device_to_domain resources = ds"
    by (metis keep_devices prod.inject sum.inject(2))
  ultimately show ?thesis using that by blast
qed

lemma fetchDevices_cached:
  assumes "cacheFiles (appCache s) (fileURL deviceCacheKey) = Some (Entry e)" and "disk_ok (sv_files S)"
    and "devices_of_data (sv_json S) (ce_data e) = Some ds"
  shows "ds_fetchDevices S s = (if time (sv_env S) s < ce_expiresAt e then (Inr ds, s) else fetchFromAPI S s)"
  using assms by (simp add: ds_fetchDevices_def try_load cache_load_def disk_ok_def andThen_def)

locale app_services =
  fixes S :: "'k services" and inv :: "'k app_state \<Rightarrow> bool"
  assumes auth: "auth_contract (sv_auth S) inv"
begin

lemma with_token_http:
  assumes "inv s" and "andThen (au_getValidToken (sv_auth S)) (\<lambda>token. on_http (h token)) s = (r, s')"
  shows "inv s' \<and> appCache s' = appCache s"
proof -
  obtain r1 s1 where tok: "au_getValidToken (sv_auth S) s = (r1, s1)" by fastforce
  note t = auth_contract.token [OF auth assms(1) tok]
  have frame: "inv (s1\<lparr>httpLog := w\<rparr>)" for w
    using auth_contract.frame [OF auth, where s = s1 and w = w] t by simp
  show ?thesis using assms(2) tok t frame by (cases r1) (auto split: prod.splits)
qed

lemma fetchFromAPI_result:
  assumes "inv s" and "fetchFromAPI S s = (r, s')"
  shows "case r of
      Inr ds \<Rightarrow> \<exists>s1. appCache s1 = appCache s \<and> inv s1 \<and> keep_devices S ds s1 = (Inr ds, s')
    | Inl e \<Rightarrow> inv s' \<and> appCache s' = appCache s"
proof -
  define m where "m = andThen (au_getValidToken (sv_auth S))
    (\<lambda>token. on_http (fetchDevices (sv_env S) (sv_client S) (at_access_token token)))"
  have m: "fetchFromAPI S = andThen m (\<lambda>resources. keep_devices S (map device_to_domain resources))"
    by (simp add: fetchFromAPI_def m_def andThen_def fun_eq_iff split: prod.splits sum.splits)
  obtain r1 s1 where ms: "m s = (r1, s1)" by fastforce
  have f: "inv s1 \<and> appCache s1 = appCache s" by (rule with_token_http [OF assms(1) ms [unfolded m_def]])
  show ?thesis
  proof (cases r1)
    case (Inl e)
    with assms(2) ms f show ?thesis by (auto simp: m)
  next
    case (Inr resources)
    obtain c' where k: "keep_devices S (map device_to_domain resources) s1 =
        (Inr (map device_to_domain resources), s1\<lparr>appCache := c'\<rparr>)" by (metis keep_devices)
    have "keep_devices S (map device_to_domain resources) s1 = (r, s')" using assms(2) ms Inr by (simp add: m)
    with f k show ?thesis by auto
  qed
qed

end

lemma keep_devices_time: "keep_devices S ds s = (Inr ds', s') \<Longrightarrow> time E s' = time E s"
  by (metis keep_devices prod.inject sent_simps(3) time_cong)

context app_services
begin

text \<open>Only the entry of the device list changes; what a refresh in the background downloads is not kept.\<close>

definition only_devices :: "(string \<Rightarrow> cache_file option) \<Rightarrow> 'k app_state \<Rightarrow> bool" where
  "only_devices files s \<longleftrightarrow> inv s \<and> (\<forall>f. f = fileURL deviceCacheKey \<or> cacheFiles (appCache s) f = files f)"

lemma keeps_http: "keeps (only_devices files) (andThen (au_getValidToken (sv_auth S)) (\<lambda>token. on_http (h token)))"
  using with_token_http unfolding keeps_def only_devices_def by (metis prod.collapse)

lemma keeps_fetchFromAPI: "keeps (only_devices files) (fetchFromAPI S)"
  unfolding keeps_def
proof (intro allI impI)
  fix s
  assume o: "only_devices files s"
  obtain r s' where run: "fetchFromAPI S s = (r, s')" by fastforce
  have i: "inv s" using o by (simp add: only_devices_def)
  note res = fetchFromAPI_result [OF i run]
  show "only_devices files (snd (fetchFromAPI S s))"
  proof (cases r)
    case (Inl e)
    with res o run show ?thesis by (simp add: only_devices_def)
  next
    case (Inr ds)
    with res obtain s1 where s1: "appCache s1 = appCache s" "inv s1" "keep_devices S ds s1 = (Inr ds, s')" by auto
    obtain r2 c' where "cache_save (sv_files S) (time (sv_env S) s1) (Inr (devices_data (sv_json S) ds)) deviceCacheKey
        deviceCacheTTL (appCache s1) = (r2, c')" "s' = s1\<lparr>appCache := c'\<rparr>"
      using s1(3) by (metis keep_devices prod.inject)
    then show ?thesis
      using o run s1 cache_save_frame auth_contract.frame [OF auth s1(2)] unfolding only_devices_def by fastforce
  qed
qed

lemma keeps_try: "keeps (only_devices files) m \<Longrightarrow> keeps (only_devices files) (try_opt m)"
  unfolding try_opt_def catch_error_def by (intro keeps_catch keeps_andThen) simp_all

lemma keeps_download_group: "keeps (only_devices files) (download_group S ds)"
proof (induction ds)
  case Nil
  show ?case unfolding download_group.simps by (rule keeps_basic)
qed (simp add: keeps_andThen keeps_try ms_downloadSnapshot_def keeps_http)

lemma keeps_background_refresh: "keeps (only_devices files) (handleBackgroundRefresh S)"
proof -
  have "keeps (only_devices files) (ds_fetchDevices S)"
    unfolding ds_fetchDevices_def
    by (intro keeps_asks keeps_andThen)
      (auto simp: keeps_fetchFromAPI try_load keeps_def [of _ "try_opt _"] split: option.splits)
  then show ?thesis
    unfolding handleBackgroundRefresh_def catch_error_def
    by (intro keeps_catch keeps_andThen) (simp_all add: keeps_download_group)
qed

end

text \<open>A refresh that fails leaves the cache as it was.\<close>

lemma failed_refresh_keeps_cache:
  fixes inv :: "'k app_state \<Rightarrow> bool"
  assumes "app_services S inv" and "inv s" and "ds_refreshDevices S s = (Inl e, s')"
  shows "appCache s' = appCache s"
  using app_services.fetchFromAPI_result [OF assms(1,2), of "Inl e" s'] assms(3) by (simp add: ds_refreshDevices_def)

text \<open>C22: The devices of a successful refresh are what the next five minutes see: until then every fetch gives that
  list, without a request and without another change, and from then on a fetch asks the API again.\<close>

theorem devices_cached_five_minutes:
  assumes "ds_refreshDevices S s = (Inr ds, s')" and "disk_ok (sv_files S)"
    and "jt_parse (sv_json S) (devices_data (sv_json S) ds) = Some (devices_json ds)" and "appCache s'' = appCache s'"
  shows "ds_fetchDevices S s'' =
    (if time (sv_env S) s'' < time (sv_env S) s' + 300 then (Inr ds, s'') else fetchFromAPI S s'')"
proof -
  obtain s1 where k: "keep_devices S ds s1 = (Inr ds, s')"
    using fetchFromAPI_ok assms(1) unfolding ds_refreshDevices_def by metis
  obtain r c' where c: "cache_save (sv_files S) (time (sv_env S) s1) (Inr (devices_data (sv_json S) ds)) deviceCacheKey
      deviceCacheTTL (appCache s1) = (r, c')" "s' = s1\<lparr>appCache := c'\<rparr>"
    using k by (metis keep_devices prod.inject)
  obtain c2 where "cache_save (sv_files S) (time (sv_env S) s1) (Inr (devices_data (sv_json S) ds)) deviceCacheKey
      deviceCacheTTL (appCache s1) = (Inr (), c2)"
    "cacheFiles c2 = (cacheFiles (appCache s1))(fileURL deviceCacheKey \<mapsto>
       Entry \<lparr>ce_data = devices_data (sv_json S) ds, ce_expiresAt = time (sv_env S) s1 + deviceCacheTTL\<rparr>)"
    by (rule cache_save_ok [OF assms(2)])
  with c have "cacheFiles (appCache s'') (fileURL deviceCacheKey) =
      Some (Entry \<lparr>ce_data = devices_data (sv_json S) ds, ce_expiresAt = time (sv_env S) s' + deviceCacheTTL\<rparr>)"
    using assms(4) keep_devices_time [OF k, of "sv_env S"] by simp
  from fetchDevices_cached [OF this assms(2)] show ?thesis
    using devices_of_devices_data [OF assms(3)] by (simp add: deviceCacheTTL_def)
qed

text \<open>A refresh in mock mode that brings one camera.\<close>

definition sample_camera :: app_device where
  "sample_camera = \<lparr>ad_id = ''d1'', ad_name = ''Porch'', ad_model = ''stickup_cam'', ad_device_type = stickupCam,
     ad_firmware_version = None, ad_power_source = line, ad_is_online = True\<rparr>"

definition camera_response :: http_response where
  "camera_response = \<lparr>resp_status = 200, resp_headers = [], resp_body = '''',
     resp_json = Some (JObj [(''data'', JArr [JObj [(''id'', JStr ''d1''), (''type'', JStr ''devices''),
       (''attributes'', JObj [(''name'', JStr ''Porch''), (''model'', JStr ''stickup_cam''),
         (''power_source'', JStr ''line''), (''status'', JStr ''online'')])]])]), resp_raises = False\<rparr>"

definition sample_ops_of_text :: text_ops where
  "sample_ops_of_text = \<lparr>lowercased = lower, text_contains = (\<lambda>s q. contains q s),
     localizedCaseInsensitiveCompare = (\<lambda>a b. if lower a < lower b then orderedAscending
       else if lower a = lower b then orderedSame else orderedDescending)\<rparr>"

definition sample_services :: "http_response \<Rightarrow> memory_backend services" where
  "sample_services resp = \<lparr>sv_env = constant_env (Http resp), sv_auth = MockAuthService 0,
     sv_client = new_client oauthBaseURL partnerAPIBaseURL, sv_files = sample_files,
     sv_json = \<lparr>jt_print = (\<lambda>_. ''cameras''), jt_parse = (\<lambda>_. Some (devices_json [sample_camera]))\<rparr>,
     sv_iso8601 = (\<lambda>_. None), sv_text = sample_ops_of_text\<rparr>"

lemma perform_ok:
  assumes "he_session E (hl_sent w) req = Http resp" and "resp_status resp = 200"
    and "Option.bind (resp_json resp) dec = Some x"
  shows "perform E C dec a req w = (Inr x, w\<lparr>hl_sent := hl_sent w @ [req]\<rparr>)"
  using assms
  by (simp add: perform_def executeWithRetry_def execute_loop_return check_status_def mapStatusCode_def andThen_def)

lemma sample_refresh: "\<exists>s'. ds_refreshDevices (sample_services camera_response) first_launch = (Inr [sample_camera], s')"
proof -
  let ?S = "sample_services camera_response"
  let ?d = "\<lparr>pd_id = ''d1'', pd_type = ''devices'', pd_attributes = \<lparr>pa_name = ''Porch'', pa_model = ''stickup_cam'',
      pa_firmware_version = None, pa_power_source = ''line'', pa_status = Some ''online''\<rparr>\<rparr>"
  have dec: "Option.bind (resp_json camera_response) decode_device_list = Some [?d]"
    by (simp add: camera_response_def decode_device_list_def decode_req_def decode_device_resource_def
        decode_device_attributes_def decode_opt_def)
  have dom: "device_to_domain ?d = sample_camera"
    by (simp add: device_to_domain_def sample_camera_def device_type_of_raw_def device_types_def power_supply_of_raw_def)
  have "\<exists>w'. fetchDevices (sv_env ?S) (sv_client ?S) t w = (Inr [?d], w')" for t w
    using dec by (simp add: fetchDevices_def url_def sample_services_def constant_env_def perform_ok camera_response_def andThen_def)
  then obtain w' where net: "fetchDevices (sv_env ?S) (sv_client ?S) (at_access_token (dummyToken 0)) (httpLog first_launch)
      = (Inr [?d], w')" by blast
  obtain s' where "keep_devices ?S [sample_camera] (first_launch\<lparr>httpLog := w'\<rparr>) = (Inr [sample_camera], s')"
    by (metis keep_devices)
  moreover have "au_getValidToken (sv_auth ?S) first_launch = (Inr (dummyToken 0), first_launch)"
    by (simp add: sample_services_def MockAuthService_def)
  ultimately show ?thesis using net dom by (simp add: ds_refreshDevices_def fetchFromAPI_def andThen_def)
qed

theorem devices_cached_five_minutes_witness:
  "\<exists>s'. ds_refreshDevices (sample_services camera_response) first_launch = (Inr [sample_camera], s') \<and>
     ds_fetchDevices (sample_services camera_response) s' = (Inr [sample_camera], s')"
proof -
  obtain s' where s': "ds_refreshDevices (sample_services camera_response) first_launch = (Inr [sample_camera], s')"
    using sample_refresh by blast
  have "disk_ok (sv_files (sample_services camera_response))"
    by (simp add: disk_ok_def sample_services_def sample_files_def)
  from devices_cached_five_minutes [OF s' this _ refl] s' show ?thesis
    by (simp add: sample_services_def)
qed

text \<open>The events shown are the newest: at most fifty, newest first, and none left out is newer than one shown.\<close>

theorem events_are_the_newest:
  "let shown = processEvents evs in
     length shown = min 50 (length evs) \<and>
     sorted_wrt (\<lambda>a b. ae_created_at b \<le> ae_created_at a) shown \<and>
     (\<exists>rest. mset evs = mset shown + mset rest \<and>
        list_all (\<lambda>a. list_all (\<lambda>b. ae_created_at b \<le> ae_created_at a) rest) shown)"
proof -
  define all where "all = sorted_by (\<lambda>a b. ae_created_at a > ae_created_at b) evs"
  have o: "sorted_wrt (\<lambda>a b. ae_created_at b \<le> ae_created_at a) all"
    using sorted_by_ordered [OF weak_order_key(2) [of ae_created_at], of evs] by (simp add: all_def not_less)
  have shown: "processEvents evs = take 50 all" by (simp add: processEvents_def all_def es_maxEventCount_def)
  have "sorted_wrt (\<lambda>a b. ae_created_at b \<le> ae_created_at a) (take 50 all @ drop 50 all)" using o by simp
  then have "sorted_wrt (\<lambda>a b. ae_created_at b \<le> ae_created_at a) (take 50 all)"
    "list_all (\<lambda>a. list_all (\<lambda>b. ae_created_at b \<le> ae_created_at a) (drop 50 all)) (take 50 all)"
    unfolding sorted_wrt_append by (auto simp: list_all_iff)
  moreover have "mset evs = mset (take 50 all) + mset (drop 50 all)"
    by (simp add: all_def flip: mset_append)
  moreover have "length (take 50 all) = min 50 (length evs)" by (simp add: all_def min.commute)
  ultimately show ?thesis unfolding shown Let_def by blast
qed

section \<open>The container\<close>

text \<open>
  \<open>ServiceContainer.swift\<close>: which services a configuration gets. The framework's parts are the arguments;
  \<open>t0\<close> is the time the container is made.
\<close>

definition makeInfrastructure :: "app_configuration \<Rightarrow> partner_api_client" where
  "makeInfrastructure cfg =
     (if useMocks cfg then new_client (authBackendBaseURL cfg) (authBackendBaseURL cfg @ ''/mock'')
      else new_client oauthBaseURL partnerAPIBaseURL)"

definition makeAuthService ::
  "app_configuration \<Rightarrow> http_env \<Rightarrow> (string \<Rightarrow> real option) \<Rightarrow> (string \<Rightarrow> real option) \<Rightarrow> 'k keychain_ops \<Rightarrow> json_text \<Rightarrow> real \<Rightarrow>
     'k app_state auth_service" where
  "makeAuthService cfg E isoFrac isoPlain K J t0 =
     (if useMocks cfg then MockAuthService t0
      else BackendAuthService E \<lparr>backendBaseURL = authBackendBaseURL cfg, apiKey = authBackendAPIKey cfg,
        userId = authBackendUserId cfg, iso_frac = isoFrac, iso_plain = isoPlain\<rparr> K J)"

definition makeDomainServices ::
  "app_configuration \<Rightarrow> http_env \<Rightarrow> (string \<Rightarrow> real option) \<Rightarrow> (string \<Rightarrow> real option) \<Rightarrow> 'k keychain_ops \<Rightarrow> file_manager \<Rightarrow>
     json_text \<Rightarrow> text_ops \<Rightarrow> real \<Rightarrow> 'k services" where
  "makeDomainServices cfg E isoFrac isoPlain K F J T t0 =
     \<lparr>sv_env = E, sv_auth = makeAuthService cfg E isoFrac isoPlain K J t0, sv_client = makeInfrastructure cfg,
      sv_files = F, sv_json = J, sv_iso8601 = isoPlain, sv_text = T\<rparr>"

context app_keychain
begin

lemma container_contract:
  "app_services (makeDomainServices cfg E isoFrac isoPlain K F J T t0) (\<lambda>s. inv (keychainState s))"
  by (simp add: app_services_def makeDomainServices_def makeAuthService_def backend_contract mock.auth_contract_axioms)

end

interpretation container: app_services
    "makeDomainServices cfg E isoFrac isoPlain (DefaultKeychainService InMemoryKeychainBackend serviceID) F J T t0"
    "\<lambda>s. memory_ok (keychainState s)" for cfg E isoFrac isoPlain serviceID F J T t0
  by (rule in_memory.app.container_contract)

end
