(* ===== verification/View_Models.thy ===== *)
theory View_Models imports App_Services Stream_Manager begin

text \<open>
  The view models, \<open>ViewModels/*.swift\<close>: what the screens show and how actions and answers change it. The
  sign-in and the event list run one call at a time; the dashboard has a background task of its own, so its
  calls interleave at every \<open>await\<close> and it is a step relation; the player runs on the stream manager's steps.
  \<open>loc\<close> is \<open>localizedDescription\<close>.
\<close>

definition view_error :: "(client_error \<Rightarrow> string) \<Rightarrow> client_error \<Rightarrow> 'a view_state" where
  "view_error loc e = error (case e of Partner p \<Rightarrow> userMessage p | _ \<Rightarrow> loc e)"

text \<open>A view model on the state of the services.\<close>

type_synonym ('s, 'v) view = "('s \<times> 'v, client_error, unit) prog"

definition on_service :: "('s, client_error, 'a) prog \<Rightarrow> ('s \<times> 'v, client_error, 'a) prog" where
  "on_service = zoom fst (\<lambda>s sv. (s, snd sv))"

definition show_view :: "('v \<Rightarrow> 'v) \<Rightarrow> ('s, 'v) view" where
  "show_view f = modify (\<lambda>(s, v). (s, f v))"

lemma view_parts [simp]:
  "on_service m sv = (case m (fst sv) of (r, s) \<Rightarrow> (r, (s, snd sv)))" "show_view f sv = (Inr (), (fst sv, f (snd sv)))"
  by (simp_all add: on_service_def zoom_def show_view_def split: prod.splits)

section \<open>Sign-in\<close>

record auth_view =
  av_state :: "auth_token view_state"
  setupInstructionsVisible :: bool

definition av_isAuthenticated :: "auth_view \<Rightarrow> bool" where
  "av_isAuthenticated v = (case av_state v of loaded _ \<Rightarrow> True | _ \<Rightarrow> False)"

definition showSetupInstructions :: "auth_view \<Rightarrow> auth_view" where
  "showSetupInstructions v = v\<lparr>setupInstructionsVisible := True\<rparr>"

definition checkBackendForToken :: "'s auth_service \<Rightarrow> (client_error \<Rightarrow> string) \<Rightarrow> ('s, auth_view) view" where
  "checkBackendForToken A loc =
     andThen (show_view (\<lambda>v. v\<lparr>av_state := loading\<rparr>)) (\<lambda>_.
     catch_error
       (andThen (on_service (au_fetchTokenFromBackend A)) (\<lambda>token.
        show_view (\<lambda>v. v\<lparr>av_state := loaded token, setupInstructionsVisible := False\<rparr>)))
       (\<lambda>e. show_view (\<lambda>v. v\<lparr>av_state := view_error loc e\<rparr>)))"

definition av_logout :: "'s auth_service \<Rightarrow> ('s, auth_view) view" where
  "av_logout A = andThen (on_service (au_logout A)) (\<lambda>_.
     show_view (\<lambda>v. v\<lparr>av_state := idle, setupInstructionsVisible := False\<rparr>))"

definition checkExistingAuth :: "'s auth_service \<Rightarrow> ('s, auth_view) view" where
  "checkExistingAuth A =
     andThen (on_service (au_isAuthenticated A)) (\<lambda>b.
     if \<not> b then ret ()
     else andThen (show_view (\<lambda>v. v\<lparr>av_state := loading\<rparr>)) (\<lambda>_.
       catch_error
         (andThen (on_service (au_getValidToken A)) (\<lambda>token. show_view (\<lambda>v. v\<lparr>av_state := loaded token\<rparr>)))
         (\<lambda>_. show_view (\<lambda>v. v\<lparr>av_state := idle\<rparr>))))"

section \<open>Events\<close>

record events_view =
  ev_state :: "app_event list view_state"
  hasRingProtect :: bool

definition loadEvents :: "'k services \<Rightarrow> (client_error \<Rightarrow> string) \<Rightarrow> string option \<Rightarrow> ('k app_state, events_view) view" where
  "loadEvents S loc deviceId =
     andThen (show_view (\<lambda>v. v\<lparr>ev_state := loading\<rparr>)) (\<lambda>_.
     catch_error
       (andThen (on_service (es_fetchEvents S deviceId)) (\<lambda>events.
        show_view (\<lambda>v. v\<lparr>ev_state := if events = []
          then empty (if hasRingProtect v then ''No events recorded yet.''
            else ''Ring Protect subscription required to view event history.'')
          else loaded events\<rparr>)))
       (\<lambda>e. show_view (\<lambda>v. v\<lparr>ev_state := view_error loc e\<rparr>)))"

definition ev_refresh :: "'k services \<Rightarrow> (client_error \<Rightarrow> string) \<Rightarrow> string option \<Rightarrow> ('k app_state, events_view) view" where
  "ev_refresh = loadEvents"

section \<open>The dashboard\<close>

text \<open>A background task sleeps, waits for the devices or for their snapshots.\<close>

datatype refresh_phase = Sleeping | Fetching | Snapshotting

record dashboard =
  dv_state :: "app_device list view_state"
  currentFilter :: device_filter
  currentSort :: device_sort
  snapshots :: "string \<Rightarrow> string option"
  allDevices :: "app_device list"
  refreshTask :: "nat option"
  refresh_tasks :: "nat \<Rightarrow> refresh_phase option"
  refresh_cancelled :: "nat list"
  refresh_next :: nat

definition DashboardViewModel :: dashboard where
  "DashboardViewModel = \<lparr>dv_state = idle, currentFilter = filter_all, currentSort = nameAscending,
     snapshots = (\<lambda>_. None), allDevices = [], refreshTask = None, refresh_tasks = (\<lambda>_. None),
     refresh_cancelled = [], refresh_next = 0\<rparr>"

definition applyFilterAndSort :: "text_ops \<Rightarrow> dashboard \<Rightarrow> dashboard" where
  "applyFilterAndSort T v =
     (let filtered = filterDevices T (allDevices v) (currentFilter v);
          sorted = sortDevices T filtered (currentSort v)
      in v\<lparr>dv_state := if sorted = [] then empty ''No devices found.'' else loaded sorted\<rparr>)"

definition cancelRefresh :: "dashboard \<Rightarrow> dashboard" where
  "cancelRefresh v = (case refreshTask v of None \<Rightarrow> v | Some t \<Rightarrow> v\<lparr>refresh_cancelled := t # refresh_cancelled v\<rparr>)"

definition startBackgroundRefresh :: "dashboard \<Rightarrow> dashboard" where
  "startBackgroundRefresh v = (let t = refresh_next v in
     (cancelRefresh v)\<lparr>refreshTask := Some t, refresh_tasks := (refresh_tasks v)(t \<mapsto> Sleeping), refresh_next := t + 1\<rparr>)"

definition stopBackgroundRefresh :: "dashboard \<Rightarrow> dashboard" where
  "stopBackgroundRefresh v = (cancelRefresh v)\<lparr>refreshTask := None\<rparr>"

definition keepSnapshots :: "(string \<times> string option) list \<Rightarrow> dashboard \<Rightarrow> dashboard" where
  "keepSnapshots results v =
     v\<lparr>snapshots := fold (\<lambda>(d, data) m. case data of None \<Rightarrow> m | Some x \<Rightarrow> m(d \<mapsto> x)) results (snapshots v)\<rparr>"

definition showDevices :: "text_ops \<Rightarrow> app_device list \<Rightarrow> dashboard \<Rightarrow> dashboard" where
  "showDevices T devices v = applyFilterAndSort T (v\<lparr>allDevices := devices\<rparr>)"

text \<open>
  The parts of \<open>loadDevices\<close> and \<open>refresh\<close> between their awaits, the two selections, and the background task:
  it wakes, its devices arrive, its snapshots arrive; at the head of its loop it ends when it is cancelled.
\<close>

datatype dash_event =
    Load_Begin
  | Load_Devices "client_error + app_device list"
  | Load_Snapshots "(string \<times> string option) list"
  | Refresh_Begin
  | Refresh_Devices "client_error + app_device list"
  | applyFilter device_filter
  | applySort device_sort
  | Stop_Refresh
  | Task_Wake nat
  | Task_Devices nat "client_error + app_device list"
  | Task_Snapshots nat "(string \<times> string option) list"

definition set_phase :: "nat \<Rightarrow> refresh_phase option \<Rightarrow> dashboard \<Rightarrow> dashboard" where
  "set_phase t p v = v\<lparr>refresh_tasks := (refresh_tasks v)(t := p)\<rparr>"

definition next_round :: "nat \<Rightarrow> dashboard \<Rightarrow> dashboard" where
  "next_round t v = set_phase t (if t \<in> set (refresh_cancelled v) then None else Some Sleeping) v"

definition dash_step :: "text_ops \<Rightarrow> (client_error \<Rightarrow> string) \<Rightarrow> dash_event \<Rightarrow> dashboard \<Rightarrow> dashboard option" where
  "dash_step T loc ev v = (case ev of
     Load_Begin \<Rightarrow> Some (v\<lparr>dv_state := loading\<rparr>)
   | Load_Devices r \<Rightarrow> Some (case r of Inr ds \<Rightarrow> showDevices T ds v | Inl e \<Rightarrow> v\<lparr>dv_state := view_error loc e\<rparr>)
   | Load_Snapshots results \<Rightarrow> Some (startBackgroundRefresh (keepSnapshots results v))
   | Refresh_Begin \<Rightarrow> Some (v\<lparr>dv_state := loading\<rparr>)
   | Refresh_Devices r \<Rightarrow> Some (case r of Inr ds \<Rightarrow> showDevices T ds v | Inl e \<Rightarrow> v\<lparr>dv_state := view_error loc e\<rparr>)
   | applyFilter f \<Rightarrow> Some (applyFilterAndSort T (v\<lparr>currentFilter := f\<rparr>))
   | applySort s \<Rightarrow> Some (applyFilterAndSort T (v\<lparr>currentSort := s\<rparr>))
   | Stop_Refresh \<Rightarrow> Some (stopBackgroundRefresh v)
   | Task_Wake t \<Rightarrow> (if refresh_tasks v t = Some Sleeping
       then Some (set_phase t (if t \<in> set (refresh_cancelled v) then None else Some Fetching) v) else None)
   | Task_Devices t r \<Rightarrow> (if refresh_tasks v t = Some Fetching
       then Some (case r of Inr ds \<Rightarrow> set_phase t (Some Snapshotting) (showDevices T ds v) | Inl _ \<Rightarrow> next_round t v)
       else None)
   | Task_Snapshots t results \<Rightarrow> (if refresh_tasks v t = Some Snapshotting
       then Some (next_round t (keepSnapshots results v)) else None))"

inductive dash_reachable :: "text_ops \<Rightarrow> (client_error \<Rightarrow> string) \<Rightarrow> dashboard \<Rightarrow> bool" for T loc where
  dash_new: "dash_reachable T loc DashboardViewModel"
| dash_next: "dash_reachable T loc v \<Longrightarrow> dash_step T loc ev v = Some v' \<Longrightarrow> dash_reachable T loc v'"

section \<open>The player\<close>

record player =
  pv_state :: "app_stream_session view_state"
  isPlaying :: bool
  pv_connectionState :: connection_state
  pv_videoTrack :: "nat option"
  streamSessionManager :: "sm_world option"
  lastDeviceId :: "string option"
  lastPowerSource :: "power_supply option"
  pv_requests :: "nat \<Rightarrow> (string \<times> power_supply) option"
  pv_stops :: nat

definition placeholderMockSessionURL :: string where
  "placeholderMockSessionURL = ''https://mock.local/session''"

definition placeholderLiveSessionURL :: string where
  "placeholderLiveSessionURL = ''https://api.amazonvision.com/v1/session''"

definition show_session :: "string \<Rightarrow> string \<Rightarrow> power_supply \<Rightarrow> real \<Rightarrow> player \<Rightarrow> player" where
  "show_session u d p now v = v\<lparr>isPlaying := True,
     pv_state := loaded \<lparr>ss_device_id = d, ss_session_url = u, ss_power_source = p, ss_created_at = now\<rparr>\<rparr>"

text \<open>\<open>startStream\<close> of the manager has returned.\<close>

definition request_done :: "(client_error \<Rightarrow> string) \<Rightarrow> string \<Rightarrow> power_supply \<Rightarrow> real \<Rightarrow> client_error + unit \<Rightarrow> player \<Rightarrow> player" where
  "request_done loc d p now r v = (case r of
     Inr _ \<Rightarrow> show_session placeholderLiveSessionURL d p now v
   | Inl e \<Rightarrow> v\<lparr>pv_state := view_error loc e\<rparr>)"

text \<open>\<open>now\<close> is the time of a player without a manager.\<close>

definition requestStream :: "(client_error \<Rightarrow> string) \<Rightarrow> real \<Rightarrow> string \<Rightarrow> power_supply \<Rightarrow> player \<Rightarrow> player" where
  "requestStream loc now d p v =
     (let v1 = v\<lparr>lastDeviceId := Some d, lastPowerSource := Some p, pv_state := loading, isPlaying := False\<rparr> in
      case streamSessionManager v1 of
        None \<Rightarrow> show_session placeholderMockSessionURL d p now v1
      | Some m \<Rightarrow>
          (let m' = startStream d p m; v2 = v1\<lparr>streamSessionManager := Some m'\<rparr> in
           if returned m' = returned m then v2\<lparr>pv_requests := (pv_requests v2)(next_id m \<mapsto> (d, p))\<rparr>
           else request_done loc d p (clock m') (last (returned m')) v2))"

definition togglePlayPause :: "player \<Rightarrow> player" where
  "togglePlayPause v = (case pv_state v of loaded _ \<Rightarrow> v\<lparr>isPlaying := \<not> isPlaying v\<rparr> | _ \<Rightarrow> v)"

definition retry :: "(client_error \<Rightarrow> string) \<Rightarrow> real \<Rightarrow> player \<Rightarrow> player" where
  "retry loc now v = (case (lastDeviceId v, lastPowerSource v) of
     (Some d, Some p) \<Rightarrow> requestStream loc now d p v | _ \<Rightarrow> v)"

text \<open>
  \<open>Stop\<close> starts a task that calls the manager; \<open>Manager\<close> is a step of the manager, after which the
  \<open>requestStream\<close> whose start has ended goes on; \<open>Publish\<close> delivers what the manager publishes.
\<close>

datatype player_event = Request string power_supply | Retry | Toggle | Stop | Run_Stop | Manager event | Publish

definition resume_request :: "(client_error \<Rightarrow> string) \<Rightarrow> sm_world \<Rightarrow> player \<Rightarrow> player" where
  "resume_request loc m' v =
     (case List.find (\<lambda>t. pv_requests v t \<noteq> None \<and> tasks m' t = None) [0..<next_id m'] of
        None \<Rightarrow> v
      | Some t \<Rightarrow> (case pv_requests v t of None \<Rightarrow> v
          | Some (d, p) \<Rightarrow> request_done loc d p (clock m') (last (returned m'))
              (v\<lparr>pv_requests := (pv_requests v)(t := None)\<rparr>)))"

definition player_step ::
  "sm_env \<Rightarrow> (client_error \<Rightarrow> string) \<Rightarrow> real \<Rightarrow> player_event \<Rightarrow> player \<Rightarrow> player option" where
  "player_step E loc now ev v = (case ev of
     Request d p \<Rightarrow> Some (requestStream loc now d p v)
   | Retry \<Rightarrow> Some (retry loc now v)
   | Toggle \<Rightarrow> Some (togglePlayPause v)
   | Stop \<Rightarrow> Some (v\<lparr>pv_stops := pv_stops v + 1, isPlaying := False\<rparr>)
   | Run_Stop \<Rightarrow> (case (pv_stops v, streamSessionManager v) of
       (Suc n, Some m) \<Rightarrow> map_option (\<lambda>m'. v\<lparr>pv_stops := n, streamSessionManager := Some m'\<rparr>) (sm_step E Call_Stop m)
     | (Suc n, None) \<Rightarrow> Some (v\<lparr>pv_stops := n\<rparr>)
     | _ \<Rightarrow> None)
   | Manager ev \<Rightarrow> (case streamSessionManager v of None \<Rightarrow> None
       | Some m \<Rightarrow> map_option (\<lambda>m'. resume_request loc m' (v\<lparr>streamSessionManager := Some m'\<rparr>)) (sm_step E ev m))
   | Publish \<Rightarrow> map_option (\<lambda>m. v\<lparr>pv_connectionState := connectionState m, pv_videoTrack := videoTrack m\<rparr>)
       (streamSessionManager v))"

fun player_run :: "sm_env \<Rightarrow> (client_error \<Rightarrow> string) \<Rightarrow> real \<Rightarrow> player_event list \<Rightarrow> player \<Rightarrow> player option" where
  "player_run E loc now [] v = Some v"
| "player_run E loc now (e # es) v = (case player_step E loc now e v of None \<Rightarrow> None | Some v' \<Rightarrow> player_run E loc now es v')"

definition PlayerViewModel :: "sm_world option \<Rightarrow> player" where
  "PlayerViewModel m = \<lparr>pv_state = idle, isPlaying = False, pv_connectionState = disconnected, pv_videoTrack = None,
     streamSessionManager = m, lastDeviceId = None, lastPowerSource = None, pv_requests = (\<lambda>_. None), pv_stops = 0\<rparr>"

section \<open>Invariants of the dashboard\<close>

text \<open>
  What is shown is the selection from the devices; of the background tasks only the current one is not
  cancelled.
\<close>

definition shows_selection :: "text_ops \<Rightarrow> dashboard \<Rightarrow> bool" where
  "shows_selection T v = (let filtered = filterDevices T (allDevices v) (currentFilter v) in
     case dv_state v of
       loaded ds \<Rightarrow> ds \<noteq> [] \<and> ds = sortDevices T filtered (currentSort v) \<and> mset ds = mset filtered
     | empty _ \<Rightarrow> filtered = []
     | _ \<Rightarrow> True)"

definition one_refresh :: "dashboard \<Rightarrow> bool" where
  "one_refresh v \<longleftrightarrow>
     (\<forall>t. refresh_tasks v t \<noteq> None \<longrightarrow> t < refresh_next v \<and> (t \<in> set (refresh_cancelled v) \<or> refreshTask v = Some t)) \<and>
     (\<forall>t \<in> set (refresh_cancelled v). t < refresh_next v) \<and>
     (\<forall>t. refreshTask v = Some t \<longrightarrow> t < refresh_next v \<and> t \<notin> set (refresh_cancelled v))"

lemma selection_apply [simp]: "shows_selection T (applyFilterAndSort T v)"
  by (simp add: shows_selection_def applyFilterAndSort_def Let_def sortDevices_def)

lemma selection_show [simp]: "shows_selection T (showDevices T ds v)"
  by (simp add: showDevices_def)

lemma selection_cong:
  "dv_state v' = dv_state v \<Longrightarrow> allDevices v' = allDevices v \<Longrightarrow> currentFilter v' = currentFilter v \<Longrightarrow>
     currentSort v' = currentSort v \<Longrightarrow> shows_selection T v' = shows_selection T v"
  by (simp add: shows_selection_def Let_def cong: view_state.case_cong)

lemma selection_parts [simp]:
  "shows_selection T (set_phase t p v) = shows_selection T v" "shows_selection T (next_round t v) = shows_selection T v"
  "shows_selection T (keepSnapshots rs v) = shows_selection T v" "shows_selection T (startBackgroundRefresh v) = shows_selection T v"
  "shows_selection T (stopBackgroundRefresh v) = shows_selection T v"
  by (rule selection_cong; simp add: set_phase_def next_round_def keepSnapshots_def startBackgroundRefresh_def
      stopBackgroundRefresh_def cancelRefresh_def Let_def split: option.split)+

lemma selection_step: "dash_step T loc ev v = Some v' \<Longrightarrow> shows_selection T v \<Longrightarrow> shows_selection T v'"
  by (cases ev) (auto simp: dash_step_def shows_selection_def [of T "v\<lparr>dv_state := _\<rparr>"] view_error_def
      split: sum.splits if_splits)

lemma refresh_parts [simp]:
  "refresh_tasks (showDevices T ds v) = refresh_tasks v" "refresh_cancelled (showDevices T ds v) = refresh_cancelled v"
  "refreshTask (showDevices T ds v) = refreshTask v" "refresh_next (showDevices T ds v) = refresh_next v"
  "refresh_tasks (applyFilterAndSort T v) = refresh_tasks v" "refresh_cancelled (applyFilterAndSort T v) = refresh_cancelled v"
  "refreshTask (applyFilterAndSort T v) = refreshTask v" "refresh_next (applyFilterAndSort T v) = refresh_next v"
  "refresh_tasks (keepSnapshots rs v) = refresh_tasks v" "refresh_cancelled (keepSnapshots rs v) = refresh_cancelled v"
  "refreshTask (keepSnapshots rs v) = refreshTask v" "refresh_next (keepSnapshots rs v) = refresh_next v"
  by (simp_all add: showDevices_def applyFilterAndSort_def keepSnapshots_def Let_def)

lemma one_refresh_cong:
  "refresh_tasks v' = refresh_tasks v \<Longrightarrow> refresh_cancelled v' = refresh_cancelled v \<Longrightarrow> refreshTask v' = refreshTask v \<Longrightarrow>
     refresh_next v' = refresh_next v \<Longrightarrow> one_refresh v' = one_refresh v"
  by (simp add: one_refresh_def)

lemma one_refresh_show [simp]:
  "one_refresh (showDevices T ds v) = one_refresh v" "one_refresh (applyFilterAndSort T v) = one_refresh v"
  "one_refresh (keepSnapshots rs v) = one_refresh v" "one_refresh (v\<lparr>dv_state := st\<rparr>) = one_refresh v"
  "one_refresh (v\<lparr>currentFilter := f\<rparr>) = one_refresh v" "one_refresh (v\<lparr>currentSort := so\<rparr>) = one_refresh v"
  by (rule one_refresh_cong; simp)+

lemma one_refresh_start: "one_refresh v \<Longrightarrow> one_refresh (startBackgroundRefresh v)"
  by (cases "refreshTask v") (auto simp: one_refresh_def startBackgroundRefresh_def cancelRefresh_def Let_def less_Suc_eq)

lemma one_refresh_stop: "one_refresh v \<Longrightarrow> one_refresh (stopBackgroundRefresh v)"
  by (cases "refreshTask v") (auto simp: one_refresh_def stopBackgroundRefresh_def cancelRefresh_def)

lemma one_refresh_phase: "one_refresh v \<Longrightarrow> refresh_tasks v t \<noteq> None \<Longrightarrow> one_refresh (set_phase t p v)"
  by (auto simp: one_refresh_def set_phase_def)

lemma one_refresh_round: "one_refresh v \<Longrightarrow> refresh_tasks v t \<noteq> None \<Longrightarrow> one_refresh (next_round t v)"
  by (simp add: next_round_def one_refresh_phase)

lemma one_refresh_step: "dash_step T loc ev v = Some v' \<Longrightarrow> one_refresh v \<Longrightarrow> one_refresh v'"
  by (cases ev) (auto simp: dash_step_def one_refresh_start one_refresh_stop one_refresh_phase one_refresh_round
      split: sum.splits if_splits)

section \<open>Properties\<close>

text \<open>C23: Whatever the order in which calls, answers and the background task interleave, a device list on the
  dashboard is the current selection from the devices that arrived last, in the current order, an empty
  dashboard means that nothing matches, and at most one background refresh goes on: every other one is
  cancelled and stops at its next turn.\<close>

theorem dashboard_consistent:
  assumes "dash_reachable T loc v"
  shows "shows_selection T v \<and> one_refresh v"
  using assms
proof induction
  case dash_new
  show ?case by (simp add: DashboardViewModel_def shows_selection_def one_refresh_def)
next
  case (dash_next v ev v')
  then show ?case by (blast intro: selection_step one_refresh_step)
qed

definition sample_dashboard :: dashboard where
  "sample_dashboard = showDevices sample_ops_of_text [sample_camera, sample_camera\<lparr>ad_id := ''d2'', ad_name := ''Attic''\<rparr>]
     (startBackgroundRefresh (startBackgroundRefresh DashboardViewModel))"

theorem dashboard_consistent_witness:
  "dash_reachable sample_ops_of_text (\<lambda>_. ''error'') sample_dashboard \<and>
   map_option ad_name (case dv_state sample_dashboard of loaded (d # _) \<Rightarrow> Some d | _ \<Rightarrow> None) = Some ''Attic'' \<and>
   refreshTask sample_dashboard = Some 1 \<and> 0 \<in> set (refresh_cancelled sample_dashboard) \<and> one_refresh sample_dashboard"
proof -
  let ?T = sample_ops_of_text and ?loc = "\<lambda>_ :: client_error. ''error''"
  have keep: "keepSnapshots [] v = v" for v by (simp add: keepSnapshots_def)
  have one: "dash_reachable ?T ?loc (startBackgroundRefresh DashboardViewModel)"
    by (rule dash_next [OF dash_new, of _ _ "Load_Snapshots []"]) (simp add: dash_step_def keep)
  have two: "dash_reachable ?T ?loc (startBackgroundRefresh (startBackgroundRefresh DashboardViewModel))"
    by (rule dash_next [OF one, of "Load_Snapshots []"]) (simp add: dash_step_def keep)
  have reach: "dash_reachable ?T ?loc sample_dashboard"
    by (rule dash_next [OF two, of "Load_Devices (Inr [sample_camera, sample_camera\<lparr>ad_id := ''d2'', ad_name := ''Attic''\<rparr>])"])
      (simp add: dash_step_def sample_dashboard_def)
  have "map_option ad_name (case dv_state sample_dashboard of loaded (d # _) \<Rightarrow> Some d | _ \<Rightarrow> None) = Some ''Attic''"
    by (simp add: sample_dashboard_def showDevices_def applyFilterAndSort_def filterDevices_def sortDevices_def
        sorted_by_def device_before_def sample_ops_of_text_def sample_camera_def DashboardViewModel_def
        startBackgroundRefresh_def cancelRefresh_def Let_def lower_def lower_char_def less_char_def)
  moreover have "refreshTask sample_dashboard = Some 1 \<and> 0 \<in> set (refresh_cancelled sample_dashboard)"
    by (simp add: sample_dashboard_def startBackgroundRefresh_def cancelRefresh_def DashboardViewModel_def Let_def)
  ultimately show ?thesis using reach dashboard_consistent [OF reach] by blast
qed

text \<open>The event list asked for without a device, which is what the event screen does on its own, never shows an
  event: it stays empty, says that nothing was recorded, or shows an error. No request for events is sent.\<close>

theorem events_without_device:
  "let (r, s', v') = loadEvents S loc None (s, v) in
     (if r = Inr () then s' = snd (au_getValidToken (sv_auth S) s) \<and>
        (ev_state v' = empty ''No events recorded yet.'' \<or>
         ev_state v' = empty ''Ring Protect subscription required to view event history.'' \<or> (\<exists>m. ev_state v' = error m))
      else r = Inl Trap)"
  by (auto simp: loadEvents_def es_fetchEvents_def view_error_def andThen_def catch_error_def catch_def Let_def
      split: prod.splits sum.splits if_splits)

text \<open>A retry after a failed start says that it plays and does nothing: the manager stays in its failed state,
  holds no connection and has nothing to do, while the player shows a session and plays.\<close>

theorem retry_plays_nothing:
  "\<exists>v m. player_run E loc now [Request d p, Manager (Token_Result 0 (Inl e) made), Retry] (PlayerViewModel (Some new_manager)) = Some v \<and>
     isPlaying v \<and> (\<exists>s. pv_state v = loaded s) \<and> streamSessionManager v = Some m \<and>
     connectionState m = failed (se_localized E e) \<and> \<not> holds m \<and> tasks m = (\<lambda>_. None)"
  by (simp add: PlayerViewModel_def player_step_def requestStream_def retry_def resume_request_def request_done_def
      show_session_def new_manager_def step_defs fail_start_def cleanup_finish_def holds_def Let_def)

end
