(* ===== verification/Screens.thy ===== *)
theory Screens imports View_Models begin

text \<open>
  The screens, \<open>App/ContentView.swift\<close>, \<open>App/MainTabView.swift\<close> and \<open>Views/\<close>: which one each state of a view model
  shows, what its buttons do and what runs when it appears and disappears. Layout, fonts and colours are left
  out; a SwiftUI body is a function from the state to the screen. The texts computed from a date are
  \<open>Utilities/Date+Extensions.swift\<close>.
\<close>

section \<open>Dates\<close>

text \<open>\<open>Int(interval)\<close> traps where the integral part does not fit 64 bits.\<close>

definition relativeTime :: "real \<Rightarrow> real \<Rightarrow> string option" where
  "relativeTime now date = (let interval = now - date in
     if interval < 0 then Some ''Just now''
     else if interval \<ge> 2 ^ 63 then None
     else (let seconds = nat \<lfloor>interval\<rfloor>; minutes = seconds div 60; hours = minutes div 60; days = hours div 24 in
       Some (if seconds < 60 then ''Just now''
         else if seconds < 3600 then (if minutes = 1 then ''1 minute ago'' else nat_str minutes @ '' minutes ago'')
         else if seconds < 86400 then (if hours = 1 then ''1 hour ago'' else nat_str hours @ '' hours ago'')
         else if seconds < 172800 then ''Yesterday''
         else if days = 1 then ''1 day ago'' else nat_str days @ '' days ago'')))"

section \<open>Sign-in\<close>

datatype login_screen =
    Setup_Instructions bool "string option"
  | Checking_Authorization
  | Login_Error string
  | Get_Started

datatype root_screen = Main_Tabs | Login_View login_screen

definition login_body :: "auth_view \<Rightarrow> login_screen" where
  "login_body v =
     (if setupInstructionsVisible v then
        Setup_Instructions (case av_state v of loading \<Rightarrow> True | _ \<Rightarrow> False)
          (case av_state v of error message \<Rightarrow> Some message | _ \<Rightarrow> None)
      else (case av_state v of loading \<Rightarrow> Checking_Authorization | error message \<Rightarrow> Login_Error message | _ \<Rightarrow> Get_Started))"

definition content_body :: "app_configuration \<Rightarrow> auth_view \<Rightarrow> root_screen" where
  "content_body cfg v = (if useMocks cfg \<or> av_isAuthenticated v then Main_Tabs else Login_View (login_body v))"

definition content_task :: "app_configuration \<Rightarrow> 's auth_service \<Rightarrow> ('s, auth_view) view" where
  "content_task cfg A = (if \<not> useMocks cfg then checkExistingAuth A else ret ())"

text \<open>The one button of a sign-in screen, where there is one, and the call it makes.\<close>

definition login_pressed :: "'s auth_service \<Rightarrow> (client_error \<Rightarrow> string) \<Rightarrow> login_screen \<Rightarrow> (string \<times> ('s, auth_view) view) option" where
  "login_pressed A loc screen = (case screen of
     Setup_Instructions _ _ \<Rightarrow> Some (''I've Completed Setup'', checkBackendForToken A loc)
   | Checking_Authorization \<Rightarrow> None
   | Login_Error _ \<Rightarrow> Some (''Try Again'', checkBackendForToken A loc)
   | Get_Started \<Rightarrow> Some (''Get Started'', show_view showSetupInstructions))"

section \<open>Tabs\<close>

datatype main_tab = Tab_Live | Tab_Events

text \<open>\<open>@State private var selectedTab\<close> and the binding of \<open>TabView\<close>.\<close>

definition initial_tab :: main_tab where "initial_tab = Tab_Live"

definition select_tab :: "main_tab \<Rightarrow> main_tab \<Rightarrow> main_tab" where
  "select_tab chosen selectedTab = chosen"

section \<open>Lists\<close>

datatype 'a list_screen =
    Loads_On_Appear
  | Loading_Screen string
  | Items bool 'a
  | Error_Screen string
  | Empty_Screen string string

definition ellipsis :: string where "ellipsis = map char_of [226 :: nat, 128, 166]"

text \<open>The flag of \<open>Items\<close> is the Ring Protect banner, which only the event list has.\<close>

definition dashboard_body :: "dashboard \<Rightarrow> (app_device \<times> string option) list list_screen" where
  "dashboard_body v = (case dv_state v of
     idle \<Rightarrow> Loads_On_Appear
   | loading \<Rightarrow> Loading_Screen (''Loading cameras'' @ ellipsis)
   | loaded devices \<Rightarrow> Items False (map (\<lambda>d. (d, snapshots v (ad_id d))) devices)
   | error message \<Rightarrow> Error_Screen message
   | empty message \<Rightarrow> Empty_Screen message ''Make sure your Ring devices are set up and online.'')"

definition events_body :: "events_view \<Rightarrow> app_event list list_screen" where
  "events_body v = (case ev_state v of
     idle \<Rightarrow> Loads_On_Appear
   | loading \<Rightarrow> Loading_Screen (''Loading events'' @ ellipsis)
   | loaded events \<Rightarrow> Items (\<not> hasRingProtect v) events
   | error message \<Rightarrow> Error_Screen message
   | empty message \<Rightarrow> Empty_Screen message
       (if hasRingProtect v then ''Events will appear here when your cameras detect activity.''
        else ''A Ring Protect subscription is required to view event history.''))"

text \<open>What the events screen does when it appears and at its one button.\<close>

datatype events_action = Events_Appear | Events_Try_Again

definition events_act :: "'k services \<Rightarrow> (client_error \<Rightarrow> string) \<Rightarrow> events_action \<Rightarrow> ('k app_state, events_view) view" where
  "events_act S loc a = asks (\<lambda>sv. case (a, events_body (snd sv)) of
     (Events_Appear, Loads_On_Appear) \<Rightarrow> loadEvents S loc None
   | (Events_Try_Again, Error_Screen _) \<Rightarrow> ev_refresh S loc None
   | _ \<Rightarrow> ret ())"

definition device_label :: "app_device \<Rightarrow> string" where
  "device_label d = join '', '' [ad_name d, device_display_name (ad_device_type d),
     if ad_is_online d then ''Online'' else ''Offline'',
     case ad_power_source d of battery \<Rightarrow> ''Battery powered'' | line \<Rightarrow> ''Line powered'']"

definition event_label :: "real \<Rightarrow> app_event \<Rightarrow> string option" where
  "event_label now e = map_option (\<lambda>t. join '', '' [event_display_name (ae_event_type e), ''from device '' @ ae_device_id e, t])
     (relativeTime now (ae_created_at e))"

subsection \<open>The dashboard on the screen\<close>

text \<open>
  \<open>loadDevices\<close> is called where the idle body appears, and nowhere else; the other calls are the refresh button
  and \<open>stopBackgroundRefresh\<close> when the screen disappears. The counters are the calls that wait for an answer.
\<close>

record dash_screen =
  on_dashboard :: dashboard
  waiting_devices :: nat
  waiting_snapshots :: nat
  waiting_refresh :: nat

datatype screen_event =
    Appears
  | Load_Answered "client_error + app_device list"
  | Snapshots_Answered "(string \<times> string option) list"
  | Refresh_Pressed
  | Refresh_Answered "client_error + app_device list"
  | Disappears
  | Task_Wakes nat
  | Task_Answered nat "client_error + app_device list"
  | Task_Snapshots_Answered nat "(string \<times> string option) list"

definition screen_step :: "text_ops \<Rightarrow> (client_error \<Rightarrow> string) \<Rightarrow> screen_event \<Rightarrow> dash_screen \<Rightarrow> dash_screen option" where
  "screen_step T loc ev s =
     (let call = (\<lambda>e t. map_option (\<lambda>v. t\<lparr>on_dashboard := v\<rparr>) (dash_step T loc e (on_dashboard s))) in case ev of
     Appears \<Rightarrow> (case dashboard_body (on_dashboard s) of
         Loads_On_Appear \<Rightarrow> call Load_Begin (s\<lparr>waiting_devices := waiting_devices s + 1\<rparr>)
       | _ \<Rightarrow> Some s)
   | Load_Answered r \<Rightarrow> (case waiting_devices s of 0 \<Rightarrow> None
       | Suc n \<Rightarrow> call (Load_Devices r) (s\<lparr>waiting_devices := n,
           waiting_snapshots := waiting_snapshots s + (case r of Inl _ \<Rightarrow> 0 | Inr _ \<Rightarrow> 1)\<rparr>))
   | Snapshots_Answered rs \<Rightarrow> (case waiting_snapshots s of 0 \<Rightarrow> None
       | Suc n \<Rightarrow> call (Load_Snapshots rs) (s\<lparr>waiting_snapshots := n\<rparr>))
   | Refresh_Pressed \<Rightarrow> call Refresh_Begin (s\<lparr>waiting_refresh := waiting_refresh s + 1\<rparr>)
   | Refresh_Answered r \<Rightarrow> (case waiting_refresh s of 0 \<Rightarrow> None
       | Suc n \<Rightarrow> call (Refresh_Devices r) (s\<lparr>waiting_refresh := n\<rparr>))
   | Disappears \<Rightarrow> call Stop_Refresh s
   | Task_Wakes t \<Rightarrow> call (Task_Wake t) s
   | Task_Answered t r \<Rightarrow> call (Task_Devices t r) s
   | Task_Snapshots_Answered t rs \<Rightarrow> call (Task_Snapshots t rs) s)"

definition new_screen :: dash_screen where
  "new_screen = \<lparr>on_dashboard = DashboardViewModel, waiting_devices = 0, waiting_snapshots = 0, waiting_refresh = 0\<rparr>"

inductive screen_runs :: "text_ops \<Rightarrow> (client_error \<Rightarrow> string) \<Rightarrow> dash_screen \<Rightarrow> dash_screen \<Rightarrow> bool" for T loc s where
  screen_here: "screen_runs T loc s s"
| screen_next: "screen_runs T loc s u \<Longrightarrow> screen_step T loc ev u = Some u' \<Longrightarrow> screen_runs T loc s u'"

section \<open>The player\<close>

datatype player_screen =
    Starts_Stream
  | Connecting_Overlay
  | Live_Video "nat option"
  | Hls_Player
  | Failed_Overlay string
  | Stream_Ended
  | Stream_Error string
  | Nothing_To_Stream string

definition player_body :: "player \<Rightarrow> player_screen" where
  "player_body v = (case pv_state v of
     idle \<Rightarrow> Starts_Stream
   | loading \<Rightarrow> Connecting_Overlay
   | loaded _ \<Rightarrow> (case streamSessionManager v of
       None \<Rightarrow> Hls_Player
     | Some _ \<Rightarrow> (case pv_connectionState v of
         connecting \<Rightarrow> Connecting_Overlay
       | connected \<Rightarrow> Live_Video (pv_videoTrack v)
       | failed message \<Rightarrow> Failed_Overlay message
       | disconnected \<Rightarrow> Stream_Ended))
   | error message \<Rightarrow> Stream_Error message
   | empty message \<Rightarrow> Nothing_To_Stream message)"

text \<open>\<open>onAppear\<close> of the idle body, and the button \<open>Retry\<close> or \<open>Restart\<close>, where there is one.\<close>

definition player_appears :: "(client_error \<Rightarrow> string) \<Rightarrow> real \<Rightarrow> app_device \<Rightarrow> player \<Rightarrow> player" where
  "player_appears loc now d v = (case player_body v of
     Starts_Stream \<Rightarrow> requestStream loc now (ad_id d) (ad_power_source d) v | _ \<Rightarrow> v)"

definition retry_pressed :: "(client_error \<Rightarrow> string) \<Rightarrow> real \<Rightarrow> player \<Rightarrow> player option" where
  "retry_pressed loc now v = (case player_body v of
     Failed_Overlay _ \<Rightarrow> Some (retry loc now v)
   | Stream_Ended \<Rightarrow> Some (retry loc now v)
   | Stream_Error _ \<Rightarrow> Some (retry loc now v)
   | _ \<Rightarrow> None)"

text \<open>\<open>MainTabView\<close>: every player gets the one stream manager of the container.\<close>

definition event_device :: "app_event \<Rightarrow> app_device" where
  "event_device e = \<lparr>ad_id = ae_device_id e, ad_name = ''Device '' @ ae_device_id e, ad_model = ''unknown'',
     ad_device_type = unknown, ad_firmware_version = None, ad_power_source = battery, ad_is_online = True\<rparr>"

definition open_device :: "(client_error \<Rightarrow> string) \<Rightarrow> real \<Rightarrow> sm_world option \<Rightarrow> app_device \<Rightarrow> player" where
  "open_device loc now m d = player_appears loc now d (PlayerViewModel m)"

definition open_event :: "(client_error \<Rightarrow> string) \<Rightarrow> real \<Rightarrow> sm_world option \<Rightarrow> app_event \<Rightarrow> player" where
  "open_event loc now m e = open_device loc now m (event_device e)"

text \<open>\<open>onDisappear\<close>, which the button \<open>Back\<close> and the Menu button bring about by \<open>dismiss\<close>; the task of the view model that
  stops the stream is \<open>Stop\<close> of \<open>View_Models\<close>.\<close>

definition back_shown :: "player_screen \<Rightarrow> bool" where
  "back_shown screen = (case screen of Failed_Overlay _ \<Rightarrow> True | Stream_Ended \<Rightarrow> True | Stream_Error _ \<Rightarrow> True | _ \<Rightarrow> False)"

section \<open>Facts\<close>

text \<open>Once the events are shown, or that there are none, nothing the screen offers loads them again: they are those of
  the first load for as long as the app runs.\<close>

theorem events_load_once:
  assumes "case ev_state v of loaded _ \<Rightarrow> True | empty _ \<Rightarrow> True | _ \<Rightarrow> False"
  shows "events_act S loc a (app, v) = (Inr (), (app, v))"
  using assms by (cases a) (simp_all add: events_act_def events_body_def asks_def ret_def split: view_state.splits)

lemma sign_in_button:
  "login_pressed A loc screen = None \<longleftrightarrow> screen = Checking_Authorization"
  "login_body (showSetupInstructions v) \<noteq> Checking_Authorization"
  by (auto simp: login_pressed_def login_body_def showSetupInstructions_def split: login_screen.splits)


lemma relativeTime_None: "relativeTime now date = None \<longleftrightarrow> now - date \<ge> 2 ^ 63"
  by (auto simp: relativeTime_def Let_def)

lemma dashboard_loads_iff: "dashboard_body v = Loads_On_Appear \<longleftrightarrow> dv_state v = idle"
  by (simp add: dashboard_body_def split: view_state.splits)

text \<open>No load is on its way or can start, and no background refresh is current.\<close>

definition refresh_over :: "dash_screen \<Rightarrow> bool" where
  "refresh_over s \<longleftrightarrow> dv_state (on_dashboard s) \<noteq> idle \<and> waiting_devices s = 0 \<and> waiting_snapshots s = 0 \<and>
     refreshTask (on_dashboard s) = None"

lemma state_parts [simp]:
  "dv_state (showDevices T ds v) \<noteq> idle" "dv_state (applyFilterAndSort T v) \<noteq> idle"
  "dv_state (set_phase t p v) = dv_state v" "dv_state (next_round t v) = dv_state v"
  "dv_state (keepSnapshots rs v) = dv_state v" "dv_state (stopBackgroundRefresh v) = dv_state v"
  "refreshTask (set_phase t p v) = refreshTask v" "refreshTask (next_round t v) = refreshTask v"
  "refreshTask (stopBackgroundRefresh v) = None" "view_error loc e \<noteq> idle"
  by (simp_all add: showDevices_def applyFilterAndSort_def set_phase_def next_round_def keepSnapshots_def
      stopBackgroundRefresh_def cancelRefresh_def view_error_def Let_def split: option.splits)

lemma dash_over:
  assumes "dash_step T loc e v = Some v'" and "dv_state v \<noteq> idle" and "refreshTask v = None" and "\<forall>rs. e \<noteq> Load_Snapshots rs"
  shows "dv_state v' \<noteq> idle \<and> refreshTask v' = None"
  using assms by (cases e) (auto simp: dash_step_def split: sum.splits if_splits)

lemma refresh_over_step:
  assumes "screen_step T loc ev s = Some s'" and "refresh_over s"
  shows "refresh_over s'"
proof -
  have no_load: "dashboard_body (on_dashboard s) \<noteq> Loads_On_Appear"
    using assms(2) by (simp add: refresh_over_def dashboard_loads_iff)
  show ?thesis
    using assms no_load by (cases ev) (auto simp: screen_step_def refresh_over_def Let_def
        split: list_screen.splits nat.splits dest!: dash_over)
qed

lemma one_refresh_screen: "screen_step T loc ev s = Some s' \<Longrightarrow> one_refresh (on_dashboard s) \<Longrightarrow> one_refresh (on_dashboard s')"
  by (auto simp: screen_step_def Let_def split: screen_event.splits list_screen.splits nat.splits dest: one_refresh_step)

lemma screen_runs_keeps:
  assumes "screen_runs T loc s s'"
  shows "(refresh_over s \<longrightarrow> refresh_over s') \<and> (one_refresh (on_dashboard s) \<longrightarrow> one_refresh (on_dashboard s'))"
  using assms by induction (blast intro: refresh_over_step one_refresh_screen)+

text \<open>The manager does nothing for a start when it is not disconnected.\<close>

lemma start_ignored:
  assumes "connectionState m \<noteq> disconnected"
  shows "startStream d p m = m\<lparr>returned := returned m @ [Inr ()]\<rparr>"
  using assms by (simp add: startStream_def)

lemma request_ignored:
  assumes "streamSessionManager v = Some m" and "connectionState m \<noteq> disconnected"
  shows "streamSessionManager (requestStream loc now d p v) = Some (m\<lparr>returned := returned m @ [Inr ()]\<rparr>) \<and>
    (\<exists>x. pv_state (requestStream loc now d p v) = loaded x \<and> ss_device_id x = d) \<and> isPlaying (requestStream loc now d p v) \<and>
    pv_connectionState (requestStream loc now d p v) = pv_connectionState v \<and>
    lastDeviceId (requestStream loc now d p v) = Some d \<and> lastPowerSource (requestStream loc now d p v) = Some p"
  using assms by (simp add: requestStream_def start_ignored request_done_def show_session_def Let_def)

section \<open>Properties\<close>

text \<open>C35: Once the dashboard has been left after its first load, or its first load has failed, its devices and snapshots are
  never refreshed on their own again, whatever the user does: no background task is current, and every one that
  is still there is cancelled. The screen comes back in the state in which it was left, and only an idle one loads.\<close>

theorem refresh_never_resumes:
  assumes "screen_runs T loc new_screen s" and "screen_runs T loc s s'" and "refresh_over s"
  shows "refresh_over s' \<and> (\<forall>t. refresh_tasks (on_dashboard s') t \<noteq> None \<longrightarrow> t \<in> set (refresh_cancelled (on_dashboard s')))"
proof -
  have "one_refresh (on_dashboard new_screen)"
    by (simp add: new_screen_def DashboardViewModel_def one_refresh_def)
  with screen_runs_keeps [OF assms(1)] screen_runs_keeps [OF assms(2)] assms(3)
  have "refresh_over s'" "one_refresh (on_dashboard s')" by blast+
  then show ?thesis unfolding refresh_over_def one_refresh_def by (metis option.distinct(1))
qed

lemma open_event_request:
  "open_event loc now n e = requestStream loc now (ae_device_id e) battery (PlayerViewModel n)"
  by (simp add: open_event_def open_device_def player_appears_def player_body_def PlayerViewModel_def event_device_def)

text \<open>C36: Whatever the stream manager is doing, opening an event asks it for one thing, the live stream of the event's device,
  as a battery-powered one whatever the device is; the rest of the event does not matter: two
  events of one device open the same player. A manager at rest starts connecting, the player shows it, and the limit that
  was noted is the 30 seconds of a battery; any other manager ignores the request, and the player shows a session that plays.\<close>

theorem event_plays_live:
  "let v = open_event loc now (Some m) e in
    streamSessionManager v = Some (startStream (ae_device_id e) battery m) \<and>
    lastDeviceId v = Some (ae_device_id e) \<and> lastPowerSource v = Some battery \<and>
    (if connectionState m = disconnected
     then (\<exists>m'. streamSessionManager v = Some m' \<and> tasks m' = (tasks m)(next_id m \<mapsto> Start_Token (ae_device_id e) battery) \<and>
       connectionState m' = connecting \<and> map_option sessionDurationLimit (currentPowerSource m') = Some 30 \<and>
       deletes m' = deletes m \<and> player_body v = Connecting_Overlay)
     else streamSessionManager v = Some (m\<lparr>returned := returned m @ [Inr ()]\<rparr>) \<and> isPlaying v \<and>
       (\<exists>x. pv_state v = loaded x \<and> Client_Models.ss_device_id x = ae_device_id e \<and> maxDuration x = 30)) \<and>
    (ae_device_id e' = ae_device_id e \<longrightarrow> open_event loc now n e' = open_event loc now n e)"
  by (auto simp: open_event_request PlayerViewModel_def requestStream_def startStream_def spawn_def transitionState_def
      player_body_def request_done_def show_session_def maxDuration_def Let_def)

text \<open>C37: Retry does not get a player out of a failed stream: however often it is pressed, the player shows the same
  failure and the manager is as before but for the starts it has ignored.\<close>

theorem retry_never_recovers:
  assumes "streamSessionManager v = Some m" and "connectionState m = failed message" and "pv_connectionState v = failed message"
    and "pv_state v = loaded x" and "lastDeviceId v = Some d" and "lastPowerSource v = Some p"
  shows "\<exists>v'. ((\<lambda>u. Option.bind u (retry_pressed loc now)) ^^ n) (Some v) = Some v' \<and>
    player_body v' = Failed_Overlay message \<and> isPlaying v' = (n > 0 \<or> isPlaying v) \<and>
    streamSessionManager v' = Some (m\<lparr>returned := returned m @ replicate n (Inr ())\<rparr>)"
proof -
  have "\<exists>v' y. ((\<lambda>u. Option.bind u (retry_pressed loc now)) ^^ n) (Some v) = Some v' \<and>
    streamSessionManager v' = Some (m\<lparr>returned := returned m @ replicate n (Inr ())\<rparr>) \<and>
    pv_connectionState v' = failed message \<and> pv_state v' = loaded y \<and> lastDeviceId v' = Some d \<and>
    lastPowerSource v' = Some p \<and> isPlaying v' = (n > 0 \<or> isPlaying v)"
  proof (induction n)
    case 0
    then show ?case using assms by simp
  next
    case (Suc n)
    then obtain u y where u: "((\<lambda>u. Option.bind u (retry_pressed loc now)) ^^ n) (Some v) = Some u"
      "streamSessionManager u = Some (m\<lparr>returned := returned m @ replicate n (Inr ())\<rparr>)"
      "pv_connectionState u = failed message" "pv_state u = loaded y" "lastDeviceId u = Some d" "lastPowerSource u = Some p" by blast
    have "retry_pressed loc now u = Some (requestStream loc now d p u)"
      using u by (simp add: retry_pressed_def player_body_def retry_def)
    with request_ignored [OF u(2), of loc now d p] u(1,3) assms(2) show ?case
      by (auto simp: replicate_append_same)
  qed
  then show ?thesis using assms by (auto simp: player_body_def)
qed

text \<open>The manager is shared: a device opened while the stream of the last one is still being stopped shows a session
  that plays, but no stream is started for it.\<close>

theorem quick_switch_starts_nothing:
  assumes "connectionState m \<noteq> disconnected" and "sessionURL m = Some u"
  shows "\<exists>m1. sm_step E Call_Stop m = Some m1 \<and> connectionState m1 = connectionState m \<and>
    (let v = open_device loc now (Some m1) d in
     isPlaying v \<and> (\<exists>x. pv_state v = loaded x \<and> ss_device_id x = ad_id d) \<and>
     streamSessionManager v = Some (m1\<lparr>returned := returned m1 @ [Inr ()]\<rparr>))"
proof -
  let ?m = "m\<lparr>next_id := next_id m + 1\<rparr>"
  have s: "sm_step E Call_Stop m = Some (stopStream (next_id m) ?m)" by (simp add: sm_step_def)
  have c: "connectionState (stopStream (next_id m) ?m) = connectionState m"
    using assms(2) by (simp add: stopStream_def await_def cancel_timer_def Let_def split: option.splits)
  have "player_body (PlayerViewModel x) = Starts_Stream" for x by (simp add: player_body_def PlayerViewModel_def)
  with request_ignored [of "PlayerViewModel (Some (stopStream (next_id m) ?m))" "stopStream (next_id m) ?m"] c assms(1)
  show ?thesis unfolding s by (simp add: open_device_def player_appears_def PlayerViewModel_def Let_def)
qed

section \<open>Witnesses\<close>

theorem refresh_never_resumes_witness:
  "\<exists>s. screen_runs sample_ops_of_text (\<lambda>_. ''error'') new_screen s \<and> refreshTask (on_dashboard s) = None \<and>
     refresh_tasks (on_dashboard s) 0 \<noteq> None \<and> 0 \<in> set (refresh_cancelled (on_dashboard s)) \<and> waiting_refresh s = 1"
proof -
  let ?T = sample_ops_of_text and ?loc = "\<lambda>_ :: client_error. ''error''"
  let ?v1 = "DashboardViewModel\<lparr>dv_state := loading\<rparr>"
  let ?v2 = "showDevices ?T [] ?v1"
  let ?v3 = "stopBackgroundRefresh (startBackgroundRefresh ?v2)"
  let ?s = "\<lambda>v a b c. \<lparr>on_dashboard = v, waiting_devices = a, waiting_snapshots = b, waiting_refresh = c\<rparr>"
  have keep: "keepSnapshots [] v = v" for v by (simp add: keepSnapshots_def)
  have "screen_runs ?T ?loc new_screen (?s ?v1 1 0 0)"
    by (rule screen_next [OF screen_here, of _ _ Appears])
      (simp add: screen_step_def new_screen_def DashboardViewModel_def dashboard_body_def dash_step_def)
  from screen_next [OF this, of "Load_Answered (Inr [])" "?s ?v2 0 1 0"]
  have "screen_runs ?T ?loc new_screen (?s ?v2 0 1 0)" by (simp add: screen_step_def dash_step_def)
  from screen_next [OF this, of "Snapshots_Answered []" "?s (startBackgroundRefresh ?v2) 0 0 0"]
  have "screen_runs ?T ?loc new_screen (?s (startBackgroundRefresh ?v2) 0 0 0)" by (simp add: screen_step_def dash_step_def keep)
  from screen_next [OF this, of Disappears "?s ?v3 0 0 0"]
  have r: "screen_runs ?T ?loc new_screen (?s ?v3 0 0 0)" by (simp add: screen_step_def dash_step_def)
  have more: "screen_runs ?T ?loc (?s ?v3 0 0 0) (?s (?v3\<lparr>dv_state := loading\<rparr>) 0 0 1)"
    by (rule screen_next [OF screen_here, of _ _ Refresh_Pressed]) (simp add: screen_step_def dash_step_def)
  have over: "refresh_over (?s ?v3 0 0 0)"
    by (simp add: refresh_over_def startBackgroundRefresh_def cancelRefresh_def stopBackgroundRefresh_def showDevices_def
        applyFilterAndSort_def DashboardViewModel_def Let_def)
  have task: "refresh_tasks ?v3 0 \<noteq> None"
    by (simp add: startBackgroundRefresh_def cancelRefresh_def stopBackgroundRefresh_def DashboardViewModel_def Let_def)
  have "screen_runs ?T ?loc new_screen (?s (?v3\<lparr>dv_state := loading\<rparr>) 0 0 1)"
    using screen_next [OF r, of Refresh_Pressed "?s (?v3\<lparr>dv_state := loading\<rparr>) 0 0 1"] by (simp add: screen_step_def dash_step_def)
  moreover have "refresh_tasks (on_dashboard (?s (?v3\<lparr>dv_state := loading\<rparr>) 0 0 1)) 0 \<noteq> None" using task by simp
  ultimately show ?thesis using refresh_never_resumes [OF r more over]
    by (intro exI [of _ "?s (?v3\<lparr>dv_state := loading\<rparr>) 0 0 1"]) (auto simp: refresh_over_def)
qed

definition sample_event :: app_event where
  "sample_event = \<lparr>ae_id = ''e1'', ae_device_id = ''d1'', ae_event_type = ding, ae_created_at = 0, ae_duration = None\<rparr>"

theorem event_plays_live_witness:
  "(let v = open_event (\<lambda>_. ''error'') 0 (Some new_manager) sample_event in
     \<exists>m'. streamSessionManager v = Some m' \<and> tasks m' = [0 \<mapsto> Start_Token ''d1'' battery] \<and> player_body v = Connecting_Overlay) \<and>
   (let m = new_manager\<lparr>connectionState := failed ''no''\<rparr>; v = open_event (\<lambda>_. ''error'') 0 (Some m) sample_event in
     streamSessionManager v = Some (m\<lparr>returned := [Inr ()]\<rparr>) \<and> isPlaying v) \<and>
   open_event (\<lambda>_. ''error'') 0 None (sample_event\<lparr>ae_id := ''e2'', ae_event_type := motion\<rparr>) =
     open_event (\<lambda>_. ''error'') 0 None sample_event"
  using event_plays_live [of "\<lambda>_. ''error''" 0 new_manager sample_event sample_event None]
    event_plays_live [of "\<lambda>_. ''error''" 0 "new_manager\<lparr>connectionState := failed ''no''\<rparr>" sample_event
      "sample_event\<lparr>ae_id := ''e2'', ae_event_type := motion\<rparr>" None]
  by (auto simp: new_manager_def sample_event_def Let_def)

theorem retry_never_recovers_witness:
  "\<exists>v'. ((\<lambda>u. Option.bind u (retry_pressed (\<lambda>_. ''error'') 0)) ^^ 3)
     (Some (show_session ''u'' ''d1'' line 0 (PlayerViewModel (Some (new_manager\<lparr>connectionState := failed ''no''\<rparr>)))
       \<lparr>pv_connectionState := failed ''no'', lastDeviceId := Some ''d1'', lastPowerSource := Some line\<rparr>)) = Some v' \<and>
     player_body v' = Failed_Overlay ''no''"
  using retry_never_recovers [of "show_session ''u'' ''d1'' line 0 (PlayerViewModel (Some (new_manager\<lparr>connectionState := failed ''no''\<rparr>)))
       \<lparr>pv_connectionState := failed ''no'', lastDeviceId := Some ''d1'', lastPowerSource := Some line\<rparr>"
      "new_manager\<lparr>connectionState := failed ''no''\<rparr>" "''no''" _ "''d1''" line 3 "\<lambda>_. ''error''" 0]
  by (auto simp: show_session_def PlayerViewModel_def)

theorem quick_switch_starts_nothing_witness:
  "\<exists>m1. sm_step sample_env Call_Stop sample_connected = Some m1 \<and>
     isPlaying (open_device (\<lambda>_. ''error'') 0 (Some m1) (event_device sample_event))"
  using quick_switch_starts_nothing [of sample_connected _ sample_env "\<lambda>_. ''error''" 0 "event_device sample_event"]
    sample_facts by (auto simp: Let_def)

end
