(* ===== verification/Stream_Leaks.thy ===== *)
theory Stream_Leaks imports Stream_Manager begin

text \<open>
  Sessions the stream manager of \<open>Stream_Manager\<close> loses: once neither it nor a task knows a session or a peer
  connection, no later history frees them, and a stream that is started again after its connection was lost loses its
  first ones so.
\<close>

section \<open>Sessions nobody will delete\<close>

text \<open>The session a task will delete or is deleting.\<close>

fun task_session :: "task \<Rightarrow> string option" where
  "task_session (Cleanup_Token u _) = Some u"
| "task_session (Cleanup_Delete u _ _) = Some u"
| "task_session (Stop_Token u) = Some u"
| "task_session (Stop_Delete u _) = Some u"
| "task_session _ = None"

definition no_task_for :: "string \<Rightarrow> sm_world \<Rightarrow> bool" where
  "no_task_for u w \<longleftrightarrow> (\<forall>tid t. tasks w tid = Some t \<longrightarrow> task_session t \<noteq> Some u)"

text \<open>Neither the manager nor a task knows the session \<open>u\<close> or the peer connection \<open>pc\<close> any more.\<close>

definition forgotten :: "string \<Rightarrow> nat \<Rightarrow> sm_world \<Rightarrow> bool" where
  "forgotten u pc w \<longleftrightarrow> sessionURL w \<noteq> Some u \<and> no_task_for u w \<and> pc < next_id w \<and> peerConnection w \<noteq> Some pc"

definition never_freed :: "string \<Rightarrow> nat \<Rightarrow> sm_world \<Rightarrow> sm_world \<Rightarrow> bool" where
  "never_freed u pc w w' \<longleftrightarrow> count_list (deletes w') u = count_list (deletes w) u \<and>
     count_list (closed w') pc = count_list (closed w) pc"

text \<open>The server hands out the session \<open>u\<close> another time.\<close>

definition names_again :: "string \<Rightarrow> event \<Rightarrow> bool" where
  "names_again u ev \<longleftrightarrow> (\<exists>tid resp. ev = Whep_Result tid (Inr resp) \<and> wr_session_url resp = u)"

text \<open>Both facts at once, for the parts a step is made of.\<close>

definition stays_lost :: "string \<Rightarrow> nat \<Rightarrow> sm_world \<Rightarrow> sm_world \<Rightarrow> bool" where
  "stays_lost u pc w w' \<longleftrightarrow> forgotten u pc w' \<and> never_freed u pc w w'"

lemma stays_lost_refl: "forgotten u pc w \<Longrightarrow> stays_lost u pc w w"
  by (simp add: stays_lost_def never_freed_def)

lemma stays_lost_trans: "stays_lost u pc w v \<Longrightarrow> stays_lost u pc v x \<Longrightarrow> stays_lost u pc w x"
  by (simp add: stays_lost_def never_freed_def)

lemma no_task_for_upd: "no_task_for u w \<Longrightarrow> task_session t \<noteq> Some u \<Longrightarrow> no_task_for u (w\<lparr>tasks := (tasks w)(tid \<mapsto> t)\<rparr>)"
  by (simp add: no_task_for_def)

lemma stays_lost_parts:
  assumes "forgotten u pc w"
  shows "stays_lost u pc w (transitionState c w)" "stays_lost u pc w (releaseResources w)"
    "stays_lost u pc w (done_task tid w)" "stays_lost u pc w (return_start tid r w)"
    "task_session t \<noteq> Some u \<Longrightarrow> stays_lost u pc w (spawn t w)"
    "task_session t \<noteq> Some u \<Longrightarrow> stays_lost u pc w (await tid t w)"
    "v \<noteq> u \<Longrightarrow> stays_lost u pc w (send_delete E tid v w)"
    "stays_lost u pc w (cancel_timer w)"
    "stays_lost u pc w (w\<lparr>next_id := Suc (next_id w)\<rparr>)" "stays_lost u pc w (w\<lparr>sessionTimer := q\<rparr>)"
    "stays_lost u pc w (w\<lparr>currentPowerSource := ps\<rparr>)" "stays_lost u pc w (w\<lparr>returned := rs\<rparr>)"
    "stays_lost u pc w (w\<lparr>clock := x\<rparr>)" "stays_lost u pc w (didAddStream vt au w)" "stays_lost u pc w (didAddReceiver rt w)"
  using assms
  by (cases rt; auto simp: stays_lost_def forgotten_def never_freed_def no_task_for_def transitionState_def releaseResources_def
      done_task_def return_start_def spawn_def await_def send_delete_def cancel_timer_def didAddStream_def less_Suc_eq
      split: option.splits if_splits)+

lemma stays_lost_then:
  assumes "stays_lost u pc w v" and "forgotten u pc v \<Longrightarrow> stays_lost u pc v y"
  shows "stays_lost u pc w y"
  using assms stays_lost_trans by (auto simp: stays_lost_def)

lemma stays_lost_finish:
  assumes "forgotten u pc w"
  shows "stays_lost u pc w (cleanup_finish tid k w)" "stays_lost u pc w (stop_finish tid w)"
proof -
  note rel = stays_lost_parts(2) [OF assms]
  show "stays_lost u pc w (cleanup_finish tid k w)"
    using stays_lost_then [OF rel stays_lost_parts(3)] stays_lost_then [OF rel stays_lost_parts(4)]
    by (simp add: cleanup_finish_def Let_def split: after_cleanup.split)
  show "stays_lost u pc w (stop_finish tid w)"
    using stays_lost_then [OF rel stays_lost_parts(3)] stays_lost_then [OF stays_lost_then [OF rel stays_lost_parts(1)] stays_lost_parts(3)]
    by (simp add: stop_finish_def Let_def)
qed

lemma stays_lost_calls:
  assumes "forgotten u pc w"
  shows "stays_lost u pc w (cleanupResources tid k w)" "stays_lost u pc w (stopStream tid w)"
    "stays_lost u pc w (fail_start E tid e w)" "stays_lost u pc w (startStream d p w)"
    "stays_lost u pc w (startSessionTimer l w)" "stays_lost u pc w (startConnectionTimeout w)"
    "stays_lost u pc w (didChangeIce s w)"
proof -
  have clean: "stays_lost u pc x (cleanupResources tid k x)" if "forgotten u pc x" for x k
    using that stays_lost_finish(1) [OF that] stays_lost_parts(6) [OF that]
    by (auto simp: cleanupResources_def forgotten_def split: option.split)
  show "stays_lost u pc w (cleanupResources tid k w)" by (rule clean [OF assms])
  show "stays_lost u pc w (fail_start E tid e w)"
    unfolding fail_start_def by (rule stays_lost_then [OF stays_lost_parts(1) [OF assms]], rule clean)
  have cancel: "stays_lost u pc w ((cancel_timer w)\<lparr>sessionTimer := None\<rparr>)"
    by (rule stays_lost_then [OF stays_lost_parts(8) [OF assms]], rule stays_lost_parts(10))
  have stop: "stays_lost u pc x (case sessionURL x of Some v \<Rightarrow> await tid (Stop_Token v) x | None \<Rightarrow> stop_finish tid x)"
    if "forgotten u pc x" for x
    using that stays_lost_finish(2) [OF that] stays_lost_parts(6) [OF that] by (auto simp: forgotten_def split: option.split)
  show "stays_lost u pc w (stopStream tid w)"
    unfolding stopStream_def Let_def by (rule stays_lost_then [OF cancel], rule stop)
  have spawned: "stays_lost u pc x (spawn t x)" if "forgotten u pc x" "task_session t = None" for x t
    using stays_lost_parts(5) [OF that(1)] that(2) by simp
  show "stays_lost u pc w (startConnectionTimeout w)"
    unfolding startConnectionTimeout_def by (rule spawned [OF assms]) simp
  have timer: "stays_lost u pc w (spawn (Session_Sleep x) (cancel_timer w))" for x
    by (rule stays_lost_then [OF stays_lost_parts(8) [OF assms]], erule spawned) simp
  show "stays_lost u pc w (startSessionTimer l w)"
    unfolding startSessionTimer_def Let_def by (rule stays_lost_then [OF timer], rule stays_lost_parts(10))
  show "stays_lost u pc w (startStream d p w)"
    using stays_lost_parts(12) [OF assms]
      stays_lost_then [OF stays_lost_then [OF stays_lost_parts(1) [OF assms] stays_lost_parts(11)]
        spawned [where t = "Start_Token d p"], of connecting "Some p"]
    by (simp add: startStream_def)
  show "stays_lost u pc w (didChangeIce s w)"
    using stays_lost_parts(1) [OF assms] stays_lost_then [OF stays_lost_parts(1) [OF assms] spawned] stays_lost_refl [OF assms]
    by (cases s) simp_all
qed

lemma stays_lost_step:
  assumes "sm_step E ev w = Some w'" and "forgotten u pc w" and "\<not> names_again u ev"
  shows "stays_lost u pc w w'"
proof -
  note parts = stays_lost_parts [OF assms(2)] stays_lost_calls [OF assms(2)] stays_lost_finish [OF assms(2)] stays_lost_refl [OF assms(2)]
  have other: "v \<noteq> u" if "tasks w tid = Some t" "task_session t = Some v" for tid t v
    using assms(2) that by (auto simp: forgotten_def no_task_for_def)
  have sent: "stays_lost u pc w (await tid t (send_delete E tid v w))" if "v \<noteq> u" "task_session t = Some v" for tid t v
    using stays_lost_then [OF stays_lost_parts(7) [OF assms(2) that(1)] stays_lost_parts(6)] that by simp
  have made: "stays_lost u pc w (w\<lparr>next_id := Suc (next_id w), peerConnectionFactory := f\<rparr>)"
      "stays_lost u pc w (w\<lparr>next_id := Suc (next_id w), peerConnectionFactory := f, peerConnection := Some (next_id w)\<rparr>)" for f
    using assms(2) by (auto simp: stays_lost_def forgotten_def never_freed_def no_task_for_def)
  have token: "stays_lost u pc w (start_after_token E tid d p t m w)" for tid d p t m
    using stays_lost_then [OF made(1) stays_lost_calls(3)] stays_lost_then [OF made(2) stays_lost_parts(6)]
    by (simp add: start_after_token_def Let_def)
  have remote: "stays_lost u pc w (start_after_remote E tid p a w)" for tid p a
    using parts stays_lost_then [OF stays_lost_then [OF stays_lost_calls(5) [OF assms(2)] stays_lost_calls(6)] stays_lost_parts(4)]
    by (simp add: start_after_remote_def split: sum.split)
  have whep: "stays_lost u pc w (start_after_whep E tid p pc' sdp r w)" if "ev = Whep_Result tid r" for tid p pc' sdp r
  proof (cases r)
    case (Inr resp)
    with that assms(3) have "wr_session_url resp \<noteq> u" by (auto simp: names_again_def)
    then have "stays_lost u pc w (w\<lparr>sessionURL := Some (wr_session_url resp), created := created w @ [wr_session_url resp]\<rparr>)"
      using assms(2) by (auto simp: stays_lost_def forgotten_def never_freed_def no_task_for_def)
    with Inr stays_lost_then [OF this stays_lost_parts(6)] show ?thesis by (simp add: start_after_whep_def)
  qed (use parts in \<open>simp add: start_after_whep_def\<close>)
  have stop: "stays_lost u pc w (stopStream (next_id w) (w\<lparr>next_id := Suc (next_id w)\<rparr>))"
    by (rule stays_lost_then [OF stays_lost_parts(9) [OF assms(2)]], rule stays_lost_calls(2))
  have late: "stays_lost u pc w (cleanupResources tid Finish (transitionState c w))" for tid c
    by (rule stays_lost_then [OF stays_lost_parts(1) [OF assms(2)]], rule stays_lost_calls(1))
  show ?thesis
    using assms(1)
    by (cases ev)
      (auto simp: sm_step_def wake_def token_result_def delete_again_def start_after_offer_def Let_def parts token remote whep stop late
        split: option.splits task.splits sum.splits if_splits intro!: sent dest: other)
qed

lemma stays_lost_run:
  "run E es w = Some w' \<Longrightarrow> forgotten u pc w \<Longrightarrow> \<forall>ev \<in> set es. \<not> names_again u ev \<Longrightarrow> stays_lost u pc w w'"
proof (induction es arbitrary: w)
  case (Cons ev es)
  then obtain v where v: "sm_step E ev w = Some v" "run E es v = Some w'" by (auto split: option.splits)
  from stays_lost_step [OF v(1) Cons.prems(2)] Cons.prems(3) have "stays_lost u pc w v" by simp
  moreover have "stays_lost u pc v w'" using Cons.IH [OF v(2)] calculation Cons.prems(3) by (simp add: stays_lost_def)
  ultimately show ?case by (rule stays_lost_trans)
qed (simp add: stays_lost_refl)

text \<open>C10: A stream that loses its connection and is started again leaks its session: the new start replaces the peer
  connection and the session URL of the connected stream. From then on no history of calls, timers, answers and
  callbacks in which the server does not hand out the old URL again sends a DELETE for the old session or closes the old
  peer connection.\<close>

theorem reconnect_leaks:
  assumes "connectionState w = connected" and "sessionURL w = Some u" and "peerConnection w = Some pc" and "pc < next_id w"
    and "no_task_for u w" and "s = ICE_disconnected \<or> s = ICE_closed" and "wr_session_url resp \<noteq> u"
  shows "\<exists>w1. run E (Ice s # start_events d p (next_id w) tok sdp resp) w = Some w1 \<and>
    sessionURL w1 = Some (wr_session_url resp) \<and> connectionState w1 = connecting \<and>
    (\<forall>es w2. run E es w1 = Some w2 \<and> (\<forall>ev \<in> set es. \<not> names_again u ev) \<longrightarrow> never_freed u pc w w2)"
proof -
  let ?n = "next_id w"
  let ?w1 = "w\<lparr>connectionState := connecting, currentPowerSource := Some p, next_id := Suc (Suc ?n),
      peerConnectionFactory := Some (Suc ?n), peerConnection := Some (Suc ?n),
      sessionURL := Some (wr_session_url resp), created := created w @ [wr_session_url resp],
      tasks := (tasks w)(?n \<mapsto> Start_Remote p (Suc ?n) (munge_answer sdp (wr_sdp_answer resp)))\<rparr>"
  let ?w2 = "start_after_remote E ?n p None ?w1"
  have run: "run E (Ice s # start_events d p ?n tok sdp resp) w = Some ?w2"
    using assms(1,6) by (auto simp: start_events_def sm_step_def startStream_def transitionState_def spawn_def token_result_def
        start_after_token_def start_after_offer_def start_after_whep_def await_def Let_def)
  have "forgotten u pc ?w1" using assms(2,4,5,7) by (auto simp: forgotten_def no_task_for_def)
  moreover have "sm_step E (Remote_Result ?n None) ?w1 = Some ?w2" by (simp add: sm_step_def)
  moreover have "\<not> names_again u (Remote_Result ?n None)" by (simp add: names_again_def)
  ultimately have "stays_lost u pc ?w1 ?w2" by (intro stays_lost_step)
  then have lost: "forgotten u pc ?w2" "never_freed u pc w ?w2" by (simp_all add: stays_lost_def never_freed_def)
  have "never_freed u pc w w2" if "run E es ?w2 = Some w2" "\<forall>ev \<in> set es. \<not> names_again u ev" for es w2
    using stays_lost_run [OF that(1) lost(1) that(2)] lost(2) by (simp add: stays_lost_def never_freed_def)
  moreover have "sessionURL ?w2 = Some (wr_session_url resp)" "connectionState ?w2 = connecting"
    by (simp_all add: start_after_remote_def setRemoteDescription_def return_start_def done_task_def startConnectionTimeout_def
        startSessionTimer_def spawn_def cancel_timer_def Let_def split: option.split)
  ultimately show ?thesis using run by blast
qed

theorem reconnect_leaks_witness:
  "\<exists>w1 w2. run sample_env (Ice ICE_disconnected # start_events ''cam'' battery 4 sample_token ''v=0''
       \<lparr>wr_sdp_answer = ''v=0'', wr_session_url = ''/s/2''\<rparr>) sample_connected = Some w1 \<and>
     run sample_env [Ice ICE_connected, Call_Stop, Token_Result 8 (Inr sample_token) True, Delete_Result 8 (Inr ())] w1 = Some w2 \<and>
     deletes w2 = [''/s/2''] \<and> \<not> holds w2 \<and> never_freed ''/s/1'' 1 sample_connected w2"
proof -
  let ?r = "\<lparr>wr_sdp_answer = ''v=0'', wr_session_url = ''/s/2''\<rparr>"
  have n: "no_task_for ''/s/1'' sample_connected" "peerConnection sample_connected = Some 1"
    by (simp_all add: no_task_for_def sample_connected_def sample_start_def start_events_def new_manager_def step_defs eval_nat_numeral)
  have "\<exists>w1. run sample_env (Ice ICE_disconnected # start_events ''cam'' battery 4 sample_token ''v=0'' ?r) sample_connected = Some w1 \<and>
      sessionURL w1 = Some ''/s/2'' \<and> connectionState w1 = connecting \<and>
      (\<forall>es w2. run sample_env es w1 = Some w2 \<and> (\<forall>ev \<in> set es. \<not> names_again ''/s/1'' ev) \<longrightarrow> never_freed ''/s/1'' 1 sample_connected w2)"
    using reconnect_leaks [of sample_connected "''/s/1''" 1 ICE_disconnected ?r sample_env "''cam''" battery sample_token "''v=0''"]
      n sample_facts by simp
  then obtain w1 where w1: "run sample_env (Ice ICE_disconnected # start_events ''cam'' battery 4 sample_token ''v=0'' ?r) sample_connected = Some w1"
    "\<forall>es w2. run sample_env es w1 = Some w2 \<and> (\<forall>ev \<in> set es. \<not> names_again ''/s/1'' ev) \<longrightarrow> never_freed ''/s/1'' 1 sample_connected w2"
    by blast
  let ?es = "[Ice ICE_connected, Call_Stop, Token_Result 8 (Inr sample_token) True, Delete_Result 8 (Inr ())]"
  have "\<exists>w2. run sample_env ((Ice ICE_disconnected # start_events ''cam'' battery 4 sample_token ''v=0'' ?r) @ ?es) sample_connected = Some w2 \<and>
      deletes w2 = [''/s/2''] \<and> \<not> holds w2"
    by (simp add: sample_connected_def sample_start_def sample_env_def sample_token_def start_events_def new_manager_def step_defs
        holds_def eval_nat_numeral)
  then obtain w2 where "run sample_env ?es w1 = Some w2" "deletes w2 = [''/s/2'']" "\<not> holds w2"
    unfolding run_append w1(1) by auto
  moreover have "\<forall>ev \<in> set ?es. \<not> names_again ''/s/1'' ev" by (simp add: names_again_def)
  ultimately show ?thesis using w1 by blast
qed

end
