(* ===== verification/Start_Up.thy ===== *)
theory Start_Up imports Unofficial_Adapter Mock_Adapter Token_Service begin

text \<open>
  How the backend starts, stops and reports its health: \<open>app/config.py\<close>, \<open>app/adapters/factory.py\<close> and the
  lifespan hook and health routes of \<open>app/main.py\<close>. The process environment is a map, the parsed \<open>.env\<close> file
  another one (python-dotenv, which does not override); \<open>outside\<close> is the cipher a key gives, \<open>None\<close> for a key
  Fernet refuses, and the clocks. The database is the row of the refresh token at every path; the tables that
  \<open>TokenStore.initialize\<close> creates when they are missing are not touched further. Logging is \<open>Log_Redaction\<close>'s.
\<close>

section \<open>Settings\<close>

type_synonym environ = "string \<rightharpoonup> string"

datatype config_error =
    Missing_Variables "string list"
  | Bad_Ring_Adapter string
  | Not_An_Integer string string
  | Unknown_Ring_Adapter string
  | No_Refresh_Token

datatype start_error = ConfigurationError config_error | Raises exc

record settings =
  ring_client_id :: string
  ring_client_secret :: string
  ring_hmac_key :: string
  app_api_key :: string
  token_encryption_key :: string
  database_path :: string
  log_level :: string
  ring_adapter_name :: string
  ring_refresh_token :: "string option"
  ring_max_concurrent_streams :: int
  ring_api_rate_limit_per_minute :: int
  mediamtx_rtsp_url :: string
  mediamtx_whep_base :: string
  mediamtx_whep_url :: string
  ring_sip_bridge_url :: string

definition REQUIRED_ENV_VARS :: "string list" where
  "REQUIRED_ENV_VARS = [''RING_CLIENT_ID'', ''RING_CLIENT_SECRET'', ''RING_HMAC_KEY'', ''APP_API_KEY'',
     ''TOKEN_ENCRYPTION_KEY'']"

definition env_get :: "environ \<Rightarrow> string \<Rightarrow> string \<Rightarrow> string" where
  "env_get e var dflt = (case e var of None \<Rightarrow> dflt | Some v \<Rightarrow> v)"

definition parse_int_env :: "environ \<Rightarrow> string \<Rightarrow> int \<Rightarrow> config_error + int" where
  "parse_int_env e var dflt = (let raw = strip (env_get e var []) in
     if raw = [] then Inr dflt
     else (case py_int raw of None \<Rightarrow> Inl (Not_An_Integer var raw) | Some i \<Rightarrow> Inr i))"

text \<open>\<open>Settings()\<close> once the \<open>.env\<close> file is loaded.\<close>

definition read_settings :: "environ \<Rightarrow> config_error + settings" where
  "read_settings e =
     (let missing = filter (\<lambda>var. env_get e var [] = []) REQUIRED_ENV_VARS in
      if missing \<noteq> [] then Inl (Missing_Variables missing)
      else (let raw = strip (env_get e ''RING_ADAPTER'' []); name = (if raw = [] then ''mock'' else raw) in
      if name \<notin> {''mock'', ''unofficial''} then Inl (Bad_Ring_Adapter name)
      else (case parse_int_env e ''RING_MAX_CONCURRENT_STREAMS'' 2 of
          Inl x \<Rightarrow> Inl x
        | Inr streams \<Rightarrow> (case parse_int_env e ''RING_API_RATE_LIMIT_PER_MINUTE'' 60 of
            Inl x \<Rightarrow> Inl x
          | Inr rate \<Rightarrow> Inr \<lparr>ring_client_id = env_get e ''RING_CLIENT_ID'' [],
              ring_client_secret = env_get e ''RING_CLIENT_SECRET'' [],
              ring_hmac_key = env_get e ''RING_HMAC_KEY'' [], app_api_key = env_get e ''APP_API_KEY'' [],
              token_encryption_key = env_get e ''TOKEN_ENCRYPTION_KEY'' [],
              database_path = env_get e ''DATABASE_PATH'' ''./tokens.db'', log_level = env_get e ''LOG_LEVEL'' ''INFO'',
              ring_adapter_name = name,
              ring_refresh_token = (let t = strip (env_get e ''RING_REFRESH_TOKEN'' []) in if t = [] then None else Some t),
              ring_max_concurrent_streams = streams, ring_api_rate_limit_per_minute = rate,
              mediamtx_rtsp_url = env_get e ''MEDIAMTX_RTSP_URL'' ''rtsp://mediamtx:8554/ring'',
              mediamtx_whep_base = env_get e ''MEDIAMTX_WHEP_BASE'' ''http://mediamtx:8889'',
              mediamtx_whep_url = env_get e ''MEDIAMTX_WHEP_URL'' ''http://localhost:8889/test/whep'',
              ring_sip_bridge_url = env_get e ''RING_SIP_BRIDGE_URL'' ''http://ring-sip-bridge:3000''\<rparr>))))"

definition get_settings :: "environ \<Rightarrow> environ \<Rightarrow> config_error + settings" where
  "get_settings dotenv e = read_settings (dotenv ++ e)"

section \<open>The adapter factory\<close>

type_synonym disk = "string \<Rightarrow> refresh_row option"

record outside =
  out_fernet :: "string \<Rightarrow> fernet option"
  out_iso :: string
  out_now :: real

datatype token_source = From_Store | From_Environment

text \<open>The adapter in use; the unofficial one with its \<open>_ring_http\<close>, open or closed.\<close>

datatype live_adapter = Live_Mock mock_state | Live_Unofficial adapter bool

definition bootstrap_refresh_token :: "string \<Rightarrow> settings \<Rightarrow> (refresh_store, start_error, token_source) prog" where
  "bootstrap_refresh_token now S s = (case rs_load s of
     (Inl e, s1) \<Rightarrow> (Inl (Raises e), s1)
   | (Inr (Some _), s1) \<Rightarrow> (Inr From_Store, s1)
   | (Inr None, s1) \<Rightarrow> (case ring_refresh_token S of
       None \<Rightarrow> (Inl (ConfigurationError No_Refresh_Token), s1)
     | Some env_value \<Rightarrow> if env_value = [] then (Inl (ConfigurationError No_Refresh_Token), s1)
         else (case rs_save now env_value s1 of
             (Inl e, s2) \<Rightarrow> (Inl (Raises e), s2)
           | (Inr _, s2) \<Rightarrow> (Inr From_Environment, s2))))"

definition RATE_LIMIT_QUEUE_WAIT_SECONDS :: real where "RATE_LIMIT_QUEUE_WAIT_SECONDS = 5"

definition SNAPSHOT_REFRESH_SETTLE_SECONDS :: real where "SNAPSHOT_REFRESH_SETTLE_SECONDS = 1 / 2"

definition create_unofficial_adapter :: "outside \<Rightarrow> settings \<Rightarrow> (disk, start_error, live_adapter) prog" where
  "create_unofficial_adapter out S d = (case out_fernet out (token_encryption_key S) of
     None \<Rightarrow> (Inl (Raises ValueError), d)
   | Some f \<Rightarrow>
      (case bootstrap_refresh_token (out_iso out) S (rs_initialize f (d (database_path S))) of
         (Inl e, store) \<Rightarrow> (Inl e, d(database_path S := rs_row store))
       | (Inr _, store) \<Rightarrow> (let d1 = d(database_path S := rs_row store) in
           case governor_init (ring_api_rate_limit_per_minute S) RATE_LIMIT_QUEUE_WAIT_SECONDS of
             Inl e \<Rightarrow> (Inl (Raises e), d1)
           | Inr governor \<Rightarrow>
               (let consumer = client_init (out_now out) governor store ''0.1.0'' SNAPSHOT_REFRESH_SETTLE_SECONDS;
                    sip = sip_init (ring_sip_bridge_url S) False
                in (Inr (Live_Unofficial (adapter_init consumer sip (ring_max_concurrent_streams S)
                      (mediamtx_whep_base S) False) True), d1)))))"

definition create_adapter :: "outside \<Rightarrow> settings \<Rightarrow> (disk, start_error, live_adapter) prog" where
  "create_adapter out S =
     (if ring_adapter_name S = ''mock'' then ret (Live_Mock (mock_init (mediamtx_whep_url S)))
      else if ring_adapter_name S = ''unofficial'' then create_unofficial_adapter out S
      else throw (ConfigurationError (Unknown_Ring_Adapter (ring_adapter_name S))))"

section \<open>The lifespan hook\<close>

record backend_state =
  st_settings :: settings
  st_adapter :: live_adapter

text \<open>How the start ends: the process has exited with a status, an exception leaves the hook, or it serves.\<close>

datatype start_end = Exited int config_error | Crashed exc | Serving backend_state

definition lifespan_start :: "outside \<Rightarrow> environ \<Rightarrow> environ \<Rightarrow> disk \<Rightarrow> start_end \<times> disk" where
  "lifespan_start out dotenv e d = (case get_settings dotenv e of
     Inl x \<Rightarrow> (Exited 1 x, d)
   | Inr S \<Rightarrow> (case out_fernet out (token_encryption_key S) of
       None \<Rightarrow> (Crashed ValueError, d)
     | Some _ \<Rightarrow> (case create_adapter out S d of
         (Inl (ConfigurationError x), d1) \<Rightarrow> (Exited 1 x, d1)
       | (Inl (Raises x), d1) \<Rightarrow> (Crashed x, d1)
       | (Inr A, d1) \<Rightarrow> (Serving \<lparr>st_settings = S, st_adapter = A\<rparr>, d1))))"

fun lifespan_shutdown :: "adapter_env \<Rightarrow> live_adapter \<Rightarrow> live_adapter" where
  "lifespan_shutdown env (Live_Mock m) = Live_Mock m"
| "lifespan_shutdown env (Live_Unofficial ad ring_http) = (case aclose env ad of
     (Inl _, ad1) \<Rightarrow> Live_Unofficial ad1 ring_http
   | (Inr _, ad1) \<Rightarrow> Live_Unofficial ad1 False)"

text \<open>\<open>get_ring_adapter\<close> before and after the hook has installed its override.\<close>

fun get_ring_adapter :: "backend_state option \<Rightarrow> exc + live_adapter" where
  "get_ring_adapter None = Inl RuntimeError"
| "get_ring_adapter (Some st) = Inr (st_adapter st)"

section \<open>Health\<close>

fun live_mode :: "live_adapter \<Rightarrow> string" where
  "live_mode (Live_Mock _) = ''mock''"
| "live_mode (Live_Unofficial _ _) = ''unofficial''"

fun extract_governor :: "live_adapter \<Rightarrow> governor option" where
  "extract_governor (Live_Mock _) = None"
| "extract_governor (Live_Unofficial ad _) = Some (cl_governor (ad_client ad))"

fun extract_session_map :: "live_adapter \<Rightarrow> session_map option" where
  "extract_session_map (Live_Mock _) = None"
| "extract_session_map (Live_Unofficial ad _) = Some (ad_sessions ad)"

definition health_check :: "live_adapter \<Rightarrow> answer" where
  "health_check A = (200, JObj [(''status'', JStr ''healthy''), (''adapter_mode'', JStr (live_mode A))])"

text \<open>
  The store of \<open>app.state\<close> and the one of the client read the same row. \<open>current_rate\<close> trims the window of
  the governor the client uses.
\<close>

fun refresh_token_valid :: "live_adapter \<Rightarrow> json" where
  "refresh_token_valid (Live_Mock _) = JNull"
| "refresh_token_valid (Live_Unofficial ad _) =
     (case rs_is_valid (cl_store (ad_client ad)) of (Inr b, _) \<Rightarrow> JBool b | (Inl _, _) \<Rightarrow> JNull)"

fun with_governor :: "governor \<Rightarrow> live_adapter \<Rightarrow> live_adapter" where
  "with_governor g (Live_Mock m) = Live_Mock m"
| "with_governor g (Live_Unofficial ad ring_http) =
     Live_Unofficial (ad\<lparr>ad_client := (ad_client ad)\<lparr>cl_governor := g\<rparr>\<rparr>) ring_http"

definition health_adapter :: "string \<Rightarrow> string option \<Rightarrow> real \<Rightarrow> live_adapter \<Rightarrow> answer \<times> live_adapter" where
  "health_adapter key credentials now A = (case verify_api_key key credentials of
     Inl x \<Rightarrow> (x, A)
   | Inr _ \<Rightarrow>
      (let count = (case extract_session_map A of None \<Rightarrow> 0
             | Some m \<Rightarrow> (case sm_count m of (Inr n, _) \<Rightarrow> n | (Inl _, _) \<Rightarrow> 0));
           (rate, A1) = (case extract_governor A of None \<Rightarrow> (0, A)
             | Some g \<Rightarrow> (let (n, g1) = current_rate now g in (n, with_governor g1 A)))
       in ((200, JObj [(''adapter_mode'', JStr (live_mode A)), (''refresh_token_valid'', refresh_token_valid A),
             (''active_stream_sessions'', JInt (int count)), (''ring_api_requests_last_minute'', JInt (int rate))]), A1)))"

section \<open>Facts\<close>

lemmas start_defs = lifespan_start_def create_adapter_def create_unofficial_adapter_def bootstrap_refresh_token_def

lemma governor_init_5: "governor_init n RATE_LIMIT_QUEUE_WAIT_SECONDS =
    (if n < 1 then Inl ValueError else Inr \<lparr>gov_max = n, gov_wait = 5, gov_events = []\<rparr>)"
  by (simp add: governor_init_def RATE_LIMIT_QUEUE_WAIT_SECONDS_def)

lemma read_settings_ok:
  assumes "read_settings e = Inr S"
  shows "ring_adapter_name S \<in> {''mock'', ''unofficial''}" and "ring_refresh_token S \<noteq> Some []"
    and "\<forall>var \<in> set REQUIRED_ENV_VARS. env_get e var [] \<noteq> []"
  using assms by (auto simp: read_settings_def Let_def filter_empty_conv split: if_splits sum.splits)

lemma started_unofficial:
  assumes S: "get_settings dotenv e = Inr S" and "ring_adapter_name S = ''unofficial''"
    and f: "out_fernet out (token_encryption_key S) = Some f"
  shows "lifespan_start out dotenv e d =
     (case bootstrap_refresh_token (out_iso out) S (rs_initialize f (d (database_path S))) of
        (Inl (ConfigurationError x), st) \<Rightarrow> (Exited 1 x, d(database_path S := rs_row st))
      | (Inl (Raises x), st) \<Rightarrow> (Crashed x, d(database_path S := rs_row st))
      | (Inr _, st) \<Rightarrow> (if ring_api_rate_limit_per_minute S < 1 then Crashed ValueError
          else Serving \<lparr>st_settings = S, st_adapter = Live_Unofficial (adapter_init
            (client_init (out_now out) \<lparr>gov_max = ring_api_rate_limit_per_minute S, gov_wait = 5, gov_events = []\<rparr> st
               ''0.1.0'' SNAPSHOT_REFRESH_SETTLE_SECONDS)
            (sip_init (ring_sip_bridge_url S) False) (ring_max_concurrent_streams S) (mediamtx_whep_base S) False) True\<rparr>,
          d(database_path S := rs_row st)))"
  using assms by (auto simp: lifespan_start_def create_adapter_def create_unofficial_adapter_def governor_init_5 Let_def
      split: prod.splits sum.splits start_error.splits)

text \<open>The token the unofficial adapter starts with.\<close>

definition start_token :: "string option \<Rightarrow> settings \<Rightarrow> string option" where
  "start_token stored S = (case stored of Some t \<Rightarrow> Some t | None \<Rightarrow> ring_refresh_token S)"

lemma bootstrap_result:
  assumes good: "rs_good s" and stored: "fst (rs_load s) = Inr stored"
    and env: "ring_refresh_token S \<noteq> Some []" "\<And>t. ring_refresh_token S = Some t \<Longrightarrow> utf8_valid t"
  shows "case start_token stored S of
      None \<Rightarrow> bootstrap_refresh_token now S s = (Inl (ConfigurationError No_Refresh_Token), s)
    | Some t \<Rightarrow> \<exists>source s'. bootstrap_refresh_token now S s = (Inr source, s') \<and> rs_good s' \<and>
        rs_load s' = (Inr (Some t), s') \<and> (stored \<noteq> None \<longrightarrow> s' = s)"
proof -
  have load: "rs_load s = (Inr stored, s)" using rs.load_ok [OF good] stored by auto
  show ?thesis
  proof (cases stored)
    case (Some t)
    then show ?thesis using load good by (simp add: start_token_def bootstrap_refresh_token_def)
  next
    case None
    show ?thesis
    proof (cases "ring_refresh_token S")
      case (Some t)
      with env rs.save_ok [OF good, of t now] obtain s' where
        "rs_save now t s = (Inr (), s')" "rs_good s'" "rs_load s' = (Inr (Some t), s')" "t \<noteq> []" by auto
      then show ?thesis using load None Some by (simp add: start_token_def bootstrap_refresh_token_def)
    qed (use load None in \<open>simp add: start_token_def bootstrap_refresh_token_def\<close>)
  qed
qed

section \<open>Properties\<close>

text \<open>C25: With the unofficial adapter the backend serves when a token is stored or configured and the rate limit is
  at least one; it then starts with the stored token, which a configured one never replaces. With neither token it
  exits with status 1 and the database as it was; a rate limit below one passes the configuration and leaves the
  hook as a \<open>ValueError\<close>, after the configured token has been stored.\<close>

theorem unofficial_start:
  assumes S: "get_settings dotenv e = Inr S" and name: "ring_adapter_name S = ''unofficial''"
    and f: "out_fernet out (token_encryption_key S) = Some f"
    and good: "rs_good (rs_initialize f (d (database_path S)))"
    and stored: "fst (rs_load (rs_initialize f (d (database_path S)))) = Inr stored"
    and utf8: "\<And>t. ring_refresh_token S = Some t \<Longrightarrow> utf8_valid t"
  shows "case lifespan_start out dotenv e d of
      (Exited status x, d1) \<Rightarrow> status = 1 \<and> x = No_Refresh_Token \<and> start_token stored S = None \<and> d1 = d
    | (Crashed x, d1) \<Rightarrow> x = ValueError \<and> ring_api_rate_limit_per_minute S < 1 \<and>
        fst (rs_load (rs_initialize f (d1 (database_path S)))) = Inr (start_token stored S) \<and> start_token stored S \<noteq> None
    | (Serving st, d1) \<Rightarrow> 1 \<le> ring_api_rate_limit_per_minute S \<and> start_token stored S \<noteq> None \<and>
        (stored \<noteq> None \<longrightarrow> d1 = d) \<and> (\<exists>ad. st_adapter st = Live_Unofficial ad True \<and>
          rs_row (cl_store (ad_client ad)) = d1 (database_path S) \<and>
          fst (rs_load (cl_store (ad_client ad))) = Inr (start_token stored S))"
proof -
  let ?s = "rs_initialize f (d (database_path S))"
  have env: "ring_refresh_token S \<noteq> Some []"
    using S read_settings_ok(2) by (auto simp: get_settings_def)
  have same: "rs_row ?s = d (database_path S)" by (simp add: rs_initialize_def)
  note start = started_unofficial [OF S name f, of d]
  show ?thesis
  proof (cases "start_token stored S")
    case None
    with bootstrap_result [OF good stored env utf8, of "out_iso out"] show ?thesis by (simp add: start same)
  next
    case (Some t)
    with bootstrap_result [OF good stored env utf8, of "out_iso out"] obtain source s' where
      b: "bootstrap_refresh_token (out_iso out) S ?s = (Inr source, s')" and good': "rs_good s'"
      and l: "rs_load s' = (Inr (Some t), s')" and kept: "stored \<noteq> None \<longrightarrow> s' = ?s" by auto
    have enc: "rs_encryptor s' = f"
      using b by (auto simp: bootstrap_refresh_token_def rs_load_def rs_save_def rs_initialize_def Let_def
          split: option.splits sum.splits prod.splits if_splits)
    have reload: "fst (rs_load (rs_initialize f (rs_row s'))) = Inr (Some t)"
      using l enc by (auto simp: rs_load_def rs_initialize_def split: option.splits sum.splits if_splits)
    show ?thesis
      using b l kept same reload Some by (auto simp: start adapter_init_def client_init_def)
  qed
qed

text \<open>A limit of zero or fewer concurrent streams passes the configuration: the backend starts, and every stream
  asked for is refused before the sidecar is contacted, with nothing changed.\<close>

theorem no_stream_within_limit:
  assumes "lifespan_start out dotenv e d = (Serving st, d1)" and "st_adapter st = Live_Unofficial ad ring_http"
    and "ring_max_concurrent_streams (st_settings st) \<le> 0"
  shows "create_stream_session env device_id sdp_offer ad = (Inl (Adapter StreamCapacityExceededError), ad)"
proof -
  have "ad_sessions ad = []" "ad_max_concurrent ad = ring_max_concurrent_streams (st_settings st)"
    using assms by (auto simp: lifespan_start_def create_adapter_def create_unofficial_adapter_def adapter_init_def
        sm_empty_def ret_def throw_def Let_def split: sum.splits prod.splits option.splits start_error.splits if_splits)
  then show ?thesis
    using assms(3) by (simp add: create_stream_session_def andThen_def asks_def zoom_def sm_check_capacity_def)
qed

text \<open>Stopping the backend asks the sidecar to stop every session still in the map, in order, empties the map and
  closes the clients for mediamtx and for Ring; the client for the sidecar is left as it is, so one the factory has
  opened stays open.\<close>

theorem shutdown_effect:
  "\<exists>ad'. lifespan_shutdown env (Live_Unofficial ad ring_http) = Live_Unofficial ad' False \<and> ad_sessions ad' = [] \<and>
     \<not> ad_whep_open ad' \<and> sp_owned_open (ad_sip ad') = sp_owned_open (ad_sip ad) \<and>
     sp_sent (ad_sip ad') = sp_sent (ad_sip ad) @
       map (\<lambda>(_, x). stop_request (ad_sip ad) (ss_bridge_session_id x)) (ad_sessions ad)"
proof -
  obtain ad' where a: "aclose env ad = (Inr (), ad')" "ad_sessions ad' = []"
    "sp_sent (ad_sip ad') = sp_sent (ad_sip ad) @
       map (\<lambda>(_, x). stop_request (ad_sip ad) (ss_bridge_session_id x)) (ad_sessions ad)"
    using aclose_result [of env ad] by blast
  have stop: "sp_owned_open (ad_sip (snd (stop_all env xs t))) = sp_owned_open (ad_sip t)" for xs t
  proof (induction xs arbitrary: t)
    case Nil
    then show ?case by (simp add: ret_def)
  next
    case (Cons x xs)
    then show ?case by (simp add: andThen_def stop_swallowed) (simp add: stop_sent_def)
  qed
  have "ad' = (snd (stop_all env (map snd (ad_sessions ad)) (ad\<lparr>ad_sessions := []\<rparr>)))\<lparr>ad_whep_open := False\<rparr>"
    using a(1) by (auto simp: aclose_def andThen_def zoom_def sm_clear_def modify_def split: prod.splits sum.splits)
  with stop [of "map snd (ad_sessions ad)" "ad\<lparr>ad_sessions := []\<rparr>"]
  have "sp_owned_open (ad_sip ad') = sp_owned_open (ad_sip ad)" "\<not> ad_whep_open ad'" by simp_all
  with a show ?thesis by simp
qed

text \<open>The adapter diagnostics need the key; the mock adapter has no token, sessions or requests to report, the
  other one reports whether the stored token is valid, the sessions of the map and the requests of the last minute.\<close>

theorem health_adapter_result:
  "health_adapter key credentials now A =
     (if credentials \<noteq> Some key then (http_exception 401 [(''error'', ''unauthorized'')], A)
      else (case A of
        Live_Mock m \<Rightarrow> ((200, JObj [(''adapter_mode'', JStr ''mock''), (''refresh_token_valid'', JNull),
          (''active_stream_sessions'', JInt 0), (''ring_api_requests_last_minute'', JInt 0)]), A)
      | Live_Unofficial ad ring_http \<Rightarrow> (let g = trim_locked now (cl_governor (ad_client ad)) in
          ((200, JObj [(''adapter_mode'', JStr ''unofficial''),
             (''refresh_token_valid'', JBool (fst (rs_is_valid (cl_store (ad_client ad))) = Inr True)),
             (''active_stream_sessions'', JInt (int (length (ad_sessions ad)))),
             (''ring_api_requests_last_minute'', JInt (int (length (gov_events g))))]),
           Live_Unofficial (ad\<lparr>ad_client := (ad_client ad)\<lparr>cl_governor := g\<rparr>\<rparr>) ring_http))))"
  by (auto simp: health_adapter_def verify_api_key_def sm_count_def current_rate_def rs_is_valid_def Let_def
      split: option.splits live_adapter.splits)

text \<open>The variables that are missing or empty are all named, in the order of the list.\<close>

lemma missing_variables_named:
  "get_settings dotenv e = Inl (Missing_Variables vs) \<longleftrightarrow>
     vs \<noteq> [] \<and> vs = filter (\<lambda>var. env_get (dotenv ++ e) var [] = []) REQUIRED_ENV_VARS"
  by (auto simp: get_settings_def read_settings_def parse_int_env_def Let_def split: if_splits sum.splits option.splits)

text \<open>A row that the configured key does not decrypt stops the start, whether or not a token is configured.\<close>

lemma other_key_crashes:
  assumes "get_settings dotenv e = Inr S" "ring_adapter_name S = ''unofficial''"
    and "out_fernet out (token_encryption_key S) = Some f" and "d (database_path S) = Some r" "rr_is_valid r \<noteq> 0"
    and "decrypt f (rr_refresh_token r) = Inl x"
  shows "lifespan_start out dotenv e d = (Crashed x, d)"
  using assms by (auto simp: started_unofficial bootstrap_refresh_token_def rs_load_def rs_initialize_def)

section \<open>Witnesses\<close>

definition example_environ :: environ where
  "example_environ = map_of [(''RING_CLIENT_ID'', ''id''), (''RING_CLIENT_SECRET'', ''secret''), (''RING_HMAC_KEY'', ''hmac''),
     (''APP_API_KEY'', ''key''), (''TOKEN_ENCRYPTION_KEY'', ''fernet''), (''RING_ADAPTER'', '' unofficial''),
     (''RING_REFRESH_TOKEN'', ''fresh'')]"

definition example_settings :: "int \<Rightarrow> settings" where
  "example_settings streams = \<lparr>ring_client_id = ''id'', ring_client_secret = ''secret'', ring_hmac_key = ''hmac'', app_api_key = ''key'',
     token_encryption_key = ''fernet'', database_path = ''./tokens.db'', log_level = ''INFO'',
     ring_adapter_name = ''unofficial'', ring_refresh_token = Some ''fresh'', ring_max_concurrent_streams = streams,
     ring_api_rate_limit_per_minute = 60, mediamtx_rtsp_url = ''rtsp://mediamtx:8554/ring'',
     mediamtx_whep_base = ''http://mediamtx:8889'', mediamtx_whep_url = ''http://localhost:8889/test/whep'',
     ring_sip_bridge_url = ''http://ring-sip-bridge:3000''\<rparr>"

definition example_outside :: outside where
  "example_outside = \<lparr>out_fernet = (\<lambda>_. Some plain_fernet), out_iso = ''now'', out_now = 0\<rparr>"

definition example_disk :: disk where
  "example_disk = (\<lambda>_. Some \<lparr>rr_refresh_token = ''arotated'', rr_is_valid = 1, rr_created_at = ''then'', rr_updated_at = ''then''\<rparr>)"

lemma example_settings_read:
  "get_settings Map.empty example_environ = Inr (example_settings 2)"
  "get_settings (map_of [(''RING_MAX_CONCURRENT_STREAMS'', ''0'')]) example_environ = Inr (example_settings 0)"
  by (code_simp, code_simp)

theorem unofficial_start_witness:
  "case lifespan_start example_outside Map.empty example_environ example_disk of
      (Serving st, d1) \<Rightarrow> d1 = example_disk \<and> (\<exists>ad. st_adapter st = Live_Unofficial ad True \<and>
        fst (rs_load (cl_store (ad_client ad))) = Inr (Some ''rotated''))
    | _ \<Rightarrow> False"
proof -
  have load: "fst (rs_load (rs_initialize plain_fernet (example_disk (database_path (example_settings 2))))) = Inr (Some ''rotated'')"
    by code_simp
  have good: "rs_good (rs_initialize plain_fernet (example_disk (database_path (example_settings 2))))"
    using load by (auto simp: rs_good_def rs_initialize_def rs_load_def example_disk_def split: sum.splits if_splits)
  have utf8: "utf8_valid t" if "ring_refresh_token (example_settings 2) = Some t" for t
  proof -
    have "t = ''fresh''" using that by (simp add: example_settings_def)
    moreover have "utf8_valid ''fresh''" by code_simp
    ultimately show ?thesis by simp
  qed
  have name: "ring_adapter_name (example_settings 2) = ''unofficial''" "1 \<le> ring_api_rate_limit_per_minute (example_settings 2)"
    by (simp_all add: example_settings_def)
  have f: "out_fernet example_outside (token_encryption_key (example_settings 2)) = Some plain_fernet"
    by (simp add: example_outside_def)
  from unofficial_start [of Map.empty example_environ "example_settings 2" example_outside plain_fernet example_disk,
      OF example_settings_read(1) name(1) f good load utf8] name(2) show ?thesis
    by (auto simp: start_token_def split: start_end.splits)
qed

theorem no_stream_within_limit_witness:
  "\<exists>ad. create_stream_session (example_adapter_env Timed_Out) ''7'' ''offer'' ad = (Inl (Adapter StreamCapacityExceededError), ad)"
proof -
  obtain st d1 ad where "lifespan_start example_outside (map_of [(''RING_MAX_CONCURRENT_STREAMS'', ''0'')]) example_environ (\<lambda>_. None) =
      (Serving st, d1)" "st_adapter st = Live_Unofficial ad True" "ring_max_concurrent_streams (st_settings st) = 0"
    using started_unofficial [OF example_settings_read(2), of example_outside plain_fernet "\<lambda>_. None"]
    by (simp add: example_settings_def example_outside_def bootstrap_refresh_token_def rs_load_def rs_save_def rs_initialize_def Let_def)
  then show ?thesis using no_stream_within_limit [of example_outside _ _ _ st d1 ad True "example_adapter_env Timed_Out" "''7''" "''offer''"]
    by auto
qed

end
