(* ===== verification/Log_Redaction.thy ===== *)
theory Log_Redaction imports Prelude begin

text \<open>
  The redaction of secrets in the backend's logs, \<open>app/logging_redaction.py\<close>, and what \<open>install\<close> does with
  it: Python's logging applies the filters of the logger a record is made by, then the handlers of that logger
  and of its ancestors, not the ancestors' filters. The two regular expressions are written as the functions
  that find their leftmost match; case folding and word characters are the ASCII ones. Percent formatting is
  the parameter \<open>getMessage\<close>, \<open>None\<close> where it raises.
\<close>

section \<open>Redacted text\<close>

definition REDACTED_FIELDS :: "string list" where
  "REDACTED_FIELDS = [''refresh_token'', ''access_token'', ''authorization'', ''cookie'', ''ring_refresh_token'',
     ''ring_access_token'']"

definition REDACTED :: string where "REDACTED = ''[REDACTED]''"

definition word_char :: "char \<Rightarrow> bool" where
  "word_char c \<longleftrightarrow> (let n = (of_char c :: nat) in
     (48 \<le> n \<and> n \<le> 57) \<or> (65 \<le> n \<and> n \<le> 90) \<or> n = 95 \<or> (97 \<le> n \<and> n \<le> 122))"

text \<open>
  \<open>\b(field)=(\S+)\<close> at the head of \<open>s\<close>, \<open>w\<close> saying whether a word character is before it: a field consists of
  word characters and \<open>=\<close> is none, so it is the whole run of them. The result is the field as it is
  written, its value and what follows.
\<close>

definition match_field :: "bool \<Rightarrow> string \<Rightarrow> (string \<times> string \<times> string) option" where
  "match_field w s =
     (let name = takeWhile word_char s in
      if \<not> w \<and> lower name \<in> set REDACTED_FIELDS then
        (case dropWhile word_char s of
           [] \<Rightarrow> None
         | d # t \<Rightarrow> (let value = takeWhile (\<lambda>c. \<not> is_space c) t in
             if d = CHR ''='' \<and> value \<noteq> [] then Some (name, value, dropWhile (\<lambda>c. \<not> is_space c) t) else None))
      else None)"

lemma match_field_length: "match_field w s = Some (n, v, t) \<Longrightarrow> length t < length s"
proof -
  assume m: "match_field w s = Some (n, v, t)"
  then obtain d u where d: "dropWhile word_char s = d # u" "t = dropWhile (\<lambda>c. \<not> is_space c) u"
    by (auto simp: match_field_def Let_def split: list.splits if_splits)
  have "length u < length s" using d(1) length_dropWhile_le [of word_char s] by simp
  then show ?thesis using d(2) length_dropWhile_le [of "\<lambda>c. \<not> is_space c" u] by simp
qed

function redact_fields :: "bool \<Rightarrow> string \<Rightarrow> string" where
  "redact_fields w s = (case match_field w s of
     Some (name, value, rest) \<Rightarrow> name @ CHR ''='' # REDACTED @ redact_fields (word_char (last value)) rest
   | None \<Rightarrow> (case s of [] \<Rightarrow> [] | c # cs \<Rightarrow> c # redact_fields (word_char c) cs))"
  by pat_completeness auto

termination
  by (relation "measure (\<lambda>(w, s). length s)") (auto dest: match_field_length)

declare redact_fields.simps [simp del]

text \<open>\<open>"(field)"\s*:\s*"([^"]*)"\<close> at the head of \<open>s\<close>.\<close>

definition match_json :: "string \<Rightarrow> (string \<times> string) option" where
  "match_json s = (case s of
     q # s1 \<Rightarrow> (let name = takeWhile word_char s1 in
       if q = CHR 0x22 \<and> lower name \<in> set REDACTED_FIELDS then
         (case dropWhile word_char s1 of
            q2 # s2 \<Rightarrow> (case lstrip s2 of
               colon # s3 \<Rightarrow> (case lstrip s3 of
                  q3 # s4 \<Rightarrow> (case dropWhile (\<lambda>c. c \<noteq> CHR 0x22) s4 of
                     q4 # rest \<Rightarrow> if q2 = CHR 0x22 \<and> colon = CHR '':'' \<and> q3 = CHR 0x22 then Some (name, rest) else None
                   | [] \<Rightarrow> None)
                | [] \<Rightarrow> None)
             | [] \<Rightarrow> None)
          | [] \<Rightarrow> None)
       else None)
   | [] \<Rightarrow> None)"

lemma length_lstrip: "length (lstrip s) \<le> length s"
  by (simp add: lstrip_def length_dropWhile_le)

lemma match_json_length: "match_json s = Some (n, t) \<Longrightarrow> length t < length s"
proof -
  assume "match_json s = Some (n, t)"
  then obtain q s1 q2 s2 c s3 q3 s4 q4 where s: "s = q # s1" and d: "dropWhile word_char s1 = q2 # s2" "lstrip s2 = c # s3"
    "lstrip s3 = q3 # s4" "dropWhile (\<lambda>c. c \<noteq> CHR 0x22) s4 = q4 # t"
    by (auto simp: match_json_def Let_def split: list.splits if_splits)
  have "Suc (length s2) \<le> length s1" using length_dropWhile_le [of word_char s1] d(1) by simp
  moreover have "Suc (length s3) \<le> length s2" using length_lstrip [of s2] d(2) by simp
  moreover have "Suc (length s4) \<le> length s3" using length_lstrip [of s3] d(3) by simp
  moreover have "Suc (length t) \<le> length s4" using length_dropWhile_le [of "\<lambda>c. c \<noteq> CHR 0x22" s4] d(4) by simp
  ultimately show ?thesis using s by simp
qed

function redact_json :: "string \<Rightarrow> string" where
  "redact_json s = (case match_json s of
     Some (name, rest) \<Rightarrow> CHR 0x22 # name @ [CHR 0x22, CHR '':'', CHR '' '', CHR 0x22] @ REDACTED @ CHR 0x22 # redact_json rest
   | None \<Rightarrow> (case s of [] \<Rightarrow> [] | c # cs \<Rightarrow> c # redact_json cs))"
  by pat_completeness auto

termination
  by (relation "measure length") (auto dest: match_json_length)

declare redact_json.simps [simp del]

definition redact_string :: "string \<Rightarrow> string" where
  "redact_string value = redact_json (redact_fields False value)"

section \<open>The filter\<close>

text \<open>Keys of a dict are strings or something else, of which the text is known.\<close>

datatype log_key = Str_Key string | Other_Key string

datatype log_args = No_Args | Tuple_Args "string list" | Dict_Args "(log_key \<times> string) list"

record log_record =
  lr_name :: string
  lr_msg :: string
  lr_args :: log_args

fun is_str_key :: "log_key \<Rightarrow> bool" where
  "is_str_key (Str_Key _) = True"
| "is_str_key (Other_Key _) = False"

fun key_text :: "log_key \<Rightarrow> string" where
  "key_text (Str_Key k) = k"
| "key_text (Other_Key k) = k"

text \<open>\<open>None\<close> where \<open>key.lower()\<close> raises: a key that is no string.\<close>

definition format_dict_summary :: "string \<Rightarrow> (log_key \<times> string) list \<Rightarrow> string option" where
  "format_dict_summary template args =
     (if \<exists>(k, v) \<in> set args. \<not> is_str_key k then None
      else (let rendered_args = join '' '' (map (\<lambda>(k, v). key_text k @ CHR ''='' #
              (if lower (key_text k) \<in> set REDACTED_FIELDS then REDACTED else v)) args)
        in Some (if rendered_args \<noteq> [] then template @ CHR '' '' # rendered_args else template)))"

definition redacting_filter :: "(string \<Rightarrow> log_args \<Rightarrow> string option) \<Rightarrow> log_record \<Rightarrow> log_record" where
  "redacting_filter getMessage r =
     (let formatted = (case getMessage (lr_msg r) (lr_args r) of Some m \<Rightarrow> m | None \<Rightarrow> lr_msg r) in
      case (case lr_args r of Dict_Args kvs \<Rightarrow> format_dict_summary (lr_msg r) kvs | _ \<Rightarrow> Some formatted) of
        None \<Rightarrow> r
      | Some text \<Rightarrow> r\<lparr>lr_msg := redact_string text, lr_args := No_Args\<rparr>)"

section \<open>Logging\<close>

text \<open>The filters of the root logger; the loggers of the modules have none, nor has the handler of \<open>basicConfig\<close>.\<close>

datatype log_filter = RedactingFilter | Foreign_Filter string

record logging =
  root_filters :: "log_filter list"
  written :: "string list"

definition install :: "logging \<Rightarrow> logging" where
  "install L = (if RedactingFilter \<in> set (root_filters L) then L
     else L\<lparr>root_filters := root_filters L @ [RedactingFilter]\<rparr>)"

text \<open>\<open>callHandlers\<close> of a record that the level lets through; a record that cannot be formatted is reported, not written.\<close>

definition filters_of :: "logging \<Rightarrow> string \<Rightarrow> log_filter list" where
  "filters_of L name = (if name = ''root'' then root_filters L else [])"

definition write_record :: "(string \<Rightarrow> log_args \<Rightarrow> string option) \<Rightarrow> logging \<Rightarrow> log_record \<Rightarrow> logging" where
  "write_record getMessage L r =
     (let r' = (if RedactingFilter \<in> set (filters_of L (lr_name r)) then redacting_filter getMessage r else r) in
      case getMessage (lr_msg r') (lr_args r') of None \<Rightarrow> L | Some m \<Rightarrow> L\<lparr>written := written L @ [m]\<rparr>)"

section \<open>Facts\<close>

text \<open>A field with a value that is not redacted, anywhere in the text.\<close>

fun field_leak :: "bool \<Rightarrow> string \<Rightarrow> bool" where
  "field_leak w [] = False"
| "field_leak w (c # s) = ((case match_field w (c # s) of Some (_, v, _) \<Rightarrow> v \<noteq> REDACTED | None \<Rightarrow> False) \<or>
     field_leak (word_char c) s)"

lemma match_field_Nil [simp]: "match_field w [] = None"
  by (simp add: match_field_def)

lemma redact_fields_Nil [simp]: "redact_fields w [] = []"
  by (simp add: redact_fields.simps)

lemma match_field_inside [simp]: "match_field True s = None"
  by (simp add: match_field_def Let_def)

lemma empty_no_field: "[] \<notin> set REDACTED_FIELDS"
  by (simp add: REDACTED_FIELDS_def)

lemma match_field_no_word [simp]: "\<not> word_char c \<Longrightarrow> match_field w (c # s) = None"
  using empty_no_field by (auto simp: match_field_def lower_def)

lemma redact_no_word [simp]: "\<not> word_char c \<Longrightarrow> redact_fields w (c # s) = c # redact_fields False s"
  by (subst redact_fields.simps) simp

lemma redact_inside: "list_all word_char u \<Longrightarrow> redact_fields True (u @ t) = u @ redact_fields True t"
proof (induction u)
  case (Cons c u)
  then show ?case by (subst redact_fields.simps) simp
qed simp

lemma leak_inside: "list_all word_char u \<Longrightarrow> field_leak True (u @ t) = field_leak True t"
  by (induction u) auto

definition ends_value :: "string \<Rightarrow> bool" where
  "ends_value t \<longleftrightarrow> (case t of [] \<Rightarrow> True | c # _ \<Rightarrow> is_space c)"

lemma space_no_word: "is_space c \<Longrightarrow> \<not> word_char c"
  by (auto simp: is_space_def word_char_def Let_def)

lemma ends_value_redact: "ends_value (redact_fields w t) = ends_value t" if "ends_value t"
  using that space_no_word by (auto simp: ends_value_def split: list.splits)

lemma ends_value_leak: "ends_value t \<Longrightarrow> field_leak w t = field_leak False t"
  using space_no_word by (cases t) (auto simp: ends_value_def)

lemma ends_value_iff: "ends_value t \<longleftrightarrow> takeWhile (\<lambda>c. \<not> is_space c) t = []"
  by (cases t) (auto simp: ends_value_def)

lemma ends_value_dropWhile: "ends_value (dropWhile (\<lambda>c. \<not> is_space c) t)"
  by (induction t) (auto simp: ends_value_def)

lemma while_run:
  assumes "list_all P u" and "t = [] \<or> \<not> P (hd t)"
  shows "takeWhile P (u @ t) = u" "dropWhile P (u @ t) = t"
  using assms by (induction u) (cases t; auto)+

lemma while_parts: "list_all P (takeWhile P s)" "dropWhile P s = [] \<or> \<not> P (hd (dropWhile P s))"
  by (induction s) auto

lemma match_field_decompose:
  "match_field w s = Some (n, v, t) \<longleftrightarrow> \<not> w \<and> lower n \<in> set REDACTED_FIELDS \<and> list_all word_char n \<and> v \<noteq> [] \<and>
     list_all (\<lambda>c. \<not> is_space c) v \<and> ends_value t \<and> s = n @ CHR ''='' # v @ t"
proof
  assume "match_field w s = Some (n, v, t)"
  then obtain u where u: "\<not> w" "n = takeWhile word_char s" "lower n \<in> set REDACTED_FIELDS" "dropWhile word_char s = CHR ''='' # u"
    "v = takeWhile (\<lambda>c. \<not> is_space c) u" "v \<noteq> []" "t = dropWhile (\<lambda>c. \<not> is_space c) u"
    by (auto simp: match_field_def Let_def split: list.splits if_splits)
  have "s = n @ CHR ''='' # u" using u(2,4) takeWhile_dropWhile_id [of word_char s] by simp
  moreover have "u = v @ t" using u(5,7) by simp
  ultimately show "\<not> w \<and> lower n \<in> set REDACTED_FIELDS \<and> list_all word_char n \<and> v \<noteq> [] \<and>
     list_all (\<lambda>c. \<not> is_space c) v \<and> ends_value t \<and> s = n @ CHR ''='' # v @ t"
    using u(1,3,6) ends_value_dropWhile [of u] while_parts(1) [of word_char s]
      while_parts(1) [of "\<lambda>c. \<not> is_space c" u]
    unfolding u(2,5,7) by simp
next
  assume a: "\<not> w \<and> lower n \<in> set REDACTED_FIELDS \<and> list_all word_char n \<and> v \<noteq> [] \<and>
     list_all (\<lambda>c. \<not> is_space c) v \<and> ends_value t \<and> s = n @ CHR ''='' # v @ t"
  have eq: "\<not> word_char (CHR ''='')" by (simp add: word_char_def)
  have "takeWhile word_char s = n" "dropWhile word_char s = CHR ''='' # v @ t"
    using while_run [of word_char n "CHR ''='' # v @ t"] a eq by simp_all
  moreover have "takeWhile (\<lambda>c. \<not> is_space c) (v @ t) = v" "dropWhile (\<lambda>c. \<not> is_space c) (v @ t) = t"
    using while_run [of "\<lambda>c. \<not> is_space c" v t] a by (auto simp: ends_value_def split: list.splits)
  ultimately show "match_field w s = Some (n, v, t)" using a by (simp add: match_field_def Let_def)
qed

lemma redacted_chars: "list_all (\<lambda>c. \<not> is_space c) REDACTED" "REDACTED \<noteq> []"
  by (simp_all add: REDACTED_def is_space_def)

text \<open>The replacement itself holds no match.\<close>

lemma leak_replacement: "ends_value t \<Longrightarrow> field_leak False (CHR ''='' # REDACTED @ t) = field_leak False t"
proof -
  assume t: "ends_value t"
  have eq: "\<not> word_char (CHR ''='')" "\<not> word_char (CHR ''['')" "\<not> word_char (CHR '']'')"
    by (simp_all add: word_char_def)
  have "list_all word_char ''REDACTED''" by (simp add: word_char_def)
  have name: "match_field False (''REDACTED'' @ CHR '']'' # t) = None"
  proof (rule ccontr)
    assume "match_field False (''REDACTED'' @ CHR '']'' # t) \<noteq> None"
    then obtain n v r where "match_field False (''REDACTED'' @ CHR '']'' # t) = Some (n, v, r)" by auto
    then have m: "list_all word_char n" "lower n \<in> set REDACTED_FIELDS" "''REDACTED'' @ CHR '']'' # t = n @ CHR ''='' # v @ r"
      unfolding match_field_decompose by blast+
    have "n = takeWhile word_char (''REDACTED'' @ CHR '']'' # t)"
      unfolding m(3) using while_run(1) [OF m(1), of "CHR ''='' # v @ r"] eq(1) by simp
    also have "\<dots> = ''REDACTED''"
      by (rule while_run(1)) (simp_all add: word_char_def)
    finally have "n = ''REDACTED''" .
    then show False using m(2) by (simp add: REDACTED_FIELDS_def lower_def lower_char_def)
  qed
  have R: "word_char (CHR ''R'')" by (simp add: word_char_def)
  have "field_leak True (''EDACTED'' @ CHR '']'' # t) = field_leak True (CHR '']'' # t)"
    by (rule leak_inside) (simp add: word_char_def)
  then show ?thesis using name eq R by (simp add: REDACTED_def)
qed

text \<open>A field that is left alone has no value, in the result as in the text.\<close>

lemma redact_keeps_head:
  assumes "match_field w (c # cs) = None" and "match_field w (c # redact_fields (word_char c) cs) = Some (n, v, t)"
  shows False
proof -
  let ?out = "redact_fields (word_char c) cs"
  from assms(2) have m: "\<not> w" "lower n \<in> set REDACTED_FIELDS" "list_all word_char n" "v \<noteq> []"
    "list_all (\<lambda>c. \<not> is_space c) v" "c # ?out = n @ CHR ''='' # v @ t"
    unfolding match_field_decompose by blast+
  from m(2) obtain n' where n: "n = c # n'" using m(6) empty_no_field by (cases n) (auto simp: lower_def)
  then have w: "word_char c" "list_all word_char n'" and out: "?out = n' @ CHR ''='' # v @ t" using m(3,6) by simp_all
  define u where "u = takeWhile word_char cs"
  define d where "d = dropWhile word_char cs"
  have cs: "cs = u @ d" and u: "list_all word_char u" by (simp_all add: u_def d_def while_parts)
  have eq: "\<not> word_char (CHR ''='')" by (simp add: word_char_def)
  have out2: "?out = u @ redact_fields True d" using redact_inside [OF u, of d] w(1) cs by simp
  have d_case: "d = [] \<or> (\<exists>x y. d = x # y \<and> \<not> word_char x)"
    using while_parts(2) [of word_char cs] unfolding d_def by (cases "dropWhile word_char cs") auto
  have "takeWhile word_char ?out = n'"
    using while_run(1) [OF w(2), of "CHR ''='' # v @ t"] eq unfolding out by simp
  moreover have "takeWhile word_char ?out = u"
    using while_run(1) [OF u, of "redact_fields True d"] d_case unfolding out2 by auto
  ultimately have nu: "n' = u" by simp
  with out out2 have rd: "redact_fields True d = CHR ''='' # v @ t" by simp
  then obtain y where d: "d = CHR ''='' # y" using d_case by auto
  with rd have vt: "redact_fields False y = v @ t" using eq by simp
  have "takeWhile (\<lambda>c. \<not> is_space c) y = []"
  proof (rule ccontr)
    assume ne: "takeWhile (\<lambda>c. \<not> is_space c) y \<noteq> []"
    have "match_field w (c # cs) = Some (n, takeWhile (\<lambda>c. \<not> is_space c) y, dropWhile (\<lambda>c. \<not> is_space c) y)"
      unfolding match_field_decompose
      using m(1-3) ne ends_value_dropWhile cs d nu n by (simp add: while_parts)
    with assms(1) show False by simp
  qed
  then have "ends_value (v @ t)" using ends_value_redact [of y False] vt by (simp add: ends_value_iff)
  then show False using m(4,5) by (cases v) (auto simp: ends_value_def)
qed

lemma redact_no_leak: "\<not> field_leak w (redact_fields w s)"
proof (induction w s rule: redact_fields.induct)
  case (1 w s)
  show ?case
  proof (cases "match_field w s")
    case (Some m)
    then obtain n v t where m: "match_field w s = Some (n, v, t)" by (cases m) auto
    then have d: "\<not> w" "lower n \<in> set REDACTED_FIELDS" "list_all word_char n" "ends_value t"
      unfolding match_field_decompose by blast+
    let ?r = "redact_fields (word_char (last v)) t"
    have r: "ends_value ?r" "\<not> field_leak False ?r"
      using 1(2) [OF m refl refl] ends_value_redact [OF d(4)] ends_value_leak [of ?r "word_char (last v)"] d(4) by simp_all
    have out: "redact_fields w s = n @ CHR ''='' # REDACTED @ ?r" by (subst redact_fields.simps) (simp add: m)
    from d(2) obtain c n' where n: "n = c # n'" using empty_no_field by (cases n) (auto simp: lower_def)
    have "match_field w (redact_fields w s) = Some (n, REDACTED, ?r)"
      unfolding match_field_decompose using d r(1) redacted_chars out by simp
    moreover have "field_leak True (n' @ CHR ''='' # REDACTED @ ?r) = field_leak True (CHR ''='' # REDACTED @ ?r)"
      using d(3) n by (intro leak_inside) simp
    moreover have "field_leak True (CHR ''='' # REDACTED @ ?r) = field_leak False (CHR ''='' # REDACTED @ ?r)"
      by (simp add: word_char_def)
    ultimately show ?thesis using leak_replacement [OF r(1)] r(2) out n d(3) by simp
  next
    case None
    show ?thesis
    proof (cases s)
      case (Cons c cs)
      have out: "redact_fields w s = c # redact_fields (word_char c) cs"
        unfolding redact_fields.simps [of w s] None by (simp add: Cons)
      have "match_field w (c # redact_fields (word_char c) cs) = None"
        using redact_keeps_head None Cons by (metis option.exhaust prod_cases3)
      then show ?thesis using 1(1) None Cons out by simp
    qed simp
  qed
qed

lemma leak_at:
  assumes "match_field (if a = [] then w else word_char (last a)) t = Some (n, v, r)" and "v \<noteq> REDACTED"
  shows "field_leak w (a @ t)"
  using assms
proof (induction a arbitrary: w)
  case Nil
  then show ?case by (cases t) auto
next
  case (Cons c a)
  then have "field_leak (word_char c) (a @ t)" by (cases a) auto
  then show ?case by simp
qed

lemma word_char_lower: "word_char (lower_char c) = word_char c"
  by (simp add: lower_char_def word_char_def Let_def)

lemma field_word: "lower n \<in> set REDACTED_FIELDS \<Longrightarrow> list_all word_char n"
proof -
  assume "lower n \<in> set REDACTED_FIELDS"
  moreover have "\<forall>f \<in> set REDACTED_FIELDS. list_all word_char f" by (simp add: REDACTED_FIELDS_def word_char_def)
  ultimately have "list_all word_char (map lower_char n)" unfolding lower_def by blast
  then show ?thesis by (simp add: list_all_iff word_char_lower)
qed

section \<open>Properties\<close>

text \<open>C24: After the first pass of the redaction every field of the list that stands as a word before an equals sign has
  the value \<open>[REDACTED]\<close>, wherever in the text and in whatever case it is written.\<close>

theorem no_field_value_left:
  assumes "redact_fields False s = a @ name @ CHR ''='' # v @ b" and "lower name \<in> set REDACTED_FIELDS"
    and "a = [] \<or> \<not> word_char (last a)" and "v \<noteq> []" "list_all (\<lambda>c. \<not> is_space c) v" and "b = [] \<or> is_space (hd b)"
  shows "v = REDACTED"
proof (rule ccontr)
  assume "v \<noteq> REDACTED"
  have "ends_value b" using assms(6) by (cases b) (simp_all add: ends_value_def)
  then have "match_field False (name @ CHR ''='' # v @ b) = Some (name, v, b)"
    unfolding match_field_decompose using assms(2,4,5) field_word by blast
  with assms(3) \<open>v \<noteq> REDACTED\<close> have "field_leak False (a @ name @ CHR ''='' # v @ b)"
    by (intro leak_at) auto
  then show False using redact_no_leak [of False s] assms(1) by metis
qed

theorem no_field_value_left_witness:
  "redact_fields False ''GET /x Access_Token=abc ok'' = ''GET /x '' @ ''Access_Token'' @ CHR ''='' # REDACTED @ '' ok'' \<and> REDACTED = ''[REDACTED]''"
proof -
  have r: "redact_fields False ''GET /x Access_Token=abc ok'' = ''GET /x '' @ ''Access_Token'' @ CHR ''='' # ''[REDACTED]'' @ '' ok''"
    by code_simp
  have "''[REDACTED]'' = REDACTED"
    by (rule no_field_value_left [OF r]) (code_simp | simp)+
  with r show ?thesis by simp
qed

text \<open>The value ends at the first blank, so the token of an authorization header, which comes after its scheme,
  stays in the message.\<close>

theorem bearer_token_survives:
  assumes "list_all word_char token"
  shows "redact_string (''authorization=Bearer '' @ token) = ''authorization=[REDACTED] '' @ token"
proof -
  have sp: "is_space (CHR '' '')" "\<not> word_char (CHR '' '')" by (simp_all add: is_space_def word_char_def)
  have m: "match_field False (''authorization=Bearer '' @ token) = Some (''authorization'', ''Bearer'', CHR '' '' # token)"
    unfolding match_field_decompose using sp(1)
    by (simp add: REDACTED_FIELDS_def lower_def lower_char_def word_char_def is_space_def ends_value_def)
  have "match_field False token = None"
  proof (rule ccontr)
    assume "match_field False token \<noteq> None"
    then obtain n v t where "token = n @ CHR ''='' # v @ t" by (auto simp: match_field_decompose)
    then have "list_all word_char [CHR ''='']" using assms by simp
    then show False by (simp add: word_char_def)
  qed
  then have tok: "redact_fields False token = token"
    using redact_inside [of "tl token" "[]"] assms
    by (subst redact_fields.simps) (cases token; simp)
  have "redact_fields False (''authorization=Bearer '' @ token) =
      ''authorization'' @ CHR ''='' # REDACTED @ redact_fields (word_char (last ''Bearer'')) (CHR '' '' # token)"
    by (subst redact_fields.simps, unfold m) simp
  also have "\<dots> = ''authorization=[REDACTED] '' @ token"
    using sp(2) tok by (simp add: REDACTED_def)
  finally have f: "redact_fields False (''authorization=Bearer '' @ token) = ''authorization=[REDACTED] '' @ token" .
  have id: "redact_json s = s" if "list_all (\<lambda>c. c \<noteq> CHR 0x22) s" for s
    using that
  proof (induction s)
    case (Cons c s)
    then have "match_json (c # s) = None" by (simp add: match_json_def Let_def)
    with Cons show ?case by (subst redact_json.simps) simp
  qed (subst redact_json.simps, simp add: match_json_def)
  have "list_all (\<lambda>c. c \<noteq> CHR 0x22) token"
    using assms by (auto simp: list_all_iff word_char_def)
  then show ?thesis unfolding redact_string_def f by (intro id) simp
qed

theorem bearer_token_survives_witness: "redact_string ''authorization=Bearer abc123'' = ''authorization=[REDACTED] abc123''"
  using bearer_token_survives [of "''abc123''"] by (simp add: word_char_def)

text \<open>Installing the filter on the root logger changes nothing of what the modules log: their records are made by
  loggers of their own, and only a record of the root logger is redacted.\<close>

theorem module_records_unredacted:
  "written (write_record getMessage (install L) r) =
     (if lr_name r = ''root''
      then written L @ (case redacting_filter getMessage r of r' \<Rightarrow>
        (case getMessage (lr_msg r') (lr_args r') of None \<Rightarrow> [] | Some m \<Rightarrow> [m]))
      else written (write_record getMessage L r))"
  by (auto simp: install_def write_record_def filters_of_def Let_def split: option.splits)

end
