(* ===== verification/Middleware.thy ===== *)
theory Middleware imports Token_Service Log_Redaction begin

text \<open>
  The middleware of the backend: \<open>app/middleware/input_sanitizer.py\<close> and \<open>app/middleware/rate_limiter.py\<close>.
  The regular expressions are terms of the datatype \<open>rx\<close>, read by \<open>ends\<close>, which gives every way a term can match
  at a place; \<open>search\<close> asks whether there is one at any place, which is all the code uses. Case folding, blanks and
  word characters are the ASCII ones; a byte above 127 is none of them. The query string is parsed as
  \<open>urllib.parse.parse_qs\<close> does; percent sequences give bytes, which stay as they are.
\<close>

section \<open>Regular expressions\<close>

datatype rx =
    Class "char \<Rightarrow> bool"
  | Many "char \<Rightarrow> bool"
  | Boundary
  | Seq rx rx
  | Alt rx rx

fun many :: "(char \<Rightarrow> bool) \<Rightarrow> bool \<Rightarrow> string \<Rightarrow> (bool \<times> string) list" where
  "many p w [] = [(w, [])]"
| "many p w (c # s) = (w, c # s) # (if p c then many p (word_char c) s else [])"

definition word_next :: "string \<Rightarrow> bool" where
  "word_next s = (case s of [] \<Rightarrow> False | c # _ \<Rightarrow> word_char c)"

text \<open>\<open>w\<close> says whether a word character is before the place; the results are the places after the match.\<close>

fun ends :: "rx \<Rightarrow> bool \<Rightarrow> string \<Rightarrow> (bool \<times> string) list" where
  "ends (Class p) w s = (case s of [] \<Rightarrow> [] | c # t \<Rightarrow> if p c then [(word_char c, t)] else [])"
| "ends (Many p) w s = many p w s"
| "ends Boundary w s = (if w = word_next s then [] else [(w, s)])"
| "ends (Seq r q) w s = concat (map (\<lambda>(w', s'). ends q w' s') (ends r w s))"
| "ends (Alt r q) w s = ends r w s @ ends q w s"

fun search_from :: "rx \<Rightarrow> bool \<Rightarrow> string \<Rightarrow> bool" where
  "search_from r w [] = (ends r w [] \<noteq> [])"
| "search_from r w (c # s) = (ends r w (c # s) \<noteq> [] \<or> search_from r (word_char c) s)"

definition search :: "rx \<Rightarrow> string \<Rightarrow> bool" where
  "search r s = search_from r False s"

definition Chr :: "char \<Rightarrow> rx" where "Chr c = Class (\<lambda>d. lower_char d = lower_char c)"
definition Spaces :: rx where "Spaces = Many is_space"
definition Some_Of :: "(char \<Rightarrow> bool) \<Rightarrow> rx" where "Some_Of p = Seq (Class p) (Many p)"
definition no_newline :: "char \<Rightarrow> bool" where "no_newline c \<longleftrightarrow> of_char c \<noteq> (10 :: nat)"

fun Word :: "string \<Rightarrow> rx" where
  "Word [] = Many (\<lambda>_. False)"
| "Word [c] = Chr c"
| "Word (c # cs) = Seq (Chr c) (Word cs)"

fun One_Of :: "string list \<Rightarrow> rx" where
  "One_Of [] = Class (\<lambda>_. False)"
| "One_Of [x] = Word x"
| "One_Of (x # xs) = Alt (Word x) (One_Of xs)"

fun Sequence :: "rx list \<Rightarrow> rx" where
  "Sequence [] = Many (\<lambda>_. False)"
| "Sequence [r] = r"
| "Sequence (r # rs) = Seq r (Sequence rs)"

section \<open>The sanitizer\<close>

definition SQL_INJECTION_PATTERNS :: "rx list" where
  "SQL_INJECTION_PATTERNS =
    [Sequence [Boundary, One_Of [''SELECT'', ''INSERT'', ''UPDATE'', ''DELETE'', ''DROP'', ''ALTER'', ''CREATE'', ''EXEC'',
       ''UNION''], Boundary, Class is_space],
     Sequence [One_Of [''--'', '';''], Spaces, One_Of [''DROP'', ''ALTER'', ''DELETE'', ''INSERT'', ''UPDATE'', ''SELECT'']],
     Sequence [Chr (CHR 0x27), Spaces, One_Of [''OR'', ''AND''], Some_Of is_space, Some_Of no_newline, Chr (CHR ''=''), Spaces,
       Some_Of no_newline],
     Sequence [Chr (CHR 0x27), Spaces, Chr (CHR '';''), Spaces,
       One_Of [''DROP'', ''ALTER'', ''DELETE'', ''INSERT'', ''UPDATE'']]]"

definition SCRIPT_INJECTION_PATTERNS :: "rx list" where
  "SCRIPT_INJECTION_PATTERNS =
    [Sequence [Chr (CHR ''<''), Spaces, Word ''script'', Many (\<lambda>c. c \<noteq> CHR ''>''), Chr (CHR ''>'')],
     Sequence [Word ''javascript'', Spaces, Chr (CHR '':'')],
     Sequence [Word ''on'', Some_Of word_char, Spaces, Chr (CHR ''=''), Spaces, Class (\<lambda>c. c = CHR 0x22 \<or> c = CHR 0x27)],
     Sequence [Chr (CHR ''<''), Spaces, Chr (CHR ''/''), Spaces, Word ''script'', Spaces, Chr (CHR ''>'')]]"

datatype threat = Null_Byte | Sql_Injection | Script_Injection

definition contains_dangerous_pattern :: "string \<Rightarrow> threat option" where
  "contains_dangerous_pattern value =
     (if CHR 0x00 \<in> set value then Some Null_Byte
      else if \<exists>p \<in> set SQL_INJECTION_PATTERNS. search p value then Some Sql_Injection
      else if \<exists>p \<in> set SCRIPT_INJECTION_PATTERNS. search p value then Some Script_Injection
      else None)"

subsection \<open>Query strings\<close>

fun split_on :: "char \<Rightarrow> string \<Rightarrow> string list" where
  "split_on d [] = [[]]"
| "split_on d (c # s) = (if c = d then [] # split_on d s
     else (case split_on d s of [] \<Rightarrow> [[c]] | x # xs \<Rightarrow> (c # x) # xs))"

definition hex_value :: "char \<Rightarrow> nat option" where
  "hex_value c = (let n = (of_char c :: nat) in
     if 48 \<le> n \<and> n \<le> 57 then Some (n - 48)
     else if 65 \<le> n \<and> n \<le> 70 then Some (n - 55)
     else if 97 \<le> n \<and> n \<le> 102 then Some (n - 87) else None)"

fun unquote :: "string \<Rightarrow> string" where
  "unquote (p # a # b # s) = (case (hex_value a, hex_value b) of
     (Some x, Some y) \<Rightarrow> if p = CHR ''%'' then char_of (16 * x + y) # unquote s else p # unquote (a # b # s)
   | _ \<Rightarrow> p # unquote (a # b # s))"
| "unquote s = s"

definition unquote_plus :: "string \<Rightarrow> string" where
  "unquote_plus s = unquote (map (\<lambda>c. if c = CHR ''+'' then CHR '' '' else c) s)"

definition parse_pair :: "string \<Rightarrow> string \<times> string" where
  "parse_pair s = (unquote_plus (takeWhile (\<lambda>c. c \<noteq> CHR ''='') s),
     unquote_plus (drop 1 (dropWhile (\<lambda>c. c \<noteq> CHR ''='') s)))"

definition parse_qsl :: "string \<Rightarrow> (string \<times> string) list" where
  "parse_qsl qs = map parse_pair (filter (\<lambda>s. s \<noteq> []) (split_on (CHR ''&'') qs))"

text \<open>A dict from a name to its values, in the order in which the names appear.\<close>

definition parse_qs :: "string \<Rightarrow> (string \<times> string list) list" where
  "parse_qs qs = map (\<lambda>k. (k, map snd (filter (\<lambda>(k', _). k' = k) (parse_qsl qs))))
     (rev (remdups (rev (map fst (parse_qsl qs)))))"

subsection \<open>The middleware\<close>

record scope =
  sc_type :: string
  sc_query_string :: string
  sc_path :: string

fun check_values :: "string \<Rightarrow> string list \<Rightarrow> string option" where
  "check_values key [] = None"
| "check_values key (v # vs) = (if contains_dangerous_pattern v \<noteq> None
     then Some (''Invalid input detected in parameter '' @ CHR 0x27 # key @ [CHR 0x27]) else check_values key vs)"

fun check_params :: "(string \<times> string list) list \<Rightarrow> string option" where
  "check_params [] = None"
| "check_params ((key, vs) # ps) =
     (if contains_dangerous_pattern key \<noteq> None then Some ''Invalid input detected in parameter name''
      else (case check_values key vs of Some d \<Rightarrow> Some d | None \<Rightarrow> check_params ps))"

text \<open>The answer the middleware gives itself, \<open>None\<close> where it calls the application.\<close>

definition sanitize :: "scope \<Rightarrow> answer option" where
  "sanitize sc =
     (let refuse = (\<lambda>detail. Some (400, JObj [(''error'', JStr ''validation_error''), (''detail'', JStr detail)])) in
      if sc_type sc \<noteq> ''http'' then None
      else (case (if sc_query_string sc = [] then None else check_params (parse_qs (sc_query_string sc))) of
        Some detail \<Rightarrow> refuse detail
      | None \<Rightarrow> if contains_dangerous_pattern (sc_path sc) \<noteq> None then refuse ''Invalid input detected in request path''
          else None))"

section \<open>The rate limiter's key\<close>

text \<open>\<open>request.query_params.get\<close>: the last value of the name. An empty one is no user.\<close>

definition query_param :: "string \<Rightarrow> string \<Rightarrow> string option" where
  "query_param name qs = map_of (rev (parse_qsl qs)) name"

definition get_user_identifier :: "string \<Rightarrow> string \<Rightarrow> string" where
  "get_user_identifier remote_address qs = (case query_param ''user_id'' qs of
     None \<Rightarrow> remote_address
   | Some user_id \<Rightarrow> if user_id = [] then remote_address else user_id)"

text \<open>The headers of the exception, if it has any; a value that is no integer raises.\<close>

definition rate_limit_exceeded_handler :: "(string \<times> string) list \<Rightarrow> exc + (answer \<times> (string \<times> string) list)" where
  "rate_limit_exceeded_handler headers =
     (let retry_after_seconds = (case map_of headers ''Retry-After'' of None \<Rightarrow> ''60'' | Some v \<Rightarrow> v) in
      case py_int retry_after_seconds of
        None \<Rightarrow> Inl ValueError
      | Some n \<Rightarrow> Inr ((429, JObj [(''error'', JStr ''rate_limited''), (''retry_after'', JInt n)]),
          [(''Retry-After'', retry_after_seconds)]))"

section \<open>Facts\<close>

lemma many_suffix: "(w', s') \<in> set (many p w s) \<Longrightarrow> \<exists>u. s = u @ s'"
  by (induction p w s rule: many.induct) (auto split: if_splits intro: append_Nil [symmetric])

text \<open>A match takes a part of the text; every match of \<open>r\<close> contains a character of \<open>P\<close> where \<open>needs P r\<close>.\<close>

fun needs :: "(char \<Rightarrow> bool) \<Rightarrow> rx \<Rightarrow> bool" where
  "needs P (Class p) = (\<forall>c. p c \<longrightarrow> P c)"
| "needs P (Many p) = False"
| "needs P Boundary = False"
| "needs P (Seq r q) = (needs P r \<or> needs P q)"
| "needs P (Alt r q) = (needs P r \<and> needs P q)"

lemma ends_suffix:
  "(w', s') \<in> set (ends r w s) \<Longrightarrow> \<exists>u. s = u @ s' \<and> (needs P r \<longrightarrow> (\<exists>c \<in> set u. P c))"
proof (induction r arbitrary: w s w' s')
  case (Class p)
  then show ?case by (auto split: list.splits if_splits)
next
  case (Many p)
  then show ?case using many_suffix by auto
next
  case Boundary
  then show ?case by (auto split: if_splits)
next
  case (Seq r q)
  then obtain w1 s1 where a: "(w1, s1) \<in> set (ends r w s)" "(w', s') \<in> set (ends q w1 s1)" by auto
  from Seq.IH(1) [OF a(1)] Seq.IH(2) [OF a(2)] obtain u v where "s = u @ s1" "s1 = v @ s'"
    "needs P r \<longrightarrow> (\<exists>c \<in> set u. P c)" "needs P q \<longrightarrow> (\<exists>c \<in> set v. P c)" by blast
  then show ?case by (intro exI [of _ "u @ v"]) auto
next
  case (Alt r q)
  then show ?case by fastforce
qed

lemma needs_Sequence: "needs P r \<Longrightarrow> r \<in> set rs \<Longrightarrow> needs P (Sequence rs)"
  by (induction rs rule: Sequence.induct) auto

lemma search_needs: "search r s \<Longrightarrow> needs P r \<Longrightarrow> \<exists>c \<in> set s. P c"
proof -
  have "search_from r w s \<Longrightarrow> needs P r \<Longrightarrow> \<exists>c \<in> set s. P c" for w
  proof (induction s arbitrary: w)
    case Nil
    then obtain w' s' where "(w', s') \<in> set (ends r w [])" by (cases "ends r w []") auto
    from ends_suffix [OF this, of P] Nil show ?case by auto
  next
    case (Cons c s)
    show ?case
    proof (cases "ends r w (c # s) = []")
      case False
      then obtain w' s' where "(w', s') \<in> set (ends r w (c # s))" by (cases "ends r w (c # s)") auto
      from ends_suffix [OF this, of P] Cons.prems(2) obtain u where u: "c # s = u @ s'" "\<exists>d \<in> set u. P d" by blast
      have "set u \<subseteq> set (c # s)" unfolding u(1) by simp
      with u(2) show ?thesis by blast
    qed (use Cons in auto)
  qed
  then show "search r s \<Longrightarrow> needs P r \<Longrightarrow> \<exists>c \<in> set s. P c" by (simp add: search_def)
qed

lemma search_at:
  assumes "ends r (a \<noteq> [] \<and> word_char (last a)) s \<noteq> []"
  shows "search r (a @ s)"
proof -
  have "search_from r w (a @ s)" if "ends r (if a = [] then w else word_char (last a)) s \<noteq> []" for w
    using that
  proof (induction a arbitrary: w)
    case Nil
    then show ?case by (cases s) auto
  next
    case (Cons c a)
    then have "search_from r (word_char c) (a @ s)" by (cases a) auto
    then show ?case by simp
  qed
  with assms show ?thesis by (cases "a = []") (simp_all add: search_def)
qed

lemma ends_Word:
  "v \<noteq> [] \<Longrightarrow> lower v = lower x \<Longrightarrow> (word_char (last v), t) \<in> set (ends (Word x) w (v @ t))"
proof (induction x arbitrary: v w rule: Word.induct)
  case (2 c)
  then show ?case by (cases v) (auto simp: lower_def Chr_def)
next
  case (3 c d cs)
  then obtain a v' where v: "v = a # v'" by (cases v) auto
  then have "v' \<noteq> []" "lower v' = lower (d # cs)" "lower_char a = lower_char c" using 3(2,3) by (auto simp: lower_def)
  with 3(1) [of v' "word_char a"] v show ?case by (simp add: Chr_def)
qed (simp add: lower_def)

lemma ends_One_Of: "m \<in> set (ends (Word x) w s) \<Longrightarrow> x \<in> set xs \<Longrightarrow> m \<in> set (ends (One_Of xs) w s)"
  by (induction xs rule: One_Of.induct) auto

lemma lower_char_same: "lower_char c = lower_char d \<Longrightarrow> (of_char d :: nat) < 65 \<Longrightarrow> c = d"
proof -
  assume e: "lower_char c = lower_char d" and d: "(of_char d :: nat) < 65"
  then have "lower_char d = d" by (simp add: lower_char_def Let_def)
  with e have l: "lower_char c = d" by simp
  show "c = d"
  proof (cases "65 \<le> (of_char c :: nat) \<and> (of_char c :: nat) \<le> 90")
    case True
    then have "of_char (lower_char c) = (of_char c :: nat) + 32" by (simp add: lower_char_def Let_def)
    with l d True show ?thesis by simp
  qed (use l in \<open>auto simp: lower_char_def Let_def split: if_splits\<close>)
qed

lemma ends_Boundary: "w \<noteq> word_next s \<Longrightarrow> ends (Seq Boundary r) w s = ends r w s"
  by simp

lemma ends_Seq: "(w', s') \<in> set (ends r w s) \<Longrightarrow> m \<in> set (ends q w' s') \<Longrightarrow> m \<in> set (ends (Seq r q) w s)"
  by force

lemma check_values_None: "check_values key vs = None \<longleftrightarrow> (\<forall>v \<in> set vs. contains_dangerous_pattern v = None)"
  by (induction vs) auto

lemma check_params_None: "check_params ps = None \<longleftrightarrow>
    (\<forall>p \<in> set ps. contains_dangerous_pattern (fst p) = None \<and> (\<forall>v \<in> set (snd p). contains_dangerous_pattern v = None))"
proof (induction ps)
  case (Cons p ps)
  then show ?case
    by (cases p; cases "contains_dangerous_pattern (fst p)"; cases "check_values (fst p) (snd p)")
      (use check_values_None [of "fst p" "snd p"] in auto)
qed simp

lemma parse_qs_safe:
  "check_params (parse_qs qs) = None \<longleftrightarrow>
     (\<forall>(key, v) \<in> set (parse_qsl qs). contains_dangerous_pattern key = None \<and> contains_dangerous_pattern v = None)"
  by (fastforce simp: check_params_None parse_qs_def)

text \<open>A value that has none of the characters every pattern needs passes.\<close>

lemma plain_value_passes:
  assumes "list_all (\<lambda>c. \<not> is_space c \<and> c \<notin> {CHR 0x00, CHR '';'', CHR ''-'', CHR ''<'', CHR '':'', CHR ''=''}) s"
  shows "contains_dangerous_pattern s = None"
proof -
  let ?P = "\<lambda>c. is_space c \<or> c \<in> {CHR '';'', CHR ''-'', CHR ''<'', CHR '':'', CHR ''=''}"
  have sign: "needs ?P (Chr d)" if "d \<in> {CHR '';'', CHR ''-'', CHR ''<'', CHR '':'', CHR ''=''}" for d
    using that lower_char_same [of _ d] by (auto simp: Chr_def)
  have e: "needs ?P (Class is_space)" "needs ?P (Some_Of is_space)" "needs ?P (One_Of [''--'', '';''])"
    using sign [of "CHR '';''"] sign [of "CHR ''-''"] by (simp_all add: Some_Of_def)
  have sql: "needs ?P p" if "p \<in> set SQL_INJECTION_PATTERNS" for p
    using that needs_Sequence [OF e(1)] needs_Sequence [OF e(2)] needs_Sequence [OF e(3)] needs_Sequence [OF sign [of "CHR '';''"]]
    unfolding SQL_INJECTION_PATTERNS_def by (auto simp del: Sequence.simps One_Of.simps Word.simps needs.simps)
  have script: "needs ?P p" if "p \<in> set SCRIPT_INJECTION_PATTERNS" for p
    using that needs_Sequence [OF sign [of "CHR ''<''"]] needs_Sequence [OF sign [of "CHR '':''"]]
      needs_Sequence [OF sign [of "CHR ''=''"]]
    unfolding SCRIPT_INJECTION_PATTERNS_def by (auto simp del: Sequence.simps One_Of.simps Word.simps needs.simps)
  from sql script have "needs ?P p" if "p \<in> set (SQL_INJECTION_PATTERNS @ SCRIPT_INJECTION_PATTERNS)" for p
    using that by (metis Un_iff set_append)
  then have "\<not> search p s" if "p \<in> set (SQL_INJECTION_PATTERNS @ SCRIPT_INJECTION_PATTERNS)" for p
    using search_needs [of p s ?P] that assms unfolding list_all_iff by blast
  moreover have "CHR 0x00 \<notin> set s" using assms by (auto simp: list_all_iff)
  ultimately show ?thesis by (simp add: contains_dangerous_pattern_def)
qed

section \<open>What the expressions mean\<close>

text \<open>
  The language of a term, without a matcher: \<open>takes r w u t\<close> says that \<open>r\<close> takes \<open>u\<close> where \<open>t\<close> follows and \<open>w\<close> says
  whether a word character is before it.
\<close>

definition word_after :: "bool \<Rightarrow> string \<Rightarrow> bool" where
  "word_after w u = (if u = [] then w else word_char (last u))"

inductive takes :: "rx \<Rightarrow> bool \<Rightarrow> string \<Rightarrow> string \<Rightarrow> bool" where
  takes_class: "p c \<Longrightarrow> takes (Class p) w [c] t"
| takes_many: "list_all p u \<Longrightarrow> takes (Many p) w u t"
| takes_boundary: "w \<noteq> word_next t \<Longrightarrow> takes Boundary w [] t"
| takes_seq: "takes r w u (v @ t) \<Longrightarrow> takes q (word_after w u) v t \<Longrightarrow> takes (Seq r q) w (u @ v) t"
| takes_left: "takes r w u t \<Longrightarrow> takes (Alt r q) w u t"
| takes_right: "takes q w u t \<Longrightarrow> takes (Alt r q) w u t"

inductive_cases takes_cases:
  "takes (Class p) w u t" "takes (Many p) w u t" "takes Boundary w u t" "takes (Seq r q) w u t" "takes (Alt r q) w u t"

lemma word_after_append: "word_after (word_after w u) v = word_after w (u @ v)"
  by (auto simp: word_after_def)

lemma word_after_Nil [simp]: "word_after w [] = w"
  by (simp add: word_after_def)

lemma word_after_Cons [simp]: "word_after w (c # u) = word_after (word_char c) u"
  by (simp add: word_after_def)

lemma ex_list_split: "(\<exists>u. P u) \<longleftrightarrow> P [] \<or> (\<exists>d u. P (d # u))"
  by (metis list.exhaust)

lemma many_iff: "(w', t) \<in> set (many p w s) \<longleftrightarrow> (\<exists>u. s = u @ t \<and> w' = word_after w u \<and> list_all p u)"
proof (induction p w s rule: many.induct)
  case (1 p w)
  then show ?case by auto
next
  case (2 p w c s)
  have "(\<exists>u. c # s = u @ t \<and> w' = word_after w u \<and> list_all p u) \<longleftrightarrow>
      (c # s = t \<and> w' = w) \<or> (p c \<and> (\<exists>u. s = u @ t \<and> w' = word_after (word_char c) u \<and> list_all p u))"
    by (subst ex_list_split) auto
  with 2 show ?case by auto
qed

lemma ends_complete: "takes r w u t \<Longrightarrow> (word_after w u, t) \<in> set (ends r w (u @ t))"
proof (induction rule: takes.induct)
  case (takes_seq r w u v t q)
  from ends_Seq [OF takes_seq.IH] show ?case by (simp add: word_after_append)
qed (auto simp: many_iff)

lemma ends_sound: "(w', t) \<in> set (ends r w s) \<Longrightarrow> \<exists>u. s = u @ t \<and> w' = word_after w u \<and> takes r w u t"
proof (induction r arbitrary: w s w' t)
  case (Class p)
  then obtain c where "s = c # t" "p c" "w' = word_char c" by (auto split: list.splits if_splits)
  then show ?case by (intro exI [of _ "[c]"]) (simp add: takes_class)
next
  case (Many p)
  then show ?case by (auto simp: many_iff intro: takes_many)
next
  case Boundary
  then show ?case by (auto split: if_splits intro: takes_boundary)
next
  case (Seq r q)
  then obtain w1 s1 where a: "(w1, s1) \<in> set (ends r w s)" "(w', t) \<in> set (ends q w1 s1)" by auto
  from Seq.IH(1) [OF a(1)] obtain u where u: "s = u @ s1" "w1 = word_after w u" "takes r w u s1" by blast
  from Seq.IH(2) [OF a(2)] obtain v where v: "s1 = v @ t" "w' = word_after w1 v" "takes q w1 v t" by blast
  from u v have "takes (Seq r q) w (u @ v) t" by (auto intro: takes_seq)
  with u v show ?case by (auto simp: word_after_append intro!: exI [of _ "u @ v"])
next
  case (Alt r q)
  from Alt.prems show ?case by (auto dest!: Alt.IH intro: takes_left takes_right)
qed

lemma ends_iff: "(w', t) \<in> set (ends r w s) \<longleftrightarrow> (\<exists>u. s = u @ t \<and> w' = word_after w u \<and> takes r w u t)"
  using ends_sound ends_complete by blast

lemma ends_ex: "ends r w s \<noteq> [] \<longleftrightarrow> (\<exists>u t. s = u @ t \<and> takes r w u t)"
proof
  assume "ends r w s \<noteq> []"
  then obtain w' t where "(w', t) \<in> set (ends r w s)" by (cases "ends r w s") auto
  then show "\<exists>u t. s = u @ t \<and> takes r w u t" using ends_sound by blast
qed (use ends_complete in fastforce)

definition contains_match :: "rx \<Rightarrow> string \<Rightarrow> bool" where
  "contains_match r s \<longleftrightarrow> (\<exists>a u t. s = a @ u @ t \<and> takes r (word_after False a) u t)"

lemma search_from_iff: "search_from r w s \<longleftrightarrow> (\<exists>a b. s = a @ b \<and> ends r (word_after w a) b \<noteq> [])"
proof (induction s arbitrary: w)
  case Nil
  then show ?case by simp
next
  case (Cons c s)
  have "(\<exists>a b. c # s = a @ b \<and> ends r (word_after w a) b \<noteq> []) \<longleftrightarrow>
      ends r w (c # s) \<noteq> [] \<or> (\<exists>a b. s = a @ b \<and> ends r (word_after (word_char c) a) b \<noteq> [])"
    by (subst ex_list_split) auto
  with Cons show ?case by simp
qed

subsection \<open>The patterns without their terms\<close>

text \<open>
  What the eight patterns ask of a text, as conditions on its parts: a keyword after a place where no word goes on and
  before a blank; a comment or a semicolon, blanks, a keyword; a quote, \<open>OR\<close> or \<open>AND\<close>, and a comparison; a quote, a
  semicolon, a keyword. A tag that opens a script; its address scheme; the attribute of an event with a quote; the
  tag that closes a script.
\<close>

definition quote :: char where "quote = CHR 0x27"

definition one_of :: "string list \<Rightarrow> string \<Rightarrow> bool" where
  "one_of ws v \<longleftrightarrow> lower v \<in> set ws"

definition blanks :: "string \<Rightarrow> bool" where
  "blanks u \<longleftrightarrow> list_all is_space u"

definition sql_text :: "string \<Rightarrow> bool" where
  "sql_text s \<longleftrightarrow>
     (\<exists>a v b t. s = a @ v @ b # t \<and> \<not> word_after False a \<and> one_of [''select'', ''insert'', ''update'', ''delete'', ''drop'', ''alter'', 
        ''create'', ''exec'', ''union''] v \<and> is_space b) \<or>
     (\<exists>a i u v t. s = a @ i @ u @ v @ t \<and> one_of [''--'', '';''] i \<and> blanks u \<and> one_of [''drop'', ''alter'', ''delete'', ''insert'', ''update'', ''select''] v) \<or>
     (\<exists>a u v b x y z t. s = a @ quote # u @ v @ b @ x @ CHR ''='' # y @ z @ t \<and> blanks u \<and> one_of [''or'', ''and''] v \<and>
        b \<noteq> [] \<and> blanks b \<and> x \<noteq> [] \<and> list_all no_newline x \<and> blanks y \<and> z \<noteq> [] \<and> list_all no_newline z) \<or>
     (\<exists>a u y v t. s = a @ quote # u @ CHR '';'' # y @ v @ t \<and> blanks u \<and> blanks y \<and> one_of [''drop'', ''alter'', ''delete'', ''insert'', ''update''] v)"

definition script_text :: "string \<Rightarrow> bool" where
  "script_text s \<longleftrightarrow>
     (\<exists>a u v x t. s = a @ CHR ''<'' # u @ v @ x @ CHR ''>'' # t \<and> blanks u \<and> one_of [''script''] v \<and> CHR ''>'' \<notin> set x) \<or>
     (\<exists>a v u t. s = a @ v @ u @ CHR '':'' # t \<and> one_of [''javascript''] v \<and> blanks u) \<or>
     (\<exists>a v x u y q t. s = a @ v @ x @ u @ CHR ''='' # y @ q # t \<and> one_of [''on''] v \<and> x \<noteq> [] \<and> list_all word_char x \<and>
        blanks u \<and> blanks y \<and> (q = CHR 0x22 \<or> q = quote)) \<or>
     (\<exists>a u y v z t. s = a @ CHR ''<'' # u @ CHR ''/'' # y @ v @ z @ CHR ''>'' # t \<and> blanks u \<and> blanks y \<and>
        one_of [''script''] v \<and> blanks z)"

lemma takes_simps:
  "takes (Class p) w u t \<longleftrightarrow> (\<exists>c. u = [c] \<and> p c)"
  "takes (Many p) w u t \<longleftrightarrow> list_all p u"
  "takes Boundary w u t \<longleftrightarrow> u = [] \<and> w \<noteq> word_next t"
  "takes (Seq r q) w u t \<longleftrightarrow> (\<exists>u1 u2. u = u1 @ u2 \<and> takes r w u1 (u2 @ t) \<and> takes q (word_after w u1) u2 t)"
  "takes (Alt r q) w u t \<longleftrightarrow> takes r w u t \<or> takes q w u t"
proof -
  show "takes (Seq r q) w u t \<longleftrightarrow> (\<exists>u1 u2. u = u1 @ u2 \<and> takes r w u1 (u2 @ t) \<and> takes q (word_after w u1) u2 t)"
    by (blast elim: takes_cases(4) intro: takes_seq)
qed (auto elim: takes_cases intro: takes.intros)

lemma lower_Cons: "lower (c # s) = lower_char c # lower s" "lower [] = []" "lower s = [] \<longleftrightarrow> s = []"
  by (simp_all add: lower_def)

lemma takes_Chr: "takes (Chr c) w u t \<longleftrightarrow> lower u = lower [c]"
  by (cases u) (auto simp: Chr_def takes_simps lower_Cons)

lemma lower_split: "lower u = x # ys \<longleftrightarrow> (\<exists>c v. u = c # v \<and> lower_char c = x \<and> lower v = ys)"
  by (cases u) (auto simp: lower_Cons)

lemma takes_Word: "takes (Word x) w u t \<longleftrightarrow> lower u = lower x"
proof (induction x arbitrary: w u rule: Word.induct)
  case 1
  show ?case by (cases u) (auto simp: takes_simps lower_Cons)
next
  case (3 c d cs)
  have "takes (Word (c # d # cs)) w u t \<longleftrightarrow> (\<exists>u1 u2. u = u1 @ u2 \<and> lower u1 = lower [c] \<and> lower u2 = lower (d # cs))"
    by (simp add: takes_simps takes_Chr 3)
  also have "\<dots> \<longleftrightarrow> lower u = lower (c # d # cs)"
    by (cases u) (auto simp: lower_Cons lower_split intro: exI [of _ "[hd u]"])
  finally show ?case .
qed (simp add: takes_Chr)

lemma takes_One_Of: "takes (One_Of xs) w u t \<longleftrightarrow> lower u \<in> lower ` set xs"
  by (induction xs rule: One_Of.induct) (auto simp: takes_simps takes_Word)

lemma takes_Some_Of: "takes (Some_Of p) w u t \<longleftrightarrow> u \<noteq> [] \<and> list_all p u"
  by (cases u) (auto simp: Some_Of_def takes_simps intro: exI [of _ "[_]"])

text \<open>The parts of the patterns, and a sign, which is no letter.\<close>

lemma takes_words:
  "takes (One_Of [''SELECT'', ''INSERT'', ''UPDATE'', ''DELETE'', ''DROP'', ''ALTER'', ''CREATE'', ''EXEC'', ''UNION'']) w u t =
     one_of [''select'', ''insert'', ''update'', ''delete'', ''drop'', ''alter'', ''create'', ''exec'', ''union''] u"
  "takes (One_Of [''DROP'', ''ALTER'', ''DELETE'', ''INSERT'', ''UPDATE'', ''SELECT'']) w u t = one_of [''drop'', ''alter'', ''delete'', ''insert'', ''update'', ''select''] u"
  "takes (One_Of [''DROP'', ''ALTER'', ''DELETE'', ''INSERT'', ''UPDATE'']) w u t = one_of [''drop'', ''alter'', ''delete'', ''insert'', ''update''] u"
  "takes (One_Of [''OR'', ''AND'']) w u t = one_of [''or'', ''and''] u" "takes (One_Of [''--'', '';'']) w u t = one_of [''--'', '';''] u"
  "takes (Word ''script'') w u t = one_of [''script''] u" "takes (Word ''javascript'') w u t = one_of [''javascript''] u"
  "takes (Word ''on'') w u t = one_of [''on''] u"
proof -
  have l: "lower ` set [''SELECT'', ''INSERT'', ''UPDATE'', ''DELETE'', ''DROP'', ''ALTER'', ''CREATE'', ''EXEC'', ''UNION''] = set [''select'', ''insert'', ''update'', ''delete'', ''drop'', ''alter'', ''create'', ''exec'', ''union'']"
    "lower ` set [''DROP'', ''ALTER'', ''DELETE'', ''INSERT'', ''UPDATE'', ''SELECT''] = set [''drop'', ''alter'', ''delete'', ''insert'', ''update'', ''select'']"
    "lower ` set [''DROP'', ''ALTER'', ''DELETE'', ''INSERT'', ''UPDATE''] = set [''drop'', ''alter'', ''delete'', ''insert'', ''update'']"
    "lower ` set [''OR'', ''AND''] = set [''or'', ''and'']" "lower ` set [''--'', '';''] = set [''--'', '';'']"
    "lower ''script'' = ''script''" "lower ''javascript'' = ''javascript''" "lower ''on'' = ''on''"
    by code_simp+
  show "takes (One_Of [''SELECT'', ''INSERT'', ''UPDATE'', ''DELETE'', ''DROP'', ''ALTER'', ''CREATE'', ''EXEC'', ''UNION'']) w u t =
     one_of [''select'', ''insert'', ''update'', ''delete'', ''drop'', ''alter'', ''create'', ''exec'', ''union''] u" unfolding takes_One_Of one_of_def l ..
  show "takes (One_Of [''DROP'', ''ALTER'', ''DELETE'', ''INSERT'', ''UPDATE'', ''SELECT'']) w u t = one_of [''drop'', ''alter'', ''delete'', ''insert'', ''update'', ''select''] u"
    unfolding takes_One_Of one_of_def l ..
  show "takes (One_Of [''DROP'', ''ALTER'', ''DELETE'', ''INSERT'', ''UPDATE'']) w u t = one_of [''drop'', ''alter'', ''delete'', ''insert'', ''update''] u"
    unfolding takes_One_Of one_of_def l ..
  show "takes (One_Of [''OR'', ''AND'']) w u t = one_of [''or'', ''and''] u" unfolding takes_One_Of one_of_def l ..
  show "takes (One_Of [''--'', '';'']) w u t = one_of [''--'', '';''] u" unfolding takes_One_Of one_of_def l ..
  show "takes (Word ''script'') w u t = one_of [''script''] u" "takes (Word ''javascript'') w u t = one_of [''javascript''] u"
    "takes (Word ''on'') w u t = one_of [''on''] u" unfolding takes_Word one_of_def l by simp_all
qed

lemma takes_signs:
  "takes (Chr (CHR 0x27)) w u t = (u = [quote])" "takes (Chr (CHR '';'')) w u t = (u = [CHR '';''])"
  "takes (Chr (CHR ''='')) w u t = (u = [CHR ''=''])" "takes (Chr (CHR ''<'')) w u t = (u = [CHR ''<''])"
  "takes (Chr (CHR ''>'')) w u t = (u = [CHR ''>''])" "takes (Chr (CHR ''/'')) w u t = (u = [CHR ''/''])"
  "takes (Chr (CHR '':'')) w u t = (u = [CHR '':''])"
proof -
  have "takes (Chr c) w u t = (u = [c])" if "(of_char c :: nat) < 65" for c
    using lower_char_same [OF _ that] by (auto simp: takes_Chr lower_split lower_Cons)
  then show "takes (Chr (CHR 0x27)) w u t = (u = [quote])" "takes (Chr (CHR '';'')) w u t = (u = [CHR '';''])"
    "takes (Chr (CHR ''='')) w u t = (u = [CHR ''=''])" "takes (Chr (CHR ''<'')) w u t = (u = [CHR ''<''])"
    "takes (Chr (CHR ''>'')) w u t = (u = [CHR ''>''])" "takes (Chr (CHR ''/'')) w u t = (u = [CHR ''/''])"
    "takes (Chr (CHR '':'')) w u t = (u = [CHR '':''])" by (simp_all add: quote_def)
qed

lemma contains_matchI: "takes r (word_after False a) u t \<Longrightarrow> contains_match r (a @ u @ t)"
  by (auto simp: contains_match_def)

lemma takes_blanks: "takes Spaces w u t = blanks u"
  by (simp add: Spaces_def takes_simps blanks_def)

lemma takes_some_blanks: "takes (Some_Of is_space) w u t \<longleftrightarrow> u \<noteq> [] \<and> blanks u"
  by (simp add: takes_Some_Of blanks_def)

lemmas takes_parts = takes_words takes_signs takes_blanks takes_some_blanks takes_Some_Of takes_simps(1-3)

lemma sql_pattern_2:
  "contains_match (Sequence [One_Of [''--'', '';''], Spaces, One_Of [''DROP'', ''ALTER'', ''DELETE'', ''INSERT'', ''UPDATE'', ''SELECT'']]) s \<longleftrightarrow>
     (\<exists>a i u v t. s = a @ i @ u @ v @ t \<and> one_of [''--'', '';''] i \<and> blanks u \<and> one_of [''drop'', ''alter'', ''delete'', ''insert'', ''update'', ''select''] v)"
proof
  assume "contains_match (Sequence [One_Of [''--'', '';''], Spaces, One_Of [''DROP'', ''ALTER'', ''DELETE'', ''INSERT'', ''UPDATE'', ''SELECT'']]) s"
  then show "\<exists>a i u v t. s = a @ i @ u @ v @ t \<and> one_of [''--'', '';''] i \<and> blanks u \<and> one_of [''drop'', ''alter'', ''delete'', ''insert'', ''update'', ''select''] v"
    unfolding contains_match_def Sequence.simps takes_simps(4) takes_parts
    by clarsimp (intro exI conjI, rule refl, (assumption | simp only: blanks_def)+)
next
  assume "\<exists>a i u v t. s = a @ i @ u @ v @ t \<and> one_of [''--'', '';''] i \<and> blanks u \<and> one_of [''drop'', ''alter'', ''delete'', ''insert'', ''update'', ''select''] v"
  then obtain a i u v t where s: "s = a @ i @ u @ v @ t" and c: "one_of [''--'', '';''] i \<and> blanks u \<and> one_of [''drop'', ''alter'', ''delete'', ''insert'', ''update'', ''select''] v" by blast
  have "takes (Sequence [One_Of [''--'', '';''], Spaces, One_Of [''DROP'', ''ALTER'', ''DELETE'', ''INSERT'', ''UPDATE'', ''SELECT'']]) (word_after False a) (i @ u @ v) t"
    unfolding Sequence.simps by (intro takes_seq) (use c in \<open>auto simp: takes_parts blanks_def simp del: Word.simps One_Of.simps\<close>)
  from contains_matchI [OF this] show "contains_match (Sequence [One_Of [''--'', '';''], Spaces, One_Of [''DROP'', ''ALTER'', ''DELETE'', ''INSERT'', ''UPDATE'', ''SELECT'']]) s"
    unfolding s by (simp only: append_assoc append_Cons append_Nil)
qed

lemma sql_pattern_4:
  "contains_match (Sequence [Chr (CHR 0x27), Spaces, Chr (CHR '';''), Spaces,
       One_Of [''DROP'', ''ALTER'', ''DELETE'', ''INSERT'', ''UPDATE'']]) s \<longleftrightarrow>
     (\<exists>a u y v t. s = a @ quote # u @ CHR '';'' # y @ v @ t \<and> blanks u \<and> blanks y \<and> one_of [''drop'', ''alter'', ''delete'', ''insert'', ''update''] v)"
proof
  assume "contains_match (Sequence [Chr (CHR 0x27), Spaces, Chr (CHR '';''), Spaces,
       One_Of [''DROP'', ''ALTER'', ''DELETE'', ''INSERT'', ''UPDATE'']]) s"
  then show "\<exists>a u y v t. s = a @ quote # u @ CHR '';'' # y @ v @ t \<and> blanks u \<and> blanks y \<and> one_of [''drop'', ''alter'', ''delete'', ''insert'', ''update''] v"
    unfolding contains_match_def Sequence.simps takes_simps(4) takes_parts
    by clarsimp (intro exI conjI, rule refl, (assumption | simp only: blanks_def)+)
next
  assume "\<exists>a u y v t. s = a @ quote # u @ CHR '';'' # y @ v @ t \<and> blanks u \<and> blanks y \<and> one_of [''drop'', ''alter'', ''delete'', ''insert'', ''update''] v"
  then obtain a u y v t where s: "s = a @ quote # u @ CHR '';'' # y @ v @ t" and c: "blanks u \<and> blanks y \<and> one_of [''drop'', ''alter'', ''delete'', ''insert'', ''update''] v" by blast
  have "takes (Sequence [Chr (CHR 0x27), Spaces, Chr (CHR '';''), Spaces,
       One_Of [''DROP'', ''ALTER'', ''DELETE'', ''INSERT'', ''UPDATE'']]) (word_after False a) ([quote] @ u @ [CHR '';''] @ y @ v) t"
    unfolding Sequence.simps by (intro takes_seq) (use c in \<open>auto simp: takes_parts blanks_def simp del: Word.simps One_Of.simps\<close>)
  from contains_matchI [OF this] show "contains_match (Sequence [Chr (CHR 0x27), Spaces, Chr (CHR '';''), Spaces,
       One_Of [''DROP'', ''ALTER'', ''DELETE'', ''INSERT'', ''UPDATE'']]) s"
    unfolding s by (simp only: append_assoc append_Cons append_Nil)
qed

lemma sql_pattern_3:
  "contains_match (Sequence [Chr (CHR 0x27), Spaces, One_Of [''OR'', ''AND''], Some_Of is_space, Some_Of no_newline, Chr (CHR ''=''), Spaces,
       Some_Of no_newline]) s \<longleftrightarrow>
     (\<exists>a u v b x y z t. s = a @ quote # u @ v @ b @ x @ CHR ''='' # y @ z @ t \<and> blanks u \<and> one_of [''or'', ''and''] v \<and>
        b \<noteq> [] \<and> blanks b \<and> x \<noteq> [] \<and> list_all no_newline x \<and> blanks y \<and> z \<noteq> [] \<and> list_all no_newline z)"
proof
  assume "contains_match (Sequence [Chr (CHR 0x27), Spaces, One_Of [''OR'', ''AND''], Some_Of is_space, Some_Of no_newline, Chr (CHR ''=''), Spaces,
       Some_Of no_newline]) s"
  then show "\<exists>a u v b x y z t. s = a @ quote # u @ v @ b @ x @ CHR ''='' # y @ z @ t \<and> blanks u \<and> one_of [''or'', ''and''] v \<and>
        b \<noteq> [] \<and> blanks b \<and> x \<noteq> [] \<and> list_all no_newline x \<and> blanks y \<and> z \<noteq> [] \<and> list_all no_newline z"
    unfolding contains_match_def Sequence.simps takes_simps(4) takes_parts
    by clarsimp (intro exI conjI, rule refl, (assumption | simp only: blanks_def)+)
next
  assume "\<exists>a u v b x y z t. s = a @ quote # u @ v @ b @ x @ CHR ''='' # y @ z @ t \<and> blanks u \<and> one_of [''or'', ''and''] v \<and>
        b \<noteq> [] \<and> blanks b \<and> x \<noteq> [] \<and> list_all no_newline x \<and> blanks y \<and> z \<noteq> [] \<and> list_all no_newline z"
  then obtain a u v b x y z t where s: "s = a @ quote # u @ v @ b @ x @ CHR ''='' # y @ z @ t" and c: "blanks u \<and> one_of [''or'', ''and''] v \<and>
        b \<noteq> [] \<and> blanks b \<and> x \<noteq> [] \<and> list_all no_newline x \<and> blanks y \<and> z \<noteq> [] \<and> list_all no_newline z" by blast
  have "takes (Sequence [Chr (CHR 0x27), Spaces, One_Of [''OR'', ''AND''], Some_Of is_space, Some_Of no_newline, Chr (CHR ''=''), Spaces,
       Some_Of no_newline]) (word_after False a) ([quote] @ u @ v @ b @ x @ [CHR ''=''] @ y @ z) t"
    unfolding Sequence.simps by (intro takes_seq) (use c in \<open>auto simp: takes_parts blanks_def simp del: Word.simps One_Of.simps\<close>)
  from contains_matchI [OF this] show "contains_match (Sequence [Chr (CHR 0x27), Spaces, One_Of [''OR'', ''AND''], Some_Of is_space, Some_Of no_newline, Chr (CHR ''=''), Spaces,
       Some_Of no_newline]) s"
    unfolding s by (simp only: append_assoc append_Cons append_Nil)
qed

lemma script_pattern_1:
  "contains_match (Sequence [Chr (CHR ''<''), Spaces, Word ''script'', Many (\<lambda>c. c \<noteq> CHR ''>''), Chr (CHR ''>'')]) s \<longleftrightarrow>
     (\<exists>a u v x t. s = a @ CHR ''<'' # u @ v @ x @ CHR ''>'' # t \<and> blanks u \<and> one_of [''script''] v \<and> list_all (\<lambda>c. c \<noteq> CHR ''>'') x)"
proof
  assume "contains_match (Sequence [Chr (CHR ''<''), Spaces, Word ''script'', Many (\<lambda>c. c \<noteq> CHR ''>''), Chr (CHR ''>'')]) s"
  then show "\<exists>a u v x t. s = a @ CHR ''<'' # u @ v @ x @ CHR ''>'' # t \<and> blanks u \<and> one_of [''script''] v \<and> list_all (\<lambda>c. c \<noteq> CHR ''>'') x"
    unfolding contains_match_def Sequence.simps takes_simps(4) takes_parts
    by clarsimp (intro exI conjI, rule refl, (assumption | simp only: blanks_def)+)
next
  assume "\<exists>a u v x t. s = a @ CHR ''<'' # u @ v @ x @ CHR ''>'' # t \<and> blanks u \<and> one_of [''script''] v \<and> list_all (\<lambda>c. c \<noteq> CHR ''>'') x"
  then obtain a u v x t where s: "s = a @ CHR ''<'' # u @ v @ x @ CHR ''>'' # t" and c: "blanks u \<and> one_of [''script''] v \<and> list_all (\<lambda>c. c \<noteq> CHR ''>'') x" by blast
  have "takes (Sequence [Chr (CHR ''<''), Spaces, Word ''script'', Many (\<lambda>c. c \<noteq> CHR ''>''), Chr (CHR ''>'')]) (word_after False a) ([CHR ''<''] @ u @ v @ x @ [CHR ''>'']) t"
    unfolding Sequence.simps by (intro takes_seq) (use c in \<open>auto simp: takes_parts blanks_def simp del: Word.simps One_Of.simps\<close>)
  from contains_matchI [OF this] show "contains_match (Sequence [Chr (CHR ''<''), Spaces, Word ''script'', Many (\<lambda>c. c \<noteq> CHR ''>''), Chr (CHR ''>'')]) s"
    unfolding s by (simp only: append_assoc append_Cons append_Nil)
qed

lemma script_pattern_2:
  "contains_match (Sequence [Word ''javascript'', Spaces, Chr (CHR '':'')]) s \<longleftrightarrow>
     (\<exists>a v u t. s = a @ v @ u @ CHR '':'' # t \<and> one_of [''javascript''] v \<and> blanks u)"
proof
  assume "contains_match (Sequence [Word ''javascript'', Spaces, Chr (CHR '':'')]) s"
  then show "\<exists>a v u t. s = a @ v @ u @ CHR '':'' # t \<and> one_of [''javascript''] v \<and> blanks u"
    unfolding contains_match_def Sequence.simps takes_simps(4) takes_parts
    by clarsimp (intro exI conjI, rule refl, (assumption | simp only: blanks_def)+)
next
  assume "\<exists>a v u t. s = a @ v @ u @ CHR '':'' # t \<and> one_of [''javascript''] v \<and> blanks u"
  then obtain a v u t where s: "s = a @ v @ u @ CHR '':'' # t" and c: "one_of [''javascript''] v \<and> blanks u" by blast
  have "takes (Sequence [Word ''javascript'', Spaces, Chr (CHR '':'')]) (word_after False a) (v @ u @ [CHR '':'']) t"
    unfolding Sequence.simps by (intro takes_seq) (use c in \<open>auto simp: takes_parts blanks_def simp del: Word.simps One_Of.simps\<close>)
  from contains_matchI [OF this] show "contains_match (Sequence [Word ''javascript'', Spaces, Chr (CHR '':'')]) s"
    unfolding s by (simp only: append_assoc append_Cons append_Nil)
qed

lemma script_pattern_3:
  "contains_match (Sequence [Word ''on'', Some_Of word_char, Spaces, Chr (CHR ''=''), Spaces, Class (\<lambda>c. c = CHR 0x22 \<or> c = CHR 0x27)]) s \<longleftrightarrow>
     (\<exists>a v x u y q t. s = a @ v @ x @ u @ CHR ''='' # y @ q # t \<and> one_of [''on''] v \<and> x \<noteq> [] \<and> list_all word_char x \<and> blanks u \<and> blanks y \<and> (q = CHR 0x22 \<or> q = CHR 0x27))"
proof
  assume "contains_match (Sequence [Word ''on'', Some_Of word_char, Spaces, Chr (CHR ''=''), Spaces, Class (\<lambda>c. c = CHR 0x22 \<or> c = CHR 0x27)]) s"
  then show "\<exists>a v x u y q t. s = a @ v @ x @ u @ CHR ''='' # y @ q # t \<and> one_of [''on''] v \<and> x \<noteq> [] \<and> list_all word_char x \<and> blanks u \<and> blanks y \<and> (q = CHR 0x22 \<or> q = CHR 0x27)"
    unfolding contains_match_def Sequence.simps takes_simps(4) takes_parts
    by clarsimp (intro exI conjI, rule refl, (assumption | simp only: blanks_def)+)
next
  assume "\<exists>a v x u y q t. s = a @ v @ x @ u @ CHR ''='' # y @ q # t \<and> one_of [''on''] v \<and> x \<noteq> [] \<and> list_all word_char x \<and> blanks u \<and> blanks y \<and> (q = CHR 0x22 \<or> q = CHR 0x27)"
  then obtain a v x u y q t where s: "s = a @ v @ x @ u @ CHR ''='' # y @ q # t" and c: "one_of [''on''] v \<and> x \<noteq> [] \<and> list_all word_char x \<and> blanks u \<and> blanks y \<and> (q = CHR 0x22 \<or> q = CHR 0x27)" by blast
  have "takes (Sequence [Word ''on'', Some_Of word_char, Spaces, Chr (CHR ''=''), Spaces, Class (\<lambda>c. c = CHR 0x22 \<or> c = CHR 0x27)]) (word_after False a) (v @ x @ u @ [CHR ''=''] @ y @ [q]) t"
    unfolding Sequence.simps by (intro takes_seq) (use c in \<open>auto simp: takes_parts blanks_def simp del: Word.simps One_Of.simps\<close>)
  from contains_matchI [OF this] show "contains_match (Sequence [Word ''on'', Some_Of word_char, Spaces, Chr (CHR ''=''), Spaces, Class (\<lambda>c. c = CHR 0x22 \<or> c = CHR 0x27)]) s"
    unfolding s by (simp only: append_assoc append_Cons append_Nil)
qed

lemma script_pattern_4:
  "contains_match (Sequence [Chr (CHR ''<''), Spaces, Chr (CHR ''/''), Spaces, Word ''script'', Spaces, Chr (CHR ''>'')]) s \<longleftrightarrow>
     (\<exists>a u y v z t. s = a @ CHR ''<'' # u @ CHR ''/'' # y @ v @ z @ CHR ''>'' # t \<and> blanks u \<and> blanks y \<and> one_of [''script''] v \<and> blanks z)"
proof
  assume "contains_match (Sequence [Chr (CHR ''<''), Spaces, Chr (CHR ''/''), Spaces, Word ''script'', Spaces, Chr (CHR ''>'')]) s"
  then show "\<exists>a u y v z t. s = a @ CHR ''<'' # u @ CHR ''/'' # y @ v @ z @ CHR ''>'' # t \<and> blanks u \<and> blanks y \<and> one_of [''script''] v \<and> blanks z"
    unfolding contains_match_def Sequence.simps takes_simps(4) takes_parts
    by clarsimp (intro exI conjI, rule refl, (assumption | simp only: blanks_def)+)
next
  assume "\<exists>a u y v z t. s = a @ CHR ''<'' # u @ CHR ''/'' # y @ v @ z @ CHR ''>'' # t \<and> blanks u \<and> blanks y \<and> one_of [''script''] v \<and> blanks z"
  then obtain a u y v z t where s: "s = a @ CHR ''<'' # u @ CHR ''/'' # y @ v @ z @ CHR ''>'' # t" and c: "blanks u \<and> blanks y \<and> one_of [''script''] v \<and> blanks z" by blast
  have "takes (Sequence [Chr (CHR ''<''), Spaces, Chr (CHR ''/''), Spaces, Word ''script'', Spaces, Chr (CHR ''>'')]) (word_after False a) ([CHR ''<''] @ u @ [CHR ''/''] @ y @ v @ z @ [CHR ''>'']) t"
    unfolding Sequence.simps by (intro takes_seq) (use c in \<open>auto simp: takes_parts blanks_def simp del: Word.simps One_Of.simps\<close>)
  from contains_matchI [OF this] show "contains_match (Sequence [Chr (CHR ''<''), Spaces, Chr (CHR ''/''), Spaces, Word ''script'', Spaces, Chr (CHR ''>'')]) s"
    unfolding s by (simp only: append_assoc append_Cons append_Nil)
qed

lemma keyword_edges:
  assumes "one_of [''select'', ''insert'', ''update'', ''delete'', ''drop'', ''alter'', ''create'', ''exec'', ''union''] v"
  shows "word_next (v @ x)" "word_after w v"
proof -
  have "list_all word_char (lower v)" "lower v \<noteq> []" using assms by (auto simp: one_of_def word_char_def)
  then have "list_all word_char v" "v \<noteq> []" by (auto simp: list_all_iff lower_def word_char_lower)
  then show "word_next (v @ x)" "word_after w v"
    by (cases v; simp add: word_next_def word_after_def list_all_iff)+
qed

lemma sql_pattern_1:
  "contains_match (Sequence [Boundary, One_Of [''SELECT'', ''INSERT'', ''UPDATE'', ''DELETE'', ''DROP'', ''ALTER'', ''CREATE'', ''EXEC'', ''UNION''], Boundary, Class is_space]) s \<longleftrightarrow>
   (\<exists>a v b t. s = a @ v @ b # t \<and> \<not> word_after False a \<and> one_of [''select'', ''insert'', ''update'', ''delete'', ''drop'', ''alter'', ''create'', ''exec'', ''union''] v \<and> is_space b)"
proof
  assume "contains_match (Sequence [Boundary, One_Of [''SELECT'', ''INSERT'', ''UPDATE'', ''DELETE'', ''DROP'', ''ALTER'', ''CREATE'', ''EXEC'', ''UNION''], Boundary, Class is_space]) s"
  then obtain a v b t where "s = a @ v @ b # t" "word_after False a \<noteq> word_next (v @ b # t)" "one_of [''select'', ''insert'', ''update'', ''delete'', ''drop'', ''alter'', ''create'', ''exec'', ''union''] v" "is_space b"
    unfolding contains_match_def Sequence.simps takes_simps(4) takes_parts by clarsimp
  with keyword_edges(1) [of v "b # t"]
  show "\<exists>a v b t. s = a @ v @ b # t \<and> \<not> word_after False a \<and> one_of [''select'', ''insert'', ''update'', ''delete'', ''drop'', ''alter'', ''create'', ''exec'', ''union''] v \<and> is_space b" by blast
next
  assume "\<exists>a v b t. s = a @ v @ b # t \<and> \<not> word_after False a \<and> one_of [''select'', ''insert'', ''update'', ''delete'', ''drop'', ''alter'', ''create'', ''exec'', ''union''] v \<and> is_space b"
  then obtain a v b t where s: "s = a @ v @ b # t" and c: "\<not> word_after False a" "one_of [''select'', ''insert'', ''update'', ''delete'', ''drop'', ''alter'', ''create'', ''exec'', ''union''] v" "is_space b" by blast
  have edges: "word_next (v @ b # t)" "word_after w v" "\<not> word_next (b # t)" for w
    using keyword_edges [OF c(2)] space_no_word [OF c(3)] by (auto simp: word_next_def)
  have "takes (Sequence [Boundary, One_Of [''SELECT'', ''INSERT'', ''UPDATE'', ''DELETE'', ''DROP'', ''ALTER'', ''CREATE'', ''EXEC'', ''UNION''], Boundary, Class is_space]) (word_after False a) ([] @ v @ [] @ [b]) t"
    unfolding Sequence.simps
    by (intro takes_seq) (use c edges in \<open>auto simp: takes_parts simp del: Word.simps One_Of.simps\<close>)
  from contains_matchI [OF this]
  show "contains_match (Sequence [Boundary, One_Of [''SELECT'', ''INSERT'', ''UPDATE'', ''DELETE'', ''DROP'', ''ALTER'', ''CREATE'', ''EXEC'', ''UNION''], Boundary, Class is_space]) s"
    unfolding s by (simp only: append_assoc append_Cons append_Nil)
qed

lemma patterns_read:
  "(\<exists>p \<in> set SQL_INJECTION_PATTERNS. contains_match p s) = sql_text s"
  "(\<exists>p \<in> set SCRIPT_INJECTION_PATTERNS. contains_match p s) = script_text s"
proof -
  show "(\<exists>p \<in> set SQL_INJECTION_PATTERNS. contains_match p s) = sql_text s"
    unfolding SQL_INJECTION_PATTERNS_def sql_text_def sql_pattern_1 [symmetric] sql_pattern_2 [symmetric]
      sql_pattern_3 [symmetric] sql_pattern_4 [symmetric]
    by (simp del: Sequence.simps One_Of.simps Word.simps)
  have ne: "CHR ''>'' \<notin> set x \<longleftrightarrow> list_all (\<lambda>c. c \<noteq> CHR ''>'') x" for x by (auto simp: list_all_iff)
  show "(\<exists>p \<in> set SCRIPT_INJECTION_PATTERNS. contains_match p s) = script_text s"
    unfolding SCRIPT_INJECTION_PATTERNS_def script_text_def ne quote_def script_pattern_1 [symmetric] script_pattern_2 [symmetric]
      script_pattern_3 [symmetric] script_pattern_4 [symmetric]
    by (simp del: Sequence.simps One_Of.simps Word.simps)
qed

lemma search_iff: "search r s = contains_match r s"
  unfolding search_def search_from_iff contains_match_def ends_ex by metis

section \<open>Properties\<close>

text \<open>A request over HTTP reaches the application just when its path and the name and value of every query
  parameter are free of the patterns; any other one is answered 400, and other connections are not looked at.\<close>

theorem sanitizer_exact:
  "(sanitize sc = None \<longleftrightarrow> sc_type sc \<noteq> ''http'' \<or> contains_dangerous_pattern (sc_path sc) = None \<and>
      (\<forall>(key, v) \<in> set (parse_qsl (sc_query_string sc)).
         contains_dangerous_pattern key = None \<and> contains_dangerous_pattern v = None)) \<and>
   (\<forall>a. sanitize sc = Some a \<longrightarrow> fst a = 400)"
proof -
  have empty: "check_params (parse_qs []) = None" by (simp add: parse_qs_def parse_qsl_def)
  have "sanitize sc = None \<longleftrightarrow> sc_type sc \<noteq> ''http'' \<or> contains_dangerous_pattern (sc_path sc) = None \<and>
      check_params (parse_qs (sc_query_string sc)) = None"
    using empty by (auto simp: sanitize_def Let_def split: option.splits if_splits)
  moreover have "fst a = 400" if "sanitize sc = Some a" for a
    using that by (auto simp: sanitize_def Let_def split: option.splits if_splits)
  ultimately show ?thesis unfolding parse_qs_safe by blast
qed

text \<open>C31: What the sanitizer lets through, without regular expressions. A request over HTTP reaches the application just
  when its path and the name and value of every query parameter are free of null bytes and of the texts the eight
  patterns describe, any other one is answered 400, and other connections are not looked at. The kind of a threat is
  that of the first list it is found in. Texts are taken as ASCII.\<close>

theorem sanitizer_reference:
  "contains_dangerous_pattern v =
     (if CHR 0x00 \<in> set v then Some Null_Byte else if sql_text v then Some Sql_Injection
      else if script_text v then Some Script_Injection else None) \<and>
   (sanitize sc = None \<longleftrightarrow> sc_type sc \<noteq> ''http'' \<or>
      (\<forall>x \<in> {sc_path sc} \<union> (\<Union>(key, v) \<in> set (parse_qsl (sc_query_string sc)). {key, v}).
         CHR 0x00 \<notin> set x \<and> \<not> sql_text x \<and> \<not> script_text x)) \<and>
   (\<forall>a. sanitize sc = Some a \<longrightarrow> fst a = 400)"
proof -
  have read: "contains_dangerous_pattern x =
     (if CHR 0x00 \<in> set x then Some Null_Byte else if sql_text x then Some Sql_Injection
      else if script_text x then Some Script_Injection else None)" for x
    unfolding contains_dangerous_pattern_def search_iff patterns_read ..
  then have free: "contains_dangerous_pattern x = None \<longleftrightarrow> CHR 0x00 \<notin> set x \<and> \<not> sql_text x \<and> \<not> script_text x" for x
    by simp
  show ?thesis using sanitizer_exact [of sc] read unfolding free by auto
qed

text \<open>One of the nine words followed by a blank is taken for an injection wherever it stands as a word of its own,
  so an ordinary sentence is refused.\<close>

theorem keyword_refused:
  assumes "lower v \<in> lower ` set [''SELECT'', ''INSERT'', ''UPDATE'', ''DELETE'', ''DROP'', ''ALTER'', ''CREATE'', ''EXEC'', ''UNION'']"
    and "is_space b" and "a = [] \<or> \<not> word_char (last a)" and "CHR 0x00 \<notin> set (a @ v @ b # t)"
  shows "contains_dangerous_pattern (a @ v @ b # t) = Some Sql_Injection"
proof -
  let ?xs = "[''SELECT'', ''INSERT'', ''UPDATE'', ''DELETE'', ''DROP'', ''ALTER'', ''CREATE'', ''EXEC'', ''UNION'']"
  let ?p = "Sequence [Boundary, One_Of ?xs, Boundary, Class is_space]"
  define p where "p = ?p"
  obtain x where x: "x \<in> set ?xs" "lower v = lower x" using assms(1) by blast
  have "v \<noteq> []" using x by (auto simp: lower_def)
  have words: "\<forall>y \<in> set ?xs. list_all word_char (lower y)" by (simp add: lower_def lower_char_def word_char_def)
  have v: "list_all word_char v"
    unfolding list_all_iff
  proof
    fix c
    assume "c \<in> set v"
    then have "lower_char c \<in> set (lower x)" using x(2) unfolding lower_def by (metis image_eqI list.set_map)
    moreover have "list_all word_char (lower x)" using words x(1) by blast
    ultimately show "word_char c" using word_char_lower [of c] by (metis list_all_iff)
  qed
  have edge: "word_next (v @ b # t)" "word_char (last v)" "\<not> word_next (b # t)"
    using v \<open>v \<noteq> []\<close> space_no_word assms(2) by (cases v; simp add: word_next_def list_all_iff)+
  have m: "(word_char (last v), b # t) \<in> set (ends (One_Of ?xs) False (v @ b # t))"
    by (rule ends_One_Of [OF ends_Word x(1)]) (use \<open>v \<noteq> []\<close> x(2) in auto)
  have tail: "ends (Seq Boundary (Class is_space)) (word_char (last v)) (b # t) = [(word_char b, t)]"
    using edge(2,3) assms(2) by simp
  have "?p = Seq Boundary (Seq (One_Of ?xs) (Seq Boundary (Class is_space)))" by (simp del: One_Of.simps)
  then have "ends ?p False (v @ b # t) = ends (Seq (One_Of ?xs) (Seq Boundary (Class is_space))) False (v @ b # t)"
    using ends_Boundary [of False "v @ b # t"] edge(1) by metis
  moreover have "(word_char b, t) \<in> set (ends (Seq (One_Of ?xs) (Seq Boundary (Class is_space))) False (v @ b # t))"
    using ends_Seq [OF m, of "(word_char b, t)"] tail by (metis list.set_intros(1))
  ultimately have "(word_char b, t) \<in> set (ends p False (v @ b # t))" by (simp only: p_def)
  then have found: "ends p False (v @ b # t) \<noteq> []" by auto
  have start: "(a \<noteq> [] \<and> word_char (last a)) = False" using assms(3) by auto
  have "search p (a @ v @ b # t)" by (rule search_at) (unfold start, rule found)
  moreover have "p \<in> set SQL_INJECTION_PATTERNS" unfolding SQL_INJECTION_PATTERNS_def p_def by (rule list.set_intros(1))
  ultimately show ?thesis using assms(4) unfolding contains_dangerous_pattern_def by metis
qed

text \<open>C32: A value of ASCII characters without blank, semicolon and hyphen is never taken for an SQL injection, whatever it
  says: comments between the words do for blanks.\<close>

theorem no_blank_no_sql:
  assumes "\<And>c. c \<in> set value \<Longrightarrow> (of_char c :: nat) < 128 \<and> \<not> is_space c \<and> c \<noteq> CHR '';'' \<and> c \<noteq> CHR ''-''"
  shows "contains_dangerous_pattern value \<noteq> Some Sql_Injection"
proof -
  let ?P = "\<lambda>c. is_space c \<or> c = CHR '';'' \<or> c = CHR ''-''"
  have low: "lower_char c = lower_char (CHR '';'') \<Longrightarrow> c = CHR '';''" "lower_char c = lower_char (CHR ''-'') \<Longrightarrow> c = CHR ''-''" for c
    using lower_char_same [of c "CHR '';''"] lower_char_same [of c "CHR ''-''"] by simp_all
  have "needs ?P p" if "p \<in> set SQL_INJECTION_PATTERNS" for p
    using that low by (auto simp: SQL_INJECTION_PATTERNS_def Chr_def Spaces_def Some_Of_def)
  then have "\<not> search p value" if "p \<in> set SQL_INJECTION_PATTERNS" for p
    using search_needs [of p "value" ?P] that assms by blast
  then show ?thesis by (simp add: contains_dangerous_pattern_def)
qed

text \<open>The key of the limit is the user the client names or else its address: one who names an address as the user
  counts against the requests of that address.\<close>

theorem limit_key_shared:
  assumes "query_param ''user_id'' qs = Some address" and "query_param ''user_id'' qs' = None" and "address \<noteq> []"
  shows "get_user_identifier other qs = get_user_identifier address qs'"
  using assms by (simp add: get_user_identifier_def)

section \<open>Witnesses\<close>

theorem sanitizer_reference_witness:
  "sanitize \<lparr>sc_type = ''http'', sc_query_string = [], sc_path = ''/x UNION y''\<rparr> \<noteq> None"
proof -
  have "''/x UNION y'' = ''/x '' @ ''UNION'' @ CHR '' '' # ''y'' \<and> \<not> word_after False ''/x '' \<and>
      one_of [''select'', ''insert'', ''update'', ''delete'', ''drop'', ''alter'', ''create'', ''exec'', ''union''] ''UNION'' \<and>
      is_space (CHR '' '')" by code_simp
  then have "sql_text ''/x UNION y''" unfolding sql_text_def by - (rule disjI1, intro exI, assumption)
  with sanitizer_reference [of "[]" "\<lparr>sc_type = ''http'', sc_query_string = [], sc_path = ''/x UNION y''\<rparr>"]
  show ?thesis by auto
qed

theorem sanitizer_exact_witness:
  "sanitize \<lparr>sc_type = ''http'', sc_query_string = ''user_id=default'', sc_path = ''/api/token''\<rparr> = None"
proof -
  have "parse_qsl ''user_id=default'' = [(''user_id'', ''default'')]" "contains_dangerous_pattern ''user_id'' = None"
    "contains_dangerous_pattern ''default'' = None" "contains_dangerous_pattern ''/api/token'' = None"
    by (code_simp, rule plain_value_passes, simp add: is_space_def, rule plain_value_passes, simp add: is_space_def,
      rule plain_value_passes, simp add: is_space_def)
  with sanitizer_exact [of "\<lparr>sc_type = ''http'', sc_query_string = ''user_id=default'', sc_path = ''/api/token''\<rparr>"]
  show ?thesis by simp
qed

theorem keyword_refused_witness: "contains_dangerous_pattern ''please update the camera'' = Some Sql_Injection"
proof -
  have "lower ''update'' \<in> lower ` set [''SELECT'', ''INSERT'', ''UPDATE'', ''DELETE'', ''DROP'', ''ALTER'', ''CREATE'',
      ''EXEC'', ''UNION'']" "''please '' = [] \<or> \<not> word_char (last ''please '')" "is_space (CHR '' '')"
    by (code_simp, code_simp, code_simp)
  from keyword_refused [OF this(1,3,2), of "''the camera''"] show ?thesis by simp
qed

theorem no_blank_no_sql_witness:
  "contains_dangerous_pattern ''1/**/UNION/**/SELECT/**/access_token/**/FROM/**/tokens'' \<noteq> Some Sql_Injection"
  by (rule no_blank_no_sql) (auto simp: is_space_def)

theorem limit_key_shared_witness:
  "get_user_identifier ''10.0.0.9'' ''user_id=10.0.0.5'' = get_user_identifier ''10.0.0.5'' []"
  by (rule limit_key_shared) (code_simp, code_simp, simp)

end
