(* ===== verification/Backend_App.thy ===== *)
theory Backend_App imports Start_Up Middleware begin

text \<open>
  The running application: \<open>app/main.py\<close> from its set-up to its routers, with the routes of
  \<open>app/routes/mock_ring_api.py\<close>, \<open>app/routes/app_api.py\<close> and \<open>app/routes/ring_callbacks.py\<close> in their places.

  An \<open>asgi\<close> application answers a request or raises, over a \<open>server_state\<close>: the adapter and the services, the \<open>request_id\<close>
  kept in \<open>request.state\<close>, and the log. Starlette builds the stack from the outside in: the handler for \<open>Exception\<close>,
  then the middleware added last first, then the handlers of the other exceptions, then the router. What FastAPI and
  slowapi decide themselves, the validation of bodies and numbers, the answer to a request no route takes and whether
  the limit of \<open>/api/token\<close> is reached, is in \<open>web_framework\<close>. Times are left out of the log lines.
\<close>

section \<open>Requests, answers and the log\<close>

record web_request =
  wq_method :: string
  wq_path :: string
  wq_query :: string
  wq_credentials :: "string option"
  wq_body :: string

definition scope_of :: "web_request \<Rightarrow> scope" where
  "scope_of rq = \<lparr>sc_type = ''http'', sc_query_string = wq_query rq, sc_path = wq_path rq\<rparr>"

text \<open>
  \<open>request.url.path\<close>, which the log lines show: the path of the URL that Starlette puts together and \<open>urlsplit\<close> takes
  apart again, so that tabs and line ends are gone and a decoded \<open>?\<close> or \<open>#\<close> ends it.
\<close>

definition url_path :: "web_request \<Rightarrow> string" where
  "url_path rq = takeWhile (\<lambda>c. c \<noteq> CHR ''?'' \<and> c \<noteq> CHR ''#'')
     (filter (\<lambda>c. of_char c \<notin> {9 :: nat, 10, 13}) (wq_path rq))"

datatype content = Api_Body reply_body | Json_Body json | Html string

record web_response =
  re_status :: int
  re_content :: content
  re_headers :: "(string \<times> string) list"

definition of_reply :: "reply \<Rightarrow> web_response" where
  "of_reply r = \<lparr>re_status = rp_status r, re_content = Api_Body (rp_body r),
     re_headers = (case rp_location r of None \<Rightarrow> [] | Some l \<Rightarrow> [(''Location'', l)])\<rparr>"

definition of_answer :: "answer \<Rightarrow> web_response" where
  "of_answer a = \<lparr>re_status = fst a, re_content = Json_Body (snd a), re_headers = []\<rparr>"

datatype log_line =
    Request_Line string string string int
  | Adapter_Error_Line string string string int "string option" string
  | Unhandled_Line string string string exc

record server_state =
  rn_adapter :: live_adapter
  rn_service :: service
  rn_request_id :: "string option"
  rn_log :: "log_line list"

type_synonym asgi = "web_request \<Rightarrow> (server_state, exc, web_response) prog"

definition log_info :: "log_line \<Rightarrow> server_state \<Rightarrow> server_state" where
  "log_info l s = s\<lparr>rn_log := rn_log s @ [l]\<rparr>"

text \<open>\<open>getattr(request.state, "request_id", "unknown")\<close>\<close>

definition request_id_of :: "server_state \<Rightarrow> string" where
  "request_id_of s = (case rn_request_id s of None \<Rightarrow> ''unknown'' | Some i \<Rightarrow> i)"

section \<open>The adapter in use\<close>

text \<open>The override installed by the lifespan hook gives every route the one adapter object.\<close>

definition on_live :: "(mock_state, exc, 'a) prog \<Rightarrow> (adapter, exc, 'a) prog \<Rightarrow> (live_adapter, exc, 'a) prog" where
  "on_live p q A = (case A of
     Live_Mock m \<Rightarrow> (case p m of (r, m') \<Rightarrow> (r, Live_Mock m'))
   | Live_Unofficial ad ring_http \<Rightarrow> (case q ad of (r, ad') \<Rightarrow> (r, Live_Unofficial ad' ring_http)))"

definition live_ring_adapter :: "mock_env \<Rightarrow> nat \<Rightarrow> adapter_env \<Rightarrow> string \<Rightarrow> live_adapter ring_adapter" where
  "live_ring_adapter menv fuel uenv mode =
     (let M = mock_adapter menv; U = unofficial_adapter fuel uenv in
      \<lparr>ra_list_devices = on_live (ra_list_devices M) (ra_list_devices U),
       ra_list_events = (\<lambda>d l. on_live (ra_list_events M d l) (ra_list_events U d l)),
       ra_download_snapshot = (\<lambda>d. on_live (ra_download_snapshot M d) (ra_download_snapshot U d)),
       ra_download_video = (\<lambda>d e. on_live (ra_download_video M d e) (ra_download_video U d e)),
       ra_create_stream_session = (\<lambda>d sdp. on_live (ra_create_stream_session M d sdp) (ra_create_stream_session U d sdp)),
       ra_delete_stream_session = (\<lambda>i. on_live (ra_delete_stream_session M i) (ra_delete_stream_session U i)),
       ra_mode = mode\<rparr>)"

lemma on_live_Inr:
  "on_live p q A = (Inr x, A') \<longleftrightarrow> (case A of
     Live_Mock m \<Rightarrow> (\<exists>m'. p m = (Inr x, m') \<and> A' = Live_Mock m')
   | Live_Unofficial ad h \<Rightarrow> (\<exists>ad'. q ad = (Inr x, ad') \<and> A' = Live_Unofficial ad' h))"
  by (auto simp: on_live_def split: live_adapter.splits prod.splits)

interpretation live: ring_adapter_laws "live_ring_adapter menv fuel uenv (live_mode A)" for menv fuel uenv A
proof
  show "ra_mode (live_ring_adapter menv fuel uenv (live_mode A)) \<in> {''mock'', ''unofficial''}"
    by (cases A) (simp_all add: live_ring_adapter_def Let_def)
qed (auto simp: live_ring_adapter_def Let_def on_live_Inr split: live_adapter.splits
    dest: mock.events_bounded unofficial.events_bounded mock.events_of_device unofficial.events_of_device
      mock.device_type unofficial.device_type mock.location unofficial.location)

section \<open>Routes\<close>

datatype endpoint =
    Health
  | Health_Adapter
  | Get_Devices
  | Get_Events string
  | Download_Snapshot string
  | Download_Video string
  | Create_Whep_Session string
  | Delete_Session string
  | Get_Token
  | Token_Exchange
  | Account_Link
  | Webhook
  | App_Homepage

text \<open>A path is what is between its slashes; a parameter of a path, \<open>None\<close> here, takes one such part, never an empty one.\<close>

fun path_match :: "string option list \<Rightarrow> string list \<Rightarrow> string list option" where
  "path_match [] [] = Some []"
| "path_match (Some x # ps) (y # ys) = (if x = y then path_match ps ys else None)"
| "path_match (None # ps) (y # ys) = (if y = [] then None else map_option (Cons y) (path_match ps ys))"
| "path_match _ _ = None"

definition mock_ring_api_router :: "(string \<times> string option list \<times> (string list \<Rightarrow> endpoint)) list" where
  "mock_ring_api_router =
    [(''GET'', [Some ''mock'', Some ''devices''], \<lambda>_. Get_Devices),
     (''GET'', [Some ''mock'', Some ''history'', Some ''devices'', None, Some ''events''], \<lambda>xs. Get_Events (hd xs)),
     (''POST'', [Some ''mock'', Some ''devices'', None, Some ''media'', Some ''image'', Some ''download''],
        \<lambda>xs. Download_Snapshot (hd xs)),
     (''POST'', [Some ''mock'', Some ''devices'', None, Some ''media'', Some ''video'', Some ''download''],
        \<lambda>xs. Download_Video (hd xs)),
     (''POST'', [Some ''mock'', Some ''devices'', None, Some ''media'', Some ''streaming'', Some ''whep'', Some ''sessions''],
        \<lambda>xs. Create_Whep_Session (hd xs)),
     (''DELETE'', [Some ''mock'', Some ''session'', None], \<lambda>xs. Delete_Session (hd xs))]"

definition app_api_router :: "(string \<times> string option list \<times> (string list \<Rightarrow> endpoint)) list" where
  "app_api_router = [(''GET'', [Some ''api'', Some ''token''], \<lambda>_. Get_Token)]"

definition ring_callbacks_router :: "(string \<times> string option list \<times> (string list \<Rightarrow> endpoint)) list" where
  "ring_callbacks_router =
    [(''POST'', [Some ''ring'', Some ''token-exchange''], \<lambda>_. Token_Exchange),
     (''POST'', [Some ''ring'', Some ''account-link''], \<lambda>_. Account_Link),
     (''POST'', [Some ''ring'', Some ''webhook''], \<lambda>_. Webhook),
     (''GET'', [Some ''ring'', Some ''app-homepage''], \<lambda>_. App_Homepage)]"

definition app_routes :: "(string \<times> string option list \<times> (string list \<Rightarrow> endpoint)) list" where
  "app_routes = [(''GET'', [Some ''health''], \<lambda>_. Health), (''GET'', [Some ''health'', Some ''adapter''], \<lambda>_. Health_Adapter)]
     @ ring_callbacks_router @ app_api_router @ mock_ring_api_router"

fun first_route :: "(string \<times> string option list \<times> (string list \<Rightarrow> endpoint)) list \<Rightarrow> string \<Rightarrow> string list \<Rightarrow> endpoint option" where
  "first_route [] verb parts = None"
| "first_route ((v, ps, ep) # rs) verb parts = (case path_match ps parts of
     Some xs \<Rightarrow> if v = verb then Some (ep xs) else first_route rs verb parts
   | None \<Rightarrow> first_route rs verb parts)"

definition endpoint_of :: "web_request \<Rightarrow> endpoint option" where
  "endpoint_of rq = (case split_on (CHR ''/'') (wq_path rq) of
     [] # parts \<Rightarrow> first_route app_routes (wq_method rq) parts | _ \<Rightarrow> None)"

text \<open>\<open>request.path_params.get("device_id")\<close>\<close>

definition device_id_param :: "web_request \<Rightarrow> string option" where
  "device_id_param rq = (case endpoint_of rq of
     Some (Get_Events d) \<Rightarrow> Some d | Some (Download_Snapshot d) \<Rightarrow> Some d | Some (Download_Video d) \<Rightarrow> Some d
   | Some (Create_Whep_Session d) \<Rightarrow> Some d | _ \<Rightarrow> None)"

section \<open>Handlers\<close>

record web_framework =
  fw_int :: "string \<Rightarrow> int option"
  fw_json :: "string \<Rightarrow> json option"
  fw_token_exchange :: "string \<Rightarrow> string option"
  fw_account_link :: "string \<Rightarrow> account_link_request option"
  fw_invalid :: "web_request \<Rightarrow> web_response"
  fw_unrouted :: "web_request \<Rightarrow> web_response"
  fw_limit_reached :: "web_request \<Rightarrow> (string \<times> string) list option"

record site =
  si_settings :: settings
  si_framework :: web_framework
  si_mock :: mock_env
  si_fuel :: nat
  si_unofficial :: adapter_env
  si_tokens :: token_env
  si_hmac :: "string \<Rightarrow> string \<Rightarrow> string"
  si_num :: "real \<Rightarrow> string"
  si_now :: real
  si_iso :: string
  si_uuid :: string

definition APP_HOMEPAGE_HTML :: string where \<open>
  APP_HOMEPAGE_HTML = join [char_of (10::nat)]
    [
     ''<!DOCTYPE html>'',
     ''<html lang="en">'',
     ''<head>'',
     ''    <meta charset="UTF-8">'',
     ''    <meta name="viewport" content="width=device-width, initial-scale=1.0">'',
     ''    <title>RingAppleTV - Ring Partner App</title>'',
     ''    <style>'',
     ''        body {'',
     ''            font-family: -apple-system, BlinkMacSystemFont, '' @ CHR 0x27 # ''Segoe UI'' @ CHR 0x27 # '', Roboto, sans-serif;'',
     ''            max-width: 800px;'',
     ''            margin: 0 auto;'',
     ''            padding: 2rem;'',
     ''            line-height: 1.6;'',
     ''            color: #333;'',
     ''        }'',
     ''        h1 { color: #1C9BF6; }'',
     ''        .setup-steps { background: #f5f5f5; padding: 1.5rem; border-radius: 8px; }'',
     ''        .setup-steps ol { padding-left: 1.5rem; }'',
     ''        .setup-steps li { margin-bottom: 0.75rem; }'',
     ''    </style>'',
     ''</head>'',
     ''<body>'',
     ''    <h1>RingAppleTV</h1>'',
     ''    <p>'',
     ''        View your Ring doorbell and camera live streams directly on your Apple TV.'',
     ''        RingAppleTV brings real-time video from your Ring devices to the big screen,'',
     ''        with motion and doorbell event notifications.'',
     ''    </p>'',
     '''',
     ''    <div class="setup-steps">'',
     ''        <h2>tvOS Setup Instructions</h2>'',
     ''        <ol>'',
     ''            <li>Install the RingAppleTV app on your Apple TV from the App Store.</li>'',
     ''            <li>Open the Ring app on your phone and go to the Ring AppStore.</li>'',
     ''            <li>Find and install the "RingAppleTV" partner app.</li>'',
     ''            <li>Select the Ring devices you want to share with your Apple TV.</li>'',
     ''            <li>Complete the authorization when prompted.</li>'',
     ''            <li>Return to the RingAppleTV app on your Apple TV and tap "I'' @ CHR 0x27 # ''ve Completed Setup".</li>'',
     ''        </ol>'',
     ''    </div>'',
     ''</body>'',
     ''</html>'']\<close>

definition use_adapter :: "site \<Rightarrow> (live_adapter ring_adapter \<Rightarrow> (live_adapter, exc, reply) prog) \<Rightarrow> (server_state, exc, web_response) prog" where
  "use_adapter si f = andThen (zoom rn_adapter (\<lambda>A s. s\<lparr>rn_adapter := A\<rparr>)
     (\<lambda>A. f (live_ring_adapter (si_mock si) (si_fuel si) (si_unofficial si) (live_mode A)) A)) (\<lambda>r. ret (of_reply r))"

definition use_store :: "(token_store, exc, answer) prog \<Rightarrow> (server_state, exc, web_response) prog" where
  "use_store m = andThen (zoom rn_service (\<lambda>t s. s\<lparr>rn_service := t\<rparr>) (on_tokens m)) (\<lambda>a. ret (of_answer a))"

definition use_service :: "(service \<Rightarrow> answer \<times> service) \<Rightarrow> (server_state, exc, web_response) prog" where
  "use_service f s = (case f (rn_service s) of (a, t) \<Rightarrow> (Inr (of_answer a), s\<lparr>rn_service := t\<rparr>))"

text \<open>The key is asked for before the limiter counts; the limiter's exception goes to its own handler.\<close>

definition get_token :: "site \<Rightarrow> web_request \<Rightarrow> (server_state, exc, web_response) prog" where
  "get_token si rq = (let key = app_api_key (si_settings si);
       user_id = (case query_param ''user_id'' (wq_query rq) of None \<Rightarrow> ''default'' | Some u \<Rightarrow> u) in
     case verify_api_key key (wq_credentials rq) of
       Inl a \<Rightarrow> ret (of_answer a)
     | Inr _ \<Rightarrow> (case fw_limit_reached (si_framework si) rq of
         Some headers \<Rightarrow> andThen (of_sum (rate_limit_exceeded_handler headers))
           (\<lambda>(a, hs). ret ((of_answer a)\<lparr>re_headers := hs\<rparr>))
       | None \<Rightarrow> use_service (get_token_route (si_tokens si) key (wq_credentials rq) user_id)))"

fun handle :: "site \<Rightarrow> web_request \<Rightarrow> endpoint \<Rightarrow> (server_state, exc, web_response) prog" where
  "handle si rq Health = gets (\<lambda>s. of_answer (health_check (rn_adapter s)))"
| "handle si rq Health_Adapter = (\<lambda>s.
     (case health_adapter (app_api_key (si_settings si)) (wq_credentials rq) (si_now si) (rn_adapter s) of
        (a, A) \<Rightarrow> (Inr (of_answer a), s\<lparr>rn_adapter := A\<rparr>)))"
| "handle si rq Get_Devices = use_adapter si handle_get_devices"
| "handle si rq (Get_Events device_id) = (case query_param ''limit'' (wq_query rq) of
     None \<Rightarrow> use_adapter si (\<lambda>A. handle_get_events A device_id None)
   | Some raw \<Rightarrow> (case fw_int (si_framework si) raw of
       None \<Rightarrow> ret (fw_invalid (si_framework si) rq)
     | Some limit \<Rightarrow> use_adapter si (\<lambda>A. handle_get_events A device_id (Some limit))))"
| "handle si rq (Download_Snapshot device_id) = use_adapter si (\<lambda>A. handle_download_snapshot A device_id)"
| "handle si rq (Download_Video device_id) = use_adapter si (\<lambda>A. handle_download_video A device_id)"
| "handle si rq (Create_Whep_Session device_id) =
     use_adapter si (\<lambda>A. handle_create_whep_session A device_id (wq_body rq))"
| "handle si rq (Delete_Session session_id) = use_adapter si (\<lambda>A. handle_delete_session A session_id)"
| "handle si rq Get_Token = get_token si rq"
| "handle si rq Token_Exchange = (case fw_token_exchange (si_framework si) (wq_body rq) of
     None \<Rightarrow> ret (fw_invalid (si_framework si) rq)
   | Some code \<Rightarrow> use_service (token_exchange_route (si_tokens si) code))"
| "handle si rq Account_Link = (case fw_account_link (si_framework si) (wq_body rq) of
     None \<Rightarrow> ret (fw_invalid (si_framework si) rq)
   | Some body \<Rightarrow> use_store (handle_account_link (si_hmac si) (ring_hmac_key (si_settings si)) (si_iso si) body))"
| "handle si rq Webhook =
     use_store (handle_webhook (si_num si) (si_iso si) (si_uuid si) (fw_json (si_framework si) (wq_body rq)))"
| "handle si rq App_Homepage = ret \<lparr>re_status = 200, re_content = Html APP_HOMEPAGE_HTML, re_headers = []\<rparr>"

definition router :: "site \<Rightarrow> asgi" where
  "router si rq = (case endpoint_of rq of
     None \<Rightarrow> ret (fw_unrouted (si_framework si) rq) | Some ep \<Rightarrow> handle si rq ep)"

section \<open>The stack\<close>

definition exception_handlers :: "asgi \<Rightarrow> asgi" where
  "exception_handlers app rq = catch (app rq) (\<lambda>e. case e of
     Adapter x \<Rightarrow> (\<lambda>s. (Inr (of_reply (ring_adapter_error_handler x)),
       log_info (Adapter_Error_Line (request_id_of s) (live_mode (rn_adapter s)) (code_string (err_code x))
         (err_http_status x) (device_id_param rq) (url_path rq)) s))
   | _ \<Rightarrow> throw e)"

definition input_sanitization :: "asgi \<Rightarrow> asgi" where
  "input_sanitization app rq = (case sanitize (scope_of rq) of None \<Rightarrow> app rq | Some a \<Rightarrow> ret (of_answer a))"

definition request_logging_middleware :: "string \<Rightarrow> asgi \<Rightarrow> asgi" where
  "request_logging_middleware request_id call_next rq =
     andThen (modify (\<lambda>s. s\<lparr>rn_request_id := Some request_id\<rparr>)) (\<lambda>_.
     andThen (call_next rq) (\<lambda>response.
     andThen (modify (log_info (Request_Line request_id (wq_method rq) (url_path rq) (re_status response)))) (\<lambda>_.
     ret (response\<lparr>re_headers := re_headers response @ [(''X-Request-ID'', request_id)]\<rparr>))))"

text \<open>The answer of the server, \<open>None\<close> for a run that has not returned.\<close>

definition server_errors :: "asgi \<Rightarrow> web_request \<Rightarrow> server_state \<Rightarrow> web_response option \<times> server_state" where
  "server_errors app rq s = (case app rq s of
     (Inr r, s') \<Rightarrow> (Some r, s')
   | (Inl e, s') \<Rightarrow> if e = Still_Running then (None, s') else
       (Some (of_reply global_exception_handler),
        log_info (Unhandled_Line (request_id_of s') (wq_method rq) (url_path rq) e) s'))"

definition serve :: "site \<Rightarrow> string \<Rightarrow> web_request \<Rightarrow> server_state \<Rightarrow> web_response option \<times> server_state" where
  "serve si request_id = server_errors (request_logging_middleware request_id
     (input_sanitization (exception_handlers (router si))))"

section \<open>Facts\<close>

lemma modify_then:
  "andThen (modify f) g s = g () (f s)"
  by (simp add: andThen_def modify_def)

definition tagged :: "string \<Rightarrow> web_response \<Rightarrow> web_response" where
  "tagged request_id r = r\<lparr>re_headers := re_headers r @ [(''X-Request-ID'', request_id)]\<rparr>"

lemma tagged_simps [simp]: "re_status (tagged i r) = re_status r" "re_content (tagged i r) = re_content r"
  "re_headers (tagged i r) = re_headers r @ [(''X-Request-ID'', i)]"
  by (simp_all add: tagged_def)

definition request_line :: "string \<Rightarrow> web_request \<Rightarrow> web_response \<Rightarrow> log_line" where
  "request_line request_id rq r = Request_Line request_id (wq_method rq) (url_path rq) (re_status r)"

lemma log_info_simps [simp]: "rn_adapter (log_info l s) = rn_adapter s" "rn_service (log_info l s) = rn_service s"
  "rn_log (log_info l s) = rn_log s @ [l]" "rn_request_id (log_info l s) = rn_request_id s"
  by (simp_all add: log_info_def)

text \<open>What the stack does with the outcome of the router.\<close>

lemma serve_refused:
  assumes "sanitize (scope_of rq) = Some a"
  shows "serve si i rq s = (Some (tagged i (of_answer a)), log_info (request_line i rq (of_answer a)) (s\<lparr>rn_request_id := Some i\<rparr>))"
  using assms by (simp add: serve_def server_errors_def request_logging_middleware_def input_sanitization_def
      modify_then andThen_def ret_def modify_def tagged_def request_line_def)

lemma serve_passed:
  assumes "sanitize (scope_of rq) = None" and "router si rq (s\<lparr>rn_request_id := Some i\<rparr>) = (x, t)"
  shows "serve si i rq s = (case x of
      Inr r \<Rightarrow> (Some (tagged i r), log_info (request_line i rq r) t)
    | Inl e \<Rightarrow> (case e of
        Adapter a \<Rightarrow> (let r = of_reply (ring_adapter_error_handler a) in
          (Some (tagged i r), log_info (request_line i rq r) (log_info (Adapter_Error_Line (request_id_of t)
            (live_mode (rn_adapter t)) (code_string (err_code a)) (err_http_status a) (device_id_param rq) (url_path rq)) t)))
      | Still_Running \<Rightarrow> (None, t)
      | _ \<Rightarrow> (Some (of_reply global_exception_handler),
          log_info (Unhandled_Line (request_id_of t) (wq_method rq) (url_path rq) e) t)))"
  using assms by (simp add: serve_def server_errors_def request_logging_middleware_def input_sanitization_def
      exception_handlers_def modify_then andThen_def catch_def throw_def ret_def modify_def tagged_def request_line_def
      Let_def split: sum.split exc.split)

text \<open>The router leaves the log and the request's state alone.\<close>

definition untouched :: "server_state \<Rightarrow> server_state \<Rightarrow> bool" where
  "untouched s t \<longleftrightarrow> rn_log t = rn_log s \<and> rn_request_id t = rn_request_id s"

lemma untouched_simps [simp]: "untouched s s" "untouched s (s\<lparr>rn_adapter := A\<rparr>)"
  by (simp_all add: untouched_def)

lemma use_adapter_untouched: "untouched s (snd (use_adapter si f s))"
  by (simp add: use_adapter_def andThen_def zoom_def ret_def untouched_def split: prod.split sum.split)

lemma use_store_untouched: "untouched s (snd (use_store m s))"
  by (simp add: use_store_def andThen_def zoom_def ret_def untouched_def split: prod.split sum.split)

lemma use_service_untouched: "untouched s (snd (use_service f s))"
  by (simp add: use_service_def untouched_def split: prod.split)

lemmas use_untouched = use_adapter_untouched use_store_untouched use_service_untouched

lemma get_token_untouched: "untouched s (snd (get_token si rq s))"
  by (simp add: get_token_def Let_def ret_def throw_def of_sum_def andThen_def use_service_untouched split: sum.split option.split prod.split)

lemma handle_untouched: "untouched s (snd (handle si rq ep s))"
  by (cases ep) (simp_all add: use_untouched get_token_untouched gets_def ret_def split: option.split prod.split)

lemma router_untouched: "untouched s (snd (router si rq s))"
  by (simp add: router_def ret_def handle_untouched split: option.split)

lemma router_request_id: "router si rq (s\<lparr>rn_request_id := Some i\<rparr>) = (x, t) \<Longrightarrow> rn_log t = rn_log s \<and> request_id_of t = i"
  using router_untouched [of "s\<lparr>rn_request_id := Some i\<rparr>" si rq] by (simp add: untouched_def request_id_of_def)

section \<open>Every answer\<close>

text \<open>C26: Every answer of the server leaves exactly one closing line in the log. It is the request's own line, with the
  identifier that the answer carries as its last header, after one warning where the answer is an adapter's error; or
  the answer is the bare 500 of an unhandled exception, which has neither the header nor a request line.\<close>

theorem answers_traced:
  assumes "serve si i rq s = (Some r, t)"
  shows "(\<exists>r' ls. r = tagged i r' \<and> rn_log t = rn_log s @ ls @ [request_line i rq r] \<and>
      (ls = [] \<or> (\<exists>a m. re_content r = Api_Body (Json_Error (code_string (err_code a))) \<and> re_status r = err_http_status a \<and>
        ls = [Adapter_Error_Line i m (code_string (err_code a)) (err_http_status a) (device_id_param rq) (url_path rq)]))) \<or>
    (\<exists>e. \<not> is_adapter_error e \<and> r = of_reply global_exception_handler \<and> re_headers r = [] \<and>
      rn_log t = rn_log s @ [Unhandled_Line i (wq_method rq) (url_path rq) e])"
proof (cases "sanitize (scope_of rq)")
  case None
  obtain x u where run: "router si rq (s\<lparr>rn_request_id := Some i\<rparr>) = (x, u)" by (cases "router si rq (s\<lparr>rn_request_id := Some i\<rparr>)")
  note out = serve_passed [OF None run] router_request_id [OF run]
  show ?thesis
  proof (cases x)
    case (Inr r')
    with assms out show ?thesis by (auto simp: request_line_def)
  next
    case (Inl e)
    show ?thesis
    proof (cases "is_adapter_error e")
      case True
      then obtain a where "e = Adapter a" by (cases e) auto
      with Inl assms out show ?thesis
        by (auto simp: request_line_def Let_def of_reply_def intro!: exI [of _ "of_reply (ring_adapter_error_handler a)"])
    next
      case False
      with Inl assms out show ?thesis
        by (cases e) (auto simp: of_reply_def global_exception_handler_def intro: exI [of _ e])
    qed
  qed
qed (use assms serve_refused in \<open>auto simp: request_line_def\<close>)

lemma refused_400:
  assumes "sanitize (scope_of rq) \<noteq> None" and "serve si i rq s = (Some r, t)"
  shows "re_status r = 400 \<and> rn_adapter t = rn_adapter s \<and> rn_service t = rn_service s"
proof -
  obtain a where a: "sanitize (scope_of rq) = Some a" using assms(1) by blast
  then have "fst a = 400" by (auto simp: sanitize_def Let_def split: option.splits if_splits)
  with serve_refused [OF a, of si i s] assms(2) show ?thesis by (auto simp: of_answer_def)
qed

text \<open>A request the sanitizer refuses, and one for the token or the adapter's diagnostics without the key, is answered
  400 or 401 and changes neither the adapter nor the service.\<close>

theorem refused_changes_nothing:
  assumes "sanitize (scope_of rq) \<noteq> None \<or>
      endpoint_of rq \<in> {Some Health_Adapter, Some Get_Token} \<and> wq_credentials rq \<noteq> Some (app_api_key (si_settings si))"
  shows "case serve si i rq s of
      (Some r, t) \<Rightarrow> re_status r \<in> {400, 401} \<and> rn_adapter t = rn_adapter s \<and> rn_service t = rn_service s
    | (None, t) \<Rightarrow> False"
proof (cases "sanitize (scope_of rq)")
  case (Some a)
  then show ?thesis using serve_refused [OF Some, of si i s] refused_400 [of rq si i s] by simp
next
  case None
  let ?s = "s\<lparr>rn_request_id := Some i\<rparr>"
  have key: "verify_api_key (app_api_key (si_settings si)) (wq_credentials rq) = Inl (http_exception 401 [(''error'', ''unauthorized'')])"
    using assms None by (auto simp: verify_api_key_def split: option.splits)
  have run: "router si rq ?s = (Inr (of_answer (http_exception 401 [(''error'', ''unauthorized'')])), ?s)"
    using assms None key by (auto simp: router_def health_adapter_def get_token_def ret_def)
  from serve_passed [OF None run] show ?thesis by (simp add: of_answer_def http_exception_def)
qed

section \<open>The mock routes\<close>

text \<open>The routes of \<open>Ring_Adapter\<close> on the adapter in use; neither credentials nor headers are theirs.\<close>

fun mock_route :: "site \<Rightarrow> web_request \<Rightarrow> endpoint \<Rightarrow> live_adapter \<Rightarrow> (reply option \<times> live_adapter) option" where
  "mock_route si rq ep A = (let R = live_ring_adapter (si_mock si) (si_fuel si) (si_unofficial si) (live_mode A) in
     case ep of
       Get_Devices \<Rightarrow> Some (route_get_devices R A)
     | Get_Events d \<Rightarrow> (case query_param ''limit'' (wq_query rq) of
         None \<Rightarrow> Some (route_get_events R d None A)
       | Some raw \<Rightarrow> map_option (\<lambda>l. route_get_events R d (Some l) A) (fw_int (si_framework si) raw))
     | Download_Snapshot d \<Rightarrow> Some (route_download_snapshot R d A)
     | Download_Video d \<Rightarrow> Some (route_download_video R d A)
     | Create_Whep_Session d \<Rightarrow> Some (route_create_whep_session R d (wq_body rq) A)
     | Delete_Session i \<Rightarrow> Some (route_delete_session R i A)
     | _ \<Rightarrow> None)"

lemmas route_defs = route_get_devices_def route_get_events_def route_download_snapshot_def route_download_video_def
  route_create_whep_session_def route_delete_session_def

text \<open>Every mock route is \<open>respond\<close> after a handler, and \<open>handle\<close> runs that handler on the adapter in use.\<close>

lemma mock_route_handler:
  assumes "mock_route si rq ep A = Some z"
  obtains f where "z = respond (f (live_ring_adapter (si_mock si) (si_fuel si) (si_unofficial si) (live_mode A)) A)"
    and "handle si rq ep = use_adapter si f"
proof (cases ep)
  case (Get_Events d)
  show ?thesis
  proof (cases "query_param ''limit'' (wq_query rq)")
    case None
    with assms Get_Events show ?thesis by (intro that) (simp_all add: Let_def route_defs)
  next
    case (Some raw)
    with assms Get_Events obtain l where "fw_int (si_framework si) raw = Some l" by (auto simp: Let_def)
    with assms Get_Events Some show ?thesis by (intro that) (simp_all add: Let_def route_defs)
  qed
next
  case Get_Devices
  with assms show ?thesis by (intro that [of handle_get_devices]) (simp_all add: Let_def route_defs)
next
  case (Download_Snapshot d)
  with assms show ?thesis by (intro that [of "\<lambda>R. handle_download_snapshot R d"]) (simp_all add: Let_def route_defs)
next
  case (Download_Video d)
  with assms show ?thesis by (intro that [of "\<lambda>R. handle_download_video R d"]) (simp_all add: Let_def route_defs)
next
  case (Create_Whep_Session d)
  with assms show ?thesis
    by (intro that [of "\<lambda>R. handle_create_whep_session R d (wq_body rq)"]) (simp_all add: Let_def route_defs)
next
  case (Delete_Session i)
  with assms show ?thesis by (intro that [of "\<lambda>R. handle_delete_session R i"]) (simp_all add: Let_def route_defs)
qed (use assms in \<open>simp_all add: Let_def\<close>)

lemma use_adapter_run:
  assumes "f (live_ring_adapter (si_mock si) (si_fuel si) (si_unofficial si) (live_mode (rn_adapter s))) (rn_adapter s) = (x, A)"
  shows "use_adapter si f s = (map_sum id of_reply x, s\<lparr>rn_adapter := A\<rparr>)"
  using assms by (simp add: use_adapter_def andThen_def zoom_def ret_def split: sum.split)

text \<open>C27: A mock request that passes the sanitizer is served by its route: the adapter and the answer are those of the route,
  the answer under the request's identifier unless it is the 500 of an unhandled exception, and the partner's service is
  not touched. No route asks for the credentials.\<close>

theorem mock_routes_served:
  assumes ep: "endpoint_of rq = Some ep" and pass: "sanitize (scope_of rq) = None"
    and route: "mock_route si rq ep (rn_adapter s) = Some (x, A)"
  shows "case serve si i rq s of (y, t) \<Rightarrow> rn_adapter t = A \<and> rn_service t = rn_service s \<and>
    (case x of None \<Rightarrow> y = None
     | Some r \<Rightarrow> y = Some (tagged i (of_reply r)) \<or> r = global_exception_handler \<and> y = Some (of_reply r))"
proof -
  let ?s = "s\<lparr>rn_request_id := Some i\<rparr>" and ?R = "live_ring_adapter (si_mock si) (si_fuel si) (si_unofficial si) (live_mode (rn_adapter s))"
  obtain f where f: "(x, A) = respond (f ?R (rn_adapter s))" "handle si rq ep = use_adapter si f"
    using mock_route_handler [OF route] .
  obtain z B where z: "f ?R (rn_adapter s) = (z, B)" by (cases "f ?R (rn_adapter s)")
  then have run: "router si rq ?s = (map_sum id of_reply z, ?s\<lparr>rn_adapter := B\<rparr>)"
    using use_adapter_run [of f si ?s z B] f(2) ep by (simp add: router_def)
  note out = serve_passed [OF pass run]
  from f(1) z have r: "(x, A) = respond (z, B)" by simp
  show ?thesis
  proof (cases z)
    case (Inr r')
    with r out show ?thesis by (simp add: respond_def)
  next
    case (Inl e)
    with r out show ?thesis by (cases e) (simp_all add: respond_def Let_def)
  qed
qed

section \<open>Sessions end to end\<close>

text \<open>The characters of \<open>/mock/session/\<close> and of a UUID.\<close>

definition session_char :: "char \<Rightarrow> bool" where
  "session_char c \<longleftrightarrow> c \<in> set ''/mocksein-0123456789abdf''"

lemma session_char_needs:
  assumes "lower_char c \<in> set ''tlp<:=;''"
  shows "needs (\<lambda>d. \<not> session_char d) (Chr c)"
proof -
  have "list_all (\<lambda>d. lower_char d \<notin> set ''tlp<:=;'') ''/mocksein-0123456789abdf''" by code_simp
  then have "lower_char d \<notin> set ''tlp<:=;''" if "session_char d" for d
    using that unfolding session_char_def list_all_iff by blast
  with assms show ?thesis unfolding Chr_def needs.simps by metis
qed

lemma session_text_passes:
  assumes "list_all session_char s"
  shows "contains_dangerous_pattern s = None"
proof -
  let ?P = "\<lambda>d. \<not> session_char d"
  have signs: "needs ?P (Chr c)" if "c \<in> set ''TLP<:=;''" for c
  proof (rule session_char_needs)
    have "list_all (\<lambda>c. lower_char c \<in> set ''tlp<:=;'') ''TLP<:=;''" by code_simp
    with that show "lower_char c \<in> set ''tlp<:=;''" unfolding list_all_iff by blast
  qed
  note sign = signs [of "CHR ''T''"] signs [of "CHR ''L''"] signs [of "CHR ''P''"] signs [of "CHR ''<''"]
    signs [of "CHR '':''"] signs [of "CHR ''=''"] signs [of "CHR '';''"]
  have blank: "needs ?P (Class is_space)" by (auto simp: is_space_def session_char_def)
  have verb: "needs ?P (One_Of [''DROP'', ''ALTER'', ''DELETE'', ''INSERT'', ''UPDATE'', ''SELECT''])"
    using sign by simp
  have sql: "needs ?P p" if "p \<in> set SQL_INJECTION_PATTERNS" for p
    using that needs_Sequence [OF blank] needs_Sequence [OF verb] needs_Sequence [OF signs [of "CHR '';''"]]
      needs_Sequence [OF signs [of "CHR ''=''"]] unfolding SQL_INJECTION_PATTERNS_def
    by (auto simp del: Sequence.simps One_Of.simps Word.simps needs.simps)
  have script: "needs ?P p" if "p \<in> set SCRIPT_INJECTION_PATTERNS" for p
    using that needs_Sequence [OF signs [of "CHR ''<''"]] needs_Sequence [OF signs [of "CHR '':''"]]
      needs_Sequence [OF signs [of "CHR ''=''"]] unfolding SCRIPT_INJECTION_PATTERNS_def
    by (auto simp del: Sequence.simps One_Of.simps Word.simps needs.simps)
  have "\<not> search p s" if "p \<in> set SQL_INJECTION_PATTERNS \<union> set SCRIPT_INJECTION_PATTERNS" for p
    using that sql script search_needs [of p s ?P] assms unfolding list_all_iff by blast
  moreover have "\<not> session_char (CHR 0x00)" by (simp add: session_char_def)
  then have "CHR 0x00 \<notin> set s" using assms unfolding list_all_iff by blast
  ultimately show ?thesis by (simp add: contains_dangerous_pattern_def)
qed

lemma split_on_none: "d \<notin> set s \<Longrightarrow> split_on d s = [s]"
  by (induction s) auto

lemma session_location_routed:
  assumes "i \<noteq> []" and "CHR ''/'' \<notin> set i" and "wq_method rq = ''DELETE''" and "wq_path rq = session_location i"
  shows "endpoint_of rq = Some (Delete_Session i)"
  using assms by (simp add: endpoint_of_def session_location_def split_on_none app_routes_def ring_callbacks_router_def
      app_api_router_def mock_ring_api_router_def)

definition uuid_char :: "char \<Rightarrow> bool" where
  "uuid_char c \<longleftrightarrow> c \<in> set ''-0123456789abcdef''"

definition uuid_text :: "string \<Rightarrow> bool" where
  "uuid_text i \<longleftrightarrow> i \<noteq> [] \<and> list_all uuid_char i"

lemma uuid_char_session: "uuid_char c \<Longrightarrow> session_char c \<and> c \<noteq> CHR ''/''"
proof -
  have "list_all (\<lambda>c. session_char c \<and> c \<noteq> CHR ''/'') ''-0123456789abcdef''" by code_simp
  then show "uuid_char c \<Longrightarrow> session_char c \<and> c \<noteq> CHR ''/''" unfolding uuid_char_def list_all_iff by (rule bspec)
qed

lemma uuid_session:
  assumes "uuid_text i" and "wq_method rq = ''DELETE''" and "wq_path rq = session_location i" and "wq_query rq = []"
  shows "endpoint_of rq = Some (Delete_Session i)" and "sanitize (scope_of rq) = None"
proof -
  have i: "i \<noteq> []" "CHR ''/'' \<notin> set i" "list_all session_char i"
    using assms(1) uuid_char_session unfolding uuid_text_def list_all_iff by blast+
  with assms show "endpoint_of rq = Some (Delete_Session i)" by (intro session_location_routed)
  have "list_all session_char ''/mock/session/''" by code_simp
  with i(3) have "list_all session_char (wq_path rq)"
    unfolding assms(3) session_location_def list_all_append by simp
  then show "sanitize (scope_of rq) = None"
    using assms session_text_passes by (simp add: sanitize_def scope_of_def)
qed

lemma create_success:
  assumes fresh: "ae_uuid env (ad_created s) \<notin> fst ` set (ad_sessions s)"
    and run: "create_stream_session env d sdp s = (Inr r, s')"
  shows "\<exists>y. sr_session_id r = ae_uuid env (ad_created s) \<and> sr_location r = session_location (sr_session_id r) \<and>
    ad_sessions s' = ad_sessions s @ [(sr_session_id r, y)]"
proof -
  have room: "int (length (ad_sessions s)) < ad_max_concurrent s"
    using run create_refused [of s env d sdp] by fastforce
  obtain b s1 where start: "bridge_start env d s = (Inr b, s1)"
    using run create_start_failed [OF room, of env d _ _ sdp] by (cases "bridge_start env d s"; cases "fst (bridge_start env d s)") auto
  let ?x = "bound_session env d b s"
  let ?t = "s1\<lparr>ad_created := Suc (ad_created s), ad_sessions := ad_sessions s @ [(ae_uuid env (ad_created s), ?x)]\<rparr>"
  have id: "ss_session_id ?x = ae_uuid env (ad_created s)" by (simp add: bound_session_def)
  have leg: "whep_leg env ?x (bs_rtsp_path b) sdp ?t = (Inr r, s')" using run create_unfold [OF fresh room start] by simp
  show ?thesis
  proof (cases "\<exists>a. ae_whep env (length (ad_whep_sent ?t)) = Responded a \<and> resp_status a = 201")
    case False
    with whep_leg_failed [OF False, of ?x "bs_rtsp_path b" sdp] leg show ?thesis by auto
  next
    case True
    then obtain a where a: "ae_whep env (length (ad_whep_sent ?t)) = Responded a" "resp_status a = 201" by blast
    show ?thesis
    proof (cases "utf8_valid (resp_body a)")
      case True
      from whep_leg_ok [OF a True, of ?x "bs_rtsp_path b" sdp] leg id fresh show ?thesis
        by (auto simp: set_has_audio_last)
    next
      case False
      from whep_leg_undecodable [OF a False, of ?x "bs_rtsp_path b" sdp] leg show ?thesis by auto
    qed
  qed
qed

lemma bridge_stop_errors: "fst (bridge_stop env i s) \<in> {Inr (), Inl (Adapter UpstreamTimeoutError), Inl (Adapter UpstreamUnavailableError)}"
  by (auto simp: bridge_stop_def zoom_def sip_defs throw_def ret_def asks_def split: prod.splits http_outcome.splits if_splits)

lemma delete_run:
  assumes "map_of (ad_sessions s) i = Some x"
  shows "delete_stream_session env i s = (fst (bridge_stop env (ss_bridge_session_id x) s),
    (stop_sent (ss_bridge_session_id x) s)\<lparr>ad_sessions := filter (\<lambda>(k, _). k \<noteq> i) (ad_sessions s)\<rparr>)"
proof -
  obtain r t where stop: "bridge_stop env (ss_bridge_session_id x) s = (r, t)"
    by (cases "bridge_stop env (ss_bridge_session_id x) s")
  then have t: "t = stop_sent (ss_bridge_session_id x) s" using bridge_stop_snd [of env "ss_bridge_session_id x" s] by simp
  have "zoom ad_sessions (\<lambda>m s. s\<lparr>ad_sessions := m\<rparr>) (sm_lookup i) s = (Inr x, s)"
    using assms by (simp add: zoom_def sm_lookup_def)
  then show ?thesis
    using stop by (simp add: delete_stream_session_def finally_do_def zoom_def sm_remove_def t)
qed

text \<open>A 201 of the server comes from a session the adapter has made.\<close>

lemma served_201:
  assumes A: "rn_adapter s = Live_Unofficial ad h" and ep: "endpoint_of rq = Some (Create_Whep_Session d)"
    and run: "serve si i rq s = (Some r, t)" and status: "re_status r = 201"
  obtains res ad' where "create_stream_session (si_unofficial si) d (wq_body rq) ad = (Inr res, ad')"
    and "rn_adapter t = Live_Unofficial ad' h" and "map_of (re_headers r) ''Location'' = Some (sr_location res)"
proof -
  let ?s = "s\<lparr>rn_request_id := Some i\<rparr>" and ?R = "live_ring_adapter (si_mock si) (si_fuel si) (si_unofficial si) ''unofficial''"
  have pass: "sanitize (scope_of rq) = None"
  proof (rule ccontr)
    assume "sanitize (scope_of rq) \<noteq> None"
    from refused_400 [OF this run] status show False by simp
  qed
  obtain z B where z: "handle_create_whep_session ?R d (wq_body rq) (Live_Unofficial ad h) = (z, B)"
    by (cases "handle_create_whep_session ?R d (wq_body rq) (Live_Unofficial ad h)")
  have "router si rq ?s = (map_sum id of_reply z, ?s\<lparr>rn_adapter := B\<rparr>)"
    using use_adapter_run [of "\<lambda>R. handle_create_whep_session R d (wq_body rq)" si ?s z B] z A ep by (simp add: router_def)
  note out = serve_passed [OF pass this]
  show ?thesis
  proof (cases z)
    case (Inl e)
    with out run status show ?thesis
      by (cases e) (auto simp: Let_def of_reply_def global_exception_handler_def err_http_status_not_201)
  next
    case (Inr r')
    with z obtain res where res: "ra_create_stream_session ?R d (wq_body rq) (Live_Unofficial ad h) = (Inr res, B)"
      "rp_location r' = Some (sr_location res)"
      by (auto simp: handle_create_whep_session_def andThen_Inr_iff ret_def throw_def split: if_splits)
    then obtain ad' where "create_stream_session (si_unofficial si) d (wq_body rq) ad = (Inr res, ad')" "B = Live_Unofficial ad' h"
      by (auto simp: live_ring_adapter_def Let_def on_live_Inr unofficial_adapter_def)
    with that out run Inr res(2) show ?thesis by (auto simp: of_reply_def)
  qed
qed

text \<open>C28: The location the server answers to a WHEP request is the path that ends the session: a 201 has added one session,
  and a DELETE of that location reaches it through the sanitizer and the router, asks the sidecar to stop it, leaves
  the sessions as they were, and is answered 200, or 502 or 504 where the sidecar could not be asked.\<close>

theorem session_round_trip:
  assumes A: "rn_adapter s = Live_Unofficial ad h"
    and fresh: "ae_uuid (si_unofficial si) (ad_created ad) \<notin> fst ` set (ad_sessions ad)"
    and uuid: "uuid_text (ae_uuid (si_unofficial si) (ad_created ad))"
    and ep: "endpoint_of rq = Some (Create_Whep_Session d)"
    and run: "serve si i rq s = (Some r, t)" and status: "re_status r = 201"
    and del: "map_of (re_headers r) ''Location'' = Some (wq_path dq)" "wq_method dq = ''DELETE''" "wq_query dq = []"
  shows "\<exists>ad' ad'' y r' t'. rn_adapter t = Live_Unofficial ad' h \<and>
    ad_sessions ad' = ad_sessions ad @ [(ae_uuid (si_unofficial si) (ad_created ad), y)] \<and>
    serve si j dq t = (Some r', t') \<and> rn_adapter t' = Live_Unofficial ad'' h \<and> re_status r' \<in> {200, 502, 504} \<and>
    ad_sessions ad'' = ad_sessions ad \<and>
    sp_sent (ad_sip ad'') = sp_sent (ad_sip ad') @ [stop_request (ad_sip ad') (ss_bridge_session_id y)]"
proof -
  let ?id = "ae_uuid (si_unofficial si) (ad_created ad)"
  obtain res ad' where c: "create_stream_session (si_unofficial si) d (wq_body rq) ad = (Inr res, ad')"
    "rn_adapter t = Live_Unofficial ad' h" "map_of (re_headers r) ''Location'' = Some (sr_location res)"
    using served_201 [OF A ep run status] .
  obtain y where y: "sr_location res = session_location ?id" "ad_sessions ad' = ad_sessions ad @ [(?id, y)]"
    using create_success [OF fresh c(1)] by metis
  have path: "wq_path dq = session_location ?id" using c(3) del(1) y(1) by simp
  note routed = uuid_session [OF uuid del(2) path del(3)]
  have found: "map_of (ad_sessions ad') ?id = Some y"
    using y(2) fresh map_of_bind [OF fresh] by (simp del: map_of_append)
  have gone: "filter (\<lambda>(k, _). k \<noteq> ?id) (ad_sessions ad') = ad_sessions ad"
    using y(2) fresh filter_not_key [of ?id "ad_sessions ad"] by simp
  let ?t = "t\<lparr>rn_request_id := Some j\<rparr>" and ?b = "ss_bridge_session_id y"
  let ?ad = "(stop_sent ?b ad')\<lparr>ad_sessions := ad_sessions ad\<rparr>"
  have d: "delete_stream_session (si_unofficial si) ?id ad' = (fst (bridge_stop (si_unofficial si) ?b ad'), ?ad)"
    using delete_run [OF found] gone by simp
  have router: "router si dq ?t = (map_sum id (\<lambda>_. of_reply (json_reply (Json_Status ''deleted'')))
      (fst (bridge_stop (si_unofficial si) ?b ad')), ?t\<lparr>rn_adapter := Live_Unofficial ?ad h\<rparr>)"
    using d c(2) routed(1)
    by (simp add: router_def use_adapter_def zoom_def handle_delete_session_def live_ring_adapter_def Let_def on_live_def
        unofficial_adapter_def andThen_def ret_def split: sum.split)
  have "\<exists>r' t'. serve si j dq t = (Some r', t') \<and> rn_adapter t' = Live_Unofficial ?ad h \<and> re_status r' \<in> {200, 502, 504}"
    using bridge_stop_errors [of "si_unofficial si" ?b ad'] serve_passed [OF routed(2) router]
    by (auto simp: Let_def of_reply_def json_reply_def)
  with c(2) y(2) show ?thesis by fastforce
qed

section \<open>Witnesses\<close>

definition example_framework :: web_framework where
  "example_framework = \<lparr>fw_int = py_int, fw_json = (\<lambda>_. None), fw_token_exchange = (\<lambda>b. if b = [] then None else Some b),
     fw_account_link = (\<lambda>_. None), fw_invalid = (\<lambda>_. of_answer (422, JNull)),
     fw_unrouted = (\<lambda>_. of_answer (error_answer 404 ''detail'')), fw_limit_reached = (\<lambda>_. None)\<rparr>"

definition example_whep_answer :: http_outcome where
  "example_whep_answer = Responded \<lparr>resp_status = 201, resp_headers = [], resp_body = ''v=0'', resp_json = None, resp_raises = False\<rparr>"

definition example_live_env :: adapter_env where
  "example_live_env = (example_adapter_env example_whep_answer)\<lparr>ae_uuid := \<lambda>_. ''0-a''\<rparr>"

definition example_site :: site where
  "example_site = \<lparr>si_settings = example_settings 2, si_framework = example_framework,
     si_mock = \<lparr>me_now = 0, me_iso = (\<lambda>_. ''now''), me_uuid = (\<lambda>_. ''id''), me_http = (\<lambda>_. Timed_Out), me_connect_failed = (\<lambda>_. True)\<rparr>,
     si_fuel = 5, si_unofficial = example_live_env, si_tokens = example_token_env 200, si_hmac = (\<lambda>_ _. ''mac''),
     si_num = (\<lambda>_. ''0''), si_now = 0, si_iso = ''now'', si_uuid = ''id''\<rparr>"

definition example_run :: "live_adapter \<Rightarrow> server_state" where
  "example_run A = \<lparr>rn_adapter = A, rn_service = example_service, rn_request_id = None, rn_log = []\<rparr>"

definition example_request :: "string \<Rightarrow> string \<Rightarrow> web_request" where
  "example_request verb path = \<lparr>wq_method = verb, wq_path = path, wq_query = [], wq_credentials = None, wq_body = ''offer''\<rparr>"

lemma example_request_simps [simp]: "wq_query (example_request v p) = []" "wq_path (example_request v p) = p"
  "wq_method (example_request v p) = v" "wq_credentials (example_request v p) = None" "wq_body (example_request v p) = ''offer''"
  by (simp_all add: example_request_def)

lemma example_run_simps [simp]: "rn_adapter (example_run A) = A" "rn_service (example_run A) = example_service" "rn_log (example_run A) = []"
  by (simp_all add: example_run_def)

lemma example_passes:
  "contains_dangerous_pattern p = None \<Longrightarrow> sanitize (scope_of (example_request v p)) = None"
  by (simp add: sanitize_def scope_of_def)

lemma example_paths:
  "contains_dangerous_pattern ''/mock/devices'' = None"
  "contains_dangerous_pattern ''/mock/devices/7/media/streaming/whep/sessions'' = None"
  "contains_dangerous_pattern ''/api/token'' = None"
  by (rule plain_value_passes, simp add: is_space_def)+

lemma example_endpoints:
  "endpoint_of (example_request ''GET'' ''/mock/devices'') = Some Get_Devices"
  "endpoint_of (example_request ''POST'' ''/mock/devices/7/media/streaming/whep/sessions'') = Some (Create_Whep_Session ''7'')"
  "endpoint_of (example_request ''GET'' ''/api/token'') = Some Get_Token"
  by (simp_all add: endpoint_of_def app_routes_def ring_callbacks_router_def app_api_router_def mock_ring_api_router_def)

theorem mock_routes_served_witness:
  "\<exists>r t. serve example_site ''r1'' (example_request ''GET'' ''/mock/devices'') (example_run (Live_Mock (mock_init ''u''))) = (Some r, t) \<and>
     rn_adapter t = Live_Mock (mock_init ''u'')"
proof -
  let ?q = "example_request ''GET'' ''/mock/devices''" and ?s = "example_run (Live_Mock (mock_init ''u''))"
  have "mock_route example_site ?q Get_Devices (rn_adapter ?s) =
      Some (Some (json_reply (Json_Devices MOCK_DEVICES)), Live_Mock (mock_init ''u''))"
    by (simp add: example_run_def Let_def route_get_devices_def live_ring_adapter_def on_live_def andThen_def
        mock_adapter_def mock_list_devices_def ret_def respond_def)
  from mock_routes_served [where i = "''r1''", OF example_endpoints(1) example_passes [OF example_paths(1)] this]
  show ?thesis by (auto split: prod.splits)
qed

theorem refused_changes_nothing_witness:
  "\<exists>r t. serve example_site ''r1'' (example_request ''GET'' ''/api/token'') (example_run (Live_Mock (mock_init ''u''))) = (Some r, t) \<and>
     rn_service t = example_service \<and> re_status r \<in> {400, 401}"
  using refused_changes_nothing [where rq = "example_request ''GET'' ''/api/token''" and si = example_site and i = "''r1''"
      and s = "example_run (Live_Mock (mock_init ''u''))"]
  by (auto simp: example_endpoints example_run_def split: prod.splits option.splits)

lemma example_created:
  "\<exists>ad'. create_stream_session example_live_env ''7'' ''offer'' example_adapter =
     (Inr \<lparr>sr_sdp_answer = ''v=0'', sr_location = session_location ''0-a'', sr_session_id = ''0-a''\<rparr>, ad')"
proof -
  obtain s1 where start: "bridge_start example_live_env ''7'' example_adapter =
      (Inr \<lparr>bs_bridge_session_id = ''b1'', bs_rtsp_path = ''ring/7''\<rparr>, s1)"
    using example_start [of example_whep_answer] by (auto simp: bridge_start_def example_live_env_def)
  have uuid: "ae_uuid example_live_env 0 = ''0-a''" by (simp add: example_live_env_def)
  have "ae_whep example_live_env n = example_whep_answer" for n by (simp add: example_live_env_def example_adapter_env_def)
  moreover have "utf8_valid ''v=0''" by code_simp
  ultimately show ?thesis
    using create_unfold [OF _ _ start, of "''offer''"] uuid
    by (simp add: whep_leg_def andThen_def whep_post_def decode_body_def example_whep_answer_def bound_session_def)
qed

theorem session_round_trip_witness:
  "\<exists>r t r' t' ad. serve example_site ''r1'' (example_request ''POST'' ''/mock/devices/7/media/streaming/whep/sessions'')
       (example_run (Live_Unofficial example_adapter True)) = (Some r, t) \<and>
     map_of (re_headers r) ''Location'' = Some ''/mock/session/0-a'' \<and>
     serve example_site ''r2'' (example_request ''DELETE'' ''/mock/session/0-a'') t = (Some r', t') \<and>
     rn_adapter t' = Live_Unofficial ad True \<and> ad_sessions ad = [] \<and> re_status r' \<in> {200, 502, 504}"
proof -
  let ?q = "example_request ''POST'' ''/mock/devices/7/media/streaming/whep/sessions''"
  let ?s = "example_run (Live_Unofficial example_adapter True)" and ?d = "example_request ''DELETE'' ''/mock/session/0-a''"
  obtain ad' where c: "create_stream_session example_live_env ''7'' ''offer'' example_adapter =
     (Inr \<lparr>sr_sdp_answer = ''v=0'', sr_location = session_location ''0-a'', sr_session_id = ''0-a''\<rparr>, ad')"
    using example_created by blast
  have "utf8_valid ''offer''" by code_simp
  then have run: "router example_site ?q (?s\<lparr>rn_request_id := Some ''r1''\<rparr>) = (Inr \<lparr>re_status = 201,
      re_content = Api_Body (Raw ''application/sdp'' ''v=0''), re_headers = [(''Location'', session_location ''0-a'')]\<rparr>,
      (?s\<lparr>rn_request_id := Some ''r1''\<rparr>)\<lparr>rn_adapter := Live_Unofficial ad' True\<rparr>)"
    using c by (simp add: router_def example_endpoints use_adapter_def zoom_def handle_create_whep_session_def live_ring_adapter_def
        Let_def on_live_def unofficial_adapter_def andThen_def ret_def example_site_def example_run_def of_reply_def)
  obtain r t where p: "serve example_site ''r1'' ?q ?s = (Some r, t)" "re_status r = 201"
    "map_of (re_headers r) ''Location'' = Some ''/mock/session/0-a''"
    using serve_passed [OF example_passes [OF example_paths(2)] run] by (simp add: session_location_def)
  have uuid: "ae_uuid (si_unofficial example_site) n = ''0-a''" for n
    by (simp add: example_site_def example_live_env_def)
  have hex: "uuid_text ''0-a''" by code_simp
  from session_round_trip [where ad = example_adapter and h = True and dq = ?d and j = "''r2''", OF _ _ _ example_endpoints(2) p(1,2)] p hex
  show ?thesis by (auto simp: uuid)
qed

theorem answers_traced_witness:
  "\<exists>r t. serve example_site ''r1'' (example_request ''GET'' ''/mock/devices'') (example_run (Live_Mock (mock_init ''u''))) = (Some r, t) \<and>
     (re_headers r = [] \<or> rn_log t \<noteq> [])"
proof -
  let ?q = "example_request ''GET'' ''/mock/devices''" and ?s = "example_run (Live_Mock (mock_init ''u''))"
  have "router example_site ?q (?s\<lparr>rn_request_id := Some ''r1''\<rparr>) =
      (Inr (of_reply (json_reply (Json_Devices MOCK_DEVICES))), ?s\<lparr>rn_request_id := Some ''r1''\<rparr>)"
    by (simp add: router_def example_endpoints use_adapter_def zoom_def handle_get_devices_def live_ring_adapter_def Let_def
        on_live_def mock_adapter_def mock_list_devices_def andThen_def ret_def example_run_def)
  from serve_passed [OF example_passes [OF example_paths(1)] this] obtain r t where
    served: "serve example_site ''r1'' ?q ?s = (Some r, t)" by simp
  from answers_traced [OF served] have "re_headers r = [] \<or> rn_log t \<noteq> []" by auto
  with served show ?thesis by blast
qed

end
