(* ===== verification/Bootstrap_Script.thy ===== *)
theory Bootstrap_Script imports Start_Up begin

text \<open>
  The script that fetches a refresh token and starts the backend with it, \<open>scripts/bootstrap_ring_refresh_token.py\<close>,
  and what it concludes from the backend's health; the environment it restarts the backend in, from \<open>docker-compose.yml\<close>. The prompts, Ring's answers, the exit codes of docker and the
  answers of the polls are in \<open>script_env\<close>; what is printed is left out. Lines are cut at the ASCII separators.
\<close>

section \<open>The .env file\<close>

definition line_break :: "char \<Rightarrow> bool" where
  "line_break c \<longleftrightarrow> (let n = (of_char c :: nat) in (10 \<le> n \<and> n \<le> 13) \<or> (28 \<le> n \<and> n \<le> 30))"

definition newline :: char where "newline = char_of (10 :: nat)"
definition carriage_return :: char where "carriage_return = char_of (13 :: nat)"

text \<open>\<open>path.read_text().splitlines()\<close>; the first argument is the line read so far, backwards.\<close>

fun splitlines :: "string \<Rightarrow> string \<Rightarrow> string list" where
  "splitlines cur [] = (if cur = [] then [] else [rev cur])"
| "splitlines cur [c] = (if line_break c then [rev cur] else [rev (c # cur)])"
| "splitlines cur (c # d # s) =
     (if c = carriage_return \<and> d = newline then rev cur # splitlines [] s
      else if line_break c then rev cur # splitlines [] (d # s) else splitlines (c # cur) (d # s))"

definition key_start :: "char \<Rightarrow> bool" where
  "key_start c \<longleftrightarrow> (let n = (of_char c :: nat) in (65 \<le> n \<and> n \<le> 90) \<or> n = 95)"

definition key_char :: "char \<Rightarrow> bool" where
  "key_char c \<longleftrightarrow> key_start c \<or> (let n = (of_char c :: nat) in 48 \<le> n \<and> n \<le> 57)"

text \<open>\<open>re.match(r"^([A-Z_][A-Z0-9_]*)=", line)\<close> and its first group.\<close>

definition env_key :: "string \<Rightarrow> string option" where
  "env_key line = (case line of [] \<Rightarrow> None
     | c # s \<Rightarrow> (case dropWhile key_char s of
         d # _ \<Rightarrow> if key_start c \<and> d = CHR ''='' then Some (c # takeWhile key_char s) else None
       | [] \<Rightarrow> None))"

definition env_line :: "string \<times> string \<Rightarrow> string" where
  "env_line kv = fst kv @ CHR ''='' # snd kv"

definition updated_key :: "(string \<times> string) list \<Rightarrow> string \<Rightarrow> string option" where
  "updated_key updates line = (case env_key line of None \<Rightarrow> None
     | Some k \<Rightarrow> if map_of updates k = None then None else Some k)"

definition upsert_line :: "(string \<times> string) list \<Rightarrow> string \<Rightarrow> string" where
  "upsert_line updates line = (case updated_key updates line of None \<Rightarrow> line
     | Some k \<Rightarrow> env_line (k, the (map_of updates k)))"

definition upsert_lines :: "(string \<times> string) list \<Rightarrow> string list \<Rightarrow> string list" where
  "upsert_lines updates ls = map (upsert_line updates) ls @
     map env_line (filter (\<lambda>(k, _). Some k \<notin> set (map (updated_key updates) ls)) updates)"

definition upsert_env :: "string option \<Rightarrow> (string \<times> string) list \<Rightarrow> string" where
  "upsert_env file updates = (let ls = (case file of None \<Rightarrow> [] | Some content \<Rightarrow> splitlines [] content) in
     join [newline] (upsert_lines updates ls) @ [newline])"

section \<open>The steps\<close>

text \<open>How the process ends before its last line: an exit code, or an exception nothing catches.\<close>

datatype script_end = Exit int | Traceback exc

text \<open>\<open>_post_oauth\<close>: JSON, an HTTP error with its body, or an exception.\<close>

datatype oauth_outcome = Oauth_Json json | Oauth_Http_Error int string | Oauth_Raises exc

record script_env =
  se_compose_file_exists :: bool
  se_email :: string
  se_password :: string
  se_code :: string
  se_oauth :: "nat \<Rightarrow> oauth_outcome"
  se_str :: "json \<Rightarrow> string"
  se_run :: "nat \<Rightarrow> int"
  se_fetch :: "nat \<Rightarrow> exc + json"

record script_state =
  sx_env_file :: "string option"
  sx_oauth_sent :: "((string \<times> string) list \<times> (string \<times> string) list) list"
  sx_commands :: "string list list"
  sx_fetched :: "(string \<times> string option) list"

definition TOKEN_KEY :: string where "TOKEN_KEY = ''RING_REFRESH_TOKEN''"
definition ADAPTER_KEY :: string where "ADAPTER_KEY = ''RING_ADAPTER''"
definition API_KEY :: string where "API_KEY = ''local-dev-api-key''"
definition HEALTH_URL :: string where "HEALTH_URL = ''http://localhost:8000/health''"
definition HEALTH_ADAPTER_URL :: string where "HEALTH_ADAPTER_URL = ''http://localhost:8000/health/adapter''"

definition RING_CLIENT_PAYLOAD :: "(string \<times> string) list" where
  "RING_CLIENT_PAYLOAD = [(''client_id'', ''ring_official_android''), (''scope'', ''client'')]"

text \<open>The dictionary \<open>_post_oauth\<close> returns; what it sends is the form and the headers. An empty code is no header.\<close>

definition post_oauth :: "script_env \<Rightarrow> string \<Rightarrow> string \<Rightarrow> string option \<Rightarrow> (script_state, script_end, json) prog" where
  "post_oauth env email password twofa_code s =
     (let body = RING_CLIENT_PAYLOAD @ [(''grant_type'', ''password''), (''username'', email), (''password'', password)];
          headers = [(''Content-Type'', ''application/x-www-form-urlencoded''),
            (''User-Agent'', ''ring-adapter-backend-bootstrap/1.0''), (''hardware_id'', ''ring-adapter-backend-bootstrap''),
            (''2fa-support'', ''true'')] @
            (case twofa_code of None \<Rightarrow> [] | Some c \<Rightarrow> if c = [] then [] else [(''2fa-code'', c)]);
          s' = s\<lparr>sx_oauth_sent := sx_oauth_sent s @ [(body, headers)]\<rparr>
      in case se_oauth env (length (sx_oauth_sent s)) of
           Oauth_Json j \<Rightarrow> (Inr j, s')
         | Oauth_Http_Error status body \<Rightarrow> (Inr (JObj [(''_http_status'', JInt status), (''_body'', JStr body)]), s')
         | Oauth_Raises e \<Rightarrow> (Inl (Traceback e), s'))"

definition two_factor_asked :: "json \<Rightarrow> bool" where
  "two_factor_asked resp = (case json_field ''_http_status'' resp of
     Some (JInt n) \<Rightarrow> n = 412 \<or> n = 400 \<and>
       (case json_field ''_body'' resp of Some (JStr body) \<Rightarrow> contains ''2fa'' (lower body) | _ \<Rightarrow> False)
   | _ \<Rightarrow> False)"

text \<open>JSON that is no object has no method \<open>get\<close>.\<close>

definition obtain_refresh_token :: "script_env \<Rightarrow> (script_state, script_end, json) prog" where
  "obtain_refresh_token env =
     (let email = strip (se_email env) in
      andThen (post_oauth env email (se_password env) None) (\<lambda>first.
      if \<not> is_obj first then throw (Traceback AttributeError)
      else andThen (if two_factor_asked first then post_oauth env email (se_password env) (Some (strip (se_code env))) else ret first)
        (\<lambda>resp. if \<not> is_obj resp then throw (Traceback AttributeError)
          else (case json_field ''refresh_token'' resp of None \<Rightarrow> throw (Exit 1) | Some t \<Rightarrow> ret t))))"

definition write_env :: "(string \<times> string) list \<Rightarrow> (script_state, script_end, unit) prog" where
  "write_env updates = modify (\<lambda>s. s\<lparr>sx_env_file := Some (upsert_env (sx_env_file s) updates)\<rparr>)"

definition run_command :: "script_env \<Rightarrow> string list \<Rightarrow> bool \<Rightarrow> (script_state, script_end, int) prog" where
  "run_command env cmd check s =
     (let code = se_run env (length (sx_commands s)); s' = s\<lparr>sx_commands := sx_commands s @ [cmd]\<rparr>
      in if check \<and> code \<noteq> 0 then (Inl (Exit code), s') else (Inr code, s'))"

definition rm_command :: "string list" where
  "rm_command = [''docker'', ''compose'', ''exec'', ''-T'', ''backend'', ''rm'', ''-f'', ''/data/tokens.db'']"

definition up_command :: "string list" where
  "up_command = [''docker'', ''compose'', ''up'', ''-d'', ''--force-recreate'', ''backend'']"

definition reset_token_store_and_restart :: "script_env \<Rightarrow> (script_state, script_end, unit) prog" where
  "reset_token_store_and_restart env =
     andThen (run_command env rm_command False) (\<lambda>_. andThen (run_command env up_command True) (\<lambda>_. ret ()))"

definition fetch_json :: "script_env \<Rightarrow> string \<Rightarrow> string option \<Rightarrow> (script_state, exc, json) prog" where
  "fetch_json env url auth s = (se_fetch env (length (sx_fetched s)), s\<lparr>sx_fetched := sx_fetched s @ [(url, auth)]\<rparr>)"

text \<open>One attempt, then the loop over those that are left; the pauses between them are left out.\<close>

definition poll_health :: "script_env \<Rightarrow> (script_state, exc, json) prog" where
  "poll_health env = andThen (fetch_json env HEALTH_URL None)
     (\<lambda>_. fetch_json env HEALTH_ADAPTER_URL (Some (''Bearer '' @ API_KEY)))"

fun wait_for_adapter_health :: "script_env \<Rightarrow> nat \<Rightarrow> (script_state, script_end, json) prog" where
  "wait_for_adapter_health env 0 s = (Inl (Traceback RuntimeError), s)"
| "wait_for_adapter_health env (Suc attempts) s = (case poll_health env s of
     (Inr health, s') \<Rightarrow> (Inr health, s')
   | (Inl _, s') \<Rightarrow> wait_for_adapter_health env attempts s')"

fun truthy :: "json \<Rightarrow> bool" where
  "truthy JNull = False"
| "truthy (JBool b) = b"
| "truthy (JInt i) = (i \<noteq> 0)"
| "truthy (JReal r) = (r \<noteq> 0)"
| "truthy (JStr s) = (s \<noteq> [])"
| "truthy (JArr xs) = (xs \<noteq> [])"
| "truthy (JObj kvs) = (kvs \<noteq> [])"

definition judge_health :: "json \<Rightarrow> (script_state, script_end, unit) prog" where
  "judge_health health = (if \<not> is_obj health then throw (Traceback AttributeError)
     else (case json_field ''refresh_token_valid'' health of
       None \<Rightarrow> throw (Exit 3)
     | Some v \<Rightarrow> if truthy v then ret () else throw (Exit 3)))"

definition env_text :: "script_env \<Rightarrow> json \<Rightarrow> string" where
  "env_text env j = (case j of JStr s \<Rightarrow> s | _ \<Rightarrow> se_str env j)"

definition main :: "script_env \<Rightarrow> (script_state, script_end, unit) prog" where
  "main env =
     (if \<not> se_compose_file_exists env then throw (Exit 2)
      else andThen (obtain_refresh_token env) (\<lambda>refresh_token.
        andThen (write_env [(TOKEN_KEY, env_text env refresh_token), (ADAPTER_KEY, ''unofficial'')]) (\<lambda>_.
        andThen (reset_token_store_and_restart env) (\<lambda>_.
        andThen (wait_for_adapter_health env 20) judge_health))))"

section \<open>Facts\<close>

lemma breaks [simp]: "line_break newline" "line_break carriage_return" "newline \<noteq> carriage_return"
  by (simp_all add: line_break_def newline_def carriage_return_def)

lemma splitlines_no_break: "(\<forall>c \<in> set cur. \<not> line_break c) \<Longrightarrow> l \<in> set (splitlines cur s) \<Longrightarrow> c \<in> set l \<Longrightarrow> \<not> line_break c"
  by (induction cur s rule: splitlines.induct) (auto split: if_splits)

lemma splitlines_line:
  "(\<forall>c \<in> set l. \<not> line_break c) \<Longrightarrow> splitlines cur (l @ newline # s) = rev (rev l @ cur) # splitlines [] s"
proof (induction l arbitrary: cur)
  case Nil
  show ?case by (cases s) auto
next
  case (Cons c l)
  have "c \<noteq> carriage_return" using Cons.prems by auto
  with Cons show ?case by (cases l) auto
qed

lemma join_newlines:
  "(\<forall>l \<in> set ls. \<forall>c \<in> set l. \<not> line_break c) \<Longrightarrow> ls \<noteq> [] \<Longrightarrow> splitlines [] (join [newline] ls @ [newline]) = ls"
proof (induction ls)
  case (Cons l ls)
  show ?case
  proof (cases ls)
    case Nil
    with Cons.prems splitlines_line [of l "[]" "[]"] show ?thesis by (simp add: join_def)
  next
    case (Cons m ms)
    have "join [newline] (l # ls) @ [newline] = l @ newline # (join [newline] ls @ [newline])"
      unfolding Cons by (simp add: join_def)
    with Cons.prems Cons.IH Cons splitlines_line [of l "[]" "join [newline] ls @ [newline]"] show ?thesis by auto
  qed
qed simp

text \<open>A key that may be updated: the line written for it is found again.\<close>

definition good_updates :: "(string \<times> string) list \<Rightarrow> bool" where
  "good_updates updates \<longleftrightarrow> updates \<noteq> [] \<and> distinct (map fst updates) \<and>
     (\<forall>kv \<in> set updates. env_key (env_line kv) = Some (fst kv) \<and> list_all (\<lambda>c. \<not> line_break c) (env_line kv))"

lemma updated_key_line: "good_updates u \<Longrightarrow> kv \<in> set u \<Longrightarrow> updated_key u (env_line kv) = Some (fst kv)"
  by (auto simp: updated_key_def good_updates_def weak_map_of_SomeI map_of_eq_None_iff split: option.splits)

lemma upsert_line_written: "good_updates u \<Longrightarrow> kv \<in> set u \<Longrightarrow> upsert_line u (env_line kv) = env_line kv"
  by (cases kv) (simp add: upsert_line_def updated_key_line good_updates_def map_of_is_SomeI)

lemma updated_key_SomeD: "updated_key u l = Some k \<Longrightarrow> \<exists>v. map_of u k = Some v \<and> (k, v) \<in> set u \<and> upsert_line u l = env_line (k, v)"
  by (auto simp: updated_key_def upsert_line_def split: option.splits if_splits intro: map_of_SomeD)

lemma updated_key_upsert: "good_updates u \<Longrightarrow> updated_key u (upsert_line u l) = updated_key u l"
proof (cases "updated_key u l")
  case (Some k)
  assume "good_updates u"
  from updated_key_SomeD [OF Some] obtain v where "(k, v) \<in> set u" "upsert_line u l = env_line (k, v)" by blast
  with updated_key_line [OF \<open>good_updates u\<close> this(1)] Some show ?thesis by simp
qed (simp add: upsert_line_def)

lemma upsert_line_idem: "good_updates u \<Longrightarrow> upsert_line u (upsert_line u l) = upsert_line u l"
proof (cases "updated_key u l")
  case (Some k)
  assume "good_updates u"
  from updated_key_SomeD [OF Some] obtain v where "(k, v) \<in> set u" "upsert_line u l = env_line (k, v)" by blast
  with upsert_line_written [OF \<open>good_updates u\<close> this(1)] show ?thesis by simp
qed (simp add: upsert_line_def)

lemma upsert_lines_keys:
  assumes "good_updates u" and "kv \<in> set u"
  shows "Some (fst kv) \<in> set (map (updated_key u) (upsert_lines u ls))"
proof (cases "Some (fst kv) \<in> set (map (updated_key u) ls)")
  case True
  then obtain l where "l \<in> set ls" "updated_key u l = Some (fst kv)" by auto
  then have "upsert_line u l \<in> set (upsert_lines u ls)" "updated_key u (upsert_line u l) = Some (fst kv)"
    using updated_key_upsert [OF assms(1)] by (auto simp: upsert_lines_def)
  then show ?thesis by (metis image_eqI list.set_map)
next
  case False
  then have "env_line kv \<in> set (upsert_lines u ls)" using assms(2) by (auto simp: upsert_lines_def)
  with updated_key_line [OF assms] show ?thesis by (metis image_eqI list.set_map)
qed

lemma upsert_lines_idem: "good_updates u \<Longrightarrow> upsert_lines u (upsert_lines u ls) = upsert_lines u ls"
proof -
  assume g: "good_updates u"
  have "filter (\<lambda>(k, _). Some k \<notin> set (map (updated_key u) (upsert_lines u ls))) u = []"
    using upsert_lines_keys [OF g] by (auto simp: filter_empty_conv)
  moreover have "map (upsert_line u) (upsert_lines u ls) = upsert_lines u ls"
    using upsert_line_idem [OF g] upsert_line_written [OF g] by (auto simp: upsert_lines_def)
  ultimately show ?thesis by (subst (1) upsert_lines_def) simp
qed

lemma upsert_lines_no_break:
  assumes "good_updates u" and "\<forall>l \<in> set ls. \<forall>c \<in> set l. \<not> line_break c"
  shows "\<forall>l \<in> set (upsert_lines u ls). \<forall>c \<in> set l. \<not> line_break c"
proof -
  have new: "\<forall>c \<in> set (env_line kv). \<not> line_break c" if "kv \<in> set u" for kv
    using assms(1) that by (auto simp: good_updates_def list_all_iff)
  have "\<forall>c \<in> set (upsert_line u l). \<not> line_break c" if "l \<in> set ls" for l
    using assms(2) that new updated_key_SomeD [of u l] by (cases "updated_key u l") (auto simp: upsert_line_def)
  with new show ?thesis by (auto simp: upsert_lines_def)
qed

definition env_lines :: "string option \<Rightarrow> string list" where
  "env_lines file = (case file of None \<Rightarrow> [] | Some content \<Rightarrow> splitlines [] content)"

lemma upsert_env_lines:
  assumes "good_updates u"
  shows "env_lines (Some (upsert_env file u)) = upsert_lines u (env_lines file)"
proof -
  have "\<forall>l \<in> set (env_lines file). \<forall>c \<in> set l. \<not> line_break c"
    using splitlines_no_break [of "[]"] by (auto simp: env_lines_def split: option.splits)
  from upsert_lines_no_break [OF assms this]
  have b: "\<forall>l \<in> set (upsert_lines u (env_lines file)). \<forall>c \<in> set l. \<not> line_break c" .
  obtain kv where "kv \<in> set u" using assms by (cases u) (auto simp: good_updates_def)
  from upsert_lines_keys [OF assms this, of "env_lines file"] have "upsert_lines u (env_lines file) \<noteq> []" by auto
  from join_newlines [OF b this] show ?thesis by (simp add: upsert_env_def env_lines_def)
qed

lemma upsert_line_fixed: "good_updates u \<Longrightarrow> l \<in> set (upsert_lines u ls) \<Longrightarrow> upsert_line u l = l"
  using upsert_line_idem [of u] upsert_line_written [of u] by (auto simp: upsert_lines_def)

lemma upsert_lines_only:
  "good_updates u \<Longrightarrow> l \<in> set (upsert_lines u ls) \<Longrightarrow> env_key l = Some k \<Longrightarrow> map_of u k = Some v \<Longrightarrow> l = env_line (k, v)"
  using upsert_line_fixed [of u l ls] by (simp add: upsert_line_def updated_key_def)

lemma upsert_lines_has:
  assumes "good_updates u" and "kv \<in> set u"
  shows "env_line kv \<in> set (upsert_lines u ls)"
proof -
  from upsert_lines_keys [OF assms] obtain l where l: "l \<in> set (upsert_lines u ls)" "updated_key u l = Some (fst kv)" by fastforce
  from updated_key_SomeD [OF l(2)] obtain v where "map_of u (fst kv) = Some v" "upsert_line u l = env_line (fst kv, v)" by blast
  moreover have "map_of u (fst kv) = Some (snd kv)" using assms by (cases kv) (simp add: good_updates_def map_of_is_SomeI)
  ultimately show ?thesis using upsert_line_fixed [OF assms(1) l(1)] l(1) by (cases kv) simp
qed

lemma upsert_lines_others:
  assumes "good_updates u"
  shows "filter (\<lambda>l. updated_key u l = None) (upsert_lines u ls) = filter (\<lambda>l. updated_key u l = None) ls"
proof -
  have "filter (\<lambda>l. updated_key u l = None) (map env_line (filter P u)) = []" for P
    using updated_key_line [OF assms] by (auto simp: filter_empty_conv)
  moreover have "filter (\<lambda>l. updated_key u l = None) (map (upsert_line u) xs) = filter (\<lambda>l. updated_key u l = None) xs" for xs
    by (induction xs) (auto simp: updated_key_upsert [OF assms], auto simp: upsert_line_def)
  ultimately show ?thesis by (simp add: upsert_lines_def)
qed

text \<open>C30: After the update of \<open>.env\<close> every updated key has its new line, every line of an updated key is that line, all
  other lines are as they were and in their order, and updating again changes nothing. The updates are those whose lines the
  script itself reads back as \<open>KEY=value\<close>: distinct keys of capitals, digits and underscores, values without a line break.\<close>

theorem upsert_env_effect:
  assumes "good_updates u"
  shows "(\<forall>kv \<in> set u. env_line kv \<in> set (env_lines (Some (upsert_env file u)))) \<and>
    (\<forall>l \<in> set (env_lines (Some (upsert_env file u))). \<forall>v k. env_key l = Some k \<and> map_of u k = Some v \<longrightarrow> l = env_line (k, v)) \<and>
    filter (\<lambda>l. updated_key u l = None) (env_lines (Some (upsert_env file u))) =
      filter (\<lambda>l. updated_key u l = None) (env_lines file) \<and>
    upsert_env (Some (upsert_env file u)) u = upsert_env file u"
  using upsert_lines_has [OF assms] upsert_lines_only [OF assms] upsert_lines_others [OF assms] upsert_lines_idem [OF assms]
    upsert_env_lines [OF assms, of "file"]
  by (simp add: upsert_env_def env_lines_def)

section \<open>What the script does\<close>

lemma wait_result:
  "\<exists>x s'. wait_for_adapter_health env n s = (x, s') \<and> sx_env_file s' = sx_env_file s \<and> sx_commands s' = sx_commands s \<and>
     sx_oauth_sent s' = sx_oauth_sent s \<and> length (sx_fetched s') \<le> length (sx_fetched s) + 2 * n \<and>
     (\<forall>e. x = Inl e \<longrightarrow> e = Traceback RuntimeError)"
proof (induction n arbitrary: s)
  case (Suc n)
  obtain x t where p: "poll_health env s = (x, t)" by (cases "poll_health env s")
  then have t: "sx_env_file t = sx_env_file s \<and> sx_commands t = sx_commands s \<and> sx_oauth_sent t = sx_oauth_sent s \<and>
      length (sx_fetched t) \<le> length (sx_fetched s) + 2"
    by (auto simp: poll_health_def fetch_json_def andThen_def split: sum.splits)
  show ?case
  proof (cases x)
    case (Inl e)
    from Suc.IH [of t] obtain y u where "wait_for_adapter_health env n t = (y, u)" "sx_env_file u = sx_env_file t \<and>
      sx_commands u = sx_commands t \<and> sx_oauth_sent u = sx_oauth_sent t \<and> length (sx_fetched u) \<le> length (sx_fetched t) + 2 * n"
      "\<forall>e. y = Inl e \<longrightarrow> e = Traceback RuntimeError" by blast
    with p Inl t show ?thesis by auto
  next
    case (Inr h)
    with p t show ?thesis by auto
  qed
qed simp

lemma wait_first:
  assumes "poll_health env s = (Inr health, s')"
  shows "wait_for_adapter_health env (Suc n) s = (Inr health, s')"
  using assms by simp

lemma obtain_keeps:
  "obtain_refresh_token env s = (x, t) \<Longrightarrow> sx_env_file t = sx_env_file s \<and> sx_commands t = sx_commands s \<and>
     sx_fetched t = sx_fetched s \<and> length (sx_oauth_sent t) \<le> length (sx_oauth_sent s) + 2"
  by (auto simp: obtain_refresh_token_def post_oauth_def andThen_def throw_def ret_def Let_def
      split: oauth_outcome.splits option.splits if_splits sum.splits list.splits)

text \<open>The two updates the script makes are good ones for every token without a line break.\<close>

lemma script_updates_good:
  assumes "list_all (\<lambda>c. \<not> line_break c) tok"
  shows "good_updates [(TOKEN_KEY, tok), (ADAPTER_KEY, ''unofficial'')]"
proof -
  have "list_all (\<lambda>c. \<not> line_break c) TOKEN_KEY" "list_all (\<lambda>c. \<not> line_break c) (env_line (ADAPTER_KEY, ''unofficial''))"
    "\<not> line_break (CHR ''='')" "env_key (env_line (ADAPTER_KEY, ''unofficial'')) = Some ADAPTER_KEY" "TOKEN_KEY \<noteq> ADAPTER_KEY"
    by code_simp+
  moreover have "env_key (TOKEN_KEY @ CHR ''='' # v) = Some TOKEN_KEY" for v
    by (simp add: env_key_def TOKEN_KEY_def key_char_def key_start_def)
  ultimately show ?thesis using assms by (simp add: good_updates_def env_line_def)
qed

text \<open>Either the script ends without having touched the file, docker or the backend, or the token is in the file, the
  database has been dropped and the backend restarted, in this order, and at most forty requests have polled it.\<close>

theorem main_effect:
  assumes "main env s = (x, t)"
  shows "(sx_env_file t = sx_env_file s \<and> sx_commands t = sx_commands s \<and> sx_fetched t = sx_fetched s \<and> x \<noteq> Inr ()) \<or>
    (\<exists>tok. sx_env_file t = Some (upsert_env (sx_env_file s) [(TOKEN_KEY, tok), (ADAPTER_KEY, ''unofficial'')]) \<and>
      sx_commands t = sx_commands s @ [rm_command, up_command] \<and> length (sx_fetched t) \<le> length (sx_fetched s) + 40 \<and>
      (x = Inr () \<longrightarrow> se_run env (Suc (length (sx_commands s))) = 0))"
proof (cases "se_compose_file_exists env")
  case False
  with assms show ?thesis by (auto simp: main_def throw_def)
next
  case True
  obtain y u where o: "obtain_refresh_token env s = (y, u)" by (cases "obtain_refresh_token env s")
  note keep = obtain_keeps [OF o]
  show ?thesis
  proof (cases y)
    case (Inl e)
    with True o assms keep show ?thesis by (auto simp: main_def andThen_def)
  next
    case (Inr j)
    let ?u = "u\<lparr>sx_env_file := Some (upsert_env (sx_env_file u) [(TOKEN_KEY, env_text env j), (ADAPTER_KEY, ''unofficial'')]),
      sx_commands := sx_commands u @ [rm_command, up_command]\<rparr>"
    let ?c = "se_run env (Suc (length (sx_commands u)))"
    have m: "main env s = (if ?c \<noteq> 0 then (Inl (Exit ?c), ?u) else andThen (wait_for_adapter_health env 20) judge_health ?u)"
      using True o Inr by (simp add: main_def andThen_def write_env_def modify_def reset_token_store_and_restart_def run_command_def
          Let_def ret_def)
    show ?thesis
    proof (cases "?c = 0")
      case False
      with m assms keep show ?thesis by (auto intro!: exI [of _ "env_text env j"])
    next
      case True
      obtain h v where w: "wait_for_adapter_health env 20 ?u = (h, v)" "sx_env_file v = sx_env_file ?u" "sx_commands v = sx_commands ?u"
        "length (sx_fetched v) \<le> length (sx_fetched ?u) + 2 * 20" using wait_result [of env 20 ?u] by blast
      have "t = v" using assms True w(1) unfolding m
        by (auto simp: andThen_def judge_health_def throw_def ret_def split: sum.splits if_splits option.splits)
      with w True keep show ?thesis by (auto intro!: exI [of _ "env_text env j"])
    qed
  qed
qed

section \<open>The stack it restarts\<close>

text \<open>
  The environment \<open>docker-compose.yml\<close> gives the backend, from compose's reading of \<open>.env\<close>; \<open>${VAR:-default}\<close> takes the
  default for an empty value too. Compose's reader of \<open>.env\<close> is a parameter: what is relied on is its documented reading of
  plain lines, each blank, a comment or \<open>KEY=value\<close> with nothing to quote or expand, of which the last one of a key counts.
\<close>

definition compose_value :: "environ \<Rightarrow> string \<Rightarrow> string \<Rightarrow> string" where
  "compose_value e var dflt = (case e var of None \<Rightarrow> dflt | Some v \<Rightarrow> if v = [] then dflt else v)"

definition compose_environ :: "environ \<Rightarrow> environ" where
  "compose_environ e = map_of [
     (''RING_CLIENT_ID'', ''local_dev_client_id''), (''RING_CLIENT_SECRET'', ''local_dev_client_secret''),
     (''RING_HMAC_KEY'', ''5E5CqTiFx16SS2V7Ipak1nvTBKQPaXipDLCjgjSj+Nk=''), (''APP_API_KEY'', ''local-dev-api-key''),
     (''TOKEN_ENCRYPTION_KEY'', ''z-6mRAl-NHWoVYqHFG_sEjGk9iy2lpnWyDWDpVBy-u0=''),
     (''DATABASE_PATH'', ''/data/tokens.db''), (''LOG_LEVEL'', ''INFO''),
     (''RING_ADAPTER'', compose_value e ''RING_ADAPTER'' ''mock''),
     (''RING_REFRESH_TOKEN'', compose_value e ''RING_REFRESH_TOKEN'' []),
     (''RING_MAX_CONCURRENT_STREAMS'', compose_value e ''RING_MAX_CONCURRENT_STREAMS'' ''2''),
     (''RING_API_RATE_LIMIT_PER_MINUTE'', compose_value e ''RING_API_RATE_LIMIT_PER_MINUTE'' ''60''),
     (''MEDIAMTX_WHEP_URL'', compose_value e ''MEDIAMTX_WHEP_URL'' ''http://mediamtx:8889/test/whep''),
     (''MEDIAMTX_RTSP_URL'', compose_value e ''MEDIAMTX_RTSP_URL'' ''rtsp://mediamtx:8554/ring''),
     (''MEDIAMTX_WHEP_BASE'', compose_value e ''MEDIAMTX_WHEP_BASE'' ''http://mediamtx:8889''),
     (''RING_SIP_BRIDGE_URL'', compose_value e ''RING_SIP_BRIDGE_URL'' ''http://ring-sip-bridge:3000'')]"

text \<open>Letters, digits and \<open>+ - . / : = _\<close>.\<close>

definition plain_char :: "char \<Rightarrow> bool" where
  "plain_char c \<longleftrightarrow> (let n = (of_char c :: nat) in (48 \<le> n \<and> n \<le> 58) \<or> (65 \<le> n \<and> n \<le> 90) \<or> (97 \<le> n \<and> n \<le> 122) \<or>
     n = 43 \<or> (45 \<le> n \<and> n \<le> 47) \<or> n = 61 \<or> n = 95)"

definition plain_line :: "string \<Rightarrow> bool" where
  "plain_line l \<longleftrightarrow> l = [] \<or> hd l = CHR ''#'' \<or> env_key l \<noteq> None \<and> list_all plain_char l"

definition read_line :: "string \<Rightarrow> environ \<Rightarrow> environ" where
  "read_line l e = (case env_key l of None \<Rightarrow> e | Some k \<Rightarrow> e(k \<mapsto> drop (Suc (length k)) l))"

definition reads_plain_files :: "(string \<Rightarrow> environ) \<Rightarrow> bool" where
  "reads_plain_files R \<longleftrightarrow> (\<forall>content. list_all plain_line (env_lines (Some content)) \<longrightarrow>
     R content = fold read_line (env_lines (Some content)) Map.empty)"

text \<open>
  The database when the new container starts: \<open>rm\<close> has run in the old one or could not. The backend then answers the polls
  as \<open>health_adapter\<close> does if it serves, from some attempt of the twenty on; otherwise nothing listens.
\<close>

definition after_rm :: "bool \<Rightarrow> string \<Rightarrow> disk \<Rightarrow> disk" where
  "after_rm removed path d = (if removed then d(path := None) else d)"

definition backend_health :: "real \<Rightarrow> start_end \<Rightarrow> json option" where
  "backend_health now r = (case r of
     Serving st \<Rightarrow> Some (snd (fst (health_adapter (app_api_key (st_settings st)) (Some API_KEY) now (st_adapter st))))
   | _ \<Rightarrow> None)"

definition polled_from :: "script_env \<Rightarrow> real \<Rightarrow> nat \<Rightarrow> start_end \<Rightarrow> bool" where
  "polled_from env now n r \<longleftrightarrow> (case backend_health now r of
     None \<Rightarrow> (\<forall>i. isl (se_fetch env (n + i)))
   | Some h \<Rightarrow> (\<exists>k < 20. (\<forall>i < k. isl (se_fetch env (n + i))) \<and> \<not> isl (se_fetch env (n + k)) \<and>
       se_fetch env (Suc (n + k)) = Inr h))"

lemma wait_refused:
  "\<forall>i. isl (se_fetch env (length (sx_fetched s) + i)) \<Longrightarrow>
     \<exists>t. wait_for_adapter_health env n s = (Inl (Traceback RuntimeError), t)"
proof (induction n arbitrary: s)
  case (Suc n)
  from Suc.prems have "isl (se_fetch env (length (sx_fetched s)))" by (metis add_0_right)
  then obtain e where e: "se_fetch env (length (sx_fetched s)) = Inl e" by (auto simp: isl_def)
  let ?t = "s\<lparr>sx_fetched := sx_fetched s @ [(HEALTH_URL, None)]\<rparr>"
  have "\<forall>i. isl (se_fetch env (length (sx_fetched ?t) + i))" using Suc.prems by (metis add_Suc_shift length_append_singleton
        script_state.select_convs(4) script_state.surjective script_state.update_convs(4))
  from Suc.IH [OF this] e show ?case by (auto simp: poll_health_def fetch_json_def andThen_def)
qed simp

lemma wait_answered:
  "\<forall>i < k. isl (se_fetch env (length (sx_fetched s) + i)) \<Longrightarrow> k < n \<Longrightarrow>
     \<not> isl (se_fetch env (length (sx_fetched s) + k)) \<Longrightarrow> se_fetch env (Suc (length (sx_fetched s) + k)) = Inr h \<Longrightarrow>
     \<exists>t. wait_for_adapter_health env n s = (Inr h, t)"
proof (induction k arbitrary: s n)
  case 0
  then show ?case by (cases n) (auto simp: poll_health_def fetch_json_def andThen_def isl_def split: sum.splits)
next
  case (Suc k)
  then obtain m where n: "n = Suc m" "k < m" by (cases n) auto
  from Suc.prems(1) have "isl (se_fetch env (length (sx_fetched s)))" by (metis add_0_right zero_less_Suc)
  then obtain e where e: "se_fetch env (length (sx_fetched s)) = Inl e" by (auto simp: isl_def)
  let ?t = "s\<lparr>sx_fetched := sx_fetched s @ [(HEALTH_URL, None)]\<rparr>"
  have "\<forall>i < k. isl (se_fetch env (length (sx_fetched ?t) + i))" using Suc.prems(1) by fastforce
  with Suc.IH [of ?t m] Suc.prems n e show ?case by (auto simp: poll_health_def fetch_json_def andThen_def)
qed

lemma read_line_other: "env_key l \<noteq> Some k \<Longrightarrow> read_line l e k = e k"
  by (auto simp: read_line_def split: option.splits)

lemma read_line_env_line: "env_key (env_line (k, v)) = Some k \<Longrightarrow> read_line (env_line (k, v)) e k = Some v"
  by (simp add: read_line_def) (simp add: env_line_def)

lemma read_lines:
  assumes "env_key (env_line (k, v)) = Some k" and "\<forall>l \<in> set ls. env_key l = Some k \<longrightarrow> l = env_line (k, v)"
  shows "fold read_line ls e k = (if env_line (k, v) \<in> set ls then Some v else e k)"
  using assms(2)
proof (induction ls arbitrary: e)
  case (Cons l ls)
  then have IH: "fold read_line ls (read_line l e) k = (if env_line (k, v) \<in> set ls then Some v else read_line l e k)" by simp
  have "read_line l e k = (if l = env_line (k, v) then Some v else e k)"
    using Cons.prems read_line_other [of l k e] read_line_env_line [OF assms(1), of e] by (metis list.set_intros(1))
  with IH show ?case by (metis fold_simps(2) list.set_intros set_ConsD)
qed simp

lemma plain_no_break: "plain_char c \<Longrightarrow> \<not> line_break c"
  unfolding plain_char_def line_break_def Let_def by presburger

lemma plain_token_line: "list_all plain_char v \<Longrightarrow> plain_line (env_line (TOKEN_KEY, v))"
proof -
  have k: "list_all plain_char TOKEN_KEY" "plain_char (CHR ''='')" by code_simp+
  have "env_key (TOKEN_KEY @ CHR ''='' # v) = Some TOKEN_KEY"
    by (simp add: env_key_def TOKEN_KEY_def key_char_def key_start_def)
  with k show "list_all plain_char v \<Longrightarrow> ?thesis" by (simp add: plain_line_def env_line_def)
qed

text \<open>What compose reads for the two keys from the file the script has written.\<close>

lemma written_env_read:
  assumes R: "reads_plain_files R" and "list_all plain_line (env_lines file)" and tok: "list_all plain_char tok"
  shows "R (upsert_env file [(TOKEN_KEY, tok), (ADAPTER_KEY, ''unofficial'')]) TOKEN_KEY = Some tok"
    and "R (upsert_env file [(TOKEN_KEY, tok), (ADAPTER_KEY, ''unofficial'')]) ADAPTER_KEY = Some ''unofficial''"
proof -
  let ?u = "[(TOKEN_KEY, tok), (ADAPTER_KEY, ''unofficial'')]" and ?ls = "env_lines file"
  have g: "good_updates ?u" using tok plain_no_break by (intro script_updates_good) (auto simp: list_all_iff)
  note lines = upsert_env_lines [OF g, of "file"]
  have "plain_line (env_line (ADAPTER_KEY, ''unofficial''))" by code_simp
  with plain_token_line [OF tok] have new: "plain_line (env_line kv)" if "kv \<in> set ?u" for kv
    using that by auto
  have "plain_line (upsert_line ?u l)" if "l \<in> set ?ls" for l
    using assms(2) that new updated_key_SomeD [of ?u l] by (cases "updated_key ?u l") (auto simp: upsert_line_def list_all_iff)
  with new have "list_all plain_line (upsert_lines ?u ?ls)" by (auto simp: upsert_lines_def list_all_iff)
  with R lines have read: "R (upsert_env file ?u) = fold read_line (upsert_lines ?u ?ls) Map.empty"
    by (simp add: reads_plain_files_def)
  have k: "TOKEN_KEY \<noteq> ADAPTER_KEY" by code_simp
  have one: "R (upsert_env file ?u) (fst kv) = Some (snd kv)" if kv: "kv \<in> set ?u" for kv
  proof -
    have "env_key (env_line kv) = Some (fst kv)" using g kv unfolding good_updates_def by blast
    moreover have "map_of ?u (fst kv) = Some (snd kv)" using kv k by auto
    ultimately show ?thesis unfolding read
      using read_lines [of "fst kv" "snd kv" "upsert_lines ?u ?ls" Map.empty] upsert_lines_has [OF g kv, of ?ls]
        upsert_lines_only [OF g, of _ ?ls "fst kv" "snd kv"] by (metis prod.collapse)
  qed
  show "R (upsert_env file ?u) TOKEN_KEY = Some tok" "R (upsert_env file ?u) ADAPTER_KEY = Some ''unofficial''"
    using one [of "(TOKEN_KEY, tok)"] one [of "(ADAPTER_KEY, ''unofficial'')"] by simp_all
qed

lemma plain_strip: "list_all plain_char v \<Longrightarrow> strip v = v"
proof -
  have space: "plain_char c \<Longrightarrow> \<not> is_space c" for c
    unfolding plain_char_def is_space_def Let_def by presburger
  have "list_all plain_char w \<Longrightarrow> lstrip w = w" for w by (cases w) (simp_all add: lstrip_def space)
  then show "list_all plain_char v \<Longrightarrow> ?thesis" by (simp add: strip_def)
qed

lemma plain_utf8: "list_all plain_char v \<Longrightarrow> utf8_valid v"
proof -
  have low: "plain_char c \<Longrightarrow> (of_char c :: nat) \<le> 127" for c
    unfolding plain_char_def Let_def by presburger
  have "list_all plain_char v \<Longrightarrow> utf8_ok (map of_char v)"
    by (induction v) (simp_all add: low)
  then show "list_all plain_char v \<Longrightarrow> ?thesis" by (simp add: utf8_valid_def)
qed

text \<open>The settings of the restarted backend.\<close>

lemma compose_settings:
  assumes S: "get_settings dotenv (compose_environ e) = Inr S"
    and e: "e TOKEN_KEY = Some tok" "e ADAPTER_KEY = Some ''unofficial''" and tok: "list_all plain_char tok"
  shows "ring_adapter_name S = ''unofficial''" and "app_api_key S = API_KEY" and "database_path S = ''/data/tokens.db''"
    and "ring_refresh_token S = (if tok = [] then None else Some tok)"
proof -
  let ?e = "dotenv ++ compose_environ e"
  have get: "env_get ?e ''RING_ADAPTER'' [] = ''unofficial''" "env_get ?e ''APP_API_KEY'' [] = API_KEY"
    "env_get ?e ''DATABASE_PATH'' ''./tokens.db'' = ''/data/tokens.db''" "env_get ?e ''RING_REFRESH_TOKEN'' [] = tok"
    using e by (auto simp: env_get_def map_add_def compose_environ_def compose_value_def TOKEN_KEY_def ADAPTER_KEY_def API_KEY_def)
  have u: "strip ''unofficial'' = ''unofficial''" by code_simp
  show "ring_adapter_name S = ''unofficial''" "app_api_key S = API_KEY" "database_path S = ''/data/tokens.db''"
    "ring_refresh_token S = (if tok = [] then None else Some tok)"
    using S plain_strip [OF tok] by (auto simp: get_settings_def read_settings_def get u Let_def split: if_splits sum.splits)
qed

text \<open>The start of the restarted backend.\<close>

lemma restarted:
  assumes S: "get_settings dotenv e = Inr S" and name: "ring_adapter_name S = ''unofficial''"
    and f: "out_fernet out (token_encryption_key S) = Some f" "fernet_ok f" and rate: "1 \<le> ring_api_rate_limit_per_minute S"
    and tok: "\<And>t. ring_refresh_token S = Some t \<Longrightarrow> utf8_valid t"
    and good: "rs_good (rs_initialize f (d (database_path S)))"
    and stored: "fst (rs_load (rs_initialize f (d (database_path S)))) = Inr stored"
    and start: "lifespan_start out dotenv e (after_rm removed (database_path S) d) = (r, d1)"
  shows "case start_token (if removed then None else stored) S of
      None \<Rightarrow> r = Exited 1 No_Refresh_Token
    | Some w \<Rightarrow> \<exists>ad. r = Serving \<lparr>st_settings = S, st_adapter = Live_Unofficial ad True\<rparr> \<and> cl_sent (ad_client ad) = [] \<and>
        fst (rs_load (cl_store (ad_client ad))) = Inr (Some w) \<and> fst (rs_is_valid (cl_store (ad_client ad))) = Inr True"
proof -
  let ?d = "after_rm removed (database_path S) d"
  let ?s = "rs_initialize f (?d (database_path S))" and ?stored = "if removed then None else stored"
  have "rs_good (rs_initialize f None)" "fst (rs_load (rs_initialize f None)) = Inr None"
    using f(2) by (simp_all add: rs_good_def rs_initialize_def rs_load_def)
  then have init: "rs_good ?s" "fst (rs_load ?s) = Inr ?stored" using good stored by (simp_all add: after_rm_def)
  have env: "ring_refresh_token S \<noteq> Some []" using S read_settings_ok(2) by (auto simp: get_settings_def)
  note b = bootstrap_result [OF init env tok, of "out_iso out"]
  show ?thesis
  proof (cases "start_token ?stored S")
    case None
    with b start show ?thesis by (simp add: started_unofficial [OF S name f(1)])
  next
    case (Some w)
    with b obtain source s' where b: "bootstrap_refresh_token (out_iso out) S ?s = (Inr source, s')" "rs_load s' = (Inr (Some w), s')"
      by auto
    then have "fst (rs_is_valid s') = Inr True" by (auto simp: rs_load_def rs_is_valid_def split: option.splits if_splits)
    with Some b rate start show ?thesis by (auto simp: started_unofficial [OF S name f(1)] adapter_init_def client_init_def)
  qed
qed


section \<open>Witnesses\<close>

definition example_script :: script_env where
  "example_script = \<lparr>se_compose_file_exists = True, se_email = ''me'', se_password = ''pw'', se_code = [],
     se_oauth = (\<lambda>_. Oauth_Json (JObj [(''refresh_token'', JStr ''fresh'')])), se_str = (\<lambda>_. []),
     se_run = (\<lambda>n. if n = 0 then 1 else 0),
     se_fetch = (\<lambda>n. if n = 0 then Inl TransportError else if n = 1 then Inr JNull else
       Inr (JObj [(''adapter_mode'', JStr ''unofficial''), (''refresh_token_valid'', JBool True),
         (''active_stream_sessions'', JInt 0), (''ring_api_requests_last_minute'', JInt 0)]))\<rparr>"

definition example_script_state :: script_state where
  "example_script_state = \<lparr>sx_env_file = None, sx_oauth_sent = [], sx_commands = [], sx_fetched = []\<rparr>"

definition example_content :: string where
  "example_content = upsert_env None [(TOKEN_KEY, ''fresh''), (ADAPTER_KEY, ''unofficial'')]"

definition example_reader :: "string \<Rightarrow> environ" where
  "example_reader content = fold read_line (env_lines (Some content)) Map.empty"


text \<open>A token that was there is replaced, a comment stays, the adapter is added.\<close>

theorem upsert_env_effect_witness:
  "let u = [(TOKEN_KEY, ''new''), (ADAPTER_KEY, ''unofficial'')]; old = Some (''# keys'' @ newline # ''RING_REFRESH_TOKEN=old'')
   in env_lines (Some (upsert_env old u)) = [''# keys'', ''RING_REFRESH_TOKEN=new'', ''RING_ADAPTER=unofficial''] \<and>
     upsert_env (Some (upsert_env old u)) u = upsert_env old u"
proof -
  have g: "good_updates [(TOKEN_KEY, ''new''), (ADAPTER_KEY, ''unofficial'')]" by code_simp
  have "env_lines (Some (upsert_env (Some (''# keys'' @ newline # ''RING_REFRESH_TOKEN=old'')) [(TOKEN_KEY, ''new''), (ADAPTER_KEY, ''unofficial'')])) =
      [''# keys'', ''RING_REFRESH_TOKEN=new'', ''RING_ADAPTER=unofficial'']" by code_simp
  with upsert_env_effect [OF g] show ?thesis by (simp add: Let_def)
qed

end
