(* ===== verification/Shared_Views.thy ===== *)
theory Shared_Views imports Prelude begin

text \<open>
  The shared views of the app: \<open>Views/Shared\<close> and \<open>Views/HLSPlayerView.swift\<close>. A text is a list of characters as the
  user counts them; what is modelled of a view is what it shows, says and does, not where it stands.
\<close>

section \<open>The password field\<close>

text \<open>The dot that stands for a hidden character, and every other character.\<close>

datatype glyph = Dot | Glyph string

definition displayed :: "bool \<Rightarrow> glyph list \<Rightarrow> glyph list" where
  "displayed isRevealed txt = (if isRevealed then txt else replicate (length txt) Dot)"

definition reconcileMaskedInput :: "glyph list \<Rightarrow> glyph list \<Rightarrow> glyph list" where
  "reconcileMaskedInput txt newMasked =
     (let oldCount = length txt; newCount = length newMasked in
      if newCount > oldCount then txt @ drop oldCount newMasked
      else if newCount < oldCount then take newCount txt
      else txt)"

text \<open>The setter of \<open>displayBinding\<close>: the new text of the password.\<close>

definition displaySet :: "bool \<Rightarrow> glyph list \<Rightarrow> glyph list \<Rightarrow> glyph list" where
  "displaySet isRevealed txt newValue = (if isRevealed then newValue else reconcileMaskedInput txt newValue)"

text \<open>One edit of a text field: \<open>k\<close> characters at place \<open>p\<close> become \<open>typed\<close>.\<close>

definition edit :: "nat \<Rightarrow> nat \<Rightarrow> glyph list \<Rightarrow> glyph list \<Rightarrow> glyph list" where
  "edit p k typed s = take p s @ typed @ drop (p + k) s"

definition edit_field :: "bool \<Rightarrow> nat \<Rightarrow> nat \<Rightarrow> glyph list \<Rightarrow> glyph list \<Rightarrow> glyph list" where
  "edit_field isRevealed p k typed txt = displaySet isRevealed txt (edit p k typed (displayed isRevealed txt))"

lemma length_edit: "p + k \<le> length s \<Longrightarrow> length (edit p k typed s) + k = length s + length typed"
  by (simp add: edit_def)

lemma edit_dots: "edit p k typed (replicate n Dot) = replicate (min p n) Dot @ typed @ replicate (n - (p + k)) Dot"
  by (simp add: edit_def min.commute)

text \<open>What is typed at the end of a hidden password, and what is taken from its end, arrives; the revealed field takes
  every edit.\<close>

theorem edit_at_end:
  "edit_field True p k typed txt = edit p k typed txt"
  "edit_field False (length txt) 0 typed txt = edit (length txt) 0 typed txt"
  "p + k = length txt \<Longrightarrow> edit_field False p k [] txt = edit p k [] txt"
  by (auto simp: edit_field_def displaySet_def displayed_def reconcileMaskedInput_def edit_dots edit_def Let_def)

text \<open>Elsewhere a hidden password is not what was typed: characters typed inside it become as many dots at its end,
  characters typed over others are lost, and what is deleted inside it is taken from its end.\<close>

theorem edit_inside:
  assumes "p + k \<le> length txt"
  shows "k = 0 \<and> length typed \<le> length txt - p \<Longrightarrow> edit_field False p k typed txt = txt @ replicate (length typed) Dot"
    and "length typed = k \<Longrightarrow> edit_field False p k typed txt = txt"
    and "typed = [] \<Longrightarrow> edit_field False p k typed txt = take (length txt - k) txt"
  using assms by (auto simp: edit_field_def displaySet_def displayed_def reconcileMaskedInput_def edit_dots Let_def)

text \<open>A filled-in password is appended to the one it is meant to replace, without its beginning.\<close>

theorem filled_in_over_old:
  assumes "length txt < length typed"
  shows "edit_field False 0 (length txt) typed txt = txt @ drop (length txt) typed"
  using assms by (simp add: edit_field_def displaySet_def displayed_def reconcileMaskedInput_def edit_dots Let_def)

theorem filled_in_over_old_witness:
  "edit_field False 0 1 [Glyph ''a'', Glyph ''b''] [Glyph ''x''] = [Glyph ''x'', Glyph ''b'']"
  using filled_in_over_old [of "[Glyph ''x'']" "[Glyph ''a'', Glyph ''b'']"] by simp

section \<open>The HLS player\<close>

text \<open>The players that are playing, by their address; \<open>pv_coordinator\<close> and \<open>pv_layer\<close> hold the one of this view.\<close>

record player_view =
  pv_coordinator :: "string option"
  pv_layer :: "string option"
  pv_playing :: "string set"

definition hls_makeUIView :: "string \<Rightarrow> player_view \<Rightarrow> player_view" where
  "hls_makeUIView url v = v\<lparr>pv_layer := Some url, pv_playing := insert url (pv_playing v), pv_coordinator := Some url\<rparr>"

definition hls_updateUIView :: "string \<Rightarrow> player_view \<Rightarrow> player_view" where
  "hls_updateUIView url v = v"

definition hls_dismantleUIView :: "player_view \<Rightarrow> player_view" where
  "hls_dismantleUIView v = v\<lparr>pv_playing := (case pv_coordinator v of None \<Rightarrow> pv_playing v | Some p \<Rightarrow> pv_playing v - {p}),
     pv_layer := None, pv_coordinator := None\<rparr>"

text \<open>Whatever addresses it is updated with, a view plays the one it was made with until it is dismantled, and then
  leaves nothing playing that it has started.\<close>

theorem player_lifetime:
  "pv_playing (fold hls_updateUIView urls (hls_makeUIView url v)) = insert url (pv_playing v) \<and>
   pv_playing (hls_dismantleUIView (fold hls_updateUIView urls (hls_makeUIView url v))) = pv_playing v - {url} \<and>
   pv_layer (hls_dismantleUIView v') = None \<and> pv_coordinator (hls_dismantleUIView v') = None"
proof -
  have "fold hls_updateUIView urls w = w" for w by (induction urls arbitrary: w) (simp_all add: hls_updateUIView_def)
  then show ?thesis by (simp add: hls_makeUIView_def hls_dismantleUIView_def)
qed

section \<open>Messages\<close>

datatype loading_style = Standard | Overlay | Inline

text \<open>What a view shows as text, what VoiceOver says for it, and what its button does.\<close>

record 'a message_view =
  mv_texts :: "string list"
  mv_label :: "string option"
  mv_button :: "(string \<times> 'a) option"

definition LoadingView :: "string option \<Rightarrow> loading_style \<Rightarrow> 'a message_view" where
  "LoadingView message style = \<lparr>mv_texts = (case message of None \<Rightarrow> [] | Some m \<Rightarrow> [m]),
     mv_label = Some (case message of None \<Rightarrow> ''Loading'' | Some m \<Rightarrow> m), mv_button = None\<rparr>"

definition EmptyStateView :: "string \<Rightarrow> string option \<Rightarrow> 'a message_view" where
  "EmptyStateView message guidance = \<lparr>mv_texts = message # (case guidance of None \<Rightarrow> [] | Some g \<Rightarrow> [g]),
     mv_label = Some message, mv_button = None\<rparr>"

definition ErrorView :: "string \<Rightarrow> string \<Rightarrow> 'a option \<Rightarrow> 'a message_view" where
  "ErrorView message retryTitle onRetry = \<lparr>mv_texts = [message], mv_label = None,
     mv_button = map_option (\<lambda>a. (retryTitle, a)) onRetry\<rparr>"

text \<open>The guidance of an empty state is shown but not said.\<close>

lemma guidance_unspoken:
  "mv_texts (EmptyStateView m (Some g)) = [m, g] \<and> mv_label (EmptyStateView m (Some g)) = Some m"
  by (simp add: EmptyStateView_def)

end
