(* ===== verification/Webrtc_Macros.thy ===== *)
theory Webrtc_Macros imports Webrtc_Base begin

text \<open>
  The macros of \<open>RTCMacros.h\<close> and \<open>RTCLogging.h\<close>, as functions of the build and of their arguments. The header macros
  give the text they stand for; a logging macro gives the calls of \<open>RTCLogEx\<close> it makes. \<open>NSString\<close>'s formatting and
  \<open>RTCFileName\<close>, which is in the binary, are in \<open>log_env\<close>.
\<close>

section \<open>\<open>RTCMacros.h\<close>\<close>

text \<open>What the translation unit defines; the prefix is \<open>None\<close> where it is not patched.\<close>

record macro_build =
  mb_symbol_export :: bool
  mb_library_impl :: bool
  mb_cplusplus :: bool
  mb_objc :: bool
  mb_ndebug :: bool
  mb_prefix :: "string option"

definition RTC_OBJC_EXPORT :: "macro_build \<Rightarrow> string" where \<open>
  RTC_OBJC_EXPORT b = (if mb_symbol_export b \<and> mb_library_impl b then ''__attribute__((visibility("default")))'' else [])\<close>

definition RTC_OBJC_DEPRECATED :: "string \<Rightarrow> string" where
  "RTC_OBJC_DEPRECATED msg = ''__attribute__((deprecated('' @ msg @ '')))''"

definition RTC_SYMBOL_CONCAT_HELPER :: "string \<Rightarrow> string \<Rightarrow> string" where
  "RTC_SYMBOL_CONCAT_HELPER a b = a @ b"

definition RTC_SYMBOL_CONCAT :: "string \<Rightarrow> string \<Rightarrow> string" where
  "RTC_SYMBOL_CONCAT a b = RTC_SYMBOL_CONCAT_HELPER a b"

definition RTC_OBJC_TYPE_PREFIX :: "macro_build \<Rightarrow> string" where
  "RTC_OBJC_TYPE_PREFIX b = (case mb_prefix b of None \<Rightarrow> [] | Some p \<Rightarrow> p)"

definition RTC_OBJC_TYPE :: "macro_build \<Rightarrow> string \<Rightarrow> string" where
  "RTC_OBJC_TYPE b type_name = RTC_SYMBOL_CONCAT (RTC_OBJC_TYPE_PREFIX b) type_name"

definition RTC_EXTERN :: "macro_build \<Rightarrow> string" where \<open>
  RTC_EXTERN b = (if mb_cplusplus b then ''extern "C" '' @ RTC_OBJC_EXPORT b else ''extern '' @ RTC_OBJC_EXPORT b)\<close>

definition RTC_FWD_DECL_OBJC_CLASS :: "macro_build \<Rightarrow> string \<Rightarrow> string" where
  "RTC_FWD_DECL_OBJC_CLASS b classname = (if mb_objc b then ''@class '' @ classname else ''typedef struct objc_object '' @ classname)"

section \<open>\<open>RTCLogging.h\<close>\<close>

datatype format_arg = Object_Arg string | Int_Arg int | C_String_Arg string

record log_env =
  le_string_with_format :: "string \<Rightarrow> format_arg list \<Rightarrow> string"
  le_file_name :: "string \<Rightarrow> string"

text \<open>\<open>__FILE__\<close>, \<open>__LINE__\<close> and \<open>__FUNCTION__\<close> of the place of a macro.\<close>

record log_place =
  lp_file :: string
  lp_line :: int
  lp_function :: string

definition RTCLogString :: "log_env \<Rightarrow> log_place \<Rightarrow> string \<Rightarrow> format_arg list \<Rightarrow> string" where
  "RTCLogString env place fmt args = le_string_with_format env (''(%@:%d %s): '' @ fmt)
     (Object_Arg (le_file_name env (lp_file place)) # Int_Arg (lp_line place) # C_String_Arg (lp_function place) # args)"

text \<open>The calls \<open>RTCLogEx(severity, log_string)\<close>.\<close>

definition RTCLogFormat :: "log_env \<Rightarrow> log_place \<Rightarrow> string \<Rightarrow> string \<Rightarrow> format_arg list \<Rightarrow> (string \<times> string) list" where
  "RTCLogFormat env place severity fmt args = [(severity, RTCLogString env place fmt args)]"

definition RTCLogVerbose :: "log_env \<Rightarrow> log_place \<Rightarrow> string \<Rightarrow> format_arg list \<Rightarrow> (string \<times> string) list" where
  "RTCLogVerbose env place fmt args = RTCLogFormat env place ''RTCLoggingSeverityVerbose'' fmt args"

definition RTCLogInfo :: "log_env \<Rightarrow> log_place \<Rightarrow> string \<Rightarrow> format_arg list \<Rightarrow> (string \<times> string) list" where
  "RTCLogInfo env place fmt args = RTCLogFormat env place ''RTCLoggingSeverityInfo'' fmt args"

definition RTCLogWarning :: "log_env \<Rightarrow> log_place \<Rightarrow> string \<Rightarrow> format_arg list \<Rightarrow> (string \<times> string) list" where
  "RTCLogWarning env place fmt args = RTCLogFormat env place ''RTCLoggingSeverityWarning'' fmt args"

definition RTCLogError :: "log_env \<Rightarrow> log_place \<Rightarrow> string \<Rightarrow> format_arg list \<Rightarrow> (string \<times> string) list" where
  "RTCLogError env place fmt args = RTCLogFormat env place ''RTCLoggingSeverityError'' fmt args"

definition RTCLogDebug :: "macro_build \<Rightarrow> log_env \<Rightarrow> log_place \<Rightarrow> string \<Rightarrow> format_arg list \<Rightarrow> (string \<times> string) list" where
  "RTCLogDebug b env place fmt args = (if mb_ndebug b then [] else RTCLogInfo env place fmt args)"

definition RTCLog :: "log_env \<Rightarrow> log_place \<Rightarrow> string \<Rightarrow> format_arg list \<Rightarrow> (string \<times> string) list" where
  "RTCLog env place fmt args = RTCLogInfo env place fmt args"

section \<open>Facts\<close>

lemmas log_macros = RTCLogVerbose_def RTCLogInfo_def RTCLogWarning_def RTCLogError_def RTCLogDebug_def RTCLog_def
  RTCLogFormat_def

text \<open>A build's prefix keeps the exported types apart, and without one a type has its plain name, the one the other
  theories use.\<close>

theorem type_names_distinct:
  "(RTC_OBJC_TYPE b m = RTC_OBJC_TYPE b n \<longleftrightarrow> m = n) \<and> (mb_prefix b = None \<longrightarrow> RTC_OBJC_TYPE b n = n)"
  by (simp add: RTC_OBJC_TYPE_def RTC_SYMBOL_CONCAT_def RTC_SYMBOL_CONCAT_HELPER_def RTC_OBJC_TYPE_PREFIX_def)

text \<open>Every call a logging macro makes has a severity the header declares, and none asks for \<open>None\<close>; a debug
  message is an info message, or nothing in a build with \<open>NDEBUG\<close>.\<close>

theorem log_macros_declared:
  assumes "call \<in> set (RTCLogVerbose env place fmt args @ RTCLogInfo env place fmt args @ RTCLogWarning env place fmt args @
     RTCLogError env place fmt args @ RTCLogDebug b env place fmt args @ RTCLog env place fmt args)"
  shows "\<exists>n u cs. RTCLoggingSeverity_enum = Enum_Decl n u cs \<and> fst call \<in> fst ` set cs \<and>
    fst call \<noteq> ''RTCLoggingSeverityNone'' \<and> snd call = RTCLogString env place fmt args"
  using assms by (auto simp: log_macros RTCLoggingSeverity_enum_def split: if_splits)

end
