(* ===== verification/Webrtc_Spike.thy ===== *)
theory Webrtc_Spike imports Stream_Manager begin

text \<open>
  The test view of \<open>WebRTC/WebRTCProofOfConcept.swift\<close>, which the app's target compiles and nothing shows; its calls into
  WebRTC are among those of \<open>Webrtc_App\<close>. The task of \<open>connectToWHEP\<close> is cut at its awaits: a \<open>test_task\<close> is what is left
  of it, or a callback on its way to the main actor. Connections and tracks are numbers; \<open>tm_open\<close> are the
  connections \<open>close\<close> has not been called on. The text of an answer is shown up to its hundredth byte.
\<close>

section \<open>The test manager\<close>

datatype test_status =
    Initializing | Connecting_To_WHEP | Test_Stopped | Creation_Failed | Creating_Offer | Sending_Offer | Applying_Answer
  | Exchange_Complete | Test_Error string | Invalid_Response | WHEP_Returned int string | Not_Decodable | Track_Received
  | Video_Streaming | Ice_Failed | Ice_Disconnected

datatype test_task = Begin | Offer nat | Local nat | Answer nat | Remote nat | Ice ice_state | Track nat

text \<open>How what a task waits for ends.\<close>

datatype test_outcome = Connection_Made bool | Done | Threw string | Not_Http | Http int string

record test_manager =
  tm_isRunning :: bool
  tm_videoTrack :: "nat option"
  tm_connectionEstablished :: bool
  tm_statusMessage :: test_status
  tm_peerConnectionStatus :: bool
  tm_factory :: bool
  tm_peerConnection :: "nat option"
  tm_delegate :: "nat option"
  tm_made :: nat
  tm_open :: "nat set"
  tm_tasks :: "test_task list"

text \<open>The initialiser tries to make a connection, closes it and shows whether it was made.\<close>

definition test_init :: "bool \<Rightarrow> test_manager" where
  "test_init made = \<lparr>tm_isRunning = False, tm_videoTrack = None, tm_connectionEstablished = False, tm_statusMessage = Initializing,
     tm_peerConnectionStatus = made, tm_factory = False, tm_peerConnection = None, tm_delegate = None, tm_made = 0, tm_open = {}, tm_tasks = []\<rparr>"

definition test_spawn :: "test_task \<Rightarrow> test_manager \<Rightarrow> test_manager" where
  "test_spawn t m = m\<lparr>tm_tasks := tm_tasks m @ [t]\<rparr>"

definition say :: "test_status \<Rightarrow> test_manager \<Rightarrow> test_manager" where
  "say s m = m\<lparr>tm_statusMessage := s\<rparr>"

definition test_start :: "test_manager \<Rightarrow> test_manager" where
  "test_start m = test_spawn Begin (say Connecting_To_WHEP (m\<lparr>tm_isRunning := True\<rparr>))"

definition test_stop :: "test_manager \<Rightarrow> test_manager" where
  "test_stop m = say Test_Stopped (m\<lparr>tm_open := (case tm_peerConnection m of None \<Rightarrow> tm_open m | Some c \<Rightarrow> tm_open m - {c}),
     tm_peerConnection := None, tm_videoTrack := None, tm_factory := False, tm_delegate := None, tm_isRunning := False,
     tm_connectionEstablished := False\<rparr>)"

text \<open>From the start of the task to its first await.\<close>

definition connectToWHEP :: "bool \<Rightarrow> test_manager \<Rightarrow> test_manager" where
  "connectToWHEP made m = (let c = tm_made m; m1 = m\<lparr>tm_factory := True, tm_delegate := Some c\<rparr> in
     if \<not> made then say Creation_Failed (m1\<lparr>tm_isRunning := False\<rparr>)
     else test_spawn (Offer c) (say Creating_Offer
       (m1\<lparr>tm_peerConnection := Some c, tm_made := Suc c, tm_open := insert c (tm_open m1)\<rparr>)))"

definition sendOffer_answered :: "nat \<Rightarrow> int \<Rightarrow> string \<Rightarrow> test_manager \<Rightarrow> test_manager" where
  "sendOffer_answered c status data m =
     (if status \<noteq> 201 then say (WHEP_Returned status (take 100 (if utf8_valid data then data else []))) m
      else if \<not> utf8_valid data then say Not_Decodable m
      else test_spawn (Remote c) (say Applying_Answer m))"

fun handleICEState :: "ice_state \<Rightarrow> test_manager \<Rightarrow> test_manager" where
  "handleICEState ICE_connected m = say Video_Streaming (m\<lparr>tm_connectionEstablished := True\<rparr>)"
| "handleICEState ICE_completed m = say Video_Streaming (m\<lparr>tm_connectionEstablished := True\<rparr>)"
| "handleICEState ICE_failed m = say Ice_Failed m"
| "handleICEState ICE_disconnected m = say Ice_Disconnected m"
| "handleICEState _ m = m"

text \<open>One task up to its next await; every error of \<open>connectToWHEP\<close> ends in its \<open>catch\<close>.\<close>

fun resume :: "test_task \<Rightarrow> test_outcome \<Rightarrow> test_manager \<Rightarrow> test_manager option" where
  "resume Begin (Connection_Made made) m = Some (connectToWHEP made m)"
| "resume (Offer c) Done m = Some (test_spawn (Local c) m)"
| "resume (Local c) Done m = Some (test_spawn (Answer c) (say Sending_Offer m))"
| "resume (Answer c) Not_Http m = Some (say Invalid_Response m)"
| "resume (Answer c) (Http status data) m = Some (sendOffer_answered c status data m)"
| "resume (Remote c) Done m = Some (say Exchange_Complete m)"
| "resume (Offer c) (Threw e) m = Some (say (Test_Error e) m)"
| "resume (Local c) (Threw e) m = Some (say (Test_Error e) m)"
| "resume (Answer c) (Threw e) m = Some (say (Test_Error e) m)"
| "resume (Remote c) (Threw e) m = Some (say (Test_Error e) m)"
| "resume (Ice s) Done m = Some (handleICEState s m)"
| "resume (Track t) Done m = Some (say Track_Received (m\<lparr>tm_videoTrack := Some t\<rparr>))"
| "resume _ _ m = None"

section \<open>The test view\<close>

datatype test_button = Start_Test | Stop_Test

definition test_button :: "test_manager \<Rightarrow> test_button" where
  "test_button m = (if tm_isRunning m then Stop_Test else Start_Test)"

text \<open>The user presses the button that is shown, a task goes on, or a callback of a connection whose delegate is alive
  is on its way.\<close>

inductive test_step :: "test_manager \<Rightarrow> test_manager \<Rightarrow> bool" where
  press_start: "test_button m = Start_Test \<Longrightarrow> test_step m (test_start m)"
| press_stop: "test_button m = Stop_Test \<Longrightarrow> test_step m (test_stop m)"
| goes_on: "t \<in> set (tm_tasks m) \<Longrightarrow> resume t out (m\<lparr>tm_tasks := remove1 t (tm_tasks m)\<rparr>) = Some m' \<Longrightarrow> test_step m m'"
| ice: "tm_delegate m \<noteq> None \<Longrightarrow> test_step m (test_spawn (Ice s) m)"
| track: "tm_delegate m \<noteq> None \<Longrightarrow> test_step m (test_spawn (Track n) m)"

section \<open>Facts\<close>

lemmas manager_defs = test_spawn_def say_def test_start_def test_stop_def connectToWHEP_def sendOffer_answered_def Let_def

text \<open>The connection the manager holds is open, and open connections have been made.\<close>

definition test_inv :: "test_manager \<Rightarrow> bool" where
  "test_inv m \<longleftrightarrow> (\<forall>c \<in> tm_open m. c < tm_made m) \<and> (\<forall>c. tm_peerConnection m = Some c \<longrightarrow> c \<in> tm_open m)"

lemma resume_inv: "resume t out m = Some m' \<Longrightarrow> test_inv m \<Longrightarrow> test_inv m'"
proof (induction t out m rule: resume.induct)
  case (1 made m)
  then show ?case by (auto simp: test_inv_def manager_defs less_Suc_eq)
next
  case (11 s m)
  then show ?case by (cases s) (auto simp: test_inv_def manager_defs)
qed (auto simp: test_inv_def manager_defs split: if_splits)

lemma step_inv: "test_step m m' \<Longrightarrow> test_inv m \<Longrightarrow> test_inv m'"
proof (induction rule: test_step.induct)
  case (goes_on t m out m')
  then show ?case using resume_inv [OF goes_on(2)] by (simp add: test_inv_def)
qed (auto simp: test_inv_def manager_defs split: option.splits)

lemma reachable_inv: "test_step\<^sup>*\<^sup>* (test_init made) m \<Longrightarrow> test_inv m"
  by (induction rule: rtranclp_induct) (auto simp: test_inv_def test_init_def dest: step_inv)

lemma handleICEState_keeps [simp]: "tm_open (handleICEState s m) = tm_open m" "tm_peerConnection (handleICEState s m) = tm_peerConnection m"
  by (cases s; simp add: manager_defs)+

text \<open>Only the stop button closes a connection, and only the one the manager holds.\<close>

definition left_behind :: "nat \<Rightarrow> test_manager \<Rightarrow> bool" where
  "left_behind c m \<longleftrightarrow> test_inv m \<and> c \<in> tm_open m \<and> tm_peerConnection m \<noteq> Some c"

lemma resume_left_behind:
  assumes "resume t out m = Some m'" and "left_behind c m"
  shows "left_behind c m'"
proof -
  have "c < tm_made m" using assms(2) by (simp add: left_behind_def test_inv_def)
  then have "c \<in> tm_open m' \<and> tm_peerConnection m' \<noteq> Some c"
    using assms by (cases "(t, out, m)" rule: resume.cases) (auto simp: left_behind_def manager_defs split: if_splits)
  then show ?thesis using resume_inv [OF assms(1)] assms(2) by (simp add: left_behind_def)
qed

lemma step_left_behind: "test_step m m' \<Longrightarrow> left_behind c m \<Longrightarrow> left_behind c m'"
proof (induction rule: test_step.induct)
  case (goes_on t m out m')
  then show ?case using resume_left_behind [OF goes_on(2), of c] by (simp add: left_behind_def test_inv_def)
qed (auto simp: left_behind_def test_inv_def manager_defs split: option.splits)

section \<open>What a test run does\<close>

text \<open>Stopping a test whose task has not begun does not stop it: the task makes its connection all the same, and the
  view shows the start button over an open connection.\<close>

theorem stop_before_begin:
  "\<exists>m. test_step\<^sup>*\<^sup>* (test_init made) m \<and> test_button m = Start_Test \<and> tm_open m = {0} \<and> tm_peerConnection m = Some 0 \<and>
     tm_statusMessage m = Creating_Offer"
proof -
  let ?m1 = "test_start (test_init made)"
  let ?m2 = "test_stop ?m1"
  let ?m3 = "connectToWHEP True (?m2\<lparr>tm_tasks := []\<rparr>)"
  have "test_step (test_init made) ?m1" by (rule press_start) (simp add: test_button_def test_init_def)
  moreover have "test_step ?m1 ?m2" by (rule press_stop) (simp add: test_button_def manager_defs)
  moreover have "test_step ?m2 ?m3"
    by (rule goes_on [of Begin _ "Connection_Made True"]) (simp_all add: manager_defs test_init_def)
  ultimately have "test_step\<^sup>*\<^sup>* (test_init made) ?m3" by (meson converse_rtranclp_into_rtranclp rtranclp.rtrancl_refl)
  then show ?thesis by (intro exI [of _ ?m3]) (simp add: manager_defs test_init_def test_button_def)
qed

text \<open>Nothing calls \<open>close\<close> on a connection the manager has lost, as it does when the next test takes its place.\<close>

theorem lost_never_closed: "test_step\<^sup>*\<^sup>* m m' \<Longrightarrow> left_behind c m \<Longrightarrow> left_behind c m'"
  by (induction rule: rtranclp_induct) (auto dest: step_left_behind)

lemma next_test_loses:
  "test_inv m \<Longrightarrow> tm_peerConnection m = Some c \<Longrightarrow> left_behind c (connectToWHEP True m)"
  by (auto simp: left_behind_def test_inv_def manager_defs)

text \<open>A test that is stopped while its offer is out goes on with the answer and says so.\<close>

lemma exchange_outlives_stop:
  assumes "utf8_valid answer"
  shows "\<exists>m'. resume (Answer c) (Http 201 answer) (test_stop m) = Some m' \<and> tm_statusMessage m' = Applying_Answer \<and>
    Remote c \<in> set (tm_tasks m') \<and> test_button m' = Start_Test"
  using assms by (simp add: manager_defs test_button_def)

end
